(* ===== verification/Prelude.thy ===== *)
theory Prelude
  imports Main "HOL-Library.Char_ord"
begin

text \<open>
  Shared base of the development: Python exceptions as values, results as sums, the
  short-circuit combinators the guards are written with, the string operations of the standard
  library the sources use, and tables with a primary key (the SQLite tables of the program).

  Strings are lists of characters. The source only handles broker names, account numbers,
  instrument symbols and enum values; the character operations below are Python's on the ASCII
  code points.
\<close>

section \<open>Exceptions and results\<close>

datatype py_exn =
    ValueError string
  | TypeError string
  | RuntimeError string
  | KeyError string
  | AttributeError string
  | IndexError
  | ZeroDivisionError
  | OverflowError
  | InvalidOperation
  | IntegrityError
  | DatabaseError string
  | DailyInstrumentCapReached string string int int
  | SimulationDailyCapReached int int
  | PreSubmitOrderRejected string
  | OtherException string

type_synonym 'a result = "py_exn + 'a"

fun rbind :: "'a result \<Rightarrow> ('a \<Rightarrow> 'b result) \<Rightarrow> 'b result" where
  "rbind (Inl e) f = Inl e"
| "rbind (Inr x) f = f x"

lemma rbind_eq_Inr [simp]: "rbind m f = Inr y \<longleftrightarrow> (\<exists>x. m = Inr x \<and> f x = Inr y)"
  by (cases m) auto

lemma rbind_eq_Inl: "rbind m f = Inl e \<longleftrightarrow> m = Inl e \<or> (\<exists>x. m = Inr x \<and> f x = Inl e)"
  by (cases m) auto

lemma rbind_assoc: "rbind (rbind m f) g = rbind m (\<lambda>x. rbind (f x) g)"
  by (cases m) auto

text \<open>Python's \<open>and\<close> evaluates its operands from the left and stops at the first false one, so a
  later operand that would raise is not reached.\<close>

fun py_all :: "bool result list \<Rightarrow> bool result" where
  "py_all [] = Inr True"
| "py_all (c # cs) = (case c of Inl e \<Rightarrow> Inl e | Inr b \<Rightarrow> (if b then py_all cs else Inr False))"

lemma py_all_True_iff: "py_all cs = Inr True \<longleftrightarrow> (\<forall>c \<in> set cs. c = Inr True)"
  by (induction cs) (auto split: sum.splits)

lemma py_all_Cons_True [simp]: "py_all (c # cs) = Inr True \<longleftrightarrow> c = Inr True \<and> py_all cs = Inr True"
  by (auto split: sum.splits if_splits)

declare py_all.simps(2) [simp del]

lemma py_all_map_Inr: "py_all (map Inr bs) = Inr (\<forall>b \<in> set bs. b)"
  by (induction bs) (auto simp: py_all.simps(2))

text \<open>A sequence of \<open>if condition: raise ValueError(message)\<close>.\<close>

fun raise_first :: "(bool \<times> string) list \<Rightarrow> unit result" where
  "raise_first [] = Inr ()"
| "raise_first ((c, msg) # checks) = (if c then Inl (ValueError msg) else raise_first checks)"

lemma raise_first_Inr: "raise_first checks = Inr u \<longleftrightarrow> (\<forall>(c, msg) \<in> set checks. \<not> c)"
  by (induction checks rule: raise_first.induct) auto

section \<open>Strings\<close>

definition py_isspace :: "char \<Rightarrow> bool" where
  "py_isspace c \<longleftrightarrow> (let n = (of_char c :: nat) in (9 \<le> n \<and> n \<le> 13) \<or> (28 \<le> n \<and> n \<le> 32))"

definition py_lstrip :: "string \<Rightarrow> string" where
  "py_lstrip s = dropWhile py_isspace s"

definition py_strip :: "string \<Rightarrow> string" where
  "py_strip s = rev (dropWhile py_isspace (rev (dropWhile py_isspace s)))"

definition py_upper :: "string \<Rightarrow> string" where
  "py_upper = map (\<lambda>c. let n = (of_char c :: nat) in
     if 97 \<le> n \<and> n \<le> 122 then char_of (n - 32) else c)"

definition py_lower :: "string \<Rightarrow> string" where
  "py_lower = map (\<lambda>c. let n = (of_char c :: nat) in
     if 65 \<le> n \<and> n \<le> 90 then char_of (n + 32) else c)"

text \<open>\<open>bool(s.strip())\<close>: the string has a character that is not whitespace.\<close>

definition nonblank :: "string \<Rightarrow> bool" where
  "nonblank s \<longleftrightarrow> py_strip s \<noteq> []"

lemma dropWhile_fixed: "xs = [] \<or> \<not> P (hd xs) \<Longrightarrow> dropWhile P xs = xs"
  by (cases xs) auto

lemma hd_dropWhile_not: "dropWhile P xs \<noteq> [] \<Longrightarrow> \<not> P (hd (dropWhile P xs))"
  by (induction xs) auto

lemma last_dropWhile: "dropWhile P xs \<noteq> [] \<Longrightarrow> last (dropWhile P xs) = last xs"
  by (induction xs) (auto split: if_splits)

lemma hd_py_strip: "py_strip s \<noteq> [] \<Longrightarrow> \<not> py_isspace (hd (py_strip s))"
proof -
  assume ne: "py_strip s \<noteq> []"
  let ?t = "dropWhile py_isspace s"
  have "hd (py_strip s) = last (dropWhile py_isspace (rev ?t))"
    using ne by (simp add: py_strip_def hd_rev)
  also have "\<dots> = last (rev ?t)"
    using ne by (intro last_dropWhile) (simp add: py_strip_def)
  also have "\<dots> = hd ?t"
    using ne by (cases ?t) (auto simp: py_strip_def last_rev)
  finally show ?thesis
    using ne hd_dropWhile_not [of py_isspace s] by (cases ?t) (auto simp: py_strip_def)
qed

lemma last_py_strip: "py_strip s \<noteq> [] \<Longrightarrow> \<not> py_isspace (last (py_strip s))"
  using hd_dropWhile_not [of py_isspace "rev (dropWhile py_isspace s)"]
  by (simp add: py_strip_def last_rev)

lemma py_strip_fixed:
  assumes "s = [] \<or> \<not> py_isspace (hd s) \<and> \<not> py_isspace (last s)"
  shows "py_strip s = s"
proof (cases "s = []")
  case False
  with assms have "dropWhile py_isspace s = s" "dropWhile py_isspace (rev s) = rev s"
    by (auto intro!: dropWhile_fixed simp: hd_rev)
  then show ?thesis by (simp add: py_strip_def)
qed (simp add: py_strip_def)

lemma py_strip_idem [simp]: "py_strip (py_strip s) = py_strip s"
  by (rule py_strip_fixed) (auto dest: hd_py_strip last_py_strip)

lemma nonblank_strip [simp]: "nonblank (py_strip s) = nonblank s"
  by (simp add: nonblank_def)

lemma all_dropWhile: "(\<forall>c \<in> set (dropWhile P s). P c) \<longleftrightarrow> (\<forall>c \<in> set s. P c)"
  by (induction s) auto

lemma nonblank_iff: "nonblank s \<longleftrightarrow> (\<exists>c \<in> set s. \<not> py_isspace c)"
  using all_dropWhile [of py_isspace s] by (simp add: nonblank_def py_strip_def)

lemma py_strip_Nil [simp]: "py_strip [] = []"
  by (simp add: py_strip_def)

lemma nonblank_Nil [simp]: "\<not> nonblank []"
  by (simp add: nonblank_def)

definition upper_char :: "char \<Rightarrow> char" where
  "upper_char c = (let n = (of_char c :: nat) in if 97 \<le> n \<and> n \<le> 122 then char_of (n - 32) else c)"

lemma py_upper_map: "py_upper = map upper_char"
  by (simp add: py_upper_def upper_char_def [abs_def])

lemma upper_char_idem: "upper_char (upper_char c) = upper_char c"
proof (cases "97 \<le> (of_char c :: nat) \<and> (of_char c :: nat) \<le> 122")
  case True
  then have "(of_char c - 32 :: nat) mod 256 = of_char c - 32" by (intro mod_less) linarith
  moreover from True have "\<not> 97 \<le> (of_char c - 32 :: nat)" by linarith
  ultimately show ?thesis using True by (simp add: upper_char_def Let_def)
next
  case False
  then have "upper_char c = c" by (auto simp: upper_char_def Let_def)
  then show ?thesis by simp
qed

lemma isspace_upper_char: "py_isspace (upper_char c) = py_isspace c"
  by (auto simp: upper_char_def py_isspace_def Let_def)

lemma py_upper_idem [simp]: "py_upper (py_upper s) = py_upper s"
  by (simp add: py_upper_map upper_char_idem)

lemma py_strip_upper: "py_strip (py_upper s) = py_upper (py_strip s)"
  by (simp add: py_strip_def py_upper_map dropWhile_map rev_map comp_def isspace_upper_char)

lemma nonblank_upper: "nonblank (py_upper s) = nonblank s"
  unfolding nonblank_def py_strip_upper by (simp add: py_upper_map)

text \<open>\<open>sep.join(parts)\<close>, and \<open>text.split(sep)\<close> for a separator of one character.\<close>

fun join_text :: "string \<Rightarrow> string list \<Rightarrow> string" where
  "join_text sep [] = []"
| "join_text sep [s] = s"
| "join_text sep (s # t # ts) = s @ sep @ join_text sep (t # ts)"

fun split_text :: "char \<Rightarrow> string \<Rightarrow> string list" where
  "split_text sep [] = [[]]"
| "split_text sep (c # cs) =
     (if c = sep then [] # split_text sep cs
      else (case split_text sep cs of [] \<Rightarrow> [[c]] | p # ps \<Rightarrow> (c # p) # ps))"

lemma split_text_nonempty [simp]: "split_text sep s \<noteq> []"
  by (induction s) (auto split: list.splits)

lemma split_text_append: "sep \<notin> set s \<Longrightarrow> split_text sep (s @ sep # t) = s # split_text sep t"
  by (induction s) (auto split: list.splits)

lemma split_text_single: "sep \<notin> set s \<Longrightarrow> split_text sep s = [s]"
  by (induction s) auto

lemma split_join: "ps \<noteq> [] \<Longrightarrow> \<forall>p \<in> set ps. sep \<notin> set p \<Longrightarrow> split_text sep (join_text [sep] ps) = ps"
  by (induction "[sep]" ps rule: join_text.induct) (auto simp: split_text_single split_text_append)

section \<open>Options\<close>

text \<open>Python's \<open>a or b\<close> on an optional string: \<open>None\<close> and the empty string are falsy.\<close>

definition truthy_text :: "string option \<Rightarrow> bool" where
  "truthy_text x \<longleftrightarrow> (case x of None \<Rightarrow> False | Some s \<Rightarrow> s \<noteq> [])"

definition text_or :: "string option \<Rightarrow> string option \<Rightarrow> string option" where
  "text_or a b = (if truthy_text a then a else b)"

lemma truthy_text_simps [simp]:
  "\<not> truthy_text None" "truthy_text (Some s) \<longleftrightarrow> s \<noteq> []"
  by (auto simp: truthy_text_def)

lemma text_or_None [simp]: "text_or None b = b"
  by (simp add: text_or_def)

section \<open>Tables with a primary key\<close>

text \<open>
  A table is its list of rows in insertion order. \<open>key\<close> is the primary-key column; SQLite
  refuses a second row with the same key, so every table of the program is \<open>key_unique\<close>.
\<close>

definition key_unique :: "('r \<Rightarrow> 'k) \<Rightarrow> 'r list \<Rightarrow> bool" where
  "key_unique key rows \<longleftrightarrow> distinct (map key rows)"

definition sel :: "('r \<Rightarrow> 'k) \<Rightarrow> 'k \<Rightarrow> 'r list \<Rightarrow> 'r option" where
  "sel key k rows = find (\<lambda>r. key r = k) rows"

text \<open>\<open>UPDATE ... WHERE key = k AND p\<close>: the new table and the row count.\<close>

definition upd_where :: "('r \<Rightarrow> bool) \<Rightarrow> ('r \<Rightarrow> 'r) \<Rightarrow> 'r list \<Rightarrow> 'r list" where
  "upd_where p f rows = map (\<lambda>r. if p r then f r else r) rows"

definition rowcount :: "('r \<Rightarrow> bool) \<Rightarrow> 'r list \<Rightarrow> nat" where
  "rowcount p rows = length (filter p rows)"

lemma sel_Nil [simp]: "sel key k [] = None"
  by (simp add: sel_def)

lemma sel_Cons [simp]: "sel key k (r # rows) = (if key r = k then Some r else sel key k rows)"
  by (simp add: sel_def)

lemma sel_append: "sel key k (xs @ ys) = (case sel key k xs of None \<Rightarrow> sel key k ys | Some r \<Rightarrow> Some r)"
  by (induction xs) auto

lemma sel_None_iff: "sel key k rows = None \<longleftrightarrow> k \<notin> key ` set rows"
  by (induction rows) auto

lemma sel_SomeD: "sel key k rows = Some r \<Longrightarrow> r \<in> set rows \<and> key r = k"
  by (induction rows) (auto split: if_splits)

lemma sel_eq_Some_iff: "key_unique key rows \<Longrightarrow> sel key k rows = Some r \<longleftrightarrow> r \<in> set rows \<and> key r = k"
  by (induction rows) (auto simp: key_unique_def image_iff)

lemma key_unique_Nil [simp]: "key_unique key []"
  by (simp add: key_unique_def)

lemma key_unique_snoc: "key_unique key (rows @ [r]) \<longleftrightarrow> key_unique key rows \<and> sel key (key r) rows = None"
  by (auto simp: key_unique_def sel_None_iff)

lemma key_unique_filter: "key_unique key rows \<Longrightarrow> key_unique key (filter p rows)"
  by (auto simp: key_unique_def distinct_map inj_on_filter_key_eq intro: inj_on_subset)

lemma map_upd_where: "(\<And>r. g (f r) = g r) \<Longrightarrow> map g (upd_where p f rows) = map g rows"
  by (simp add: upd_where_def)

lemma key_unique_upd_where:
  "(\<And>r. key (f r) = key r) \<Longrightarrow> key_unique key (upd_where p f rows) = key_unique key rows"
  by (simp add: key_unique_def map_upd_where)

lemma sel_upd_where:
  assumes "\<And>r. key (f r) = key r"
  shows "sel key k (upd_where p f rows) =
    map_option (\<lambda>r. if p r then f r else r) (sel key k rows)"
  using assms by (induction rows) (auto simp: upd_where_def)

lemma length_upd_where [simp]: "length (upd_where p f rows) = length rows"
  by (simp add: upd_where_def)

lemma rowcount_key_le_1:
  assumes "key_unique key rows" "\<And>r. p r \<Longrightarrow> key r = k"
  shows "rowcount p rows = (case sel key k rows of Some r \<Rightarrow> if p r then 1 else 0 | None \<Rightarrow> 0)"
  using assms
proof (induction rows)
  case (Cons r rows)
  show ?case
  proof (cases "key r = k")
    case True
    with Cons.prems have "filter p rows = []"
      by (auto simp: key_unique_def filter_empty_conv image_iff)
    with True show ?thesis by (simp add: rowcount_def)
  next
    case False
    with Cons show ?thesis by (auto simp: rowcount_def key_unique_def)
  qed
qed (simp add: rowcount_def)

lemma rowcount_pos_iff: "0 < rowcount p rows \<longleftrightarrow> (\<exists>r \<in> set rows. p r)"
  by (induction rows) (auto simp: rowcount_def)

end
