(* ===== verification/Rounding.thy ===== *)
theory Rounding
  imports Prelude "HOL-Library.Log_Nat"
begin

text \<open>
  Correct rounding of a rational number to a fixed number of significant digits, ties to even.
  Base 2 with 53 digits and least exponent -1074 is the rounding of every operation on a Python
  \<open>float\<close> (IEEE 754 binary64); base 10 with 28 digits is the rounding of the default
  \<open>decimal\<close> context. Both arithmetics of the program are instances of \<open>round_sig\<close>, so
  monotonicity, sign and error bounds are proved once, here.
\<close>

section \<open>Rounding to an integer, ties to even\<close>

definition round_half_even :: "rat \<Rightarrow> int" where
  "round_half_even x =
     (let f = \<lfloor>x\<rfloor>; r = x - of_int f in
      if r < 1/2 then f else if 1/2 < r then f + 1 else if even f then f else f + 1)"

lemma round_half_even_of_int [simp]: "round_half_even (of_int n) = n"
  by (simp add: round_half_even_def)

lemma round_half_even_0 [simp]: "round_half_even 0 = 0"
  using round_half_even_of_int [of 0] by simp

lemma round_half_even_ge_floor: "\<lfloor>x\<rfloor> \<le> round_half_even x"
  by (simp add: round_half_even_def Let_def)

lemma round_half_even_le_floor: "round_half_even x \<le> \<lfloor>x\<rfloor> + 1"
  by (simp add: round_half_even_def Let_def)

lemma round_half_even_mono: "x \<le> y \<Longrightarrow> round_half_even x \<le> round_half_even y"
proof -
  assume le: "x \<le> y"
  show ?thesis
  proof (cases "\<lfloor>x\<rfloor> = \<lfloor>y\<rfloor>")
    case True
    with le show ?thesis by (auto simp: round_half_even_def Let_def)
  next
    case False
    with le have "\<lfloor>x\<rfloor> + 1 \<le> \<lfloor>y\<rfloor>" using floor_mono [OF le] by linarith
    then show ?thesis
      using round_half_even_le_floor [of x] round_half_even_ge_floor [of y] by linarith
  qed
qed

lemma round_half_even_error: "\<bar>of_int (round_half_even x) - x\<bar> \<le> 1/2"
proof -
  have "of_int \<lfloor>x\<rfloor> \<le> x" "x < of_int \<lfloor>x\<rfloor> + 1" by linarith+
  then show ?thesis by (simp add: round_half_even_def Let_def abs_if field_simps del: of_int_floor_le)
qed

lemma round_half_even_minus: "round_half_even (- x) = - round_half_even x"
proof (cases "x = of_int \<lfloor>x\<rfloor>")
  case True
  then show ?thesis by (metis of_int_minus round_half_even_of_int)
next
  case False
  have "of_int \<lfloor>x\<rfloor> \<le> x" "x < of_int \<lfloor>x\<rfloor> + 1" by linarith+
  with False have lt: "of_int \<lfloor>x\<rfloor> < x" "x < of_int \<lfloor>x\<rfloor> + 1" by linarith+
  have f: "\<lfloor>- x\<rfloor> = - \<lfloor>x\<rfloor> - 1"
    by (rule floor_unique) (use lt in simp_all)
  show ?thesis
    by (auto simp: round_half_even_def Let_def f)
qed

lemma round_half_even_le_of_int: "x \<le> of_int n \<Longrightarrow> round_half_even x \<le> n"
  using round_half_even_mono [of x "of_int n"] by simp

lemma round_half_even_ge_of_int: "of_int n \<le> x \<Longrightarrow> n \<le> round_half_even x"
  using round_half_even_mono [of "of_int n" x] by simp

lemma round_half_even_eqI: "\<bar>q - of_int m\<bar> < 1/2 \<Longrightarrow> round_half_even q = m"
proof -
  assume h: "\<bar>q - of_int m\<bar> < 1/2"
  have "\<bar>of_int (round_half_even q) - q\<bar> \<le> 1/2" by (rule round_half_even_error)
  with h have "\<bar>of_int (round_half_even q) - of_int m :: rat\<bar> < 1" by linarith
  then have "\<bar>of_int (round_half_even q - m) :: rat\<bar> < of_int 1" by simp
  then have "\<bar>round_half_even q - m\<bar> < 1" by (metis of_int_abs of_int_less_iff)
  then show ?thesis by simp
qed

section \<open>The exponent of a positive rational\<close>

text \<open>\<open>ilog b q\<close> is the floor of the logarithm: \<open>b\<^sup>e \<le> q < b\<^sup>e\<^sup>+\<^sup>1\<close>. It is computed from the digit
  counts of the numerator and the denominator, which leave two candidates.\<close>

definition ilog :: "nat \<Rightarrow> rat \<Rightarrow> int" where
  "ilog b q =
     (case quotient_of q of (n, d) \<Rightarrow>
        let e = int (floorlog b (nat n)) - int (floorlog b (nat d)) in
        if of_nat b powi e \<le> q then e else e - 1)"

lemma floorlog_between:
  assumes "1 < b" "0 < n"
  shows "(of_nat b :: rat) powi (int (floorlog b n) - 1) \<le> of_nat n"
    and "(of_nat n :: rat) < of_nat b powi int (floorlog b n)"
proof -
  note bd = floorlog_bounds [OF assms(2,1)]
  have fl: "0 < floorlog b n" using assms by (simp add: floorlog_def)
  have "(of_nat b :: rat) powi (int (floorlog b n) - 1) = of_nat (b ^ (floorlog b n - 1))"
    using fl by (simp add: power_int_def nat_diff_distrib)
  then show "(of_nat b :: rat) powi (int (floorlog b n) - 1) \<le> of_nat n"
    using bd by (metis of_nat_le_iff)
  have "(of_nat b :: rat) powi int (floorlog b n) = of_nat (b ^ floorlog b n)"
    by simp
  then show "(of_nat n :: rat) < of_nat b powi int (floorlog b n)"
    using bd by (metis of_nat_less_iff)
qed

lemma ilog_bounds:
  assumes b: "1 < b" and q: "0 < q"
  shows "of_nat b powi (ilog b q) \<le> q" and "q < of_nat b powi (ilog b q + 1)"
proof -
  obtain n d where nd: "quotient_of q = (n, d)" by force
  have d: "0 < d" using quotient_of_denom_pos [OF nd] .
  have qe: "q = of_int n / of_int d" using quotient_of_div [OF nd] .
  with q d have n: "0 < n" by (simp add: zero_less_divide_iff)
  define fn fd where "fn = int (floorlog b (nat n))" and "fd = int (floorlog b (nat d))"
  let ?B = "of_nat b :: rat"
  have B: "1 < ?B" using b by simp
  have N: "?B powi (fn - 1) \<le> of_int n" "of_int n < ?B powi fn"
    using floorlog_between [of b "nat n"] b n by (simp_all add: fn_def)
  have D: "?B powi (fd - 1) \<le> of_int d" "of_int d < ?B powi fd"
    using floorlog_between [of b "nat d"] b d by (simp_all add: fd_def)
  have up: "q < ?B powi (fn - fd + 1)"
  proof -
    have "q < ?B powi fn / of_int d" using N d by (simp add: qe divide_strict_right_mono)
    also have "\<dots> \<le> ?B powi fn / ?B powi (fd - 1)"
      using D d B by (intro divide_left_mono) auto
    also have "\<dots> = ?B powi (fn - fd + 1)"
      using B by (simp add: power_int_diff [symmetric] algebra_simps)
    finally show ?thesis .
  qed
  have lo: "?B powi (fn - fd - 1) \<le> q"
  proof -
    have "?B powi (fn - fd - 1) = ?B powi (fn - 1) / ?B powi fd"
      using B by (simp add: power_int_diff [symmetric] algebra_simps)
    also have "\<dots> \<le> ?B powi (fn - 1) / of_int d"
      using D d B by (intro divide_left_mono) auto
    also have "\<dots> \<le> q" using N d by (simp add: qe divide_right_mono)
    finally show ?thesis .
  qed
  have il: "ilog b q = (if ?B powi (fn - fd) \<le> q then fn - fd else fn - fd - 1)"
    by (simp add: ilog_def nd fn_def fd_def Let_def)
  show "?B powi (ilog b q) \<le> q" using lo by (simp add: il)
  show "q < ?B powi (ilog b q + 1)" using up by (auto simp: il)
qed

lemma ilog_mono:
  assumes b: "1 < b" and q: "0 < q" "q \<le> r"
  shows "ilog b q \<le> ilog b r"
proof (rule ccontr)
  assume "\<not> ?thesis"
  then have "ilog b r + 1 \<le> ilog b q" by simp
  then have "(of_nat b :: rat) powi (ilog b r + 1) \<le> of_nat b powi (ilog b q)"
    using b by (intro power_int_increasing) auto
  with ilog_bounds [OF b, of r] ilog_bounds [OF b q(1)] q show False by linarith
qed

lemma ilog_unique:
  assumes b: "1 < b" and q: "of_nat b powi e \<le> q" "q < of_nat b powi (e + 1)"
  shows "ilog b q = e"
proof -
  have "0 < (of_nat b :: rat) powi e" using b by simp
  with q have q0: "0 < q" by linarith
  have le: "x \<le> y" if "(of_nat b :: rat) powi x < of_nat b powi (y + 1)" for x y
  proof (rule ccontr)
    assume "\<not> ?thesis"
    then have "(of_nat b :: rat) powi (y + 1) \<le> of_nat b powi x"
      using b by (intro power_int_increasing) auto
    with that show False by simp
  qed
  have "ilog b q \<le> e" using ilog_bounds [OF b q0] q by (intro le) linarith
  moreover have "e \<le> ilog b q" using ilog_bounds [OF b q0] q by (intro le) linarith
  ultimately show ?thesis by simp
qed

section \<open>Rounding to significant digits\<close>

definition quantum :: "nat \<Rightarrow> nat \<Rightarrow> int \<Rightarrow> rat \<Rightarrow> int" where
  "quantum b p emin q = max (ilog b \<bar>q\<bar> - int p + 1) emin"

definition round_sig :: "nat \<Rightarrow> nat \<Rightarrow> int \<Rightarrow> rat \<Rightarrow> rat" where
  "round_sig b p emin q =
     (if q = 0 then 0
      else let u = of_nat b powi (quantum b p emin q) in of_int (round_half_even (q / u)) * u)"

lemma round_sig_0 [simp]: "round_sig b p emin 0 = 0"
  by (simp add: round_sig_def)

lemma round_sig_minus: "round_sig b p emin (- q) = - round_sig b p emin q"
  by (simp add: round_sig_def quantum_def round_half_even_minus Let_def)

lemma round_sig_error:
  assumes "1 < b" "q \<noteq> 0"
  shows "\<bar>round_sig b p emin q - q\<bar> \<le> of_nat b powi (quantum b p emin q) / 2"
proof -
  let ?u = "of_nat b powi (quantum b p emin q) :: rat"
  have u: "0 < ?u" using assms by simp
  have "\<bar>round_sig b p emin q - q\<bar> = \<bar>of_int (round_half_even (q / ?u)) - q / ?u\<bar> * ?u"
    using u assms by (simp add: round_sig_def Let_def abs_mult_pos left_diff_distrib)
  also have "\<dots> \<le> 1/2 * ?u"
    using round_half_even_error u by (intro mult_right_mono) auto
  finally show ?thesis by simp
qed

lemma round_sig_nonneg: "0 \<le> q \<Longrightarrow> 0 \<le> round_sig b p emin q"
  using round_half_even_ge_of_int [of 0]
  by (auto simp: round_sig_def Let_def intro!: mult_nonneg_nonneg)

lemma powi_split:
  assumes "1 < b" "k \<le> e"
  shows "(of_nat b :: rat) powi e = of_int (int b ^ nat (e - k)) * of_nat b powi k"
proof -
  have "(of_nat b :: rat) powi e = of_nat b powi (e - k) * of_nat b powi k"
    using assms by (simp add: power_int_add [symmetric])
  also have "(of_nat b :: rat) powi (e - k) = of_int (int b ^ nat (e - k))"
    using assms by (simp add: power_int_def)
  finally show ?thesis .
qed

lemma round_sig_le_power:
  assumes b: "1 < b" and q: "0 < q" "q \<le> of_nat b powi e" and k: "quantum b p emin q \<le> e"
  shows "round_sig b p emin q \<le> of_nat b powi e"
proof -
  let ?k = "quantum b p emin q" and ?B = "of_nat b :: rat"
  have u: "0 < ?B powi ?k" using b by simp
  note s = powi_split [OF b k]
  have "q / ?B powi ?k \<le> of_int (int b ^ nat (e - ?k))"
    using q(2) u by (simp add: s pos_divide_le_eq)
  then have "round_half_even (q / ?B powi ?k) \<le> int b ^ nat (e - ?k)"
    by (rule round_half_even_le_of_int)
  then have "of_int (round_half_even (q / ?B powi ?k)) \<le> (of_int (int b ^ nat (e - ?k)) :: rat)"
    by (simp only: of_int_le_iff)
  then have "of_int (round_half_even (q / ?B powi ?k)) * ?B powi ?k \<le> ?B powi e"
    using u unfolding s by (intro mult_right_mono) auto
  then show ?thesis using q by (simp add: round_sig_def Let_def)
qed

lemma round_sig_ge_power:
  assumes b: "1 < b" and q: "of_nat b powi e \<le> q" and k: "quantum b p emin q \<le> e"
  shows "of_nat b powi e \<le> round_sig b p emin q"
proof -
  let ?k = "quantum b p emin q" and ?B = "of_nat b :: rat"
  have u: "0 < ?B powi ?k" using b by simp
  have "0 < ?B powi e" using b by simp
  with q have q0: "0 < q" by linarith
  note s = powi_split [OF b k]
  have "of_int (int b ^ nat (e - ?k)) \<le> q / ?B powi ?k"
    using q u by (simp add: s pos_le_divide_eq)
  then have "int b ^ nat (e - ?k) \<le> round_half_even (q / ?B powi ?k)"
    by (rule round_half_even_ge_of_int)
  then have "(of_int (int b ^ nat (e - ?k)) :: rat) \<le> of_int (round_half_even (q / ?B powi ?k))"
    by (simp only: of_int_le_iff)
  then have "?B powi e \<le> of_int (round_half_even (q / ?B powi ?k)) * ?B powi ?k"
    using u unfolding s by (intro mult_right_mono) auto
  then show ?thesis using q0 by (simp add: round_sig_def Let_def)
qed

lemma round_sig_mono_pos:
  assumes b: "1 < b" and p: "0 < p" and q: "0 < q" "q \<le> r"
  shows "round_sig b p emin q \<le> round_sig b p emin r"
proof -
  let ?kq = "quantum b p emin q" and ?kr = "quantum b p emin r" and ?B = "of_nat b :: rat"
  have il: "ilog b q \<le> ilog b r" using ilog_mono [OF b q] .
  have kle: "?kq \<le> ?kr" using il q by (simp add: quantum_def)
  show ?thesis
  proof (cases "?kq = ?kr")
    case True
    have u: "0 < ?B powi ?kr" using b by simp
    then have "round_half_even (q / ?B powi ?kr) \<le> round_half_even (r / ?B powi ?kr)"
      using q by (intro round_half_even_mono divide_right_mono) auto
    then have "of_int (round_half_even (q / ?B powi ?kr)) * ?B powi ?kr
        \<le> of_int (round_half_even (r / ?B powi ?kr)) * ?B powi ?kr"
      using u by (intro mult_right_mono) (simp_all only: of_int_le_iff less_imp_le)
    then show ?thesis using q True by (simp add: round_sig_def Let_def)
  next
    case False
    with kle have lt: "?kq < ?kr" by simp
    with q have kr: "?kr = ilog b r - int p + 1" and e: "ilog b q < ilog b r"
      by (auto simp: quantum_def)
    have "q \<le> ?B powi (ilog b q + 1)" using ilog_bounds [OF b q(1)] by simp
    also have "\<dots> \<le> ?B powi (ilog b r)" using b e by (intro power_int_increasing) auto
    finally have "round_sig b p emin q \<le> ?B powi (ilog b r)"
      using lt kr p by (intro round_sig_le_power [OF b q(1)]) auto
    also have "\<dots> \<le> round_sig b p emin r"
      using ilog_bounds [OF b, of r] q kr p by (intro round_sig_ge_power [OF b]) auto
    finally show ?thesis .
  qed
qed

theorem round_sig_mono:
  assumes "1 < b" "0 < p" "q \<le> r"
  shows "round_sig b p emin q \<le> round_sig b p emin r"
proof -
  consider "0 < q" | "q \<le> 0" "0 \<le> r" | "r < 0" by linarith
  then show ?thesis
  proof cases
    case 1 with assms show ?thesis by (simp add: round_sig_mono_pos)
  next
    case 2
    have "round_sig b p emin q \<le> 0"
      using round_sig_nonneg [of "- q" b p emin] 2 by (simp add: round_sig_minus)
    also have "0 \<le> round_sig b p emin r" using 2 by (simp add: round_sig_nonneg)
    finally show ?thesis .
  next
    case 3
    with assms have "round_sig b p emin (- r) \<le> round_sig b p emin (- q)"
      by (intro round_sig_mono_pos) auto
    then show ?thesis by (simp add: round_sig_minus)
  qed
qed

text \<open>A number with at most \<open>p\<close> digits is not changed.\<close>

lemma round_sig_exact:
  assumes b: "1 < b" and q: "q = of_int m * of_nat b powi k"
    and m: "\<bar>m\<bar> < int b ^ p" and k: "emin \<le> k"
  shows "round_sig b p emin q = q"
proof (cases "m = 0")
  case False
  let ?B = "of_nat b :: rat"
  have u: "0 < ?B powi j" for j using b by simp
  with q b False have q0: "q \<noteq> 0" by simp
  have aq: "\<bar>q\<bar> = of_int \<bar>m\<bar> * ?B powi k" using u [of k] by (simp add: q abs_mult)
  have "\<bar>q\<bar> < ?B powi (int p + k)"
  proof -
    have "(of_int \<bar>m\<bar> :: rat) < of_int (int b ^ p)" using m by (simp only: of_int_less_iff)
    then have "\<bar>q\<bar> < of_int (int b ^ p) * ?B powi k"
      unfolding aq using u [of k] by (intro mult_strict_right_mono) auto
    also have "\<dots> = ?B powi (int p + k)" using b by (simp add: power_int_add)
    finally show ?thesis .
  qed
  moreover have "?B powi (ilog b \<bar>q\<bar>) \<le> \<bar>q\<bar>" using ilog_bounds [OF b, of "\<bar>q\<bar>"] q0 by simp
  ultimately have lt: "?B powi (ilog b \<bar>q\<bar>) < ?B powi (int p + k)" by simp
  have "ilog b \<bar>q\<bar> < int p + k"
  proof (rule ccontr)
    assume "\<not> ?thesis"
    then have "?B powi (int p + k) \<le> ?B powi (ilog b \<bar>q\<bar>)"
      using b by (intro power_int_increasing) auto
    with lt show False by simp
  qed
  with k have kk: "quantum b p emin q \<le> k" by (simp add: quantum_def)
  define j where "j = quantum b p emin q"
  with kk have jk: "j \<le> k" by simp
  have qj: "q = of_int (m * int b ^ nat (k - j)) * ?B powi j"
    unfolding q powi_split [OF b jk] by simp
  then have "q / ?B powi j = of_int (m * int b ^ nat (k - j))"
    using b by (simp del: of_int_mult of_int_power)
  then have "round_half_even (q / ?B powi j) = m * int b ^ nat (k - j)"
    by (simp only: round_half_even_of_int)
  then have "of_int (round_half_even (q / ?B powi j)) * ?B powi j = q"
    using qj by simp
  then show ?thesis using q0 by (simp add: round_sig_def Let_def j_def)
qed (simp add: q)

text \<open>Rounding is idempotent: a rounded number has at most \<open>p\<close> digits, or is a power of the base.\<close>

lemma round_digits_bound:
  assumes b: "1 < b" and q: "q \<noteq> 0" and k: "k = quantum b p emin q"
  shows "\<bar>round_half_even (q / of_nat b powi k)\<bar> \<le> int b ^ p"
proof -
  let ?B = "of_nat b :: rat"
  have u: "0 < ?B powi j" for j using b by simp
  have "\<bar>q\<bar> < ?B powi (ilog b \<bar>q\<bar> + 1)" using ilog_bounds [OF b, of "\<bar>q\<bar>"] q by simp
  also have "\<dots> \<le> ?B powi (int p + k)"
    using b by (intro power_int_increasing) (auto simp: k quantum_def)
  also have "\<dots> = of_int (int b ^ p) * ?B powi k" using b by (simp add: power_int_add)
  finally have "\<bar>q / ?B powi k\<bar> \<le> of_int (int b ^ p)"
    using u [of k] by (simp add: pos_divide_le_eq)
  then have "q / ?B powi k \<le> of_int (int b ^ p)" "of_int (- (int b ^ p)) \<le> q / ?B powi k"
    using abs_le_iff [of "q / ?B powi k"] minus_le_iff [of "q / ?B powi k"] by (metis, metis of_int_minus)
  then show ?thesis
    using round_half_even_le_of_int round_half_even_ge_of_int by (auto simp only: abs_le_iff minus_le_iff)
qed

lemma round_sig_idem:
  assumes b: "1 < b" and p: "0 < p"
  shows "round_sig b p emin (round_sig b p emin q) = round_sig b p emin q"
proof (cases "q = 0")
  case False
  define k where "k = quantum b p emin q"
  define m where "m = round_half_even (q / of_nat b powi k)"
  have r: "round_sig b p emin q = of_int m * of_nat b powi k"
    using False by (simp add: round_sig_def Let_def k_def m_def)
  have k0: "emin \<le> k" by (simp add: k_def quantum_def)
  have "\<bar>m\<bar> \<le> int b ^ p" unfolding m_def by (rule round_digits_bound [OF b False k_def])
  then consider "\<bar>m\<bar> < int b ^ p" | "\<bar>m\<bar> = int b ^ p" by linarith
  then show ?thesis
  proof cases
    case 1
    then show ?thesis unfolding r by (rule round_sig_exact [OF b refl _ k0])
  next
    case 2
    have "of_int m * of_nat b powi k = of_int (sgn m * int b ^ (p - 1)) * (of_nat b :: rat) powi (k + 1)"
    proof -
      have "m = sgn m * \<bar>m\<bar>" by (simp add: sgn_mult_abs)
      also have "\<dots> = sgn m * int b ^ (p - 1) * int b"
        using p 2 by (simp add: power_eq_if)
      finally have "of_int m = (of_int (sgn m * int b ^ (p - 1)) :: rat) * of_nat b"
        by (metis of_int_mult of_int_of_nat_eq)
      then show ?thesis using b by (simp add: power_int_add)
    qed
    moreover have "\<bar>sgn m * int b ^ (p - 1)\<bar> < int b ^ p"
      using b p by (auto simp: abs_mult sgn_if power_strict_increasing_iff)
    ultimately show ?thesis unfolding r
      by (metis (no_types, lifting) round_sig_exact b k0 add_increasing2 zero_le_one)
  qed
qed simp

section \<open>Rounding gives the nearest representable number\<close>

lemma round_half_even_nearest: "\<bar>of_int (round_half_even x) - x\<bar> \<le> \<bar>of_int k - x\<bar>"
proof (cases "k = round_half_even x")
  case False
  then have "1 \<le> \<bar>of_int k - of_int (round_half_even x) :: rat\<bar>"
    by (metis of_int_1_le_iff of_int_abs of_int_diff right_minus_eq zero_less_abs_iff
        int_one_le_iff_zero_less)
  then show ?thesis using round_half_even_error [of x] by linarith
qed simp

lemma round_sig_fixed_multiple:
  assumes b: "1 < b" and d: "round_sig b p emin d = d" and k: "d = 0 \<or> k \<le> quantum b p emin d"
  shows "\<exists>m. d = of_int m * of_nat b powi k"
proof (cases "d = 0")
  case False
  let ?q = "quantum b p emin d"
  have "d = of_int (round_half_even (d / of_nat b powi ?q)) * of_nat b powi ?q"
    using d False by (simp add: round_sig_def Let_def)
  also have "\<dots> = of_int (round_half_even (d / of_nat b powi ?q) * int b ^ nat (?q - k)) * of_nat b powi k"
    using k False by (subst (2) powi_split [OF b, of k]) (simp_all add: mult.assoc)
  finally show ?thesis by blast
qed (auto intro: exI [of _ 0])

lemma round_sig_nearest_multiple:
  assumes b: "1 < b" and q: "q \<noteq> 0" and d: "d = of_int m * of_nat b powi (quantum b p emin q)"
  shows "\<bar>round_sig b p emin q - q\<bar> \<le> \<bar>d - q\<bar>"
proof -
  let ?u = "of_nat b powi (quantum b p emin q) :: rat"
  have u: "0 < ?u" using b by simp
  have "\<bar>of_int (round_half_even (q / ?u)) - q / ?u\<bar> * ?u \<le> \<bar>of_int m - q / ?u\<bar> * ?u"
    using u round_half_even_nearest by (intro mult_right_mono) auto
  moreover have "\<bar>of_int n - q / ?u\<bar> * ?u = \<bar>of_int n * ?u - q\<bar>" for n
  proof -
    have "\<bar>of_int n - q / ?u\<bar> * ?u = \<bar>(of_int n - q / ?u) * ?u\<bar>" using u by (simp add: abs_mult)
    also have "(of_int n - q / ?u) * ?u = of_int n * ?u - q" using u b by (simp add: left_diff_distrib)
    finally show ?thesis .
  qed
  ultimately show ?thesis using q d by (simp add: round_sig_def Let_def)
qed

lemma round_sig_nearest_pos:
  assumes b: "1 < b" and p: "0 < p" and q: "0 < q" and d: "round_sig b p emin d = d"
  shows "\<bar>round_sig b p emin q - q\<bar> \<le> \<bar>d - q\<bar>"
proof -
  let ?k = "quantum b p emin q" and ?e = "ilog b q"
  have e: "of_nat b powi ?e \<le> q" using ilog_bounds [OF b q] by blast
  consider (low) "?k \<noteq> emin" "d < of_nat b powi ?e" | (multiple) "d = 0 \<or> ?k \<le> quantum b p emin d"
  proof (cases "?k = emin \<or> d = 0")
    case True
    then show ?thesis by (intro multiple) (auto simp: quantum_def)
  next
    case False
    show ?thesis
    proof (cases "d < of_nat b powi ?e")
      case True
      with False show ?thesis by (intro low) auto
    next
      case ge: False
      have "ilog b (of_nat b powi ?e) = ?e" using b by (intro ilog_unique) (auto intro!: power_int_strict_increasing)
      then have "?e \<le> ilog b d" using ilog_mono [OF b, of "of_nat b powi ?e" d] ge b by simp
      moreover have "0 < d" using ge b by (simp add: not_less less_le_trans [of 0 "of_nat b powi ?e"])
      ultimately show ?thesis using q by (intro multiple) (auto simp: quantum_def)
    qed
  qed
  then show ?thesis
  proof cases
    case low
    then have "?k \<le> ?e" using p q by (auto simp: quantum_def max_def split: if_splits)
    from powi_split [OF b this] have "\<bar>round_sig b p emin q - q\<bar> \<le> \<bar>of_nat b powi ?e - q\<bar>"
      using q by (intro round_sig_nearest_multiple [OF b, of q _ "int b ^ nat (?e - ?k)"]) auto
    then show ?thesis using e low(2) by simp
  next
    case multiple
    from round_sig_fixed_multiple [OF b d this] show ?thesis
      using round_sig_nearest_multiple [OF b] q by force
  qed
qed

lemma round_sig_nearest:
  assumes b: "1 < b" and p: "0 < p" and d: "round_sig b p emin d = d"
  shows "\<bar>round_sig b p emin q - q\<bar> \<le> \<bar>d - q\<bar>"
proof (cases q "0 :: rat" rule: linorder_cases)
  case less
  then show ?thesis
    using round_sig_nearest_pos [OF b p, of "- q" emin "- d"] d
    by (simp add: round_sig_minus abs_minus_commute)
next
  case greater
  then show ?thesis by (rule round_sig_nearest_pos [OF b p _ d])
qed simp

end
