(* ===== verification/Py_Float.thy ===== *)
theory Py_Float
  imports Rounding
begin

text \<open>
  Python's \<open>float\<close>: IEEE 754 binary64 with round-to-nearest, ties to even. A finite value is
  the rational number it denotes; the sign of zero is not represented (no operation of the
  modelled code tells \<open>0.0\<close> from \<open>-0.0\<close>: division by either raises). The order is Python's:
  every comparison with a NaN is false, so \<open>pyfloat\<close> is an instance of \<open>ord\<close> only.
\<close>

datatype pyfloat = Fin rat | PInf | NInf | NaN

definition fl :: "rat \<Rightarrow> pyfloat" where
  "fl q = (let v = round_sig 2 53 (-1074) q in
     if 2 ^ 1024 \<le> v then PInf else if v \<le> - (2 ^ 1024) then NInf else Fin v)"

fun is_finite :: "pyfloat \<Rightarrow> bool" where
  "is_finite (Fin q) = True"
| "is_finite PInf = False"
| "is_finite NInf = False"
| "is_finite NaN = False"

instantiation pyfloat :: ord
begin

fun less_eq_pyfloat :: "pyfloat \<Rightarrow> pyfloat \<Rightarrow> bool" where
  "less_eq_pyfloat NaN y = False"
| "less_eq_pyfloat x NaN = False"
| "less_eq_pyfloat NInf y = True"
| "less_eq_pyfloat x PInf = True"
| "less_eq_pyfloat (Fin a) (Fin b) = (a \<le> b)"
| "less_eq_pyfloat x y = False"

fun less_pyfloat :: "pyfloat \<Rightarrow> pyfloat \<Rightarrow> bool" where
  "less_pyfloat NaN y = False"
| "less_pyfloat x NaN = False"
| "less_pyfloat PInf y = False"
| "less_pyfloat x NInf = False"
| "less_pyfloat (Fin a) (Fin b) = (a < b)"
| "less_pyfloat x y = True"

instance ..
end

text \<open>\<open>==\<close> on floats.\<close>

definition feq :: "pyfloat \<Rightarrow> pyfloat \<Rightarrow> bool" where
  "feq x y \<longleftrightarrow> x \<le> y \<and> y \<le> x"

instantiation pyfloat :: "{zero, one, uminus, plus, minus, times, abs}"
begin

definition zero_pyfloat :: pyfloat where "zero_pyfloat = Fin 0"
definition one_pyfloat :: pyfloat where "one_pyfloat = Fin 1"

fun uminus_pyfloat :: "pyfloat \<Rightarrow> pyfloat" where
  "uminus_pyfloat (Fin a) = Fin (- a)"
| "uminus_pyfloat PInf = NInf"
| "uminus_pyfloat NInf = PInf"
| "uminus_pyfloat NaN = NaN"

fun plus_pyfloat :: "pyfloat \<Rightarrow> pyfloat \<Rightarrow> pyfloat" where
  "plus_pyfloat (Fin a) (Fin b) = fl (a + b)"
| "plus_pyfloat NaN y = NaN"
| "plus_pyfloat x NaN = NaN"
| "plus_pyfloat PInf NInf = NaN"
| "plus_pyfloat NInf PInf = NaN"
| "plus_pyfloat PInf y = PInf"
| "plus_pyfloat NInf y = NInf"
| "plus_pyfloat x y = y"

fun abs_pyfloat :: "pyfloat \<Rightarrow> pyfloat" where
  "abs_pyfloat (Fin a) = Fin \<bar>a\<bar>"
| "abs_pyfloat PInf = PInf"
| "abs_pyfloat NInf = PInf"
| "abs_pyfloat NaN = NaN"

definition minus_pyfloat :: "pyfloat \<Rightarrow> pyfloat \<Rightarrow> pyfloat" where
  "minus_pyfloat x y = x + (- y)"

definition inf_of_sign :: "rat \<Rightarrow> pyfloat" where
  "inf_of_sign s = (if 0 < s then PInf else if s < 0 then NInf else NaN)"

fun times_pyfloat :: "pyfloat \<Rightarrow> pyfloat \<Rightarrow> pyfloat" where
  "times_pyfloat (Fin a) (Fin b) = fl (a * b)"
| "times_pyfloat NaN y = NaN"
| "times_pyfloat x NaN = NaN"
| "times_pyfloat PInf (Fin b) = inf_of_sign b"
| "times_pyfloat NInf (Fin b) = inf_of_sign (- b)"
| "times_pyfloat (Fin a) PInf = inf_of_sign a"
| "times_pyfloat (Fin a) NInf = inf_of_sign (- a)"
| "times_pyfloat PInf PInf = PInf"
| "times_pyfloat NInf NInf = PInf"
| "times_pyfloat PInf NInf = NInf"
| "times_pyfloat NInf PInf = NInf"

instance ..
end

text \<open>True division raises on a zero divisor.\<close>

fun fdiv :: "pyfloat \<Rightarrow> pyfloat \<Rightarrow> pyfloat result" where
  "fdiv x (Fin b) = (if b = 0 then Inl ZeroDivisionError else Inr
     (case x of Fin a \<Rightarrow> fl (a / b) | PInf \<Rightarrow> inf_of_sign b | NInf \<Rightarrow> inf_of_sign (- b) | NaN \<Rightarrow> NaN))"
| "fdiv x NaN = Inr NaN"
| "fdiv x y = Inr (case x of Fin a \<Rightarrow> Fin 0 | _ \<Rightarrow> NaN)"

text \<open>\<open>round(x, n)\<close> on a float: the decimal with \<open>n\<close> fractional digits nearest to the exact
  binary value, ties to even, converted back to the nearest float.\<close>

definition py_round :: "nat \<Rightarrow> pyfloat \<Rightarrow> pyfloat" where
  "py_round n x = (case x of Fin q \<Rightarrow> fl (of_int (round_half_even (q * 10 ^ n)) / 10 ^ n) | _ \<Rightarrow> x)"

text \<open>Python's two-argument \<open>max\<close> and \<open>min\<close> keep the first argument unless the second compares
  strictly beyond it.\<close>

definition py_max :: "pyfloat \<Rightarrow> pyfloat \<Rightarrow> pyfloat" where
  "py_max x y = (if x < y then y else x)"

definition py_min :: "pyfloat \<Rightarrow> pyfloat \<Rightarrow> pyfloat" where
  "py_min x y = (if y < x then y else x)"

text \<open>\<open>float(i)\<close> of a Python integer.\<close>

definition float_of_int :: "int \<Rightarrow> pyfloat result" where
  "float_of_int i = (case fl (of_int i) of Fin q \<Rightarrow> Inr (Fin q) | _ \<Rightarrow> Inl OverflowError)"

text \<open>The values a Python float can hold.\<close>

definition is_double :: "pyfloat \<Rightarrow> bool" where
  "is_double x \<longleftrightarrow> (case x of Fin q \<Rightarrow> fl q = Fin q | _ \<Rightarrow> True)"

text \<open>A NaN bound to a REAL column is stored as NULL.\<close>

definition sql_real :: "pyfloat option \<Rightarrow> pyfloat option" where
  "sql_real v = (if v = Some NaN then None else v)"

section \<open>Laws of the order\<close>

lemma pyfloat_le_refl [simp]: "x \<noteq> NaN \<Longrightarrow> x \<le> (x :: pyfloat)"
  by (cases x) auto

lemma pyfloat_less_le: "(x :: pyfloat) < y \<Longrightarrow> x \<le> y"
  by (cases x; cases y) auto

lemma pyfloat_le_trans [trans]: "(x :: pyfloat) \<le> y \<Longrightarrow> y \<le> z \<Longrightarrow> x \<le> z"
  by (cases x; cases y; cases z) auto

lemma pyfloat_less_trans [trans]: "(x :: pyfloat) < y \<Longrightarrow> y < z \<Longrightarrow> x < z"
  by (cases x; cases y; cases z) auto

lemma pyfloat_le_less_trans [trans]: "(x :: pyfloat) \<le> y \<Longrightarrow> y < z \<Longrightarrow> x < z"
  by (cases x; cases y; cases z) auto

lemma pyfloat_less_le_trans [trans]: "(x :: pyfloat) < y \<Longrightarrow> y \<le> z \<Longrightarrow> x < z"
  by (cases x; cases y; cases z) auto

lemma pyfloat_not_less: "x \<noteq> NaN \<Longrightarrow> y \<noteq> NaN \<Longrightarrow> \<not> (x :: pyfloat) < y \<longleftrightarrow> y \<le> x"
  by (cases x; cases y) auto

lemma pyfloat_not_le: "x \<noteq> NaN \<Longrightarrow> y \<noteq> NaN \<Longrightarrow> \<not> (x :: pyfloat) \<le> y \<longleftrightarrow> y < x"
  by (cases x; cases y) auto

lemma pyfloat_le_not_NaN: "(x :: pyfloat) \<le> y \<Longrightarrow> x \<noteq> NaN \<and> y \<noteq> NaN"
  by (cases x; cases y) auto

lemma pyfloat_less_irrefl [simp]: "\<not> (x :: pyfloat) < x"
  by (cases x) auto

lemma finite_not_NaN [simp]: "is_finite x \<Longrightarrow> x \<noteq> NaN"
  by auto

lemma is_finite_iff: "is_finite x \<longleftrightarrow> (\<exists>q. x = Fin q)"
  by (cases x) auto

section \<open>Rounding\<close>

lemma fl_not_NaN [simp]: "fl q \<noteq> NaN" "NaN \<noteq> fl q"
  by (auto simp: fl_def Let_def)

lemma fl_0 [simp]: "fl 0 = Fin 0"
  by (simp add: fl_def Let_def)

lemma fl_mono: "q \<le> r \<Longrightarrow> fl q \<le> fl r"
  using round_sig_mono [of 2 53 q r "-1074"] by (auto simp: fl_def Let_def)

lemma fl_nonneg: "0 \<le> q \<Longrightarrow> Fin 0 \<le> fl q"
  using fl_mono [of 0 q] by simp

lemma fl_nonpos: "q \<le> 0 \<Longrightarrow> fl q \<le> Fin 0"
  using fl_mono [of q 0] by simp

lemma is_double_fl [simp]: "is_double (fl q)"
  by (auto simp: is_double_def fl_def Let_def round_sig_idem split: pyfloat.splits)

lemma is_double_special [simp]: "is_double NaN" "is_double PInf" "is_double NInf" "is_double (Fin 0)"
  by (simp_all add: is_double_def)

lemma is_double_inf_of_sign [simp]: "is_double (inf_of_sign s)"
  by (simp add: inf_of_sign_def)

lemma is_double_plus [simp]: "is_double x \<Longrightarrow> is_double y \<Longrightarrow> is_double (x + y)"
  by (cases x; cases y) auto

lemma is_double_times [simp]: "is_double x \<Longrightarrow> is_double y \<Longrightarrow> is_double (x * y)"
  by (cases x; cases y) auto

lemma fl_uminus: "fl (- q) = - fl q"
  by (auto simp: fl_def Let_def round_sig_minus)

lemma is_double_uminus [simp]: "is_double x \<Longrightarrow> is_double (- x)"
  by (cases x) (auto simp: is_double_def fl_uminus)

lemma is_double_minus [simp]: "is_double x \<Longrightarrow> is_double y \<Longrightarrow> is_double (x - y)"
  by (simp add: minus_pyfloat_def)

text \<open>Evaluation on concrete numbers: dyadic values are exact, the others are located in their binade.\<close>

lemma fl_roundI: "round_sig 2 53 (-1074) q = v \<Longrightarrow> \<bar>v\<bar> < 2 ^ 1024 \<Longrightarrow> fl q = Fin v"
  by (auto simp: fl_def Let_def abs_less_iff)

lemma fl_dyadic: "of_int m = q * 2 ^ k \<Longrightarrow> \<bar>m\<bar> \<le> 2 ^ 53 \<Longrightarrow> k \<le> 1074 \<Longrightarrow> fl q = Fin q"
proof -
  assume m: "of_int m = q * 2 ^ k" "\<bar>m\<bar> \<le> 2 ^ 53" and k: "k \<le> 1074"
  have q: "q = of_int m * of_nat 2 powi (- int k)" using m by (simp add: power_int_minus divide_simps)
  have r: "round_sig 2 53 (-1074) q = q"
  proof (cases "\<bar>m\<bar> = 2 ^ 53")
    case True
    then have "m = 2 ^ 53 \<or> m = - (2 ^ 53)" by linarith
    then have "q = of_int (sgn m * 2 ^ 52) * of_nat 2 powi (1 - int k)"
      by (auto simp: q power_int_diff power_int_minus divide_inverse)
    then show ?thesis
      by (rule round_sig_exact [rotated]) (use k in \<open>auto simp: sgn_if\<close>)
  next
    case False
    with m k show ?thesis by (intro round_sig_exact [OF _ q]) auto
  qed
  have "\<bar>q\<bar> * 2 ^ k \<le> 2 ^ 53" using m
    by (metis abs_mult abs_numeral of_int_abs of_int_le_iff of_int_numeral of_int_power power_abs)
  moreover have "\<bar>q\<bar> * 1 \<le> \<bar>q\<bar> * 2 ^ k" by (intro mult_left_mono) auto
  ultimately have "\<bar>q\<bar> \<le> 2 ^ 53" by simp
  also have "\<dots> < 2 ^ 1024" by (rule power_strict_increasing) auto
  finally show ?thesis by (rule fl_roundI [OF r])
qed

lemma fl_numeral [simp]: "(numeral n :: int) \<le> 2 ^ 53 \<Longrightarrow> fl (numeral n) = Fin (numeral n)"
  by (rule fl_dyadic [where m = "numeral n" and k = 0]) auto

lemma fl_1 [simp]: "fl 1 = Fin 1"
  by (rule fl_dyadic [where m = 1 and k = 0]) auto

lemma fl_eval:
  assumes q: "2 ^ 52 \<le> \<bar>q\<bar> * 2 ^ s" "\<bar>q\<bar> * 2 ^ s < 2 ^ 53" and s: "s \<le> 1074"
    and near: "\<bar>q * 2 ^ s - of_int m\<bar> < 1/2"
  shows "fl q = Fin (of_int m / 2 ^ s)"
proof -
  note m = round_half_even_eqI [OF near]
  have il: "ilog 2 \<bar>q\<bar> = 52 - int s"
    by (rule ilog_unique) (use q in \<open>auto simp: power_int_diff power_int_add divide_simps\<close>)
  have q0: "q \<noteq> 0" using q by auto
  have k: "quantum 2 53 (-1074) q = - int s" using s by (simp add: quantum_def il)
  have r: "round_sig 2 53 (-1074) q = of_int m / 2 ^ s"
    using q0 by (simp add: round_sig_def k power_int_minus m [symmetric] Let_def divide_inverse)
  have "\<bar>m\<bar> \<le> 2 ^ 53"
    using round_digits_bound [OF _ q0 k [symmetric]] m by (simp add: power_int_minus divide_inverse)
  then have "\<bar>of_int m :: rat\<bar> \<le> 2 ^ 53"
    by (metis of_int_abs of_int_le_iff of_int_numeral of_int_power)
  also have "\<dots> < 2 ^ 1024 * 1" by (simp add: power_strict_increasing)
  also have "(2 ^ 1024 :: rat) * 1 \<le> 2 ^ 1024 * 2 ^ s" by (rule mult_left_mono) auto
  finally have "\<bar>of_int m / 2 ^ s :: rat\<bar> < 2 ^ 1024" by (simp add: pos_divide_less_eq)
  then show ?thesis by (rule fl_roundI [OF r])
qed

lemma finite_double_fl: "is_double (Fin q) \<Longrightarrow> fl q = Fin q"
  by (simp add: is_double_def)

section \<open>Monotone operations\<close>

lemma float_add_mono: "Fin b \<le> Fin c \<Longrightarrow> Fin a + Fin b \<le> Fin a + Fin c"
  by (auto intro: fl_mono)

lemma float_add_nonneg_ge:
  assumes "is_double x" "is_finite x" "Fin 0 \<le> y"
  shows "x \<le> x + y"
proof -
  from assms obtain a where x: "x = Fin a" "fl a = Fin a" by (auto simp: is_finite_iff is_double_def)
  show ?thesis using assms(3) fl_mono [of a "a + _"] x by (cases y) auto
qed

lemma float_diff_nonneg_le:
  assumes "is_double x" "is_finite x" "Fin 0 \<le> y"
  shows "x - y \<le> x"
proof -
  from assms obtain a where x: "x = Fin a" "fl a = Fin a" by (auto simp: is_finite_iff is_double_def)
  show ?thesis using assms(3) fl_mono [of "a - _" a] x by (cases y) (auto simp: minus_pyfloat_def)
qed

lemma float_mult_nonneg: "Fin 0 \<le> x \<Longrightarrow> Fin 0 < y \<Longrightarrow> is_finite y \<Longrightarrow> Fin 0 \<le> x * y"
  by (cases x; cases y) (auto simp: inf_of_sign_def intro: fl_nonneg)

lemma float_mult_ge:
  assumes "is_double x" "is_finite x" "Fin 0 \<le> x" "Fin 1 \<le> y" "is_finite y"
  shows "x \<le> x * y"
proof -
  from assms obtain a b where x: "x = Fin a" "fl a = Fin a" "0 \<le> a" and y: "y = Fin b" "1 \<le> b"
    by (auto simp: is_finite_iff is_double_def)
  then have "a * 1 \<le> a * b" by (intro mult_left_mono) auto
  then have "fl a \<le> fl (a * b)" by (intro fl_mono) simp
  with x y show ?thesis by simp
qed

lemma py_max_ge: "x \<noteq> NaN \<Longrightarrow> x \<le> py_max x y"
  by (cases x; cases y) (auto simp: py_max_def)

lemma py_max_ge_right: "x \<noteq> NaN \<Longrightarrow> y \<noteq> NaN \<Longrightarrow> y \<le> py_max x y"
  by (cases x; cases y) (auto simp: py_max_def)

lemma py_min_le: "x \<noteq> NaN \<Longrightarrow> py_min x y \<le> x"
  by (cases x; cases y) (auto simp: py_min_def)

lemma py_round_mono: "x \<le> y \<Longrightarrow> py_round n x \<le> py_round n y"
proof (cases x; cases y)
  fix a b assume "x \<le> y" "x = Fin a" "y = Fin b"
  then show ?thesis
    by (auto simp: py_round_def intro!: fl_mono divide_right_mono round_half_even_mono mult_right_mono)
next
  fix a assume "x = Fin a" "y = PInf" then show ?thesis
    using fl_not_NaN by (cases "py_round n x") (auto simp: py_round_def)
next
  fix b assume "x = NInf" "y = Fin b" then show ?thesis
    using fl_not_NaN by (cases "py_round n y") (auto simp: py_round_def)
qed (auto simp: py_round_def)

lemma plus_double: "is_double (x + y)"
  by (cases x; cases y) auto

lemma plus_nonneg_ge:
  assumes "is_double x" "Fin 0 \<le> x" "Fin 0 \<le> y"
  shows "x \<le> x + y"
proof (cases "is_finite x")
  case False
  with assms show ?thesis by (cases x; cases y) auto
qed (use assms in \<open>simp add: float_add_nonneg_ge\<close>)

lemma fl_nearest:
  assumes "is_double (Fin d)" "fl q = Fin v"
  shows "\<bar>v - q\<bar> \<le> \<bar>d - q\<bar>"
proof -
  have "round_sig 2 53 (-1074) d = d" "v = round_sig 2 53 (-1074) q"
    using assms by (auto simp: is_double_def fl_def Let_def split: if_splits)
  then show ?thesis using round_sig_nearest [of 2 53 "-1074" d q] by simp
qed

text \<open>Rounding to \<open>n\<close> decimals does not reach a number more than one step of the last decimal away.\<close>

lemma py_round_less:
  assumes "is_double (Fin d)" "is_double (Fin e)" "1 / 10 ^ n < e - d"
  shows "py_round n (Fin d) < Fin e" and "Fin (- e) < py_round n (Fin (- d))"
proof -
  define r :: rat where "r = of_int (round_half_even (d * 10 ^ n)) / 10 ^ n"
  define t :: rat where "t = 1 / 10 ^ n"
  have "\<bar>of_int (round_half_even (d * 10 ^ n)) - d * 10 ^ n\<bar> \<le> 1/2" by (rule round_half_even_error)
  then have "\<bar>of_int (round_half_even (d * 10 ^ n)) - d * 10 ^ n\<bar> / 10 ^ n \<le> 1/2 / 10 ^ n"
    by (intro divide_right_mono) auto
  moreover have "r - d = (of_int (round_half_even (d * 10 ^ n)) - d * 10 ^ n) / 10 ^ n"
    by (simp add: diff_divide_distrib r_def)
  ultimately have r: "\<bar>r - d\<bar> \<le> t / 2" by (simp add: t_def)
  have t: "0 < t" "t < e - d" using assms(3) by (auto simp: t_def)
  have "r \<le> e" using r t by linarith
  then have le: "fl r \<le> Fin e" using fl_mono [of r e] finite_double_fl [OF assms(2)] by simp
  have "fl r \<noteq> Fin e"
  proof
    assume "fl r = Fin e"
    from fl_nearest [OF assms(1) this] show False using r t by linarith
  qed
  with le have less: "fl r < Fin e" by (cases "fl r") auto
  then show "py_round n (Fin d) < Fin e" by (simp add: py_round_def r_def)
  from less show "Fin (- e) < py_round n (Fin (- d))"
    by (cases "fl r") (auto simp: py_round_def round_half_even_minus fl_uminus r_def)
qed

section \<open>Sums of floats\<close>

text \<open>\<open>sum(xs)\<close> of floats since Python 3.12: the rounding errors are carried along (Neumaier's variant
  of compensated summation) and added at the end. The sum of no numbers is \<open>0\<close>.\<close>

fun sum_floats :: "pyfloat \<Rightarrow> pyfloat \<Rightarrow> pyfloat list \<Rightarrow> pyfloat" where
  "sum_floats acc c [] = (if is_finite c then acc + c else acc)"
| "sum_floats acc c (x # xs) = (let t = acc + x in
     sum_floats t (c + (if \<bar>x\<bar> \<le> \<bar>acc\<bar> then (acc - t) + x else (x - t) + acc)) xs)"

definition py_sum :: "pyfloat list \<Rightarrow> pyfloat" where
  "py_sum xs = (case xs of [] \<Rightarrow> Fin 0 | x # xs \<Rightarrow> sum_floats x (Fin 0) xs)"

end
