(* ===== verification/Py_Time.thy ===== *)
theory Py_Time
  imports Prelude
begin

text \<open>
  \<open>datetime\<close> values. An aware value is the instant it denotes, in microseconds since the epoch,
  with its UTC offset; a naive value has only a wall-clock reading. Ordering a naive against an
  aware value raises. A UTC calendar day is its day number.

  A timestamp column of a SQLite table holds \<open>isoformat()\<close> text. The text of a \<open>datetime\<close> is
  represented by the value (\<open>fromisoformat\<close> inverts \<open>isoformat\<close>), other text by \<open>NotIso\<close>. All
  timestamps the program orders by in SQL are UTC texts, on which the text order and the order of
  the instants agree.
\<close>

datatype pydatetime = Naive int | Aware int int

datatype iso_text = Iso pydatetime | NotIso string

fun tz_aware :: "pydatetime \<Rightarrow> bool" where
  "tz_aware (Naive t) = False"
| "tz_aware (Aware t off) = True"

fun instant :: "pydatetime \<Rightarrow> int" where
  "instant (Naive t) = t"
| "instant (Aware t off) = t"

fun dt_le :: "pydatetime \<Rightarrow> pydatetime \<Rightarrow> bool result" where
  "dt_le (Aware s _) (Aware t _) = Inr (s \<le> t)"
| "dt_le (Naive s) (Naive t) = Inr (s \<le> t)"
| "dt_le _ _ = Inl (TypeError ''can't compare offset-naive and offset-aware datetimes'')"

fun dt_less :: "pydatetime \<Rightarrow> pydatetime \<Rightarrow> bool result" where
  "dt_less (Aware s _) (Aware t _) = Inr (s < t)"
| "dt_less (Naive s) (Naive t) = Inr (s < t)"
| "dt_less _ _ = Inl (TypeError ''can't compare offset-naive and offset-aware datetimes'')"

text \<open>\<open>value.astimezone(timezone.utc)\<close> on an aware value; the program converts aware values only.\<close>

fun to_utc :: "pydatetime \<Rightarrow> pydatetime" where
  "to_utc (Aware t off) = Aware t 0"
| "to_utc (Naive t) = Naive t"

definition microseconds_per_second :: int where
  "microseconds_per_second = 1000000"

definition microseconds_per_day :: int where
  "microseconds_per_day = 86400 * 1000000"

text \<open>\<open>value.date()\<close>: the calendar day of the wall-clock reading.\<close>

fun date_of :: "pydatetime \<Rightarrow> int" where
  "date_of (Aware t off) = (t + off) div microseconds_per_day"
| "date_of (Naive t) = t div microseconds_per_day"

text \<open>\<open>datetime.combine(day, time.min, tzinfo=utc)\<close>.\<close>

definition utc_midnight :: "int \<Rightarrow> pydatetime" where
  "utc_midnight day = Aware (day * microseconds_per_day) 0"

lemma tz_aware_to_utc [simp]: "tz_aware (to_utc d) = tz_aware d"
  by (cases d) auto

lemma instant_to_utc [simp]: "instant (to_utc d) = instant d"
  by (cases d) auto

lemma to_utc_idem [simp]: "to_utc (to_utc d) = to_utc d"
  by (cases d) auto

lemma dt_le_aware: "tz_aware a \<Longrightarrow> tz_aware b \<Longrightarrow> dt_le a b = Inr (instant a \<le> instant b)"
  by (cases a; cases b) auto

lemma dt_less_aware: "tz_aware a \<Longrightarrow> tz_aware b \<Longrightarrow> dt_less a b = Inr (instant a < instant b)"
  by (cases a; cases b) auto

lemma to_utc_aware: "tz_aware d \<Longrightarrow> to_utc d = Aware (instant d) 0"
  by (cases d) auto

lemma dt_le_trans: "dt_le a b = Inr True \<Longrightarrow> dt_le b c = Inr True \<Longrightarrow> dt_le a c = Inr True"
  by (cases a; cases b; cases c) auto

lemma date_of_bounds:
  "day = date_of (Aware t 0) \<longleftrightarrow> instant (utc_midnight day) \<le> t \<and> t < instant (utc_midnight (day + 1))"
  by (auto simp: utc_midnight_def microseconds_per_day_def)

end
