(* ===== verification/Broker_Types.thy ===== *)
theory Broker_Types
  imports Py_Float Py_Time
begin

text \<open>
  The broker-neutral data types of \<open>broker/types.py\<close>: enumerations with their string values,
  execution quantities, order requests and results, positions, closed trades, history snapshots
  and closed market observations, each with the validation its Pydantic model performs on
  construction.
\<close>

section \<open>Enumerations\<close>

datatype timeframe = M1 | M5 | M15 | M30 | H1 | H4 | D1

fun TIMEFRAME_SECONDS :: "timeframe \<Rightarrow> int" where
  "TIMEFRAME_SECONDS M1 = 60"
| "TIMEFRAME_SECONDS M5 = 300"
| "TIMEFRAME_SECONDS M15 = 900"
| "TIMEFRAME_SECONDS M30 = 1800"
| "TIMEFRAME_SECONDS H1 = 3600"
| "TIMEFRAME_SECONDS H4 = 14400"
| "TIMEFRAME_SECONDS D1 = 86400"

datatype order_side = BUY | SELL

datatype order_type = MARKET | BUY_STOP | SELL_STOP | STOP_LIMIT

datatype quantity_unit = SIMULATION_UNITS | DERIV_STAKE | MT5_LOTS

datatype order_status = SUBMITTED | FILLED | ORDER_REJECTED

fun side_value :: "order_side \<Rightarrow> string" where
  "side_value BUY = ''BUY''"
| "side_value SELL = ''SELL''"

text \<open>\<open>OrderSide(text)\<close> and \<open>ExecutionQuantityUnit(text)\<close>: look up by value, else \<open>ValueError\<close>.\<close>

definition side_of_value :: "string \<Rightarrow> order_side result" where
  "side_of_value s = (if s = ''BUY'' then Inr BUY else if s = ''SELL'' then Inr SELL
     else Inl (ValueError ''not a valid OrderSide''))"

fun unit_value :: "quantity_unit \<Rightarrow> string" where
  "unit_value SIMULATION_UNITS = ''SIMULATION_UNITS''"
| "unit_value DERIV_STAKE = ''DERIV_STAKE''"
| "unit_value MT5_LOTS = ''MT5_LOTS''"

definition unit_of_value :: "string \<Rightarrow> quantity_unit result" where
  "unit_of_value s = (if s = ''SIMULATION_UNITS'' then Inr SIMULATION_UNITS
     else if s = ''DERIV_STAKE'' then Inr DERIV_STAKE
     else if s = ''MT5_LOTS'' then Inr MT5_LOTS
     else Inl (ValueError ''not a valid ExecutionQuantityUnit''))"

lemma side_of_value_value [simp]: "side_of_value (side_value s) = Inr s"
  by (cases s) (auto simp: side_of_value_def)

lemma unit_of_value_value [simp]: "unit_of_value (unit_value u) = Inr u"
  by (cases u) (auto simp: unit_of_value_def)

lemma side_of_value_Inr: "side_of_value t = Inr s \<Longrightarrow> t = side_value s"
  by (auto simp: side_of_value_def split: if_splits)

lemma unit_of_value_Inr: "unit_of_value t = Inr u \<Longrightarrow> t = unit_value u"
  by (auto simp: unit_of_value_def split: if_splits)

section \<open>Quantities\<close>

record execution_quantity =
  qty_value :: pyfloat
  qty_unit :: quantity_unit

definition positive_finite :: "pyfloat \<Rightarrow> bool" where
  "positive_finite x \<longleftrightarrow> is_finite x \<and> Fin 0 < x"

definition make_quantity :: "pyfloat \<Rightarrow> quantity_unit \<Rightarrow> execution_quantity result" where
  "make_quantity v u = (if positive_finite v then Inr \<lparr>qty_value = v, qty_unit = u\<rparr>
     else Inl (ValueError ''ExecutionQuantity.value''))"

definition quantity_ok :: "execution_quantity \<Rightarrow> bool" where
  "quantity_ok q \<longleftrightarrow> positive_finite (qty_value q)"

lemma make_quantity_ok: "make_quantity v u = Inr q \<Longrightarrow> quantity_ok q \<and> qty_value q = v \<and> qty_unit q = u"
  by (auto simp: make_quantity_def quantity_ok_def split: if_splits)

lemma make_quantity_of_ok: "quantity_ok q \<Longrightarrow> make_quantity (qty_value q) (qty_unit q) = Inr q"
  by (simp add: make_quantity_def quantity_ok_def)

section \<open>Accounts\<close>

record account_identity =
  ident_broker :: string
  ident_account_id :: string
  ident_server :: "string option"
  ident_currency :: string
  ident_trade_mode :: string

definition scope :: "account_identity \<Rightarrow> string" where
  "scope i = py_lower (py_strip (ident_broker i)) @ '':'' @ py_strip (ident_account_id i)"

section \<open>Order requests and results\<close>

record order_request =
  req_symbol :: string
  req_side :: order_side
  req_quantity :: execution_quantity
  req_order_type :: order_type
  req_entry_price :: "pyfloat option"
  req_stop_limit_price :: "pyfloat option"
  req_stop_loss :: pyfloat
  req_take_profit :: "pyfloat option"
  req_idempotency_key :: "string option"
  req_magic_number :: "int option"
  req_order_comment :: "string option"

definition opt_price_ok :: "pyfloat option \<Rightarrow> bool" where
  "opt_price_ok p \<longleftrightarrow> (case p of None \<Rightarrow> True | Some x \<Rightarrow> positive_finite x)"

definition validate_order_type_fields :: "order_request \<Rightarrow> order_request result" where
  "validate_order_type_fields r =
     (let pending = req_order_type r \<noteq> MARKET in
      if pending \<and> req_entry_price r = None
      then Inl (ValueError ''entry_price is required for pending orders'')
      else if \<not> pending \<and> (req_entry_price r \<noteq> None \<or> req_stop_limit_price r \<noteq> None)
      then Inl (ValueError ''market orders cannot specify pending-order prices'')
      else if req_order_type r = STOP_LIMIT \<and> req_stop_limit_price r = None
      then Inl (ValueError ''stop_limit_price is required for stop-limit orders'')
      else if req_order_type r \<noteq> STOP_LIMIT \<and> req_stop_limit_price r \<noteq> None
      then Inl (ValueError ''stop_limit_price is only valid for stop-limit orders'')
      else if req_order_type r = BUY_STOP \<and> req_side r \<noteq> BUY
      then Inl (ValueError ''BUY_STOP requires BUY side'')
      else if req_order_type r = SELL_STOP \<and> req_side r \<noteq> SELL
      then Inl (ValueError ''SELL_STOP requires SELL side'')
      else Inr r)"

text \<open>Construction of an \<open>OrderRequest\<close>: the field constraints, then the model validator.\<close>

definition make_order_request :: "order_request \<Rightarrow> order_request result" where
  "make_order_request r =
     (if \<not> opt_price_ok (req_entry_price r) then Inl (ValueError ''entry_price'')
      else if \<not> opt_price_ok (req_stop_limit_price r) then Inl (ValueError ''stop_limit_price'')
      else if \<not> positive_finite (req_stop_loss r) then Inl (ValueError ''stop_loss'')
      else if \<not> opt_price_ok (req_take_profit r) then Inl (ValueError ''take_profit'')
      else validate_order_type_fields r)"

definition req_volume :: "order_request \<Rightarrow> pyfloat" where
  "req_volume r = qty_value (req_quantity r)"

record order_result =
  res_order_id :: string
  res_status :: order_status
  res_symbol :: string
  res_side :: order_side
  res_volume :: pyfloat
  res_filled_price :: "pyfloat option"
  res_transaction_id :: "string option"

record position =
  pos_position_id :: string
  pos_symbol :: string
  pos_side :: order_side
  pos_volume :: pyfloat
  pos_open_price :: pyfloat
  pos_current_price :: "pyfloat option"
  pos_profit :: "pyfloat option"
  pos_stop_loss :: "pyfloat option"
  pos_take_profit :: "pyfloat option"
  pos_opened_at :: "pydatetime option"
  pos_transaction_id :: "string option"
  pos_contract_type :: "string option"
  pos_magic :: "int option"
  pos_comment :: "string option"

record trade_history_entry =
  th_trade_id :: string
  th_symbol :: string
  th_side :: order_side
  th_volume :: pyfloat
  th_open_price :: pyfloat
  th_close_price :: pyfloat
  th_profit :: pyfloat
  th_opened_at :: pydatetime
  th_closed_at :: pydatetime
  th_transaction_id :: "string option"
  th_contract_type :: "string option"
  th_position_id :: "string option"
  th_close_reason :: "string option"

section \<open>History snapshots\<close>

datatype history_completeness = COMPLETE | TRUNCATED | COMPLETENESS_UNKNOWN

record trade_history_snapshot =
  snap_trades :: "trade_history_entry list"
  snap_completeness :: history_completeness
  snap_coverage_start :: "pydatetime option"
  snap_coverage_end :: "pydatetime option"
  snap_position_fees :: "(string \<times> pyfloat) list"
  snap_position_open_volume :: "(string \<times> pyfloat) list"

definition covers :: "trade_history_snapshot \<Rightarrow> pydatetime \<Rightarrow> pydatetime \<Rightarrow> bool result" where
  "covers s start stop =
     (if snap_completeness s \<noteq> COMPLETE then Inr False
      else case snap_coverage_start s of None \<Rightarrow> Inr False
      | Some cs \<Rightarrow> (case snap_coverage_end s of None \<Rightarrow> Inr False
      | Some ce \<Rightarrow> py_all [dt_le cs start, dt_le stop ce]))"

text \<open>Coverage of an interval is coverage of every interval inside it.\<close>

lemma covers_subinterval:
  assumes "covers s a b = Inr True" "dt_le a a' = Inr True" "dt_le b' b = Inr True"
  shows "covers s a' b' = Inr True"
  using assms by (auto simp: covers_def split: if_splits option.splits intro: dt_le_trans)

section \<open>Closed market observations\<close>

record closed_market_observation =
  cmo_canonical_symbol :: string
  cmo_source :: string
  cmo_provider_symbol :: string
  cmo_timeframe :: timeframe
  cmo_candle_opened_at :: pydatetime
  cmo_closed_at :: pydatetime
  cmo_open :: pyfloat
  cmo_high :: pyfloat
  cmo_low :: pyfloat
  cmo_close :: pyfloat
  cmo_volume :: "pyfloat option"

definition model_post_init :: "closed_market_observation \<Rightarrow> closed_market_observation result" where
  "model_post_init m =
     (if \<not> nonblank (cmo_canonical_symbol m) then Inl (ValueError ''canonical_symbol must be nonblank'')
      else if \<not> nonblank (cmo_source m) then Inl (ValueError ''source must be nonblank'')
      else if \<not> nonblank (cmo_provider_symbol m) then Inl (ValueError ''provider_symbol must be nonblank'')
      else if \<not> tz_aware (cmo_candle_opened_at m) \<or> \<not> tz_aware (cmo_closed_at m)
      then Inl (ValueError ''market observation timestamps must be timezone-aware'')
      else if instant (cmo_closed_at m) \<le> instant (cmo_candle_opened_at m)
      then Inl (ValueError ''closed_at must be after candle_opened_at'')
      else if \<not> (\<forall>v \<in> set [cmo_open m, cmo_high m, cmo_low m, cmo_close m]. positive_finite v)
      then Inl (ValueError ''market observation OHLC values must be positive and finite'')
      else if cmo_high m < py_max (cmo_open m) (cmo_close m)
           \<or> py_min (cmo_open m) (cmo_close m) < cmo_low m
      then Inl (ValueError ''market observation OHLC invariants failed'')
      else if cmo_high m < cmo_low m
      then Inl (ValueError ''market observation low cannot exceed high'')
      else if (case cmo_volume m of None \<Rightarrow> False | Some v \<Rightarrow> \<not> is_finite v \<or> v < Fin 0)
      then Inl (ValueError ''market observation volume must be finite and nonnegative'')
      else Inr m)"

definition reference_price :: "closed_market_observation \<Rightarrow> pyfloat" where
  "reference_price m = cmo_close m"

definition is_closed_at :: "closed_market_observation \<Rightarrow> pydatetime \<Rightarrow> bool" where
  "is_closed_at m t \<longleftrightarrow> tz_aware t \<and> instant (to_utc (cmo_closed_at m)) \<le> instant (to_utc t)"

lemma positive_finiteE:
  assumes "positive_finite x" obtains q where "x = Fin q" "0 < q"
  using assms by (auto simp: positive_finite_def is_finite_iff)

text \<open>The checks on the four prices leave the candle ordered, so the separate test that the low
  does not exceed the high never fires.\<close>

lemma ohlc_ordered:
  assumes pos: "\<forall>v \<in> set [op, hi, lo, cl]. positive_finite v"
    and inv: "\<not> (hi < py_max op cl \<or> py_min op cl < lo)"
  shows "lo \<le> op" "lo \<le> cl" "op \<le> hi" "cl \<le> hi" "lo \<le> hi"
  using assms by (auto simp: py_max_def py_min_def elim!: positive_finiteE split: if_splits)

lemma model_post_init_low_high_unreachable:
  "model_post_init m \<noteq> Inl (ValueError ''market observation low cannot exceed high'')"
proof
  let ?vs = "[cmo_open m, cmo_high m, cmo_low m, cmo_close m]"
  assume a: "model_post_init m = Inl (ValueError ''market observation low cannot exceed high'')"
  have pos: "\<forall>v \<in> set ?vs. positive_finite v"
    and inv: "\<not> (cmo_high m < py_max (cmo_open m) (cmo_close m)
      \<or> py_min (cmo_open m) (cmo_close m) < cmo_low m)"
    and lt: "cmo_high m < cmo_low m"
    using a by (simp_all add: model_post_init_def split: if_split_asm option.splits)
  show False using pyfloat_le_less_trans [OF ohlc_ordered(5) [OF pos inv] lt] by simp
qed

lemma model_post_init_ordered:
  assumes "model_post_init m = Inr m'"
  shows "m' = m" "cmo_low m \<le> cmo_open m" "cmo_low m \<le> cmo_close m"
    "cmo_open m \<le> cmo_high m" "cmo_close m \<le> cmo_high m"
    "instant (cmo_candle_opened_at m) < instant (cmo_closed_at m)"
  using assms ohlc_ordered [of "cmo_open m" "cmo_high m" "cmo_low m" "cmo_close m"]
  by (auto simp: model_post_init_def split: if_splits)

lemma is_closed_at_mono:
  "is_closed_at m t \<Longrightarrow> tz_aware t' \<Longrightarrow> instant t \<le> instant t' \<Longrightarrow> is_closed_at m t'"
  by (auto simp: is_closed_at_def)

end
