(* ===== verification/Py_Values.thy ===== *)
theory Py_Values
  imports Broker_Types
begin

text \<open>
  Dynamically typed values. The safety policy does not trust the annotations of its inputs: it
  tests every field with \<open>isinstance\<close> before use. Its inputs are therefore values of \<open>pyval\<close>,
  which has a constructor for every type those tests tell apart. \<open>OrderSide\<close> is a subclass of
  \<open>str\<close>: a member is a string and equals its value.
\<close>

datatype pyval =
    PyNone
  | PyBool bool
  | PyInt int
  | PyFloat pyfloat
  | PyStr string
  | PySide order_side
  | PyTuple "pyval list"
  | PyFrozenset "pyval list"
  | PySnapshot pyval pyval
  | PyQuantity execution_quantity
  | PyOther

fun text_of :: "pyval \<Rightarrow> string option" where
  "text_of (PyStr s) = Some s"
| "text_of (PySide s) = Some (side_value s)"
| "text_of _ = None"

text \<open>\<open>isinstance(v, str) and bool(v.strip())\<close>\<close>

definition nonblank_str :: "pyval \<Rightarrow> bool" where
  "nonblank_str v \<longleftrightarrow> (case text_of v of None \<Rightarrow> False | Some s \<Rightarrow> nonblank s)"

text \<open>\<open>v in (OrderSide.BUY, OrderSide.SELL)\<close>, which compares with \<open>==\<close>.\<close>

definition in_sides :: "pyval \<Rightarrow> bool" where
  "in_sides v \<longleftrightarrow> text_of v \<in> {Some ''BUY'', Some ''SELL''}"

fun is_pybool :: "pyval \<Rightarrow> bool" where
  "is_pybool (PyBool b) = True"
| "is_pybool _ = False"

text \<open>\<open>float(v)\<close> of a number.\<close>

fun to_float :: "pyval \<Rightarrow> pyfloat result" where
  "to_float (PyInt i) = float_of_int i"
| "to_float (PyFloat x) = Inr x"
| "to_float (PyBool b) = Inr (Fin (if b then 1 else 0))"
| "to_float _ = Inl (TypeError ''float() argument must be a string or a real number'')"

text \<open>The exact value of a number, by which Python compares an int with a float.\<close>

fun exact :: "pyval \<Rightarrow> pyfloat option" where
  "exact (PyInt i) = Some (Fin (of_int i))"
| "exact (PyFloat x) = Some x"
| "exact (PyBool b) = Some (Fin (if b then 1 else 0))"
| "exact _ = None"

text \<open>\<open>a < b\<close> and \<open>a >= b\<close> on numbers; any other operands reached by the modelled code raise.\<close>

definition py_less :: "pyval \<Rightarrow> pyval \<Rightarrow> bool result" where
  "py_less a b = (case (exact a, exact b) of (Some x, Some y) \<Rightarrow> Inr (x < y)
     | _ \<Rightarrow> Inl (TypeError ''unorderable operands''))"

definition py_ge :: "pyval \<Rightarrow> pyval \<Rightarrow> bool result" where
  "py_ge a b = (case (exact a, exact b) of (Some x, Some y) \<Rightarrow> Inr (y \<le> x)
     | _ \<Rightarrow> Inl (TypeError ''unorderable operands''))"

text \<open>\<open>isinstance(v, int) and not isinstance(v, bool)\<close>\<close>

fun as_int :: "pyval \<Rightarrow> int option" where
  "as_int (PyInt i) = Some i"
| "as_int _ = None"

fun as_tuple :: "pyval \<Rightarrow> pyval list option" where
  "as_tuple (PyTuple xs) = Some xs"
| "as_tuple _ = None"

fun as_frozenset :: "pyval \<Rightarrow> pyval list option" where
  "as_frozenset (PyFrozenset xs) = Some xs"
| "as_frozenset _ = None"

text \<open>\<open>s in values\<close> for a set of strings.\<close>

definition str_in :: "string \<Rightarrow> pyval \<Rightarrow> bool" where
  "str_in s v \<longleftrightarrow> (case as_frozenset v of None \<Rightarrow> False | Some xs \<Rightarrow> (\<exists>x \<in> set xs. text_of x = Some s))"

lemma text_of_Some_iff: "text_of v = Some s \<longleftrightarrow> v = PyStr s \<or> (\<exists>d. v = PySide d \<and> s = side_value d)"
  by (cases v) auto

lemma as_int_Some [simp]: "as_int v = Some i \<longleftrightarrow> v = PyInt i"
  by (cases v) auto

lemma as_tuple_Some [simp]: "as_tuple v = Some xs \<longleftrightarrow> v = PyTuple xs"
  by (cases v) auto

lemma as_frozenset_Some [simp]: "as_frozenset v = Some xs \<longleftrightarrow> v = PyFrozenset xs"
  by (cases v) auto

lemma nonblank_str_iff: "nonblank_str v \<longleftrightarrow> (\<exists>s. text_of v = Some s \<and> nonblank s)"
  by (auto simp: nonblank_str_def split: option.splits)

lemma nonblank_str_PyStr [simp]: "nonblank_str (PyStr s) = nonblank s"
  by (simp add: nonblank_str_def)

lemma is_pybool_iff: "is_pybool v \<longleftrightarrow> (\<exists>b. v = PyBool b)"
  by (cases v) auto

lemma to_float_float_of_int: "float_of_int i = Inr x \<Longrightarrow> is_finite x \<and> is_double x"
  using is_double_fl [of "of_int i"] by (cases "fl (of_int i)") (auto simp: float_of_int_def)

end
