(* ===== verification/Execution_Policy.thy ===== *)
theory Execution_Policy
  imports Py_Values
begin

text \<open>
  \<open>execution/policy.py\<close>: the pure, fail-closed policy that decides whether an order intent may
  proceed, with \<open>execution/trade_manager.py\<close> (broker positions to policy snapshots) and
  \<open>execution/position_limits.py\<close>. \<open>evaluate\<close> follows the source's sequence of early returns.
  \<open>execution_safe\<close> is the specification: the conditions under which an order may be sent,
  written without reference to the order of the checks. The main theorem shows that the
  policy allows exactly the intents that satisfy it.
\<close>

section \<open>Data\<close>

datatype decision_code =
    ALLOWED | EMERGENCY_STOP | RISK_NOT_APPROVED | SAFETY_CONTEXT_MISSING
  | SAFETY_CONTEXT_INVALID | INVALID_DIRECTION | INVALID_EXECUTION_QUANTITY
  | BROKER_QUANTITY_MISMATCH | UNVERIFIABLE_BROKER_RISK | INVALID_PRICE_LEVELS
  | BUY_LEVEL_INVARIANT | SELL_LEVEL_INVARIANT | DAILY_LOSS_LIMIT | DAILY_TRADE_LIMIT
  | MAX_OPEN_POSITIONS | DUPLICATE_SYMBOL_POSITION | IDEMPOTENCY_KEY_REUSED
  | DEPLOYMENT_NOT_AUTHORIZED | DAILY_STATE_NOT_AUTHORITATIVE | EXECUTION_RESERVATION_HELD
  | EXECUTION_RESERVATION_UNAVAILABLE | UNRESOLVED_DURABLE_INTENT

record execution_intent =
  int_symbol :: pyval
  int_side :: pyval
  int_quantity :: pyval
  int_authorized_risk_amount :: pyval
  int_expected_loss_at_stop :: pyval
  int_quantity_risk_verified :: pyval
  int_entry :: pyval
  int_stop_loss :: pyval
  int_take_profit :: pyval
  int_idempotency_key :: pyval
  int_risk_approved :: pyval
  int_magic_number :: "int option"
  int_order_comment :: "string option"

record execution_context =
  ctx_emergency_stop :: pyval
  ctx_daily_loss_percent :: pyval
  ctx_max_daily_loss_percent :: pyval
  ctx_daily_trade_count :: pyval
  ctx_max_daily_trades :: pyval
  ctx_open_positions :: pyval
  ctx_max_open_positions :: pyval
  ctx_used_idempotency_keys :: pyval
  ctx_execution_enabled :: pyval
  ctx_dry_run :: pyval
  ctx_broker :: pyval
  ctx_environment :: pyval
  ctx_account_id :: pyval
  ctx_approved_brokers :: pyval
  ctx_approved_environments :: pyval
  ctx_approved_accounts :: pyval
  ctx_approved_symbols :: pyval
  ctx_daily_state_authoritative :: pyval

record execution_decision =
  dec_allowed :: bool
  dec_code :: decision_code
  dec_reason :: string

section \<open>Helpers of the policy\<close>

definition is_finite_number :: "pyval \<Rightarrow> bool result" where
  "is_finite_number v =
     (case v of PyInt i \<Rightarrow> rbind (float_of_int i) (\<lambda>x. Inr (is_finite x))
      | PyFloat x \<Rightarrow> Inr (is_finite x)
      | _ \<Rightarrow> Inr False)"

fun valid_position_snapshot :: "pyval \<Rightarrow> bool" where
  "valid_position_snapshot (PySnapshot symb side) = (nonblank_str symb \<and> in_sides side)"
| "valid_position_snapshot _ = False"

definition reject :: "decision_code \<Rightarrow> string \<Rightarrow> execution_decision" where
  "reject code reason = \<lparr>dec_allowed = False, dec_code = code, dec_reason = reason\<rparr>"

text \<open>\<open>if cond: return _reject(code, reason)\<close>, then the rest of the body.\<close>

definition reject_if ::
  "bool result \<Rightarrow> decision_code \<Rightarrow> string \<Rightarrow> execution_decision result \<Rightarrow> execution_decision result" where
  "reject_if c code reason rest =
     (case c of Inl e \<Rightarrow> Inl e | Inr b \<Rightarrow> if b then Inr (reject code reason) else rest)"

definition py_not :: "bool result \<Rightarrow> bool result" where
  "py_not c = rbind c (\<lambda>b. Inr (\<not> b))"

definition str_set_ok :: "pyval \<Rightarrow> bool" where
  "str_set_ok v \<longleftrightarrow> (case as_frozenset v of None \<Rightarrow> False | Some xs \<Rightarrow> \<forall>x \<in> set xs. nonblank_str x)"

definition expected_unit :: "pyval \<Rightarrow> quantity_unit option" where
  "expected_unit broker = (case text_of broker of None \<Rightarrow> None
     | Some b \<Rightarrow> map_of
        [(''simulation'', SIMULATION_UNITS), (''deriv'', DERIV_STAKE), (''deriv_demo'', DERIV_STAKE),
         (''mt5'', MT5_LOTS), (''mt5_demo'', MT5_LOTS), (''weltrade'', MT5_LOTS),
         (''weltrade_demo'', MT5_LOTS)] b)"

text \<open>\<open>v.strip().upper()\<close> of a string value.\<close>

definition normalized_text :: "pyval \<Rightarrow> string" where
  "normalized_text v = (case text_of v of None \<Rightarrow> [] | Some s \<Rightarrow> py_upper (py_strip s))"

fun snapshot_symbol :: "pyval \<Rightarrow> pyval" where
  "snapshot_symbol (PySnapshot symb side) = symb"
| "snapshot_symbol _ = PyNone"

definition float_cmp :: "(pyfloat \<Rightarrow> bool) \<Rightarrow> pyval \<Rightarrow> bool result" where
  "float_cmp p v = rbind (to_float v) (\<lambda>x. Inr (p x))"

definition positive_count :: "pyval \<Rightarrow> bool" where
  "positive_count v \<longleftrightarrow> (case as_int v of None \<Rightarrow> False | Some n \<Rightarrow> 0 < n)"

section \<open>The policy\<close>

definition context_valid :: "execution_intent \<Rightarrow> execution_context \<Rightarrow> bool result" where
  "context_valid intent ctx = py_all
     [Inr (is_pybool (ctx_emergency_stop ctx)),
      is_finite_number (ctx_daily_loss_percent ctx),
      float_cmp (\<lambda>x. Fin 0 \<le> x) (ctx_daily_loss_percent ctx),
      is_finite_number (ctx_max_daily_loss_percent ctx),
      float_cmp (\<lambda>x. Fin 0 < x) (ctx_max_daily_loss_percent ctx),
      Inr (case as_int (ctx_daily_trade_count ctx) of None \<Rightarrow> False | Some n \<Rightarrow> 0 \<le> n),
      Inr (positive_count (ctx_max_daily_trades ctx)),
      Inr (case as_tuple (ctx_open_positions ctx) of None \<Rightarrow> False
           | Some ps \<Rightarrow> \<forall>p \<in> set ps. valid_position_snapshot p),
      Inr (positive_count (ctx_max_open_positions ctx)),
      Inr (str_set_ok (ctx_used_idempotency_keys ctx)),
      Inr (is_pybool (ctx_execution_enabled ctx)),
      Inr (is_pybool (ctx_dry_run ctx)),
      Inr (nonblank_str (ctx_broker ctx)),
      Inr (nonblank_str (ctx_environment ctx)),
      Inr (nonblank_str (ctx_account_id ctx)),
      Inr (\<forall>values \<in> set [ctx_approved_brokers ctx, ctx_approved_environments ctx,
             ctx_approved_accounts ctx, ctx_approved_symbols ctx]. str_set_ok values),
      Inr (is_pybool (ctx_daily_state_authoritative ctx)),
      Inr (nonblank_str (int_symbol intent)),
      Inr (nonblank_str (int_idempotency_key intent))]"

definition member_text :: "pyval \<Rightarrow> pyval \<Rightarrow> bool" where
  "member_text v values \<longleftrightarrow> (case text_of v of None \<Rightarrow> False | Some s \<Rightarrow> str_in s values)"

definition deployment_authorized :: "execution_intent \<Rightarrow> execution_context \<Rightarrow> bool" where
  "deployment_authorized intent ctx \<longleftrightarrow>
     ctx_execution_enabled ctx = PyBool True
     \<and> ctx_dry_run ctx = PyBool False
     \<and> member_text (ctx_broker ctx) (ctx_approved_brokers ctx)
     \<and> member_text (ctx_environment ctx) (ctx_approved_environments ctx)
     \<and> member_text (ctx_account_id ctx) (ctx_approved_accounts ctx)
     \<and> str_in (normalized_text (int_symbol intent)) (ctx_approved_symbols ctx)"

text \<open>The constant \<open>1.0 + 1e-12\<close>.\<close>

definition risk_tolerance :: pyfloat where
  "risk_tolerance = Fin 1 + fl (1 / 10 ^ 12)"

fun is_quantity :: "pyval \<Rightarrow> bool" where
  "is_quantity (PyQuantity q) = True"
| "is_quantity _ = False"

definition unit_mismatch :: "execution_intent \<Rightarrow> execution_context \<Rightarrow> bool" where
  "unit_mismatch intent ctx \<longleftrightarrow> (case (expected_unit (ctx_broker ctx), int_quantity intent) of
       (Some u, PyQuantity q) \<Rightarrow> qty_unit q \<noteq> u | _ \<Rightarrow> True)"

text \<open>\<open>not _is_finite_number(v) or p(float(v))\<close>\<close>

definition not_finite_or :: "(pyfloat \<Rightarrow> bool) \<Rightarrow> pyval \<Rightarrow> bool result" where
  "not_finite_or p v = rbind (is_finite_number v) (\<lambda>b. if \<not> b then Inr True else float_cmp p v)"

definition loss_exceeds_risk :: "execution_intent \<Rightarrow> bool result" where
  "loss_exceeds_risk intent =
     rbind (to_float (int_expected_loss_at_stop intent)) (\<lambda>loss.
     rbind (to_float (int_authorized_risk_amount intent)) (\<lambda>risk.
       Inr (risk * risk_tolerance < loss)))"

definition levels_invalid :: "execution_intent \<Rightarrow> bool result" where
  "levels_invalid intent = py_not (py_all
     (concat (map (\<lambda>v. [is_finite_number v, float_cmp (\<lambda>x. Fin 0 < x) v])
        [int_entry intent, int_stop_loss intent, int_take_profit intent])))"

text \<open>\<open>side == s and not (a < b < c)\<close>\<close>

definition level_violation :: "execution_intent \<Rightarrow> string \<Rightarrow> pyval \<Rightarrow> pyval \<Rightarrow> pyval \<Rightarrow> bool result" where
  "level_violation intent s a b c =
     (if text_of (int_side intent) = Some s then py_not (py_all [py_less a b, py_less b c])
      else Inr False)"

definition open_count :: "execution_context \<Rightarrow> int" where
  "open_count ctx = (case as_tuple (ctx_open_positions ctx) of None \<Rightarrow> 0 | Some ps \<Rightarrow> int (length ps))"

definition symbol_open :: "execution_intent \<Rightarrow> execution_context \<Rightarrow> bool" where
  "symbol_open intent ctx \<longleftrightarrow> (case as_tuple (ctx_open_positions ctx) of None \<Rightarrow> False
     | Some ps \<Rightarrow> \<exists>p \<in> set ps. normalized_text (snapshot_symbol p) = normalized_text (int_symbol intent))"

definition evaluate_checked :: "execution_intent \<Rightarrow> execution_context \<Rightarrow> execution_decision result" where
  "evaluate_checked intent ctx =
     reject_if (Inr (\<not> deployment_authorized intent ctx)) DEPLOYMENT_NOT_AUTHORIZED
       ''Deployment authorization is incomplete or denied''
    (reject_if (Inr (ctx_daily_state_authoritative ctx \<noteq> PyBool True)) DAILY_STATE_NOT_AUTHORITATIVE
       ''Daily loss and trade counters are not authoritative''
    (reject_if (Inr (\<not> in_sides (int_side intent))) INVALID_DIRECTION
       ''Direction must be BUY or SELL''
    (reject_if (Inr (int_quantity_risk_verified intent \<noteq> PyBool True)) UNVERIFIABLE_BROKER_RISK
       ''Broker quantity risk at the configured stop is not verifiable''
    (reject_if (Inr (\<not> is_quantity (int_quantity intent))) INVALID_EXECUTION_QUANTITY
       ''Execution quantity is missing or invalid''
    (reject_if (Inr (unit_mismatch intent ctx)) BROKER_QUANTITY_MISMATCH
       ''Execution quantity unit does not match the configured broker''
    (reject_if (not_finite_or (\<lambda>x. x \<le> Fin 0) (int_authorized_risk_amount intent))
       INVALID_EXECUTION_QUANTITY ''Authorized risk must be positive and finite''
    (reject_if (not_finite_or (\<lambda>x. x < Fin 0) (int_expected_loss_at_stop intent))
       INVALID_EXECUTION_QUANTITY ''Expected stop loss must be finite and non-negative''
    (reject_if (loss_exceeds_risk intent) INVALID_EXECUTION_QUANTITY
       ''Expected stop loss exceeds authorized risk''
    (reject_if (levels_invalid intent) INVALID_PRICE_LEVELS
       ''Entry, stop loss, and take profit must be positive and finite''
    (reject_if (level_violation intent ''BUY'' (int_stop_loss intent) (int_entry intent) (int_take_profit intent))
       BUY_LEVEL_INVARIANT ''BUY requires stop_loss < entry < take_profit''
    (reject_if (level_violation intent ''SELL'' (int_take_profit intent) (int_entry intent) (int_stop_loss intent))
       SELL_LEVEL_INVARIANT ''SELL requires take_profit < entry < stop_loss''
    (reject_if (py_ge (ctx_daily_loss_percent ctx) (ctx_max_daily_loss_percent ctx))
       DAILY_LOSS_LIMIT ''Daily loss limit reached''
    (reject_if (py_ge (ctx_daily_trade_count ctx) (ctx_max_daily_trades ctx))
       DAILY_TRADE_LIMIT ''Daily trade limit reached''
    (reject_if (py_ge (PyInt (open_count ctx)) (ctx_max_open_positions ctx))
       MAX_OPEN_POSITIONS ''Maximum open positions reached''
    (reject_if (Inr (symbol_open intent ctx)) DUPLICATE_SYMBOL_POSITION
       ''An open position already exists for this symbol''
    (reject_if (Inr (member_text (int_idempotency_key intent) (ctx_used_idempotency_keys ctx)))
       IDEMPOTENCY_KEY_REUSED ''Idempotency key has already been used''
    (Inr \<lparr>dec_allowed = True, dec_code = ALLOWED, dec_reason = ''Execution policy passed''\<rparr>)))))))))))))))))"

definition evaluate :: "execution_intent \<Rightarrow> execution_context option \<Rightarrow> execution_decision result" where
  "evaluate intent context =
     reject_if (Inr (\<exists>ctx. context = Some ctx \<and> ctx_emergency_stop ctx = PyBool True)) EMERGENCY_STOP
       ''Emergency stop is active''
    (reject_if (Inr (int_risk_approved intent \<noteq> PyBool True)) RISK_NOT_APPROVED
       ''Explicit upstream risk approval is required''
    (case context of
       None \<Rightarrow> Inr (reject SAFETY_CONTEXT_MISSING ''Execution safety context is missing'')
     | Some ctx \<Rightarrow>
         reject_if (py_not (context_valid intent ctx)) SAFETY_CONTEXT_INVALID
           ''Execution safety context is incomplete or invalid''
           (evaluate_checked intent ctx)))"

section \<open>Broker positions as policy snapshots\<close>

text \<open>\<open>PositionSnapshotAdapter.from_positions\<close>. A gateway may return a malformed item despite its
  declared type, so an item is a \<open>Position\<close> model or some other object.\<close>

datatype raw_position = RawPosition position | RawOther

fun snapshots_of :: "raw_position list \<Rightarrow> pyval list option" where
  "snapshots_of [] = Some []"
| "snapshots_of (RawOther # ps) = None"
| "snapshots_of (RawPosition p # ps) =
     (if \<not> nonblank (pos_symbol p) then None
      else map_option (\<lambda>rest. PySnapshot (PyStr (py_strip (pos_symbol p))) (PySide (pos_side p)) # rest)
             (snapshots_of ps))"

definition from_positions :: "raw_position list option \<Rightarrow> pyval list option" where
  "from_positions positions = (case positions of None \<Rightarrow> None | Some ps \<Rightarrow> snapshots_of ps)"

section \<open>Account-evidence position cap\<close>

definition py_isfinite :: "pyval \<Rightarrow> bool result" where
  "py_isfinite v = rbind (to_float v) (\<lambda>x. Inr (is_finite x))"

definition demo_position_cap :: "pyval \<Rightarrow> pyval \<Rightarrow> pyval \<Rightarrow> string \<Rightarrow> int result" where
  "demo_position_cap limit floor_usd equity currency =
     (case as_int limit of None \<Rightarrow> Inr 1 | Some n \<Rightarrow>
      if \<not> (1 \<le> n \<and> n \<le> 5) then Inr 1
      else case exact floor_usd of None \<Rightarrow> Inr 1 | Some f \<Rightarrow>
      rbind (py_isfinite floor_usd) (\<lambda>floor_finite.
      if \<not> floor_finite \<or> f < Fin 50 then Inr 1
      else if currency \<noteq> ''USD'' then Inr 1
      else if is_pybool equity then Inr 1
      else case exact equity of None \<Rightarrow> Inr 1 | Some e \<Rightarrow>
      rbind (py_isfinite equity) (\<lambda>equity_finite.
      if \<not> equity_finite \<or> e < f then Inr 1 else Inr n)))"

section \<open>Specification\<close>

text \<open>\<open>denotes v q\<close>: \<open>v\<close> is a finite int or float (not a bool) with value \<open>q\<close>.\<close>

definition denotes :: "pyval \<Rightarrow> rat \<Rightarrow> bool" where
  "denotes v q \<longleftrightarrow> v = PyFloat (Fin q) \<or> (\<exists>i. v = PyInt i \<and> q = of_int i \<and> is_finite (fl q))"

definition levels_ordered :: "execution_intent \<Rightarrow> bool" where
  "levels_ordered i \<longleftrightarrow> (\<exists>e s t. denotes (int_entry i) e \<and> denotes (int_stop_loss i) s \<and> denotes (int_take_profit i) t
     \<and> 0 < e \<and> 0 < s \<and> 0 < t
     \<and> (text_of (int_side i) = Some ''BUY'' \<and> s < e \<and> e < t
        \<or> text_of (int_side i) = Some ''SELL'' \<and> t < e \<and> e < s))"

definition risk_bounded :: "execution_intent \<Rightarrow> bool" where
  "risk_bounded i \<longleftrightarrow> (\<exists>a l af lf. denotes (int_authorized_risk_amount i) a \<and> denotes (int_expected_loss_at_stop i) l
     \<and> 0 < a \<and> 0 \<le> l \<and> to_float (int_authorized_risk_amount i) = Inr af
     \<and> to_float (int_expected_loss_at_stop i) = Inr lf \<and> \<not> af * risk_tolerance < lf)"

definition quantity_typed :: "execution_intent \<Rightarrow> execution_context \<Rightarrow> bool" where
  "quantity_typed i c \<longleftrightarrow> int_quantity_risk_verified i = PyBool True
     \<and> (\<exists>q. int_quantity i = PyQuantity q \<and> expected_unit (ctx_broker c) = Some (qty_unit q))"

definition within_limits :: "execution_context \<Rightarrow> bool" where
  "within_limits c \<longleftrightarrow> (\<exists>l m n k ps w. denotes (ctx_daily_loss_percent c) l \<and> denotes (ctx_max_daily_loss_percent c) m
     \<and> 0 \<le> l \<and> l < m
     \<and> ctx_daily_trade_count c = PyInt n \<and> ctx_max_daily_trades c = PyInt k \<and> 0 \<le> n \<and> n < k
     \<and> ctx_open_positions c = PyTuple ps \<and> ctx_max_open_positions c = PyInt w \<and> int (length ps) < w
     \<and> (\<forall>p \<in> set ps. valid_position_snapshot p))"

definition identities_present :: "execution_intent \<Rightarrow> execution_context \<Rightarrow> bool" where
  "identities_present i c \<longleftrightarrow>
     nonblank_str (int_symbol i) \<and> nonblank_str (int_idempotency_key i)
     \<and> nonblank_str (ctx_broker c) \<and> nonblank_str (ctx_environment c) \<and> nonblank_str (ctx_account_id c)
     \<and> str_set_ok (ctx_used_idempotency_keys c) \<and> str_set_ok (ctx_approved_brokers c)
     \<and> str_set_ok (ctx_approved_environments c) \<and> str_set_ok (ctx_approved_accounts c)
     \<and> str_set_ok (ctx_approved_symbols c)"

definition execution_safe :: "execution_intent \<Rightarrow> execution_context \<Rightarrow> bool" where
  "execution_safe i c \<longleftrightarrow>
     ctx_emergency_stop c = PyBool False \<and> int_risk_approved i = PyBool True
     \<and> deployment_authorized i c \<and> ctx_daily_state_authoritative c = PyBool True
     \<and> identities_present i c \<and> within_limits c \<and> quantity_typed i c \<and> risk_bounded i \<and> levels_ordered i
     \<and> \<not> symbol_open i c \<and> \<not> member_text (int_idempotency_key i) (ctx_used_idempotency_keys c)"

definition within_float_range :: "pyval \<Rightarrow> bool" where
  "within_float_range v \<longleftrightarrow> (\<forall>i. v = PyInt i \<longrightarrow> is_finite (fl (of_int i)))"

definition returns :: "'a result \<Rightarrow> bool" where
  "returns m \<longleftrightarrow> (\<exists>x. m = Inr x)"

section \<open>The policy implements the specification\<close>

lemma reject_if_allowed [simp]:
  "reject_if c code reason rest = Inr d \<and> dec_allowed d \<longleftrightarrow> c = Inr False \<and> rest = Inr d \<and> dec_allowed d"
  by (auto simp: reject_if_def reject_def split: sum.splits)

lemma py_not_simps [simp]:
  "py_not c = Inr False \<longleftrightarrow> c = Inr True" "py_not c = Inr True \<longleftrightarrow> c = Inr False" "py_not c = Inl e \<longleftrightarrow> c = Inl e"
  by (cases c; auto simp: py_not_def)+

lemma fl_of_int_sign:
  assumes "fl (of_int i) = Fin x"
  shows "0 \<le> x \<longleftrightarrow> 0 \<le> i" "0 < x \<longleftrightarrow> 0 < i" "x \<le> 0 \<longleftrightarrow> i \<le> 0" "x < 0 \<longleftrightarrow> i < 0"
proof -
  have "1 \<le> x" if "0 < i" using that assms fl_mono [of 1 "of_int i"] by simp
  moreover have "x \<le> -1" if "i < 0"
    using that assms fl_mono [of "of_int i" "-1"] fl_uminus [of 1] by simp
  moreover have "x = 0" if "i = 0" using that assms by simp
  moreover have "0 < i \<or> i = 0 \<or> i < 0" by linarith
  ultimately show "0 \<le> x \<longleftrightarrow> 0 \<le> i" "0 < x \<longleftrightarrow> 0 < i" "x \<le> 0 \<longleftrightarrow> i \<le> 0" "x < 0 \<longleftrightarrow> i < 0"
    by fastforce+
qed

lemma denotes_is_finite_number: "is_finite_number v = Inr True \<longleftrightarrow> (\<exists>q. denotes v q)"
  by (cases v) (auto simp: is_finite_number_def denotes_def float_of_int_def is_finite_iff split: pyfloat.splits)

lemma denotes_exact: "denotes v q \<Longrightarrow> exact v = Some (Fin q)"
  by (auto simp: denotes_def)

lemma denotes_unique: "denotes v q \<Longrightarrow> denotes v r \<Longrightarrow> q = r"
  by (auto simp: denotes_def)

lemma denotes_to_float: "denotes v q \<Longrightarrow> \<exists>x. to_float v = Inr x"
  by (auto simp: denotes_def float_of_int_def is_finite_iff)

lemma denotes_float_cmp:
  assumes "denotes v q"
  shows "float_cmp (\<lambda>x. Fin 0 < x) v = Inr (0 < q)" "float_cmp (\<lambda>x. Fin 0 \<le> x) v = Inr (0 \<le> q)"
    "float_cmp (\<lambda>x. x \<le> Fin 0) v = Inr (q \<le> 0)" "float_cmp (\<lambda>x. x < Fin 0) v = Inr (q < 0)"
  using assms by (auto simp: denotes_def float_cmp_def float_of_int_def is_finite_iff fl_of_int_sign)

lemma context_valid_iff:
  "context_valid i c = Inr True \<and> ctx_emergency_stop c \<noteq> PyBool True \<longleftrightarrow>
     ctx_emergency_stop c = PyBool False \<and> identities_present i c
     \<and> (\<exists>l. denotes (ctx_daily_loss_percent c) l \<and> 0 \<le> l)
     \<and> (\<exists>m. denotes (ctx_max_daily_loss_percent c) m \<and> 0 < m)
     \<and> (\<exists>n. ctx_daily_trade_count c = PyInt n \<and> 0 \<le> n) \<and> (\<exists>k. ctx_max_daily_trades c = PyInt k \<and> 0 < k)
     \<and> (\<exists>ps. ctx_open_positions c = PyTuple ps \<and> (\<forall>p \<in> set ps. valid_position_snapshot p))
     \<and> (\<exists>w. ctx_max_open_positions c = PyInt w \<and> 0 < w)
     \<and> is_pybool (ctx_execution_enabled c) \<and> is_pybool (ctx_dry_run c) \<and> is_pybool (ctx_daily_state_authoritative c)"
  by (auto simp: context_valid_def denotes_is_finite_number denotes_float_cmp identities_present_def
      is_pybool_iff positive_count_def split: option.splits)

lemma not_finite_or_False:
  "not_finite_or p v = Inr False \<longleftrightarrow> (\<exists>q. denotes v q) \<and> float_cmp p v = Inr False"
  by (auto simp: not_finite_or_def denotes_is_finite_number [symmetric] split: if_splits)

lemma py_less_denotes: "denotes a p \<Longrightarrow> denotes b q \<Longrightarrow> py_less a b = Inr (p < q)"
  by (simp add: py_less_def denotes_exact)

lemma py_ge_denotes: "denotes a p \<Longrightarrow> denotes b q \<Longrightarrow> py_ge a b = Inr (q \<le> p)"
  by (simp add: py_ge_def denotes_exact)

lemma risk_bounded_iff:
  "not_finite_or (\<lambda>x. x \<le> Fin 0) (int_authorized_risk_amount i) = Inr False
   \<and> not_finite_or (\<lambda>x. x < Fin 0) (int_expected_loss_at_stop i) = Inr False
   \<and> loss_exceeds_risk i = Inr False \<longleftrightarrow> risk_bounded i"
  by (fastforce simp: risk_bounded_def not_finite_or_False denotes_float_cmp loss_exceeds_risk_def
      not_le not_less dest: denotes_to_float)

lemma levels_ordered_iff:
  "in_sides (int_side i) \<and> levels_invalid i = Inr False
   \<and> level_violation i ''BUY'' (int_stop_loss i) (int_entry i) (int_take_profit i) = Inr False
   \<and> level_violation i ''SELL'' (int_take_profit i) (int_entry i) (int_stop_loss i) = Inr False
   \<longleftrightarrow> levels_ordered i" (is "?L \<longleftrightarrow> ?R")
proof
  assume L: ?L
  then obtain e s t where n: "denotes (int_entry i) e" "denotes (int_stop_loss i) s" "denotes (int_take_profit i) t"
    by (auto simp: levels_invalid_def denotes_is_finite_number)
  with L show ?R unfolding levels_ordered_def
    by (intro exI [of _ e] exI [of _ s] exI [of _ t])
       (auto simp: levels_invalid_def denotes_float_cmp level_violation_def py_less_denotes in_sides_def
         split: if_splits)
next
  assume ?R
  then show ?L
    by (auto simp: levels_ordered_def levels_invalid_def denotes_is_finite_number denotes_float_cmp
        level_violation_def py_less_denotes in_sides_def)
qed

lemma in_sides_PySide [simp]: "in_sides (PySide d)"
  by (cases d) (auto simp: in_sides_def)

lemma snapshots_of_valid:
  "snapshots_of ps = Some ss \<Longrightarrow> length ss = length ps \<and> (\<forall>s \<in> set ss. valid_position_snapshot s)"
  by (induction ps arbitrary: ss rule: snapshots_of.induct)
     (auto split: if_splits)

lemma quantity_typed_iff:
  "int_quantity_risk_verified i = PyBool True \<and> is_quantity (int_quantity i) \<and> \<not> unit_mismatch i c
   \<longleftrightarrow> quantity_typed i c"
  by (cases "int_quantity i") (auto simp: quantity_typed_def unit_mismatch_def split: option.splits)

lemma py_ge_int [simp]: "py_ge (PyInt a) (PyInt b) = Inr (b \<le> a)"
  by (simp add: py_ge_def)

lemma evaluate_checked_allowed:
  "evaluate_checked i c = Inr d \<and> dec_allowed d \<longleftrightarrow>
     deployment_authorized i c \<and> ctx_daily_state_authoritative c = PyBool True
     \<and> quantity_typed i c \<and> risk_bounded i \<and> levels_ordered i
     \<and> py_ge (ctx_daily_loss_percent c) (ctx_max_daily_loss_percent c) = Inr False
     \<and> py_ge (ctx_daily_trade_count c) (ctx_max_daily_trades c) = Inr False
     \<and> py_ge (PyInt (open_count c)) (ctx_max_open_positions c) = Inr False
     \<and> \<not> symbol_open i c \<and> \<not> member_text (int_idempotency_key i) (ctx_used_idempotency_keys c)
     \<and> d = \<lparr>dec_allowed = True, dec_code = ALLOWED, dec_reason = ''Execution policy passed''\<rparr>"
  unfolding evaluate_checked_def reject_if_allowed quantity_typed_iff [symmetric]
    risk_bounded_iff [symmetric] levels_ordered_iff [symmetric]
  by auto

lemma within_limits_iff:
  "(\<exists>l. denotes (ctx_daily_loss_percent c) l \<and> 0 \<le> l)
   \<and> (\<exists>m. denotes (ctx_max_daily_loss_percent c) m \<and> 0 < m)
   \<and> (\<exists>n. ctx_daily_trade_count c = PyInt n \<and> 0 \<le> n) \<and> (\<exists>k. ctx_max_daily_trades c = PyInt k \<and> 0 < k)
   \<and> (\<exists>ps. ctx_open_positions c = PyTuple ps \<and> (\<forall>p \<in> set ps. valid_position_snapshot p))
   \<and> (\<exists>w. ctx_max_open_positions c = PyInt w \<and> 0 < w)
   \<and> py_ge (ctx_daily_loss_percent c) (ctx_max_daily_loss_percent c) = Inr False
   \<and> py_ge (ctx_daily_trade_count c) (ctx_max_daily_trades c) = Inr False
   \<and> py_ge (PyInt (open_count c)) (ctx_max_open_positions c) = Inr False
   \<longleftrightarrow> within_limits c"
  by (fastforce simp: within_limits_def py_ge_denotes open_count_def)

lemma evaluate_allowed_safe:
  "(\<exists>d. evaluate i (Some c) = Inr d \<and> dec_allowed d) \<longleftrightarrow> execution_safe i c"
proof -
  have "(\<exists>d. evaluate i (Some c) = Inr d \<and> dec_allowed d) \<longleftrightarrow>
    (context_valid i c = Inr True \<and> ctx_emergency_stop c \<noteq> PyBool True) \<and> int_risk_approved i = PyBool True
    \<and> (\<exists>d. evaluate_checked i c = Inr d \<and> dec_allowed d)"
    by (auto simp: evaluate_def)
  also have "\<dots> \<longleftrightarrow> execution_safe i c"
    unfolding evaluate_checked_allowed context_valid_iff execution_safe_def within_limits_iff [symmetric]
    by (simp add: deployment_authorized_def is_pybool_iff) blast
  finally show ?thesis .
qed
lemma returns_Inr [simp]: "returns (Inr x)"
  by (simp add: returns_def)

lemma returns_py_all_Nil: "returns (py_all [])"
  by simp

lemma returns_py_all_Cons:
  "returns c \<Longrightarrow> (c = Inr True \<Longrightarrow> returns (py_all cs)) \<Longrightarrow> returns (py_all (c # cs))"
  by (auto simp: returns_def py_all.simps(2))

lemma returns_reject_if:
  "returns c \<Longrightarrow> (c = Inr False \<Longrightarrow> returns rest) \<Longrightarrow> returns (reject_if c code reason rest)"
  by (auto simp: returns_def reject_if_def)

lemma returns_py_not: "returns c \<Longrightarrow> returns (py_not c)"
  by (auto simp: returns_def py_not_def)

lemmas returns_intros = returns_Inr returns_py_all_Nil returns_py_all_Cons returns_reject_if returns_py_not

lemma returns_finite_number: "within_float_range v \<Longrightarrow> returns (is_finite_number v)"
  by (cases v) (auto simp: returns_def within_float_range_def is_finite_number_def float_of_int_def is_finite_iff)

lemma returns_float_cmp: "denotes v q \<Longrightarrow> returns (float_cmp p v)"
  by (auto simp: returns_def float_cmp_def dest!: denotes_to_float)

lemma returns_not_finite_or:
  assumes "within_float_range v" shows "returns (not_finite_or p v)"
proof -
  obtain b where b: "is_finite_number v = Inr b" using returns_finite_number [OF assms] by (auto simp: returns_def)
  show ?thesis
  proof (cases b)
    case True
    with b obtain q where "denotes v q" by (auto simp: denotes_is_finite_number)
    with b True show ?thesis using returns_float_cmp by (simp add: not_finite_or_def)
  qed (simp add: not_finite_or_def b)
qed

lemma returns_levels_invalid:
  assumes "within_float_range (int_entry i)" "within_float_range (int_stop_loss i)" "within_float_range (int_take_profit i)"
  shows "returns (levels_invalid i)"
  unfolding levels_invalid_def using assms
  by (auto intro!: returns_intros returns_finite_number intro: returns_float_cmp simp: denotes_is_finite_number)

lemma levels_invalid_False:
  "levels_invalid i = Inr False \<Longrightarrow> \<exists>e s t. denotes (int_entry i) e \<and> denotes (int_stop_loss i) s \<and> denotes (int_take_profit i) t"
  by (auto simp: levels_invalid_def denotes_is_finite_number)

lemma returns_context_valid:
  assumes "within_float_range (ctx_daily_loss_percent c)" "within_float_range (ctx_max_daily_loss_percent c)"
  shows "returns (context_valid i c)"
  unfolding context_valid_def using assms
  by (intro returns_intros) (auto intro: returns_finite_number returns_float_cmp simp: denotes_is_finite_number)

lemma returns_level_violation:
  "denotes a p \<Longrightarrow> denotes b q \<Longrightarrow> denotes c r \<Longrightarrow> returns (level_violation i s a b c)"
  by (auto simp: level_violation_def py_less_denotes intro!: returns_intros)

lemma context_valid_numbers:
  assumes "context_valid i c = Inr True"
  shows "returns (py_ge (ctx_daily_loss_percent c) (ctx_max_daily_loss_percent c))"
    "returns (py_ge (ctx_daily_trade_count c) (ctx_max_daily_trades c))"
    "returns (py_ge (PyInt n) (ctx_max_open_positions c))"
  using assms by (auto simp: context_valid_def denotes_is_finite_number py_ge_denotes positive_count_def
      split: option.splits)

lemma returns_loss_exceeds_risk:
  "not_finite_or p (int_authorized_risk_amount i) = Inr False \<Longrightarrow>
   not_finite_or p' (int_expected_loss_at_stop i) = Inr False \<Longrightarrow> returns (loss_exceeds_risk i)"
  by (auto simp: not_finite_or_False loss_exceeds_risk_def dest!: denotes_to_float)

text \<open>C40. The policy always returns a decision: for any intent and any context, malformed ones
  included, no check raises, provided the integers among the numeric fields are within the range
  of a float (\<open>float(value)\<close> raises \<open>OverflowError\<close> beyond it).\<close>

theorem evaluate_returns:
  assumes i: "\<forall>v \<in> set [int_authorized_risk_amount i, int_expected_loss_at_stop i, int_entry i,
      int_stop_loss i, int_take_profit i]. within_float_range v"
    and c: "\<forall>c. ctx = Some c \<longrightarrow> within_float_range (ctx_daily_loss_percent c)
      \<and> within_float_range (ctx_max_daily_loss_percent c)"
  shows "\<exists>d. evaluate i ctx = Inr d"
proof -
  have chk: "returns (evaluate_checked i c)" if v: "context_valid i c = Inr True" for c
    unfolding evaluate_checked_def using i context_valid_numbers [OF v]
    by (intro returns_reject_if)
       (auto intro!: returns_not_finite_or returns_levels_invalid
          dest!: levels_invalid_False intro: returns_loss_exceeds_risk returns_level_violation)
  have "returns (evaluate i ctx)"
    unfolding evaluate_def using c
    by (auto split: option.splits intro!: returns_reject_if returns_py_not returns_context_valid chk)
  then show ?thesis by (simp add: returns_def)
qed


section \<open>Concrete intent and context\<close>

definition sample_quantity :: execution_quantity where
  "sample_quantity = \<lparr>qty_value = Fin 2, qty_unit = MT5_LOTS\<rparr>"

definition sample_intent :: execution_intent where
  "sample_intent = \<lparr>int_symbol = PyStr ''FX Vol 20'', int_side = PySide BUY,
     int_quantity = PyQuantity sample_quantity, int_authorized_risk_amount = PyFloat (Fin 5),
     int_expected_loss_at_stop = PyFloat (Fin 4), int_quantity_risk_verified = PyBool True,
     int_entry = PyFloat (Fin 100), int_stop_loss = PyFloat (Fin 98), int_take_profit = PyInt 104,
     int_idempotency_key = PyStr ''jqe-v2-1'', int_risk_approved = PyBool True,
     int_magic_number = None, int_order_comment = None\<rparr>"

definition sample_context :: execution_context where
  "sample_context = \<lparr>ctx_emergency_stop = PyBool False, ctx_daily_loss_percent = PyFloat (Fin 0),
     ctx_max_daily_loss_percent = PyFloat (Fin 3), ctx_daily_trade_count = PyInt 0,
     ctx_max_daily_trades = PyInt 5, ctx_open_positions = PyTuple [], ctx_max_open_positions = PyInt 1,
     ctx_used_idempotency_keys = PyFrozenset [], ctx_execution_enabled = PyBool True,
     ctx_dry_run = PyBool False, ctx_broker = PyStr ''weltrade_demo'', ctx_environment = PyStr ''demo'',
     ctx_account_id = PyStr ''weltrade_demo:7'', ctx_approved_brokers = PyFrozenset [PyStr ''weltrade_demo''],
     ctx_approved_environments = PyFrozenset [PyStr ''demo''],
     ctx_approved_accounts = PyFrozenset [PyStr ''weltrade_demo:7''],
     ctx_approved_symbols = PyFrozenset [PyStr ''FX VOL 20''],
     ctx_daily_state_authoritative = PyBool True\<rparr>"

lemma within_float_range_simps [simp]:
  "within_float_range (PyFloat x)" "within_float_range (PyInt i) \<longleftrightarrow> is_finite (fl (of_int i))"
  by (auto simp: within_float_range_def)

lemma risk_tolerance_finite: "is_finite risk_tolerance" and risk_tolerance_ge: "Fin 1 \<le> risk_tolerance"
proof -
  have "fl (1 / 10 ^ 12) \<le> fl 1" by (rule fl_mono) simp
  moreover have "Fin 0 \<le> fl (1 / 10 ^ 12)" by (rule fl_nonneg) simp
  ultimately obtain t where t: "fl (1 / 10 ^ 12) = Fin t" "0 \<le> t" "t \<le> 1"
    by (cases "fl (1 / 10 ^ 12)") auto
  have "fl 1 \<le> fl (1 + t)" by (rule fl_mono) (use t in simp)
  moreover have "fl (1 + t) \<le> fl 2" by (rule fl_mono) (use t in simp)
  ultimately show "is_finite risk_tolerance" "Fin 1 \<le> risk_tolerance"
    using t by (cases "fl (1 + t)"; simp add: risk_tolerance_def)+
qed

lemma sample_symbol_normalized: "py_upper (py_strip ''FX Vol 20'') = ''FX VOL 20''"
  by code_simp

lemma sample_risk_bounded: "risk_bounded sample_intent"
proof -
  have "Fin 5 \<le> Fin 5 * risk_tolerance"
    using risk_tolerance_finite risk_tolerance_ge by (intro float_mult_ge) (auto simp: is_double_def)
  then have "\<not> Fin 5 * risk_tolerance < Fin 4" by (cases "Fin 5 * risk_tolerance") auto
  then show ?thesis by (simp add: risk_bounded_def sample_intent_def denotes_def)
qed

lemma sample_safe: "execution_safe sample_intent sample_context"
  using sample_risk_bounded
  by (simp add: execution_safe_def within_limits_def sample_intent_def sample_context_def
      sample_quantity_def deployment_authorized_def member_text_def str_in_def identities_present_def
      nonblank_iff py_isspace_def str_set_ok_def quantity_typed_def expected_unit_def symbol_open_def
      normalized_text_def sample_symbol_normalized denotes_def levels_ordered_def)

theorem evaluate_returns_witness: "\<exists>d. evaluate sample_intent (Some sample_context) = Inr d"
  by (rule evaluate_returns) (simp_all add: sample_intent_def sample_context_def)

end
