(* ===== verification/Intent_Models.thy ===== *)
theory Intent_Models
  imports Execution_Policy
begin

text \<open>
  \<open>execution/models.py\<close>: the durable state shared by the executor and the stores. An
  \<open>IntentRecord\<close> captures the full parameters of an order intent. Its numeric fields hold
  whatever number the intent had (\<open>PyNone\<close> for \<open>None\<close>); the SQLite store converts them to REAL
  when it binds them.
\<close>

section \<open>Enumerations\<close>

datatype intent_status = PENDING | ACCEPTED | REJECTED | UNKNOWN

fun status_value :: "intent_status \<Rightarrow> string" where
  "status_value PENDING = ''PENDING''"
| "status_value ACCEPTED = ''ACCEPTED''"
| "status_value REJECTED = ''REJECTED''"
| "status_value UNKNOWN = ''UNKNOWN''"

definition status_of_value :: "string \<Rightarrow> intent_status result" where
  "status_of_value s = (if s = ''PENDING'' then Inr PENDING else if s = ''ACCEPTED'' then Inr ACCEPTED
     else if s = ''REJECTED'' then Inr REJECTED else if s = ''UNKNOWN'' then Inr UNKNOWN
     else Inl (ValueError ''not a valid IntentRecordStatus''))"

datatype claim_state = CLAIMED | ALREADY_EXISTS | CONFLICT

datatype reservation_state = ACQUIRED | HELD | UNRESOLVED_INTENT

lemma status_of_value_value [simp]: "status_of_value (status_value s) = Inr s"
  by (cases s) (auto simp: status_of_value_def)

lemma status_of_value_Inr: "status_of_value t = Inr s \<Longrightarrow> t = status_value s"
  by (auto simp: status_of_value_def split: if_splits)

lemma status_value_inject [simp]: "status_value a = status_value b \<longleftrightarrow> a = b"
  by (cases a; cases b) auto

section \<open>Intent records\<close>

text \<open>\<open>side: OrderSide | str | None\<close>\<close>

datatype record_side = NoSide | EnumSide order_side | TextSide string

record intent_record =
  rec_idempotency_key :: pyval
  rec_status :: intent_status
  rec_order_id :: "string option"
  rec_transaction_id :: "string option"
  rec_symbol :: "string option"
  rec_side :: record_side
  rec_quantity :: "execution_quantity option"
  rec_entry :: pyval
  rec_stop_loss :: pyval
  rec_take_profit :: pyval
  rec_authorized_risk_amount :: pyval
  rec_expected_loss_at_stop :: pyval
  rec_broker :: "string option"
  rec_account_id :: "string option"

text \<open>\<open>IntentRecord(key, status, order_id, transaction_id)\<close>, the other fields at their defaults.\<close>

definition bare_record :: "pyval \<Rightarrow> intent_status \<Rightarrow> string option \<Rightarrow> string option \<Rightarrow> intent_record" where
  "bare_record key status order_id transaction_id =
     \<lparr>rec_idempotency_key = key, rec_status = status, rec_order_id = order_id,
      rec_transaction_id = transaction_id, rec_symbol = None, rec_side = NoSide, rec_quantity = None,
      rec_entry = PyNone, rec_stop_loss = PyNone, rec_take_profit = PyNone,
      rec_authorized_risk_amount = PyNone, rec_expected_loss_at_stop = PyNone,
      rec_broker = None, rec_account_id = None\<rparr>"

text \<open>\<open>OrderSide(v)\<close> of a member or of a string; other values raise.\<close>

definition side_of_pyval :: "pyval \<Rightarrow> order_side result" where
  "side_of_pyval v = (case text_of v of Some s \<Rightarrow> side_of_value s
     | None \<Rightarrow> Inl (ValueError ''not a valid OrderSide''))"

fun quantity_of_pyval :: "pyval \<Rightarrow> execution_quantity option" where
  "quantity_of_pyval (PyQuantity q) = Some q"
| "quantity_of_pyval _ = None"

definition from_execution_intent ::
  "execution_intent \<Rightarrow> intent_status \<Rightarrow> string option \<Rightarrow> string option \<Rightarrow> string option \<Rightarrow> string option
   \<Rightarrow> intent_record result" where
  "from_execution_intent intent status order_id transaction_id broker account_id =
     rbind (side_of_pyval (int_side intent)) (\<lambda>side. Inr
     \<lparr>rec_idempotency_key = int_idempotency_key intent, rec_status = status, rec_order_id = order_id,
      rec_transaction_id = transaction_id, rec_symbol = text_of (int_symbol intent),
      rec_side = EnumSide side, rec_quantity = quantity_of_pyval (int_quantity intent),
      rec_entry = int_entry intent, rec_stop_loss = int_stop_loss intent,
      rec_take_profit = int_take_profit intent,
      rec_authorized_risk_amount = int_authorized_risk_amount intent,
      rec_expected_loss_at_stop = int_expected_loss_at_stop intent,
      rec_broker = broker, rec_account_id = account_id\<rparr>)"

definition to_execution_intent :: "intent_record \<Rightarrow> execution_intent option result" where
  "to_execution_intent r =
     (case (rec_symbol r, rec_quantity r) of
        (Some symb, Some quantity) \<Rightarrow>
          if rec_side r = NoSide \<or> PyNone \<in> set [rec_entry r, rec_stop_loss r, rec_take_profit r,
               rec_authorized_risk_amount r, rec_expected_loss_at_stop r]
          then Inr None
          else rbind (case rec_side r of EnumSide s \<Rightarrow> Inr s | TextSide t \<Rightarrow> side_of_value t
                      | NoSide \<Rightarrow> Inl (ValueError [])) (\<lambda>side. Inr (Some
            \<lparr>int_symbol = PyStr symb, int_side = PySide side, int_quantity = PyQuantity quantity,
             int_authorized_risk_amount = rec_authorized_risk_amount r,
             int_expected_loss_at_stop = rec_expected_loss_at_stop r,
             int_quantity_risk_verified = PyBool True, int_entry = rec_entry r,
             int_stop_loss = rec_stop_loss r, int_take_profit = rec_take_profit r,
             int_idempotency_key = rec_idempotency_key r, int_risk_approved = PyBool True,
             int_magic_number = None, int_order_comment = None\<rparr>))
      | _ \<Rightarrow> Inr None)"

record execution_reservation =
  resv_scope :: string
  resv_owner_id :: string
  resv_acquired_at :: pydatetime
  resv_expires_at :: pydatetime

section \<open>Round trip\<close>

text \<open>An intent whose fields have the declared types survives the round trip through a record,
  except for the two fields that are not recorded (magic number and comment).\<close>

lemma intent_record_roundtrip:
  assumes "int_symbol i = PyStr s" "int_side i = PySide d" "int_quantity i = PyQuantity q"
    and "PyNone \<notin> set [int_entry i, int_stop_loss i, int_take_profit i,
      int_authorized_risk_amount i, int_expected_loss_at_stop i]"
    and "int_quantity_risk_verified i = PyBool True" "int_risk_approved i = PyBool True"
  obtains r where "from_execution_intent i st oid tid b a = Inr r"
    and "to_execution_intent r = Inr (Some (i\<lparr>int_magic_number := None, int_order_comment := None\<rparr>))"
  using assms
  by (cases i) (fastforce simp: from_execution_intent_def to_execution_intent_def side_of_pyval_def)

end
