(* ===== verification/Intent_Store.thy ===== *)
theory Intent_Store
  imports Intent_Models "HOL-Library.List_Lexorder" "HOL-Library.Product_Lexorder"
begin

text \<open>
  \<open>SQLiteIntentRecordStore\<close> of \<open>execution/persistence.py\<close>: the durable intent table, the
  execution reservations (one lease per account scope) and the post-fill integrity halt.

  The store is the record \<open>intent_db\<close> of its three tables. Every operation opens a connection;
  opening it can fail at any time (locked file, I/O error), and \<open>db_outages\<close> says for the next
  operations whether it does. Each operation runs in one write transaction that is rolled back on
  an exception, so it either returns with its effect or raises with the tables unchanged. The
  current time is an argument: it is what the clock of the source returns.
\<close>

section \<open>Rows\<close>

record intent_row =
  row_idempotency_key :: string
  row_state :: string
  row_order_id :: "string option"
  row_transaction_id :: "string option"
  row_created_at :: int
  row_updated_at :: int
  row_symbol :: "string option"
  row_side :: "string option"
  row_quantity_value :: "pyfloat option"
  row_quantity_unit :: "string option"
  row_entry :: "pyfloat option"
  row_stop_loss :: "pyfloat option"
  row_take_profit :: "pyfloat option"
  row_authorized_risk_amount :: "pyfloat option"
  row_expected_loss_at_stop :: "pyfloat option"
  row_broker :: "string option"
  row_account_id :: "string option"
  row_recovery_outcome :: "string option"
  row_reconciliation_state :: "string option"
  row_recovery_reason :: "string option"

record reservation_row =
  rsv_scope :: string
  rsv_owner_id :: string
  rsv_acquired_at :: iso_text
  rsv_expires_at :: iso_text

record intent_db =
  db_intents :: "intent_row list"
  db_reservations :: "reservation_row list"
  db_halt :: "string option"
  db_outages :: "bool list"

type_synonym 'a store_op = "intent_db \<Rightarrow> 'a result \<times> intent_db"

text \<open>\<open>self._connect()\<close>\<close>

definition with_connection :: "intent_db \<Rightarrow> (intent_db \<Rightarrow> 'a result \<times> intent_db) \<Rightarrow> 'a result \<times> intent_db" where
  "with_connection s body =
     (case db_outages s of
        [] \<Rightarrow> body s
      | down # rest \<Rightarrow>
          if down then (Inl (DatabaseError ''unable to open database file''), s\<lparr>db_outages := rest\<rparr>)
          else body (s\<lparr>db_outages := rest\<rparr>))"

section \<open>Transitions\<close>

fun ALLOWED_TRANSITIONS :: "intent_status \<Rightarrow> intent_status list" where
  "ALLOWED_TRANSITIONS PENDING = [ACCEPTED, REJECTED, UNKNOWN]"
| "ALLOWED_TRANSITIONS UNKNOWN = [ACCEPTED, REJECTED, UNKNOWN]"
| "ALLOWED_TRANSITIONS ACCEPTED = [ACCEPTED]"
| "ALLOWED_TRANSITIONS REJECTED = [REJECTED]"

definition unresolved :: "intent_status \<Rightarrow> bool" where
  "unresolved st \<longleftrightarrow> st = PENDING \<or> st = UNKNOWN"

section \<open>Validation and decoding\<close>

definition validate_key :: "pyval \<Rightarrow> string result" where
  "validate_key key = (case text_of key of
      Some k \<Rightarrow> if nonblank k then Inr k else Inl (ValueError ''Idempotency key must be a nonblank string'')
    | None \<Rightarrow> Inl (ValueError ''Idempotency key must be a nonblank string''))"

definition validate_reservation_identity :: "string \<Rightarrow> string \<Rightarrow> unit result" where
  "validate_reservation_identity scp owner =
     (if \<not> nonblank scp then Inl (ValueError ''Reservation scope must be a nonblank string'')
      else if \<not> nonblank owner then Inl (ValueError ''Reservation owner must be a nonblank string'')
      else Inr ())"

definition malformed_record :: py_exn where
  "malformed_record = ValueError ''Malformed persisted intent record''"

definition decode_quantity :: "intent_row \<Rightarrow> execution_quantity option result" where
  "decode_quantity row =
     (case row_quantity_value row of None \<Rightarrow> Inr None
      | Some v \<Rightarrow> (case row_quantity_unit row of None \<Rightarrow> Inl malformed_record
      | Some u \<Rightarrow> rbind (unit_of_value u) (\<lambda>unit. rbind (make_quantity v unit) (\<lambda>q. Inr (Some q)))))"

definition decode_side :: "intent_row \<Rightarrow> record_side result" where
  "decode_side row =
     (case row_side row of None \<Rightarrow> Inr NoSide | Some t \<Rightarrow> rbind (side_of_value t) (\<lambda>s. Inr (EnumSide s)))"

definition real_column :: "pyfloat option \<Rightarrow> pyval" where
  "real_column x = (case x of None \<Rightarrow> PyNone | Some v \<Rightarrow> PyFloat v)"

definition decode :: "intent_row \<Rightarrow> intent_record result" where
  "decode row =
     (case rbind (decode_quantity row) (\<lambda>quantity. rbind (decode_side row) (\<lambda>side.
           rbind (status_of_value (row_state row)) (\<lambda>status. Inr
      \<lparr>rec_idempotency_key = PyStr (row_idempotency_key row), rec_status = status,
       rec_order_id = row_order_id row, rec_transaction_id = row_transaction_id row,
       rec_symbol = row_symbol row, rec_side = side, rec_quantity = quantity,
       rec_entry = real_column (row_entry row), rec_stop_loss = real_column (row_stop_loss row),
       rec_take_profit = real_column (row_take_profit row),
       rec_authorized_risk_amount = real_column (row_authorized_risk_amount row),
       rec_expected_loss_at_stop = real_column (row_expected_loss_at_stop row),
       rec_broker = row_broker row, rec_account_id = row_account_id row\<rparr>)))
      of Inl e \<Rightarrow> Inl malformed_record | Inr r \<Rightarrow> Inr r)"

fun decode_all :: "intent_row list \<Rightarrow> intent_record list result" where
  "decode_all [] = Inr []"
| "decode_all (r # rs) = rbind (decode r) (\<lambda>x. rbind (decode_all rs) (\<lambda>xs. Inr (x # xs)))"

definition malformed_reservation :: py_exn where
  "malformed_reservation = ValueError ''Malformed execution reservation''"

definition decode_reservation :: "reservation_row \<Rightarrow> execution_reservation result" where
  "decode_reservation row =
     (case (rsv_acquired_at row, rsv_expires_at row) of
        (Iso acquired, Iso expires) \<Rightarrow>
          if \<not> nonblank (rsv_scope row) \<or> \<not> nonblank (rsv_owner_id row)
             \<or> \<not> tz_aware acquired \<or> \<not> tz_aware expires \<or> instant expires \<le> instant acquired
          then Inl malformed_reservation
          else Inr \<lparr>resv_scope = rsv_scope row, resv_owner_id = rsv_owner_id row,
                    resv_acquired_at = acquired, resv_expires_at = expires\<rparr>
      | _ \<Rightarrow> Inl malformed_reservation)"

definition store_now :: "pydatetime \<Rightarrow> pydatetime result" where
  "store_now clock = (if \<not> tz_aware clock
     then Inl (ValueError ''Reservation clock must return a timezone-aware datetime'')
     else Inr (to_utc clock))"

text \<open>All rows are read and their states decoded before any is tested.\<close>

fun row_states :: "intent_row list \<Rightarrow> (string \<times> intent_status) list result" where
  "row_states [] = Inr []"
| "row_states (r # rs) = rbind (status_of_value (row_state r)) (\<lambda>st.
     rbind (row_states rs) (\<lambda>xs. Inr ((row_idempotency_key r, st) # xs)))"

definition has_other_unresolved_intent :: "intent_db \<Rightarrow> string \<Rightarrow> bool result" where
  "has_other_unresolved_intent s intent_key =
     rbind (row_states (db_intents s)) (\<lambda>states.
       Inr (\<exists>(key, st) \<in> set states. key \<noteq> intent_key \<and> unresolved st))"

section \<open>Queries\<close>

abbreviation intent_of :: "string \<Rightarrow> intent_db \<Rightarrow> intent_row option" where
  "intent_of k s \<equiv> sel row_idempotency_key k (db_intents s)"

abbreviation reservation_of :: "string \<Rightarrow> intent_db \<Rightarrow> reservation_row option" where
  "reservation_of sc s \<equiv> sel rsv_scope sc (db_reservations s)"

definition store_get :: "pyval \<Rightarrow> intent_record option store_op" where
  "store_get key s =
     (case validate_key key of Inl e \<Rightarrow> (Inl e, s) | Inr k \<Rightarrow>
      with_connection s (\<lambda>s. ((case intent_of k s of None \<Rightarrow> Inr None
        | Some row \<Rightarrow> rbind (decode row) (\<lambda>r. Inr (Some r))), s)))"

definition creation_order :: "intent_row list \<Rightarrow> intent_row list" where
  "creation_order rows = sort_key (\<lambda>r. (row_created_at r, row_idempotency_key r)) rows"

definition list_unresolved :: "intent_record list store_op" where
  "list_unresolved s = with_connection s (\<lambda>s.
     (rbind (decode_all (creation_order (db_intents s))) (\<lambda>rs. Inr (filter (\<lambda>r. unresolved (rec_status r)) rs)), s))"

record intent_inspection =
  insp_idempotency_key :: string
  insp_status :: intent_status
  insp_order_id :: "string option"
  insp_transaction_id :: "string option"
  insp_created_at :: int
  insp_updated_at :: int
  insp_symbol :: "string option"
  insp_side :: "string option"
  insp_quantity_value :: "pyfloat option"
  insp_quantity_unit :: "string option"
  insp_entry :: pyval
  insp_stop_loss :: pyval
  insp_take_profit :: pyval
  insp_authorized_risk_amount :: pyval
  insp_expected_loss_at_stop :: pyval
  insp_broker :: "string option"
  insp_account_id :: "string option"
  insp_reconstruction_valid :: bool
  insp_recovery_outcome :: "string option"
  insp_reconciliation_state :: "string option"
  insp_recovery_reason :: "string option"

fun record_side_text :: "record_side \<Rightarrow> string option" where
  "record_side_text NoSide = None"
| "record_side_text (EnumSide d) = Some (side_value d)"
| "record_side_text (TextSide t) = Some t"

definition inspection_of :: "intent_row \<Rightarrow> intent_inspection result" where
  "inspection_of row = rbind (decode row) (\<lambda>r. rbind (to_execution_intent r) (\<lambda>reconstructed. Inr
     \<lparr>insp_idempotency_key = row_idempotency_key row, insp_status = rec_status r,
      insp_order_id = rec_order_id r, insp_transaction_id = rec_transaction_id r,
      insp_created_at = row_created_at row, insp_updated_at = row_updated_at row,
      insp_symbol = rec_symbol r, insp_side = record_side_text (rec_side r),
      insp_quantity_value = map_option qty_value (rec_quantity r),
      insp_quantity_unit = map_option (\<lambda>q. unit_value (qty_unit q)) (rec_quantity r),
      insp_entry = rec_entry r, insp_stop_loss = rec_stop_loss r, insp_take_profit = rec_take_profit r,
      insp_authorized_risk_amount = rec_authorized_risk_amount r,
      insp_expected_loss_at_stop = rec_expected_loss_at_stop r,
      insp_broker = rec_broker r, insp_account_id = rec_account_id r,
      insp_reconstruction_valid = (reconstructed \<noteq> None),
      insp_recovery_outcome = row_recovery_outcome row,
      insp_reconciliation_state = row_reconciliation_state row,
      insp_recovery_reason = row_recovery_reason row\<rparr>))"

definition inspect :: "pyval \<Rightarrow> intent_inspection option store_op" where
  "inspect key s =
     (case validate_key key of Inl e \<Rightarrow> (Inl e, s) | Inr k \<Rightarrow>
      with_connection s (\<lambda>s. ((case intent_of k s of None \<Rightarrow> Inr None
        | Some row \<Rightarrow> rbind (inspection_of row) (\<lambda>i. Inr (Some i))), s)))"

fun inspect_each :: "string list \<Rightarrow> intent_inspection list store_op" where
  "inspect_each [] s = (Inr [], s)"
| "inspect_each (k # ks) s =
     (case inspect (PyStr k) s of
        (Inl e, s1) \<Rightarrow> (Inl e, s1)
      | (Inr found, s1) \<Rightarrow>
          (case inspect_each ks s1 of
             (Inl e, s2) \<Rightarrow> (Inl e, s2)
           | (Inr rest, s2) \<Rightarrow> (Inr ((case found of None \<Rightarrow> [] | Some i \<Rightarrow> [i]) @ rest), s2)))"

definition list_unresolved_inspections :: "intent_inspection list store_op" where
  "list_unresolved_inspections s =
     (case with_connection s (\<lambda>s. (Inr (map row_idempotency_key (creation_order
         (filter (\<lambda>r. row_state r \<in> {status_value PENDING, status_value UNKNOWN}) (db_intents s)))), s)) of
        (Inl e, s1) \<Rightarrow> (Inl e, s1)
      | (Inr keys, s1) \<Rightarrow> inspect_each keys s1)"

definition post_fill_integrity_halt :: "string option store_op" where
  "post_fill_integrity_halt s = with_connection s (\<lambda>s. (Inr (db_halt s), s))"

section \<open>Updates\<close>

text \<open>\<open>INSERT OR IGNORE\<close> into the singleton row: the first reason stays.\<close>

definition record_post_fill_integrity_halt :: "pyval \<Rightarrow> unit store_op" where
  "record_post_fill_integrity_halt reason s =
     (case text_of reason of
        Some r \<Rightarrow> if nonblank r
          then with_connection s (\<lambda>s. (Inr (), s\<lparr>db_halt := (case db_halt s of None \<Rightarrow> Some (py_strip r) | Some h \<Rightarrow> Some h)\<rparr>))
          else (Inl (ValueError ''Post-fill integrity reason must be nonblank''), s)
      | None \<Rightarrow> (Inl (ValueError ''Post-fill integrity reason must be nonblank''), s))"

definition record_recovery_diagnostic ::
  "pyval \<Rightarrow> string \<Rightarrow> string option \<Rightarrow> string \<Rightarrow> bool store_op" where
  "record_recovery_diagnostic key outcome reconciliation reason s =
     (case validate_key key of Inl e \<Rightarrow> (Inl e, s) | Inr k \<Rightarrow>
      with_connection s (\<lambda>s.
        (Inr (rowcount (\<lambda>r. row_idempotency_key r = k) (db_intents s) = 1),
         s\<lparr>db_intents := upd_where (\<lambda>r. row_idempotency_key r = k)
            (\<lambda>r. r\<lparr>row_recovery_outcome := Some outcome, row_reconciliation_state := reconciliation,
                   row_recovery_reason := Some reason\<rparr>) (db_intents s)\<rparr>)))"

text \<open>\<open>INSERT ... ON CONFLICT(scope) DO UPDATE\<close>\<close>

definition upsert_reservation :: "reservation_row \<Rightarrow> reservation_row list \<Rightarrow> reservation_row list" where
  "upsert_reservation new rows =
     (case sel rsv_scope (rsv_scope new) rows of
        None \<Rightarrow> rows @ [new]
      | Some _ \<Rightarrow> upd_where (\<lambda>r. rsv_scope r = rsv_scope new) (\<lambda>_. new) rows)"

text \<open>The part of the transaction after the lease check: refuse while another intent is unresolved,
  else take the lease.\<close>

definition take_lease :: "reservation_row \<Rightarrow> string \<Rightarrow> reservation_state store_op" where
  "take_lease new intent_key s =
     (case has_other_unresolved_intent s intent_key of
        Inl e \<Rightarrow> (Inl e, s)
      | Inr b \<Rightarrow> if b then (Inr UNRESOLVED_INTENT, s)
          else (Inr ACQUIRED, s\<lparr>db_reservations := upsert_reservation new (db_reservations s)\<rparr>))"

definition acquire_reservation ::
  "string \<Rightarrow> string \<Rightarrow> int \<Rightarrow> pyval \<Rightarrow> pydatetime \<Rightarrow> reservation_state store_op" where
  "acquire_reservation scp owner lease_seconds intent_key clock s =
     (case rbind (validate_reservation_identity scp owner) (\<lambda>_. rbind (validate_key intent_key) (\<lambda>k.
           if lease_seconds \<le> 0
           then Inl (ValueError ''Reservation lease duration must be a positive integer'')
           else rbind (store_now clock) (\<lambda>now. Inr (k, now)))) of
        Inl e \<Rightarrow> (Inl e, s)
      | Inr (k, now) \<Rightarrow>
          let expires = Aware (instant now + lease_seconds * microseconds_per_second) 0;
              new = \<lparr>rsv_scope = scp, rsv_owner_id = owner, rsv_acquired_at = Iso now, rsv_expires_at = Iso expires\<rparr>
          in with_connection s (\<lambda>s. case reservation_of scp s of
               None \<Rightarrow> take_lease new k s
             | Some row \<Rightarrow> (case decode_reservation row of
                   Inl e \<Rightarrow> (Inl e, s)
                 | Inr current \<Rightarrow> if instant now < instant (resv_expires_at current) then (Inr HELD, s)
                     else take_lease new k s)))"

definition release_reservation :: "string \<Rightarrow> string \<Rightarrow> bool store_op" where
  "release_reservation scp owner s =
     (case validate_reservation_identity scp owner of Inl e \<Rightarrow> (Inl e, s) | Inr _ \<Rightarrow>
      with_connection s (\<lambda>s.
        let mine = (\<lambda>r. rsv_scope r = scp \<and> rsv_owner_id r = owner) in
        (Inr (rowcount mine (db_reservations s) = 1),
         s\<lparr>db_reservations := filter (\<lambda>r. \<not> mine r) (db_reservations s)\<rparr>)))"

text \<open>Binding a number to a REAL column: an integer outside 64 bits raises, a NaN becomes NULL.\<close>

fun bind_real :: "pyval \<Rightarrow> pyfloat option result" where
  "bind_real PyNone = Inr None"
| "bind_real (PyInt i) = (if - (2 ^ 63) \<le> i \<and> i < 2 ^ 63 then Inr (Some (fl (of_int i))) else Inl OverflowError)"
| "bind_real (PyFloat x) = Inr (if x = NaN then None else Some x)"
| "bind_real (PyBool b) = Inr (Some (Fin (if b then 1 else 0)))"
| "bind_real _ = Inl (DatabaseError ''type is not supported'')"

definition encode :: "intent_record \<Rightarrow> string \<Rightarrow> int \<Rightarrow> string option \<Rightarrow> intent_row result" where
  "encode r key now account =
     rbind (bind_real (rec_entry r)) (\<lambda>entry. rbind (bind_real (rec_stop_loss r)) (\<lambda>stop.
     rbind (bind_real (rec_take_profit r)) (\<lambda>target.
     rbind (bind_real (rec_authorized_risk_amount r)) (\<lambda>risk.
     rbind (bind_real (rec_expected_loss_at_stop r)) (\<lambda>loss. Inr
     \<lparr>row_idempotency_key = key, row_state = status_value (rec_status r),
      row_order_id = rec_order_id r, row_transaction_id = rec_transaction_id r,
      row_created_at = now, row_updated_at = now, row_symbol = rec_symbol r,
      row_side = record_side_text (rec_side r),
      row_quantity_value = map_option qty_value (rec_quantity r),
      row_quantity_unit = map_option (\<lambda>q. unit_value (qty_unit q)) (rec_quantity r),
      row_entry = entry, row_stop_loss = stop, row_take_profit = target,
      row_authorized_risk_amount = risk, row_expected_loss_at_stop = loss,
      row_broker = rec_broker r, row_account_id = account,
      row_recovery_outcome = None, row_reconciliation_state = None, row_recovery_reason = None\<rparr>)))))"

text \<open>The \<open>INSERT\<close> of a claim: the primary key refuses a second row with the same key.\<close>

definition insert_intent :: "intent_record \<Rightarrow> string \<Rightarrow> int \<Rightarrow> string option \<Rightarrow> claim_state store_op" where
  "insert_intent r key now account s =
     (case encode r key now account of
        Inl e \<Rightarrow> (Inl e, s)
      | Inr row \<Rightarrow> (case intent_of key s of
            Some _ \<Rightarrow> (Inr ALREADY_EXISTS, s)
          | None \<Rightarrow> (Inr CLAIMED, s\<lparr>db_intents := db_intents s @ [row]\<rparr>)))"

definition try_claim_under_reservation ::
  "intent_record \<Rightarrow> string \<Rightarrow> string \<Rightarrow> pydatetime \<Rightarrow> claim_state store_op" where
  "try_claim_under_reservation r scp owner clock s =
     (case rbind (validate_key (rec_idempotency_key r)) (\<lambda>key.
           rbind (validate_reservation_identity scp owner) (\<lambda>_.
           rbind (store_now clock) (\<lambda>now. Inr (key, now)))) of
        Inl e \<Rightarrow> (Inl e, s)
      | Inr (key, now) \<Rightarrow> with_connection s (\<lambda>s.
          case reservation_of scp s of
            None \<Rightarrow> (Inr CONFLICT, s)
          | Some row \<Rightarrow> (case decode_reservation row of
                Inl e \<Rightarrow> (Inl e, s)
              | Inr resv \<Rightarrow>
                  if resv_owner_id resv \<noteq> owner \<or> instant (resv_expires_at resv) \<le> instant now
                  then (Inr CONFLICT, s)
                  else insert_intent r key (instant now) (text_or (rec_account_id r) (Some scp)) s)))"

definition try_claim :: "intent_record \<Rightarrow> pydatetime \<Rightarrow> claim_state store_op" where
  "try_claim r clock s =
     (case validate_key (rec_idempotency_key r) of Inl e \<Rightarrow> (Inl e, s) | Inr key \<Rightarrow>
      with_connection s (insert_intent r key (instant clock) (rec_account_id r)))"

definition transition :: "intent_record \<Rightarrow> pydatetime \<Rightarrow> bool store_op" where
  "transition r clock s =
     (case validate_key (rec_idempotency_key r) of Inl e \<Rightarrow> (Inl e, s) | Inr key \<Rightarrow>
      with_connection s (\<lambda>s. case intent_of key s of
          None \<Rightarrow> (Inr False, s)
        | Some row \<Rightarrow> (case decode row of
              Inl e \<Rightarrow> (Inl e, s)
            | Inr current \<Rightarrow>
                if rec_status r \<notin> set (ALLOWED_TRANSITIONS (rec_status current)) then (Inr False, s)
                else (Inr True, s\<lparr>db_intents := upd_where (\<lambda>x. row_idempotency_key x = key)
                   (\<lambda>x. x\<lparr>row_state := status_value (rec_status r), row_order_id := rec_order_id r,
                          row_transaction_id := rec_transaction_id r, row_updated_at := instant clock\<rparr>)
                   (db_intents s)\<rparr>))))"

section \<open>Effect of each operation\<close>

text \<open>One lemma per operation: what it leaves unchanged, and what holds when it reports success.\<close>

definition same_tables :: "intent_db \<Rightarrow> intent_db \<Rightarrow> bool" where
  "same_tables s s' \<longleftrightarrow> db_intents s' = db_intents s \<and> db_reservations s' = db_reservations s \<and> db_halt s' = db_halt s"

lemma same_tables_outages [simp]: "same_tables s (s\<lparr>db_outages := os\<rparr>)"
  by (simp add: same_tables_def)

lemma same_tables_refl [simp]: "same_tables s s"
  by (simp add: same_tables_def)

lemma with_connectionE:
  assumes "with_connection s body = (r, s')"
  obtains (outage) os where "r = Inl (DatabaseError ''unable to open database file'')" "s' = s\<lparr>db_outages := os\<rparr>"
  | (run) os where "body (s\<lparr>db_outages := os\<rparr>) = (r, s')"
proof (cases "db_outages s")
  case Nil
  then have "s\<lparr>db_outages := []\<rparr> = s" by simp
  with assms Nil that(2) [of "[]"] show ?thesis by (simp add: with_connection_def)
next
  case (Cons d os)
  with assms that show ?thesis by (cases d) (auto simp: with_connection_def)
qed

definition live_reservation :: "intent_db \<Rightarrow> string \<Rightarrow> int \<Rightarrow> string \<Rightarrow> bool" where
  "live_reservation s sc now owner \<longleftrightarrow>
     (\<exists>row resv. reservation_of sc s = Some row \<and> decode_reservation row = Inr resv
        \<and> resv_owner_id resv = owner \<and> now < instant (resv_expires_at resv))"

lemma upsert_reservation_sel:
  "sel rsv_scope sc (upsert_reservation new rows) = (if sc = rsv_scope new then Some new else sel rsv_scope sc rows)"
proof (cases "sel rsv_scope (rsv_scope new) rows")
  case None
  then show ?thesis by (auto simp: upsert_reservation_def sel_append split: option.splits)
next
  case (Some old)
  have "sel rsv_scope sc (upd_where (\<lambda>r. rsv_scope r = rsv_scope new) (\<lambda>_. new) rows)
    = (if sc = rsv_scope new then map_option (\<lambda>_. new) (sel rsv_scope sc rows) else sel rsv_scope sc rows)"
    by (induction rows) (auto simp: upd_where_def)
  with Some show ?thesis by (auto simp: upsert_reservation_def)
qed

lemma map_scope_upsert_Some:
  "sel rsv_scope (rsv_scope new) rows = Some old \<Longrightarrow> map rsv_scope (upsert_reservation new rows) = map rsv_scope rows"
  by (auto simp: upsert_reservation_def upd_where_def)

lemma key_unique_upsert: "key_unique rsv_scope rows \<Longrightarrow> key_unique rsv_scope (upsert_reservation new rows)"
proof (cases "sel rsv_scope (rsv_scope new) rows")
  case (Some old)
  then show "key_unique rsv_scope rows \<Longrightarrow> ?thesis" by (simp add: key_unique_def map_scope_upsert_Some)
qed (simp add: upsert_reservation_def key_unique_snoc)


lemma validate_key_Inr: "validate_key v = Inr k \<longleftrightarrow> text_of v = Some k \<and> nonblank k"
  by (auto simp: validate_key_def split: option.splits if_splits)

lemma has_other_unresolved_outages [simp]:
  "has_other_unresolved_intent (s\<lparr>db_outages := os\<rparr>) k = has_other_unresolved_intent s k"
  by (simp add: has_other_unresolved_intent_def)

lemma take_lease_effect:
  assumes "take_lease new k s = (r, s')"
  shows "s' = s \<and> r \<noteq> Inr ACQUIRED \<or> r = Inr ACQUIRED \<and> has_other_unresolved_intent s k = Inr False
      \<and> s' = s\<lparr>db_reservations := upsert_reservation new (db_reservations s)\<rparr>"
  using assms by (auto simp: take_lease_def split: sum.splits if_splits)

lemma acquire_effect:
  assumes "acquire_reservation sc owner lease key clock s = (r, s')"
  obtains (none) "same_tables s s'" "r \<noteq> Inr ACQUIRED"
  | (acquired) k where "r = Inr ACQUIRED" "db_intents s' = db_intents s" "db_halt s' = db_halt s"
      "text_of key = Some k" "nonblank sc" "nonblank owner" "0 < lease" "tz_aware clock"
      "db_reservations s' = upsert_reservation \<lparr>rsv_scope = sc, rsv_owner_id = owner,
          rsv_acquired_at = Iso (to_utc clock),
          rsv_expires_at = Iso (Aware (instant clock + lease * microseconds_per_second) 0)\<rparr> (db_reservations s)"
      "\<And>o'. \<not> live_reservation s sc (instant clock) o'"
      "has_other_unresolved_intent s k = Inr False"
proof (cases "rbind (validate_reservation_identity sc owner) (\<lambda>_. rbind (validate_key key) (\<lambda>k.
           if lease \<le> 0
           then Inl (ValueError ''Reservation lease duration must be a positive integer'')
           else rbind (store_now clock) (\<lambda>now. Inr (k, now))))")
  case (Inl e)
  with assms have "r = Inl e" "s' = s" by (auto simp: acquire_reservation_def)
  with none show ?thesis by simp
next
  case (Inr p)
  then obtain k where p: "p = (k, to_utc clock)" and k: "text_of key = Some k"
    and v: "nonblank sc" "nonblank owner" "0 < lease" "tz_aware clock"
    by (auto simp: validate_reservation_identity_def validate_key_Inr store_now_def split: if_splits)
  let ?new = "\<lparr>rsv_scope = sc, rsv_owner_id = owner, rsv_acquired_at = Iso (to_utc clock),
    rsv_expires_at = Iso (Aware (instant clock + lease * microseconds_per_second) 0)\<rparr>"
  from assms Inr p have "with_connection s (\<lambda>s. case reservation_of sc s of
               None \<Rightarrow> take_lease ?new k s
             | Some row \<Rightarrow> (case decode_reservation row of
                   Inl e \<Rightarrow> (Inl e, s)
                 | Inr current \<Rightarrow> if instant clock < instant (resv_expires_at current) then (Inr HELD, s)
                     else take_lease ?new k s)) = (r, s')"
    unfolding acquire_reservation_def Inr p by (simp only: sum.case prod.case instant_to_utc Let_def)
  then show ?thesis
  proof (cases rule: with_connectionE)
    case outage
    with none show ?thesis by simp
  next
    case (run os)
    consider "s' = s\<lparr>db_outages := os\<rparr>" "r \<noteq> Inr ACQUIRED"
      | "take_lease ?new k (s\<lparr>db_outages := os\<rparr>) = (r, s')" "\<And>o'. \<not> live_reservation s sc (instant clock) o'"
      using run by (auto simp: live_reservation_def split: option.splits sum.splits if_splits)
    then show ?thesis
    proof cases
      case 1
      with none show ?thesis by simp
    next
      case 2
      from take_lease_effect [OF 2(1)] show ?thesis
        using none acquired [OF _ _ _ k v _ 2(2)] by auto
    qed
  qed
qed

lemma release_effect:
  assumes "release_reservation sc owner s = (r, s')"
  shows "db_intents s' = db_intents s" "db_halt s' = db_halt s"
    "db_reservations s' = db_reservations s
     \<or> db_reservations s' = filter (\<lambda>x. \<not> (rsv_scope x = sc \<and> rsv_owner_id x = owner)) (db_reservations s)"
  using assms by (auto simp: release_reservation_def with_connection_def Let_def
      split: sum.splits list.splits if_splits)

lemma insert_intent_effect:
  assumes "insert_intent rec key now acct s = (r, s')"
  obtains (none) "same_tables s s'" "r \<noteq> Inr CLAIMED"
  | (claimed) row where "r = Inr CLAIMED" "encode rec key now acct = Inr row" "intent_of key s = None"
      "s' = s\<lparr>db_intents := db_intents s @ [row]\<rparr>"
  using assms by (auto simp: insert_intent_def split: sum.splits option.splits)

lemma claim_effect:
  assumes "try_claim_under_reservation rec sc owner clock s = (r, s')"
  obtains (none) "same_tables s s'" "r \<noteq> Inr CLAIMED"
  | (claimed) key row where "r = Inr CLAIMED" "text_of (rec_idempotency_key rec) = Some key" "nonblank key"
      "encode rec key (instant clock) (text_or (rec_account_id rec) (Some sc)) = Inr row"
      "intent_of key s = None" "db_intents s' = db_intents s @ [row]"
      "db_reservations s' = db_reservations s" "db_halt s' = db_halt s"
      "live_reservation s sc (instant clock) owner"
proof (cases "rbind (validate_key (rec_idempotency_key rec)) (\<lambda>key.
           rbind (validate_reservation_identity sc owner) (\<lambda>_.
           rbind (store_now clock) (\<lambda>now. Inr (key, now))))")
  case (Inl e)
  with assms have "r = Inl e" "s' = s" by (auto simp: try_claim_under_reservation_def)
  with none show ?thesis by simp
next
  case (Inr p)
  then obtain key where p: "p = (key, to_utc clock)" and k: "text_of (rec_idempotency_key rec) = Some key" "nonblank key"
    by (auto simp: validate_key_Inr store_now_def split: if_splits)
  from assms Inr p have "with_connection s (\<lambda>s. case reservation_of sc s of
            None \<Rightarrow> (Inr CONFLICT, s)
          | Some row \<Rightarrow> (case decode_reservation row of
                Inl e \<Rightarrow> (Inl e, s)
              | Inr resv \<Rightarrow>
                  if resv_owner_id resv \<noteq> owner \<or> instant (resv_expires_at resv) \<le> instant clock
                  then (Inr CONFLICT, s)
                  else insert_intent rec key (instant clock) (text_or (rec_account_id rec) (Some sc)) s)) = (r, s')"
    unfolding try_claim_under_reservation_def Inr p by (simp only: sum.case prod.case instant_to_utc)
  then show ?thesis
  proof (cases rule: with_connectionE)
    case outage
    with none show ?thesis by simp
  next
    case (run os)
    show ?thesis
    proof (cases "live_reservation s sc (instant clock) owner")
      case True
      with run have "insert_intent rec key (instant clock) (text_or (rec_account_id rec) (Some sc)) (s\<lparr>db_outages := os\<rparr>) = (r, s')"
        by (auto simp: live_reservation_def)
      then show ?thesis
      proof (cases rule: insert_intent_effect)
        case none
        then have "same_tables s s'" by (simp add: same_tables_def)
        with none(2) that(1) show ?thesis by blast
      next
        case (claimed row)
        with k True that(2) show ?thesis by simp
      qed
    next
      case False
      with run have "r \<noteq> Inr CLAIMED \<and> s' = s\<lparr>db_outages := os\<rparr>"
        by (auto simp: live_reservation_def split: option.splits sum.splits if_splits)
      with none show ?thesis by simp
    qed
  qed
qed

lemma try_claim_effect:
  assumes "try_claim rec clock s = (r, s')"
  obtains (none) "same_tables s s'" "r \<noteq> Inr CLAIMED"
  | (claimed) key row where "r = Inr CLAIMED" "text_of (rec_idempotency_key rec) = Some key" "nonblank key"
      "encode rec key (instant clock) (rec_account_id rec) = Inr row"
      "intent_of key s = None" "db_intents s' = db_intents s @ [row]"
      "db_reservations s' = db_reservations s" "db_halt s' = db_halt s"
proof (cases "validate_key (rec_idempotency_key rec)")
  case (Inl e)
  with assms have "r = Inl e" "s' = s" by (auto simp: try_claim_def)
  with none show ?thesis by simp
next
  case (Inr key)
  then have k: "text_of (rec_idempotency_key rec) = Some key" "nonblank key" by (simp_all add: validate_key_Inr)
  from assms Inr have "with_connection s (insert_intent rec key (instant clock) (rec_account_id rec)) = (r, s')"
    by (simp add: try_claim_def)
  then show ?thesis
  proof (cases rule: with_connectionE)
    case outage
    with none show ?thesis by simp
  next
    case (run os)
    then show ?thesis
    proof (cases rule: insert_intent_effect)
      case none
      then have "same_tables s s'" by (simp add: same_tables_def)
      with none(2) that(1) show ?thesis by blast
    next
      case (claimed row)
      with k that(2) show ?thesis by simp
    qed
  qed
qed

lemma transition_effect:
  assumes "transition rec clock s = (r, s')"
  obtains (none) "same_tables s s'" "r \<noteq> Inr True"
  | (moved) key row cur where "r = Inr True" "text_of (rec_idempotency_key rec) = Some key"
      "intent_of key s = Some row" "decode row = Inr cur"
      "rec_status rec \<in> set (ALLOWED_TRANSITIONS (rec_status cur))"
      "db_intents s' = upd_where (\<lambda>x. row_idempotency_key x = key)
                   (\<lambda>x. x\<lparr>row_state := status_value (rec_status rec), row_order_id := rec_order_id rec,
                          row_transaction_id := rec_transaction_id rec, row_updated_at := instant clock\<rparr>)
                   (db_intents s)"
      "db_reservations s' = db_reservations s" "db_halt s' = db_halt s"
proof (cases "validate_key (rec_idempotency_key rec)")
  case (Inl e)
  with assms have "r = Inl e" "s' = s" by (auto simp: transition_def)
  with none show ?thesis by simp
next
  case (Inr key)
  then have k: "text_of (rec_idempotency_key rec) = Some key" by (simp add: validate_key_Inr)
  let ?upd = "\<lambda>x. x\<lparr>row_state := status_value (rec_status rec), row_order_id := rec_order_id rec,
    row_transaction_id := rec_transaction_id rec, row_updated_at := instant clock\<rparr>"
  from assms Inr have "with_connection s (\<lambda>s. case intent_of key s of
          None \<Rightarrow> (Inr False, s)
        | Some row \<Rightarrow> (case decode row of
              Inl e \<Rightarrow> (Inl e, s)
            | Inr current \<Rightarrow>
                if rec_status rec \<notin> set (ALLOWED_TRANSITIONS (rec_status current)) then (Inr False, s)
                else (Inr True, s\<lparr>db_intents := upd_where (\<lambda>x. row_idempotency_key x = key) ?upd (db_intents s)\<rparr>)))
     = (r, s')"
    by (simp add: transition_def)
  then show ?thesis
  proof (cases rule: with_connectionE)
    case outage
    with none show ?thesis by simp
  next
    case (run os)
    consider "s' = s\<lparr>db_outages := os\<rparr>" "r \<noteq> Inr True"
      | row cur where "intent_of key s = Some row" "decode row = Inr cur"
        "rec_status rec \<in> set (ALLOWED_TRANSITIONS (rec_status cur))" "r = Inr True"
        "db_intents s' = upd_where (\<lambda>x. row_idempotency_key x = key) ?upd (db_intents s)"
        "db_reservations s' = db_reservations s" "db_halt s' = db_halt s"
      using run by (fastforce split: option.splits sum.splits if_splits)
    then show ?thesis
    proof cases
      case 1
      with none show ?thesis by simp
    next
      case 2
      with moved [OF _ k] show ?thesis by simp
    qed
  qed
qed

lemma query_effect:
  "store_get k s = (r1, s') \<Longrightarrow> same_tables s s'"
  "list_unresolved s = (r2, s') \<Longrightarrow> same_tables s s'"
  "inspect k s = (r3, s') \<Longrightarrow> same_tables s s'"
  "post_fill_integrity_halt s = (r4, s') \<Longrightarrow> same_tables s s'"
  by (auto simp: store_get_def list_unresolved_def inspect_def post_fill_integrity_halt_def
      split: sum.splits elim!: with_connectionE)

lemma same_tables_trans: "same_tables s t \<Longrightarrow> same_tables t u \<Longrightarrow> same_tables s u"
  by (simp add: same_tables_def)

lemma inspect_each_effect: "inspect_each ks s = (r, s') \<Longrightarrow> same_tables s s'"
proof (induction ks arbitrary: s r s')
  case (Cons k ks)
  obtain r1 s1 where i: "inspect (PyStr k) s = (r1, s1)" by force
  obtain r2 s2 where j: "inspect_each ks s1 = (r2, s2)" by force
  have "same_tables s s1" using query_effect(3) [OF i] .
  moreover have "same_tables s1 s2" using Cons.IH [OF j] .
  ultimately show ?case using Cons.prems i j by (auto split: sum.splits intro: same_tables_trans)
qed simp

lemma decode_status: "decode row = Inr r \<Longrightarrow> row_state row = status_value (rec_status r)"
  by (auto simp: decode_def dest: status_of_value_Inr split: sum.splits)

lemma encode_fields:
  "encode rec key now acct = Inr row \<Longrightarrow> row_idempotency_key row = key \<and> row_state row = status_value (rec_status rec)"
  by (auto simp: encode_def)

lemma diagnostic_effect:
  assumes "record_recovery_diagnostic key a b c s = (r, s')"
  shows "db_reservations s' = db_reservations s" "db_halt s' = db_halt s"
    "db_intents s' = db_intents s \<or> (\<exists>k. text_of key = Some k \<and> db_intents s' =
       upd_where (\<lambda>r. row_idempotency_key r = k)
            (\<lambda>r. r\<lparr>row_recovery_outcome := Some a, row_reconciliation_state := b,
                   row_recovery_reason := Some c\<rparr>) (db_intents s))"
  using assms
  by (auto simp: record_recovery_diagnostic_def validate_key_def with_connection_def
      split: sum.splits list.splits if_splits option.splits)

lemma halt_effect:
  assumes "record_post_fill_integrity_halt reason s = (r, s')"
  shows "db_intents s' = db_intents s" "db_reservations s' = db_reservations s"
    "db_halt s \<noteq> None \<Longrightarrow> db_halt s' = db_halt s"
  using assms by (auto simp: record_post_fill_integrity_halt_def with_connection_def
      split: option.splits if_splits list.splits)

lemma list_unresolved_inspections_effect: "list_unresolved_inspections s = (r, s') \<Longrightarrow> same_tables s s'"
  by (auto simp: list_unresolved_inspections_def with_connection_def
      split: list.splits if_splits prod.splits sum.splits dest!: inspect_each_effect intro: same_tables_trans [rotated])

section \<open>Round trip through the table\<close>

text \<open>The records the executor builds: prices are floats that are not NaN, the side is a member of the
  enumeration and the quantity is one the constructor accepts.\<close>

fun storable_number :: "pyval \<Rightarrow> bool" where
  "storable_number PyNone = True"
| "storable_number (PyFloat x) = (x \<noteq> NaN)"
| "storable_number _ = False"

definition storable :: "intent_record \<Rightarrow> bool" where
  "storable r \<longleftrightarrow> (\<forall>v \<in> set [rec_entry r, rec_stop_loss r, rec_take_profit r,
       rec_authorized_risk_amount r, rec_expected_loss_at_stop r]. storable_number v)
     \<and> (case rec_side r of TextSide t \<Rightarrow> False | _ \<Rightarrow> True)
     \<and> (case rec_quantity r of None \<Rightarrow> True | Some q \<Rightarrow> quantity_ok q)"

lemma bind_real_column: "storable_number v \<Longrightarrow> \<exists>x. bind_real v = Inr x \<and> real_column x = v"
  by (cases v rule: storable_number.cases) (auto simp: real_column_def)

lemma decode_encode:
  assumes "storable r" "encode r key now account = Inr row"
  shows "decode row = Inr (r\<lparr>rec_idempotency_key := PyStr key, rec_account_id := account\<rparr>)"
proof -
  have num: "real_column x = v" if "storable_number v" "bind_real v = Inr x" for v x
    using bind_real_column [OF that(1)] that(2) by auto
  have nums: "storable_number (rec_entry r)" "storable_number (rec_stop_loss r)" "storable_number (rec_take_profit r)"
    "storable_number (rec_authorized_risk_amount r)" "storable_number (rec_expected_loss_at_stop r)"
    using assms(1) by (simp_all add: storable_def)
  have side: "decode_side row = Inr (rec_side r)" if "row_side row = record_side_text (rec_side r)"
    using assms(1) that by (cases "rec_side r") (auto simp: decode_side_def storable_def)
  have qty: "decode_quantity row = Inr (rec_quantity r)"
    if "row_quantity_value row = map_option qty_value (rec_quantity r)"
      "row_quantity_unit row = map_option (\<lambda>q. unit_value (qty_unit q)) (rec_quantity r)"
    using assms(1) that by (cases "rec_quantity r") (auto simp: decode_quantity_def storable_def make_quantity_of_ok)
  obtain e st tp ar el where cols: "bind_real (rec_entry r) = Inr e" "bind_real (rec_stop_loss r) = Inr st"
    "bind_real (rec_take_profit r) = Inr tp" "bind_real (rec_authorized_risk_amount r) = Inr ar"
    "bind_real (rec_expected_loss_at_stop r) = Inr el"
    using assms(2) by (auto simp: encode_def)
  have reals: "real_column e = rec_entry r" "real_column st = rec_stop_loss r" "real_column tp = rec_take_profit r"
    "real_column ar = rec_authorized_risk_amount r" "real_column el = rec_expected_loss_at_stop r"
    using num nums cols by blast+
  have cols': "row_side row = record_side_text (rec_side r)"
    "row_quantity_value row = map_option qty_value (rec_quantity r)"
    "row_quantity_unit row = map_option (\<lambda>q. unit_value (qty_unit q)) (rec_quantity r)"
    using assms(2) by (auto simp: encode_def)
  note dec = side [OF cols'(1)] qty [OF cols'(2,3)]
  from assms(2) show ?thesis
    unfolding decode_def dec using reals by (auto simp: encode_def cols)
qed

lemma store_get_effect:
  "store_get key s = (Inr x, s') \<Longrightarrow> \<exists>k. validate_key key = Inr k \<and>
     (case intent_of k s of None \<Rightarrow> x = None | Some row \<Rightarrow> \<exists>r. decode row = Inr r \<and> x = Some r)"
  by (auto simp: store_get_def with_connection_def split: sum.splits list.splits if_splits option.splits)

text \<open>C15. A claim that reports \<open>CLAIMED\<close> has stored the record durably: the next successful \<open>get\<close> of its
  key returns the same record, with the reservation scope as the account when the record named none.\<close>

theorem claim_get_roundtrip:
  assumes "try_claim_under_reservation r scp owner clock s = (Inr CLAIMED, s')" "storable r"
    and "store_get (rec_idempotency_key r) (s'\<lparr>db_outages := os\<rparr>) = (Inr found, s2)"
  shows "\<exists>key. text_of (rec_idempotency_key r) = Some key \<and>
    found = Some (r\<lparr>rec_idempotency_key := PyStr key, rec_account_id := text_or (rec_account_id r) (Some scp)\<rparr>)"
  using assms(1)
proof (cases rule: claim_effect)
  case none
  then show ?thesis by simp
next
  case (claimed key row)
  have "intent_of key (s'\<lparr>db_outages := os\<rparr>) = Some row"
    using claimed(5,6) encode_fields [OF claimed(4)] by (simp add: sel_append)
  with store_get_effect [OF assms(3)] claimed(2) have "\<exists>x. decode row = Inr x \<and> found = Some x"
    by (auto simp: validate_key_Inr)
  with decode_encode [OF assms(2) claimed(4)] claimed(2) show ?thesis by auto
qed

definition sample_record :: intent_record where
  "sample_record = \<lparr>rec_idempotency_key = PyStr ''jqe-v2-1'', rec_status = PENDING, rec_order_id = None,
     rec_transaction_id = None, rec_symbol = Some ''FX Vol 20'', rec_side = EnumSide BUY,
     rec_quantity = Some sample_quantity, rec_entry = PyFloat (Fin 100), rec_stop_loss = PyFloat (Fin 98),
     rec_take_profit = PyFloat (Fin 104), rec_authorized_risk_amount = PyFloat (Fin 5),
     rec_expected_loss_at_stop = PyFloat (Fin 4), rec_broker = Some ''weltrade_demo'', rec_account_id = None\<rparr>"

definition empty_db :: intent_db where
  "empty_db = \<lparr>db_intents = [], db_reservations = [], db_halt = None, db_outages = []\<rparr>"

definition leased_db :: intent_db where
  "leased_db = empty_db\<lparr>db_reservations := [\<lparr>rsv_scope = ''weltrade_demo:7'', rsv_owner_id = ''w1'',
     rsv_acquired_at = Iso (Aware 0 0), rsv_expires_at = Iso (Aware 30000000 0)\<rparr>]\<rparr>"

definition claimed_row :: intent_row where
  "claimed_row = \<lparr>row_idempotency_key = ''jqe-v2-1'', row_state = ''PENDING'', row_order_id = None,
     row_transaction_id = None, row_created_at = 1000000, row_updated_at = 1000000,
     row_symbol = Some ''FX Vol 20'', row_side = Some ''BUY'', row_quantity_value = Some (Fin 2),
     row_quantity_unit = Some ''MT5_LOTS'', row_entry = Some (Fin 100), row_stop_loss = Some (Fin 98),
     row_take_profit = Some (Fin 104), row_authorized_risk_amount = Some (Fin 5),
     row_expected_loss_at_stop = Some (Fin 4), row_broker = Some ''weltrade_demo'',
     row_account_id = Some ''weltrade_demo:7'', row_recovery_outcome = None,
     row_reconciliation_state = None, row_recovery_reason = None\<rparr>"

lemma sample_acquire:
  "acquire_reservation ''weltrade_demo:7'' ''w1'' 30 (PyStr ''jqe-v2-1'') (Aware 0 0) empty_db = (Inr ACQUIRED, leased_db)"
  by (simp add: acquire_reservation_def validate_reservation_identity_def validate_key_def nonblank_iff
      py_isspace_def store_now_def with_connection_def empty_db_def leased_db_def take_lease_def
      has_other_unresolved_intent_def upsert_reservation_def microseconds_per_second_def)

lemma sample_claim:
  "try_claim_under_reservation sample_record ''weltrade_demo:7'' ''w1'' (Aware 1000000 0) leased_db
   = (Inr CLAIMED, leased_db\<lparr>db_intents := [claimed_row]\<rparr>)"
  by (simp add: try_claim_under_reservation_def validate_reservation_identity_def validate_key_def nonblank_iff
      py_isspace_def store_now_def with_connection_def empty_db_def leased_db_def sample_record_def
      insert_intent_def encode_def decode_reservation_def claimed_row_def sample_quantity_def)

lemma sample_storable: "storable sample_record"
  by (simp add: storable_def sample_record_def sample_quantity_def quantity_ok_def positive_finite_def)

lemma sample_decode: "decode claimed_row = Inr (sample_record\<lparr>rec_account_id := Some ''weltrade_demo:7''\<rparr>)"
  by (simp add: decode_def claimed_row_def sample_record_def sample_quantity_def decode_quantity_def
      decode_side_def unit_of_value_def side_of_value_def status_of_value_def make_quantity_def positive_finite_def real_column_def)

theorem claim_get_roundtrip_witness:
  "\<exists>key. text_of (PyStr ''jqe-v2-1'') = Some key \<and>
    Some (sample_record\<lparr>rec_account_id := Some ''weltrade_demo:7''\<rparr>) = Some (sample_record
      \<lparr>rec_idempotency_key := PyStr key, rec_account_id := text_or None (Some ''weltrade_demo:7'')\<rparr>)"
proof -
  have "store_get (rec_idempotency_key sample_record) (leased_db\<lparr>db_intents := [claimed_row], db_outages := []\<rparr>)
      = (Inr (Some (sample_record\<lparr>rec_account_id := Some ''weltrade_demo:7''\<rparr>)),
         leased_db\<lparr>db_intents := [claimed_row], db_outages := []\<rparr>)"
    using sample_decode
    by (simp add: store_get_def sample_record_def validate_key_def nonblank_iff py_isspace_def with_connection_def
        leased_db_def empty_db_def claimed_row_def)
  from claim_get_roundtrip [OF sample_claim sample_storable this] show ?thesis
    by (simp add: sample_record_def)
qed

end
