(* ===== verification/Histories.thy ===== *)
theory Histories
  imports Main
begin

text \<open>
  Histories of a shared resource: \<open>run step s evs t\<close> says that the labelled steps \<open>evs\<close>, by whichever
  processes, lead from state \<open>s\<close> to \<open>t\<close>. The locale \<open>once_only\<close> is the contract of an event that can
  happen only once: it needs a mark to be absent and sets it, and no step removes the mark. The
  claim of an idempotency key and the notification claims of the position ledger are its
  interpretations.
\<close>

inductive run :: "('s \<Rightarrow> 'e \<Rightarrow> 's \<Rightarrow> bool) \<Rightarrow> 's \<Rightarrow> 'e list \<Rightarrow> 's \<Rightarrow> bool" for step where
  run_nil: "run step s [] s"
| run_cons: "step s ev t \<Longrightarrow> run step t evs u \<Longrightarrow> run step s (ev # evs) u"

inductive_cases run_NilE: "run step s [] t"
inductive_cases run_ConsE: "run step s (ev # evs) u"

lemma run_append: "run step s es t \<Longrightarrow> run step t fs u \<Longrightarrow> run step s (es @ fs) u"
  by (induction rule: run.induct) (auto intro: run.intros)

text \<open>A reflexive and transitive relation that every step respects relates the ends of a run.\<close>

lemma run_rel:
  assumes "run step s evs t" "\<And>s. R s s" "\<And>s t u. R s t \<Longrightarrow> R t u \<Longrightarrow> R s u"
    and "\<And>s ev t. ev \<in> set evs \<Longrightarrow> step s ev t \<Longrightarrow> R s t"
  shows "R s t"
  using assms(1,4)
proof (induction rule: run.induct)
  case (run_cons s ev t evs u)
  have "R s t" using run_cons.prems [of ev] run_cons.hyps(1) by simp
  moreover have "R t u" 
  proof (rule run_cons.IH)
    fix s e t assume "e \<in> set evs" "step s e t"
    then show "R s t" using run_cons.prems [of e s t] by simp
  qed
  ultimately show ?case by (rule assms(3))
qed (rule assms(2))

locale once_only =
  fixes step :: "'s \<Rightarrow> 'e \<Rightarrow> 's \<Rightarrow> bool"
    and grants :: "'e \<Rightarrow> bool"
    and mark :: "'s \<Rightarrow> bool"
  assumes grants_marks: "step s ev t \<Longrightarrow> grants ev \<Longrightarrow> \<not> mark s \<and> mark t"
    and mark_stays: "step s ev t \<Longrightarrow> mark s \<Longrightarrow> mark t"
begin

lemma granted_once:
  "run step s evs t \<Longrightarrow> length (filter grants evs) \<le> 1 \<and> (mark s \<longrightarrow> filter grants evs = [])"
proof (induction rule: run.induct)
  case (run_cons s ev t evs u)
  show ?case
  proof (cases "grants ev")
    case True
    with grants_marks [OF run_cons.hyps(1)] run_cons.IH show ?thesis by auto
  next
    case False
    with mark_stays [OF run_cons.hyps(1)] run_cons.IH show ?thesis by auto
  qed
qed simp

end

end
