(* ===== verification/Store_Steps.thy ===== *)
theory Store_Steps
  imports Intent_Store Histories
begin

text \<open>
  The intent store as a shared resource: several worker processes call the operations of
  \<open>SQLiteIntentRecordStore\<close> in any order, each call one transaction. \<open>store_step\<close> is one call with
  its result, \<open>store_trace\<close> a history of calls. Shown of every history: the key constraints of the
  tables, that a stored intent keeps its payload and moves only along the allowed transitions, and
  that a lease excludes every other owner until it expires or is released.
\<close>

section \<open>Invariant and step relation\<close>

definition store_wf :: "intent_db \<Rightarrow> bool" where
  "store_wf s \<longleftrightarrow> key_unique row_idempotency_key (db_intents s) \<and> key_unique rsv_scope (db_reservations s)
     \<and> (\<forall>r \<in> set (db_intents s). \<exists>st. row_state r = status_value st)"

text \<open>The calls that processes sharing the database make, with their results: one event per call.\<close>

datatype store_event =
    AcquireEv string string int "reservation_state result"
  | ReleaseEv string string
  | ClaimEv string string string int "claim_state result"
  | BareClaimEv
  | TransitionEv
  | DiagnosticEv
  | HaltEv
  | QueryEv

inductive store_query :: "intent_db \<Rightarrow> intent_db \<Rightarrow> bool" where
  "store_get key s = (r, s') \<Longrightarrow> store_query s s'"
| "list_unresolved s = (rs, s') \<Longrightarrow> store_query s s'"
| "inspect key s = (i, s') \<Longrightarrow> store_query s s'"
| "list_unresolved_inspections s = (is, s') \<Longrightarrow> store_query s s'"
| "post_fill_integrity_halt s = (h, s') \<Longrightarrow> store_query s s'"

inductive store_step :: "intent_db \<Rightarrow> store_event \<Rightarrow> intent_db \<Rightarrow> bool" where
  acquire: "acquire_reservation sc owner lease key clock s = (r, s') \<Longrightarrow>
     store_step s (AcquireEv sc owner (instant clock) r) s'"
| release: "release_reservation sc owner s = (r, s') \<Longrightarrow> store_step s (ReleaseEv sc owner) s'"
| claim_reserved: "try_claim_under_reservation rec sc owner clock s = (r, s') \<Longrightarrow>
     text_of (rec_idempotency_key rec) = Some key \<Longrightarrow> store_step s (ClaimEv sc owner key (instant clock) r) s'"
| claim: "try_claim rec clock s = (r, s') \<Longrightarrow> store_step s BareClaimEv s'"
| transit: "transition rec clock s = (r, s') \<Longrightarrow> store_step s TransitionEv s'"
| diagnose: "record_recovery_diagnostic key outcome reconciliation reason s = (r, s') \<Longrightarrow>
     store_step s DiagnosticEv s'"
| halt: "record_post_fill_integrity_halt reason s = (r, s') \<Longrightarrow> store_step s HaltEv s'"
| query: "store_query s s' \<Longrightarrow> store_step s QueryEv s'"

inductive store_trace :: "intent_db \<Rightarrow> store_event list \<Rightarrow> intent_db \<Rightarrow> bool" where
  trace_nil: "store_trace s [] s"
| trace_cons: "store_step s ev t \<Longrightarrow> store_trace t evs u \<Longrightarrow> store_trace s (ev # evs) u"

inductive_cases store_trace_consE: "store_trace s (ev # evs) u"

lemma store_query_same: "store_query s s' \<Longrightarrow> same_tables s s'"
  by (induction rule: store_query.induct) (auto dest: query_effect list_unresolved_inspections_effect)

text \<open>How a stored intent may change: identity and payload are fixed, the status only moves along
  the allowed transitions.\<close>

definition status_reaches :: "string \<Rightarrow> string \<Rightarrow> bool" where
  "status_reaches a b \<longleftrightarrow> a = b \<or> (\<exists>x y. a = status_value x \<and> b = status_value y \<and> y \<in> set (ALLOWED_TRANSITIONS x))"

definition payload :: "intent_row \<Rightarrow> intent_row" where
  "payload r = r\<lparr>row_state := [], row_order_id := None, row_transaction_id := None, row_updated_at := 0,
     row_recovery_outcome := None, row_reconciliation_state := None, row_recovery_reason := None\<rparr>"

definition evolves :: "intent_row \<Rightarrow> intent_row \<Rightarrow> bool" where
  "evolves r r' \<longleftrightarrow> payload r' = payload r \<and> status_reaches (row_state r) (row_state r')"

lemma status_reaches_refl [simp]: "status_reaches a a"
  by (simp add: status_reaches_def)

lemma status_reaches_trans: "status_reaches a b \<Longrightarrow> status_reaches b c \<Longrightarrow> status_reaches a c"
proof -
  have t: "z \<in> set (ALLOWED_TRANSITIONS x)"
    if "y \<in> set (ALLOWED_TRANSITIONS x)" "z \<in> set (ALLOWED_TRANSITIONS y)" for x y z
    using that by (cases x; cases y; cases z) auto
  show "status_reaches a b \<Longrightarrow> status_reaches b c \<Longrightarrow> status_reaches a c"
    by (auto simp: status_reaches_def dest: t)
qed

lemma evolves_refl [simp]: "evolves r r"
  by (simp add: evolves_def)

lemma evolves_trans: "evolves a b \<Longrightarrow> evolves b c \<Longrightarrow> evolves a c"
  by (auto simp: evolves_def intro: status_reaches_trans)

text \<open>The intent table changes in three ways only: not at all, by one new row with an unused key, or
  by an update in place under which every row evolves.\<close>

lemma store_step_intents:
  assumes "store_step s ev s'"
  obtains (same) "db_intents s' = db_intents s"
  | (new) row st where "db_intents s' = db_intents s @ [row]" "sel row_idempotency_key (row_idempotency_key row) (db_intents s) = None"
      "row_state row = status_value st"
  | (update) k f where "db_intents s' = upd_where (\<lambda>r. row_idempotency_key r = k) f (db_intents s)"
      "\<And>r. row_idempotency_key (f r) = row_idempotency_key r"
      "\<And>r. intent_of k s = Some r \<Longrightarrow> evolves r (f r)"
      "\<And>r. (\<exists>st. row_state r = status_value st) \<Longrightarrow> (\<exists>st. row_state (f r) = status_value st)"
  using assms
proof cases
  case acquire
  then show ?thesis by (elim acquire_effect) (auto simp: same_tables_def intro: same)
next
  case release
  then show ?thesis using release_effect(1) same by metis
next
  case claim_reserved
  then show ?thesis
    by (elim claim_effect) (auto simp: same_tables_def dest!: encode_fields intro: same new)
next
  case claim
  then show ?thesis
    by (elim try_claim_effect) (auto simp: same_tables_def dest!: encode_fields intro: same new)
next
  case (transit rec clock r)
  from transit(2) show ?thesis
  proof (cases rule: transition_effect)
    case none
    then show ?thesis by (simp add: same_tables_def same)
  next
    case (moved key row cur)
    have "evolves row (row\<lparr>row_state := status_value (rec_status rec), row_order_id := rec_order_id rec,
        row_transaction_id := rec_transaction_id rec, row_updated_at := instant clock\<rparr>)"
      using decode_status [OF moved(4)] moved(5) by (auto simp: evolves_def payload_def status_reaches_def)
    with moved show ?thesis by (intro update [OF moved(6)]) auto
  qed
next
  case (diagnose key a b c r)
  from diagnostic_effect(3) [OF this(2)] show ?thesis
  proof (elim disjE exE conjE)
    assume "db_intents s' = db_intents s"
    then show ?thesis by (rule same)
  next
    fix k assume "db_intents s' = upd_where (\<lambda>r. row_idempotency_key r = k)
      (\<lambda>r. r\<lparr>row_recovery_outcome := Some a, row_reconciliation_state := b, row_recovery_reason := Some c\<rparr>) (db_intents s)"
    then show ?thesis by (rule update) (auto simp: evolves_def payload_def)
  qed
next
  case halt
  then show ?thesis using halt_effect(1) same by metis
next
  case query
  then show ?thesis using store_query_same same by (auto simp: same_tables_def)
qed

lemma store_step_reservations_unique:
  assumes "store_step s ev s'" "key_unique rsv_scope (db_reservations s)"
  shows "key_unique rsv_scope (db_reservations s')"
  using assms(1)
proof cases
  case acquire
  then show ?thesis using assms(2) by (elim acquire_effect) (auto simp: same_tables_def key_unique_upsert)
next
  case release
  from release_effect(3) [OF this(2)] show ?thesis using assms(2) by (auto simp: key_unique_filter)
next
  case claim_reserved
  then show ?thesis using assms(2) by (elim claim_effect) (auto simp: same_tables_def)
next
  case claim
  then show ?thesis using assms(2) by (elim try_claim_effect) (auto simp: same_tables_def)
next
  case transit
  then show ?thesis using assms(2) by (elim transition_effect) (auto simp: same_tables_def)
next
  case diagnose
  then show ?thesis using assms(2) diagnostic_effect(1) by simp
next
  case halt
  then show ?thesis using assms(2) halt_effect(2) by simp
next
  case query
  then show ?thesis using assms(2) by (auto simp: same_tables_def dest!: store_query_same)
qed

lemma store_step_wf:
  assumes "store_step s ev s'" "store_wf s"
  shows "store_wf s'"
  using assms(1)
proof (cases rule: store_step_intents)
  case same
  with assms store_step_reservations_unique show ?thesis by (simp add: store_wf_def)
next
  case new
  with assms store_step_reservations_unique show ?thesis by (auto simp: store_wf_def key_unique_snoc)
next
  case (update k f)
  with assms store_step_reservations_unique show ?thesis
    by (auto simp: store_wf_def key_unique_upd_where) (auto simp: upd_where_def)
qed

lemma store_step_evolves:
  assumes "store_step s ev s'" "intent_of k s = Some row"
  shows "\<exists>row'. intent_of k s' = Some row' \<and> evolves row row'"
  using assms(1)
proof (cases rule: store_step_intents)
  case same
  with assms show ?thesis by simp
next
  case new
  with assms show ?thesis by (simp add: sel_append)
next
  case (update k' f)
  with assms sel_SomeD [OF assms(2)] show ?thesis by (auto simp: sel_upd_where)
qed

lemma store_trace_wf: "store_trace s evs s' \<Longrightarrow> store_wf s \<Longrightarrow> store_wf s'"
  by (induction rule: store_trace.induct) (auto intro: store_step_wf)

lemma intent_evolves:
  assumes "store_trace s evs s'" "intent_of k s = Some row"
  shows "\<exists>row'. intent_of k s' = Some row' \<and> evolves row row'"
  using assms
proof (induction arbitrary: row rule: store_trace.induct)
  case (trace_cons s ev t evs u)
  from store_step_evolves [OF trace_cons.hyps(1) trace_cons.prems] obtain r1
    where r1: "intent_of k t = Some r1" "evolves row r1" by blast
  from trace_cons.IH [OF r1(1)] r1(2) show ?case by (blast intro: evolves_trans)
qed auto

definition lease_until :: "intent_db \<Rightarrow> string \<Rightarrow> string \<Rightarrow> int \<Rightarrow> bool" where
  "lease_until s sc owner t \<longleftrightarrow> (\<exists>row resv. reservation_of sc s = Some row \<and> decode_reservation row = Inr resv
     \<and> resv_owner_id resv = owner \<and> instant (resv_expires_at resv) = t)"

lemma lease_until_keep: "lease_until s sc owner t \<Longrightarrow> db_reservations s' = db_reservations s \<Longrightarrow> lease_until s' sc owner t"
  by (simp add: lease_until_def)

fun within_lease :: "string \<Rightarrow> string \<Rightarrow> int \<Rightarrow> store_event \<Rightarrow> bool" where
  "within_lease sc owner t (AcquireEv sc' owner' now r) = (sc' = sc \<longrightarrow> now < t)"
| "within_lease sc owner t (ReleaseEv sc' owner') = (\<not> (sc' = sc \<and> owner' = owner))"
| "within_lease sc owner t _ = True"

fun respects_lease :: "string \<Rightarrow> string \<Rightarrow> store_event \<Rightarrow> bool" where
  "respects_lease sc owner (AcquireEv sc' owner' now r) = (sc' = sc \<longrightarrow> r \<noteq> Inr ACQUIRED)"
| "respects_lease sc owner (ClaimEv sc' owner' key now r) = (sc' = sc \<longrightarrow> r = Inr CLAIMED \<longrightarrow> owner' = owner)"
| "respects_lease sc owner _ = True"

lemma sel_filter_other:
  assumes "sel key k rows = Some r" "p r"
  shows "key_unique key rows \<Longrightarrow> sel key k (filter p rows) = Some r"
  using assms by (induction rows) (auto split: if_splits simp: key_unique_def)

lemma decode_reservation_owner: "decode_reservation row = Inr resv \<Longrightarrow> resv_owner_id resv = rsv_owner_id row"
  by (auto simp: decode_reservation_def split: iso_text.splits if_splits)

lemma lease_step:
  assumes "store_step s ev s'" "store_wf s" "lease_until s sc owner t" "within_lease sc owner t ev"
  shows "lease_until s' sc owner t \<and> respects_lease sc owner ev"
  using assms(1)
proof cases
  case (acquire sc' owner' lease key clock r)
  from acquire(2) show ?thesis
  proof (cases rule: acquire_effect)
    case none
    then have "lease_until s' sc owner t" by (auto simp: same_tables_def intro: lease_until_keep [OF assms(3)])
    with none(2) acquire(1) show ?thesis by simp
  next
    case (acquired k)
    have "sc' \<noteq> sc"
    proof
      assume eq: "sc' = sc"
      with assms acquire have "live_reservation s sc (instant clock) owner"
        by (auto simp: live_reservation_def lease_until_def)
      with acquired(10) eq show False by blast
    qed
    with assms acquired acquire show ?thesis
      by (auto simp: lease_until_def upsert_reservation_sel)
  qed
next
  case (release sc' owner' r)
  from release_effect(3) [OF release(2)] show ?thesis
  proof
    assume "db_reservations s' = db_reservations s"
    with release(1) show ?thesis using lease_until_keep [OF assms(3)] by simp
  next
    assume f: "db_reservations s' = filter (\<lambda>x. \<not> (rsv_scope x = sc' \<and> rsv_owner_id x = owner')) (db_reservations s)"
    from assms(3) obtain row resv where row: "reservation_of sc s = Some row" "decode_reservation row = Inr resv"
      "resv_owner_id resv = owner" "instant (resv_expires_at resv) = t" by (auto simp: lease_until_def)
    have "rsv_scope row = sc" "rsv_owner_id row = owner"
      using sel_SomeD [OF row(1)] decode_reservation_owner [OF row(2)] row(3) by auto
    with assms release have "reservation_of sc s' = Some row"
      unfolding f by (intro sel_filter_other [OF row(1)]) (auto simp: store_wf_def)
    with row release show ?thesis by (auto simp: lease_until_def)
  qed
next
  case (claim_reserved rec sc' owner' clock r key)
  from claim_reserved(2) show ?thesis
  proof (cases rule: claim_effect)
    case none
    then have "lease_until s' sc owner t" by (auto simp: same_tables_def intro: lease_until_keep [OF assms(3)])
    with none(2) claim_reserved(1) show ?thesis by simp
  next
    case (claimed key' row)
    have "lease_until s' sc owner t" using lease_until_keep [OF assms(3) claimed(7)] .
    moreover have "sc' = sc \<Longrightarrow> owner' = owner"
      using claimed(9) assms(3) by (auto simp: live_reservation_def lease_until_def)
    ultimately show ?thesis using claim_reserved(1) by simp
  qed
next
  case (claim rec clock r)
  from claim(2) show ?thesis
    by (cases rule: try_claim_effect) (auto simp: claim(1) same_tables_def intro: lease_until_keep [OF assms(3)])
next
  case (transit rec clock r)
  from transit(2) show ?thesis
    by (cases rule: transition_effect) (auto simp: transit(1) same_tables_def intro: lease_until_keep [OF assms(3)])
next
  case (diagnose key a b c r)
  then show ?thesis using lease_until_keep [OF assms(3) diagnostic_effect(1) [OF diagnose(2)]] by simp
next
  case (halt reason r)
  then show ?thesis using lease_until_keep [OF assms(3) halt_effect(2) [OF halt(2)]] by simp
next
  case query
  then show ?thesis using lease_until_keep [OF assms(3)] by (auto simp: same_tables_def dest!: store_query_same)
qed

lemma lease_trace:
  assumes "store_trace s evs s'" "store_wf s" "lease_until s sc owner t"
    and "\<forall>ev \<in> set evs. within_lease sc owner t ev"
  shows "lease_until s' sc owner t \<and> (\<forall>ev \<in> set evs. respects_lease sc owner ev)"
  using assms
proof (induction rule: store_trace.induct)
  case (trace_nil s)
  then show ?case by simp
next
  case (trace_cons s ev u evs v)
  have w: "within_lease sc owner t ev" "\<forall>ev \<in> set evs. within_lease sc owner t ev"
    using trace_cons.prems(3) by simp_all
  have st: "lease_until u sc owner t" "respects_lease sc owner ev"
    using lease_step [OF trace_cons.hyps(1) trace_cons.prems(1,2) w(1)] by blast+
  have wf: "store_wf u" using store_step_wf [OF trace_cons.hyps(1) trace_cons.prems(1)] .
  have rest: "lease_until v sc owner t" "\<forall>ev \<in> set evs. respects_lease sc owner ev"
    using trace_cons.IH [OF wf st(1) w(2)] by blast+
  show ?case using rest st(2) unfolding list.set by blast
qed

section \<open>A key is claimed once\<close>

fun claims_key :: "string \<Rightarrow> store_event \<Rightarrow> bool" where
  "claims_key k (ClaimEv sc owner key now r) = (key = k \<and> r = Inr CLAIMED)"
| "claims_key k _ = False"

lemma claims_key_step:
  assumes "store_step s ev s'" "claims_key k ev"
  shows "intent_of k s = None \<and> intent_of k s' \<noteq> None"
  using assms(1)
proof cases
  case (claim_reserved rec sc owner clock r key)
  from claim_reserved(2) show ?thesis
  proof (cases rule: claim_effect)
    case none
    with assms(2) claim_reserved(1) show ?thesis by simp
  next
    case (claimed key' row)
    with assms(2) claim_reserved(1,3) show ?thesis
      using encode_fields [OF claimed(4)] by (simp add: sel_append)
  qed
qed (use assms(2) in auto)

lemma store_trace_run: "store_trace s evs s' \<Longrightarrow> run store_step s evs s'"
  by (induction rule: store_trace.induct) (auto intro: run.intros)

interpretation key_claim: once_only store_step "claims_key k" "\<lambda>s. intent_of k s \<noteq> None" for k
proof
  fix s ev t
  assume st: "store_step s ev t"
  show "claims_key k ev \<Longrightarrow> \<not> intent_of k s \<noteq> None \<and> intent_of k t \<noteq> None"
    using claims_key_step [OF st] by simp
  show "intent_of k s \<noteq> None \<Longrightarrow> intent_of k t \<noteq> None"
    using store_step_evolves [OF st] by fastforce
qed

lemmas claimed_once = key_claim.granted_once [OF store_trace_run]

section \<open>Properties of every history\<close>

lemma sample_trace: "store_trace empty_db
    [AcquireEv ''weltrade_demo:7'' ''w1'' 0 (Inr ACQUIRED),
     ClaimEv ''weltrade_demo:7'' ''w1'' ''jqe-v2-1'' 1000000 (Inr CLAIMED)] (leased_db\<lparr>db_intents := [claimed_row]\<rparr>)"
proof (intro store_trace.intros)
  show "store_step empty_db (AcquireEv ''weltrade_demo:7'' ''w1'' 0 (Inr ACQUIRED)) leased_db"
    using store_step.acquire [OF sample_acquire] by simp
  show "store_step leased_db (ClaimEv ''weltrade_demo:7'' ''w1'' ''jqe-v2-1'' 1000000 (Inr CLAIMED))
      (leased_db\<lparr>db_intents := [claimed_row]\<rparr>)"
    using store_step.claim_reserved [OF sample_claim] by (simp add: sample_record_def)
qed (rule store_trace.trace_nil)

lemma sample_accept:
  "transition (bare_record (PyStr ''jqe-v2-1'') ACCEPTED (Some ''o1'') None) (Aware 2000000 0)
     (leased_db\<lparr>db_intents := [claimed_row]\<rparr>)
   = (Inr True, leased_db\<lparr>db_intents := [claimed_row\<lparr>row_state := ''ACCEPTED'', row_order_id := Some ''o1'',
        row_updated_at := 2000000\<rparr>]\<rparr>)"
  using sample_decode
  by (simp add: transition_def bare_record_def validate_key_def nonblank_iff py_isspace_def with_connection_def
      leased_db_def empty_db_def upd_where_def) (simp add: claimed_row_def sample_record_def)

text \<open>C4. In every history of calls by any number of processes a stored intent is never lost: it keeps its
  key, payload and creation time, and its status changes only along the allowed transitions, so an
  accepted or rejected intent never becomes anything else.\<close>

theorem store_history_keeps_intents:
  assumes "store_trace s evs s'" "intent_of key s = Some row"
  shows "\<exists>row'. intent_of key s' = Some row' \<and> payload row' = payload row
    \<and> status_reaches (row_state row) (row_state row')
    \<and> (row_state row \<in> {''ACCEPTED'', ''REJECTED''} \<longrightarrow> row_state row' = row_state row)"
proof -
  obtain row' where r: "intent_of key s' = Some row'" "evolves row row'"
    using intent_evolves [OF assms] by blast
  have "row_state row' = row_state row" if "row_state row \<in> {status_value ACCEPTED, status_value REJECTED}"
    using r(2) that unfolding evolves_def status_reaches_def
    by (elim conjE disjE exE) (auto simp del: status_value.simps)
  with r show ?thesis by (auto simp: evolves_def)
qed

theorem store_history_keeps_intents_witness:
  "\<exists>row'. intent_of ''jqe-v2-1'' (leased_db\<lparr>db_intents := [claimed_row\<lparr>row_state := ''ACCEPTED'',
       row_order_id := Some ''o1'', row_updated_at := 2000000\<rparr>]\<rparr>) = Some row'
    \<and> payload row' = payload claimed_row \<and> status_reaches (row_state claimed_row) (row_state row')
    \<and> (row_state claimed_row \<in> {''ACCEPTED'', ''REJECTED''} \<longrightarrow> row_state row' = row_state claimed_row)"
  by (rule store_history_keeps_intents [OF store_trace.trace_cons [OF store_step.transit [OF sample_accept]
        store_trace.trace_nil]]) (simp add: claimed_row_def)

text \<open>Every history keeps the tables well formed: one row per idempotency key, one reservation per
  scope, and every stored state is a valid status.\<close>

theorem store_history_wf:
  assumes "store_trace s evs s'" "store_wf s"
  shows "store_wf s'"
  using assms by (rule store_trace_wf)

lemma empty_db_wf: "store_wf empty_db"
  by (simp add: store_wf_def empty_db_def)

theorem store_history_wf_witness: "store_wf (leased_db\<lparr>db_intents := [claimed_row]\<rparr>)"
  by (rule store_history_wf [OF sample_trace empty_db_wf])

text \<open>C6. A lease is exclusive. While the owner's lease on a scope runs (every acquisition attempt on the
  scope happens before its expiry, and the owner does not release it), the lease stays in force, no
  acquisition on the scope succeeds, and every successful claim under the scope is by the owner.\<close>

theorem lease_exclusive:
  assumes "store_trace s evs s'" "store_wf s" "lease_until s scp owner t"
    and "\<forall>ev \<in> set evs. within_lease scp owner t ev"
  shows "lease_until s' scp owner t \<and> (\<forall>ev \<in> set evs. respects_lease scp owner ev)"
  using lease_trace [OF assms] .

lemma sample_held:
  "acquire_reservation ''weltrade_demo:7'' ''w2'' 30 (PyStr ''jqe-v2-2'') (Aware 2000000 0) leased_db = (Inr HELD, leased_db)"
  by (simp add: acquire_reservation_def validate_reservation_identity_def validate_key_def nonblank_iff
      py_isspace_def store_now_def with_connection_def empty_db_def leased_db_def decode_reservation_def)

theorem lease_exclusive_witness:
  "lease_until leased_db ''weltrade_demo:7'' ''w1'' 30000000
   \<and> respects_lease ''weltrade_demo:7'' ''w1'' (AcquireEv ''weltrade_demo:7'' ''w2'' 2000000 (Inr HELD))"
proof -
  have "store_trace leased_db [AcquireEv ''weltrade_demo:7'' ''w2'' 2000000 (Inr HELD)] leased_db"
    using store_step.acquire [OF sample_held] by (auto intro: store_trace.intros)
  moreover have "store_wf leased_db" by (simp add: store_wf_def leased_db_def empty_db_def key_unique_def)
  moreover have "lease_until leased_db ''weltrade_demo:7'' ''w1'' 30000000"
    by (simp add: lease_until_def leased_db_def empty_db_def decode_reservation_def nonblank_iff py_isspace_def)
  ultimately show ?thesis using lease_exclusive by fastforce
qed

end
