(* ===== verification/Reconciliation.thy ===== *)
theory Reconciliation
  imports Execution_Policy
begin

text \<open>
  \<open>execution/reconciliation.py\<close>: what a broker's positions and trade history say about an order
  intent whose outcome is unknown. One function per adapter; the arguments \<open>positions\<close> and
  \<open>history\<close> are what the gateway's two queries return (or the exception they raise), \<open>ledger\<close> what
  the position ledger returns.

  The interface that the executor and the startup recovery rely on is the locale \<open>reconciler\<close>: a
  confirmed match names an observation with the recorded order or transaction identity, and an
  intent with a symbol is never declared absent. The three adapters are its interpretations.
\<close>

section \<open>Data\<close>

datatype broker_state = CONFIRMED_MATCH | CONFIRMED_ABSENCE | AMBIGUOUS | UNAVAILABLE

fun broker_state_value :: "broker_state \<Rightarrow> string" where
  "broker_state_value CONFIRMED_MATCH = ''CONFIRMED_MATCH''"
| "broker_state_value CONFIRMED_ABSENCE = ''CONFIRMED_ABSENCE''"
| "broker_state_value AMBIGUOUS = ''AMBIGUOUS''"
| "broker_state_value UNAVAILABLE = ''UNAVAILABLE''"

datatype correlation_strength = EXACT | CORRELATION_AMBIGUOUS | ABSENT | CORRELATION_UNAVAILABLE

record correlation_evidence =
  ev_broker :: string
  ev_strength :: correlation_strength
  ev_idempotency_key :: "string option"
  ev_order_id :: "string option"
  ev_deal_id :: "string option"
  ev_position_id :: "string option"
  ev_transaction_id :: "string option"
  ev_contract_id :: "string option"
  ev_request_id :: "string option"
  ev_symbol :: "string option"
  ev_side :: "string option"
  ev_volume :: "pyfloat option"
  ev_timestamps :: "pydatetime list"
  ev_source :: "string option"
  ev_reason :: string

record reconciliation_evidence =
  rc_state :: broker_state
  rc_reason :: string
  rc_contract_id :: "string option"
  rc_transaction_id :: "string option"
  rc_evidence :: "correlation_evidence option"

text \<open>The items the gateways return: open positions and closed trades.\<close>

datatype observation = ObsPosition position | ObsTrade trade_history_entry

text \<open>\<open>getattr(item, field, None)\<close> for the fields the adapters read; the models have no others of
  these names.\<close>

definition optional_text :: "string option \<Rightarrow> pyval" where
  "optional_text x = (case x of None \<Rightarrow> PyNone | Some s \<Rightarrow> PyStr s)"

fun obs_attr :: "observation \<Rightarrow> string \<Rightarrow> pyval" where
  "obs_attr (ObsPosition p) f =
     (if f = ''position_id'' then PyStr (pos_position_id p)
      else if f = ''transaction_id'' then optional_text (pos_transaction_id p)
      else if f = ''symbol'' then PyStr (pos_symbol p)
      else if f = ''magic'' then (case pos_magic p of None \<Rightarrow> PyNone | Some m \<Rightarrow> PyInt m)
      else if f = ''comment'' then optional_text (pos_comment p)
      else PyNone)"
| "obs_attr (ObsTrade t) f =
     (if f = ''trade_id'' then PyStr (th_trade_id t)
      else if f = ''position_id'' then optional_text (th_position_id t)
      else if f = ''transaction_id'' then optional_text (th_transaction_id t)
      else if f = ''symbol'' then PyStr (th_symbol t)
      else PyNone)"

definition obs_text :: "observation \<Rightarrow> string \<Rightarrow> string option" where
  "obs_text item f = text_of (obs_attr item f)"

fun obs_symbol :: "observation \<Rightarrow> string" where
  "obs_symbol (ObsPosition p) = pos_symbol p"
| "obs_symbol (ObsTrade t) = th_symbol t"

fun obs_side :: "observation \<Rightarrow> order_side" where
  "obs_side (ObsPosition p) = pos_side p"
| "obs_side (ObsTrade t) = th_side t"

fun obs_volume :: "observation \<Rightarrow> pyfloat" where
  "obs_volume (ObsPosition p) = pos_volume p"
| "obs_volume (ObsTrade t) = th_volume t"

fun obs_times :: "observation \<Rightarrow> pydatetime list" where
  "obs_times (ObsPosition p) = (case pos_opened_at p of None \<Rightarrow> [] | Some d \<Rightarrow> [d])"
| "obs_times (ObsTrade t) = [th_opened_at t, th_closed_at t]"

fun obs_source :: "observation \<Rightarrow> string" where
  "obs_source (ObsPosition p) = ''Position''"
| "obs_source (ObsTrade t) = ''TradeHistoryEntry''"

text \<open>\<open>getattr(item, "position_id", None) or getattr(item, "trade_id", None)\<close>\<close>

definition obs_identity :: "observation \<Rightarrow> string option" where
  "obs_identity item = text_or (obs_text item ''position_id'') (obs_text item ''trade_id'')"

text \<open>\<open>str(v)\<close> of an optional string: \<open>None\<close> becomes the text \<open>None\<close>.\<close>

definition py_str :: "string option \<Rightarrow> string" where
  "py_str v = (case v of None \<Rightarrow> ''None'' | Some s \<Rightarrow> s)"

section \<open>Helpers\<close>

definition normalize_identifier :: "string option \<Rightarrow> string option" where
  "normalize_identifier v = (case v of None \<Rightarrow> None
     | Some s \<Rightarrow> if py_strip s = [] then None else Some (py_strip s))"

definition matches_id :: "observation \<Rightarrow> string option \<Rightarrow> string list \<Rightarrow> bool" where
  "matches_id item expected names =
     (case expected of None \<Rightarrow> False | Some e \<Rightarrow> \<exists>f \<in> set names. obs_text item f = Some e)"

definition has_evidence :: "observation \<Rightarrow> bool" where
  "has_evidence item \<longleftrightarrow> (\<exists>f \<in> set [''order_id'', ''order'', ''deal_id'', ''deal'', ''position_id'',
     ''position_identifier'', ''trade_id'', ''symbol'', ''magic'', ''comment''].
     obs_attr item f \<notin> {PyNone, PyStr []})"

record identifiers =
  id_contract :: "string option"
  id_transaction :: "string option"
  id_order :: "string option"
  id_deal :: "string option"
  id_position :: "string option"
  id_request :: "string option"
  id_symbol :: "string option"

definition no_ids :: identifiers where
  "no_ids = \<lparr>id_contract = None, id_transaction = None, id_order = None, id_deal = None,
     id_position = None, id_request = None, id_symbol = None\<rparr>"

text \<open>\<open>_result(state, reason, broker=..., ...)\<close>; the keyword arguments are \<open>ids\<close>.\<close>

definition recon_result ::
  "broker_state \<Rightarrow> string \<Rightarrow> string \<Rightarrow> string option \<Rightarrow> observation option \<Rightarrow> identifiers \<Rightarrow> reconciliation_evidence" where
  "recon_result state reason broker key item ids =
     \<lparr>rc_state = state, rc_reason = reason, rc_contract_id = id_contract ids,
      rc_transaction_id = id_transaction ids, rc_evidence = Some
      \<lparr>ev_broker = broker,
       ev_strength = (case state of CONFIRMED_MATCH \<Rightarrow> EXACT | UNAVAILABLE \<Rightarrow> CORRELATION_UNAVAILABLE
          | CONFIRMED_ABSENCE \<Rightarrow> ABSENT | AMBIGUOUS \<Rightarrow> CORRELATION_AMBIGUOUS),
       ev_idempotency_key = key, ev_order_id = id_order ids, ev_deal_id = id_deal ids,
       ev_position_id = text_or (id_position ids)
          (case item of None \<Rightarrow> None
           | Some x \<Rightarrow> text_or (Some (py_str (obs_text x ''position_id''))) None),
       ev_transaction_id = id_transaction ids, ev_contract_id = id_contract ids,
       ev_request_id = id_request ids,
       ev_symbol = text_or (id_symbol ids) (map_option obs_symbol item),
       ev_side = map_option (\<lambda>x. side_value (obs_side x)) item,
       ev_volume = map_option obs_volume item,
       ev_timestamps = (case item of None \<Rightarrow> [] | Some x \<Rightarrow> obs_times x),
       ev_source = map_option obs_source item, ev_reason = reason\<rparr>\<rparr>"

definition classify_observation :: "bool \<Rightarrow> bool \<Rightarrow> string \<Rightarrow> string option \<Rightarrow> reconciliation_evidence" where
  "classify_observation broker_available symbol_match broker key =
     (if \<not> broker_available then recon_result UNAVAILABLE ''Broker state unavailable'' broker key None no_ids
      else if symbol_match
      then recon_result AMBIGUOUS ''Symbol match lacks intent correlation'' broker key None no_ids
      else recon_result AMBIGUOUS ''Broker absence does not prove non-execution'' broker key None no_ids)"

definition symbol_observed :: "string option \<Rightarrow> observation list \<Rightarrow> bool" where
  "symbol_observed symb items = (case symb of None \<Rightarrow> False
     | Some s \<Rightarrow> s \<noteq> [] \<and> (\<exists>x \<in> set items. py_upper (py_strip (obs_symbol x)) = py_upper (py_strip s)))"

definition observe ::
  "position list result \<Rightarrow> trade_history_entry list result \<Rightarrow> observation list result" where
  "observe positions history = rbind positions (\<lambda>ps. rbind history (\<lambda>ts.
     Inr (map ObsPosition ps @ map ObsTrade ts)))"

section \<open>Adapters\<close>

text \<open>Deriv: contract and transaction identifiers, both when both are recorded. An observation is an
  item with its normalised contract and transaction identifier; \<open>unproven\<close> is the answer when no
  identifier settles the question.\<close>

definition deriv_classify ::
  "string option \<Rightarrow> string option \<Rightarrow> (observation \<times> string option \<times> string option) list
   \<Rightarrow> string option \<Rightarrow> reconciliation_evidence \<Rightarrow> reconciliation_evidence" where
  "deriv_classify contract_id transaction_id observations key unproven =
    (let contract_matches = filter (\<lambda>(x, c, t). contract_id \<noteq> None \<and> c = contract_id) observations;
         transaction_matches = filter (\<lambda>(x, c, t). transaction_id \<noteq> None \<and> t = transaction_id) observations
     in if contract_id \<noteq> None \<and> transaction_id \<noteq> None then
          let conflicting = (\<exists>(x, c, t) \<in> set contract_matches. t \<noteq> None \<and> t \<noteq> transaction_id)
                \<or> (\<exists>(x, c, t) \<in> set transaction_matches. c \<noteq> None \<and> c \<noteq> contract_id);
              exact_matches = filter (\<lambda>(x, c, t). c = contract_id \<and> t = transaction_id) observations
          in if conflicting \<or> exact_matches = [] then
               (if contract_matches \<noteq> [] \<or> transaction_matches \<noteq> []
                then recon_result AMBIGUOUS ''Deriv authoritative identifiers conflict'' ''deriv'' key None
                       (no_ids\<lparr>id_contract := contract_id, id_transaction := transaction_id\<rparr>)
                else unproven)
             else recon_result CONFIRMED_MATCH ''Contract and transaction IDs matched'' ''deriv'' key
                    (Some (fst (hd exact_matches))) (no_ids\<lparr>id_contract := contract_id, id_transaction := transaction_id\<rparr>)
        else if contract_matches \<noteq> [] then
          (if 1 < length (remdups (filter (\<lambda>t. t \<noteq> None) (map (\<lambda>(x, c, t). t) contract_matches)))
           then recon_result AMBIGUOUS ''Deriv contract observations conflict'' ''deriv'' key None
                  (no_ids\<lparr>id_contract := contract_id\<rparr>)
           else case hd contract_matches of (x, c, t) \<Rightarrow>
             recon_result CONFIRMED_MATCH ''Contract ID matched'' ''deriv'' key (Some x)
               (no_ids\<lparr>id_contract := c, id_transaction := t\<rparr>))
        else if transaction_matches \<noteq> [] then
          (if 1 < length (remdups (filter (\<lambda>c. c \<noteq> None) (map (\<lambda>(x, c, t). c) transaction_matches)))
           then recon_result AMBIGUOUS ''Deriv transaction observations conflict'' ''deriv'' key None
                  (no_ids\<lparr>id_transaction := transaction_id\<rparr>)
           else case hd transaction_matches of (x, c, t) \<Rightarrow>
             recon_result CONFIRMED_MATCH ''Transaction ID matched'' ''deriv'' key (Some x)
               (no_ids\<lparr>id_contract := c, id_transaction := t\<rparr>))
        else unproven)"

definition deriv_observation :: "observation \<Rightarrow> observation \<times> string option \<times> string option" where
  "deriv_observation x = (x, normalize_identifier (obs_identity x), normalize_identifier (obs_text x ''transaction_id''))"

definition deriv_reconcile ::
  "position list result \<Rightarrow> trade_history_entry list result \<Rightarrow> string option \<Rightarrow> string option
   \<Rightarrow> string option \<Rightarrow> string option \<Rightarrow> string option \<Rightarrow> reconciliation_evidence" where
  "deriv_reconcile positions history order_id contract_id transaction_id symb key =
    (case observe positions history of
       Inl e \<Rightarrow> recon_result UNAVAILABLE ''Deriv state unavailable'' ''deriv'' key None no_ids
     | Inr items \<Rightarrow> deriv_classify
         (text_or (normalize_identifier contract_id) (normalize_identifier order_id))
         (normalize_identifier transaction_id) (map deriv_observation items) key
         (classify_observation True (symbol_observed symb items) ''deriv'' key))"

text \<open>Simulation: the first item with the recorded order or transaction identity.\<close>

fun simulation_scan ::
  "string option \<Rightarrow> string option \<Rightarrow> string option \<Rightarrow> observation list \<Rightarrow> reconciliation_evidence option" where
  "simulation_scan order_id transaction_id key [] = None"
| "simulation_scan order_id transaction_id key (x # items) =
     (let item_order_id = obs_identity x; item_transaction_id = obs_text x ''transaction_id'' in
      if order_id \<noteq> None \<and> py_str item_order_id = py_str order_id then
        Some (recon_result CONFIRMED_MATCH ''Simulation order ID matched'' ''simulation'' key (Some x)
          (no_ids\<lparr>id_order := Some (py_str item_order_id), id_transaction := item_transaction_id\<rparr>))
      else if transaction_id \<noteq> None \<and> item_transaction_id \<noteq> None
              \<and> py_str item_transaction_id = py_str transaction_id then
        Some (recon_result CONFIRMED_MATCH ''Simulation transaction ID matched'' ''simulation'' key (Some x)
          (no_ids\<lparr>id_transaction := Some (py_str item_transaction_id)\<rparr>))
      else simulation_scan order_id transaction_id key items)"

definition simulation_reconcile ::
  "position list result \<Rightarrow> trade_history_entry list result \<Rightarrow> string option \<Rightarrow> string option
   \<Rightarrow> string option \<Rightarrow> string option \<Rightarrow> reconciliation_evidence" where
  "simulation_reconcile positions history order_id transaction_id symb key =
    (case observe positions history of
       Inl e \<Rightarrow> recon_result UNAVAILABLE ''Simulation state unavailable'' ''simulation'' key None no_ids
     | Inr items \<Rightarrow> (case simulation_scan order_id transaction_id key items of
         Some r \<Rightarrow> r
       | None \<Rightarrow> classify_observation True (symbol_observed symb items) ''simulation'' key))"

text \<open>MT5 and Weltrade: the ledger's order-to-position mapping first, then broker identifiers.
  A ledger entry is its order and position identifier.\<close>

definition mt5_classify ::
  "string \<Rightarrow> observation list \<Rightarrow> (string option \<times> string) list \<Rightarrow> string option \<Rightarrow> string option \<Rightarrow> string option
   \<Rightarrow> string option \<Rightarrow> string option \<Rightarrow> string option \<Rightarrow> reconciliation_evidence" where
  "mt5_classify broker records entries order_id deal_id position_id request_id symb key =
    (let ledger_positions = map snd (filter (\<lambda>(ord, p). py_str ord = py_str order_id) entries);
         mapped = find (\<lambda>x. case obs_identity x of None \<Rightarrow> False | Some p \<Rightarrow> p \<in> set ledger_positions) records;
         direct = find (\<lambda>x. matches_id x order_id [''order_id'', ''order'']
            \<or> matches_id x deal_id [''deal_id'', ''deal'', ''trade_id'']
            \<or> matches_id x position_id [''position_id'', ''position_identifier'']
            \<or> matches_id x request_id [''request_id'']) records
     in case (if order_id \<noteq> None then mapped else None) of
          Some x \<Rightarrow> recon_result CONFIRMED_MATCH ''MT5 ledger order mapped to authoritative broker position'' broker key
            (Some x) (no_ids\<lparr>id_order := order_id, id_position := obs_identity x\<rparr>)
        | None \<Rightarrow> (case direct of
            Some x \<Rightarrow> recon_result CONFIRMED_MATCH (broker @ '' broker identifier matched'') broker key (Some x)
              (no_ids\<lparr>id_order := order_id, id_deal := deal_id, id_position := position_id, id_request := request_id\<rparr>)
          | None \<Rightarrow>
              if (records \<noteq> [] \<and> (\<exists>x \<in> set records. has_evidence x)) \<or> truthy_text symb
              then recon_result AMBIGUOUS (broker @ '' evidence lacks intent correlation'') broker key None
                     (no_ids\<lparr>id_symbol := symb\<rparr>)
              else recon_result CONFIRMED_ABSENCE (broker @ '' query returned no usable evidence'') broker key None no_ids))"

definition mt5_reconcile ::
  "string \<Rightarrow> position list result \<Rightarrow> trade_history_entry list result \<Rightarrow> (string option \<times> string) list result option
   \<Rightarrow> string option \<Rightarrow> string option \<Rightarrow> string option \<Rightarrow> string option
   \<Rightarrow> string option \<Rightarrow> string option \<Rightarrow> reconciliation_evidence" where
  "mt5_reconcile broker positions history ledger order_id deal_id position_id request_id symb key =
    (case rbind (observe positions history) (\<lambda>items.
            rbind (case ledger of None \<Rightarrow> Inr [] | Some l \<Rightarrow> l) (\<lambda>entries. Inr (items, entries))) of
       Inl e \<Rightarrow> recon_result UNAVAILABLE (broker @ '' state unavailable'') broker key None no_ids
     | Inr (records, entries) \<Rightarrow>
         mt5_classify broker records entries order_id deal_id position_id request_id symb key)"

datatype reconciliation_adapter = SimulationAdapter | MT5Adapter string | WeltradeAdapter string | DerivAdapter

definition get_reconciliation_adapter :: "string \<Rightarrow> reconciliation_adapter result" where
  "get_reconciliation_adapter broker =
     (let normalized = py_lower (py_strip broker) in
      if normalized = ''simulation'' then Inr SimulationAdapter
      else if normalized \<in> {''mt5'', ''mt5_demo''} then Inr (MT5Adapter normalized)
      else if normalized \<in> {''weltrade'', ''weltrade_demo''} then Inr (WeltradeAdapter normalized)
      else if normalized \<in> {''deriv'', ''deriv_demo''} then Inr DerivAdapter
      else Inl (ValueError ''Unsupported reconciliation broker''))"

text \<open>What the executor and the recovery service call: \<open>adapter.reconcile\<close> with the four keyword
  arguments they pass.\<close>

record broker_view =
  view_positions :: "position list result"
  view_history :: "trade_history_entry list result"
  view_ledger :: "(string option \<times> string) list result option"

fun adapter_reconcile ::
  "reconciliation_adapter \<Rightarrow> broker_view \<Rightarrow> string option \<Rightarrow> string option \<Rightarrow> string option \<Rightarrow> string option
   \<Rightarrow> reconciliation_evidence" where
  "adapter_reconcile SimulationAdapter v order_id transaction_id symb key =
     simulation_reconcile (view_positions v) (view_history v) order_id transaction_id symb key"
| "adapter_reconcile (MT5Adapter b) v order_id transaction_id symb key =
     mt5_reconcile b (view_positions v) (view_history v) (view_ledger v) order_id None None None symb key"
| "adapter_reconcile (WeltradeAdapter b) v order_id transaction_id symb key =
     mt5_reconcile b (view_positions v) (view_history v) (view_ledger v) order_id None None None symb key"
| "adapter_reconcile DerivAdapter v order_id transaction_id symb key =
     deriv_reconcile (view_positions v) (view_history v) order_id None transaction_id symb key"

section \<open>What a confirmed match means\<close>

text \<open>Specification: which observations identify the intent with the recorded order and transaction
  identifier.\<close>

definition deriv_identifies :: "string option \<Rightarrow> string option \<Rightarrow> observation \<Rightarrow> bool" where
  "deriv_identifies order_id transaction_id x \<longleftrightarrow>
     (let c = normalize_identifier order_id; t = normalize_identifier transaction_id in
      (c \<noteq> None \<or> t \<noteq> None)
      \<and> (c \<noteq> None \<longrightarrow> normalize_identifier (obs_identity x) = c)
      \<and> (t \<noteq> None \<longrightarrow> normalize_identifier (obs_text x ''transaction_id'') = t))"

definition simulation_identifies :: "string option \<Rightarrow> string option \<Rightarrow> observation \<Rightarrow> bool" where
  "simulation_identifies order_id transaction_id x \<longleftrightarrow>
     order_id \<noteq> None \<and> py_str (obs_identity x) = py_str order_id
     \<or> transaction_id \<noteq> None \<and> obs_text x ''transaction_id'' = transaction_id"

definition mt5_identifies :: "(string option \<times> string) list \<Rightarrow> string option \<Rightarrow> observation \<Rightarrow> bool" where
  "mt5_identifies entries order_id x \<longleftrightarrow> order_id \<noteq> None \<and>
     (\<exists>(ord, p) \<in> set entries. py_str ord = py_str order_id \<and> obs_identity x = Some p)"

fun adapter_identifies ::
  "reconciliation_adapter \<Rightarrow> broker_view \<Rightarrow> string option \<Rightarrow> string option \<Rightarrow> observation \<Rightarrow> bool" where
  "adapter_identifies SimulationAdapter v order_id transaction_id x = simulation_identifies order_id transaction_id x"
| "adapter_identifies (MT5Adapter b) v order_id transaction_id x =
     (\<exists>entries. view_ledger v = Some (Inr entries) \<and> mt5_identifies entries order_id x)"
| "adapter_identifies (WeltradeAdapter b) v order_id transaction_id x =
     (\<exists>entries. view_ledger v = Some (Inr entries) \<and> mt5_identifies entries order_id x)"
| "adapter_identifies DerivAdapter v order_id transaction_id x = deriv_identifies order_id transaction_id x"

definition evidence_for :: "reconciliation_adapter \<Rightarrow> broker_view \<Rightarrow> string option \<Rightarrow> string option \<Rightarrow> bool" where
  "evidence_for a v order_id transaction_id \<longleftrightarrow> (\<exists>items x. observe (view_positions v) (view_history v) = Inr items
     \<and> x \<in> set items \<and> adapter_identifies a v order_id transaction_id x)"

lemma recon_result_state [simp]: "rc_state (recon_result st reason broker key item ids) = st"
  by (simp add: recon_result_def)

lemma classify_state [simp]: "rc_state (classify_observation b m broker key) = (if b then AMBIGUOUS else UNAVAILABLE)"
  by (simp add: classify_observation_def)

lemma normalize_identifier_truthy: "truthy_text (normalize_identifier v) \<longleftrightarrow> normalize_identifier v \<noteq> None"
  by (auto simp: normalize_identifier_def split: option.splits)

lemma text_or_normalize_None [simp]: "text_or (normalize_identifier None) x = x"
  by (simp add: normalize_identifier_def)

lemma hd_filter: "filter P xs \<noteq> [] \<Longrightarrow> hd (filter P xs) \<in> set xs \<and> P (hd (filter P xs))"
  using hd_in_set [of "filter P xs"] by auto

lemmas state_if = if_distrib [of rc_state] case_prod_beta

lemma deriv_classify_not_absent:
  "rc_state unproven = AMBIGUOUS \<Longrightarrow> rc_state (deriv_classify c t obs key unproven) \<noteq> CONFIRMED_ABSENCE"
  by (simp add: deriv_classify_def Let_def state_if)

lemma deriv_not_absent: "rc_state (deriv_reconcile ps ts o' c t symb key) \<noteq> CONFIRMED_ABSENCE"
  by (auto simp: deriv_reconcile_def deriv_classify_not_absent split: sum.splits)

lemma deriv_classify_match:
  assumes "rc_state (deriv_classify c t obs key unproven) = CONFIRMED_MATCH" "rc_state unproven = AMBIGUOUS"
  shows "(c \<noteq> None \<or> t \<noteq> None) \<and> (\<exists>x c' t'. (x, c', t') \<in> set obs \<and> (c \<noteq> None \<longrightarrow> c' = c) \<and> (t \<noteq> None \<longrightarrow> t' = t))"
proof (cases "c \<noteq> None \<and> t \<noteq> None")
  case True
  with assms have "filter (\<lambda>(x, c', t'). c' = c \<and> t' = t) obs \<noteq> []"
    by (auto simp: deriv_classify_def Let_def state_if split: if_splits)
  then obtain y where "y \<in> set (filter (\<lambda>(x, c', t'). c' = c \<and> t' = t) obs)" by (meson last_in_set)
  with True show ?thesis by auto
next
  case False
  let ?cm = "filter (\<lambda>(x, c', t'). c \<noteq> None \<and> c' = c) obs" and ?tm = "filter (\<lambda>(x, c', t'). t \<noteq> None \<and> t' = t) obs"
  have "?cm \<noteq> [] \<or> ?tm \<noteq> []"
  proof (rule ccontr)
    assume "\<not> ?thesis"
    then have e: "?cm = []" "?tm = []" by blast+
    have "deriv_classify c t obs key unproven = unproven"
      unfolding deriv_classify_def Let_def if_not_P [OF False] by (simp only: e simp_thms if_False)
    with assms show False by simp
  qed
  then obtain y where "y \<in> set ?cm \<or> y \<in> set ?tm" by (meson last_in_set)
  then show ?thesis using False by (cases y) auto
qed

lemma deriv_match_sound:
  assumes "rc_state (deriv_reconcile ps ts o' None t symb key) = CONFIRMED_MATCH"
  shows "\<exists>items x. observe ps ts = Inr items \<and> x \<in> set items \<and> deriv_identifies o' t x"
proof -
  obtain items where it: "observe ps ts = Inr items"
    using assms by (cases "observe ps ts") (auto simp: deriv_reconcile_def)
  from assms have "rc_state (deriv_classify (normalize_identifier o') (normalize_identifier t) (map deriv_observation items) key
      (classify_observation True (symbol_observed symb items) ''deriv'' key)) = CONFIRMED_MATCH"
    by (simp add: deriv_reconcile_def it)
  from deriv_classify_match [OF this] show ?thesis
    unfolding it deriv_identifies_def Let_def by (fastforce simp: deriv_observation_def)
qed

lemma simulation_scan_Some:
  "simulation_scan o' t key items = Some r \<Longrightarrow>
     rc_state r = CONFIRMED_MATCH \<and> (\<exists>x \<in> set items. simulation_identifies o' t x)"
  by (induction items) (auto simp: Let_def simulation_identifies_def py_str_def split: if_splits option.splits)

lemma simulation_not_absent: "rc_state (simulation_reconcile ps ts o' t symb key) \<noteq> CONFIRMED_ABSENCE"
  by (auto simp: simulation_reconcile_def split: sum.splits option.splits dest: simulation_scan_Some)

lemma obs_text_absent [simp]:
  "obs_text x ''order_id'' = None" "obs_text x ''order'' = None" "obs_text x ''request_id'' = None"
  by (cases x; simp add: obs_text_def)+

lemma mt5_classify_not_absent:
  "truthy_text symb \<Longrightarrow> rc_state (mt5_classify b rs l o' d p q symb key) \<noteq> CONFIRMED_ABSENCE"
  by (simp add: mt5_classify_def Let_def split: option.split)

lemma mt5_not_absent: "truthy_text symb \<Longrightarrow> rc_state (mt5_reconcile b ps ts l o' d p q symb key) \<noteq> CONFIRMED_ABSENCE"
  by (auto simp: mt5_reconcile_def mt5_classify_not_absent split: sum.splits)

lemma mt5_classify_match:
  assumes "rc_state (mt5_classify b items entries o' None None None symb key) = CONFIRMED_MATCH"
  shows "\<exists>x \<in> set items. mt5_identifies entries o' x"
proof -
  let ?lp = "map snd (filter (\<lambda>(ord, p). py_str ord = py_str o') entries)"
  let ?mapped = "find (\<lambda>x. case obs_identity x of None \<Rightarrow> False | Some p \<Rightarrow> p \<in> set ?lp) items"
  have none: "find (\<lambda>x. matches_id x o' [''order_id'', ''order'']
      \<or> matches_id x None [''deal_id'', ''deal'', ''trade_id''] \<or> matches_id x None [''position_id'', ''position_identifier'']
      \<or> matches_id x None [''request_id'']) items = None"
    by (auto simp: find_None_iff matches_id_def split: option.splits)
  have "(if o' \<noteq> None then ?mapped else None) \<noteq> None"
  proof
    assume "(if o' \<noteq> None then ?mapped else None) = None"
    with assms show False
      unfolding mt5_classify_def Let_def none by (simp only: option.case) (simp add: state_if split: if_splits)
  qed
  then have "o' \<noteq> None \<and> ?mapped \<noteq> None" by (auto split: if_splits)
  then obtain x where "o' \<noteq> None" "x \<in> set items" "\<exists>p. obs_identity x = Some p \<and> p \<in> set ?lp"
    by (auto simp: find_None_iff simp del: set_map split: option.splits)
  then show ?thesis by (fastforce simp: mt5_identifies_def)
qed

lemma mt5_match_sound:
  assumes "rc_state (mt5_reconcile b ps ts l o' None None None symb key) = CONFIRMED_MATCH"
  shows "\<exists>items x entries. observe ps ts = Inr items \<and> x \<in> set items \<and> l = Some (Inr entries) \<and> mt5_identifies entries o' x"
proof -
  obtain items where it: "observe ps ts = Inr items"
    using assms by (cases "observe ps ts") (auto simp: mt5_reconcile_def)
  obtain entries where en: "(case l of None \<Rightarrow> Inr [] | Some l \<Rightarrow> l) = Inr entries"
    using assms it by (cases "case l of None \<Rightarrow> Inr [] | Some l \<Rightarrow> l") (auto simp: mt5_reconcile_def)
  from assms have "rc_state (mt5_classify b items entries o' None None None symb key) = CONFIRMED_MATCH"
    by (simp add: mt5_reconcile_def it en)
  from mt5_classify_match [OF this] obtain x where x: "x \<in> set items" "mt5_identifies entries o' x" by blast
  with en have "l = Some (Inr entries)" by (auto simp: mt5_identifies_def split: option.splits)
  with it x show ?thesis by blast
qed

section \<open>The interface of a reconciler\<close>

locale reconciler =
  fixes query :: "'v \<Rightarrow> string option \<Rightarrow> string option \<Rightarrow> string option \<Rightarrow> string option \<Rightarrow> reconciliation_evidence"
    and proves :: "'v \<Rightarrow> string option \<Rightarrow> string option \<Rightarrow> bool"
  assumes match_proved: "rc_state (query v order_id transaction_id symb key) = CONFIRMED_MATCH \<Longrightarrow> proves v order_id transaction_id"
    and never_absent: "truthy_text symb \<Longrightarrow> rc_state (query v order_id transaction_id symb key) \<noteq> CONFIRMED_ABSENCE"
begin

lemma unproved_stays_open:
  "truthy_text symb \<Longrightarrow> \<not> proves v order_id transaction_id
   \<Longrightarrow> rc_state (query v order_id transaction_id symb key) \<in> {AMBIGUOUS, UNAVAILABLE}"
  using match_proved never_absent by (cases "rc_state (query v order_id transaction_id symb key)") auto

end

lemma simulation_match_sound:
  assumes "rc_state (simulation_reconcile ps ts o' t symb key) = CONFIRMED_MATCH"
  shows "\<exists>items x. observe ps ts = Inr items \<and> x \<in> set items \<and> simulation_identifies o' t x"
  using assms by (auto simp: simulation_reconcile_def split: sum.splits option.splits dest: simulation_scan_Some)

lemma adapter_match_sound:
  "rc_state (adapter_reconcile a v o' t symb key) = CONFIRMED_MATCH \<Longrightarrow> evidence_for a v o' t"
  by (cases a) (force simp: evidence_for_def dest: simulation_match_sound mt5_match_sound deriv_match_sound)+

lemma adapter_never_absent:
  "truthy_text symb \<Longrightarrow> rc_state (adapter_reconcile a v o' t symb key) \<noteq> CONFIRMED_ABSENCE"
  by (cases a) (simp_all add: simulation_not_absent mt5_not_absent deriv_not_absent)

interpretation adapter: reconciler "adapter_reconcile a" "evidence_for a" for a
  by unfold_locales (rule adapter_match_sound, assumption, rule adapter_never_absent)

lemma adapter_identifies_needs_identity: "\<not> adapter_identifies a v None None x"
  by (cases a) (auto simp: simulation_identifies_def mt5_identifies_def deriv_identifies_def normalize_identifier_def)

section \<open>Properties\<close>


definition sample_position :: position where
  "sample_position = \<lparr>pos_position_id = ''p1'', pos_symbol = ''FX Vol 20'', pos_side = BUY, pos_volume = Fin 2,
     pos_open_price = Fin 100, pos_current_price = None, pos_profit = None, pos_stop_loss = None,
     pos_take_profit = None, pos_opened_at = None, pos_transaction_id = Some ''t1'', pos_contract_type = None,
     pos_magic = None, pos_comment = None\<rparr>"

definition sample_view :: broker_view where
  "sample_view = \<lparr>view_positions = Inr [sample_position], view_history = Inr [], view_ledger = None\<rparr>"

lemma sample_confirmed:
  "rc_state (adapter_reconcile SimulationAdapter sample_view (Some ''p1'') None (Some ''FX Vol 20'') None) = CONFIRMED_MATCH"
  by (simp add: simulation_reconcile_def sample_view_def sample_position_def observe_def Let_def
      obs_identity_def obs_text_def text_or_def py_str_def)


text \<open>Conflicting Deriv evidence is never a match: when both the contract and the transaction identifier
  are recorded and some observation of the contract carries another transaction, the outcome is
  ambiguous.\<close>

theorem deriv_conflict_ambiguous:
  assumes "observe positions history = Inr items" "x \<in> set items"
    and "normalize_identifier order_id = Some c" "normalize_identifier transaction_id = Some t"
    and "normalize_identifier (obs_identity x) = Some c"
    and "normalize_identifier (obs_text x ''transaction_id'') = Some t'" "t' \<noteq> t"
  shows "rc_state (deriv_reconcile positions history order_id None transaction_id symb key) = AMBIGUOUS"
proof -
  have x: "(x, Some c, Some t') \<in> set (map deriv_observation items)"
    using assms by (force simp: deriv_observation_def)
  have m: "(x, Some c, Some t') \<in> set (filter (\<lambda>(y, c', t''). Some c \<noteq> None \<and> c' = Some c) (map deriv_observation items))"
    using x by simp
  then have ne: "filter (\<lambda>(y, c', t''). Some c \<noteq> None \<and> c' = Some c) (map deriv_observation items) \<noteq> []"
    by (metis empty_iff empty_set)
  have conf: "\<exists>(y, c', t'') \<in> set (filter (\<lambda>(y, c', t''). Some c \<noteq> None \<and> c' = Some c) (map deriv_observation items)).
      t'' \<noteq> None \<and> t'' \<noteq> Some t" using m assms(7) by force
  show ?thesis
    unfolding deriv_reconcile_def assms(1) sum.case deriv_classify_def Let_def assms(3,4) text_or_normalize_None
    using conf ne by simp
qed

definition sample_trade :: trade_history_entry where
  "sample_trade = \<lparr>th_trade_id = ''p1'', th_symbol = ''FX Vol 20'', th_side = BUY, th_volume = Fin 2, th_open_price = Fin 100,
     th_close_price = Fin 101, th_profit = Fin 2, th_opened_at = Aware 0 0, th_closed_at = Aware 60000000 0,
     th_transaction_id = None, th_contract_type = None, th_position_id = None, th_close_reason = None\<rparr>"

theorem deriv_conflict_ambiguous_witness:
  "rc_state (deriv_reconcile (Inr [sample_position]) (Inr []) (Some ''p1'') None (Some ''t2'') None None) = AMBIGUOUS"
  by (rule deriv_conflict_ambiguous [of _ _ "[ObsPosition sample_position]" "ObsPosition sample_position" _ "''p1''" _ "''t2''" "''t1''"])
     (simp_all add: observe_def sample_position_def normalize_identifier_def py_strip_def py_isspace_def
      obs_identity_def obs_text_def optional_text_def text_or_def)

text \<open>A confirmed match on a closed trade that has no position identifier reports the text \<open>None\<close> as its
  position identifier: \<open>str(getattr(item, "position_id", ""))\<close> is applied to the attribute's value \<open>None\<close>.\<close>

theorem trade_without_position_reports_None_text:
  "rc_evidence (simulation_reconcile (Inr []) (Inr [sample_trade]) (Some ''p1'') None symb key) \<noteq> None
   \<and> ev_position_id (the (rc_evidence (simulation_reconcile (Inr []) (Inr [sample_trade]) (Some ''p1'') None symb key)))
     = Some ''None''"
  by (simp add: simulation_reconcile_def sample_trade_def observe_def Let_def obs_identity_def obs_text_def
      optional_text_def py_str_def text_or_def recon_result_def no_ids_def)

end
