(* ===== verification/Executor.thy ===== *)
theory Executor
  imports Store_Steps Reconciliation
begin

text \<open>
  \<open>execution/executor.py\<close>: \<open>AsyncTradeExecutor\<close>, which composes the policy, the intent store, the
  reconciliation and the broker gateway into one submission.

  The gateway, the reconciler and the callbacks are parameters (\<open>'g dependencies\<close>). Each of their
  calls is an await point: other tasks and processes run meanwhile, so a call may change the shared
  store as well as the outside world \<open>'g\<close>. The world also holds the clock the store reads (a sequence
  of readings) and a log of what this executor did: the positions it read, the result of its claim
  and the orders it handed to the gateway. The log is not part of the program; the theorems speak
  about it.
\<close>

section \<open>Data\<close>

datatype recon_state = NOT_FOUND | ALREADY_EXECUTED | RECON_PENDING | RECON_REJECTED | RECON_UNKNOWN | READY_TO_SUBMIT

record reconciliation_result =
  rr_state :: recon_state
  rr_reason :: string

record execution_result =
  xr_state :: recon_state
  xr_decision :: execution_decision
  xr_order_id :: "string option"
  xr_reason :: string
  xr_order_status :: "order_status option"
  xr_broker_result :: "order_result option"
  xr_rejection_code :: "string option"

text \<open>\<open>ExecutionResult(state, decision, reason=reason)\<close>\<close>

definition plain_result :: "recon_state \<Rightarrow> execution_decision \<Rightarrow> string \<Rightarrow> execution_result" where
  "plain_result st d reason = \<lparr>xr_state = st, xr_decision = d, xr_order_id = None, xr_reason = reason,
     xr_order_status = None, xr_broker_result = None, xr_rejection_code = None\<rparr>"

text \<open>What \<open>submit_order\<close> returns: an \<open>OrderResult\<close> or some other object.\<close>

datatype gateway_reply = Reply order_result | ReplyOther

datatype exec_event =
    PositionsRead "raw_position list result"
  | ClaimMade string "claim_state result"
  | OrderSent order_request

record 'g world =
  w_store :: intent_db
  w_env :: 'g
  w_clock :: "nat \<Rightarrow> pydatetime"
  w_ticks :: nat
  w_log :: "exec_event list"

type_synonym ('g, 'a) call = "'g \<Rightarrow> intent_db \<Rightarrow> 'a result \<times> 'g \<times> intent_db"

record 'g dependencies =
  gw_get_positions :: "('g, raw_position list) call"
  gw_submit_order :: "order_request \<Rightarrow> ('g, gateway_reply) call"
  gw_reconcile :: "(string option \<Rightarrow> string option \<Rightarrow> string option \<Rightarrow> string option \<Rightarrow> ('g, reconciliation_evidence) call) option"
  gw_before_submit :: "(execution_decision \<Rightarrow> 'g \<Rightarrow> unit result \<times> 'g) option"
  gw_context_provider :: "('g, execution_context option) call option"
  gw_after_submit :: "(execution_result \<Rightarrow> 'g \<Rightarrow> unit result \<times> 'g) option"
  gw_lease_seconds :: int
  gw_recovery_mode :: bool

section \<open>Calls\<close>

definition await :: "('g, 'a) call \<Rightarrow> 'g world \<Rightarrow> 'a result \<times> 'g world" where
  "await f w = (case f (w_env w) (w_store w) of (r, e, s) \<Rightarrow> (r, w\<lparr>w_env := e, w_store := s\<rparr>))"

definition callback :: "('g \<Rightarrow> unit result \<times> 'g) option \<Rightarrow> 'g world \<Rightarrow> unit result \<times> 'g world" where
  "callback f w = (case f of None \<Rightarrow> (Inr (), w)
     | Some f \<Rightarrow> (case f (w_env w) of (r, e) \<Rightarrow> (r, w\<lparr>w_env := e\<rparr>)))"

text \<open>A store operation that reads the clock once.\<close>

definition timed :: "(pydatetime \<Rightarrow> 'a store_op) \<Rightarrow> 'g world \<Rightarrow> 'a result \<times> 'g world" where
  "timed f w = (case f (w_clock w (w_ticks w)) (w_store w) of
     (r, s) \<Rightarrow> (r, w\<lparr>w_store := s, w_ticks := Suc (w_ticks w)\<rparr>))"

definition stored :: "'a store_op \<Rightarrow> 'g world \<Rightarrow> 'a result \<times> 'g world" where
  "stored f w = (case f (w_store w) of (r, s) \<Rightarrow> (r, w\<lparr>w_store := s\<rparr>))"

definition log_event :: "exec_event \<Rightarrow> 'g world \<Rightarrow> 'g world" where
  "log_event ev w = w\<lparr>w_log := w_log w @ [ev]\<rparr>"

definition read_positions :: "'g dependencies \<Rightarrow> 'g world \<Rightarrow> raw_position list result \<times> 'g world" where
  "read_positions g w = (case await (gw_get_positions g) w of (r, w) \<Rightarrow> (r, log_event (PositionsRead r) w))"

definition record_transition ::
  "execution_intent \<Rightarrow> intent_status \<Rightarrow> string option \<Rightarrow> string option \<Rightarrow> 'g world \<Rightarrow> bool \<times> 'g world" where
  "record_transition intent status order_id transaction_id w =
     (case timed (transition (bare_record (int_idempotency_key intent) status order_id transaction_id)) w of
        (Inl e, w) \<Rightarrow> (False, w)
      | (Inr b, w) \<Rightarrow> (b, w))"

section \<open>Reconciliation of a prior intent\<close>

definition rres :: "recon_state \<Rightarrow> string \<Rightarrow> reconciliation_result" where
  "rres st reason = \<lparr>rr_state = st, rr_reason = reason\<rparr>"

text \<open>The intent has a record that is pending or unknown: ask the broker.\<close>

definition reconcile_record ::
  "'g dependencies \<Rightarrow> execution_intent \<Rightarrow> intent_record \<Rightarrow> 'g world \<Rightarrow> reconciliation_result result \<times> 'g world" where
  "reconcile_record g intent r w =
     (case gw_reconcile g of
        None \<Rightarrow> (Inr (rres (if rec_status r = PENDING then RECON_PENDING else RECON_UNKNOWN)
                   ''Broker reconciler is not configured''), w)
      | Some reconcile \<Rightarrow>
          (case await (reconcile (rec_order_id r) (rec_transaction_id r) (text_of (int_symbol intent))
                  (text_of (int_idempotency_key intent))) w of
             (Inl e, w) \<Rightarrow> (Inl e, w)
           | (Inr evidence, w) \<Rightarrow>
               if rc_state evidence = CONFIRMED_MATCH then
                 (case record_transition intent ACCEPTED (text_or (rec_order_id r) (rc_contract_id evidence))
                        (text_or (rec_transaction_id r) (rc_transaction_id evidence)) w of
                    (ok, w) \<Rightarrow> if \<not> ok then (Inr (rres RECON_UNKNOWN ''Reconciled outcome could not be persisted''), w)
                      else (Inr (rres ALREADY_EXECUTED (rc_reason evidence)), w))
               else if rec_status r = PENDING then
                 (case record_transition intent UNKNOWN None None w of
                    (ok, w) \<Rightarrow> if \<not> ok then (Inr (rres RECON_UNKNOWN ''Uncertain recovery state could not be persisted''), w)
                      else (Inr (rres RECON_UNKNOWN (rc_reason evidence)), w))
               else (Inr (rres RECON_UNKNOWN (rc_reason evidence)), w)))"

text \<open>The broker's positions are known: decide from them and the record.\<close>

definition reconcile_observed ::
  "'g dependencies \<Rightarrow> execution_intent \<Rightarrow> intent_record option \<Rightarrow> raw_position list
   \<Rightarrow> 'g world \<Rightarrow> reconciliation_result result \<times> 'g world" where
  "reconcile_observed g intent found observed w =
     (case from_positions (Some observed) of
        None \<Rightarrow> (Inr (rres RECON_UNKNOWN ''Broker state malformed''), w)
      | Some snapshots \<Rightarrow>
          let symbol_match = (\<exists>p \<in> set snapshots. normalized_text (snapshot_symbol p) = normalized_text (int_symbol intent))
          in (case found of
               None \<Rightarrow>
                 if symbol_match then (Inr (rres ALREADY_EXECUTED ''Symbol has an open position''), w)
                 else if gw_recovery_mode g then (Inr (rres RECON_UNKNOWN ''Recovery mode cannot prove intent absence''), w)
                 else (Inr (rres READY_TO_SUBMIT ''No prior intent or position found''), w)
             | Some r \<Rightarrow>
                 if unresolved (rec_status r) then reconcile_record g intent r w
                 else (Inr (rres RECON_UNKNOWN ''Intent state is not recoverable''), w)))"

definition reconcile ::
  "'g dependencies \<Rightarrow> execution_intent \<Rightarrow> raw_position list option \<Rightarrow> 'g world \<Rightarrow> reconciliation_result result \<times> 'g world" where
  "reconcile g intent positions w =
     (case stored (store_get (int_idempotency_key intent)) w of
        (Inl e, w) \<Rightarrow> (Inr (rres RECON_UNKNOWN ''Intent records unavailable''), w)
      | (Inr found, w) \<Rightarrow>
          (case map_option rec_status found of
             Some REJECTED \<Rightarrow> (Inr (rres RECON_REJECTED ''Intent was rejected''), w)
           | Some ACCEPTED \<Rightarrow> (Inr (rres ALREADY_EXECUTED ''Intent was already accepted''), w)
           | _ \<Rightarrow> (case positions of
               Some observed \<Rightarrow> reconcile_observed g intent found observed w
             | None \<Rightarrow> (case read_positions g w of
                 (Inl e, w) \<Rightarrow> (Inr (rres RECON_UNKNOWN ''Broker state unavailable''), w)
               | (Inr observed, w) \<Rightarrow> reconcile_observed g intent found observed w))))"

section \<open>Submission\<close>

definition build_order :: "execution_intent \<Rightarrow> order_request result" where
  "build_order intent =
     (case text_of (int_symbol intent) of None \<Rightarrow> Inl (AttributeError ''strip'') | Some symb \<Rightarrow>
      rbind (to_float (int_stop_loss intent)) (\<lambda>stop. rbind (to_float (int_take_profit intent)) (\<lambda>target.
      rbind (side_of_pyval (int_side intent)) (\<lambda>side.
      case quantity_of_pyval (int_quantity intent) of None \<Rightarrow> Inl (ValueError ''quantity'') | Some q \<Rightarrow>
      make_order_request \<lparr>req_symbol = py_strip symb, req_side = side, req_quantity = q, req_order_type = MARKET,
        req_entry_price = None, req_stop_limit_price = None, req_stop_loss = stop, req_take_profit = Some target,
        req_idempotency_key = text_of (int_idempotency_key intent), req_magic_number = int_magic_number intent,
        req_order_comment = int_order_comment intent\<rparr>))))"

fun order_status_value :: "order_status \<Rightarrow> string" where
  "order_status_value SUBMITTED = ''SUBMITTED''"
| "order_status_value FILLED = ''FILLED''"
| "order_status_value ORDER_REJECTED = ''REJECTED''"

text \<open>The checks on the reply inside the \<open>try\<close> block.\<close>

definition checked_reply :: "gateway_reply result \<Rightarrow> order_result result" where
  "checked_reply reply = rbind reply (\<lambda>x. case x of
      ReplyOther \<Rightarrow> Inl (TypeError ''Gateway returned a malformed order result'')
    | Reply result \<Rightarrow>
        if order_status_value (res_status result) \<notin> {''FILLED'', ''SUBMITTED'', ''REJECTED''}
        then Inl (ValueError ''Gateway returned an indeterminate order status'')
        else if order_status_value (res_status result) \<in> {''FILLED'', ''SUBMITTED''} \<and> py_strip (res_order_id result) = []
        then Inl (ValueError ''Gateway accepted an order without broker identity'')
        else Inr result)"

text \<open>\<open>str(exc)\<close>\<close>

fun exn_text :: "py_exn \<Rightarrow> string" where
  "exn_text (ValueError s) = s" | "exn_text (TypeError s) = s" | "exn_text (RuntimeError s) = s"
| "exn_text (KeyError s) = s" | "exn_text (AttributeError s) = s" | "exn_text (DatabaseError s) = s"
| "exn_text (PreSubmitOrderRejected s) = s" | "exn_text (OtherException s) = s"
| "exn_text _ = []"

text \<open>The intent is claimed and the order built: hand it to the gateway and persist the outcome.\<close>

definition send_order ::
  "'g dependencies \<Rightarrow> execution_intent \<Rightarrow> execution_decision \<Rightarrow> order_request \<Rightarrow> 'g world \<Rightarrow> execution_result \<times> 'g world" where
  "send_order g intent decision order w =
     (case await (gw_submit_order g order) (log_event (OrderSent order) w) of (reply, w) \<Rightarrow>
      (case checked_reply reply of
         Inl (PreSubmitOrderRejected reason) \<Rightarrow>
           (case record_transition intent REJECTED None None w of (ok, w) \<Rightarrow>
              if \<not> ok then (plain_result RECON_UNKNOWN decision ''Pre-submit rejection could not be persisted'', w)
              else ((plain_result RECON_REJECTED decision reason)
                      \<lparr>xr_order_status := Some ORDER_REJECTED, xr_rejection_code := Some ''PRE_SUBMIT_VALIDATION_REJECTED''\<rparr>, w))
       | Inl e \<Rightarrow>
           (case record_transition intent UNKNOWN None None w of (ok, w) \<Rightarrow>
              (plain_result RECON_UNKNOWN decision
                 (if py_strip (exn_text e) = [] then ''Submission outcome unknown'' else py_strip (exn_text e)), w))
       | Inr result \<Rightarrow>
           let accepted = order_status_value (res_status result) \<in> {''FILLED'', ''SUBMITTED''};
               status = (if accepted then ACCEPTED else REJECTED);
               order_id = (if accepted then Some (res_order_id result) else None)
           in (case record_transition intent status order_id (res_transaction_id result) w of (ok, w) \<Rightarrow>
              if \<not> ok then ((plain_result RECON_UNKNOWN decision ''Outcome could not be persisted'')
                    \<lparr>xr_order_id := Some (res_order_id result)\<rparr>, w)
              else (\<lparr>xr_state = (if accepted then ALREADY_EXECUTED else RECON_REJECTED), xr_decision = decision,
                     xr_order_id = order_id,
                     xr_reason = (if accepted then ''Order accepted'' else ''Broker rejected order''),
                     xr_order_status = Some (res_status result), xr_broker_result = Some result,
                     xr_rejection_code = None\<rparr>, w))))"

definition as_result :: "'a \<times> 'w \<Rightarrow> 'a result \<times> 'w" where
  "as_result p = (case p of (x, w) \<Rightarrow> (Inr x, w))"

text \<open>Build the record and claim it; a raised exception of either is caught.\<close>

definition claim_intent ::
  "execution_intent \<Rightarrow> execution_context option \<Rightarrow> string \<Rightarrow> string \<Rightarrow> 'g world \<Rightarrow> claim_state result \<times> 'g world" where
  "claim_intent intent context scp owner w =
     (case from_execution_intent intent PENDING None None
             (case context of None \<Rightarrow> None | Some c \<Rightarrow> text_of (ctx_broker c)) (Some scp) of
        Inl e \<Rightarrow> (Inl e, w)
      | Inr r \<Rightarrow> (case timed (try_claim_under_reservation r scp owner) w of
          (c, w) \<Rightarrow> (c, log_event (ClaimMade (case text_of (int_idempotency_key intent) of None \<Rightarrow> [] | Some k \<Rightarrow> k) c) w)))"

definition claim_and_send ::
  "'g dependencies \<Rightarrow> execution_intent \<Rightarrow> execution_context option \<Rightarrow> execution_decision \<Rightarrow> string \<Rightarrow> string
   \<Rightarrow> 'g world \<Rightarrow> execution_result result \<times> 'g world" where
  "claim_and_send g intent context decision scp owner w =
     (case claim_intent intent context scp owner w of
        (Inl e, w) \<Rightarrow> (Inr (plain_result RECON_UNKNOWN decision ''Intent records unavailable''), w)
      | (Inr claim, w) \<Rightarrow>
          if claim \<noteq> CLAIMED then
            (case reconcile g intent None w of
               (Inl e, w) \<Rightarrow> (Inl e, w)
             | (Inr follow_up, w) \<Rightarrow> (Inr (plain_result (rr_state follow_up) decision (rr_reason follow_up)), w))
          else (case build_order intent of
               Inl e \<Rightarrow> (Inl e, w)
             | Inr order \<Rightarrow> as_result (send_order g intent decision order w)))"

text \<open>The policy has allowed the intent.\<close>

definition submit_allowed ::
  "'g dependencies \<Rightarrow> execution_intent \<Rightarrow> execution_context option \<Rightarrow> execution_decision \<Rightarrow> raw_position list option
   \<Rightarrow> string \<Rightarrow> string \<Rightarrow> 'g world \<Rightarrow> execution_result result \<times> 'g world" where
  "submit_allowed g intent context decision positions scp owner w =
     (case reconcile g intent positions w of
        (Inl e, w) \<Rightarrow> (Inl e, w)
      | (Inr reconciliation, w) \<Rightarrow>
          if rr_state reconciliation \<noteq> READY_TO_SUBMIT
          then (Inr (plain_result (rr_state reconciliation) decision (rr_reason reconciliation)), w)
          else (case callback (map_option (\<lambda>f. f decision) (gw_before_submit g)) w of
              (Inl e, w) \<Rightarrow> (Inl e, w)
            | (Inr _, w) \<Rightarrow> claim_and_send g intent context decision scp owner w))"

text \<open>\<open>replace(context, open_positions=fresh_positions)\<close>, \<open>None\<close> when either is missing.\<close>

definition effective_context :: "execution_context option \<Rightarrow> raw_position list option \<Rightarrow> execution_context option" where
  "effective_context context positions =
     (case (context, from_positions positions) of
        (Some c, Some fresh) \<Rightarrow> Some (c\<lparr>ctx_open_positions := PyTuple fresh\<rparr>)
      | _ \<Rightarrow> None)"

definition submit_reserved ::
  "'g dependencies \<Rightarrow> execution_intent \<Rightarrow> execution_context option \<Rightarrow> string \<Rightarrow> string \<Rightarrow> 'g world
   \<Rightarrow> execution_result result \<times> 'g world" where
  "submit_reserved g intent context scp owner w =
     (case read_positions g w of (observed, w) \<Rightarrow>
      let positions = (case observed of Inl e \<Rightarrow> None | Inr ps \<Rightarrow> Some ps) in
      (case evaluate intent (effective_context context positions) of
         Inl e \<Rightarrow> (Inl e, w)
       | Inr decision \<Rightarrow>
           if \<not> dec_allowed decision
           then (Inr (plain_result (if positions = None then RECON_UNKNOWN else RECON_REJECTED) decision (dec_reason decision)), w)
           else submit_allowed g intent context decision positions scp owner w))"

text \<open>The reservation is held: refresh the context, submit, report.\<close>

definition submit_held ::
  "'g dependencies \<Rightarrow> execution_intent \<Rightarrow> execution_context option \<Rightarrow> string \<Rightarrow> string \<Rightarrow> 'g world
   \<Rightarrow> execution_result result \<times> 'g world" where
  "submit_held g intent context scp owner w =
     (case (case gw_context_provider g of
              None \<Rightarrow> (context, w)
            | Some provide \<Rightarrow> (case await provide w of (Inl e, w) \<Rightarrow> (None, w) | (Inr c, w) \<Rightarrow> (c, w))) of
        (context, w) \<Rightarrow>
          (case submit_reserved g intent context scp owner w of
             (Inl e, w) \<Rightarrow> (Inl e, w)
           | (Inr result, w) \<Rightarrow>
               (case callback (map_option (\<lambda>f. f result) (gw_after_submit g)) w of
                  (Inl e, w) \<Rightarrow> (Inl e, w)
                | (Inr _, w) \<Rightarrow> (Inr result, w))))"

text \<open>\<open>try: ... finally: release_reservation(scope, owner_id)\<close>\<close>

definition release_after ::
  "string \<Rightarrow> string \<Rightarrow> execution_result result \<times> 'g world \<Rightarrow> execution_result result \<times> 'g world" where
  "release_after scp owner p =
     (case p of (r, w) \<Rightarrow> (case stored (release_reservation scp owner) w of
        (Inl e, w) \<Rightarrow> (Inl e, w)
      | (Inr _, w) \<Rightarrow> (r, w)))"

definition denied :: "decision_code \<Rightarrow> string \<Rightarrow> execution_result" where
  "denied code reason = plain_result RECON_UNKNOWN (reject code reason) reason"

definition submission_scope :: "execution_context option \<Rightarrow> string" where
  "submission_scope context = (case context of None \<Rightarrow> []
     | Some c \<Rightarrow> (case text_of (ctx_account_id c) of None \<Rightarrow> [] | Some a \<Rightarrow> py_strip a))"

definition submit ::
  "'g dependencies \<Rightarrow> execution_intent \<Rightarrow> execution_context option \<Rightarrow> string \<Rightarrow> 'g world
   \<Rightarrow> execution_result result \<times> 'g world" where
  "submit g intent context owner w =
     (let scp = submission_scope context in
      if scp = [] then (Inr (denied SAFETY_CONTEXT_INVALID ''Execution reservation requires an account identity''), w)
      else (case timed (acquire_reservation scp owner (gw_lease_seconds g) (int_idempotency_key intent)) w of
          (Inl e, w) \<Rightarrow> (Inr (denied EXECUTION_RESERVATION_UNAVAILABLE ''Execution reservation is unavailable''), w)
        | (Inr reservation, w) \<Rightarrow>
            if reservation \<noteq> ACQUIRED
            then (Inr (denied (if reservation = UNRESOLVED_INTENT then UNRESOLVED_DURABLE_INTENT
                               else EXECUTION_RESERVATION_HELD) ''Execution reservation was not acquired''), w)
            else release_after scp owner (submit_held g intent context scp owner w)))"

section \<open>The log of a call\<close>

fun sent_order :: "exec_event \<Rightarrow> order_request option" where
  "sent_order (OrderSent order) = Some order"
| "sent_order _ = None"

definition sent_orders :: "exec_event list \<Rightarrow> order_request list" where
  "sent_orders evs = List.map_filter sent_order evs"

lemma sent_orders_simps [simp]:
  "sent_orders [] = []" "sent_orders (xs @ ys) = sent_orders xs @ sent_orders ys"
  "sent_orders (OrderSent ord # xs) = ord # sent_orders xs"
  "sent_orders (PositionsRead ps # xs) = sent_orders xs"
  "sent_orders (ClaimMade k c # xs) = sent_orders xs"
  by (simp_all add: sent_orders_def List.map_filter_def)

text \<open>\<open>appends w w' evs\<close>: the step from \<open>w\<close> to \<open>w'\<close> logged exactly \<open>evs\<close>.\<close>

definition appends :: "'g world \<Rightarrow> 'g world \<Rightarrow> exec_event list \<Rightarrow> bool" where
  "appends w w' evs \<longleftrightarrow> w_log w' = w_log w @ evs"

lemma appends_refl [simp]: "appends w w []"
  by (simp add: appends_def)

lemma appends_trans: "appends w w1 e1 \<Longrightarrow> appends w1 w2 e2 \<Longrightarrow> appends w w2 (e1 @ e2)"
  by (simp add: appends_def)

lemma log_await: "await f w = (r, w') \<Longrightarrow> appends w w' []"
  by (auto simp: await_def appends_def split: prod.splits)

lemma log_callback: "callback f w = (r, w') \<Longrightarrow> appends w w' []"
  by (auto simp: callback_def appends_def split: prod.splits option.splits)

lemma log_timed: "timed f w = (r, w') \<Longrightarrow> appends w w' []"
  by (auto simp: timed_def appends_def split: prod.splits)

lemma log_stored: "stored f w = (r, w') \<Longrightarrow> appends w w' []"
  by (auto simp: stored_def appends_def split: prod.splits)

lemma log_read_positions: "read_positions g w = (r, w') \<Longrightarrow> appends w w' [PositionsRead r]"
  by (auto simp: read_positions_def log_event_def appends_def dest: log_await split: prod.splits)

lemma log_record_transition: "record_transition i st o' t w = (b, w') \<Longrightarrow> appends w w' []"
  by (auto simp: record_transition_def dest: log_timed split: prod.splits sum.splits)

lemma log_reconcile_record: "reconcile_record g i r w = (x, w') \<Longrightarrow> appends w w' []"
  by (auto simp: reconcile_record_def dest!: log_await log_record_transition dest: appends_trans
      split: prod.splits sum.splits option.splits if_splits)

lemma log_reconcile_observed: "reconcile_observed g i f ps w = (x, w') \<Longrightarrow> appends w w' []"
  by (auto simp: reconcile_observed_def Let_def dest: log_reconcile_record split: option.splits if_splits)

text \<open>Reconciling reads positions at most once and sends nothing.\<close>

lemma log_reconcile: "reconcile g i ps w = (x, w') \<Longrightarrow> \<exists>evs. appends w w' evs \<and> sent_orders evs = []
    \<and> (\<forall>k c. ClaimMade k c \<notin> set evs)"
proof -
  assume a: "reconcile g i ps w = (x, w')"
  obtain r1 w1 where st: "stored (store_get (int_idempotency_key i)) w = (r1, w1)" by force
  have l1: "appends w w1 []" using log_stored [OF st] .
  show ?thesis
  proof (cases "\<exists>f. reconcile_observed g i f (the ps) w1 = (x, w') \<or> w' = w1")
    case True
    with l1 have "appends w w' []" by (auto dest: log_reconcile_observed appends_trans)
    then show ?thesis by (intro exI [of _ "[]"]) simp
  next
    case False
    obtain r2 w2 where rp: "read_positions g w1 = (r2, w2)" by force
    have l2: "appends w w2 [PositionsRead r2]" using appends_trans [OF l1 log_read_positions [OF rp]] by simp
    have "w' = w2 \<or> (\<exists>f ob. reconcile_observed g i f ob w2 = (x, w'))"
      using a False by (fastforce simp: reconcile_def st rp split: sum.splits option.splits intent_status.splits)
    then have "appends w w' [PositionsRead r2]"
      using l2 by (auto dest: log_reconcile_observed appends_trans)
    then show ?thesis by (intro exI [of _ "[PositionsRead r2]"]) simp
  qed
qed

lemma log_send_order: "send_order g i d ord w = (x, w') \<Longrightarrow> appends w w' [OrderSent ord]"
proof -
  assume a: "send_order g i d ord w = (x, w')"
  obtain r w1 where aw: "await (gw_submit_order g ord) (log_event (OrderSent ord) w) = (r, w1)" by force
  have l: "appends w w1 [OrderSent ord]"
    using log_await [OF aw] by (simp add: appends_def log_event_def)
  have "\<exists>st oid tid b. record_transition i st oid tid w1 = (b, w')"
    using a unfolding send_order_def aw prod.case
    by (auto simp: Let_def split: sum.splits py_exn.splits prod.splits if_splits)
  then show ?thesis using l by (auto dest: log_record_transition appends_trans)
qed

definition claim_key :: "execution_intent \<Rightarrow> string" where
  "claim_key i = (case text_of (int_idempotency_key i) of None \<Rightarrow> [] | Some k \<Rightarrow> k)"

lemma log_claim_intent: "claim_intent i c scp owner w = (x, w') \<Longrightarrow>
    appends w w' [] \<and> (\<exists>e. x = Inl e) \<or> appends w w' [ClaimMade (claim_key i) x]"
proof (cases "from_execution_intent i PENDING None None (case c of None \<Rightarrow> None | Some c \<Rightarrow> text_of (ctx_broker c)) (Some scp)")
  case (Inr r)
  assume a: "claim_intent i c scp owner w = (x, w')"
  obtain y w1 where t: "timed (try_claim_under_reservation r scp owner) w = (y, w1)" by force
  from a log_timed [OF t] show ?thesis
    by (auto simp: claim_intent_def Inr t log_event_def appends_def claim_key_def)
qed (auto simp: claim_intent_def)

text \<open>The shape of a call's log: nothing sent, or one order sent, right after its own successful
  claim, and built from the intent.\<close>

definition submission_log :: "execution_intent \<Rightarrow> exec_event list \<Rightarrow> bool" where
  "submission_log i evs \<longleftrightarrow> sent_orders evs = []
     \<or> (\<exists>pre order. evs = pre @ [ClaimMade (claim_key i) (Inr CLAIMED), OrderSent order]
          \<and> sent_orders pre = [] \<and> (\<forall>k c. ClaimMade k c \<notin> set pre) \<and> build_order i = Inr order)"

lemma submission_log_quiet [simp]: "sent_orders evs = [] \<Longrightarrow> submission_log i evs"
  by (simp add: submission_log_def)

lemma submission_log_prefix:
  "submission_log i evs \<Longrightarrow> sent_orders pre = [] \<Longrightarrow> \<forall>k c. ClaimMade k c \<notin> set pre \<Longrightarrow> submission_log i (pre @ evs)"
  by (force simp: submission_log_def)

lemma log_claim_and_send:
  assumes "claim_and_send g i c d scp owner w = (x, w')"
  shows "\<exists>evs. appends w w' evs \<and> submission_log i evs"
proof -
  obtain cl w1 where ci: "claim_intent i c scp owner w = (cl, w1)" by force
  note l1 = log_claim_intent [OF ci]
  then obtain e1 where e1: "appends w w1 e1" "sent_orders e1 = []" by fastforce
  have tail: "\<exists>evs. appends w w' evs \<and> submission_log i evs" if "appends w1 w' e2" "sent_orders e2 = []" for e2
    using appends_trans [OF e1(1) that(1)] e1(2) that(2) by (intro exI [of _ "e1 @ e2"]) simp
  show ?thesis
  proof (cases cl)
    case (Inl e)
    with assms ci have "w' = w1" by (simp add: claim_and_send_def)
    then show ?thesis using tail [of "[]"] by simp
  next
    case (Inr claim)
    show ?thesis
    proof (cases "claim = CLAIMED")
      case False
      obtain fu w2 where fu: "reconcile g i None w1 = (fu, w2)" by force
      with assms ci Inr False have "w' = w2" by (auto simp: claim_and_send_def split: sum.splits)
      with log_reconcile [OF fu] tail show ?thesis by blast
    next
      case True
      show ?thesis
      proof (cases "build_order i")
        case (Inl e)
        with assms ci Inr True have "w' = w1" by (simp add: claim_and_send_def)
        then show ?thesis using tail [of "[]"] by simp
      next
        case b: (Inr order)
        obtain y w2 where so: "send_order g i d order w1 = (y, w2)" by force
        with assms ci Inr True b have "w' = w2" by (simp add: claim_and_send_def as_result_def)
        moreover from l1 Inr True have "appends w w1 [ClaimMade (claim_key i) (Inr CLAIMED)]" by auto
        ultimately have "appends w w' [ClaimMade (claim_key i) (Inr CLAIMED), OrderSent order]"
          using appends_trans [OF _ log_send_order [OF so]] by fastforce
        moreover have "submission_log i [ClaimMade (claim_key i) (Inr CLAIMED), OrderSent order]"
          using b by (simp add: submission_log_def)
        ultimately show ?thesis by blast
      qed
    qed
  qed
qed

lemma log_submit_allowed:
  assumes "submit_allowed g i c d ps scp owner w = (x, w')"
  shows "\<exists>evs. appends w w' evs \<and> submission_log i evs"
proof -
  obtain rc w1 where rc: "reconcile g i ps w = (rc, w1)" by force
  from log_reconcile [OF rc] obtain e1 where e1: "appends w w1 e1" "sent_orders e1 = []"
    "\<forall>k c. ClaimMade k c \<notin> set e1" by blast
  obtain cb w2 where cb: "callback (map_option (\<lambda>f. f d) (gw_before_submit g)) w1 = (cb, w2)" by force
  have e2: "appends w w2 e1" using appends_trans [OF e1(1) log_callback [OF cb]] by simp
  consider "w' = w1" | "w' = w2" | "claim_and_send g i c d scp owner w2 = (x, w')"
    using assms by (auto simp: submit_allowed_def rc cb split: sum.splits if_splits)
  then show ?thesis
  proof cases
    case 3
    from log_claim_and_send [OF this] obtain e3 where "appends w2 w' e3" "submission_log i e3" by blast
    with appends_trans [OF e2] submission_log_prefix e1 show ?thesis by blast
  qed (use e1 e2 in \<open>auto intro!: exI [of _ e1]\<close>)
qed

lemma log_submit_reserved:
  assumes "submit_reserved g i c scp owner w = (x, w')"
  shows "\<exists>evs ob. appends w w' (PositionsRead ob # evs) \<and> submission_log i evs
    \<and> (sent_orders evs \<noteq> [] \<longrightarrow> (\<exists>ps c' snaps. ob = Inr ps \<and> c = Some c' \<and> from_positions (Some ps) = Some snaps
          \<and> execution_safe i (c'\<lparr>ctx_open_positions := PyTuple snaps\<rparr>)))"
proof -
  obtain ob w1 where rp: "read_positions g w = (ob, w1)" by force
  note l1 = log_read_positions [OF rp]
  let ?ps = "case ob of Inl e \<Rightarrow> None | Inr ps \<Rightarrow> Some ps"
  consider "w' = w1" | d where "evaluate i (effective_context c ?ps) = Inr d" "dec_allowed d"
      "submit_allowed g i c d ?ps scp owner w1 = (x, w')"
    using assms by (auto simp: submit_reserved_def rp Let_def split: sum.splits if_splits)
  then show ?thesis
  proof cases
    case 1
    with l1 show ?thesis by (intro exI [of _ "[]"] exI [of _ ob]) simp
  next
    case 2
    from log_submit_allowed [OF 2(3)] obtain evs where evs: "appends w1 w' evs" "submission_log i evs" by blast
    have "effective_context c ?ps \<noteq> None"
      using 2(1,2) by (cases "effective_context c ?ps") (auto simp: evaluate_def reject_if_def reject_def split: if_splits)
    then obtain ps c' snaps where e: "ob = Inr ps" "c = Some c'" "from_positions (Some ps) = Some snaps"
      by (auto simp: effective_context_def from_positions_def split: option.splits sum.splits)
    with 2 have "execution_safe i (c'\<lparr>ctx_open_positions := PyTuple snaps\<rparr>)"
      using evaluate_allowed_safe [of i "c'\<lparr>ctx_open_positions := PyTuple snaps\<rparr>"]
      by (auto simp: effective_context_def)
    with evs e appends_trans [OF l1 evs(1)] show ?thesis by force
  qed
qed

text \<open>The context of the caller, or the one the provider returned.\<close>

definition supplied_context :: "'g dependencies \<Rightarrow> execution_context option \<Rightarrow> execution_context \<Rightarrow> bool" where
  "supplied_context g c c' \<longleftrightarrow> (case gw_context_provider g of None \<Rightarrow> c = Some c'
     | Some provide \<Rightarrow> \<exists>e s. fst (provide e s) = Inr (Some c'))"

lemma log_submit_held:
  assumes "submit_held g i c scp owner w = (x, w')"
  shows "\<exists>evs ob. appends w w' (PositionsRead ob # evs) \<and> submission_log i evs
    \<and> (sent_orders evs \<noteq> [] \<longrightarrow> (\<exists>ps c' snaps. ob = Inr ps \<and> supplied_context g c c' \<and> from_positions (Some ps) = Some snaps
          \<and> execution_safe i (c'\<lparr>ctx_open_positions := PyTuple snaps\<rparr>)))"
proof -
  obtain c1 w1 where cp: "(case gw_context_provider g of
              None \<Rightarrow> (c, w)
            | Some provide \<Rightarrow> (case await provide w of (Inl e, w) \<Rightarrow> (None, w) | (Inr c, w) \<Rightarrow> (c, w))) = (c1, w1)" by force
  have l1: "appends w w1 []" using cp by (auto dest: log_await split: option.splits prod.splits sum.splits)
  obtain y w2 where sr: "submit_reserved g i c1 scp owner w1 = (y, w2)" by force
  have "w' = w2 \<or> (\<exists>r f. callback f w2 = (r, w'))"
    using assms unfolding submit_held_def cp prod.case sr by (auto split: sum.splits prod.splits)
  then have l3: "appends w2 w' []" by (auto dest: log_callback)
  from log_submit_reserved [OF sr] obtain evs ob where
    l2: "appends w1 w2 (PositionsRead ob # evs)" "submission_log i evs"
    "sent_orders evs \<noteq> [] \<longrightarrow> (\<exists>ps c' snaps. ob = Inr ps \<and> c1 = Some c' \<and> from_positions (Some ps) = Some snaps
          \<and> execution_safe i (c'\<lparr>ctx_open_positions := PyTuple snaps\<rparr>))" by blast
  have "appends w w' (PositionsRead ob # evs)" using appends_trans [OF appends_trans [OF l1 l2(1)] l3] by simp
  moreover have "supplied_context g c c'" if "c1 = Some c'" for c'
    using cp that by (auto simp: supplied_context_def await_def split: option.splits prod.splits sum.splits) (metis fst_conv)+
  ultimately show ?thesis using l2(2,3) by blast
qed

text \<open>Everything a call of \<open>submit\<close> logs.\<close>

lemma log_submit:
  assumes "submit g i c owner w = (x, w')"
  shows "w_log w' = w_log w \<or> (\<exists>evs ob. appends w w' (PositionsRead ob # evs) \<and> submission_log i evs
    \<and> (sent_orders evs \<noteq> [] \<longrightarrow> (\<exists>ps c' snaps. ob = Inr ps \<and> supplied_context g c c' \<and> from_positions (Some ps) = Some snaps
          \<and> execution_safe i (c'\<lparr>ctx_open_positions := PyTuple snaps\<rparr>))))"
proof -
  let ?scp = "submission_scope c"
  obtain y w1 where ac: "timed (acquire_reservation ?scp owner (gw_lease_seconds g) (int_idempotency_key i)) w = (y, w1)" by force
  have l1: "appends w w1 []" using log_timed [OF ac] .
  obtain z w2 where sh: "submit_held g i c ?scp owner w1 = (z, w2)" by force
  obtain v w3 where rl: "stored (release_reservation ?scp owner) w2 = (v, w3)" by force
  have "w' = w \<or> w' = w1 \<or> w' = w3"
    using assms by (auto simp: submit_def Let_def ac sh release_after_def rl split: if_splits sum.splits)
  moreover from log_submit_held [OF sh] obtain evs ob where
    l2: "appends w1 w2 (PositionsRead ob # evs)" "submission_log i evs"
    "sent_orders evs \<noteq> [] \<longrightarrow> (\<exists>ps c' snaps. ob = Inr ps \<and> supplied_context g c c' \<and> from_positions (Some ps) = Some snaps
          \<and> execution_safe i (c'\<lparr>ctx_open_positions := PyTuple snaps\<rparr>))" by blast
  moreover have "appends w w3 (PositionsRead ob # evs)"
    using appends_trans [OF appends_trans [OF l1 l2(1)] log_stored [OF rl]] by simp
  ultimately show ?thesis using l1 by (auto simp: appends_def)
qed

section \<open>The store under a call\<close>

text \<open>\<open>reaches s s'\<close>: some history of store calls leads from \<open>s\<close> to \<open>s'\<close>. A dependency is well behaved
  when other tasks change the store only through its operations while the call is awaited.\<close>

definition reaches :: "intent_db \<Rightarrow> intent_db \<Rightarrow> bool" where
  "reaches s s' \<longleftrightarrow> (\<exists>evs. store_trace s evs s')"

definition uses_store :: "('g, 'a) call \<Rightarrow> bool" where
  "uses_store f \<longleftrightarrow> (\<forall>e s. reaches s (snd (snd (f e s))))"

definition well_behaved :: "'g dependencies \<Rightarrow> bool" where
  "well_behaved g \<longleftrightarrow> uses_store (gw_get_positions g) \<and> (\<forall>order. uses_store (gw_submit_order g order))
     \<and> (\<forall>f a b c d. gw_reconcile g = Some f \<longrightarrow> uses_store (f a b c d))
     \<and> (\<forall>p. gw_context_provider g = Some p \<longrightarrow> uses_store p)"

lemma reaches_refl [simp]: "reaches s s"
  using store_trace.trace_nil by (auto simp: reaches_def)

lemma store_trace_append: "store_trace s e1 t \<Longrightarrow> store_trace t e2 u \<Longrightarrow> store_trace s (e1 @ e2) u"
  by (induction rule: store_trace.induct) (auto intro: store_trace.intros)

lemma reaches_trans: "reaches s t \<Longrightarrow> reaches t u \<Longrightarrow> reaches s u"
  using store_trace_append unfolding reaches_def by blast

lemma reaches_step: "store_step s ev s' \<Longrightarrow> reaches s s'"
  using store_trace.intros unfolding reaches_def by blast

lemma reaches_keeps: "reaches s s' \<Longrightarrow> intent_of k s = Some row \<Longrightarrow> \<exists>row'. intent_of k s' = Some row' \<and> evolves row row'"
  using intent_evolves by (auto simp: reaches_def)

lemma reaches_store_ops:
  "store_get k s = (r1, s') \<Longrightarrow> reaches s s'"
  "transition rec clock s = (r2, s') \<Longrightarrow> reaches s s'"
  "acquire_reservation scp owner lease key clock s = (r3, s') \<Longrightarrow> reaches s s'"
  "release_reservation scp owner s = (r4, s') \<Longrightarrow> reaches s s'"
  by (erule reaches_step [OF store_step.query [OF store_query.intros(1)]], erule reaches_step [OF store_step.transit],
      erule reaches_step [OF store_step.acquire], erule reaches_step [OF store_step.release])

lemma reaches_claim: "try_claim_under_reservation rec scp owner clock s = (r, s') \<Longrightarrow> reaches s s'"
proof (cases "text_of (rec_idempotency_key rec)")
  case None
  then show "try_claim_under_reservation rec scp owner clock s = (r, s') \<Longrightarrow> ?thesis"
    by (simp add: try_claim_under_reservation_def validate_key_def)
qed (blast intro: reaches_step [OF store_step.claim_reserved])

lemma reaches_await: "await f w = (r, w') \<Longrightarrow> uses_store f \<Longrightarrow> reaches (w_store w) (w_store w')"
  by (auto simp: await_def uses_store_def split: prod.splits) (metis snd_conv)

lemma reaches_callback: "callback f w = (r, w') \<Longrightarrow> w_store w' = w_store w"
  by (auto simp: callback_def split: prod.splits option.splits)

lemma reaches_get: "stored (store_get k) w = (r, w') \<Longrightarrow> reaches (w_store w) (w_store w')"
  by (auto simp: stored_def split: prod.splits dest: reaches_store_ops)

lemma reaches_read_positions: "read_positions g w = (r, w') \<Longrightarrow> well_behaved g \<Longrightarrow> reaches (w_store w) (w_store w')"
  by (auto simp: read_positions_def log_event_def well_behaved_def split: prod.splits dest: reaches_await)

lemma reaches_record_transition: "record_transition i st o' t w = (b, w') \<Longrightarrow> reaches (w_store w) (w_store w')"
  by (auto simp: record_transition_def timed_def split: prod.splits sum.splits dest: reaches_store_ops)

lemma reaches_reconcile_record:
  assumes "reconcile_record g i r w = (x, w')" "well_behaved g"
  shows "reaches (w_store w) (w_store w')"
proof (cases "gw_reconcile g")
  case (Some f)
  let ?call = "f (rec_order_id r) (rec_transaction_id r) (text_of (int_symbol i)) (text_of (int_idempotency_key i))"
  obtain ev w1 where aw: "await ?call w = (ev, w1)" by force
  have r1: "reaches (w_store w) (w_store w1)"
    using reaches_await [OF aw] assms(2) Some by (auto simp: well_behaved_def)
  have "w' = w1 \<or> (\<exists>st o' t b. record_transition i st o' t w1 = (b, w'))"
    using assms(1) unfolding reconcile_record_def Some option.case aw prod.case
    by (auto split: sum.splits if_splits prod.splits)
  with r1 show ?thesis by (auto dest: reaches_record_transition intro: reaches_trans)
qed (use assms(1) in \<open>simp add: reconcile_record_def\<close>)

lemma reaches_reconcile_observed:
  "reconcile_observed g i f ps w = (x, w') \<Longrightarrow> well_behaved g \<Longrightarrow> reaches (w_store w) (w_store w')"
  by (auto simp: reconcile_observed_def Let_def dest: reaches_reconcile_record split: option.splits if_splits)

lemma reaches_reconcile:
  assumes "reconcile g i ps w = (x, w')" "well_behaved g"
  shows "reaches (w_store w) (w_store w')"
proof -
  obtain r1 w1 where st: "stored (store_get (int_idempotency_key i)) w = (r1, w1)" by force
  note g1 = reaches_get [OF st]
  obtain r2 w2 where rp: "read_positions g w1 = (r2, w2)" by force
  note g2 = reaches_trans [OF g1 reaches_read_positions [OF rp assms(2)]]
  have "w' = w1 \<or> w' = w2 \<or> (\<exists>f ob. reconcile_observed g i f ob w1 = (x, w')) \<or> (\<exists>f ob. reconcile_observed g i f ob w2 = (x, w'))"
    using assms(1) by (fastforce simp: reconcile_def st rp split: sum.splits option.splits intent_status.splits)
  then show ?thesis
    using g1 g2 reaches_reconcile_observed [OF _ assms(2)] by (auto intro: reaches_trans)
qed

lemma reaches_send_order:
  assumes "send_order g i d ord w = (x, w')" "well_behaved g"
  shows "reaches (w_store w) (w_store w')"
proof -
  obtain r w1 where aw: "await (gw_submit_order g ord) (log_event (OrderSent ord) w) = (r, w1)" by force
  have r1: "reaches (w_store w) (w_store w1)"
    using reaches_await [OF aw] assms(2) by (auto simp: well_behaved_def log_event_def)
  have "\<exists>st oid tid b. record_transition i st oid tid w1 = (b, w')"
    using assms(1) unfolding send_order_def aw prod.case
    by (auto simp: Let_def split: sum.splits py_exn.splits prod.splits if_splits)
  with r1 show ?thesis by (auto dest: reaches_record_transition intro: reaches_trans)
qed

text \<open>A successful claim needs the key to be absent, and stores it.\<close>

lemma reaches_claim_intent:
  assumes "claim_intent i c scp owner w = (x, w')"
  shows "reaches (w_store w) (w_store w')"
    and "x = Inr CLAIMED \<Longrightarrow> intent_of (claim_key i) (w_store w) = None
      \<and> (\<exists>row. intent_of (claim_key i) (w_store w') = Some row \<and> row_state row = status_value PENDING)"
proof -
  let ?b = "case c of None \<Rightarrow> None | Some c \<Rightarrow> text_of (ctx_broker c)"
  have "reaches (w_store w) (w_store w') \<and> (x = Inr CLAIMED \<longrightarrow> intent_of (claim_key i) (w_store w) = None
      \<and> (\<exists>row. intent_of (claim_key i) (w_store w') = Some row \<and> row_state row = status_value PENDING))"
  proof (cases "from_execution_intent i PENDING None None ?b (Some scp)")
    case (Inl e)
    with assms show ?thesis by (auto simp: claim_intent_def)
  next
    case (Inr r)
    then have r: "rec_idempotency_key r = int_idempotency_key i" "rec_status r = PENDING"
      by (auto simp: from_execution_intent_def)
    obtain y s' where cl: "try_claim_under_reservation r scp owner (w_clock w (w_ticks w)) (w_store w) = (y, s')" by force
    with assms Inr have x: "x = y" "w_store w' = s'" by (auto simp: claim_intent_def timed_def log_event_def)
    from cl show ?thesis
    proof (cases rule: claim_effect)
      case none
      with x reaches_claim [OF cl] show ?thesis by simp
    next
      case (claimed key row)
      have "claim_key i = key" using claimed(2) r(1) by (simp add: claim_key_def)
      then show ?thesis
        using claimed encode_fields [OF claimed(4)] x r(2) reaches_claim [OF cl] by (auto simp: sel_append)
    qed
  qed
  then show "reaches (w_store w) (w_store w')" "x = Inr CLAIMED \<Longrightarrow> intent_of (claim_key i) (w_store w) = None
      \<and> (\<exists>row. intent_of (claim_key i) (w_store w') = Some row \<and> row_state row = status_value PENDING)" by auto
qed

lemma store_claim_and_send:
  assumes "claim_and_send g i c d scp owner w = (x, w')" "well_behaved g"
  shows "reaches (w_store w) (w_store w')
    \<and> (\<forall>evs. appends w w' evs \<longrightarrow> sent_orders evs \<noteq> [] \<longrightarrow> intent_of (claim_key i) (w_store w) = None)"
proof -
  obtain cl w1 where ci: "claim_intent i c scp owner w = (cl, w1)" by force
  note r1 = reaches_claim_intent [OF ci]
  have l1: "\<exists>e1. appends w w1 e1 \<and> sent_orders e1 = []" using log_claim_intent [OF ci] by fastforce
  consider (none) "w' = w1" | (follow) fu where "reconcile g i None w1 = (fu, w')" "cl \<noteq> Inr CLAIMED"
    | (send) ord y where "cl = Inr CLAIMED" "send_order g i d ord w1 = (y, w')"
    using assms(1) by (auto simp: claim_and_send_def ci as_result_def split: sum.splits if_splits prod.splits)
  then show ?thesis
  proof cases
    case none
    with r1(1) l1 show ?thesis by (auto simp: appends_def)
  next
    case follow
    from log_reconcile [OF follow(1)] l1 have "appends w w' evs \<Longrightarrow> sent_orders evs = []" for evs
      by (auto simp: appends_def)
    with reaches_trans [OF r1(1) reaches_reconcile [OF follow(1) assms(2)]] show ?thesis by blast
  next
    case send
    with r1 reaches_send_order [OF send(2) assms(2)] show ?thesis by (blast intro: reaches_trans)
  qed
qed

lemma keeps_absent: "reaches s s' \<Longrightarrow> intent_of k s' = None \<Longrightarrow> intent_of k s = None"
  using reaches_keeps by (cases "intent_of k s") fastforce+

lemma store_submit_allowed:
  assumes "submit_allowed g i c d ps scp owner w = (x, w')" "well_behaved g"
  shows "reaches (w_store w) (w_store w')
    \<and> (\<forall>evs. appends w w' evs \<longrightarrow> sent_orders evs \<noteq> [] \<longrightarrow> intent_of (claim_key i) (w_store w) = None)"
proof -
  obtain rc w1 where rc: "reconcile g i ps w = (rc, w1)" by force
  note r1 = reaches_reconcile [OF rc assms(2)]
  obtain e1 where e1: "appends w w1 e1" "sent_orders e1 = []" using log_reconcile [OF rc] by blast
  obtain cb w2 where cb: "callback (map_option (\<lambda>f. f d) (gw_before_submit g)) w1 = (cb, w2)" by force
  note r2 = reaches_callback [OF cb] and l2 = log_callback [OF cb]
  consider "w' = w1 \<or> w' = w2" | "claim_and_send g i c d scp owner w2 = (x, w')"
    using assms(1) by (auto simp: submit_allowed_def rc cb split: sum.splits if_splits)
  then show ?thesis
  proof cases
    case 1
    with r1 r2 e1 l2 show ?thesis by (auto simp: appends_def)
  next
    case 2
    note st = store_claim_and_send [OF 2 assms(2)]
    obtain e3 where e3: "appends w2 w' e3" using log_claim_and_send [OF 2] by blast
    have "intent_of (claim_key i) (w_store w) = None" if "appends w w' evs" "sent_orders evs \<noteq> []" for evs
    proof -
      from that e1 e3 l2 have "sent_orders e3 \<noteq> []" by (auto simp: appends_def)
      with st e3 r2 have "intent_of (claim_key i) (w_store w1) = None" by auto
      with r1 show ?thesis by (rule keeps_absent)
    qed
    moreover have "reaches (w_store w) (w_store w')" using st r1 r2 by (auto intro: reaches_trans)
    ultimately show ?thesis by blast
  qed
qed

lemma store_submit_reserved:
  assumes "submit_reserved g i c scp owner w = (x, w')" "well_behaved g"
  shows "reaches (w_store w) (w_store w')
    \<and> (\<forall>evs. appends w w' evs \<longrightarrow> sent_orders evs \<noteq> [] \<longrightarrow> intent_of (claim_key i) (w_store w) = None)"
proof -
  obtain ob w1 where rp: "read_positions g w = (ob, w1)" by force
  note r1 = reaches_read_positions [OF rp assms(2)] and l1 = log_read_positions [OF rp]
  consider "w' = w1" | d ps where "submit_allowed g i c d ps scp owner w1 = (x, w')"
    using assms(1) by (auto simp: submit_reserved_def rp Let_def split: sum.splits if_splits)
  then show ?thesis
  proof cases
    case 1
    with r1 l1 show ?thesis by (auto simp: appends_def)
  next
    case 2
    note st = store_submit_allowed [OF 2 assms(2)]
    obtain e2 where e2: "appends w1 w' e2" using log_submit_allowed [OF 2] by blast
    have "intent_of (claim_key i) (w_store w) = None" if "appends w w' evs" "sent_orders evs \<noteq> []" for evs
    proof -
      from that l1 e2 have "sent_orders e2 \<noteq> []" by (auto simp: appends_def)
      with st e2 have "intent_of (claim_key i) (w_store w1) = None" by blast
      with r1 show ?thesis by (rule keeps_absent)
    qed
    with st r1 show ?thesis by (blast intro: reaches_trans)
  qed
qed

lemma store_submit:
  assumes "submit g i c owner w = (x, w')" "well_behaved g"
  shows "reaches (w_store w) (w_store w')
    \<and> (\<forall>evs. appends w w' evs \<longrightarrow> sent_orders evs \<noteq> [] \<longrightarrow> intent_of (claim_key i) (w_store w) = None)"
proof -
  let ?scp = "submission_scope c"
  obtain y w1 where ac: "timed (acquire_reservation ?scp owner (gw_lease_seconds g) (int_idempotency_key i)) w = (y, w1)" by force
  have r1: "reaches (w_store w) (w_store w1)"
    using ac by (auto simp: timed_def split: prod.splits dest: reaches_store_ops)
  obtain c1 w2 where cp: "(case gw_context_provider g of
              None \<Rightarrow> (c, w1)
            | Some provide \<Rightarrow> (case await provide w1 of (Inl e, w) \<Rightarrow> (None, w) | (Inr c, w) \<Rightarrow> (c, w))) = (c1, w2)" by force
  have r2: "reaches (w_store w1) (w_store w2)"
    using cp assms(2) by (auto simp: well_behaved_def dest: reaches_await split: option.splits prod.splits sum.splits)
  have l2: "appends w w2 []"
    using cp log_timed [OF ac] by (auto dest!: log_await simp: appends_def split: option.splits prod.splits sum.splits)
  obtain z w3 where sr: "submit_reserved g i c1 ?scp owner w2 = (z, w3)" by force
  note r3 = store_submit_reserved [OF sr assms(2)]
  obtain z' w4 where sh: "submit_held g i c ?scp owner w1 = (z', w4)" by force
  have "w4 = w3 \<or> (\<exists>r f. callback f w3 = (r, w4))"
    using sh unfolding submit_held_def cp prod.case sr by (auto split: sum.splits prod.splits)
  then have r4: "w_store w4 = w_store w3" "appends w3 w4 []" by (auto dest: reaches_callback log_callback)
  obtain v w5 where rl: "stored (release_reservation ?scp owner) w4 = (v, w5)" by force
  have r5: "reaches (w_store w4) (w_store w5)"
    using rl by (auto simp: stored_def split: prod.splits dest: reaches_store_ops)
  have fin: "w' = w \<or> w' = w1 \<or> w' = w5"
    using assms(1) by (auto simp: submit_def Let_def ac sh release_after_def rl split: if_splits sum.splits)
  have "intent_of (claim_key i) (w_store w) = None" if "appends w w' evs" "sent_orders evs \<noteq> []" for evs
  proof -
    from that log_timed [OF ac] have "w' \<noteq> w \<and> w' \<noteq> w1" by (auto simp: appends_def)
    with fin have "w' = w5" by blast
    with that l2 r4 log_stored [OF rl] have "appends w2 w3 evs" by (simp add: appends_def)
    with r3 that have "intent_of (claim_key i) (w_store w2) = None" by blast
    with reaches_trans [OF r1 r2] show ?thesis by (rule keeps_absent)
  qed
  moreover have "reaches (w_store w) (w_store w')"
    using fin r1 r2 r3 r4 r5 by (metis reaches_refl reaches_trans)
  ultimately show ?thesis by blast
qed

section \<open>Orders and outcomes\<close>

lemma denotes_positive_float:
  assumes "denotes v q" "0 < q"
  shows "\<exists>x. to_float v = Inr x \<and> positive_finite x"
proof (cases "v = PyFloat (Fin q)")
  case True
  with assms(2) show ?thesis by (simp add: positive_finite_def)
next
  case False
  with assms obtain i where i: "v = PyInt i" "q = of_int i" "is_finite (fl q)" by (auto simp: denotes_def)
  then obtain p where p: "fl q = Fin p" by (auto simp: is_finite_iff)
  have "1 \<le> q" using i assms(2) by simp
  then have "Fin 1 \<le> fl q" using fl_mono [of 1 q] by simp
  with i p show ?thesis by (auto simp: positive_finite_def float_of_int_def)
qed

lemma build_order_safe:
  assumes "execution_safe i c"
  shows "\<exists>order symb q. build_order i = Inr order \<and> text_of (int_symbol i) = Some symb \<and> int_quantity i = PyQuantity q
    \<and> req_symbol order = py_strip symb \<and> req_quantity order = q \<and> expected_unit (ctx_broker c) = Some (qty_unit q)
    \<and> side_of_pyval (int_side i) = Inr (req_side order) \<and> req_order_type order = MARKET
    \<and> req_idempotency_key order = text_of (int_idempotency_key i)"
proof -
  have safe: "quantity_typed i c" "levels_ordered i" "identities_present i c" using assms by (auto simp: execution_safe_def)
  obtain q where q: "int_quantity i = PyQuantity q" "expected_unit (ctx_broker c) = Some (qty_unit q)"
    using safe(1) by (auto simp: quantity_typed_def)
  obtain symb where symb: "text_of (int_symbol i) = Some symb"
    using safe(3) by (auto simp: identities_present_def nonblank_str_def split: option.splits)
  obtain stop target where lv: "to_float (int_stop_loss i) = Inr stop" "positive_finite stop"
    "to_float (int_take_profit i) = Inr target" "positive_finite target"
    using safe(2) denotes_positive_float unfolding levels_ordered_def by metis
  obtain side where side: "side_of_pyval (int_side i) = Inr side"
    using safe(2) by (auto simp: levels_ordered_def side_of_pyval_def side_of_value_def)
  show ?thesis
    by (simp add: build_order_def symb lv side q make_order_request_def opt_price_ok_def validate_order_type_fields_def)
qed

lemma record_transition_True:
  assumes "record_transition i st oid tid w = (True, w')"
  shows "\<exists>row. intent_of (claim_key i) (w_store w') = Some row \<and> row_state row = status_value st
    \<and> row_order_id row = oid \<and> row_transaction_id row = tid"
proof -
  from assms obtain s' where t: "transition (bare_record (int_idempotency_key i) st oid tid) (w_clock w (w_ticks w)) (w_store w) = (Inr True, s')"
    "w_store w' = s'" by (auto simp: record_transition_def timed_def split: prod.splits sum.splits)
  from t(1) show ?thesis
  proof (cases rule: transition_effect)
    case none
    then show ?thesis by simp
  next
    case (moved key row cur)
    then have "claim_key i = key" by (simp add: claim_key_def bare_record_def)
    with moved sel_SomeD [OF moved(3)] t(2) show ?thesis by (auto simp: sel_upd_where bare_record_def)
  qed
qed

section \<open>Properties\<close>


text \<open>A submission sends at most one order, and only right after its own claim of the idempotency key
  succeeded.\<close>

theorem submit_sends_once_after_claim:
  assumes "submit g intent context owner w = (r, w')" "w_log w = []"
  shows "sent_orders (w_log w') = [] \<or> (\<exists>pre order key. w_log w' = pre @ [ClaimMade key (Inr CLAIMED), OrderSent order]
    \<and> sent_orders (w_log w') = [order] \<and> text_of (int_idempotency_key intent) = Some key)"
  using log_submit [OF assms(1)]
proof (elim disjE exE conjE)
  fix evs ob
  assume a: "appends w w' (PositionsRead ob # evs)" "submission_log intent evs"
    "sent_orders evs \<noteq> [] \<longrightarrow> (\<exists>ps c' snaps. ob = Inr ps \<and> supplied_context g context c'
       \<and> from_positions (Some ps) = Some snaps \<and> execution_safe intent (c'\<lparr>ctx_open_positions := PyTuple snaps\<rparr>))"
  then have l: "w_log w' = PositionsRead ob # evs" using assms(2) by (simp add: appends_def)
  show ?thesis
  proof (cases "sent_orders evs = []")
    case False
    with a(2) obtain pre order where e: "evs = pre @ [ClaimMade (claim_key intent) (Inr CLAIMED), OrderSent order]"
      "sent_orders pre = []" by (auto simp: submission_log_def)
    obtain key where "text_of (int_idempotency_key intent) = Some key"
      using a(3) False by (auto simp: execution_safe_def identities_present_def nonblank_str_def split: option.splits)
    with e l show ?thesis
      by (intro disjI2 exI [of _ "PositionsRead ob # pre"] exI [of _ order] exI [of _ key]) (simp add: claim_key_def)
  qed (simp add: l)
qed (use assms in simp)

text \<open>C5. No order is sent twice for one intent: a submission of an idempotency key that already has a record,
  in whatever state and created by whichever process, sends nothing, provided other tasks change the
  store only through its operations.\<close>

theorem submit_never_resends:
  assumes "submit g intent context owner w = (r, w')" "w_log w = []" "well_behaved g"
    and "text_of (int_idempotency_key intent) = Some key" "intent_of key (w_store w) = Some row"
  shows "sent_orders (w_log w') = []"
  using store_submit [OF assms(1,3)] assms(2,4,5) by (auto simp: appends_def claim_key_def)

text \<open>C7. A definite outcome is durable before it is reported: when sending an order reports that it was
  executed or rejected, the intent's row already has the corresponding final state, with the broker's
  order identifier.\<close>

theorem send_order_outcome_durable:
  assumes "send_order g intent decision order w = (x, w')" "xr_state x \<in> {ALREADY_EXECUTED, RECON_REJECTED}"
  shows "\<exists>row. intent_of (claim_key intent) (w_store w') = Some row \<and> row_order_id row = xr_order_id x
    \<and> row_state row = (if xr_state x = ALREADY_EXECUTED then ''ACCEPTED'' else ''REJECTED'')"
proof -
  obtain reply w1 where aw: "await (gw_submit_order g order) (log_event (OrderSent order) w) = (reply, w1)" by force
  from assms obtain st oid tid where t: "record_transition intent st oid tid w1 = (True, w')" "oid = xr_order_id x"
    "xr_state x = ALREADY_EXECUTED \<and> st = ACCEPTED \<or> xr_state x = RECON_REJECTED \<and> st = REJECTED"
    unfolding send_order_def aw prod.case
    by (auto simp: Let_def plain_result_def split: sum.splits py_exn.splits prod.splits if_splits)
  from record_transition_True [OF t(1)] t(2,3) show ?thesis by auto
qed

text \<open>A claimed intent is never left behind by a malformed order: whenever the policy's specification holds,
  the order request is well formed, a market order with the intent's symbol, side, quantity (in the
  broker's unit) and idempotency key.\<close>

theorem safe_intent_builds_order:
  assumes "execution_safe intent context"
  shows "\<exists>order symb q. build_order intent = Inr order \<and> text_of (int_symbol intent) = Some symb
    \<and> int_quantity intent = PyQuantity q \<and> req_symbol order = py_strip symb \<and> req_quantity order = q
    \<and> expected_unit (ctx_broker context) = Some (qty_unit q)
    \<and> side_of_pyval (int_side intent) = Inr (req_side order) \<and> req_order_type order = MARKET
    \<and> req_idempotency_key order = text_of (int_idempotency_key intent)"
  using build_order_safe [OF assms] .

theorem safe_intent_builds_order_witness:
  "\<exists>order symb q. build_order sample_intent = Inr order \<and> text_of (int_symbol sample_intent) = Some symb
    \<and> int_quantity sample_intent = PyQuantity q \<and> req_symbol order = py_strip symb \<and> req_quantity order = q
    \<and> expected_unit (ctx_broker sample_context) = Some (qty_unit q)
    \<and> side_of_pyval (int_side sample_intent) = Inr (req_side order) \<and> req_order_type order = MARKET
    \<and> req_idempotency_key order = text_of (int_idempotency_key sample_intent)"
  by (rule safe_intent_builds_order [OF sample_safe])

section \<open>A concrete submission\<close>

definition sample_fill :: order_result where
  "sample_fill = \<lparr>res_order_id = ''o1'', res_status = FILLED, res_symbol = ''FX Vol 20'', res_side = BUY,
     res_volume = Fin 2, res_filled_price = Some (Fin 100), res_transaction_id = None\<rparr>"

definition sample_dependencies :: "unit dependencies" where
  "sample_dependencies = \<lparr>gw_get_positions = (\<lambda>e s. (Inr [], e, s)), gw_submit_order = (\<lambda>order e s. (Inr (Reply sample_fill), e, s)),
     gw_reconcile = None, gw_before_submit = None, gw_context_provider = None, gw_after_submit = None,
     gw_lease_seconds = 30, gw_recovery_mode = False\<rparr>"

definition sample_world :: "intent_db \<Rightarrow> unit world" where
  "sample_world s = \<lparr>w_store = s, w_env = (), w_clock = (\<lambda>n. Aware (1000000 * int n) 0), w_ticks = 0, w_log = []\<rparr>"

definition sample_order :: order_request where
  "sample_order = \<lparr>req_symbol = ''FX Vol 20'', req_side = BUY, req_quantity = sample_quantity, req_order_type = MARKET,
     req_entry_price = None, req_stop_limit_price = None, req_stop_loss = Fin 98, req_take_profit = Some (Fin 104),
     req_idempotency_key = Some ''jqe-v2-1'', req_magic_number = None, req_order_comment = None\<rparr>"

lemma sample_symbol_strip: "py_strip ''FX Vol 20'' = ''FX Vol 20''"
  by (simp add: py_strip_def py_isspace_def)

lemma sample_build_order: "build_order sample_intent = Inr sample_order"
  by (simp add: build_order_def sample_intent_def sample_order_def sample_symbol_strip float_of_int_def side_of_pyval_def
      make_order_request_def opt_price_ok_def validate_order_type_fields_def positive_finite_def side_of_value_def)

lemma sample_scope: "submission_scope (Some sample_context) = ''weltrade_demo:7''"
  by (simp add: submission_scope_def sample_context_def py_strip_def py_isspace_def)

lemma sample_effective: "effective_context (Some sample_context) (Some []) = Some sample_context"
  by (simp add: effective_context_def sample_context_def from_positions_def)

lemma sample_claim_intent:
  assumes "w_store w = leased_db" "w_clock w (w_ticks w) = Aware 1000000 0"
  shows "claim_intent sample_intent (Some sample_context) ''weltrade_demo:7'' ''w1'' w
    = (Inr CLAIMED, w\<lparr>w_store := leased_db\<lparr>db_intents := [claimed_row]\<rparr>, w_ticks := Suc (w_ticks w),
        w_log := w_log w @ [ClaimMade ''jqe-v2-1'' (Inr CLAIMED)]\<rparr>)"
proof -
  have r: "from_execution_intent sample_intent PENDING None None
      (case Some sample_context of None \<Rightarrow> None | Some c \<Rightarrow> text_of (ctx_broker c)) (Some ''weltrade_demo:7'')
    = Inr (sample_record\<lparr>rec_take_profit := PyInt 104, rec_account_id := Some ''weltrade_demo:7''\<rparr>)"
    by (simp add: from_execution_intent_def sample_intent_def sample_record_def sample_context_def side_of_pyval_def side_of_value_def)
  have c: "try_claim_under_reservation (sample_record\<lparr>rec_take_profit := PyInt 104, rec_account_id := Some ''weltrade_demo:7''\<rparr>)
     ''weltrade_demo:7'' ''w1'' (Aware 1000000 0) leased_db = (Inr CLAIMED, leased_db\<lparr>db_intents := [claimed_row]\<rparr>)"
    by (simp add: try_claim_under_reservation_def validate_reservation_identity_def validate_key_def nonblank_iff
      py_isspace_def store_now_def with_connection_def empty_db_def leased_db_def sample_record_def
      insert_intent_def encode_def decode_reservation_def claimed_row_def sample_quantity_def text_or_def)
  show ?thesis
    unfolding claim_intent_def r sum.case timed_def assms c prod.case
    by (simp add: log_event_def sample_intent_def)
qed

lemma sample_record_accept:
  assumes "w_store w = leased_db\<lparr>db_intents := [claimed_row]\<rparr>" "w_clock w (w_ticks w) = Aware 2000000 0"
  shows "record_transition sample_intent ACCEPTED (Some ''o1'') None w
    = (True, w\<lparr>w_store := leased_db\<lparr>db_intents := [claimed_row\<lparr>row_state := ''ACCEPTED'', row_order_id := Some ''o1'',
        row_updated_at := 2000000\<rparr>]\<rparr>, w_ticks := Suc (w_ticks w)\<rparr>)"
proof -
  have k: "int_idempotency_key sample_intent = PyStr ''jqe-v2-1''" by (simp add: sample_intent_def)
  show ?thesis unfolding record_transition_def timed_def assms k sample_accept prod.case sum.case ..
qed

lemma sample_send:
  assumes "w_store w = leased_db\<lparr>db_intents := [claimed_row]\<rparr>" "w_clock w (w_ticks w) = Aware 2000000 0"
  shows "\<exists>x. xr_state x = ALREADY_EXECUTED \<and> xr_order_id x = Some ''o1'' \<and>
    send_order sample_dependencies sample_intent d sample_order w
    = (x, w\<lparr>w_store := leased_db\<lparr>db_intents := [claimed_row\<lparr>row_state := ''ACCEPTED'', row_order_id := Some ''o1'',
        row_updated_at := 2000000\<rparr>]\<rparr>, w_ticks := Suc (w_ticks w), w_log := w_log w @ [OrderSent sample_order]\<rparr>)"
proof -
  have a: "await (gw_submit_order sample_dependencies sample_order) (log_event (OrderSent sample_order) w)
    = (Inr (Reply sample_fill), log_event (OrderSent sample_order) w)"
    by (simp add: await_def sample_dependencies_def)
  have c: "checked_reply (Inr (Reply sample_fill)) = Inr sample_fill"
    by (simp add: checked_reply_def sample_fill_def py_strip_def py_isspace_def)
  have t: "record_transition sample_intent ACCEPTED (Some ''o1'') None (log_event (OrderSent sample_order) w)
    = (True, w\<lparr>w_store := leased_db\<lparr>db_intents := [claimed_row\<lparr>row_state := ''ACCEPTED'', row_order_id := Some ''o1'',
        row_updated_at := 2000000\<rparr>]\<rparr>, w_ticks := Suc (w_ticks w), w_log := w_log w @ [OrderSent sample_order]\<rparr>)"
    using sample_record_accept [of "log_event (OrderSent sample_order) w"] assms by (simp add: log_event_def)
  show ?thesis
    unfolding send_order_def a prod.case c sum.case Let_def by (simp add: sample_fill_def t)
qed

lemma sample_reconcile:
  assumes "w_store w = leased_db"
  shows "reconcile sample_dependencies sample_intent (Some []) w
    = (Inr (rres READY_TO_SUBMIT ''No prior intent or position found''), w)"
proof -
  have "stored (store_get (int_idempotency_key sample_intent)) w = (Inr None, w)"
    using assms by (simp add: stored_def store_get_def sample_intent_def validate_key_def nonblank_iff py_isspace_def
        with_connection_def leased_db_def empty_db_def)
  then show ?thesis
    unfolding reconcile_def by (simp add: reconcile_observed_def from_positions_def sample_dependencies_def)
qed

lemma sample_submit_reserved:
  assumes "w_store w = leased_db" "w_clock w = (\<lambda>n. Aware (1000000 * int n) 0)" "w_ticks w = 1" "w_log w = []"
  shows "\<exists>x w'. submit_reserved sample_dependencies sample_intent (Some sample_context) ''weltrade_demo:7'' ''w1'' w = (Inr x, w')
    \<and> w_log w' = [PositionsRead (Inr []), ClaimMade ''jqe-v2-1'' (Inr CLAIMED), OrderSent sample_order]
    \<and> xr_state x = ALREADY_EXECUTED \<and> db_outages (w_store w') = []"
proof -
  obtain d where d: "evaluate sample_intent (Some sample_context) = Inr d" "dec_allowed d"
    using sample_safe evaluate_allowed_safe by blast
  define w1 where "w1 = log_event (PositionsRead (Inr [])) w"
  have rp: "read_positions sample_dependencies w = (Inr [], w1)"
    by (cases w) (simp add: read_positions_def await_def sample_dependencies_def w1_def)
  have w1: "w_store w1 = leased_db" "w_clock w1 (w_ticks w1) = Aware 1000000 0" "w_ticks w1 = 1"
    "w_clock w1 = (\<lambda>n. Aware (1000000 * int n) 0)" "w_log w1 = [PositionsRead (Inr [])]"
    using assms by (simp_all add: w1_def log_event_def)
  note ci = sample_claim_intent [OF w1(1,2)]
  define w2 where "w2 = w1\<lparr>w_store := leased_db\<lparr>db_intents := [claimed_row]\<rparr>, w_ticks := Suc (w_ticks w1),
        w_log := w_log w1 @ [ClaimMade ''jqe-v2-1'' (Inr CLAIMED)]\<rparr>"
  have w2: "w_store w2 = leased_db\<lparr>db_intents := [claimed_row]\<rparr>" "w_clock w2 (w_ticks w2) = Aware 2000000 0"
    "w_log w2 = [PositionsRead (Inr []), ClaimMade ''jqe-v2-1'' (Inr CLAIMED)]"
    using w1 by (simp_all add: w2_def)
  from sample_send [OF w2(1,2), of d] obtain x w3 where x: "xr_state x = ALREADY_EXECUTED"
    "send_order sample_dependencies sample_intent d sample_order w2 = (x, w3)" "w_log w3 = w_log w2 @ [OrderSent sample_order]"
    "db_outages (w_store w3) = []"
    by (elim exE conjE) (simp add: leased_db_def empty_db_def)
  have "claim_and_send sample_dependencies sample_intent (Some sample_context) d ''weltrade_demo:7'' ''w1'' w1 = (Inr x, w3)"
    unfolding claim_and_send_def ci prod.case sum.case sample_build_order using x(2)
    by (simp add: as_result_def w2_def [symmetric])
  then have "submit_allowed sample_dependencies sample_intent (Some sample_context) d (Some []) ''weltrade_demo:7'' ''w1'' w1 = (Inr x, w3)"
    unfolding submit_allowed_def sample_reconcile [OF w1(1)] prod.case sum.case
    by (simp add: rres_def callback_def sample_dependencies_def)
  then have "submit_reserved sample_dependencies sample_intent (Some sample_context) ''weltrade_demo:7'' ''w1'' w = (Inr x, w3)"
    unfolding submit_reserved_def rp prod.case Let_def sum.case sample_effective d(1) using d(2) by simp
  with x w2 show ?thesis by (intro exI [of _ x] exI [of _ w3]) simp
qed

lemma sample_submit:
  "\<exists>x w'. submit sample_dependencies sample_intent (Some sample_context) ''w1'' (sample_world empty_db) = (Inr x, w')
    \<and> w_log w' = [PositionsRead (Inr []), ClaimMade ''jqe-v2-1'' (Inr CLAIMED), OrderSent sample_order]
    \<and> xr_state x = ALREADY_EXECUTED"
proof -
  define w1 where "w1 = (sample_world leased_db)\<lparr>w_ticks := 1\<rparr>"
  have ac: "timed (acquire_reservation ''weltrade_demo:7'' ''w1'' (gw_lease_seconds sample_dependencies)
      (int_idempotency_key sample_intent)) (sample_world empty_db) = (Inr ACQUIRED, w1)"
    using sample_acquire by (simp add: timed_def sample_world_def sample_dependencies_def sample_intent_def w1_def)
  obtain x w2 where x: "submit_reserved sample_dependencies sample_intent (Some sample_context) ''weltrade_demo:7'' ''w1'' w1 = (Inr x, w2)"
    "w_log w2 = [PositionsRead (Inr []), ClaimMade ''jqe-v2-1'' (Inr CLAIMED), OrderSent sample_order]" "xr_state x = ALREADY_EXECUTED"
    "db_outages (w_store w2) = []"
    using sample_submit_reserved [of w1] by (auto simp: w1_def sample_world_def)
  have sh: "submit_held sample_dependencies sample_intent (Some sample_context) ''weltrade_demo:7'' ''w1'' w1 = (Inr x, w2)"
    using x(1) by (simp add: submit_held_def callback_def sample_dependencies_def)
  obtain b s where rl: "release_reservation ''weltrade_demo:7'' ''w1'' (w_store w2) = (Inr b, s)"
    using x(4) by (simp add: release_reservation_def validate_reservation_identity_def nonblank_iff py_isspace_def
        with_connection_def Let_def)
  have "submit sample_dependencies sample_intent (Some sample_context) ''w1'' (sample_world empty_db) = (Inr x, w2\<lparr>w_store := s\<rparr>)"
    unfolding submit_def sample_scope Let_def ac sh prod.case sum.case release_after_def stored_def rl by simp
  with x show ?thesis by (intro exI [of _ x] exI [of _ "w2\<lparr>w_store := s\<rparr>"]) simp
qed


theorem submit_sends_once_after_claim_witness:
  "\<exists>w'. w_log w' \<noteq> [] \<and> (sent_orders (w_log w') = [] \<or> (\<exists>pre order key. w_log (w' :: unit world) = pre @ [ClaimMade key (Inr CLAIMED), OrderSent order]
    \<and> sent_orders (w_log w') = [order] \<and> text_of (int_idempotency_key sample_intent) = Some key))"
proof -
  obtain x w' where w: "submit sample_dependencies sample_intent (Some sample_context) ''w1'' (sample_world empty_db) = (Inr x, w')"
    "w_log w' = [PositionsRead (Inr []), ClaimMade ''jqe-v2-1'' (Inr CLAIMED), OrderSent sample_order]"
    using sample_submit by blast
  from submit_sends_once_after_claim [OF w(1)] w(2) show ?thesis
    by (intro exI [of _ w']) (simp add: sample_world_def)
qed

lemma sample_well_behaved: "well_behaved sample_dependencies"
  by (simp add: well_behaved_def sample_dependencies_def uses_store_def)

theorem submit_never_resends_witness:
  "sent_orders (w_log (snd (submit sample_dependencies sample_intent (Some sample_context) ''w2''
     (sample_world (leased_db\<lparr>db_intents := [claimed_row]\<rparr>))))) = []"
proof -
  obtain r w' where s: "submit sample_dependencies sample_intent (Some sample_context) ''w2''
     (sample_world (leased_db\<lparr>db_intents := [claimed_row]\<rparr>)) = (r, w')" by force
  show ?thesis
    using submit_never_resends [OF s _ sample_well_behaved, of "''jqe-v2-1''" claimed_row] s
    by (simp add: sample_world_def sample_intent_def claimed_row_def)
qed

theorem send_order_outcome_durable_witness:
  "\<exists>(x :: execution_result) w' row. intent_of (claim_key sample_intent) (w_store (w' :: unit world)) = Some row
    \<and> row_order_id row = xr_order_id x \<and> row_state row = ''ACCEPTED''"
proof -
  define w where "w = (sample_world (leased_db\<lparr>db_intents := [claimed_row]\<rparr>))\<lparr>w_ticks := 2\<rparr>"
  have "w_store w = leased_db\<lparr>db_intents := [claimed_row]\<rparr>" "w_clock w (w_ticks w) = Aware 2000000 0"
    by (simp_all add: w_def sample_world_def)
  from sample_send [OF this, of "reject ALLOWED []"] obtain x w' where s: "xr_state x = ALREADY_EXECUTED"
    "send_order sample_dependencies sample_intent (reject ALLOWED []) sample_order w = (x, w')" by blast
  from send_order_outcome_durable [OF s(2)] s(1) show ?thesis by auto
qed

end
