(* ===== verification/Submission_History.thy ===== *)
theory Submission_History
  imports Executor
begin

text \<open>
  Many executors over one store. A global history interleaves the store calls of all processes with
  the orders they hand to the broker. Each owner identifier (a fresh UUID per submission) belongs to
  one call of \<open>submit\<close>, whose claims and orders appear in the history in the order of its log.
  However the calls interleave, and whatever leases expire meanwhile, at most one order is sent per
  idempotency key.
\<close>

datatype global_event = StoreCall store_event | Send string order_request

fun store_call :: "global_event \<Rightarrow> store_event option" where
  "store_call (StoreCall ev) = Some ev"
| "store_call (Send owner order) = None"

definition store_calls :: "global_event list \<Rightarrow> store_event list" where
  "store_calls h = List.map_filter store_call h"

fun action_of :: "string \<Rightarrow> global_event \<Rightarrow> exec_event list" where
  "action_of owner (StoreCall (ClaimEv scp o' key now c)) = (if o' = owner then [ClaimMade key c] else [])"
| "action_of owner (StoreCall _) = []"
| "action_of owner (Send o' order) = (if o' = owner then [OrderSent order] else [])"

text \<open>The claims and orders of one owner, and those of a call's log.\<close>

definition owner_actions :: "string \<Rightarrow> global_event list \<Rightarrow> exec_event list" where
  "owner_actions owner h = concat (map (action_of owner) h)"

fun is_action :: "exec_event \<Rightarrow> bool" where
  "is_action (PositionsRead ps) = False"
| "is_action _ = True"

fun sends_key :: "string \<Rightarrow> global_event \<Rightarrow> bool" where
  "sends_key key (Send owner order) = (req_idempotency_key order = Some key)"
| "sends_key key _ = False"

text \<open>Who claims or sends.\<close>

fun actor :: "global_event \<Rightarrow> string option" where
  "actor (Send owner order) = Some owner"
| "actor (StoreCall (ClaimEv scp owner key now c)) = Some owner"
| "actor _ = None"

definition actors :: "global_event list \<Rightarrow> string set" where
  "actors h = {owner. Some owner \<in> actor ` set h}"

lemma finite_actors [simp]: "finite (actors h)"
proof (rule finite_subset)
  show "actors h \<subseteq> (\<lambda>ev. the (actor ev)) ` set h" 
  proof
    fix x assume "x \<in> actors h"
    then obtain ev where "ev \<in> set h" "actor ev = Some x" by (auto simp: actors_def image_iff)
    then show "x \<in> (\<lambda>ev. the (actor ev)) ` set h" by (intro image_eqI [of _ _ ev]) simp_all
  qed
qed simp

lemma actors_iff: "owner \<in> actors h \<longleftrightarrow> (\<exists>ev \<in> set h. actor ev = Some owner)"
  by (auto simp: actors_def image_iff intro: sym)

fun claims :: "string \<Rightarrow> global_event \<Rightarrow> bool" where
  "claims key (StoreCall ev) = claims_key key ev"
| "claims key _ = False"

lemma count_by_owner:
  assumes "finite A" "\<forall>x \<in> set xs. P x \<longrightarrow> (\<exists>a \<in> A. f x = Some a)"
  shows "length (filter P xs) = (\<Sum>a\<in>A. length (filter (\<lambda>x. P x \<and> f x = Some a) xs))"
  using assms(2)
proof (induction xs)
  case (Cons x xs)
  have "(\<Sum>a\<in>A. length (filter (\<lambda>x. P x \<and> f x = Some a) (x # xs)))
      = (\<Sum>a\<in>A. (if P x \<and> f x = Some a then 1 else 0)) + (\<Sum>a\<in>A. length (filter (\<lambda>x. P x \<and> f x = Some a) xs))"
    unfolding sum.distrib [symmetric] by (rule sum.cong) auto
  also have "(\<Sum>a\<in>A. (if P x \<and> f x = Some a then 1 else 0)) = (if P x then 1 else 0 :: nat)"
  proof (cases "P x")
    case True
    with Cons.prems obtain b where "b \<in> A" "f x = Some b" by auto
    with True assms(1) show ?thesis by (simp add: sum.delta)
  qed simp
  finally show ?case using Cons by auto
qed simp

lemma actor_sends: "sends_key key ev \<Longrightarrow> \<exists>owner. actor ev = Some owner"
  by (cases ev) auto

lemma actor_claims: "claims key ev \<Longrightarrow> \<exists>owner. actor ev = Some owner"
  by (cases "(key, ev)" rule: claims.cases) (auto elim: claims_key.elims)

lemma store_calls_claims: "length (filter (claims_key key) (store_calls h)) = length (filter (claims key) h)"
proof (induction h)
  case (Cons ev h)
  then show ?case by (cases ev) (auto simp: store_calls_def List.map_filter_def)
qed (simp add: store_calls_def List.map_filter_def)

definition sends_action :: "string \<Rightarrow> exec_event \<Rightarrow> bool" where
  "sends_action key ev \<longleftrightarrow> (\<exists>order. ev = OrderSent order \<and> req_idempotency_key order = Some key)"

lemma owner_sends: "length (filter (\<lambda>ev. sends_key key ev \<and> actor ev = Some owner) h)
    = length (filter (sends_action key) (owner_actions owner h))"
proof (induction h)
  case (Cons ev h)
  then show ?case
    by (cases "(owner, ev)" rule: action_of.cases) (auto simp: owner_actions_def sends_action_def)
qed (simp add: owner_actions_def)

lemma owner_claims: "length (filter (\<lambda>ev. claims key ev \<and> actor ev = Some owner) h)
    = length (filter (\<lambda>ev. ev = ClaimMade key (Inr CLAIMED)) (owner_actions owner h))"
proof (induction h)
  case (Cons ev h)
  then show ?case
    by (cases "(owner, ev)" rule: action_of.cases) (auto simp: owner_actions_def)
qed (simp add: owner_actions_def)

text \<open>In the log of one call, orders for a key are covered by its own claims of the key.\<close>

lemma make_order_request_id: "make_order_request r = Inr r' \<Longrightarrow> r' = r"
  by (auto simp: make_order_request_def validate_order_type_fields_def Let_def split: if_splits)

lemma build_order_key: "build_order i = Inr order \<Longrightarrow> req_idempotency_key order = text_of (int_idempotency_key i)"
  by (auto simp: build_order_def dest!: make_order_request_id split: option.splits)

lemma submission_log_covered:
  assumes "submission_log i evs"
  shows "length (filter (sends_action key) evs) \<le> length (filter (\<lambda>ev. ev = ClaimMade key (Inr CLAIMED)) evs)"
proof -
  have quiet: "filter (sends_action key) xs = []" if "sent_orders xs = []" for xs
    using that
  proof (induction xs)
    case (Cons x xs)
    then show ?case by (cases x) (auto simp: sends_action_def)
  qed simp
  from assms show ?thesis
    unfolding submission_log_def
  proof (elim disjE exE conjE)
    fix pre order
    assume e: "evs = pre @ [ClaimMade (claim_key i) (Inr CLAIMED), OrderSent order]" "sent_orders pre = []" "build_order i = Inr order"
    have "claim_key i = key" if "sends_action key (OrderSent order)"
      using that build_order_key [OF e(3)] by (auto simp: sends_action_def claim_key_def)
    then show ?thesis using quiet [OF e(2)] unfolding e(1) by (auto simp: sends_action_def)
  qed (simp add: quiet)
qed

lemma submit_log_covered:
  assumes "submit g i c owner w = (r, w')" "w_log w = []"
  shows "length (filter (sends_action key) (filter is_action (w_log w')))
    \<le> length (filter (\<lambda>ev. ev = ClaimMade key (Inr CLAIMED)) (filter is_action (w_log w')))"
proof -
  have drop: "filter (sends_action key) (filter is_action xs) = filter (sends_action key) xs"
    "filter (\<lambda>ev. ev = ClaimMade key (Inr CLAIMED)) (filter is_action xs) = filter (\<lambda>ev. ev = ClaimMade key (Inr CLAIMED)) xs" for xs
    by (auto simp: sends_action_def intro!: filter_cong)
  have "w_log w' = [] \<or> (\<exists>ob evs. w_log w' = PositionsRead ob # evs \<and> submission_log i evs)"
    using log_submit [OF assms(1)] assms(2) by (auto simp: appends_def)
  then show ?thesis unfolding drop using submission_log_covered by (auto simp: sends_action_def)
qed

text \<open>C1. At most one order per idempotency key reaches the broker, over every interleaving of any number of
  submissions by any number of processes sharing the store. Each participating owner's claims and
  orders are those of one call of \<open>submit\<close>; the store calls of all processes form one store history.\<close>

theorem at_most_one_order_per_key:
  fixes run :: "string \<Rightarrow> 'g dependencies \<times> execution_intent \<times> execution_context option \<times> 'g world"
  assumes "store_trace s (store_calls h) s'"
    and "\<forall>owner \<in> actors h. case run owner of (g, intent, context, w) \<Rightarrow>
      w_log w = [] \<and> owner_actions owner h = filter is_action (w_log (snd (submit g intent context owner w)))"
  shows "length (filter (sends_key key) h) \<le> 1"
proof -
  let ?A = "actors h"
  have cov: "length (filter (\<lambda>ev. sends_key key ev \<and> actor ev = Some a) h)
      \<le> length (filter (\<lambda>ev. claims key ev \<and> actor ev = Some a) h)" if "a \<in> ?A" for a
  proof -
    obtain g i c w where run: "run a = (g, i, c, w)" by (cases "run a")
    with assms(2) that have "w_log w = []" "owner_actions a h = filter is_action (w_log (snd (submit g i c a w)))"
      by fastforce+
    then show ?thesis
      unfolding owner_sends owner_claims using submit_log_covered [of g i c a w] by (metis prod.collapse)
  qed
  have "length (filter (sends_key key) h) = (\<Sum>a\<in>?A. length (filter (\<lambda>ev. sends_key key ev \<and> actor ev = Some a) h))"
    by (rule count_by_owner) (use actor_sends in \<open>fastforce simp: actors_iff\<close>)+
  also have "\<dots> \<le> (\<Sum>a\<in>?A. length (filter (\<lambda>ev. claims key ev \<and> actor ev = Some a) h))"
    using cov by (rule sum_mono)
  also have "\<dots> = length (filter (claims key) h)"
    by (rule count_by_owner [symmetric]) (use actor_claims in \<open>fastforce simp: actors_iff\<close>)+
  also have "\<dots> \<le> 1"
    using claimed_once [OF assms(1), of key] by (simp add: store_calls_claims)
  finally show ?thesis .
qed

theorem at_most_one_order_per_key_witness:
  "length (filter (sends_key ''jqe-v2-1'')
     [StoreCall (AcquireEv ''weltrade_demo:7'' ''w1'' 0 (Inr ACQUIRED)),
      StoreCall (ClaimEv ''weltrade_demo:7'' ''w1'' ''jqe-v2-1'' 1000000 (Inr CLAIMED)), Send ''w1'' sample_order]) \<le> 1"
proof (rule at_most_one_order_per_key [where run = "\<lambda>owner. (sample_dependencies, sample_intent, Some sample_context, sample_world empty_db)"])
  show "store_trace empty_db (store_calls [StoreCall (AcquireEv ''weltrade_demo:7'' ''w1'' 0 (Inr ACQUIRED)),
      StoreCall (ClaimEv ''weltrade_demo:7'' ''w1'' ''jqe-v2-1'' 1000000 (Inr CLAIMED)), Send ''w1'' sample_order])
      (leased_db\<lparr>db_intents := [claimed_row]\<rparr>)"
    using sample_trace by (simp add: store_calls_def List.map_filter_def)
  obtain x w' where "submit sample_dependencies sample_intent (Some sample_context) ''w1'' (sample_world empty_db) = (Inr x, w')"
    "w_log w' = [PositionsRead (Inr []), ClaimMade ''jqe-v2-1'' (Inr CLAIMED), OrderSent sample_order]"
    using sample_submit by blast
  then show "\<forall>owner \<in> actors [StoreCall (AcquireEv ''weltrade_demo:7'' ''w1'' 0 (Inr ACQUIRED)),
      StoreCall (ClaimEv ''weltrade_demo:7'' ''w1'' ''jqe-v2-1'' 1000000 (Inr CLAIMED)), Send ''w1'' sample_order].
    case (sample_dependencies, sample_intent, Some sample_context, sample_world empty_db) of (g, intent, context, w) \<Rightarrow>
      w_log w = [] \<and> owner_actions owner [StoreCall (AcquireEv ''weltrade_demo:7'' ''w1'' 0 (Inr ACQUIRED)),
      StoreCall (ClaimEv ''weltrade_demo:7'' ''w1'' ''jqe-v2-1'' 1000000 (Inr CLAIMED)), Send ''w1'' sample_order]
      = filter is_action (w_log (snd (submit g intent context owner w)))"
    by (auto simp: actors_def owner_actions_def sample_world_def)
qed

end
