(* ===== verification/Recovery.thy ===== *)
theory Recovery
  imports Executor
begin

text \<open>
  \<open>execution/recovery.py\<close>: \<open>StartupRecoveryService\<close>, which reconciles the unresolved intents of the
  store at startup. Constructing or submitting orders is not part of it. The reconciler is a parameter; it
  is awaited, so the store may change during its call as in the executor. The theorems on its
  answers are proved over the interface \<open>reconciler\<close> and hold for every broker adapter.
\<close>

section \<open>Data\<close>

datatype recovery_outcome =
    RESOLVED_ACCEPTED | RESOLVED_REJECTED | REMAINS_UNKNOWN | MALFORMED_RECORD | SCOPE_MISMATCH
  | RECONCILIATION_UNAVAILABLE | RECONCILIATION_ERROR | PERSISTENCE_ERROR

fun outcome_value :: "recovery_outcome \<Rightarrow> string" where
  "outcome_value RESOLVED_ACCEPTED = ''RESOLVED_ACCEPTED''"
| "outcome_value RESOLVED_REJECTED = ''RESOLVED_REJECTED''"
| "outcome_value REMAINS_UNKNOWN = ''REMAINS_UNKNOWN''"
| "outcome_value MALFORMED_RECORD = ''MALFORMED_RECORD''"
| "outcome_value SCOPE_MISMATCH = ''SCOPE_MISMATCH''"
| "outcome_value RECONCILIATION_UNAVAILABLE = ''RECONCILIATION_UNAVAILABLE''"
| "outcome_value RECONCILIATION_ERROR = ''RECONCILIATION_ERROR''"
| "outcome_value PERSISTENCE_ERROR = ''PERSISTENCE_ERROR''"

record recovery_result =
  rv_idempotency_key :: pyval
  rv_outcome :: recovery_outcome
  rv_reason :: string

definition resolved :: "recovery_result \<Rightarrow> bool" where
  "resolved r \<longleftrightarrow> rv_outcome r \<in> {RESOLVED_ACCEPTED, RESOLVED_REJECTED}"

definition unresolved_count :: "recovery_result list \<Rightarrow> nat" where
  "unresolved_count rs = length (filter (\<lambda>r. \<not> resolved r) rs)"

definition rv_result :: "intent_record \<Rightarrow> recovery_outcome \<Rightarrow> string \<Rightarrow> recovery_result" where
  "rv_result r outcome reason = \<lparr>rv_idempotency_key = rec_idempotency_key r, rv_outcome = outcome, rv_reason = reason\<rparr>"

type_synonym 'g reconcile_call =
  "string option \<Rightarrow> string option \<Rightarrow> string option \<Rightarrow> string option \<Rightarrow> ('g, reconciliation_evidence) call"

section \<open>Persisting an outcome\<close>

definition remain_unresolved ::
  "intent_record \<Rightarrow> recovery_outcome \<Rightarrow> string \<Rightarrow> 'g world \<Rightarrow> recovery_result \<times> 'g world" where
  "remain_unresolved r outcome reason w =
     (if rec_status r = PENDING then
        (case timed (transition (r\<lparr>rec_status := UNKNOWN\<rparr>)) w of
           (Inl e, w) \<Rightarrow> (rv_result r PERSISTENCE_ERROR (exn_text e), w)
         | (Inr ok, w) \<Rightarrow> if \<not> ok
             then (rv_result r PERSISTENCE_ERROR ''Ambiguous PENDING state could not be persisted as UNKNOWN'', w)
             else (rv_result r outcome reason, w))
      else (rv_result r outcome reason, w))"

definition recovered_order_id :: "intent_record \<Rightarrow> reconciliation_evidence \<Rightarrow> string option" where
  "recovered_order_id r evidence =
     text_or (case rc_evidence evidence of None \<Rightarrow> rec_order_id r
              | Some e \<Rightarrow> text_or (text_or (rec_order_id r) (ev_order_id e)) (ev_contract_id e))
       (rc_contract_id evidence)"

definition recovered_transaction_id :: "intent_record \<Rightarrow> reconciliation_evidence \<Rightarrow> string option" where
  "recovered_transaction_id r evidence =
     text_or (case rc_evidence evidence of None \<Rightarrow> rec_transaction_id r
              | Some e \<Rightarrow> text_or (rec_transaction_id r) (ev_transaction_id e))
       (rc_transaction_id evidence)"

definition persist ::
  "intent_record \<Rightarrow> intent_status \<Rightarrow> recovery_outcome \<Rightarrow> reconciliation_evidence \<Rightarrow> 'g world \<Rightarrow> recovery_result \<times> 'g world" where
  "persist r status outcome evidence w =
     (case timed (transition (r\<lparr>rec_status := status,
             rec_order_id := (if status = ACCEPTED then recovered_order_id r evidence else None),
             rec_transaction_id := recovered_transaction_id r evidence\<rparr>)) w of
        (Inl e, w) \<Rightarrow> (rv_result r PERSISTENCE_ERROR (exn_text e), w)
      | (Inr ok, w) \<Rightarrow> if \<not> ok then (rv_result r PERSISTENCE_ERROR ''Recovered terminal outcome could not be persisted'', w)
          else (rv_result r outcome (rc_reason evidence), w))"

section \<open>Recovery\<close>

text \<open>The persisted scope differs from the service's (\<open>broker\<close> and \<open>account\<close> are normalised).\<close>

definition scope_mismatch :: "string \<Rightarrow> string \<Rightarrow> intent_record \<Rightarrow> bool" where
  "scope_mismatch broker account r \<longleftrightarrow>
     (case rec_broker r of None \<Rightarrow> True | Some b \<Rightarrow> b = [] \<or> py_lower (py_strip b) \<noteq> broker)
     \<or> (case rec_account_id r of None \<Rightarrow> True | Some a \<Rightarrow> a = [] \<or> py_strip a \<noteq> account)"

definition apply_evidence ::
  "intent_record \<Rightarrow> reconciliation_evidence \<Rightarrow> 'g world \<Rightarrow> recovery_result \<times> 'g world" where
  "apply_evidence r evidence w =
     (case rc_state evidence of
        UNAVAILABLE \<Rightarrow> remain_unresolved r RECONCILIATION_UNAVAILABLE (rc_reason evidence) w
      | CONFIRMED_MATCH \<Rightarrow> persist r ACCEPTED RESOLVED_ACCEPTED evidence w
      | CONFIRMED_ABSENCE \<Rightarrow> persist r REJECTED RESOLVED_REJECTED evidence w
      | AMBIGUOUS \<Rightarrow> remain_unresolved r REMAINS_UNKNOWN (rc_reason evidence) w)"

definition recover_record ::
  "'g reconcile_call \<Rightarrow> string \<Rightarrow> string \<Rightarrow> intent_record \<Rightarrow> 'g world \<Rightarrow> (recovery_result \<times> string option) \<times> 'g world" where
  "recover_record recon broker account r w =
     (case to_execution_intent r of
        Inl e \<Rightarrow> ((rv_result r MALFORMED_RECORD ''Persisted intent payload is invalid'', None), w)
      | Inr None \<Rightarrow> ((rv_result r MALFORMED_RECORD ''Canonical execution intent payload is incomplete'', None), w)
      | Inr (Some intent) \<Rightarrow>
          if scope_mismatch broker account r
          then ((rv_result r SCOPE_MISMATCH ''Persisted broker/account scope does not match startup scope'', None), w)
          else (case await (recon (rec_order_id r) (rec_transaction_id r) (text_of (int_symbol intent))
                       (text_of (int_idempotency_key intent))) w of
              (Inl e, w) \<Rightarrow> (case remain_unresolved r RECONCILIATION_ERROR ''Recovery reconciliation failed'' w of
                  (res, w) \<Rightarrow> ((res, Some ''ERROR''), w))
            | (Inr evidence, w) \<Rightarrow> (case apply_evidence r evidence w of
                  (res, w) \<Rightarrow> ((res, Some (broker_state_value (rc_state evidence))), w))))"

fun recover_each ::
  "'g reconcile_call \<Rightarrow> string \<Rightarrow> string \<Rightarrow> intent_record list \<Rightarrow> 'g world \<Rightarrow> recovery_result list \<times> 'g world" where
  "recover_each recon broker account [] w = ([], w)"
| "recover_each recon broker account (r # rs) w =
     (case recover_record recon broker account r w of ((res, reconciliation_state), w) \<Rightarrow>
      (case stored (record_recovery_diagnostic (rec_idempotency_key r) (outcome_value (rv_outcome res))
              reconciliation_state (rv_reason res)) w of (published, w) \<Rightarrow>
      let res = (if published = Inr True then res
                 else rv_result r PERSISTENCE_ERROR ''Recovery diagnostic could not be persisted'')
      in (case recover_each recon broker account rs w of (results, w) \<Rightarrow> (res # results, w))))"

definition recover ::
  "'g reconcile_call \<Rightarrow> string \<Rightarrow> string \<Rightarrow> 'g world \<Rightarrow> recovery_result list result \<times> 'g world" where
  "recover recon broker account w =
     (case stored list_unresolved w of
        (Inl e, w) \<Rightarrow> (Inl e, w)
      | (Inr records, w) \<Rightarrow>
          as_result (recover_each recon (py_lower (py_strip broker)) (py_strip account) records w))"

section \<open>Effect on the store\<close>

definition has_state :: "string \<Rightarrow> intent_status \<Rightarrow> intent_db \<Rightarrow> bool" where
  "has_state k st s \<longleftrightarrow> (\<exists>row. intent_of k s = Some row \<and> row_state row = status_value st)"

lemma transition_True:
  assumes "transition r clock s = (Inr True, s')"
  shows "\<exists>k. text_of (rec_idempotency_key r) = Some k \<and> has_state k (rec_status r) s'"
  using assms
proof (cases rule: transition_effect)
  case none
  then show ?thesis by simp
next
  case (moved key row cur)
  with sel_SomeD [OF moved(3)] show ?thesis by (auto simp: has_state_def sel_upd_where)
qed

lemma final_state_stays:
  assumes "has_state k st s" "reaches s s'" "st \<in> {ACCEPTED, REJECTED}"
  shows "has_state k st s'"
proof -
  obtain row where row: "intent_of k s = Some row" "row_state row = status_value st" using assms(1) by (auto simp: has_state_def)
  obtain row' where row': "intent_of k s' = Some row'" "evolves row row'" using reaches_keeps [OF assms(2) row(1)] by blast
  have "row_state row' = status_value st"
    using row'(2) row(2) assms(3) by (auto simp: evolves_def status_reaches_def simp del: status_value.simps)
  with row' show ?thesis by (auto simp: has_state_def)
qed

lemma reaches_timed_transition: "timed (transition r) w = (x, w') \<Longrightarrow> reaches (w_store w) (w_store w')"
  by (auto simp: timed_def split: prod.splits dest: reaches_store_ops)

lemma reaches_remain_unresolved: "remain_unresolved r oc reason w = (x, w') \<Longrightarrow> reaches (w_store w) (w_store w')"
  by (auto simp: remain_unresolved_def dest: reaches_timed_transition split: prod.splits sum.splits if_splits)

lemma reaches_persist: "persist r st oc ev w = (x, w') \<Longrightarrow> reaches (w_store w) (w_store w')"
  by (auto simp: persist_def dest: reaches_timed_transition split: prod.splits sum.splits if_splits)

lemma reaches_apply_evidence: "apply_evidence r ev w = (x, w') \<Longrightarrow> reaches (w_store w) (w_store w')"
  by (auto simp: apply_evidence_def dest: reaches_remain_unresolved reaches_persist split: broker_state.splits)

lemma reaches_diagnostic: "stored (record_recovery_diagnostic k a b c) w = (x, w') \<Longrightarrow> reaches (w_store w) (w_store w')"
  by (auto simp: stored_def split: prod.splits intro: reaches_step [OF store_step.diagnose])

lemma reaches_list_unresolved: "stored list_unresolved w = (x, w') \<Longrightarrow> reaches (w_store w) (w_store w')"
  by (auto simp: stored_def split: prod.splits intro: reaches_step [OF store_step.query [OF store_query.intros(2)]])

lemma remain_unresolved_outcome:
  "remain_unresolved r oc reason w = (x, w') \<Longrightarrow> rv_outcome x \<in> {oc, PERSISTENCE_ERROR} \<and> rv_idempotency_key x = rec_idempotency_key r"
  by (auto simp: remain_unresolved_def rv_result_def split: prod.splits sum.splits if_splits)

lemma persist_outcome:
  assumes "persist r st oc ev w = (x, w')"
  shows "rv_idempotency_key x = rec_idempotency_key r \<and> (rv_outcome x = PERSISTENCE_ERROR \<or>
    rv_outcome x = oc \<and> (\<exists>k. text_of (rec_idempotency_key r) = Some k \<and> has_state k st (w_store w')))"
proof -
  let ?r = "r\<lparr>rec_status := st, rec_order_id := (if st = ACCEPTED then recovered_order_id r ev else None),
    rec_transaction_id := recovered_transaction_id r ev\<rparr>"
  obtain y s' where t: "transition ?r (w_clock w (w_ticks w)) (w_store w) = (y, s')" by force
  show ?thesis
  proof (cases "y = Inr True")
    case True
    with assms t have "x = rv_result r oc (rc_reason ev)" "w_store w' = s'" by (auto simp: persist_def timed_def)
    with transition_True [of ?r] t True show ?thesis by (fastforce simp: rv_result_def)
  next
    case False
    with assms t show ?thesis by (auto simp: persist_def timed_def rv_result_def split: sum.splits if_splits)
  qed
qed

text \<open>The outcome of one record, with what it rests on.\<close>

definition outcome_ok :: "'g reconcile_call \<Rightarrow> intent_record \<Rightarrow> recovery_result \<Rightarrow> intent_db \<Rightarrow> bool" where
  "outcome_ok recon r res s \<longleftrightarrow> rv_idempotency_key res = rec_idempotency_key r \<and>
     (resolved res \<longrightarrow> (\<exists>k e s0 ev symb. text_of (rec_idempotency_key r) = Some k
        \<and> rec_symbol r = Some symb
        \<and> fst (recon (rec_order_id r) (rec_transaction_id r) (Some symb) (Some k) e s0) = Inr ev
        \<and> (rv_outcome res = RESOLVED_ACCEPTED \<and> rc_state ev = CONFIRMED_MATCH \<and> has_state k ACCEPTED s
           \<or> rv_outcome res = RESOLVED_REJECTED \<and> rc_state ev = CONFIRMED_ABSENCE \<and> has_state k REJECTED s)))"

lemma outcome_ok_reaches: "outcome_ok recon r res s \<Longrightarrow> reaches s s' \<Longrightarrow> outcome_ok recon r res s'"
  unfolding outcome_ok_def by (blast intro: final_state_stays)

lemma apply_evidence_outcome:
  assumes "apply_evidence r ev w = (x, w')"
  shows "rv_idempotency_key x = rec_idempotency_key r \<and> (resolved x \<longrightarrow> (\<exists>k. text_of (rec_idempotency_key r) = Some k
    \<and> (rv_outcome x = RESOLVED_ACCEPTED \<and> rc_state ev = CONFIRMED_MATCH \<and> has_state k ACCEPTED (w_store w')
           \<or> rv_outcome x = RESOLVED_REJECTED \<and> rc_state ev = CONFIRMED_ABSENCE \<and> has_state k REJECTED (w_store w'))))"
  using assms
  by (cases "rc_state ev") (auto simp: apply_evidence_def resolved_def dest!: remain_unresolved_outcome persist_outcome)

lemma recover_record_ok:
  assumes "recover_record recon b a r w = ((res, st), w')" "\<And>p q s k. uses_store (recon p q s k)"
  shows "reaches (w_store w) (w_store w') \<and> outcome_ok recon r res (w_store w') \<and> w_log w' = w_log w"
proof -
  have quiet: "reaches (w_store w) (w_store w) \<and> outcome_ok recon r (rv_result r oc reason) (w_store w) \<and> w_log w = w_log w"
    if "oc \<notin> {RESOLVED_ACCEPTED, RESOLVED_REJECTED}" for oc reason
    using that by (simp add: outcome_ok_def rv_result_def resolved_def)
  show ?thesis
  proof (cases "\<exists>i. to_execution_intent r = Inr (Some i) \<and> \<not> scope_mismatch b a r")
    case False
    with assms(1) have "w' = w \<and> (\<exists>oc reason. res = rv_result r oc reason \<and> oc \<notin> {RESOLVED_ACCEPTED, RESOLVED_REJECTED})"
      by (auto simp: recover_record_def split: sum.splits option.splits if_splits)
    with quiet show ?thesis by blast
  next
    case True
    then obtain i where i: "to_execution_intent r = Inr (Some i)" "\<not> scope_mismatch b a r" by blast
    have sk: "\<exists>symb. rec_symbol r = Some symb \<and> int_symbol i = PyStr symb" "int_idempotency_key i = rec_idempotency_key r"
      using i(1) by (auto simp: to_execution_intent_def split: option.splits if_splits)
    let ?call = "recon (rec_order_id r) (rec_transaction_id r) (text_of (int_symbol i)) (text_of (int_idempotency_key i))"
    obtain y w1 where aw: "await ?call w = (y, w1)" by force
    have r1: "reaches (w_store w) (w_store w1)" using reaches_await [OF aw assms(2)] .
    have l1: "w_log w1 = w_log w" using log_await [OF aw] by (simp add: appends_def)
    show ?thesis
    proof (cases y)
      case (Inl e)
      with assms(1) have ru: "remain_unresolved r RECONCILIATION_ERROR ''Recovery reconciliation failed'' w1 = (res, w')"
        unfolding recover_record_def i(1) sum.case option.case aw using i(2) by (auto split: prod.splits)
      have "w_log w' = w_log w1"
        using ru by (auto simp: remain_unresolved_def timed_def split: prod.splits sum.splits if_splits)
      with remain_unresolved_outcome [OF ru] reaches_trans [OF r1 reaches_remain_unresolved [OF ru]] l1 show ?thesis
        by (auto simp: outcome_ok_def resolved_def)
    next
      case (Inr ev)
      with assms(1) have ae: "apply_evidence r ev w1 = (res, w')"
        unfolding recover_record_def i(1) sum.case option.case aw using i(2) by (auto split: prod.splits)
      have "w_log w' = w_log w1"
        using ae by (auto simp: apply_evidence_def persist_def remain_unresolved_def timed_def
            split: broker_state.splits prod.splits sum.splits if_splits)
      moreover have "fst (?call (w_env w) (w_store w)) = Inr ev" using aw Inr by (auto simp: await_def split: prod.splits)
      ultimately show ?thesis
        using apply_evidence_outcome [OF ae] reaches_trans [OF r1 reaches_apply_evidence [OF ae]] l1 sk
        unfolding outcome_ok_def by fastforce
    qed
  qed
qed

lemma recover_each_ok:
  assumes "recover_each recon b a rs w = (results, w')" "\<And>p q s k. uses_store (recon p q s k)"
  shows "reaches (w_store w) (w_store w') \<and> w_log w' = w_log w
    \<and> list_all2 (\<lambda>r res. outcome_ok recon r res (w_store w')) rs results"
  using assms(1)
proof (induction rs arbitrary: w results)
  case (Cons r rs)
  obtain res st w1 where rr: "recover_record recon b a r w = ((res, st), w1)" by (metis prod.collapse)
  obtain p w2 where dg: "stored (record_recovery_diagnostic (rec_idempotency_key r) (outcome_value (rv_outcome res)) st (rv_reason res)) w1 = (p, w2)"
    by force
  obtain rest w3 where re: "recover_each recon b a rs w2 = (rest, w3)" by force
  let ?res = "if p = Inr True then res else rv_result r PERSISTENCE_ERROR ''Recovery diagnostic could not be persisted''"
  have eq: "results = ?res # rest" "w' = w3" using Cons.prems rr dg re by (simp_all add: Let_def)
  note ok1 = recover_record_ok [OF rr assms(2)] and r2 = reaches_diagnostic [OF dg]
  have ok3: "reaches (w_store w2) (w_store w')" "w_log w' = w_log w2"
    "list_all2 (\<lambda>r res. outcome_ok recon r res (w_store w')) rs rest"
    using Cons.IH re eq(2) by blast+
  have r13: "reaches (w_store w1) (w_store w')" using reaches_trans [OF r2 ok3(1)] .
  have "outcome_ok recon r ?res (w_store w')"
    using outcome_ok_reaches [of recon r res "w_store w1" "w_store w'"] ok1 r13
    by (auto simp: outcome_ok_def rv_result_def resolved_def)
  moreover have "reaches (w_store w) (w_store w')" using ok1 r13 by (blast intro: reaches_trans)
  moreover have "w_log w' = w_log w" using ok1 ok3(2) dg by (auto simp: stored_def split: prod.splits)
  ultimately show ?case using ok3(3) eq(1) by simp
qed simp

lemma recover_ok:
  assumes "recover recon broker account w = (Inr results, w')" "\<forall>p q s k. uses_store (recon p q s k)"
  shows "\<exists>records. fst (list_unresolved (w_store w)) = Inr records \<and> reaches (w_store w) (w_store w')
    \<and> w_log w' = w_log w \<and> list_all2 (\<lambda>r res. outcome_ok recon r res (w_store w')) records results"
proof -
  obtain y w1 where lu: "stored list_unresolved w = (y, w1)" by force
  obtain records where rec: "y = Inr records" "recover_each recon (py_lower (py_strip broker)) (py_strip account) records w1 = (results, w')"
    using assms(1) lu by (auto simp: recover_def as_result_def split: sum.splits prod.splits)
  have "fst (list_unresolved (w_store w)) = Inr records" "w_log w1 = w_log w"
    using lu rec(1) by (auto simp: stored_def split: prod.splits)
  moreover have "reaches (w_store w1) (w_store w') \<and> w_log w' = w_log w1
    \<and> list_all2 (\<lambda>r res. outcome_ok recon r res (w_store w')) records results"
    using recover_each_ok [OF rec(2)] assms(2) by simp
  ultimately show ?thesis using reaches_trans [OF reaches_list_unresolved [OF lu]] by auto
qed

section \<open>Recovery over the reconciler interface\<close>

definition answers_with ::
  "('v \<Rightarrow> string option \<Rightarrow> string option \<Rightarrow> string option \<Rightarrow> string option \<Rightarrow> reconciliation_evidence) \<Rightarrow> 'g reconcile_call \<Rightarrow> bool" where
  "answers_with query recon \<longleftrightarrow> (\<forall>p q s k e st ev. fst (recon p q s k e st) = Inr ev \<longrightarrow> (\<exists>v. ev = query v p q s k))"

context reconciler
begin

lemma outcome_rests_on_evidence:
  assumes "outcome_ok recon r res s" "answers_with query recon"
  shows "(rv_outcome res = RESOLVED_ACCEPTED \<longrightarrow> (\<exists>v. proves v (rec_order_id r) (rec_transaction_id r)))
    \<and> (rv_outcome res = RESOLVED_REJECTED \<longrightarrow> \<not> truthy_text (rec_symbol r))"
proof (cases "resolved res")
  case True
  with assms(1) obtain k e s0 ev symb where e: "rec_symbol r = Some symb"
    "fst (recon (rec_order_id r) (rec_transaction_id r) (Some symb) (Some k) e s0) = Inr ev"
    "rv_outcome res = RESOLVED_ACCEPTED \<and> rc_state ev = CONFIRMED_MATCH
     \<or> rv_outcome res = RESOLVED_REJECTED \<and> rc_state ev = CONFIRMED_ABSENCE"
    unfolding outcome_ok_def by blast
  obtain v where v: "ev = query v (rec_order_id r) (rec_transaction_id r) (Some symb) (Some k)"
    using assms(2) e(2) unfolding answers_with_def by blast
  have "rc_state ev = CONFIRMED_MATCH \<Longrightarrow> \<exists>v. proves v (rec_order_id r) (rec_transaction_id r)"
    unfolding v by (blast dest: match_proved)
  moreover have "truthy_text (Some symb) \<Longrightarrow> rc_state ev \<noteq> CONFIRMED_ABSENCE"
    unfolding v by (rule never_absent)
  ultimately show ?thesis using e(1,3) by auto
qed (auto simp: resolved_def)

end

section \<open>Properties\<close>

text \<open>Startup recovery reports every unresolved intent exactly once and in creation order, sends no order, and
  whatever it reports as resolved is durable: at the end of the recovery the intent's row has the
  corresponding final state, even though other processes use the store meanwhile.\<close>

theorem recovery_reports_all_durably:
  assumes "recover recon broker account w = (Inr results, w')" "\<forall>p q s k. uses_store (recon p q s k)"
  shows "\<exists>records. fst (list_unresolved (w_store w)) = Inr records
    \<and> map rv_idempotency_key results = map rec_idempotency_key records \<and> w_log w' = w_log w
    \<and> (\<forall>res \<in> set results. resolved res \<longrightarrow> (\<exists>k. text_of (rv_idempotency_key res) = Some k
         \<and> has_state k (if rv_outcome res = RESOLVED_ACCEPTED then ACCEPTED else REJECTED) (w_store w')))"
proof -
  obtain records where r: "fst (list_unresolved (w_store w)) = Inr records" "w_log w' = w_log w"
    "list_all2 (\<lambda>r res. outcome_ok recon r res (w_store w')) records results"
    using recover_ok [OF assms(1,2)] by blast
  have "map rv_idempotency_key results = map rec_idempotency_key records"
    using r(3) by (induction rule: list_all2_induct) (auto simp: outcome_ok_def)
  moreover have "\<exists>k. text_of (rv_idempotency_key res) = Some k
         \<and> has_state k (if rv_outcome res = RESOLVED_ACCEPTED then ACCEPTED else REJECTED) (w_store w')"
    if "res \<in> set results" "resolved res" for res
    using r(3) that by (induction rule: list_all2_induct) (auto simp: outcome_ok_def)
  ultimately show ?thesis using r(1,2) by blast
qed


section \<open>A concrete recovery\<close>

definition crashed_row :: intent_row where
  "crashed_row = claimed_row\<lparr>row_order_id := Some ''p1''\<rparr>"

definition crashed_record :: intent_record where
  "crashed_record = sample_record\<lparr>rec_account_id := Some ''weltrade_demo:7'', rec_order_id := Some ''p1''\<rparr>"

definition crashed_db :: intent_db where
  "crashed_db = empty_db\<lparr>db_intents := [crashed_row]\<rparr>"

definition sample_reconciler :: "unit reconcile_call" where
  "sample_reconciler order_id transaction_id symb key e s =
     (Inr (adapter_reconcile SimulationAdapter sample_view order_id transaction_id symb key), e, s)"

lemma crashed_decode: "decode crashed_row = Inr crashed_record"
  by (simp add: decode_def crashed_row_def crashed_record_def claimed_row_def sample_record_def sample_quantity_def
      decode_quantity_def decode_side_def unit_of_value_def side_of_value_def status_of_value_def make_quantity_def
      positive_finite_def real_column_def)

lemma crashed_list: "list_unresolved crashed_db = (Inr [crashed_record], crashed_db)"
  using crashed_decode
  by (simp add: list_unresolved_def with_connection_def crashed_db_def empty_db_def creation_order_def
      unresolved_def crashed_record_def sample_record_def)

lemma crashed_accept:
  "\<exists>row. transition (crashed_record\<lparr>rec_status := ACCEPTED, rec_order_id := oid, rec_transaction_id := tid\<rparr>) clock crashed_db
     = (Inr True, crashed_db\<lparr>db_intents := [row]\<rparr>) \<and> row_idempotency_key row = ''jqe-v2-1''"
proof -
  have k: "validate_key (rec_idempotency_key (crashed_record\<lparr>rec_status := ACCEPTED, rec_order_id := oid, rec_transaction_id := tid\<rparr>))
      = Inr ''jqe-v2-1''"
    by (simp add: crashed_record_def sample_record_def validate_key_def nonblank_iff py_isspace_def)
  have i: "intent_of ''jqe-v2-1'' crashed_db = Some crashed_row"
    by (simp add: crashed_db_def crashed_row_def claimed_row_def)
  have o: "db_outages crashed_db = []" by (simp add: crashed_db_def empty_db_def)
  have kr: "row_idempotency_key crashed_row = ''jqe-v2-1''" by (simp add: crashed_row_def claimed_row_def)
  have st: "rec_status crashed_record = PENDING" by (simp add: crashed_record_def sample_record_def)
  show ?thesis
    unfolding transition_def k sum.case with_connection_def o list.case i option.case crashed_decode
    by (simp add: st upd_where_def crashed_db_def kr) (rule exI, rule conjI, rule refl, simp add: kr)
qed

lemma sample_recovery:
  "\<exists>res w'. recover sample_reconciler ''weltrade_demo'' ''weltrade_demo:7'' (sample_world crashed_db) = (Inr [res], w')
     \<and> rv_outcome res = RESOLVED_ACCEPTED"
proof -
  let ?ev = "adapter_reconcile SimulationAdapter sample_view (Some ''p1'') None (Some ''FX Vol 20'') (Some ''jqe-v2-1'')"
  have ev: "rc_state ?ev = CONFIRMED_MATCH"
    by (simp add: simulation_reconcile_def sample_view_def sample_position_def observe_def Let_def
      obs_identity_def obs_text_def text_or_def py_str_def)
  have int: "\<exists>i. to_execution_intent crashed_record = Inr (Some i) \<and> text_of (int_symbol i) = Some ''FX Vol 20''
      \<and> text_of (int_idempotency_key i) = Some ''jqe-v2-1''"
    by (simp add: to_execution_intent_def crashed_record_def sample_record_def)
  have sc: "\<not> scope_mismatch ''weltrade_demo'' ''weltrade_demo:7'' crashed_record"
    by (simp add: scope_mismatch_def crashed_record_def sample_record_def py_lower_def py_strip_def py_isspace_def)
  have ids: "rec_order_id crashed_record = Some ''p1''" "rec_transaction_id crashed_record = None"
    "rec_idempotency_key crashed_record = PyStr ''jqe-v2-1''"
    by (simp_all add: crashed_record_def sample_record_def)
  obtain row where tr: "transition (crashed_record\<lparr>rec_status := ACCEPTED, rec_order_id := recovered_order_id crashed_record ?ev,
        rec_transaction_id := recovered_transaction_id crashed_record ?ev\<rparr>) (Aware 0 0) crashed_db
     = (Inr True, crashed_db\<lparr>db_intents := [row]\<rparr>)" "row_idempotency_key row = ''jqe-v2-1''"
    using crashed_accept by blast
  define w1 where "w1 = (sample_world (crashed_db\<lparr>db_intents := [row]\<rparr>))\<lparr>w_ticks := 1\<rparr>"
  have pe: "persist crashed_record ACCEPTED RESOLVED_ACCEPTED ?ev (sample_world crashed_db)
      = (rv_result crashed_record RESOLVED_ACCEPTED (rc_reason ?ev), w1)"
    unfolding persist_def timed_def using tr(1) by (simp add: sample_world_def w1_def)
  have aw: "await (sample_reconciler (Some ''p1'') None (Some ''FX Vol 20'') (Some ''jqe-v2-1'')) (sample_world crashed_db)
      = (Inr ?ev, sample_world crashed_db)"
    by (simp add: await_def sample_reconciler_def sample_world_def)
  have rr: "recover_record sample_reconciler ''weltrade_demo'' ''weltrade_demo:7'' crashed_record (sample_world crashed_db)
      = ((rv_result crashed_record RESOLVED_ACCEPTED (rc_reason ?ev), Some ''CONFIRMED_MATCH''), w1)"
    using int sc by (auto simp only: recover_record_def ids aw sum.case option.case if_False prod.case apply_evidence_def ev
        broker_state.case pe broker_state_value.simps)
  obtain p w2 where dg: "stored (record_recovery_diagnostic (PyStr ''jqe-v2-1'') ''RESOLVED_ACCEPTED''
      (Some ''CONFIRMED_MATCH'') (rc_reason ?ev)) w1 = (p, w2)" "p = Inr True"
    using tr(2) by (simp add: stored_def record_recovery_diagnostic_def validate_key_def nonblank_iff py_isspace_def
        with_connection_def w1_def sample_world_def crashed_db_def empty_db_def rowcount_def)
  have re: "recover_each sample_reconciler ''weltrade_demo'' ''weltrade_demo:7'' [crashed_record] (sample_world crashed_db)
      = ([rv_result crashed_record RESOLVED_ACCEPTED (rc_reason ?ev)], w2)"
    unfolding recover_each.simps rr prod.case using dg by (simp add: rv_result_def ids Let_def)
  have norm: "py_lower (py_strip ''weltrade_demo'') = ''weltrade_demo''" "py_strip ''weltrade_demo:7'' = ''weltrade_demo:7''"
    by (simp_all add: py_lower_def py_strip_def py_isspace_def)
  have "recover sample_reconciler ''weltrade_demo'' ''weltrade_demo:7'' (sample_world crashed_db)
      = (Inr [rv_result crashed_record RESOLVED_ACCEPTED (rc_reason ?ev)], w2)"
    unfolding recover_def stored_def using crashed_list re norm by (simp add: sample_world_def as_result_def)
  then show ?thesis by (simp add: rv_result_def)
qed

lemma sample_reconciler_ok:
  "\<forall>p q s k. uses_store (sample_reconciler p q s k)" "answers_with (adapter_reconcile SimulationAdapter) sample_reconciler"
  by (auto simp: uses_store_def sample_reconciler_def answers_with_def)

theorem recovery_reports_all_durably_witness:
  "\<exists>(results :: recovery_result list) (w' :: unit world) records. results \<noteq> [] \<and> fst (list_unresolved crashed_db) = Inr records
    \<and> map rv_idempotency_key results = map rec_idempotency_key records
    \<and> has_state ''jqe-v2-1'' ACCEPTED (w_store w')"
proof -
  obtain res w' where r: "recover sample_reconciler ''weltrade_demo'' ''weltrade_demo:7'' (sample_world crashed_db) = (Inr [res], w')"
    "rv_outcome res = RESOLVED_ACCEPTED" using sample_recovery by blast
  from recovery_reports_all_durably [OF r(1) sample_reconciler_ok(1)] r(2) crashed_list show ?thesis
    by (auto simp: sample_world_def resolved_def crashed_record_def sample_record_def intro!: exI [of _ "[res]"] exI [of _ w'])
qed


end
