(* ===== verification/Submission_Guards.thy ===== *)
theory Submission_Guards
  imports Py_Values Py_Time
begin

text \<open>
  The three durable submission caps: \<open>SQLiteOneShotExecutionGuard\<close> (\<open>execution/persistence.py\<close>, one
  submission per account scope for ever), \<open>DailyInstrumentTradeGuard\<close>
  (\<open>execution/daily_instrument_guard.py\<close>) and \<open>SQLiteSimulationDailySubmissionGuard\<close>
  (\<open>execution/simulation_daily_guard.py\<close>), which count submission starts per UTC day. Each keeps a table
  of counters with a primary key. A slot is consumed before the broker is contacted and never given
  back.

  Their common contract is the locale \<open>capped_counter\<close>; the three guards are its interpretations, and
  the bound on the number of granted submissions is proved once.
\<close>

section \<open>Counter tables\<close>

record 'k counter_row =
  ctr_key :: 'k
  ctr_count :: int
  ctr_updated_at :: int

record 'k counter_db =
  ctr_rows :: "'k counter_row list"
  ctr_outages :: "bool list"

text \<open>\<open>self._connect()\<close> may fail; otherwise the body runs in one transaction.\<close>

definition with_counters ::
  "'k counter_db \<Rightarrow> ('k counter_row list \<Rightarrow> 'a result \<times> 'k counter_row list) \<Rightarrow> 'a result \<times> 'k counter_db" where
  "with_counters s body =
     (if ctr_outages s \<noteq> [] \<and> hd (ctr_outages s)
      then (Inl (DatabaseError ''unable to open database file''), s\<lparr>ctr_outages := tl (ctr_outages s)\<rparr>)
      else case body (ctr_rows s) of (r, rows) \<Rightarrow> (r, \<lparr>ctr_rows = rows, ctr_outages = tl (ctr_outages s)\<rparr>))"

definition counter_of :: "'k \<Rightarrow> 'k counter_row list \<Rightarrow> int" where
  "counter_of k rows = (case sel ctr_key k rows of None \<Rightarrow> 0 | Some row \<Rightarrow> ctr_count row)"

text \<open>\<open>INSERT ... ON CONFLICT(key) DO UPDATE\<close>\<close>

definition set_counter :: "'k \<Rightarrow> int \<Rightarrow> int \<Rightarrow> 'k counter_row list \<Rightarrow> 'k counter_row list" where
  "set_counter k n now rows =
     (case sel ctr_key k rows of
        None \<Rightarrow> rows @ [\<lparr>ctr_key = k, ctr_count = n, ctr_updated_at = now\<rparr>]
      | Some _ \<Rightarrow> upd_where (\<lambda>r. ctr_key r = k) (\<lambda>r. r\<lparr>ctr_count := n, ctr_updated_at := now\<rparr>) rows)"

section \<open>One submission per scope\<close>

definition one_shot_limit :: int where
  "one_shot_limit = 1"

definition one_shot_scope :: "pyval \<Rightarrow> string result" where
  "one_shot_scope scp = (case text_of scp of
      Some s \<Rightarrow> if nonblank s then Inr (py_strip s) else Inl (ValueError ''Execution lifetime scope must be nonblank'')
    | None \<Rightarrow> Inl (ValueError ''Execution lifetime scope must be nonblank''))"

definition one_shot_count :: "pyval \<Rightarrow> string counter_db \<Rightarrow> int result \<times> string counter_db" where
  "one_shot_count scp s = with_counters s (\<lambda>rows. (rbind (one_shot_scope scp) (\<lambda>k. Inr (counter_of k rows)), rows))"

definition cap_consumed :: py_exn where
  "cap_consumed = RuntimeError ''One-order lifetime execution cap has already been consumed''"

definition one_shot_assert_available :: "pyval \<Rightarrow> string counter_db \<Rightarrow> unit result \<times> string counter_db" where
  "one_shot_assert_available scp s = (case one_shot_count scp s of
      (Inl e, s) \<Rightarrow> (Inl e, s)
    | (Inr n, s) \<Rightarrow> (if one_shot_limit \<le> n then Inl cap_consumed else Inr (), s))"

definition one_shot_consume :: "pyval \<Rightarrow> int \<Rightarrow> string counter_db \<Rightarrow> unit result \<times> string counter_db" where
  "one_shot_consume scp now s = (case one_shot_scope scp of Inl e \<Rightarrow> (Inl e, s) | Inr k \<Rightarrow>
     with_counters s (\<lambda>rows.
       if one_shot_limit \<le> counter_of k rows then (Inl cap_consumed, rows)
       else (Inr (), set_counter k 1 now rows)))"

section \<open>Submissions per account, instrument and UTC day\<close>

record daily_usage =
  du_scope :: string
  du_instrument :: string
  du_utc_date :: int
  du_count :: int
  du_limit :: int
  du_reset_at :: pydatetime

type_synonym instrument_db = "(string \<times> string \<times> int) counter_db"

definition instrument_key :: "pyval \<Rightarrow> pyval \<Rightarrow> (string \<times> string) result" where
  "instrument_key scp instrument =
     (case text_of scp of None \<Rightarrow> Inl (ValueError ''Account scope must be nonblank'') | Some s \<Rightarrow>
      if \<not> nonblank s then Inl (ValueError ''Account scope must be nonblank'')
      else case text_of instrument of None \<Rightarrow> Inl (ValueError ''Instrument must be nonblank'') | Some i \<Rightarrow>
      if \<not> nonblank i then Inl (ValueError ''Instrument must be nonblank'')
      else Inr (py_strip s, py_upper (py_strip i)))"

text \<open>The argument is \<open>at or self._clock()\<close>.\<close>

definition guard_now :: "pydatetime \<Rightarrow> pydatetime result" where
  "guard_now value = (if \<not> tz_aware value then Inl (ValueError ''Daily instrument guard clock must be timezone-aware'')
     else Inr (to_utc value))"

definition instrument_usage ::
  "int \<Rightarrow> pyval \<Rightarrow> pyval \<Rightarrow> pydatetime \<Rightarrow> instrument_db \<Rightarrow> daily_usage result \<times> instrument_db" where
  "instrument_usage limit scp instrument clock s =
     (case rbind (instrument_key scp instrument) (\<lambda>k. rbind (guard_now clock) (\<lambda>now. Inr (k, now))) of
        Inl e \<Rightarrow> (Inl e, s)
      | Inr ((sc, ins), now) \<Rightarrow> with_counters s (\<lambda>rows.
          (Inr \<lparr>du_scope = sc, du_instrument = ins, du_utc_date = date_of now,
                du_count = counter_of (sc, ins, date_of now) rows, du_limit = limit,
                du_reset_at = utc_midnight (date_of now + 1)\<rparr>, rows)))"

definition instrument_consume ::
  "int \<Rightarrow> pyval \<Rightarrow> pyval \<Rightarrow> pydatetime \<Rightarrow> instrument_db \<Rightarrow> daily_usage result \<times> instrument_db" where
  "instrument_consume limit scp instrument clock s =
     (case rbind (instrument_key scp instrument) (\<lambda>k. rbind (guard_now clock) (\<lambda>now. Inr (k, now))) of
        Inl e \<Rightarrow> (Inl e, s)
      | Inr ((sc, ins), now) \<Rightarrow>
          (case with_counters s (\<lambda>rows.
             let day = date_of now; count = counter_of (sc, ins, day) rows in
             if limit \<le> count then (Inl (DailyInstrumentCapReached sc ins day limit), rows)
             else (Inr (), set_counter (sc, ins, day) (count + 1) (instant now) rows)) of
             (Inl e, s) \<Rightarrow> (Inl e, s)
           | (Inr _, s) \<Rightarrow> instrument_usage limit (PyStr sc) (PyStr ins) now s))"

section \<open>Simulated submissions per scope and UTC day\<close>

record simulation_status =
  ss_scope :: string
  ss_utc_date :: int
  ss_count :: int
  ss_limit :: int
  ss_reset_at :: pydatetime

type_synonym simulation_db = "(string \<times> int) counter_db"

definition ss_available :: "simulation_status \<Rightarrow> bool" where
  "ss_available st \<longleftrightarrow> ss_count st < ss_limit st"

definition starts_with :: "string \<Rightarrow> string \<Rightarrow> bool" where
  "starts_with prefix s \<longleftrightarrow> take (length prefix) s = prefix"

definition simulation_scope :: "pyval \<Rightarrow> string result" where
  "simulation_scope scp =
     (case text_of scp of None \<Rightarrow> Inl (ValueError ''Simulation account scope must be nonblank'') | Some s \<Rightarrow>
      if \<not> nonblank s then Inl (ValueError ''Simulation account scope must be nonblank'')
      else if \<not> starts_with ''simulation:'' (py_lower (py_strip s))
      then Inl (ValueError ''Simulation daily guard only accepts simulation account scopes'')
      else Inr (py_strip s))"

text \<open>The argument is \<open>now or datetime.now(timezone.utc)\<close>.\<close>

definition simulation_day :: "pydatetime \<Rightarrow> (pydatetime \<times> int) result" where
  "simulation_day now = (if \<not> tz_aware now then Inl (ValueError ''Guard timestamps must be timezone-aware'')
     else Inr (to_utc now, date_of (to_utc now)))"

definition simulation_status_of ::
  "int \<Rightarrow> pyval \<Rightarrow> pydatetime \<Rightarrow> simulation_db \<Rightarrow> simulation_status result \<times> simulation_db" where
  "simulation_status_of limit scp now s =
     (case rbind (simulation_scope scp) (\<lambda>k. rbind (simulation_day now) (\<lambda>d. Inr (k, d))) of
        Inl e \<Rightarrow> (Inl e, s)
      | Inr (k, utc, day) \<Rightarrow> with_counters s (\<lambda>rows.
          (Inr \<lparr>ss_scope = k, ss_utc_date = day, ss_count = counter_of (k, day) rows, ss_limit = limit,
                ss_reset_at = utc_midnight (date_of utc + 1)\<rparr>, rows)))"

definition simulation_assert_available ::
  "int \<Rightarrow> pyval \<Rightarrow> pydatetime \<Rightarrow> simulation_db \<Rightarrow> unit result \<times> simulation_db" where
  "simulation_assert_available limit scp now s = (case simulation_status_of limit scp now s of
      (Inl e, s) \<Rightarrow> (Inl e, s)
    | (Inr st, s) \<Rightarrow> (if \<not> ss_available st then Inl (SimulationDailyCapReached (ss_count st) (ss_limit st)) else Inr (), s))"

definition simulation_consume ::
  "int \<Rightarrow> pyval \<Rightarrow> pydatetime \<Rightarrow> simulation_db \<Rightarrow> simulation_status result \<times> simulation_db" where
  "simulation_consume limit scp now s =
     (case rbind (simulation_scope scp) (\<lambda>k. rbind (simulation_day now) (\<lambda>d. Inr (k, d))) of
        Inl e \<Rightarrow> (Inl e, s)
      | Inr (k, utc, day) \<Rightarrow>
          (case with_counters s (\<lambda>rows.
             let count = counter_of (k, day) rows in
             if limit \<le> count then (Inl (SimulationDailyCapReached count limit), rows)
             else (Inr (), set_counter (k, day) (count + 1) (instant utc) rows)) of
             (Inl e, s) \<Rightarrow> (Inl e, s)
           | (Inr _, s) \<Rightarrow> simulation_status_of limit (PyStr k) utc s))"

section \<open>The contract of a cap\<close>

text \<open>A sequence of requests, by any number of processes: the slots of the granted ones.\<close>

fun granted_slots :: "('r \<Rightarrow> 's \<Rightarrow> 'a result \<times> 's) \<Rightarrow> ('r \<Rightarrow> 'k option) \<Rightarrow> 'r list \<Rightarrow> 's \<Rightarrow> 'k list" where
  "granted_slots consume slot [] s = []"
| "granted_slots consume slot (r # rs) s = (case consume r s of
     (Inl e, s') \<Rightarrow> granted_slots consume slot rs s'
   | (Inr x, s') \<Rightarrow> (case slot r of None \<Rightarrow> [] | Some k \<Rightarrow> [k]) @ granted_slots consume slot rs s')"

text \<open>\<open>slot\<close> is the counter a request is counted under. A granted request counts one more under its slot, which was
  below the limit; a refused one gives nothing back.\<close>

locale capped_counter =
  fixes consume :: "'r \<Rightarrow> 's \<Rightarrow> 'a result \<times> 's"
    and slot :: "'r \<Rightarrow> 'k option"
    and used :: "'k \<Rightarrow> 's \<Rightarrow> int"
    and cap :: int
    and ok :: "'s \<Rightarrow> bool"
  assumes granted: "ok s \<Longrightarrow> consume r s = (Inr x, s') \<Longrightarrow>
      \<exists>k. slot r = Some k \<and> used k s < cap \<and> used k s' = used k s + 1"
    and grows: "ok s \<Longrightarrow> consume r s = (y, s') \<Longrightarrow> used k s \<le> used k s' \<and> (used k s' \<le> used k s \<or> used k s' \<le> cap)"
    and kept: "ok s \<Longrightarrow> consume r s = (y, s') \<Longrightarrow> ok s'"
begin

lemma granted_bounded:
  "ok s \<Longrightarrow> used k s + int (length (filter (\<lambda>j. j = k) (granted_slots consume slot rs s))) \<le> max cap (used k s)"
proof (induction rs arbitrary: s)
  case (Cons r rs)
  obtain y s' where c: "consume r s = (y, s')" by force
  note ok' = kept [OF Cons.prems c] and g = grows [OF Cons.prems c, of k]
  note IH = Cons.IH [OF ok']
  show ?case
  proof (cases y)
    case (Inl e)
    with c IH g show ?thesis by auto
  next
    case (Inr x)
    with c obtain k' where k': "slot r = Some k'" "used k' s < cap" "used k' s' = used k' s + 1"
      using granted [OF Cons.prems] by blast
    show ?thesis
    proof (cases "k' = k")
      case True
      with IH k' c Inr show ?thesis by auto
    next
      case False
      with IH g k' c Inr show ?thesis by auto
    qed
  qed
qed simp

end

section \<open>The three guards keep the contract\<close>

definition counters_ok :: "'k counter_db \<Rightarrow> bool" where
  "counters_ok s \<longleftrightarrow> (\<forall>row \<in> set (ctr_rows s). 0 \<le> ctr_count row)"

definition counter_used :: "'k \<Rightarrow> 'k counter_db \<Rightarrow> int" where
  "counter_used k s = counter_of k (ctr_rows s)"

lemma counter_of_set: "counter_of k (set_counter k' n now rows) = (if k = k' then n else counter_of k rows)"
  by (auto simp: counter_of_def set_counter_def sel_append sel_upd_where split: option.splits dest!: sel_SomeD)

lemma counters_ok_set: "\<forall>row \<in> set rows. 0 \<le> ctr_count row \<Longrightarrow> 0 \<le> n \<Longrightarrow>
    \<forall>row \<in> set (set_counter k n now rows). 0 \<le> ctr_count row"
  by (auto simp: set_counter_def upd_where_def split: option.splits)

lemma counter_of_nonneg: "\<forall>row \<in> set rows. 0 \<le> ctr_count row \<Longrightarrow> 0 \<le> counter_of k rows"
  by (auto simp: counter_of_def split: option.splits dest: sel_SomeD)

text \<open>The transaction all three share: refuse at the limit, else set the counter to one more.\<close>

definition count_up :: "'k \<Rightarrow> int \<Rightarrow> py_exn \<Rightarrow> int \<Rightarrow> 'k counter_db \<Rightarrow> unit result \<times> 'k counter_db" where
  "count_up k limit e now s = with_counters s (\<lambda>rows.
     if limit \<le> counter_of k rows then (Inl e, rows)
     else (Inr (), set_counter k (counter_of k rows + 1) now rows))"

lemma count_up_effect:
  assumes "count_up k limit e now s = (y, s')" "counters_ok s"
  shows "counters_ok s'" "y = Inr () \<Longrightarrow> counter_used k s < limit \<and> counter_used k s' = counter_used k s + 1"
    "counter_used k' s \<le> counter_used k' s'" "counter_used k' s' \<le> counter_used k' s \<or> counter_used k' s' \<le> limit"
  using assms counters_ok_set [of "ctr_rows s" "counter_of k (ctr_rows s) + 1" k now] counter_of_nonneg [of "ctr_rows s" k]
  by (auto simp: count_up_def with_counters_def counters_ok_def counter_used_def counter_of_set split: if_splits)

lemma read_effect:
  "with_counters s (\<lambda>rows. (f rows, rows)) = (y, s') \<Longrightarrow> ctr_rows s' = ctr_rows s"
  by (auto simp: with_counters_def split: if_splits)

definition one_shot_slot :: "pyval \<times> int \<Rightarrow> string option" where
  "one_shot_slot r = (case one_shot_scope (fst r) of Inl e \<Rightarrow> None | Inr k \<Rightarrow> Some k)"

definition instrument_slot :: "pyval \<times> pyval \<times> pydatetime \<Rightarrow> (string \<times> string \<times> int) option" where
  "instrument_slot r = (case r of (scp, instrument, clock) \<Rightarrow> (case instrument_key scp instrument of
      Inl e \<Rightarrow> None | Inr (sc, ins) \<Rightarrow> Some (sc, ins, date_of (to_utc clock))))"

definition simulation_slot :: "pyval \<times> pydatetime \<Rightarrow> (string \<times> int) option" where
  "simulation_slot r = (case simulation_scope (fst r) of Inl e \<Rightarrow> None | Inr k \<Rightarrow> Some (k, date_of (to_utc (snd r))))"

lemma one_shot_count_up:
  "counters_ok s \<Longrightarrow> one_shot_scope scp = Inr k \<Longrightarrow> one_shot_consume scp now s = count_up k one_shot_limit cap_consumed now s"
proof -
  assume a: "counters_ok s" "one_shot_scope scp = Inr k"
  have "set_counter k 1 now (ctr_rows s) = set_counter k (counter_of k (ctr_rows s) + 1) now (ctr_rows s)"
    if "\<not> one_shot_limit \<le> counter_of k (ctr_rows s)"
  proof -
    have "counter_of k (ctr_rows s) = 0"
      using that a(1) counter_of_nonneg [of "ctr_rows s" k] by (auto simp: counters_ok_def one_shot_limit_def)
    then show ?thesis by simp
  qed
  with a(2) show ?thesis by (simp add: one_shot_consume_def count_up_def with_counters_def)
qed

text \<open>A consumption is a \<open>count_up\<close> on its slot, followed by a read.\<close>

lemma instrument_consume_cases:
  assumes "instrument_consume limit scp ins clock s = (y, s')"
  obtains (invalid) e where "y = Inl e" "s' = s"
  | (counted) sc i e z s1 where "instrument_slot (scp, ins, clock) = Some (sc, i, date_of (to_utc clock))"
      "count_up (sc, i, date_of (to_utc clock)) limit e (instant clock) s = (z, s1)" "ctr_rows s' = ctr_rows s1"
      "\<And>x. y = Inr x \<Longrightarrow> z = Inr ()"
proof (cases "rbind (instrument_key scp ins) (\<lambda>k. rbind (guard_now clock) (\<lambda>now. Inr (k, now)))")
  case (Inl e)
  with assms invalid show ?thesis by (auto simp: instrument_consume_def)
next
  case (Inr p)
  then obtain sc i where p: "p = ((sc, i), to_utc clock)" and k: "instrument_key scp ins = Inr (sc, i)"
    by (auto simp: guard_now_def split: if_splits)
  let ?d = "date_of (to_utc clock)"
  obtain z s1 where c: "count_up (sc, i, ?d) limit (DailyInstrumentCapReached sc i ?d limit) (instant clock) s = (z, s1)" by force
  have eq: "instrument_consume limit scp ins clock s = (case (z, s1) of (Inl e, s) \<Rightarrow> (Inl e, s)
      | (Inr _, s) \<Rightarrow> instrument_usage limit (PyStr sc) (PyStr i) (to_utc clock) s)"
    unfolding instrument_consume_def Inr p sum.case prod.case Let_def c [symmetric] count_up_def instant_to_utc ..
  have "ctr_rows s' = ctr_rows s1"
    using assms unfolding eq instrument_usage_def by (auto split: sum.splits dest: read_effect)
  moreover have "z = Inr ()" if "y = Inr x" for x using assms that unfolding eq by (auto split: sum.splits)
  ultimately show ?thesis using counted [OF _ c] k by (simp add: instrument_slot_def)
qed

lemma simulation_consume_cases:
  assumes "simulation_consume limit scp now s = (y, s')"
  obtains (invalid) e where "y = Inl e" "s' = s"
  | (counted) k e z s1 where "simulation_slot (scp, now) = Some (k, date_of (to_utc now))"
      "(\<exists>c. e = SimulationDailyCapReached c limit)"
      "count_up (k, date_of (to_utc now)) limit e (instant now) s = (z, s1)" "ctr_rows s' = ctr_rows s1"
      "\<And>x. y = Inr x \<Longrightarrow> z = Inr ()"
proof (cases "rbind (simulation_scope scp) (\<lambda>k. rbind (simulation_day now) (\<lambda>d. Inr (k, d)))")
  case (Inl e)
  with assms invalid show ?thesis by (auto simp: simulation_consume_def)
next
  case (Inr p)
  then obtain k where p: "p = (k, to_utc now, date_of (to_utc now))" and k: "simulation_scope scp = Inr k"
    by (auto simp: simulation_day_def split: if_splits)
  let ?d = "date_of (to_utc now)" and ?e = "SimulationDailyCapReached (counter_of (k, date_of (to_utc now)) (ctr_rows s)) limit"
  obtain z s1 where c: "count_up (k, ?d) limit ?e (instant now) s = (z, s1)" by force
  have eq: "simulation_consume limit scp now s = (case (z, s1) of (Inl e, s) \<Rightarrow> (Inl e, s)
      | (Inr _, s) \<Rightarrow> simulation_status_of limit (PyStr k) (to_utc now) s)"
    unfolding simulation_consume_def Inr p sum.case prod.case Let_def c [symmetric] count_up_def with_counters_def by simp
  have "ctr_rows s' = ctr_rows s1"
    using assms unfolding eq simulation_status_of_def by (auto split: sum.splits dest: read_effect)
  moreover have "z = Inr ()" if "y = Inr x" for x using assms that unfolding eq by (auto split: sum.splits)
  ultimately show ?thesis using counted [OF _ _ c] k by (simp add: simulation_slot_def)
qed

lemma counter_rows_cong: "ctr_rows s = ctr_rows t \<Longrightarrow> counter_used k s = counter_used k t \<and> counters_ok s = counters_ok t"
  by (simp add: counter_used_def counters_ok_def)

lemma count_up_read_effect:
  assumes "count_up k limit e now s = (z, s1)" "ctr_rows s' = ctr_rows s1" "counters_ok s"
  shows "counters_ok s' \<and> counter_used k' s \<le> counter_used k' s' \<and> (counter_used k' s' \<le> counter_used k' s \<or> counter_used k' s' \<le> limit)"
  using count_up_effect(1) [OF assms(1,3)] count_up_effect(3,4) [OF assms(1,3), of k'] counter_rows_cong [OF assms(2)] by simp

interpretation one_shot: capped_counter "\<lambda>r. one_shot_consume (fst r) (snd r)" one_shot_slot counter_used one_shot_limit counters_ok
proof
  fix s :: "string counter_db" and r y s' k
  assume a: "counters_ok s" and c: "one_shot_consume (fst r) (snd r) s = (y, s')"
  show "counters_ok s'" "counter_used k s \<le> counter_used k s' \<and> (counter_used k s' \<le> counter_used k s \<or> counter_used k s' \<le> one_shot_limit)"
    using a c one_shot_count_up [OF a] count_up_effect [OF _ a]
    by (cases "one_shot_scope (fst r)"; fastforce simp: one_shot_consume_def)+
next
  fix s :: "string counter_db" and r x s'
  assume a: "counters_ok s" and c: "one_shot_consume (fst r) (snd r) s = (Inr x, s')"
  then obtain k where k: "one_shot_scope (fst r) = Inr k" by (cases "one_shot_scope (fst r)") (auto simp: one_shot_consume_def)
  with one_shot_count_up [OF a k] c have "count_up k one_shot_limit cap_consumed (snd r) s = (Inr (), s')" by simp
  from count_up_effect(2) [OF this a] k show "\<exists>k. one_shot_slot r = Some k \<and> counter_used k s < one_shot_limit \<and> counter_used k s' = counter_used k s + 1"
    by (simp add: one_shot_slot_def)
qed

interpretation instrument: capped_counter "\<lambda>r. instrument_consume limit (fst r) (fst (snd r)) (snd (snd r))" instrument_slot counter_used limit counters_ok
  for limit
proof
  fix s :: instrument_db and r y s' k
  assume a: "counters_ok s" and c: "instrument_consume limit (fst r) (fst (snd r)) (snd (snd r)) s = (y, s')"
  from c have "counters_ok s' \<and> counter_used k s \<le> counter_used k s' \<and> (counter_used k s' \<le> counter_used k s \<or> counter_used k s' \<le> limit)"
  proof (cases rule: instrument_consume_cases)
    case invalid
    with a show ?thesis by simp
  next
    case counted
    then show ?thesis by (intro count_up_read_effect [OF _ _ a])
  qed
  then show "counters_ok s'" "counter_used k s \<le> counter_used k s' \<and> (counter_used k s' \<le> counter_used k s \<or> counter_used k s' \<le> limit)"
    by blast+
next
  fix s :: instrument_db and r x s'
  assume a: "counters_ok s" and c: "instrument_consume limit (fst r) (fst (snd r)) (snd (snd r)) s = (Inr x, s')"
  from c show "\<exists>k. instrument_slot r = Some k \<and> counter_used k s < limit \<and> counter_used k s' = counter_used k s + 1"
  proof (cases rule: instrument_consume_cases)
    case (counted sc i e z s1)
    have "count_up (sc, i, date_of (to_utc (snd (snd r)))) limit e (instant (snd (snd r))) s = (Inr (), s1)"
      using counted(2) counted(4) [OF refl] by simp
    from count_up_effect(2) [OF this a refl] counter_rows_cong [OF counted(3), of "(sc, i, date_of (to_utc (snd (snd r))))"] counted(1)
    show ?thesis by simp
  qed simp
qed

interpretation simulation: capped_counter "\<lambda>r. simulation_consume limit (fst r) (snd r)" simulation_slot counter_used limit counters_ok
  for limit
proof
  fix s :: simulation_db and r y s' k
  assume a: "counters_ok s" and c: "simulation_consume limit (fst r) (snd r) s = (y, s')"
  from c have "counters_ok s' \<and> counter_used k s \<le> counter_used k s' \<and> (counter_used k s' \<le> counter_used k s \<or> counter_used k s' \<le> limit)"
  proof (cases rule: simulation_consume_cases)
    case invalid
    with a show ?thesis by simp
  next
    case counted
    then show ?thesis by (intro count_up_read_effect [OF _ _ a])
  qed
  then show "counters_ok s'" "counter_used k s \<le> counter_used k s' \<and> (counter_used k s' \<le> counter_used k s \<or> counter_used k s' \<le> limit)"
    by blast+
next
  fix s :: simulation_db and r x s'
  assume a: "counters_ok s" and c: "simulation_consume limit (fst r) (snd r) s = (Inr x, s')"
  from c show "\<exists>k. simulation_slot r = Some k \<and> counter_used k s < limit \<and> counter_used k s' = counter_used k s + 1"
  proof (cases rule: simulation_consume_cases)
    case (counted k e z s1)
    have "count_up (k, date_of (to_utc (snd r))) limit e (instant (snd r)) s = (Inr (), s1)"
      using counted(3) counted(5) [OF refl] by simp
    from count_up_effect(2) [OF this a refl] counter_rows_cong [OF counted(4), of "(k, date_of (to_utc (snd r)))"] counted(1)
    show ?thesis by simp
  qed simp
qed

section \<open>Properties\<close>

definition no_counters :: "'k counter_db" where
  "no_counters = \<lparr>ctr_rows = [], ctr_outages = []\<rparr>"

lemma no_counters_ok: "counters_ok no_counters" "counter_used k no_counters = 0"
  by (simp_all add: counters_ok_def no_counters_def counter_used_def counter_of_def)

text \<open>The one-order lifetime cap holds for ever: over any sequence of consumption requests, by any number of
  processes, with the database failing at any points, at most one is granted per account scope, and
  none once the scope has been used.\<close>

theorem one_shot_grants_at_most_one:
  assumes "counters_ok s"
  shows "counter_used scp s + int (length (filter (\<lambda>k. k = scp)
      (granted_slots (\<lambda>r. one_shot_consume (fst r) (snd r)) one_shot_slot requests s))) \<le> max 1 (counter_used scp s)"
  using one_shot.granted_bounded [OF assms, of scp requests] by (simp add: one_shot_limit_def)

theorem one_shot_grants_at_most_one_witness:
  "int (length (filter (\<lambda>k. k = ''a'') (granted_slots (\<lambda>r. one_shot_consume (fst r) (snd r)) one_shot_slot
     [(PyStr ''a'', 0), (PyStr ''a'', 5), (PyStr ''b'', 7)] no_counters))) \<le> 1"
  using one_shot_grants_at_most_one [OF no_counters_ok(1), of "''a''" "[(PyStr ''a'', 0), (PyStr ''a'', 5), (PyStr ''b'', 7)]"]
  unfolding no_counters_ok(2) by simp

text \<open>The daily instrument cap: of all submissions requested for an account scope and instrument on one UTC day, at
  most the configured limit is granted.\<close>

theorem instrument_daily_cap:
  assumes "counters_ok s"
  shows "counter_used (scp, instrument, day) s + int (length (filter (\<lambda>k. k = (scp, instrument, day))
      (granted_slots (\<lambda>r. instrument_consume limit (fst r) (fst (snd r)) (snd (snd r))) instrument_slot requests s)))
    \<le> max limit (counter_used (scp, instrument, day) s)"
  using instrument.granted_bounded [OF assms] .

theorem instrument_daily_cap_witness:
  "int (length (filter (\<lambda>k. k = (''a'', ''GOLD'', 0)) (granted_slots
     (\<lambda>r. instrument_consume 20 (fst r) (fst (snd r)) (snd (snd r))) instrument_slot
     [(PyStr ''a'', PyStr ''gold'', Aware 5 0)] no_counters))) \<le> 20"
  using instrument_daily_cap [OF no_counters_ok(1), of "''a''" "''GOLD''" 0 20 "[(PyStr ''a'', PyStr ''gold'', Aware 5 0)]"]
  unfolding no_counters_ok(2) by simp

text \<open>The simulation daily cap: of all simulated submissions requested for a scope on one UTC day, at most the
  configured limit is granted.\<close>

theorem simulation_daily_cap:
  assumes "counters_ok s"
  shows "counter_used (scp, day) s + int (length (filter (\<lambda>k. k = (scp, day))
      (granted_slots (\<lambda>r. simulation_consume limit (fst r) (snd r)) simulation_slot requests s)))
    \<le> max limit (counter_used (scp, day) s)"
  using simulation.granted_bounded [OF assms] .

theorem simulation_daily_cap_witness:
  "int (length (filter (\<lambda>k. k = (''simulation:1'', 0)) (granted_slots
     (\<lambda>r. simulation_consume 3 (fst r) (snd r)) simulation_slot [(PyStr ''simulation:1'', Aware 5 0)] no_counters))) \<le> 3"
  using simulation_daily_cap [OF no_counters_ok(1), of "''simulation:1''" 0 3 "[(PyStr ''simulation:1'', Aware 5 0)]"]
  unfolding no_counters_ok(2) by simp

text \<open>The usage reported with a granted submission is accurate: it counts that submission, stays within the limit,
  and names the UTC midnight after the submission as the reset time.\<close>

theorem instrument_usage_reported:
  assumes "instrument_consume limit scp instrument clock s = (Inr u, s')" "counters_ok s"
  shows "du_count u = counter_used (du_scope u, du_instrument u, du_utc_date u) s + 1 \<and> du_count u \<le> limit
    \<and> instant (du_reset_at u) - microseconds_per_day \<le> instant clock \<and> instant clock < instant (du_reset_at u)"
proof -
  let ?d = "date_of (to_utc clock)"
  obtain sc ins where k: "instrument_key scp instrument = Inr (sc, ins)" and aw: "tz_aware clock"
    using assms(1) by (auto simp: instrument_consume_def guard_now_def split: sum.splits if_splits prod.splits)
  obtain z s1 where c: "count_up (sc, ins, ?d) limit (DailyInstrumentCapReached sc ins ?d limit) (instant clock) s = (z, s1)" by force
  have eq: "instrument_consume limit scp instrument clock s = (case (z, s1) of (Inl e, s) \<Rightarrow> (Inl e, s)
      | (Inr _, s) \<Rightarrow> instrument_usage limit (PyStr sc) (PyStr ins) (to_utc clock) s)"
    unfolding c [symmetric] count_up_def instrument_consume_def k rbind.simps guard_now_def Let_def instant_to_utc
    using aw by (simp cong: if_cong)
  have z: "z = Inr ()" using assms(1) unfolding eq by (auto split: sum.splits)
  note cu = count_up_effect(2) [OF c assms(2) z]
  have us: "instrument_usage limit (PyStr sc) (PyStr ins) (to_utc clock) s1 = (Inr u, s')"
    using assms(1) unfolding eq z by simp
  obtain s0 ins0 where n: "sc = py_strip s0" "ins = py_upper (py_strip ins0)" "nonblank s0" "nonblank ins0"
    using k by (auto simp: instrument_key_def split: option.splits if_splits)
  have u: "u = \<lparr>du_scope = du_scope u, du_instrument = du_instrument u, du_utc_date = ?d,
      du_count = counter_used (du_scope u, du_instrument u, ?d) s1, du_limit = limit, du_reset_at = utc_midnight (?d + 1)\<rparr>"
    using us by (auto simp: instrument_usage_def guard_now_def with_counters_def counter_used_def split: sum.splits prod.splits if_splits)
  have key: "instrument_key (PyStr sc) (PyStr ins) = Inr (sc, ins)"
    using n by (simp add: instrument_key_def py_strip_upper nonblank_upper)
  then have key': "du_scope u = sc" "du_instrument u = ins"
    using us aw by (auto simp: instrument_usage_def guard_now_def with_counters_def split: if_splits)
  have d: "instant (utc_midnight ?d) \<le> instant clock" "instant clock < instant (utc_midnight (?d + 1))"
    using date_of_bounds [of ?d "instant clock"] to_utc_aware [OF aw] by auto
  have f: "du_count u = counter_used (sc, ins, ?d) s1" "du_utc_date u = ?d" "du_reset_at u = utc_midnight (?d + 1)"
    using arg_cong [OF u, of du_count] arg_cong [OF u, of du_utc_date] arg_cong [OF u, of du_reset_at] key' by simp_all
  show ?thesis
    using f key' cu d by (auto simp: utc_midnight_def algebra_simps)
qed

theorem instrument_usage_reported_witness:
  "instrument_consume 20 (PyStr ''a'') (PyStr ''gold'') (Aware 5 0) no_counters
     = (Inr \<lparr>du_scope = ''a'', du_instrument = ''GOLD'', du_utc_date = 0, du_count = 1, du_limit = 20,
          du_reset_at = Aware 86400000000 0\<rparr>,
        \<lparr>ctr_rows = [\<lparr>ctr_key = (''a'', ''GOLD'', 0), ctr_count = 1, ctr_updated_at = 5\<rparr>], ctr_outages = []\<rparr>)
   \<and> (1 :: int) \<le> 20"
proof -
  have up: "py_upper ''gold'' = ''GOLD''" "py_upper ''GOLD'' = ''GOLD''" by code_simp+
  have st: "py_strip ''a'' = ''a''" "py_strip ''gold'' = ''gold''" "py_strip ''GOLD'' = ''GOLD''"
    by (simp_all add: py_strip_def py_isspace_def)
  have c: "instrument_consume 20 (PyStr ''a'') (PyStr ''gold'') (Aware 5 0) no_counters
     = (Inr \<lparr>du_scope = ''a'', du_instrument = ''GOLD'', du_utc_date = 0, du_count = 1, du_limit = 20,
          du_reset_at = Aware 86400000000 0\<rparr>,
        \<lparr>ctr_rows = [\<lparr>ctr_key = (''a'', ''GOLD'', 0), ctr_count = 1, ctr_updated_at = 5\<rparr>], ctr_outages = []\<rparr>)"
    by (simp add: instrument_consume_def instrument_usage_def instrument_key_def nonblank_def up st guard_now_def
        with_counters_def no_counters_def counter_of_def set_counter_def microseconds_per_day_def utc_midnight_def Let_def)
  from instrument_usage_reported [OF c no_counters_ok(1)] c show ?thesis by simp
qed

end
