(* ===== verification/Position_Ledger.thy ===== *)
theory Position_Ledger
  imports Broker_Types Histories "HOL-Library.List_Lexorder" "HOL-Library.Product_Lexorder"
begin

text \<open>
  \<open>SQLitePositionLedger\<close> of \<open>execution/persistence.py\<close>: the durable identities of the positions that were
  opened, with their close facts and the notification claims. A row is a \<open>PositionLedgerEntry\<close>; its
  primary key is the pair of broker and position identifier. Timestamps are stored as ISO texts of
  UTC instants and are the instants here (their textual order is the order of the instants).

  Three notifications (opened, closed, close unconfirmed) are each claimed before they are
  delivered. They share one contract, the locale \<open>once_claim\<close>: however the ledger is used, a claim
  succeeds at most once per position.
\<close>

section \<open>Rows\<close>

record ledger_entry =
  le_broker :: string
  le_symbol :: string
  le_position_id :: string
  le_order_id :: string
  le_opened_at :: int
  le_closed_at :: "int option"
  le_close_price :: "pyfloat option"
  le_realized_pnl :: "pyfloat option"
  le_currency :: "string option"
  le_reconciliation_state :: "string option"
  le_side :: "string option"
  le_volume :: "pyfloat option"
  le_entry_price :: "pyfloat option"
  le_stop_loss :: "pyfloat option"
  le_notification_claimed_at :: "int option"
  le_remaining_volume :: "pyfloat option"
  le_close_reason :: "string option"
  le_close_notification_claimed_at :: "int option"
  le_close_unconfirmed_notification_claimed_at :: "int option"
  le_expected_lifetime_at :: "int option"
  le_timeframe :: "string option"

record ledger_db =
  ldb_rows :: "ledger_entry list"
  ldb_outages :: "bool list"

type_synonym 'a ledger_op = "ledger_db \<Rightarrow> 'a result \<times> ledger_db"

definition le_key :: "ledger_entry \<Rightarrow> string \<times> string" where
  "le_key e = (le_broker e, le_position_id e)"

text \<open>\<open>with self._connect() as connection\<close>: opening may fail; the body is one transaction, rolled back when
  it raises.\<close>

definition with_ledger :: "ledger_db \<Rightarrow> (ledger_entry list \<Rightarrow> 'a result \<times> ledger_entry list) \<Rightarrow> 'a result \<times> ledger_db" where
  "with_ledger s body =
     (if ldb_outages s \<noteq> [] \<and> hd (ldb_outages s)
      then (Inl (DatabaseError ''unable to open database file''), s\<lparr>ldb_outages := tl (ldb_outages s)\<rparr>)
      else case body (ldb_rows s) of (r, rows) \<Rightarrow> (r, \<lparr>ldb_rows = rows, ldb_outages = tl (ldb_outages s)\<rparr>))"

definition required_text :: "string \<Rightarrow> string \<Rightarrow> string result" where
  "required_text name v = (if \<not> nonblank v then Inl (ValueError (name @ '' must be a nonblank string'')) else Inr (py_strip v))"

section \<open>Operations\<close>

definition blank_entry :: "string \<Rightarrow> string \<Rightarrow> string \<Rightarrow> string \<Rightarrow> int \<Rightarrow> ledger_entry" where
  "blank_entry broker symb position_id order_id opened =
     \<lparr>le_broker = broker, le_symbol = symb, le_position_id = position_id, le_order_id = order_id, le_opened_at = opened,
      le_closed_at = None, le_close_price = None, le_realized_pnl = None, le_currency = None,
      le_reconciliation_state = None, le_side = None, le_volume = None, le_entry_price = None, le_stop_loss = None,
      le_notification_claimed_at = None, le_remaining_volume = None, le_close_reason = None,
      le_close_notification_claimed_at = None, le_close_unconfirmed_notification_claimed_at = None,
      le_expected_lifetime_at = None, le_timeframe = None\<rparr>"

definition record_open :: "string \<Rightarrow> string \<Rightarrow> string \<Rightarrow> string \<Rightarrow> pydatetime \<Rightarrow> unit ledger_op" where
  "record_open broker symb position_id order_id opened_at s =
     (if \<not> tz_aware opened_at then (Inl (ValueError ''opened_at must be timezone-aware''), s)
      else case rbind (required_text ''broker'' broker) (\<lambda>b. rbind (required_text ''symbol'' symb) (\<lambda>y.
             rbind (required_text ''position_id'' position_id) (\<lambda>p. rbind (required_text ''order_id'' order_id) (\<lambda>ord.
             Inr (blank_entry b y p ord (instant opened_at)))))) of
        Inl e \<Rightarrow> (Inl e, s)
      | Inr new \<Rightarrow> with_ledger s (\<lambda>rows.
          (Inr (), case sel le_key (le_key new) rows of
             None \<Rightarrow> rows @ [new]
           | Some _ \<Rightarrow> upd_where (\<lambda>r. le_key r = le_key new)
               (\<lambda>r. r\<lparr>le_symbol := le_symbol new, le_order_id := le_order_id new, le_opened_at := le_opened_at new,
                      le_closed_at := None\<rparr>) rows)))"

text \<open>The columns a repeated fill is compared with.\<close>

definition fill_facts ::
  "ledger_entry \<Rightarrow> string \<times> string \<times> string option \<times> pyfloat option \<times> pyfloat option \<times> pyfloat option" where
  "fill_facts e = (le_symbol e, le_order_id e, le_side e, le_volume e, le_entry_price e, le_stop_loss e)"

definition checked_fill ::
  "string \<Rightarrow> string \<Rightarrow> string \<Rightarrow> string \<Rightarrow> order_side \<Rightarrow> pyfloat \<Rightarrow> pyfloat \<Rightarrow> pyfloat \<Rightarrow> pydatetime
   \<Rightarrow> pydatetime option \<Rightarrow> string option \<Rightarrow> ledger_entry result" where
  "checked_fill broker symb position_id order_id side volume entry_price stop_loss opened_at expected timeframe =
     (if \<not> tz_aware opened_at then Inl (ValueError ''opened_at must be timezone-aware'')
      else if \<not> (positive_finite volume \<and> positive_finite entry_price \<and> positive_finite stop_loss)
      then Inl (ValueError ''fill quantity, entry, and stop must be positive and finite'')
      else if side = BUY \<and> \<not> stop_loss < entry_price then Inl (ValueError ''BUY fill must retain a protective stop'')
      else if side = SELL \<and> \<not> entry_price < stop_loss then Inl (ValueError ''SELL fill must retain a protective stop'')
      else rbind (required_text ''broker'' broker) (\<lambda>b. rbind (required_text ''symbol'' symb) (\<lambda>y.
           rbind (required_text ''position_id'' position_id) (\<lambda>p. rbind (required_text ''order_id'' order_id) (\<lambda>ord.
           Inr ((blank_entry b y p ord (instant opened_at))
             \<lparr>le_side := Some (side_value side), le_volume := Some volume, le_entry_price := Some entry_price,
              le_stop_loss := Some stop_loss, le_remaining_volume := Some volume,
              le_expected_lifetime_at := map_option instant expected, le_timeframe := timeframe\<rparr>))))))"

definition record_confirmed_fill_once ::
  "string \<Rightarrow> string \<Rightarrow> string \<Rightarrow> string \<Rightarrow> order_side \<Rightarrow> pyfloat \<Rightarrow> pyfloat \<Rightarrow> pyfloat \<Rightarrow> pydatetime
   \<Rightarrow> pydatetime option \<Rightarrow> string option \<Rightarrow> bool ledger_op" where
  "record_confirmed_fill_once broker symb position_id order_id side volume entry_price stop_loss opened_at expected timeframe s =
     (case checked_fill broker symb position_id order_id side volume entry_price stop_loss opened_at expected timeframe of
        Inl e \<Rightarrow> (Inl e, s)
      | Inr new \<Rightarrow> with_ledger s (\<lambda>rows. case sel le_key (le_key new) rows of
            None \<Rightarrow> (Inr True, rows @ [new])
          | Some row \<Rightarrow> if fill_facts row \<noteq> fill_facts new
              then (Inl (ValueError ''Existing position ledger evidence conflicts with the confirmed fill''), rows)
              else (Inr False, rows)))"

text \<open>\<open>UPDATE ... WHERE broker=? AND position_id=? AND p\<close>, and whether one row changed.\<close>

definition update_one :: "string \<Rightarrow> string \<Rightarrow> (ledger_entry \<Rightarrow> bool) \<Rightarrow> (ledger_entry \<Rightarrow> ledger_entry) \<Rightarrow> bool ledger_op" where
  "update_one broker position_id p f s = with_ledger s (\<lambda>rows.
     let hit = (\<lambda>r. le_key r = (broker, position_id) \<and> p r) in (Inr (rowcount hit rows = 1), upd_where hit f rows))"

definition claim_open_notification_once :: "string \<Rightarrow> string \<Rightarrow> int \<Rightarrow> bool ledger_op" where
  "claim_open_notification_once broker position_id now =
     update_one broker position_id (\<lambda>r. le_notification_claimed_at r = None) (\<lambda>r. r\<lparr>le_notification_claimed_at := Some now\<rparr>)"

definition mark_closed ::
  "string \<Rightarrow> string \<Rightarrow> pydatetime \<Rightarrow> pyfloat option \<Rightarrow> pyfloat option \<Rightarrow> string option \<Rightarrow> string option \<Rightarrow> string option
   \<Rightarrow> bool ledger_op" where
  "mark_closed broker position_id closed_at close_price realized_pnl currency state reason s =
     (if \<not> tz_aware closed_at then (Inl (ValueError ''closed_at must be timezone-aware''), s)
      else with_ledger s (\<lambda>rows.
        case rbind (required_text ''broker'' broker) (\<lambda>b. rbind (required_text ''position_id'' position_id) (\<lambda>p. Inr (b, p))) of
          Inl e \<Rightarrow> (Inl e, rows)
        | Inr key \<Rightarrow>
            let hit = (\<lambda>r. le_key r = key \<and> le_closed_at r = None) in
            (Inr (rowcount hit rows = 1), upd_where hit
               (\<lambda>r. r\<lparr>le_closed_at := Some (instant closed_at), le_close_price := sql_real close_price,
                      le_realized_pnl := sql_real realized_pnl, le_currency := currency,
                      le_reconciliation_state := state, le_close_reason := reason,
                      le_remaining_volume := Some (Fin 0)\<rparr>) rows)))"

definition mark_partial_close :: "string \<Rightarrow> string \<Rightarrow> pyfloat \<Rightarrow> pyfloat \<Rightarrow> bool ledger_op" where
  "mark_partial_close broker position_id remaining pnl s =
     (if \<not> (positive_finite remaining \<and> is_finite pnl) then (Inl (ValueError ''Partial close requires a remaining position''), s)
      else update_one broker position_id
        (\<lambda>r. le_closed_at r = None \<and> (le_remaining_volume r \<noteq> Some remaining \<or> le_realized_pnl r \<noteq> Some pnl))
        (\<lambda>r. r\<lparr>le_remaining_volume := Some remaining, le_realized_pnl := Some pnl,
               le_reconciliation_state := Some ''PARTIAL_CLOSE_CONFIRMED''\<rparr>) s)"

definition mark_close_unconfirmed :: "string \<Rightarrow> string \<Rightarrow> bool ledger_op" where
  "mark_close_unconfirmed broker position_id =
     update_one broker position_id
       (\<lambda>r. le_closed_at r = None \<and> le_reconciliation_state r \<noteq> Some ''CLOSE_UNCONFIRMED'')
       (\<lambda>r. r\<lparr>le_reconciliation_state := Some ''CLOSE_UNCONFIRMED''\<rparr>)"

definition claim_close_notification_once :: "string \<Rightarrow> string \<Rightarrow> int \<Rightarrow> bool ledger_op" where
  "claim_close_notification_once broker position_id now =
     update_one broker position_id
       (\<lambda>r. le_closed_at r \<noteq> None \<and> le_close_notification_claimed_at r = None)
       (\<lambda>r. r\<lparr>le_close_notification_claimed_at := Some now\<rparr>)"

definition claim_close_unconfirmed_notification_once :: "string \<Rightarrow> string \<Rightarrow> int \<Rightarrow> bool ledger_op" where
  "claim_close_unconfirmed_notification_once broker position_id now =
     update_one broker position_id
       (\<lambda>r. le_reconciliation_state r = Some ''CLOSE_UNCONFIRMED'' \<and> le_close_unconfirmed_notification_claimed_at r = None)
       (\<lambda>r. r\<lparr>le_close_unconfirmed_notification_claimed_at := Some now\<rparr>)"

definition opening_order :: "ledger_entry list \<Rightarrow> ledger_entry list" where
  "opening_order rows = sort_key (\<lambda>r. (le_opened_at r, le_position_id r)) rows"

definition ledger_entries :: "ledger_entry list ledger_op" where
  "ledger_entries s = with_ledger s (\<lambda>rows. (Inr (opening_order rows), rows))"

definition pending_close_notifications :: "string \<Rightarrow> ledger_entry list ledger_op" where
  "pending_close_notifications broker s = (case ledger_entries s of
      (Inl e, s) \<Rightarrow> (Inl e, s)
    | (Inr rows, s) \<Rightarrow> (Inr (filter (\<lambda>r. le_broker r = broker \<and> le_closed_at r \<noteq> None
          \<and> le_reconciliation_state r = Some ''CLOSE_CONFIRMED'' \<and> le_close_notification_claimed_at r = None) rows), s))"

definition open_entries :: "string \<Rightarrow> ledger_entry list ledger_op" where
  "open_entries broker s = with_ledger s (\<lambda>rows.
     (rbind (required_text ''broker'' broker) (\<lambda>b.
        Inr (opening_order (filter (\<lambda>r. le_broker r = b \<and> le_closed_at r = None) rows))), rows))"

section \<open>Histories of the ledger\<close>

datatype ledger_event =
    OpenedEv "string \<times> string"
  | OpenNoticeEv "string \<times> string" bool
  | CloseNoticeEv "string \<times> string" bool
  | UnconfirmedNoticeEv "string \<times> string" bool
  | OtherLedgerEv

inductive ledger_step :: "ledger_db \<Rightarrow> ledger_event \<Rightarrow> ledger_db \<Rightarrow> bool" where
  opened: "record_open broker symb pid oid at_time s = (r, s') \<Longrightarrow> ledger_step s (OpenedEv (py_strip broker, py_strip pid)) s'"
| filled: "record_confirmed_fill_once broker symb pid oid side v e sl at_time ex tf s = (r, s') \<Longrightarrow> ledger_step s OtherLedgerEv s'"
| open_notice: "claim_open_notification_once broker pid now s = (r, s') \<Longrightarrow>
     ledger_step s (OpenNoticeEv (broker, pid) (r = Inr True)) s'"
| closed: "mark_closed broker pid at_time cp pnl cur st reason s = (r, s') \<Longrightarrow> ledger_step s OtherLedgerEv s'"
| partial: "mark_partial_close broker pid rem pnl s = (r, s') \<Longrightarrow> ledger_step s OtherLedgerEv s'"
| unconfirmed: "mark_close_unconfirmed broker pid s = (r, s') \<Longrightarrow> ledger_step s OtherLedgerEv s'"
| close_notice: "claim_close_notification_once broker pid now s = (r, s') \<Longrightarrow>
     ledger_step s (CloseNoticeEv (broker, pid) (r = Inr True)) s'"
| unconfirmed_notice: "claim_close_unconfirmed_notification_once broker pid now s = (r, s') \<Longrightarrow>
     ledger_step s (UnconfirmedNoticeEv (broker, pid) (r = Inr True)) s'"
| listed: "ledger_entries s = (rs, s') \<Longrightarrow> ledger_step s OtherLedgerEv s'"
| pending: "pending_close_notifications broker s = (rs, s') \<Longrightarrow> ledger_step s OtherLedgerEv s'"
| listed_open: "open_entries broker s = (rs, s') \<Longrightarrow> ledger_step s OtherLedgerEv s'"

abbreviation entry_of :: "string \<times> string \<Rightarrow> ledger_db \<Rightarrow> ledger_entry option" where
  "entry_of k s \<equiv> sel le_key k (ldb_rows s)"

text \<open>What no operation undoes: the row, its key and its notification claims. What only a reopening
  changes: the fill facts, and the close facts once the position is closed.\<close>

definition keeps_claims :: "ledger_entry \<Rightarrow> ledger_entry \<Rightarrow> bool" where
  "keeps_claims e e' \<longleftrightarrow> le_key e' = le_key e
     \<and> (le_notification_claimed_at e \<noteq> None \<longrightarrow> le_notification_claimed_at e' = le_notification_claimed_at e)
     \<and> (le_close_notification_claimed_at e \<noteq> None \<longrightarrow> le_close_notification_claimed_at e' = le_close_notification_claimed_at e)
     \<and> (le_close_unconfirmed_notification_claimed_at e \<noteq> None \<longrightarrow>
          le_close_unconfirmed_notification_claimed_at e' = le_close_unconfirmed_notification_claimed_at e)"

definition close_facts :: "ledger_entry \<Rightarrow> int option \<times> pyfloat option \<times> pyfloat option \<times> string option \<times> string option \<times> pyfloat option" where
  "close_facts e = (le_closed_at e, le_close_price e, le_realized_pnl e, le_reconciliation_state e, le_close_reason e, le_remaining_volume e)"

definition keeps_facts :: "ledger_entry \<Rightarrow> ledger_entry \<Rightarrow> bool" where
  "keeps_facts e e' \<longleftrightarrow> fill_facts e' = fill_facts e \<and> (le_closed_at e \<noteq> None \<longrightarrow> close_facts e' = close_facts e)"

lemma with_ledger_rows:
  "with_ledger s body = (r, s') \<Longrightarrow> ldb_rows s' = ldb_rows s \<or> (r, ldb_rows s') = body (ldb_rows s)"
  by (auto simp: with_ledger_def split: if_splits prod.splits)

lemma update_one_rows:
  assumes "update_one b p c f s = (r, s')"
  shows "ldb_rows s' = ldb_rows s \<and> r \<noteq> Inr True \<or>
    ldb_rows s' = upd_where (\<lambda>x. le_key x = (b, p) \<and> c x) f (ldb_rows s)
      \<and> r = Inr (rowcount (\<lambda>x. le_key x = (b, p) \<and> c x) (ldb_rows s) = 1)"
  using assms by (auto simp: update_one_def with_ledger_def Let_def split: if_splits)

text \<open>The ways in which an operation changes the table.\<close>

definition ledger_change :: "ledger_event \<Rightarrow> ledger_db \<Rightarrow> ledger_db \<Rightarrow> bool" where
  "ledger_change ev s s' \<longleftrightarrow> ldb_rows s' = ldb_rows s
     \<or> (\<exists>row. ldb_rows s' = ldb_rows s @ [row] \<and> sel le_key (le_key row) (ldb_rows s) = None)
     \<or> (\<exists>hit f. ldb_rows s' = upd_where hit f (ldb_rows s) \<and> (\<forall>r. le_key (f r) = le_key r)
          \<and> (\<forall>r. hit r \<longrightarrow> keeps_claims r (f r) \<and> (ev \<noteq> OpenedEv (le_key r) \<longrightarrow> keeps_facts r (f r))))"

lemmas ledger_facts = keeps_claims_def keeps_facts_def le_key_def fill_facts_def close_facts_def

lemma ledger_change_update:
  assumes "ldb_rows s' = upd_where hit f (ldb_rows s)" "\<And>r. le_key (f r) = le_key r"
    and "\<And>r. hit r \<Longrightarrow> keeps_claims r (f r)" "\<And>r. hit r \<Longrightarrow> ev \<noteq> OpenedEv (le_key r) \<Longrightarrow> keeps_facts r (f r)"
  shows "ledger_change ev s s'"
  using assms unfolding ledger_change_def by blast

lemma ledger_change_same: "ldb_rows s' = ldb_rows s \<Longrightarrow> ledger_change ev s s'"
  by (simp add: ledger_change_def)

lemma ledger_change_update_one:
  assumes "update_one b p c f s = (r, s')" "\<And>r. le_key (f r) = le_key r"
    and "\<And>r. c r \<Longrightarrow> keeps_claims r (f r)" "\<And>r. c r \<Longrightarrow> keeps_facts r (f r)"
  shows "ledger_change ev s s'"
  using update_one_rows [OF assms(1)]
proof (elim disjE conjE)
  assume "ldb_rows s' = upd_where (\<lambda>x. le_key x = (b, p) \<and> c x) f (ldb_rows s)"
  then show ?thesis by (rule ledger_change_update) (use assms in auto)
qed (rule ledger_change_same)

lemma record_open_change:
  assumes "record_open broker symb pid oid at_time s = (r, s')"
  shows "ledger_change (OpenedEv (py_strip broker, py_strip pid)) s s'"
proof -
  let ?new = "blank_entry (py_strip broker) (py_strip symb) (py_strip pid) (py_strip oid) (instant at_time)"
  let ?f = "\<lambda>r. r\<lparr>le_symbol := le_symbol ?new, le_order_id := le_order_id ?new, le_opened_at := le_opened_at ?new, le_closed_at := None\<rparr>"
  have k: "le_key ?new = (py_strip broker, py_strip pid)" by (simp add: le_key_def blank_entry_def)
  consider "ldb_rows s' = ldb_rows s" | "ldb_rows s' = ldb_rows s @ [?new]" "sel le_key (le_key ?new) (ldb_rows s) = None"
    | "ldb_rows s' = upd_where (\<lambda>r. le_key r = le_key ?new) ?f (ldb_rows s)"
    using assms by (auto simp: record_open_def required_text_def with_ledger_def split: if_splits option.splits)
  then show ?thesis
  proof cases
    case 3
    then show ?thesis by (rule ledger_change_update) (use k in \<open>auto simp: ledger_facts\<close>)
  qed (auto simp: ledger_change_def)
qed

lemma fill_change:
  "record_confirmed_fill_once broker symb pid oid side v e sl at_time ex tf s = (r, s') \<Longrightarrow> ledger_change ev s s'"
  by (auto simp: record_confirmed_fill_once_def with_ledger_def ledger_change_def
      split: sum.splits if_splits option.splits)

lemma mark_closed_change:
  assumes "mark_closed broker pid at_time cp pnl cur st reason s = (r, s')"
  shows "ledger_change ev s s'"
proof -
  let ?f = "\<lambda>r. r\<lparr>le_closed_at := Some (instant at_time), le_close_price := sql_real cp,
                      le_realized_pnl := sql_real pnl, le_currency := cur,
                      le_reconciliation_state := st, le_close_reason := reason,
                      le_remaining_volume := Some (Fin 0)\<rparr>"
  consider "ldb_rows s' = ldb_rows s" | key where "ldb_rows s' = upd_where (\<lambda>r. le_key r = key \<and> le_closed_at r = None) ?f (ldb_rows s)"
    using assms by (auto simp: mark_closed_def with_ledger_def Let_def split: sum.splits if_splits)
  then show ?thesis
  proof cases
    case 2
    then show ?thesis by (rule ledger_change_update) (auto simp: ledger_facts)
  qed (rule ledger_change_same)
qed

lemma ledger_query_same:
  "ledger_entries s = (rs, s') \<Longrightarrow> ldb_rows s' = ldb_rows s"
  "pending_close_notifications broker s = (rs, s') \<Longrightarrow> ldb_rows s' = ldb_rows s"
  "open_entries broker s = (rs, s') \<Longrightarrow> ldb_rows s' = ldb_rows s"
  by (auto simp: ledger_entries_def pending_close_notifications_def open_entries_def with_ledger_def
      split: if_splits sum.splits prod.splits)

lemma ledger_step_change: "ledger_step s ev s' \<Longrightarrow> ledger_change ev s s'"
proof (induction rule: ledger_step.induct)
  case (partial broker pid rem pnl s r s')
  show ?case
  proof (cases "positive_finite rem \<and> is_finite pnl")
    case True
    with partial have "update_one broker pid
        (\<lambda>r. le_closed_at r = None \<and> (le_remaining_volume r \<noteq> Some rem \<or> le_realized_pnl r \<noteq> Some pnl))
        (\<lambda>r. r\<lparr>le_remaining_volume := Some rem, le_realized_pnl := Some pnl,
               le_reconciliation_state := Some ''PARTIAL_CLOSE_CONFIRMED''\<rparr>) s = (r, s')"
      by (simp add: mark_partial_close_def)
    then show ?thesis by (rule ledger_change_update_one) (auto simp: ledger_facts)
  next
    case False
    with partial have "s' = s" by (auto simp: mark_partial_close_def)
    then show ?thesis by (simp add: ledger_change_same)
  qed
next
  case (open_notice broker pid now s r s')
  then show ?case
    unfolding claim_open_notification_once_def by (rule ledger_change_update_one) (auto simp: ledger_facts)
next
  case (unconfirmed broker pid s r s')
  then show ?case
    unfolding mark_close_unconfirmed_def by (rule ledger_change_update_one) (auto simp: ledger_facts)
next
  case (close_notice broker pid now s r s')
  then show ?case
    unfolding claim_close_notification_once_def by (rule ledger_change_update_one) (auto simp: ledger_facts)
next
  case (unconfirmed_notice broker pid now s r s')
  then show ?case
    unfolding claim_close_unconfirmed_notification_once_def by (rule ledger_change_update_one) (auto simp: ledger_facts)
qed (auto intro: record_open_change fill_change mark_closed_change ledger_change_same dest: ledger_query_same)

lemma ledger_change_entry:
  assumes "ledger_change ev s s'" "entry_of k s = Some e"
  shows "\<exists>e'. entry_of k s' = Some e' \<and> keeps_claims e e' \<and> (ev \<noteq> OpenedEv k \<longrightarrow> keeps_facts e e')"
proof -
  have k: "le_key e = k" using sel_SomeD [OF assms(2)] by simp
  have refl: "keeps_claims e e \<and> keeps_facts e e" by (simp add: keeps_claims_def keeps_facts_def)
  from assms show ?thesis
    unfolding ledger_change_def
    by (elim disjE exE conjE) (use k refl in \<open>auto simp: sel_append sel_upd_where\<close>)
qed

section \<open>Claims succeed once\<close>

text \<open>A successful conditional update found exactly one row that satisfies its condition.\<close>

lemma update_one_True:
  assumes "update_one b p c f s = (Inr True, s')" "\<And>r. le_key (f r) = le_key r"
  shows "\<exists>e. e \<in> set (ldb_rows s) \<and> le_key e = (b, p) \<and> c e
    \<and> ldb_rows s' = upd_where (\<lambda>x. le_key x = (b, p) \<and> c x) f (ldb_rows s)"
proof -
  from update_one_rows [OF assms(1)] have r: "ldb_rows s' = upd_where (\<lambda>x. le_key x = (b, p) \<and> c x) f (ldb_rows s)"
    "rowcount (\<lambda>x. le_key x = (b, p) \<and> c x) (ldb_rows s) = 1" by auto
  then have "0 < rowcount (\<lambda>x. le_key x = (b, p) \<and> c x) (ldb_rows s)" by simp
  with r(1) show ?thesis unfolding rowcount_pos_iff by blast
qed

definition ledger_wf :: "ledger_db \<Rightarrow> bool" where
  "ledger_wf s \<longleftrightarrow> key_unique le_key (ldb_rows s)"

lemma ledger_step_wf:
  assumes "ledger_step s ev s'" "ledger_wf s"
  shows "ledger_wf s'"
  using ledger_step_change [OF assms(1)] assms(2) unfolding ledger_change_def ledger_wf_def
  by (elim disjE exE conjE) (auto simp: key_unique_snoc key_unique_upd_where)

definition marked :: "(ledger_entry \<Rightarrow> int option) \<Rightarrow> string \<times> string \<Rightarrow> ledger_db \<Rightarrow> bool" where
  "marked flag k s \<longleftrightarrow> (\<exists>e. entry_of k s = Some e \<and> flag e \<noteq> None)"

lemma update_one_marks:
  assumes "update_one b p c f s = (Inr True, s')" "\<And>r. le_key (f r) = le_key r" "ledger_wf s"
    and "\<And>r. c r \<Longrightarrow> flag r = None" "\<And>r. flag (f r) \<noteq> None"
  shows "\<not> marked flag (b, p) s \<and> marked flag (b, p) s'"
proof -
  obtain e where e: "e \<in> set (ldb_rows s)" "le_key e = (b, p)" "c e"
    "ldb_rows s' = upd_where (\<lambda>x. le_key x = (b, p) \<and> c x) f (ldb_rows s)"
    using update_one_True [OF assms(1,2)] by blast
  have "entry_of (b, p) s = Some e" using assms(3) e(1,2) by (simp add: sel_eq_Some_iff ledger_wf_def)
  then show ?thesis using e(2-4) assms(2,4,5) by (auto simp: marked_def sel_upd_where)
qed

text \<open>The step relation of well-formed ledgers.\<close>

definition wf_step :: "ledger_db \<Rightarrow> ledger_event \<Rightarrow> ledger_db \<Rightarrow> bool" where
  "wf_step s ev s' \<longleftrightarrow> ledger_wf s \<and> ledger_step s ev s'"

lemma wf_run: "run ledger_step s evs t \<Longrightarrow> ledger_wf s \<Longrightarrow> run wf_step s evs t \<and> ledger_wf t"
proof (induction rule: run.induct)
  case (run_cons s ev t evs u)
  have "ledger_wf t" using ledger_step_wf [OF run_cons.hyps(1) run_cons.prems] .
  then have t: "run wf_step t evs u" "ledger_wf u" using run_cons.IH by blast+
  have "wf_step s ev t" using run_cons.hyps(1) run_cons.prems by (simp add: wf_step_def)
  with t show ?case by (blast intro: run.intros)
qed (auto intro: run.intros)

lemma marked_stays:
  assumes "ledger_step s ev s'" "marked flag k s"
    and "flag \<in> {le_notification_claimed_at, le_close_notification_claimed_at, le_close_unconfirmed_notification_claimed_at}"
  shows "marked flag k s'"
  using ledger_change_entry [OF ledger_step_change [OF assms(1)]] assms(2,3)
  by (fastforce simp: marked_def keeps_claims_def)

interpretation open_notice: once_only wf_step "\<lambda>ev. ev = OpenNoticeEv k True" "marked le_notification_claimed_at k" for k
proof
  fix s ev t assume st: "wf_step s ev t"
  show "marked le_notification_claimed_at k s \<Longrightarrow> marked le_notification_claimed_at k t"
    using st by (intro marked_stays [of s ev t]) (simp_all add: wf_step_def)
  assume "ev = OpenNoticeEv k True"
  with st obtain now r where "claim_open_notification_once (fst k) (snd k) now s = (r, t)" "r = Inr True" "ledger_wf s"
    by (auto simp: wf_step_def elim: ledger_step.cases)
  then show "\<not> marked le_notification_claimed_at k s \<and> marked le_notification_claimed_at k t"
    using update_one_marks [of "fst k" "snd k" _ _ s t le_notification_claimed_at]
    by (simp add: claim_open_notification_once_def le_key_def)
qed

interpretation close_notice: once_only wf_step "\<lambda>ev. ev = CloseNoticeEv k True" "marked le_close_notification_claimed_at k" for k
proof
  fix s ev t assume st: "wf_step s ev t"
  show "marked le_close_notification_claimed_at k s \<Longrightarrow> marked le_close_notification_claimed_at k t"
    using st by (intro marked_stays [of s ev t]) (simp_all add: wf_step_def)
  assume "ev = CloseNoticeEv k True"
  with st obtain now r where "claim_close_notification_once (fst k) (snd k) now s = (r, t)" "r = Inr True" "ledger_wf s"
    by (auto simp: wf_step_def elim: ledger_step.cases)
  then show "\<not> marked le_close_notification_claimed_at k s \<and> marked le_close_notification_claimed_at k t"
    using update_one_marks [of "fst k" "snd k" _ _ s t le_close_notification_claimed_at]
    by (simp add: claim_close_notification_once_def le_key_def)
qed

interpretation unconfirmed_notice: once_only wf_step "\<lambda>ev. ev = UnconfirmedNoticeEv k True"
  "marked le_close_unconfirmed_notification_claimed_at k" for k
proof
  fix s ev t assume st: "wf_step s ev t"
  show "marked le_close_unconfirmed_notification_claimed_at k s \<Longrightarrow> marked le_close_unconfirmed_notification_claimed_at k t"
    using st by (intro marked_stays [of s ev t]) (simp_all add: wf_step_def)
  assume "ev = UnconfirmedNoticeEv k True"
  with st obtain now r where "claim_close_unconfirmed_notification_once (fst k) (snd k) now s = (r, t)" "r = Inr True" "ledger_wf s"
    by (auto simp: wf_step_def elim: ledger_step.cases)
  then show "\<not> marked le_close_unconfirmed_notification_claimed_at k s \<and> marked le_close_unconfirmed_notification_claimed_at k t"
    using update_one_marks [of "fst k" "snd k" _ _ s t le_close_unconfirmed_notification_claimed_at]
    by (simp add: claim_close_unconfirmed_notification_once_def le_key_def)
qed

section \<open>Properties\<close>

text \<open>C32. Each notification about a position is delivered at most once: over every history of ledger operations, by
  any number of processes and across restarts, each of the three claims (opened, closed, close
  unconfirmed) succeeds at most once per position.\<close>

theorem notifications_claimed_once:
  assumes "run ledger_step s evs t" "ledger_wf s"
    and "kind \<in> {OpenNoticeEv k True, CloseNoticeEv k True, UnconfirmedNoticeEv k True}"
  shows "length (filter (\<lambda>ev. ev = kind) evs) \<le> 1"
  using wf_run [OF assms(1,2)] assms(3) open_notice.granted_once close_notice.granted_once unconfirmed_notice.granted_once
  by blast


text \<open>A confirmed fill is recorded with a protective stop: when the ledger records a new fill, the row is listed
  among the open entries of its broker with exactly the observed facts, and its stop is on the losing
  side of the entry price.\<close>

theorem confirmed_fill_listed:
  assumes "record_confirmed_fill_once broker symb pid oid side volume entry stop opened expected timeframe s = (Inr True, s')"
    and "open_entries broker (s'\<lparr>ldb_outages := []\<rparr>) = (Inr found, s2)"
  shows "\<exists>e \<in> set found. le_position_id e = py_strip pid \<and> le_order_id e = py_strip oid \<and> le_symbol e = py_strip symb
    \<and> le_side e = Some (side_value side) \<and> le_volume e = Some volume \<and> le_entry_price e = Some entry \<and> le_stop_loss e = Some stop
    \<and> (if side = BUY then stop < entry else entry < stop)"
proof -
  obtain new where new: "checked_fill broker symb pid oid side volume entry stop opened expected timeframe = Inr new"
    "ldb_rows s' = ldb_rows s @ [new]"
    using assms(1) by (auto simp: record_confirmed_fill_once_def with_ledger_def split: sum.splits if_splits option.splits)
  have facts: "le_position_id new = py_strip pid \<and> le_order_id new = py_strip oid \<and> le_symbol new = py_strip symb
    \<and> le_side new = Some (side_value side) \<and> le_volume new = Some volume \<and> le_entry_price new = Some entry \<and> le_stop_loss new = Some stop
    \<and> (if side = BUY then stop < entry else entry < stop) \<and> le_broker new = py_strip broker \<and> le_closed_at new = None
    \<and> required_text ''broker'' broker = Inr (py_strip broker)"
    using new(1) by (cases side) (auto simp: checked_fill_def required_text_def blank_entry_def split: if_splits)
  have "new \<in> set found"
    using assms(2) facts new(2) by (auto simp: open_entries_def with_ledger_def opening_order_def)
  with facts show ?thesis by blast
qed

definition empty_ledger :: ledger_db where
  "empty_ledger = \<lparr>ldb_rows = [], ldb_outages = []\<rparr>"

definition sample_entry :: ledger_entry where
  "sample_entry = (blank_entry ''weltrade_demo'' ''GOLD'' ''p1'' ''o1'' 5)
     \<lparr>le_side := Some ''BUY'', le_volume := Some (Fin 2), le_entry_price := Some (Fin 100),
      le_stop_loss := Some (Fin 98), le_remaining_volume := Some (Fin 2)\<rparr>"

lemma sample_ledger_texts:
  "required_text n ''weltrade_demo'' = Inr ''weltrade_demo''" "required_text n ''GOLD'' = Inr ''GOLD''"
  "required_text n ''p1'' = Inr ''p1''" "required_text n ''o1'' = Inr ''o1''"
  by (simp_all add: required_text_def nonblank_def py_strip_def py_isspace_def)

lemma sample_fill_recorded:
  "record_confirmed_fill_once ''weltrade_demo'' ''GOLD'' ''p1'' ''o1'' BUY (Fin 2) (Fin 100) (Fin 98) (Aware 5 0) None None empty_ledger
   = (Inr True, empty_ledger\<lparr>ldb_rows := [sample_entry]\<rparr>)"
  by (simp add: record_confirmed_fill_once_def checked_fill_def sample_ledger_texts positive_finite_def with_ledger_def
      empty_ledger_def sample_entry_def blank_entry_def)

lemma sample_open_claim:
  "claim_open_notification_once ''weltrade_demo'' ''p1'' 9 (empty_ledger\<lparr>ldb_rows := [sample_entry]\<rparr>)
   = (Inr True, empty_ledger\<lparr>ldb_rows := [sample_entry\<lparr>le_notification_claimed_at := Some 9\<rparr>]\<rparr>)"
  by (simp add: claim_open_notification_once_def update_one_def with_ledger_def empty_ledger_def sample_entry_def
      blank_entry_def le_key_def rowcount_def upd_where_def)

lemma sample_ledger_run:
  "run ledger_step empty_ledger [OtherLedgerEv, OpenNoticeEv (''weltrade_demo'', ''p1'') True]
     (empty_ledger\<lparr>ldb_rows := [sample_entry\<lparr>le_notification_claimed_at := Some 9\<rparr>]\<rparr>)"
  using ledger_step.filled [OF sample_fill_recorded] ledger_step.open_notice [OF sample_open_claim]
  by (auto intro!: run.intros)

theorem notifications_claimed_once_witness:
  "length (filter (\<lambda>ev. ev = OpenNoticeEv (''weltrade_demo'', ''p1'') True)
     [OtherLedgerEv, OpenNoticeEv (''weltrade_demo'', ''p1'') True]) \<le> 1"
  by (rule notifications_claimed_once [OF sample_ledger_run]) (simp_all add: ledger_wf_def empty_ledger_def)


theorem confirmed_fill_listed_witness:
  "\<exists>e \<in> set [sample_entry]. le_position_id e = py_strip ''p1'' \<and> le_order_id e = py_strip ''o1'' \<and> le_symbol e = py_strip ''GOLD''
    \<and> le_side e = Some (side_value BUY) \<and> le_volume e = Some (Fin 2) \<and> le_entry_price e = Some (Fin 100) \<and> le_stop_loss e = Some (Fin 98)
    \<and> (if BUY = BUY then Fin 98 < Fin 100 else Fin 100 < Fin 98)"
proof (rule confirmed_fill_listed [OF sample_fill_recorded])
  show "open_entries ''weltrade_demo'' (empty_ledger\<lparr>ldb_rows := [sample_entry], ldb_outages := []\<rparr>)
      = (Inr [sample_entry], empty_ledger\<lparr>ldb_rows := [sample_entry]\<rparr>)"
    by (simp add: open_entries_def with_ledger_def sample_ledger_texts opening_order_def empty_ledger_def sample_entry_def blank_entry_def)
qed

end
