(* ===== verification/Risk_Engine.thy ===== *)
theory Risk_Engine
  imports Py_Values
begin

text \<open>
  The risk engine (\<open>src/risk/risk_engine.py\<close>), the dynamic risk percentage
  (\<open>src/risk/dynamic_risk.py\<close>) and the default engine of \<open>src/risk/risk_controller.py\<close>.

  The engine keeps two counters per day, the number of trades and the realized loss in percent of
  the balance, and rebuilds them from the broker's closed trades. \<open>approve_trade\<close> gates a signal
  by direction, confidence, the daily limits, volatility and spread.
\<close>

section \<open>Daily limits\<close>

datatype risk_decision_code =
    MISSING_SIGNAL | NO_TRADE_SIGNAL | CONFIDENCE_TOO_LOW | DAILY_TRADE_LIMIT_REACHED
  | DAILY_LOSS_LIMIT_REACHED | INVALID_MARKET_DATA | LOW_VOLATILITY | SPREAD_TOO_HIGH | RISK_APPROVED

record daily_risk_state =
  drs_daily_realized_loss_percent :: pyfloat
  drs_daily_trades_count :: int
  drs_max_daily_loss :: pyfloat
  drs_max_trades_daily :: int

record risk_engine =
  re_min_confidence :: pyval
  re_max_risk_percent :: pyfloat
  re_min_atr :: pyval
  re_max_spread :: pyval
  re_max_daily_loss :: pyfloat
  re_max_trades_daily :: int
  re_daily_trades_count :: int
  re_daily_realized_loss_percent :: pyfloat

text \<open>The two limits come from the settings when the caller passes none.\<close>

definition make_engine ::
  "pyval \<Rightarrow> pyfloat \<Rightarrow> pyval \<Rightarrow> pyval \<Rightarrow> pyfloat option \<Rightarrow> int option \<Rightarrow> pyfloat \<Rightarrow> int \<Rightarrow> risk_engine" where
  "make_engine min_confidence max_risk_percent min_atr max_spread max_daily_loss max_trades_daily
      settings_max_daily_loss settings_max_trades_daily =
     \<lparr>re_min_confidence = min_confidence, re_max_risk_percent = max_risk_percent, re_min_atr = min_atr,
      re_max_spread = max_spread,
      re_max_daily_loss = (case max_daily_loss of Some l \<Rightarrow> l | None \<Rightarrow> settings_max_daily_loss),
      re_max_trades_daily = (case max_trades_daily of Some n \<Rightarrow> n | None \<Rightarrow> settings_max_trades_daily),
      re_daily_trades_count = 0, re_daily_realized_loss_percent = Fin 0\<rparr>"

definition MIN_CONFIDENCE :: pyval where "MIN_CONFIDENCE = PyInt 75"
definition MAX_RISK_PERCENT :: pyfloat where "MAX_RISK_PERCENT = Fin (1/2)"
definition MIN_ATR :: pyval where "MIN_ATR = PyFloat (Fin 1)"
definition MAX_SPREAD :: pyval where "MAX_SPREAD = PyFloat (Fin 30)"

definition record_trade_execution :: "risk_engine \<Rightarrow> risk_engine" where
  "record_trade_execution e = e\<lparr>re_daily_trades_count := re_daily_trades_count e + 1\<rparr>"

definition record_loss :: "pyfloat \<Rightarrow> risk_engine \<Rightarrow> risk_engine" where
  "record_loss loss_percent e =
     e\<lparr>re_daily_realized_loss_percent := re_daily_realized_loss_percent e + py_max (Fin 0) loss_percent\<rparr>"

definition reset_daily_stats :: "risk_engine \<Rightarrow> risk_engine" where
  "reset_daily_stats e = e\<lparr>re_daily_trades_count := 0, re_daily_realized_loss_percent := Fin 0\<rparr>"

definition get_daily_state :: "risk_engine \<Rightarrow> daily_risk_state" where
  "get_daily_state e =
     \<lparr>drs_daily_realized_loss_percent = re_daily_realized_loss_percent e,
      drs_daily_trades_count = re_daily_trades_count e,
      drs_max_daily_loss = re_max_daily_loss e, drs_max_trades_daily = re_max_trades_daily e\<rparr>"

text \<open>One closed trade of today. A zero balance raises after the trade has been counted.\<close>

definition reconcile_trade :: "pyfloat \<Rightarrow> trade_history_entry \<Rightarrow> risk_engine \<Rightarrow> unit result \<times> risk_engine" where
  "reconcile_trade balance t e =
     (let e = record_trade_execution e; profit = th_profit t in
      if profit < Fin 0
      then (case fdiv \<bar>profit\<bar> balance of
              Inl x \<Rightarrow> (Inl x, e)
            | Inr r \<Rightarrow> (Inr (), record_loss (r * Fin 100) e))
      else (Inr (), e))"

fun reconcile_trades ::
  "int \<Rightarrow> pyfloat \<Rightarrow> trade_history_entry list \<Rightarrow> risk_engine \<Rightarrow> unit result \<times> risk_engine" where
  "reconcile_trades today balance [] e = (Inr (), e)"
| "reconcile_trades today balance (t # ts) e =
     (if date_of (th_closed_at t) = today
      then (case reconcile_trade balance t e of
              (Inl x, e) \<Rightarrow> (Inl x, e)
            | (Inr _, e) \<Rightarrow> reconcile_trades today balance ts e)
      else reconcile_trades today balance ts e)"

definition reconcile_daily_history ::
  "pydatetime \<Rightarrow> trade_history_entry list \<Rightarrow> pyfloat \<Rightarrow> risk_engine \<Rightarrow> unit result \<times> risk_engine" where
  "reconcile_daily_history now trades balance e =
     reconcile_trades (date_of now) balance trades (reset_daily_stats e)"

text \<open>The reason texts. The two texts with a number in them are represented by the number.\<close>

datatype risk_reason = Reason string | TradeLimitReason int | LossLimitReason pyfloat

definition evaluate_limits :: "risk_engine \<Rightarrow> bool \<times> risk_reason" where
  "evaluate_limits e =
     (if re_max_trades_daily e \<le> re_daily_trades_count e then (False, TradeLimitReason (re_max_trades_daily e))
      else if re_max_daily_loss e \<le> re_daily_realized_loss_percent e
      then (False, LossLimitReason (re_max_daily_loss e))
      else (True, Reason ''Limits OK''))"

text \<open>\<open>"trade" in limit_reason.lower()\<close>\<close>

fun mentions_trade :: "risk_reason \<Rightarrow> bool" where
  "mentions_trade (TradeLimitReason n) = True"
| "mentions_trade (LossLimitReason x) = False"
| "mentions_trade (Reason s) = False"

section \<open>Trade approval\<close>

type_synonym py_dict = "string \<Rightarrow> pyval option"

definition dict_get :: "py_dict \<Rightarrow> string \<Rightarrow> pyval \<Rightarrow> pyval" where
  "dict_get d k v = (case d k of Some x \<Rightarrow> x | None \<Rightarrow> v)"

record risk_decision =
  rd_approved :: bool
  rd_reason :: risk_reason
  rd_reason_code :: risk_decision_code
  rd_risk_percent :: pyfloat
  rd_authorized_risk_amount :: pyfloat

definition refuse :: "risk_reason \<Rightarrow> risk_decision_code \<Rightarrow> risk_decision" where
  "refuse reason code =
     \<lparr>rd_approved = False, rd_reason = reason, rd_reason_code = code, rd_risk_percent = Fin 0,
      rd_authorized_risk_amount = Fin 0\<rparr>"

text \<open>The last candle is \<open>None\<close> when \<open>market_data.iloc[-1]\<close> raises one of the three caught
  exceptions.\<close>

definition check_market :: "risk_engine \<Rightarrow> py_dict option \<Rightarrow> pyfloat \<Rightarrow> risk_decision result" where
  "check_market e last_candle balance =
     (case last_candle of
        None \<Rightarrow> Inr (refuse (Reason ''Invalid market data'') INVALID_MARKET_DATA)
      | Some candle \<Rightarrow>
          rbind (py_less (dict_get candle ''ATR'' (PyInt 0)) (re_min_atr e)) (\<lambda>low.
          if low then Inr (refuse (Reason ''Low volatility'') LOW_VOLATILITY)
          else rbind (py_less (re_max_spread e) (dict_get candle ''spread'' (PyInt 0))) (\<lambda>wide.
          if wide then Inr (refuse (Reason ''Spread too high'') SPREAD_TOO_HIGH)
          else rbind (fdiv (re_max_risk_percent e) (Fin 100)) (\<lambda>fraction.
          Inr \<lparr>rd_approved = True, rd_reason = Reason ''Institutional risk passed'',
               rd_reason_code = RISK_APPROVED, rd_risk_percent = re_max_risk_percent e,
               rd_authorized_risk_amount = balance * fraction\<rparr>))))"

definition approve_trade ::
  "risk_engine \<Rightarrow> py_dict option \<Rightarrow> py_dict option \<Rightarrow> pyfloat \<Rightarrow> bool \<Rightarrow> risk_decision result" where
  "approve_trade e signal last_candle balance enforce_limits =
     (case signal of
        None \<Rightarrow> Inr (refuse (Reason ''Missing signal'') MISSING_SIGNAL)
      | Some sg \<Rightarrow>
          if \<not> in_sides (dict_get sg ''signal'' PyNone)
          then Inr (refuse (Reason ''No trade signal'') NO_TRADE_SIGNAL)
          else rbind (py_less (dict_get sg ''confidence'' (PyInt 0)) (re_min_confidence e)) (\<lambda>unsure.
          if unsure then Inr (refuse (Reason ''Confidence too low'') CONFIDENCE_TOO_LOW)
          else if enforce_limits \<and> \<not> fst (evaluate_limits e)
          then (let reason = snd (evaluate_limits e) in
                Inr (refuse reason (if mentions_trade reason then DAILY_TRADE_LIMIT_REACHED
                                    else DAILY_LOSS_LIMIT_REACHED)))
          else check_market e last_candle balance))"

section \<open>Dynamic risk\<close>

text \<open>\<open>intelligence["confidence"]\<close> and \<open>intelligence["regime"]\<close>.\<close>

definition dict_item :: "py_dict \<Rightarrow> string \<Rightarrow> pyval result" where
  "dict_item d k = (case d k of Some x \<Rightarrow> Inr x | None \<Rightarrow> Inl (KeyError k))"

definition confidence_percent :: "pyval \<Rightarrow> pyfloat result" where
  "confidence_percent confidence =
     rbind (py_ge confidence (PyInt 90)) (\<lambda>c90. if c90 then Inr (Fin 2) else
     rbind (py_ge confidence (PyInt 70)) (\<lambda>c70. if c70 then Inr (Fin (3/2)) else
     rbind (py_ge confidence (PyInt 50)) (\<lambda>c50. if c50 then Inr (Fin 1) else Inr (Fin (1/2)))))"

definition regime_factor :: "pyval \<Rightarrow> pyfloat \<Rightarrow> pyfloat" where
  "regime_factor regime risk_percent =
     (if text_of regime = Some ''HIGH_VOLATILITY'' then risk_percent * Fin (1/2)
      else if text_of regime = Some ''RANGING'' then risk_percent * Fin (3/4)
      else risk_percent)"

definition dynamic_calculate :: "py_dict \<Rightarrow> pyfloat \<Rightarrow> (pyfloat \<times> pyfloat) result" where
  "dynamic_calculate intelligence balance =
     rbind (dict_item intelligence ''confidence'') (\<lambda>confidence.
     rbind (dict_item intelligence ''regime'') (\<lambda>regime.
     rbind (confidence_percent confidence) (\<lambda>base.
     let risk_percent = regime_factor regime base in
     rbind (fdiv (balance * risk_percent) (Fin 100)) (\<lambda>risk_amount.
     Inr (py_round 2 risk_percent, py_round 2 risk_amount)))))"

section \<open>The controller\<close>

text \<open>\<open>risk_controller\<close> holds one default engine and delegates to it.\<close>

definition default_engine :: "pyfloat \<Rightarrow> int \<Rightarrow> risk_engine" where
  "default_engine settings_max_daily_loss settings_max_trades_daily =
     make_engine MIN_CONFIDENCE MAX_RISK_PERCENT MIN_ATR MAX_SPREAD None None
       settings_max_daily_loss settings_max_trades_daily"

definition get_reconciled_daily_state :: "risk_engine \<Rightarrow> pyfloat \<times> int \<times> pyfloat \<times> int" where
  "get_reconciled_daily_state e =
     (let s = get_daily_state e in
      (drs_daily_realized_loss_percent s, drs_daily_trades_count s, drs_max_daily_loss s, drs_max_trades_daily s))"

section \<open>The rebuilt counters\<close>

definition todays :: "int \<Rightarrow> trade_history_entry list \<Rightarrow> trade_history_entry list" where
  "todays today trades = filter (\<lambda>t. date_of (th_closed_at t) = today) trades"

definition losing :: "trade_history_entry \<Rightarrow> bool" where
  "losing t \<longleftrightarrow> th_profit t < Fin 0"

text \<open>The loss of a losing trade in percent of the balance.\<close>

definition loss_percent :: "pyfloat \<Rightarrow> trade_history_entry \<Rightarrow> pyfloat" where
  "loss_percent balance t =
     (case fdiv \<bar>th_profit t\<bar> balance of Inl x \<Rightarrow> Fin 0 | Inr r \<Rightarrow> py_max (Fin 0) (r * Fin 100))"

definition losses_of :: "pyfloat \<Rightarrow> trade_history_entry list \<Rightarrow> pyfloat list" where
  "losses_of balance ts = map (loss_percent balance) (filter losing ts)"

lemma fdiv_nonzero: "b \<noteq> Fin 0 \<Longrightarrow> \<exists>r. fdiv a b = Inr r"
  by (cases b) auto

lemma loss_percent_nonneg: "Fin 0 \<le> loss_percent balance t"
  by (auto simp: loss_percent_def intro: py_max_ge split: sum.splits)

lemma losses_nonneg: "l \<in> set (losses_of balance ts) \<Longrightarrow> Fin 0 \<le> l"
  by (auto simp: losses_of_def loss_percent_nonneg)

lemma sum_losses_ge:
  assumes "is_double x" "Fin 0 \<le> x" "\<And>l. l \<in> set ls \<Longrightarrow> Fin 0 \<le> l"
  shows "x \<le> foldl (+) x ls"
  using assms
proof (induction ls arbitrary: x)
  case Nil then show ?case by (cases x) auto
next
  case (Cons l ls)
  have le: "x \<le> x + l" using Cons.prems by (intro plus_nonneg_ge) auto
  also have "\<dots> \<le> foldl (+) (x + l) ls"
    using Cons.prems pyfloat_le_trans [OF Cons.prems(2) le] by (intro Cons.IH) (auto simp: plus_double)
  finally show ?case by simp
qed

lemma sum_losses_double: "is_double x \<Longrightarrow> is_double (foldl (+) x ls)"
  by (induction ls arbitrary: x) (auto simp: plus_double)

lemma reconcile_trade_ok:
  assumes "balance \<noteq> Fin 0"
  shows "reconcile_trade balance t e =
    (Inr (), e\<lparr>re_daily_trades_count := re_daily_trades_count e + 1,
      re_daily_realized_loss_percent := foldl (+) (re_daily_realized_loss_percent e) (losses_of balance [t])\<rparr>)"
  using fdiv_nonzero [OF assms, of "\<bar>th_profit t\<bar>"]
  by (auto simp: reconcile_trade_def Let_def record_trade_execution_def record_loss_def losses_of_def
      losing_def loss_percent_def)

lemma reconcile_trades_ok:
  assumes "balance \<noteq> Fin 0"
  shows "reconcile_trades today balance ts e =
    (Inr (), e\<lparr>re_daily_trades_count := re_daily_trades_count e + int (length (todays today ts)),
      re_daily_realized_loss_percent :=
        foldl (+) (re_daily_realized_loss_percent e) (losses_of balance (todays today ts))\<rparr>)"
proof (induction ts arbitrary: e)
  case (Cons t ts)
  then show ?case
    by (auto simp: reconcile_trade_ok [OF assms] todays_def losses_of_def)
qed (simp add: todays_def losses_of_def)

lemma reconcile_daily_ok:
  assumes "balance \<noteq> Fin 0"
  shows "reconcile_daily_history now ts balance e =
    (Inr (), e\<lparr>re_daily_trades_count := int (length (todays (date_of now) ts)),
      re_daily_realized_loss_percent :=
        foldl (+) (Fin 0) (losses_of balance (todays (date_of now) ts))\<rparr>)"
  unfolding reconcile_daily_history_def reconcile_trades_ok [OF assms]
  by (simp add: reset_daily_stats_def)

lemma limits_ok_iff:
  "fst (evaluate_limits e) \<longleftrightarrow>
     re_daily_trades_count e < re_max_trades_daily e \<and> \<not> re_max_daily_loss e \<le> re_daily_realized_loss_percent e"
  by (auto simp: evaluate_limits_def)

lemma limits_blocked_mono:
  assumes "\<not> fst (evaluate_limits e)"
    and "re_daily_trades_count e \<le> re_daily_trades_count e'"
    and "re_daily_realized_loss_percent e \<le> re_daily_realized_loss_percent e'"
    and "re_max_trades_daily e' = re_max_trades_daily e" "re_max_daily_loss e' = re_max_daily_loss e"
  shows "\<not> fst (evaluate_limits e')"
  using assms by (auto simp: limits_ok_iff intro: pyfloat_le_trans)

lemma refuse_simps [simp]:
  "\<not> rd_approved (refuse r c)" "rd_reason_code (refuse r c) = c" "rd_authorized_risk_amount (refuse r c) = Fin 0"
  by (simp_all add: refuse_def)

text \<open>What the engine's checks ask of the last candle.\<close>

definition market_ok :: "risk_engine \<Rightarrow> py_dict \<Rightarrow> bool" where
  "market_ok e candle \<longleftrightarrow> py_less (dict_get candle ''ATR'' (PyInt 0)) (re_min_atr e) = Inr False
     \<and> py_less (re_max_spread e) (dict_get candle ''spread'' (PyInt 0)) = Inr False"

definition granted :: "risk_engine \<Rightarrow> pyfloat \<Rightarrow> risk_decision" where
  "granted e balance = \<lparr>rd_approved = True, rd_reason = Reason ''Institutional risk passed'',
     rd_reason_code = RISK_APPROVED, rd_risk_percent = re_max_risk_percent e,
     rd_authorized_risk_amount = balance * (case fdiv (re_max_risk_percent e) (Fin 100) of Inl x \<Rightarrow> NaN | Inr f \<Rightarrow> f)\<rparr>"

lemma granted_approved [simp]: "rd_approved (granted e b)"
  by (simp add: granted_def)

lemma check_market_approved:
  "check_market e c balance = Inr d \<and> rd_approved d \<longleftrightarrow>
     (\<exists>candle. c = Some candle \<and> market_ok e candle) \<and> d = granted e balance"
  using fdiv_nonzero [of "Fin 100" "re_max_risk_percent e"]
  by (auto simp: check_market_def market_ok_def granted_def split: option.splits if_splits)

lemma approve_trade_approved:
  "approve_trade e signal c balance enforce = Inr d \<and> rd_approved d \<longleftrightarrow>
     (\<exists>sg candle. signal = Some sg \<and> in_sides (dict_get sg ''signal'' PyNone)
        \<and> py_less (dict_get sg ''confidence'' (PyInt 0)) (re_min_confidence e) = Inr False
        \<and> c = Some candle \<and> market_ok e candle)
     \<and> (enforce \<longrightarrow> fst (evaluate_limits e)) \<and> d = granted e balance"
proof (cases "signal")
  case (Some sg)
  show ?thesis
  proof (cases "in_sides (dict_get sg ''signal'' PyNone) \<and>
      py_less (dict_get sg ''confidence'' (PyInt 0)) (re_min_confidence e) = Inr False \<and>
      (enforce \<longrightarrow> fst (evaluate_limits e))")
    case True
    then have "approve_trade e signal c balance enforce = check_market e c balance"
      using Some by (auto simp: approve_trade_def)
    then show ?thesis using True Some by (simp add: check_market_approved)
  next
    case False
    then show ?thesis using Some
      by (auto simp: approve_trade_def Let_def split: if_splits)
  qed
qed (auto simp: approve_trade_def)

section \<open>Properties\<close>

lemma sum_losses_from_0: "Fin 0 \<le> foldl (+) (Fin 0) (losses_of balance ts)"
  using losses_nonneg by (intro sum_losses_ge) auto

text \<open>The daily state is rebuilt from the history alone: with a non-zero balance the
  reconciliation succeeds, whatever the counters were before, the trade count is the number of
  trades closed on the current UTC day, the loss is the sum of the losses of the losing ones among
  them in percent of the balance and is not negative, and the configuration is kept.\<close>

theorem daily_state_rebuilt:
  assumes "balance \<noteq> Fin 0"
  shows "\<exists>e'. reconcile_daily_history now trades balance e = (Inr (), e')
    \<and> get_daily_state e' =
        \<lparr>drs_daily_realized_loss_percent = foldl (+) (Fin 0) (losses_of balance (todays (date_of now) trades)),
         drs_daily_trades_count = int (length (todays (date_of now) trades)),
         drs_max_daily_loss = re_max_daily_loss e, drs_max_trades_daily = re_max_trades_daily e\<rparr>
    \<and> Fin 0 \<le> re_daily_realized_loss_percent e'
    \<and> reset_daily_stats e' = reset_daily_stats e"
  using sum_losses_from_0
  by (simp add: reconcile_daily_ok [OF assms] get_daily_state_def reset_daily_stats_def)

definition sample_loss :: trade_history_entry where
  "sample_loss = \<lparr>th_trade_id = ''T1'', th_symbol = ''R_75'', th_side = BUY, th_volume = Fin 1,
     th_open_price = Fin 10, th_close_price = Fin 8, th_profit = Fin (-2),
     th_opened_at = Aware 100 0, th_closed_at = Aware 200 0, th_transaction_id = None,
     th_contract_type = None, th_position_id = None, th_close_reason = None\<rparr>"

definition sample_engine :: risk_engine where
  "sample_engine = default_engine (Fin 3) 1"

lemma sample_losses: "losses_of (Fin 100) (todays 0 [sample_loss]) = [loss_percent (Fin 100) sample_loss]"
  by (simp add: losses_of_def todays_def losing_def sample_loss_def microseconds_per_day_def)

theorem daily_state_rebuilt_witness:
  "\<exists>e'. reconcile_daily_history (Aware 300 0) [sample_loss] (Fin 100) sample_engine = (Inr (), e')
     \<and> drs_daily_trades_count (get_daily_state e') = 1 \<and> Fin 0 \<le> re_daily_realized_loss_percent e'"
  using daily_state_rebuilt [of "Fin 100" "Aware 300 0" "[sample_loss]" sample_engine]
  by (auto simp: todays_def sample_loss_def microseconds_per_day_def)



text \<open>C38. A signal is approved exactly when it has a direction, its confidence is not below the
  minimum, the daily limits (where enforced) are not reached, and the last candle exists with a
  volatility not below the minimum and a spread not above the maximum. The decision then carries
  the configured risk percentage and that share of the balance.\<close>

theorem approve_trade_iff:
  "approve_trade e signal c balance enforce = Inr d \<and> rd_approved d \<longleftrightarrow>
     (\<exists>sg candle. signal = Some sg \<and> in_sides (dict_get sg ''signal'' PyNone)
        \<and> py_less (dict_get sg ''confidence'' (PyInt 0)) (re_min_confidence e) = Inr False
        \<and> c = Some candle
        \<and> py_less (dict_get candle ''ATR'' (PyInt 0)) (re_min_atr e) = Inr False
        \<and> py_less (re_max_spread e) (dict_get candle ''spread'' (PyInt 0)) = Inr False)
     \<and> (if enforce then re_daily_trades_count e < re_max_trades_daily e
          \<and> \<not> re_max_daily_loss e \<le> re_daily_realized_loss_percent e else True)
     \<and> d = granted e balance"
  unfolding approve_trade_approved limits_ok_iff market_ok_def if_bool_eq_conj by blast

section \<open>Bounds of the dynamic risk\<close>

lemma fdiv_mono:
  assumes "x \<le> y" "0 < b" "fdiv x (Fin b) = Inr u" "fdiv y (Fin b) = Inr v"
  shows "u \<le> v"
  using assms by (cases x; cases y) (auto simp: inf_of_sign_def intro!: fl_mono divide_right_mono, (metis fl_not_NaN less_eq_pyfloat.simps pyfloat.exhaust)+)

lemma fl_quarters: "fl (1/4) = Fin (1/4)" "fl (3/2) = Fin (3/2)"
  using fl_dyadic [of 1 "1/4" 2] fl_dyadic [of 3 "3/2" 1] by simp_all

lemma regime_factor_bounds:
  assumes "confidence_percent c = Inr base"
  obtains r where "regime_factor regime base = Fin r" "1/4 \<le> r" "r \<le> 2"
proof -
  from assms have "base \<in> {Fin 2, Fin (3/2), Fin 1, Fin (1/2)}"
    by (auto simp: confidence_percent_def split: if_splits)
  then obtain b where "base = Fin b" "b \<in> {2, 3/2, 1, 1/2}" by blast
  then have b: "base = Fin b" "1/2 \<le> b" "b \<le> 2" by auto
  have mid: "\<exists>r. fl (b * f) = Fin r \<and> 1/4 \<le> r \<and> r \<le> 2" if "1/2 \<le> f" "f \<le> 3/4" for f
  proof -
    have "1/2 * (1/2) \<le> b * f" "b * f \<le> 2 * (3/4)" 
      using mult_mono [of "1/2" b "1/2" f] mult_mono [of b 2 f "3/4"] b that by linarith+
    then have "Fin (1/4) \<le> fl (b * f)" "fl (b * f) \<le> Fin (3/2)"
      using fl_mono [of "1/4" "b * f"] fl_mono [of "b * f" "3/2"] by (simp_all add: fl_quarters)
    then show ?thesis by (cases "fl (b * f)") auto
  qed
  have "\<exists>r. regime_factor regime base = Fin r \<and> 1/4 \<le> r \<and> r \<le> 2"
    using mid [of "1/2"] mid [of "3/4"] b by (simp add: regime_factor_def)
  then show thesis by (blast intro: that)
qed

text \<open>The dynamic risk is bounded: whatever the confidence and the regime, the percentage lies
  between a quarter and two percent, and for a balance that is not negative the amount lies between
  zero and two percent of the balance, rounded to cents.\<close>

theorem dynamic_risk_bounds:
  assumes "dynamic_calculate intelligence (Fin b) = Inr (percent, amount)" "0 \<le> b"
    and "fdiv (Fin b * Fin 2) (Fin 100) = Inr two_percent"
  shows "Fin (1/4) \<le> percent \<and> percent \<le> Fin 2 \<and> Fin 0 \<le> amount \<and> amount \<le> py_round 2 two_percent"
proof -
  from assms obtain c regime base q where c: "confidence_percent c = Inr base"
    and p: "percent = py_round 2 (regime_factor regime base)"
    and q: "fdiv (Fin b * regime_factor regime base) (Fin 100) = Inr q" and a: "amount = py_round 2 q"
    by (auto simp: dynamic_calculate_def Let_def)
  from regime_factor_bounds [OF c] obtain r where r: "regime_factor regime base = Fin r" "1/4 \<le> r" "r \<le> 2" .
  have ends: "py_round 2 (Fin (1/4)) = Fin (1/4)" "py_round 2 (Fin 2) = Fin 2" "py_round 2 (Fin 0) = Fin 0"
    using round_half_even_of_int [of 25] round_half_even_of_int [of 200] round_half_even_of_int [of 0]
    by (simp_all add: py_round_def fl_quarters)
  have "0 * (1/4) \<le> b * r" "b * r \<le> b * 2" using r assms(2) by (auto intro!: mult_left_mono)
  then have le: "fl 0 \<le> fl (b * r)" "fl (b * r) \<le> fl (b * 2)" by (auto intro: fl_mono fl_nonneg)
  have "Fin 0 \<le> q" using le(1) q r fdiv_mono [of "Fin 0" "fl (b * r)" 100 "Fin 0" q] by simp
  moreover have "q \<le> two_percent"
    using assms(3) le(2) q r fdiv_mono [of "fl (b * r)" "fl (b * 2)" 100 q two_percent] by simp
  ultimately show ?thesis
    using py_round_mono [of "Fin (1/4)" "Fin r" 2] py_round_mono [of "Fin r" "Fin 2" 2] r
      py_round_mono [of "Fin 0" q 2] py_round_mono [of q two_percent 2]
    by (simp add: p a ends)
qed

definition sample_intelligence :: py_dict where
  "sample_intelligence = [''confidence'' \<mapsto> PyInt 95, ''regime'' \<mapsto> PyStr ''TRENDING'']"

lemma sample_dynamic: "dynamic_calculate sample_intelligence (Fin 100) = Inr (Fin 2, Fin 2)"
  using round_half_even_of_int [of 200]
  by (simp add: dynamic_calculate_def dict_item_def sample_intelligence_def confidence_percent_def py_ge_def
      regime_factor_def py_round_def)

theorem dynamic_risk_bounds_witness:
  "dynamic_calculate sample_intelligence (Fin 100) = Inr (Fin 2, Fin 2)
    \<and> Fin (1/4) \<le> Fin 2 \<and> Fin 2 \<le> py_round 2 (Fin 2)"
  using dynamic_risk_bounds [OF sample_dynamic, of "Fin 2"] sample_dynamic by simp

end
