(* ===== verification/Py_Decimal.thy ===== *)
theory Py_Decimal
  imports Py_Values
begin

text \<open>
  Python's \<open>decimal.Decimal\<close> in its default context: 28 significant digits, ties to even,
  \<open>InvalidOperation\<close>, \<open>DivisionByZero\<close> raise. A finite value is the rational number it denotes;
  the exponent range of the context (a million digits) is beyond what sums, products and quotients
  of floats reach, so overflow of a \<open>Decimal\<close> is not represented. Also the conversion between floats
  and decimals through \<open>str\<close>, which takes the shortest text that reads back as the float.
\<close>

section \<open>The text of a float\<close>

text \<open>\<open>repr(x)\<close> is the shortest decimal that converts back to the float. With \<open>n\<close> significant
  digits only the two decimals next to the value can do so.\<close>

definition neighbours :: "nat \<Rightarrow> rat \<Rightarrow> rat list" where
  "neighbours n q = (let u = 10 powi (ilog 10 \<bar>q\<bar> - int n + 1) in
     filter (\<lambda>d. fl d = Fin q) [of_int \<lfloor>q / u\<rfloor> * u, of_int \<lceil>q / u\<rceil> * u])"

fun nearest :: "rat \<Rightarrow> rat list \<Rightarrow> rat" where
  "nearest q [] = q"
| "nearest q [d] = d"
| "nearest q (d # e # ds) = (if \<bar>d - q\<bar> \<le> \<bar>e - q\<bar> then d else e)"

text \<open>A double needs at most 17 digits.\<close>

definition repr_value :: "rat \<Rightarrow> rat" where
  "repr_value q = (if q = 0 then 0 else
     (case find (\<lambda>n. neighbours n q \<noteq> []) [1..<18] of
        None \<Rightarrow> q
      | Some n \<Rightarrow> nearest q (neighbours n q)))"

lemma nearest_in: "ds \<noteq> [] \<Longrightarrow> nearest q ds \<in> set ds"
  by (induction q ds rule: nearest.induct) auto

text \<open>\<open>float(repr(x)) == x\<close>\<close>

lemma repr_value_roundtrip:
  assumes "is_double (Fin q)"
  shows "fl (repr_value q) = Fin q"
proof (cases "q = 0 \<or> find (\<lambda>n. neighbours n q \<noteq> []) [1..<18] = None")
  case False
  then obtain n where n: "q \<noteq> 0" "find (\<lambda>n. neighbours n q \<noteq> []) [1..<18] = Some n" by auto
  then have "nearest q (neighbours n q) \<in> set (neighbours n q)"
    by (intro nearest_in) (auto simp: find_Some_iff)
  with n show ?thesis by (auto simp: repr_value_def neighbours_def Let_def)
qed (use assms in \<open>auto simp: repr_value_def is_double_def\<close>)

lemma repr_value_one_digit:
  assumes q: "q = of_int m * 10 powi k" and m: "1 \<le> m" "m \<le> 9" and d: "fl q = Fin q"
  shows "repr_value q = q"
proof -
  have u: "0 < (10 :: rat) powi k" by simp
  have b: "of_nat 10 powi k \<le> q" "q < of_nat 10 powi (k + 1)"
  proof -
    have "1 * 10 powi k \<le> of_int m * (10 :: rat) powi k"
      using u m by (intro mult_right_mono) auto
    then show "of_nat 10 powi k \<le> q" by (simp add: q)
    have "of_int m * 10 powi k \<le> 9 * (10 :: rat) powi k" using u m by (intro mult_right_mono) auto
    also have "\<dots> < 10 powi (k + 1)" using u by (simp add: power_int_add)
    finally show "q < of_nat 10 powi (k + 1)" by (simp add: q)
  qed
  have "0 < q" using b(1) by (simp add: order_less_le_trans [OF u])
  moreover have "ilog 10 q = k" by (rule ilog_unique) (use b in auto)
  moreover have "q / 10 powi k = of_int m" using u by (simp add: q)
  ultimately have "neighbours 1 q = [q, q]" using d by (simp add: neighbours_def Let_def q [symmetric])
  moreover have "[1..<18] = 1 # [2..<18]" by (simp add: upt_rec)
  ultimately show ?thesis by (simp add: repr_value_def)
qed

section \<open>Decimals\<close>

datatype pydec = Dec rat | DecInf bool | DecNaN

definition dec_round :: "rat \<Rightarrow> rat" where
  "dec_round q = round_sig 10 28 (-1000026) q"

text \<open>\<open>Decimal(str(x))\<close>: the constructor is exact, only arithmetic rounds.\<close>

fun dec_of_float :: "pyfloat \<Rightarrow> pydec" where
  "dec_of_float (Fin q) = Dec (repr_value q)"
| "dec_of_float PInf = DecInf True"
| "dec_of_float NInf = DecInf False"
| "dec_of_float NaN = DecNaN"

fun dec_to_float :: "pydec \<Rightarrow> pyfloat" where
  "dec_to_float (Dec q) = fl q"
| "dec_to_float (DecInf s) = (if s then PInf else NInf)"
| "dec_to_float DecNaN = NaN"

fun dec_mult :: "pydec \<Rightarrow> pydec \<Rightarrow> pydec result" where
  "dec_mult DecNaN y = Inr DecNaN"
| "dec_mult x DecNaN = Inr DecNaN"
| "dec_mult (Dec a) (Dec b) = Inr (Dec (dec_round (a * b)))"
| "dec_mult (DecInf s) (Dec b) = (if b = 0 then Inl InvalidOperation else Inr (DecInf (s = (0 < b))))"
| "dec_mult (Dec a) (DecInf s) = (if a = 0 then Inl InvalidOperation else Inr (DecInf (s = (0 < a))))"
| "dec_mult (DecInf s) (DecInf t) = Inr (DecInf (s = t))"

text \<open>Division by zero raises; \<open>0 / 0\<close> is an invalid operation.\<close>

fun dec_div :: "pydec \<Rightarrow> pydec \<Rightarrow> pydec result" where
  "dec_div DecNaN y = Inr DecNaN"
| "dec_div x DecNaN = Inr DecNaN"
| "dec_div (Dec a) (Dec b) =
     (if b = 0 then Inl (if a = 0 then InvalidOperation else ZeroDivisionError)
      else Inr (Dec (dec_round (a / b))))"
| "dec_div (DecInf s) (Dec b) = Inr (DecInf (s = (0 \<le> b)))"
| "dec_div (Dec a) (DecInf s) = Inr (Dec 0)"
| "dec_div (DecInf s) (DecInf t) = Inl InvalidOperation"

fun dec_minus :: "pydec \<Rightarrow> pydec \<Rightarrow> pydec result" where
  "dec_minus DecNaN y = Inr DecNaN"
| "dec_minus x DecNaN = Inr DecNaN"
| "dec_minus (Dec a) (Dec b) = Inr (Dec (dec_round (a - b)))"
| "dec_minus (DecInf s) (Dec b) = Inr (DecInf s)"
| "dec_minus (Dec a) (DecInf s) = Inr (DecInf (\<not> s))"
| "dec_minus (DecInf s) (DecInf t) = (if s = t then Inl InvalidOperation else Inr (DecInf s))"

fun dec_abs :: "pydec \<Rightarrow> pydec" where
  "dec_abs (Dec a) = Dec (dec_round \<bar>a\<bar>)"
| "dec_abs (DecInf s) = DecInf True"
| "dec_abs DecNaN = DecNaN"

text \<open>\<open>to_integral_value(rounding=ROUND_FLOOR)\<close>\<close>

fun dec_floor :: "pydec \<Rightarrow> pydec" where
  "dec_floor (Dec a) = Dec (of_int \<lfloor>a\<rfloor>)"
| "dec_floor x = x"

text \<open>An order comparison with a NaN raises.\<close>

fun dec_less :: "pydec \<Rightarrow> pydec \<Rightarrow> bool result" where
  "dec_less (Dec a) (Dec b) = Inr (a < b)"
| "dec_less (DecInf s) (Dec b) = Inr (\<not> s)"
| "dec_less (Dec a) (DecInf s) = Inr s"
| "dec_less (DecInf s) (DecInf t) = Inr (\<not> s \<and> t)"
| "dec_less _ _ = Inl InvalidOperation"

lemma dec_round_mono: "a \<le> b \<Longrightarrow> dec_round a \<le> dec_round b"
  by (simp add: dec_round_def round_sig_mono)

lemma dec_round_0 [simp]: "dec_round 0 = 0"
  by (simp add: dec_round_def)

lemma dec_round_nonneg: "0 \<le> a \<Longrightarrow> 0 \<le> dec_round a"
  by (simp add: dec_round_def round_sig_nonneg)

lemma dec_round_idem [simp]: "dec_round (dec_round a) = dec_round a"
  by (simp add: dec_round_def round_sig_idem)

text \<open>The relative error of one operation, away from the subnormal range, is half a unit of the
  28th digit.\<close>

lemma dec_round_error:
  assumes q: "10 powi n \<le> \<bar>q\<bar>" and n: "- 999998 \<le> n"
  shows "\<bar>dec_round q - q\<bar> \<le> \<bar>q\<bar> * 10 powi (-27) / 2"
proof -
  have pos: "0 < (10 :: rat) powi n" by simp
  from order_less_le_trans [OF pos q] have q0: "0 < \<bar>q\<bar>" "q \<noteq> 0" by simp_all
  let ?e = "ilog 10 \<bar>q\<bar>"
  have lo: "(10 :: rat) powi ?e \<le> \<bar>q\<bar>" and hi: "\<bar>q\<bar> < 10 powi (?e + 1)"
    using ilog_bounds [OF _ q0(1), of 10] by auto
  from q hi have lt: "(10 :: rat) powi n < 10 powi (?e + 1)" by (rule order_le_less_trans)
  have "n < ?e + 1"
  proof (rule ccontr)
    assume "\<not> ?thesis"
    then have "(10 :: rat) powi (?e + 1) \<le> 10 powi n" by (intro power_int_increasing) auto
    with lt show False by simp
  qed
  with n have k: "quantum 10 28 (-1000026) q = ?e - 27" by (simp add: quantum_def)
  have "\<bar>dec_round q - q\<bar> \<le> of_nat 10 powi (?e - 27) / 2"
    using round_sig_error [of 10 q 28 "-1000026"] q0(2) unfolding dec_round_def k by simp
  also have "\<dots> = 10 powi ?e * 10 powi (-27) / 2"
    using power_int_add [of "10 :: rat" ?e "-27"] by simp
  also have "\<dots> \<le> \<bar>q\<bar> * 10 powi (-27) / 2" using lo by (intro divide_right_mono mult_right_mono) auto
  finally show ?thesis .
qed

end
