(* ===== verification/Simulation_Contract.thy ===== *)
theory Simulation_Contract
  imports Py_Decimal
begin

text \<open>
  The synthetic contract of the offline simulation (\<open>src/risk/simulation_contract.py\<close>): the proof
  of its linear loss model and the registry of proofs, the contract specification, and the exact
  flooring of a cash risk to a quantity in \<open>Decimal\<close> arithmetic.
\<close>

section \<open>Proofs and specifications\<close>

datatype simulation_proof_state = UNVERIFIED | VERIFIED

record simulation_proof =
  sp_schema_version :: int
  sp_loss_model_id :: string
  sp_loss_model_version :: int
  sp_evidence_id :: string
  sp_state :: simulation_proof_state
  sp_broker :: string
  sp_contract_family :: string
  sp_quantity_basis :: string
  sp_stop_semantic :: string

definition require_texts :: "(string \<times> string) list \<Rightarrow> unit result" where
  "require_texts named =
     (case find (\<lambda>(name, v). \<not> nonblank v) named of
        None \<Rightarrow> Inr ()
      | Some (name, v) \<Rightarrow> Inl (ValueError (name @ '' must be a nonblank string'')))"

definition make_simulation_proof :: "simulation_proof \<Rightarrow> simulation_proof result" where
  "make_simulation_proof p =
     (if sp_schema_version p \<noteq> 1 then Inl (ValueError ''Unsupported simulation proof schema'')
      else if sp_loss_model_version p \<le> 0
      then Inl (ValueError ''Simulation loss-model version must be a positive integer'')
      else rbind (require_texts
        [(''loss_model_id'', sp_loss_model_id p), (''evidence_id'', sp_evidence_id p), (''broker'', sp_broker p),
         (''contract_family'', sp_contract_family p), (''quantity_basis'', sp_quantity_basis p),
         (''stop_semantic'', sp_stop_semantic p)])
        (\<lambda>_. Inr p))"

definition proof_identity :: "simulation_proof \<Rightarrow> string \<times> int \<times> string" where
  "proof_identity p = (sp_loss_model_id p, sp_loss_model_version p, sp_evidence_id p)"

text \<open>A field annotated \<open>int | float | Decimal\<close>, and any other value.\<close>

datatype number = NInt int | NFloat pyfloat | NDec pydec | NOther

record simulation_specification =
  ss_broker :: string
  ss_contract_family :: string
  ss_quantity_basis :: string
  ss_stop_semantic :: string
  ss_loss_model_id :: string
  ss_loss_model_version :: int
  ss_evidence_id :: string
  ss_stop_risk_per_unit :: number
  ss_minimum_quantity :: number
  ss_quantity_increment :: number

text \<open>\<open>type(v) in (int, float, Decimal) and math.isfinite(v) and v > 0\<close>. \<open>isfinite\<close> converts to a
  float, which raises for an integer out of range.\<close>

fun number_positive :: "number \<Rightarrow> bool result" where
  "number_positive (NInt i) = rbind (float_of_int i) (\<lambda>_. Inr (0 < i))"
| "number_positive (NFloat x) = Inr (positive_finite x)"
| "number_positive (NDec (Dec q)) = Inr (is_finite (fl q) \<and> 0 < q)"
| "number_positive (NDec d) = Inr False"
| "number_positive NOther = Inr False"

definition require_positive :: "string \<Rightarrow> number \<Rightarrow> unit result" where
  "require_positive name v =
     rbind (number_positive v) (\<lambda>ok. if ok then Inr () else
       Inl (ValueError (name @ '' must be a positive finite number'')))"

definition make_simulation_specification :: "simulation_specification \<Rightarrow> simulation_specification result" where
  "make_simulation_specification s =
     rbind (require_texts
        [(''broker'', ss_broker s), (''contract_family'', ss_contract_family s),
         (''quantity_basis'', ss_quantity_basis s), (''stop_semantic'', ss_stop_semantic s),
         (''loss_model_id'', ss_loss_model_id s), (''evidence_id'', ss_evidence_id s)]) (\<lambda>_.
     if ss_loss_model_version s \<le> 0
     then Inl (ValueError ''Simulation loss-model version must be a positive integer'')
     else rbind (require_positive ''stop_risk_per_unit'' (ss_stop_risk_per_unit s)) (\<lambda>_.
          rbind (require_positive ''minimum_quantity'' (ss_minimum_quantity s)) (\<lambda>_.
          rbind (require_positive ''quantity_increment'' (ss_quantity_increment s)) (\<lambda>_. Inr s))))"

section \<open>The registry\<close>

type_synonym simulation_registry = "(string \<times> int \<times> string) list"

text \<open>A frozenset as a list without repetitions.\<close>

definition register :: "simulation_proof \<Rightarrow> simulation_registry \<Rightarrow> simulation_registry result" where
  "register p reg =
     (if sp_state p \<noteq> VERIFIED then Inl (ValueError ''Only verified simulation proofs may be registered'')
      else Inr (List.insert (proof_identity p) reg))"

definition unregister :: "simulation_proof \<Rightarrow> simulation_registry \<Rightarrow> simulation_registry" where
  "unregister p reg = removeAll (proof_identity p) reg"

record simulation_capability =
  sc_stop_risk_authorizable :: bool
  sc_reason :: string

definition evaluate_simulation_capability ::
  "simulation_specification \<Rightarrow> simulation_proof option \<Rightarrow> simulation_registry \<Rightarrow> simulation_capability" where
  "evaluate_simulation_capability s p reg =
     (case p of
        None \<Rightarrow> \<lparr>sc_stop_risk_authorizable = False, sc_reason = ''Synthetic loss-model proof is missing''\<rparr>
      | Some p \<Rightarrow>
          if sp_state p \<noteq> VERIFIED \<or> proof_identity p \<notin> set reg
          then \<lparr>sc_stop_risk_authorizable = False, sc_reason = ''Synthetic loss-model proof is not registered''\<rparr>
          else if sp_broker p \<noteq> ss_broker s \<or> sp_contract_family p \<noteq> ss_contract_family s
            \<or> sp_quantity_basis p \<noteq> ss_quantity_basis s \<or> sp_stop_semantic p \<noteq> ss_stop_semantic s
            \<or> sp_loss_model_id p \<noteq> ss_loss_model_id s \<or> sp_loss_model_version p \<noteq> ss_loss_model_version s
            \<or> sp_evidence_id p \<noteq> ss_evidence_id s
          then \<lparr>sc_stop_risk_authorizable = False, sc_reason = ''Synthetic proof applicability mismatch''\<rparr>
          else \<lparr>sc_stop_risk_authorizable = True, sc_reason = ''JQE synthetic loss model is registered''\<rparr>)"

section \<open>Flooring the quantity\<close>

text \<open>\<open>v if isinstance(v, Decimal) else Decimal(str(v))\<close>\<close>

fun number_dec :: "number \<Rightarrow> pydec result" where
  "number_dec (NInt i) = Inr (Dec (of_int i))"
| "number_dec (NFloat x) = Inr (dec_of_float x)"
| "number_dec (NDec d) = Inr d"
| "number_dec NOther = Inl InvalidOperation"

definition exceeds :: "pydec \<Rightarrow> pydec \<Rightarrow> pydec \<Rightarrow> bool result" where
  "exceeds quantity stop_risk risk = rbind (dec_mult quantity stop_risk) (\<lambda>loss. dec_less risk loss)"

text \<open>The defensive decrement after flooring.\<close>

definition decrement :: "pydec \<Rightarrow> pydec \<Rightarrow> pydec \<Rightarrow> pydec \<Rightarrow> pydec \<Rightarrow> pydec option result" where
  "decrement quantity increment minimum stop_risk risk =
     rbind (dec_minus quantity increment) (\<lambda>quantity.
     rbind (dec_less quantity minimum) (\<lambda>small.
     if small then Inr None
     else rbind (exceeds quantity stop_risk risk) (\<lambda>over. Inr (if over then None else Some quantity))))"

definition floor_synthetic_quantity_exact :: "number \<Rightarrow> simulation_specification \<Rightarrow> pydec option result" where
  "floor_synthetic_quantity_exact risk_amount s =
     rbind (number_positive risk_amount) (\<lambda>ok.
     if \<not> ok then Inr None
     else rbind (number_dec risk_amount) (\<lambda>risk.
          rbind (number_dec (ss_stop_risk_per_unit s)) (\<lambda>stop_risk.
          rbind (number_dec (ss_quantity_increment s)) (\<lambda>increment.
          rbind (dec_div risk stop_risk) (\<lambda>raw.
          rbind (dec_div raw increment) (\<lambda>steps.
          rbind (dec_mult (dec_floor steps) increment) (\<lambda>quantity.
          rbind (number_dec (ss_minimum_quantity s)) (\<lambda>minimum.
          rbind (dec_less quantity minimum) (\<lambda>small.
          if small then Inr None
          else rbind (exceeds quantity stop_risk risk) (\<lambda>over.
          if over then decrement quantity increment minimum stop_risk risk
          else Inr (Some quantity)))))))))))"

definition floor_synthetic_quantity :: "number \<Rightarrow> simulation_specification \<Rightarrow> pyfloat option result" where
  "floor_synthetic_quantity risk_amount s =
     rbind (floor_synthetic_quantity_exact risk_amount s) (\<lambda>q. Inr (map_option dec_to_float q))"

section \<open>The canonical contract\<close>

definition canonical_simulation_proof :: simulation_proof where
  "canonical_simulation_proof =
     \<lparr>sp_schema_version = 1, sp_loss_model_id = ''jqe:simulation-linear-loss'', sp_loss_model_version = 1,
      sp_evidence_id = ''jqe-owned:simulation-contract-v1'', sp_state = VERIFIED, sp_broker = ''simulation'',
      sp_contract_family = ''JQE_SYNTHETIC_LINEAR'', sp_quantity_basis = ''SIMULATION_UNITS'',
      sp_stop_semantic = ''PRICE_DISTANCE_CASH_PER_UNIT''\<rparr>"

text \<open>The float literal \<open>1e-12\<close>.\<close>

definition tiny :: pyfloat where
  "tiny = fl (1 / 10 ^ 12)"

definition canonical_simulation_specification :: "number \<Rightarrow> simulation_specification result" where
  "canonical_simulation_specification stop_risk_per_unit =
     make_simulation_specification
     \<lparr>ss_broker = ''simulation'', ss_contract_family = ''JQE_SYNTHETIC_LINEAR'',
      ss_quantity_basis = ''SIMULATION_UNITS'', ss_stop_semantic = ''PRICE_DISTANCE_CASH_PER_UNIT'',
      ss_loss_model_id = ''jqe:simulation-linear-loss'', ss_loss_model_version = 1,
      ss_evidence_id = ''jqe-owned:simulation-contract-v1'', ss_stop_risk_per_unit = stop_risk_per_unit,
      ss_minimum_quantity = NFloat tiny, ss_quantity_increment = NFloat tiny\<rparr>"

definition authoritative_simulation_registry :: "simulation_registry result" where
  "authoritative_simulation_registry = register canonical_simulation_proof []"

section \<open>Lemmas\<close>

text \<open>What a floored quantity satisfies: it is not below the minimum and its loss at the stop, in
  decimal arithmetic, does not exceed the risk.\<close>

lemma decrement_sound:
  assumes "decrement quantity increment minimum stop_risk risk = Inr (Some q)"
  shows "dec_less q minimum = Inr False" "exceeds q stop_risk risk = Inr False"
  using assms by (auto simp: decrement_def split: if_splits)

lemma floor_exact_sound:
  assumes "floor_synthetic_quantity_exact risk_amount s = Inr (Some q)"
  obtains risk stop_risk minimum where
    "number_positive risk_amount = Inr True"
    "number_dec risk_amount = Inr risk" "number_dec (ss_stop_risk_per_unit s) = Inr stop_risk"
    "number_dec (ss_minimum_quantity s) = Inr minimum"
    "dec_less q minimum = Inr False" "exceeds q stop_risk risk = Inr False"
  using assms
  by (auto simp: floor_synthetic_quantity_exact_def split: if_splits dest: decrement_sound intro: that)

lemma capability_iff:
  "sc_stop_risk_authorizable (evaluate_simulation_capability s p reg) \<longleftrightarrow>
     (\<exists>pr. p = Some pr \<and> sp_state pr = VERIFIED \<and> proof_identity pr \<in> set reg
       \<and> sp_broker pr = ss_broker s \<and> sp_contract_family pr = ss_contract_family s
       \<and> sp_quantity_basis pr = ss_quantity_basis s \<and> sp_stop_semantic pr = ss_stop_semantic s
       \<and> proof_identity pr = (ss_loss_model_id s, ss_loss_model_version s, ss_evidence_id s))"
  by (auto simp: evaluate_simulation_capability_def proof_identity_def split: option.splits)

end
