(* ===== verification/Deriv_Contract.thy ===== *)
theory Deriv_Contract
  imports Py_Values
begin

text \<open>
  Deriv contract facts and the fail-closed assessment of whether they prove the loss at a stop
  (\<open>src/broker/deriv_contract_spec.py\<close>). Fields annotated as numbers hold floats.
\<close>

section \<open>Facts about a contract\<close>

datatype deriv_verification = SPEC_UNVERIFIED | SPEC_PARTIALLY_VERIFIED | SPEC_VERIFIED

datatype deriv_support = SUPPORT_UNKNOWN | UNSUPPORTED | SUPPORTED

datatype deriv_proof_validation = PROOF_UNVERIFIED | PROOF_VERIFIED

definition deriv_required_text :: "string \<Rightarrow> string \<Rightarrow> string result" where
  "deriv_required_text name v =
     (if \<not> nonblank v then Inl (ValueError (name @ '' must be a nonblank string'')) else Inr (py_strip v))"

definition deriv_optional_text :: "string \<Rightarrow> string option \<Rightarrow> unit result" where
  "deriv_optional_text name v =
     (case v of None \<Rightarrow> Inr () | Some s \<Rightarrow> rbind (deriv_required_text name s) (\<lambda>_. Inr ()))"

definition optional_positive_number :: "string \<Rightarrow> pyfloat option \<Rightarrow> unit result" where
  "optional_positive_number name v =
     (case v of None \<Rightarrow> Inr ()
      | Some x \<Rightarrow> if \<not> positive_finite x
          then Inl (ValueError (name @ '' must be a positive finite number'')) else Inr ())"

text \<open>The first failing check raises.\<close>

fun first_error :: "unit result list \<Rightarrow> unit result" where
  "first_error [] = Inr ()"
| "first_error (c # cs) = rbind c (\<lambda>_. first_error cs)"

record deriv_loss_model_proof =
  dp_proof_schema_version :: int
  dp_loss_model_id :: string
  dp_loss_model_version :: int
  dp_evidence_source_id :: string
  dp_validation_state :: deriv_proof_validation
  dp_broker :: string
  dp_contract_family :: string
  dp_quantity_basis :: string
  dp_stop_loss_semantic_id :: string
  dp_multiplier_semantics_id :: string

definition make_deriv_loss_model_proof :: "deriv_loss_model_proof \<Rightarrow> deriv_loss_model_proof result" where
  "make_deriv_loss_model_proof p =
     (if dp_proof_schema_version p \<noteq> 1 then Inl (ValueError ''unsupported loss-model proof schema'')
      else if dp_loss_model_version p \<le> 0
      then Inl (ValueError ''loss_model_version must be a positive strict integer'')
      else rbind (first_error (map (\<lambda>(name, v). rbind (deriv_required_text name v) (\<lambda>_. Inr ()))
        [(''loss_model_id'', dp_loss_model_id p), (''evidence_source_id'', dp_evidence_source_id p),
         (''broker'', dp_broker p), (''contract_family'', dp_contract_family p),
         (''quantity_basis'', dp_quantity_basis p), (''stop_loss_semantic_id'', dp_stop_loss_semantic_id p),
         (''multiplier_semantics_id'', dp_multiplier_semantics_id p)]))
        (\<lambda>_. Inr p))"

record deriv_contract_specification =
  dc_schema_version :: int
  dc_broker :: string
  dc_contract_type :: "string option"
  dc_contract_availability :: deriv_support
  dc_symbol :: "string option"
  dc_symbol_support :: deriv_support
  dc_duration_requirements_id :: "string option"
  dc_quantity_basis :: "string option"
  dc_account_currency :: "string option"
  dc_currency_treatment_id :: "string option"
  dc_multiplier :: "pyfloat option"
  dc_multiplier_semantics_id :: "string option"
  dc_multiplier_is_placeholder :: bool
  dc_minimum_stake :: "pyfloat option"
  dc_stake_precision :: "int option"
  dc_stake_increment :: "pyfloat option"
  dc_stop_loss_semantic_id :: "string option"
  dc_supported_limit_order_fields :: "string list"
  dc_loss_model_id :: "string option"
  dc_loss_model_version :: "int option"
  dc_evidence_source_id :: "string option"
  dc_loss_model_proof :: "deriv_loss_model_proof option"
  dc_verification_state :: deriv_verification

definition default_specification :: deriv_contract_specification where
  "default_specification =
     \<lparr>dc_schema_version = 1, dc_broker = ''deriv'', dc_contract_type = None,
      dc_contract_availability = SUPPORT_UNKNOWN, dc_symbol = None, dc_symbol_support = SUPPORT_UNKNOWN,
      dc_duration_requirements_id = None, dc_quantity_basis = None, dc_account_currency = None,
      dc_currency_treatment_id = None, dc_multiplier = None, dc_multiplier_semantics_id = None,
      dc_multiplier_is_placeholder = False, dc_minimum_stake = None, dc_stake_precision = None,
      dc_stake_increment = None, dc_stop_loss_semantic_id = None, dc_supported_limit_order_fields = [],
      dc_loss_model_id = None, dc_loss_model_version = None, dc_evidence_source_id = None,
      dc_loss_model_proof = None, dc_verification_state = SPEC_UNVERIFIED\<rparr>"

text \<open>The \<open>isinstance\<close> checks of \<open>__post_init__\<close> hold by typing. The proof field holds a
  \<open>DerivLossModelProof\<close>, validated when it was constructed.\<close>

definition make_deriv_contract_specification :: "deriv_contract_specification \<Rightarrow> deriv_contract_specification result" where
  "make_deriv_contract_specification s =
     rbind (first_error (map (\<lambda>(name, v). deriv_optional_text name v)
       [(''broker'', Some (dc_broker s)), (''contract_type'', dc_contract_type s), (''symbol'', dc_symbol s),
        (''duration_requirements_id'', dc_duration_requirements_id s), (''quantity_basis'', dc_quantity_basis s),
        (''account_currency'', dc_account_currency s), (''currency_treatment_id'', dc_currency_treatment_id s),
        (''multiplier_semantics_id'', dc_multiplier_semantics_id s),
        (''stop_loss_semantic_id'', dc_stop_loss_semantic_id s), (''loss_model_id'', dc_loss_model_id s),
        (''evidence_source_id'', dc_evidence_source_id s)])) (\<lambda>_.
     rbind (first_error [optional_positive_number ''multiplier'' (dc_multiplier s),
        optional_positive_number ''minimum_stake'' (dc_minimum_stake s),
        optional_positive_number ''stake_increment'' (dc_stake_increment s)]) (\<lambda>_.
     if (case dc_stake_precision s of None \<Rightarrow> False | Some n \<Rightarrow> n < 0)
     then Inl (ValueError ''stake_precision must be a nonnegative strict integer'')
     else if (case dc_loss_model_version s of None \<Rightarrow> False | Some n \<Rightarrow> n \<le> 0)
     then Inl (ValueError ''loss_model_version must be a positive strict integer'')
     else if \<not> list_all nonblank (dc_supported_limit_order_fields s)
     then Inl (ValueError ''supported_limit_order_fields must contain nonblank strings'')
     else Inr s))"

section \<open>The capability\<close>

datatype proof_consumption_state = PROOF_AVAILABLE | PROOF_UNAVAILABLE | PROOF_REVOKED | PROOF_CONFLICT

datatype loss_evaluation_state =
    LOSS_EVALUATED | LOSS_INPUT_INVALID | LOSS_MODEL_UNSUPPORTED | LOSS_PROOF_UNAVAILABLE | LOSS_CONFLICT

record deriv_quantity_capability =
  dq_stop_risk_authorizable :: bool
  dq_missing_requirements :: "string list"
  dq_proof_consumption_state :: proof_consumption_state
  dq_loss_evaluation_state :: loss_evaluation_state

definition AUTHORIZED_LOSS_MODEL_PROOFS :: "(string \<times> int \<times> string) list" where
  "AUTHORIZED_LOSS_MODEL_PROOFS = []"

definition authoritative_loss_model_proof_available :: "deriv_quantity_capability \<Rightarrow> bool" where
  "authoritative_loss_model_proof_available c \<longleftrightarrow> dq_proof_consumption_state c = PROOF_AVAILABLE"

definition authoritative_loss_model_evaluated :: "deriv_quantity_capability \<Rightarrow> bool" where
  "authoritative_loss_model_evaluated c \<longleftrightarrow> dq_loss_evaluation_state c = LOSS_EVALUATED"

definition capability_reason :: "deriv_quantity_capability \<Rightarrow> string" where
  "capability_reason c =
     (if dq_stop_risk_authorizable c then ''Deriv loss-model proof is verified''
      else ''Deriv loss-model proof is not verified: '' @ join_text ''; '' (dq_missing_requirements c))"

text \<open>The requirement a specification's proof leaves open, if any.\<close>

definition proof_requirement :: "deriv_contract_specification \<Rightarrow> string list" where
  "proof_requirement s =
     (case dc_loss_model_proof s of
        None \<Rightarrow> [''independently validated loss-model proof'']
      | Some p \<Rightarrow>
          if dp_validation_state p \<noteq> PROOF_VERIFIED then [''independently validated loss-model proof'']
          else if Some (dp_loss_model_id p) \<noteq> dc_loss_model_id s
            \<or> Some (dp_loss_model_version p) \<noteq> dc_loss_model_version s
            \<or> Some (dp_evidence_source_id p) \<noteq> dc_evidence_source_id s
            \<or> dp_broker p \<noteq> dc_broker s
            \<or> Some (dp_contract_family p) \<noteq> dc_contract_type s
            \<or> Some (dp_quantity_basis p) \<noteq> dc_quantity_basis s
            \<or> Some (dp_stop_loss_semantic_id p) \<noteq> dc_stop_loss_semantic_id s
            \<or> Some (dp_multiplier_semantics_id p) \<noteq> dc_multiplier_semantics_id s
          then [''loss-model proof applicability'']
          else if (dp_loss_model_id p, dp_loss_model_version p, dp_evidence_source_id p)
                    \<notin> set AUTHORIZED_LOSS_MODEL_PROOFS
          then [''authoritative proof registration'']
          else [])"

definition missing_requirements :: "deriv_contract_specification \<Rightarrow> string list" where
  "missing_requirements s =
     (if dc_schema_version s \<noteq> 1 then [''unsupported specification schema''] else [])
     @ (if dc_broker s \<noteq> ''deriv'' then [''broker identity''] else [])
     @ (if dc_contract_type s \<notin> {Some ''MULTUP'', Some ''MULTDOWN''} then [''supported contract type''] else [])
     @ (if dc_contract_availability s \<noteq> SUPPORTED then [''verified contract availability''] else [])
     @ (if dc_symbol_support s \<noteq> SUPPORTED then [''verified symbol eligibility''] else [])
     @ (if dc_quantity_basis s \<noteq> Some ''stake'' then [''stake quantity basis''] else [])
     @ (if \<not> truthy_text (dc_duration_requirements_id s) then [''duration requirements''] else [])
     @ (if \<not> truthy_text (dc_account_currency s) \<or> \<not> truthy_text (dc_currency_treatment_id s)
        then [''account-currency treatment''] else [])
     @ (if dc_multiplier s = None \<or> \<not> truthy_text (dc_multiplier_semantics_id s) \<or> dc_multiplier_is_placeholder s
        then [''verified multiplier-loss relationship''] else [])
     @ (if dc_minimum_stake s = None then [''minimum stake''] else [])
     @ (if dc_stake_precision s = None then [''stake precision''] else [])
     @ (if dc_stake_increment s = None then [''stake increment''] else [])
     @ (if \<not> truthy_text (dc_stop_loss_semantic_id s) \<or> ''stop_loss'' \<notin> set (dc_supported_limit_order_fields s)
        then [''absolute stop-loss semantics''] else [])
     @ (if \<not> truthy_text (dc_loss_model_id s) \<or> dc_loss_model_version s = None
        then [''versioned loss equation''] else [])
     @ (if \<not> truthy_text (dc_evidence_source_id s) then [''authoritative evidence source''] else [])
     @ proof_requirement s
     @ (if dc_verification_state s \<noteq> SPEC_VERIFIED then [''fully verified specification state''] else [])"

text \<open>The states of the two optional results are carried over; they remove no requirement.\<close>

definition evaluate_deriv_quantity_capability ::
  "deriv_contract_specification \<Rightarrow> proof_consumption_state option \<Rightarrow> loss_evaluation_state option
   \<Rightarrow> deriv_quantity_capability" where
  "evaluate_deriv_quantity_capability s proof_consumption loss_evaluation =
     (let missing = missing_requirements s in
      \<lparr>dq_stop_risk_authorizable = (missing = []), dq_missing_requirements = missing,
       dq_proof_consumption_state = (case proof_consumption of None \<Rightarrow> PROOF_UNAVAILABLE | Some st \<Rightarrow> st),
       dq_loss_evaluation_state = (case loss_evaluation of None \<Rightarrow> LOSS_PROOF_UNAVAILABLE | Some st \<Rightarrow> st)\<rparr>)"

definition current_deriv_multiplier_specification :: "deriv_contract_specification result" where
  "current_deriv_multiplier_specification =
     make_deriv_contract_specification
       (default_specification\<lparr>dc_quantity_basis := Some ''stake'', dc_multiplier := Some (Fin 100),
          dc_multiplier_is_placeholder := True,
          dc_supported_limit_order_fields := [''stop_loss'', ''take_profit'']\<rparr>)"

section \<open>Properties\<close>

lemma proof_requirement_nonempty: "proof_requirement s \<noteq> []"
  by (auto simp: proof_requirement_def AUTHORIZED_LOSS_MODEL_PROOFS_def split: option.splits)

text \<open>Deriv stop risk fails closed: as no loss-model proof is registered, no specification
  whatsoever, with whatever proof attached and whatever state of the proof consumption and the loss
  evaluation, makes the stop risk authorizable; the reason names at least one missing requirement.\<close>

theorem deriv_never_authorizable:
  "\<not> dq_stop_risk_authorizable (evaluate_deriv_quantity_capability s consumption evaluation)
   \<and> dq_missing_requirements (evaluate_deriv_quantity_capability s consumption evaluation) \<noteq> []"
  using proof_requirement_nonempty by (simp add: evaluate_deriv_quantity_capability_def missing_requirements_def Let_def)

text \<open>Within the fail-closed rule the assessment is exact: a specification that states every fact
  about itself and carries a verified proof that applies to it misses the registration of the proof
  and nothing else.\<close>

theorem deriv_only_registration_missing:
  assumes "dc_schema_version s = 1" "dc_broker s = ''deriv''"
    and "dc_contract_type s = Some contract_type" "contract_type = ''MULTUP'' \<or> contract_type = ''MULTDOWN''"
    and "dc_contract_availability s = SUPPORTED" "dc_symbol_support s = SUPPORTED"
    and "dc_quantity_basis s = Some ''stake''" "truthy_text (dc_duration_requirements_id s)"
    and "truthy_text (dc_account_currency s)" "truthy_text (dc_currency_treatment_id s)"
    and "dc_multiplier s = Some multiplier" "\<not> dc_multiplier_is_placeholder s"
    and "dc_minimum_stake s = Some minimum" "dc_stake_precision s = Some digits" "dc_stake_increment s = Some step"
    and "''stop_loss'' \<in> set (dc_supported_limit_order_fields s)"
    and "dc_loss_model_proof s = Some p" "dp_validation_state p = PROOF_VERIFIED"
    and "make_deriv_loss_model_proof p = Inr p"
    and "dc_loss_model_id s = Some (dp_loss_model_id p)" "dc_loss_model_version s = Some (dp_loss_model_version p)"
    and "dc_evidence_source_id s = Some (dp_evidence_source_id p)" "dp_broker p = ''deriv''"
    and "dp_contract_family p = contract_type" "dp_quantity_basis p = ''stake''"
    and "dc_stop_loss_semantic_id s = Some (dp_stop_loss_semantic_id p)"
    and "dc_multiplier_semantics_id s = Some (dp_multiplier_semantics_id p)"
    and "dc_verification_state s = SPEC_VERIFIED"
  shows "capability_reason (evaluate_deriv_quantity_capability s consumption evaluation) =
    ''Deriv loss-model proof is not verified: authoritative proof registration''"
proof -
  have "dp_loss_model_id p \<noteq> []" "dp_evidence_source_id p \<noteq> []" "dp_stop_loss_semantic_id p \<noteq> []"
    "dp_multiplier_semantics_id p \<noteq> []"
    using assms(19) by (auto simp: make_deriv_loss_model_proof_def deriv_required_text_def split: if_splits)
  with assms have "missing_requirements s = [''authoritative proof registration'']"
    by (auto simp: missing_requirements_def proof_requirement_def AUTHORIZED_LOSS_MODEL_PROOFS_def)
  then show ?thesis by (simp add: evaluate_deriv_quantity_capability_def capability_reason_def Let_def)
qed

definition sample_deriv_proof :: deriv_loss_model_proof where
  "sample_deriv_proof =
     \<lparr>dp_proof_schema_version = 1, dp_loss_model_id = ''m'', dp_loss_model_version = 1,
      dp_evidence_source_id = ''e'', dp_validation_state = PROOF_VERIFIED, dp_broker = ''deriv'',
      dp_contract_family = ''MULTUP'', dp_quantity_basis = ''stake'', dp_stop_loss_semantic_id = ''s'',
      dp_multiplier_semantics_id = ''x''\<rparr>"

definition sample_deriv_specification :: deriv_contract_specification where
  "sample_deriv_specification =
     \<lparr>dc_schema_version = 1, dc_broker = ''deriv'', dc_contract_type = Some ''MULTUP'',
      dc_contract_availability = SUPPORTED, dc_symbol = Some ''R_75'', dc_symbol_support = SUPPORTED,
      dc_duration_requirements_id = Some ''d'', dc_quantity_basis = Some ''stake'', dc_account_currency = Some ''USD'',
      dc_currency_treatment_id = Some ''c'', dc_multiplier = Some (Fin 100), dc_multiplier_semantics_id = Some ''x'',
      dc_multiplier_is_placeholder = False, dc_minimum_stake = Some (Fin 1), dc_stake_precision = Some 2,
      dc_stake_increment = Some (Fin 1), dc_stop_loss_semantic_id = Some ''s'',
      dc_supported_limit_order_fields = [''stop_loss''],
      dc_loss_model_id = Some ''m'', dc_loss_model_version = Some 1, dc_evidence_source_id = Some ''e'',
      dc_loss_model_proof = Some sample_deriv_proof, dc_verification_state = SPEC_VERIFIED\<rparr>"

lemma sample_deriv_proof_valid: "make_deriv_loss_model_proof sample_deriv_proof = Inr sample_deriv_proof"
  by (simp add: make_deriv_loss_model_proof_def sample_deriv_proof_def deriv_required_text_def nonblank_iff
      py_isspace_def)

theorem deriv_only_registration_missing_witness:
  "capability_reason (evaluate_deriv_quantity_capability sample_deriv_specification None None) =
    ''Deriv loss-model proof is not verified: authoritative proof registration''"
  by (rule deriv_only_registration_missing [where p = sample_deriv_proof and contract_type = "''MULTUP''"])
    (simp_all add: sample_deriv_proof_valid, simp_all add: sample_deriv_specification_def sample_deriv_proof_def)

end
