(* ===== verification/Position_Sizing.thy ===== *)
theory Position_Sizing
  imports Simulation_Contract Deriv_Contract
begin

text \<open>
  Translating authorized cash risk into a quantity (\<open>src/risk/position_sizing.py\<close>): the sizing that
  broker-bound orders use, over the simulation contract and the Deriv capability, and the lot
  calculator of the backtests. Balance, prices and percentages are floats.
\<close>

section \<open>Authorizing a quantity\<close>

record sizing_decision =
  sz_authorized_risk_amount :: pyfloat
  sz_quantity :: "execution_quantity option"
  sz_expected_loss_at_stop :: "pyfloat option"
  sz_risk_verifiable :: bool
  sz_reason :: string

definition unauthorized :: "pyfloat \<Rightarrow> string \<Rightarrow> sizing_decision" where
  "unauthorized authorized_risk reason =
     \<lparr>sz_authorized_risk_amount = authorized_risk, sz_quantity = None, sz_expected_loss_at_stop = None,
      sz_risk_verifiable = False, sz_reason = reason\<rparr>"

definition authorized_risk_decimal :: "pyfloat \<Rightarrow> pyfloat \<Rightarrow> pydec result" where
  "authorized_risk_decimal balance risk_percent =
     rbind (dec_mult (dec_of_float balance) (dec_of_float risk_percent)) (\<lambda>p. dec_div p (Dec 100))"

definition stop_distance_decimal :: "pyfloat \<Rightarrow> pyfloat \<Rightarrow> pydec result" where
  "stop_distance_decimal entry stop_loss =
     rbind (dec_minus (dec_of_float entry) (dec_of_float stop_loss)) (\<lambda>d. Inr (dec_abs d))"

definition authorize_deriv_demo :: "pyfloat \<Rightarrow> sizing_decision result" where
  "authorize_deriv_demo authorized_risk =
     (let stake = py_round 2 authorized_risk in
      if stake \<le> Fin 0 then Inr (unauthorized authorized_risk ''Authorized stake is zero or negative'')
      else rbind (make_quantity stake DERIV_STAKE) (\<lambda>quantity.
        Inr \<lparr>sz_authorized_risk_amount = authorized_risk, sz_quantity = Some quantity,
             sz_expected_loss_at_stop = Some stake, sz_risk_verifiable = True,
             sz_reason = ''Deriv demo stake authorized from cash risk''\<rparr>))"

definition authorize_simulation :: "pyfloat \<Rightarrow> pydec \<Rightarrow> pydec \<Rightarrow> sizing_decision result" where
  "authorize_simulation authorized_risk risk distance =
     rbind (canonical_simulation_specification (NDec distance)) (\<lambda>specification.
     rbind authoritative_simulation_registry (\<lambda>registry.
     let capability = evaluate_simulation_capability specification (Some canonical_simulation_proof) registry in
     if \<not> sc_stop_risk_authorizable capability then Inr (unauthorized authorized_risk (sc_reason capability))
     else rbind (floor_synthetic_quantity_exact (NDec risk) specification) (\<lambda>floored.
       case floored of
         None \<Rightarrow> Inr (unauthorized authorized_risk ''Authorized risk is below the synthetic minimum quantity'')
       | Some quantity \<Rightarrow>
           rbind (dec_mult quantity distance) (\<lambda>expected_loss.
           rbind (dec_less risk expected_loss) (\<lambda>over.
           if over then Inr (unauthorized authorized_risk ''Synthetic quantity exceeds the exact authorized risk'')
           else rbind (make_quantity (dec_to_float quantity) SIMULATION_UNITS) (\<lambda>q.
             Inr \<lparr>sz_authorized_risk_amount = authorized_risk, sz_quantity = Some q,
                  sz_expected_loss_at_stop = Some (dec_to_float expected_loss), sz_risk_verifiable = True,
                  sz_reason = ''JQE synthetic simulation proof verifies linear stop risk''\<rparr>))))))"

definition authorize_execution_quantity ::
  "string \<Rightarrow> pyfloat \<Rightarrow> pyfloat \<Rightarrow> pyfloat \<Rightarrow> pyfloat \<Rightarrow> sizing_decision result" where
  "authorize_execution_quantity broker balance risk_percent entry stop_loss =
     rbind (authorized_risk_decimal balance risk_percent) (\<lambda>risk.
     rbind (stop_distance_decimal entry stop_loss) (\<lambda>distance.
     let authorized_risk = dec_to_float risk; stop_distance = dec_to_float distance in
     if authorized_risk \<le> Fin 0 \<or> stop_distance \<le> Fin 0
     then Inr (unauthorized authorized_risk ''Risk amount or stop distance is invalid'')
     else if broker = ''deriv''
     then rbind current_deriv_multiplier_specification (\<lambda>specification.
       Inr (unauthorized authorized_risk
         (capability_reason (evaluate_deriv_quantity_capability specification None None))))
     else if broker = ''mt5'' \<or> broker = ''mt5_demo''
     then Inr (unauthorized authorized_risk
       ''MT5 sizing requires gateway order_calc_profit/order_calc_margin authority'')
     else if broker = ''deriv_demo'' then authorize_deriv_demo authorized_risk
     else if broker \<noteq> ''simulation''
     then Inr (unauthorized authorized_risk ''Broker stop-risk conversion is not proven'')
     else authorize_simulation authorized_risk risk distance))"

section \<open>Backtesting lots\<close>

record position_sizing =
  psz_min_lot :: pyfloat
  psz_max_lot :: pyfloat

definition calculate_lot :: "position_sizing \<Rightarrow> pyfloat \<Rightarrow> pyfloat \<Rightarrow> pyfloat \<Rightarrow> pyfloat result" where
  "calculate_lot sizer risk_amount stop_distance pip_value =
     (if stop_distance \<le> Fin 0 \<or> risk_amount \<le> Fin 0 then Inr (Fin 0)
      else rbind (fdiv risk_amount (stop_distance * pip_value)) (\<lambda>raw_lot.
        Inr (py_round 2 (py_max (psz_min_lot sizer) (py_min raw_lot (psz_max_lot sizer))))))"

text \<open>The literal \<open>0.01\<close>.\<close>

definition cent :: pyfloat where
  "cent = fl (1/100)"

definition calculate_position_size :: "pyfloat \<Rightarrow> pyfloat \<Rightarrow> pyfloat \<Rightarrow> pyfloat \<Rightarrow> pyfloat result" where
  "calculate_position_size balance risk_percent stop_loss pip_value =
     (if stop_loss \<le> Fin 0 then Inr cent
      else rbind (fdiv risk_percent (Fin 100)) (\<lambda>fraction.
        rbind (calculate_lot \<lparr>psz_min_lot = cent, psz_max_lot = Fin 100\<rparr> (balance * fraction) stop_loss pip_value)
          (\<lambda>lot. Inr (py_max lot cent))))"

section \<open>Lemmas\<close>

lemma unauthorized_simps [simp]:
  "sz_quantity (unauthorized r t) = None" "\<not> sz_risk_verifiable (unauthorized r t)"
  by (simp_all add: unauthorized_def)

lemma make_quantity_Inr: "make_quantity v u = Inr q \<longleftrightarrow> positive_finite v \<and> q = \<lparr>qty_value = v, qty_unit = u\<rparr>"
  by (auto simp: make_quantity_def)

lemma canonical_specification_Inr:
  assumes "canonical_simulation_specification (NDec d) = Inr s"
  obtains q where "d = Dec q" "0 < q" "is_finite (fl q)" "ss_stop_risk_per_unit s = NDec (Dec q)"
    "ss_minimum_quantity s = NFloat tiny" "ss_quantity_increment s = NFloat tiny"
  using assms
  by (cases d) (auto simp: canonical_simulation_specification_def make_simulation_specification_def
      require_positive_def split: if_splits intro: that)

lemma fl_pos_pos: "Fin 0 < fl q \<Longrightarrow> 0 < q"
  using fl_nonpos [of q] by (cases "fl q") (auto simp: not_le [symmetric])

lemma fl_tiny_zero: "fl (2 powi (-1076)) = Fin 0"
proof -
  let ?q = "2 powi (-1076) :: rat"
  have q: "0 < ?q" by simp
  have "ilog 2 ?q = -1076" by (rule ilog_unique) (simp_all add: power_int_strict_increasing)
  then have "quantum 2 53 (-1074) ?q = -1074" using q by (simp add: quantum_def)
  moreover have "?q / 2 powi (-1074) = 1/4"
  proof -
    have "?q = 2 powi (-1074) * 2 powi (-2)" by (subst power_int_add [symmetric]) auto
    then show ?thesis by simp
  qed
  moreover have "round_half_even (1/4) = 0" by (rule round_half_even_eqI) simp
  ultimately have "round_sig 2 53 (-1074) ?q = 0" by (simp add: round_sig_def Let_def)
  then show ?thesis by (rule fl_roundI) simp
qed

lemma fl_pos_lower: "Fin 0 < fl x \<Longrightarrow> 10 powi (-400) \<le> x"
proof (rule ccontr)
  assume pos: "Fin 0 < fl x" and "\<not> 10 powi (-400) \<le> x"
  moreover have "(10 :: rat) powi (-400) \<le> 2 powi (-1076)"
    by (simp add: power_int_minus le_imp_inverse_le)
  ultimately have "fl x \<le> fl (2 powi (-1076))" by (intro fl_mono) linarith
  then have "fl x \<le> Fin 0" unfolding fl_tiny_zero .
  from pyfloat_less_le_trans [OF pos this] show False by simp
qed


lemma tiny_Fin: "\<exists>t. tiny = Fin t \<and> 0 < t \<and> is_double (Fin t)"
proof -
  have "fl (1 / 10 ^ 12) = Fin (of_int 4951760157141521 / 2 ^ 92)"
    by (rule fl_eval) simp_all
  moreover have "is_double (fl (1 / 10 ^ 12))" by simp
  ultimately show ?thesis unfolding tiny_def by (intro exI [of _ "of_int 4951760157141521 / 2 ^ 92"]) simp
qed

lemma dec_tiny: "\<exists>m. dec_of_float tiny = Dec m \<and> 10 powi (-400) \<le> m"
proof -
  from tiny_Fin obtain t where t: "tiny = Fin t" "0 < t" "is_double (Fin t)" by blast
  have "10 powi (-400) \<le> repr_value t"
    by (rule fl_pos_lower) (simp add: repr_value_roundtrip [OF t(3)] t(2))
  then show ?thesis by (simp add: t(1))
qed

text \<open>The exact loss of a quantity whose rounded loss is within the risk.\<close>

lemma rounded_loss_bound:
  assumes "dec_round (n * d) \<le> risk" "0 < c" "c \<le> n" "c \<le> d" "c * c = 10 powi k" "- 999998 \<le> k"
  shows "n * d * (1 - 10 powi (-27) / 2) \<le> risk"
proof -
  have "c * c \<le> n * d" using assms by (intro mult_mono) auto
  moreover have nd: "0 \<le> n * d" using assms by (intro mult_nonneg_nonneg) auto
  ultimately have lo: "10 powi k \<le> \<bar>n * d\<bar>" using assms by simp
  define e :: rat where "e = 10 powi (-27) / 2"
  have "\<bar>dec_round (n * d) - n * d\<bar> \<le> n * d * e"
    using dec_round_error [OF lo assms(6)] nd unfolding e_def by (simp only: abs_of_nonneg times_divide_eq_right)
  then have "n * d - n * d * e \<le> dec_round (n * d)" by (simp only: abs_le_iff) linarith
  with assms(1) show ?thesis unfolding e_def [symmetric] by (simp only: right_diff_distrib mult_1_right)
qed

lemma exact_loss_bound:
  assumes "dec_round (n * d) \<le> risk" "10 powi (-400) \<le> n" "10 powi (-400) \<le> d"
  shows "n * d * (1 - 10 powi (-27) / 2) \<le> risk"
proof (rule rounded_loss_bound [OF assms(1) _ assms(2,3)])
  show "0 < (10 :: rat) powi (-400)" by (rule zero_less_power_int) (rule zero_less_numeral)
  show "(10 :: rat) powi (-400) * 10 powi (-400) = 10 powi (-400 + -400)"
    by (rule power_int_add [symmetric]) (rule disjI1, rule numeral_neq_zero)
qed simp

lemma floor_canonical:
  assumes s: "canonical_simulation_specification (NDec distance) = Inr s"
    and f: "floor_synthetic_quantity_exact (NDec risk) s = Inr (Some quantity)"
  obtains r d n where "risk = Dec r" "distance = Dec d" "quantity = Dec n" "0 < d"
    "10 powi (-400) \<le> n" "dec_round (n * d) \<le> r"
proof -
  from canonical_specification_Inr [OF s] obtain d where d: "distance = Dec d" "0 < d"
    "ss_stop_risk_per_unit s = NDec (Dec d)" "ss_minimum_quantity s = NFloat tiny" .
  from dec_tiny obtain m where m: "dec_of_float tiny = Dec m" "10 powi (-400) \<le> m" by blast
  from floor_exact_sound [OF f] d(3,4) m(1) obtain
    pos: "number_positive (NDec risk) = Inr True"
    and q: "dec_less quantity (Dec m) = Inr False" "exceeds quantity (Dec d) risk = Inr False" by auto
  from pos obtain r where r: "risk = Dec r" by (cases risk) auto
  from q r d(2) obtain n where n: "quantity = Dec n" by (cases quantity) (auto simp: exceeds_def split: if_splits)
  have "m \<le> n" "dec_round (n * d) \<le> r" using q n r by (auto simp: exceeds_def)
  with m(2) d(1,2) r n that show thesis by (metis order_trans)
qed

lemma pyfloat_pos_iff: "x \<noteq> NaN \<Longrightarrow> \<not> x \<le> Fin 0 \<longleftrightarrow> Fin 0 < x"
  by (cases x) auto

lemma authorize_simulation_Some:
  assumes "authorize_simulation authorized risk distance = Inr d" "sz_quantity d = Some q"
  obtains s quantity loss where "canonical_simulation_specification (NDec distance) = Inr s"
    "floor_synthetic_quantity_exact (NDec risk) s = Inr (Some quantity)"
    "dec_mult quantity distance = Inr loss" "dec_less risk loss = Inr False"
    "make_quantity (dec_to_float quantity) SIMULATION_UNITS = Inr q"
    "d = \<lparr>sz_authorized_risk_amount = authorized, sz_quantity = Some q,
      sz_expected_loss_at_stop = Some (dec_to_float loss), sz_risk_verifiable = True,
      sz_reason = ''JQE synthetic simulation proof verifies linear stop risk''\<rparr>"
  using assms
  by (auto simp: authorize_simulation_def Let_def unauthorized_def split: if_splits option.splits intro: that)

lemma authorize_deriv_demo_Some:
  assumes "authorize_deriv_demo authorized = Inr d" "sz_quantity d = Some q"
  shows "make_quantity (py_round 2 authorized) DERIV_STAKE = Inr q"
  using assms by (auto simp: authorize_deriv_demo_def Let_def split: if_splits)

lemma authorize_quantity_Some:
  assumes "authorize_execution_quantity broker balance risk_percent entry stop_loss = Inr d" "sz_quantity d = Some q"
  obtains risk distance where "authorized_risk_decimal balance risk_percent = Inr risk"
    "stop_distance_decimal entry stop_loss = Inr distance"
    "\<not> dec_to_float risk \<le> Fin 0" "\<not> dec_to_float distance \<le> Fin 0"
    "broker = ''deriv_demo'' \<and> authorize_deriv_demo (dec_to_float risk) = Inr d
     \<or> broker = ''simulation'' \<and> authorize_simulation (dec_to_float risk) risk distance = Inr d"
  using assms
  by (auto simp: authorize_execution_quantity_def Let_def split: if_splits intro: that)

section \<open>Properties\<close>


text \<open>Sizing fails closed: a quantity is only ever authorized for the simulation and for the
  Deriv demo account, it is a positive finite number in the unit of that broker, and both the
  authorized risk and the stop distance were positive.\<close>

theorem sizing_fails_closed:
  assumes "authorize_execution_quantity broker balance risk_percent entry stop_loss = Inr d"
    and "sz_quantity d = Some q"
  shows "(broker = ''simulation'' \<and> qty_unit q = SIMULATION_UNITS \<or> broker = ''deriv_demo'' \<and> qty_unit q = DERIV_STAKE)
    \<and> positive_finite (qty_value q)
    \<and> (\<exists>risk distance. authorized_risk_decimal balance risk_percent = Inr risk
        \<and> stop_distance_decimal entry stop_loss = Inr distance
        \<and> \<not> dec_to_float risk \<le> Fin 0 \<and> \<not> dec_to_float distance \<le> Fin 0)"
  using assms
  by (elim authorize_quantity_Some)
    (auto elim!: authorize_simulation_Some dest!: authorize_deriv_demo_Some simp: make_quantity_Inr)

text \<open>A backtesting lot stays within its bounds: it is zero for a risk or a stop distance that is
  not positive, and otherwise between the minimum and the maximum lot, both rounded to cents,
  whatever the quotient (also when it is not a number).\<close>

theorem lot_within_bounds:
  assumes "calculate_lot sizer risk_amount stop_distance pip_value = Inr lot"
    and "psz_min_lot sizer \<le> psz_max_lot sizer"
  shows "if stop_distance \<le> Fin 0 \<or> risk_amount \<le> Fin 0 then lot = Fin 0
    else py_round 2 (psz_min_lot sizer) \<le> lot \<and> lot \<le> py_round 2 (psz_max_lot sizer)"
proof -
  let ?lo = "psz_min_lot sizer" and ?hi = "psz_max_lot sizer"
  have "?lo \<le> py_max ?lo (py_min raw ?hi) \<and> py_max ?lo (py_min raw ?hi) \<le> ?hi" for raw
    using assms(2) by (cases ?lo; cases ?hi; cases raw) (auto simp: py_max_def py_min_def)
  then show ?thesis using assms(1) by (auto simp: calculate_lot_def py_round_mono split: if_splits)
qed

section \<open>A sample authorization\<close>

lemma dec_round_exact: "q = of_int m * 10 powi k \<Longrightarrow> \<bar>m\<bar> < 10 ^ 28 \<Longrightarrow> - 1000026 \<le> k \<Longrightarrow> dec_round q = q"
  unfolding dec_round_def by (rule round_sig_exact [of 10 q m k]) simp_all

lemma repr_tiny: "dec_of_float tiny = Dec (1 / 10 ^ 12)"
proof -
  define t :: rat where "t = of_int 4951760157141521 / 2 ^ 92"
  have t: "fl (1 / 10 ^ 12) = Fin t" unfolding t_def by (rule fl_eval) simp_all
  have nine: "fl (9 / 10 ^ 13) = Fin (of_int 8913168282854738 / 2 ^ 93)" by (rule fl_eval) simp_all
  have other: "fl (9 / 10 ^ 13) \<noteq> Fin t" unfolding nine t_def by simp
  have pos: "\<bar>t\<bar> = t" "t \<noteq> 0" by (simp_all add: t_def)
  have il: "ilog 10 t = -13" unfolding t_def by (rule ilog_unique) (simp_all add: power_int_def power_one_over)
  have u: "(10 :: rat) powi (-13 - int 1 + 1) = 1 / 10 ^ 13" by (simp add: power_int_def power_one_over)
  have "\<lfloor>t / (1 / 10 ^ 13)\<rfloor> = 9" "\<lceil>t / (1 / 10 ^ 13)\<rceil> = 10"
    unfolding t_def floor_eq_iff ceiling_eq_iff by simp_all
  moreover have "of_int 9 * (1 / 10 ^ 13) = (9 / 10 ^ 13 :: rat)" "of_int 10 * (1 / 10 ^ 13) = (1 / 10 ^ 12 :: rat)"
    by simp_all
  ultimately have "neighbours 1 t = [1 / 10 ^ 12]"
    using t other unfolding neighbours_def pos(1) il u by (simp only: Let_def filter.simps if_True if_False simp_thms)
  moreover have "[1..<18] = 1 # [2..<18]" by (simp add: upt_rec)
  ultimately have "repr_value t = 1 / 10 ^ 12" using pos(2) by (simp add: repr_value_def)
  then show ?thesis unfolding tiny_def t dec_of_float.simps by (rule arg_cong)
qed

lemma repr_sample:
  "repr_value 1000 = 1000" "repr_value (1/2) = 1/2" "repr_value 100 = 100" "repr_value 90 = 90" "repr_value 1 = 1"
  using fl_dyadic [of 1 "1/2" 1] repr_value_one_digit [of 1000 1 3] repr_value_one_digit [of "1/2" 5 "-1"]
    repr_value_one_digit [of 100 1 2] repr_value_one_digit [of 90 9 1] repr_value_one_digit [of 1 1 0]
  by (simp_all add: power_int_minus)

lemma dec_round_sample:
  "dec_round 500 = 500" "dec_round 5 = 5" "dec_round 10 = 10" "dec_round (1/2) = 1/2"
  "dec_round 500000000000 = 500000000000"
  using dec_round_exact [of 500 5 2] dec_round_exact [of 5 5 0] dec_round_exact [of 10 1 1]
    dec_round_exact [of "1/2" 5 "-1"] dec_round_exact [of 500000000000 5 11]
  by (simp_all add: power_int_minus)

definition sample_sizing :: sizing_decision where
  "sample_sizing = \<lparr>sz_authorized_risk_amount = Fin 5,
     sz_quantity = Some \<lparr>qty_value = Fin (1/2), qty_unit = SIMULATION_UNITS\<rparr>,
     sz_expected_loss_at_stop = Some (Fin 5), sz_risk_verifiable = True,
     sz_reason = ''JQE synthetic simulation proof verifies linear stop risk''\<rparr>"

lemma canonical_specification_ok:
  assumes "0 < q" "is_finite (fl q)"
  obtains s where "canonical_simulation_specification (NDec (Dec q)) = Inr s"
    "ss_stop_risk_per_unit s = NDec (Dec q)" "ss_minimum_quantity s = NFloat tiny"
    "ss_quantity_increment s = NFloat tiny"
    "\<And>reg. authoritative_simulation_registry = Inr reg \<Longrightarrow>
       sc_stop_risk_authorizable (evaluate_simulation_capability s (Some canonical_simulation_proof) reg)"
proof -
  from tiny_Fin obtain t where t: "tiny = Fin t" "0 < t" by blast
  have "positive_finite tiny" unfolding t(1) using t(2) by (simp add: positive_finite_def)
  with assms obtain s where s: "canonical_simulation_specification (NDec (Dec q)) = Inr s"
    by (simp add: canonical_simulation_specification_def make_simulation_specification_def require_positive_def
        require_texts_def nonblank_iff py_isspace_def)
  then have "sc_stop_risk_authorizable (evaluate_simulation_capability s (Some canonical_simulation_proof) reg)"
    if "authoritative_simulation_registry = Inr reg" for reg
    using that by (auto simp: capability_iff authoritative_simulation_registry_def register_def
        canonical_simulation_proof_def proof_identity_def canonical_simulation_specification_def
        make_simulation_specification_def split: if_splits)
  with s canonical_specification_Inr [OF s] show thesis by (auto intro: that)
qed


lemma sample_sizing_result:
  "authorize_execution_quantity ''simulation'' (Fin 1000) (Fin (1/2)) (Fin 100) (Fin 90) = Inr sample_sizing"
proof -
  have risk: "authorized_risk_decimal (Fin 1000) (Fin (1/2)) = Inr (Dec 5)"
    by (simp add: authorized_risk_decimal_def repr_sample dec_round_sample)
  have dist: "stop_distance_decimal (Fin 100) (Fin 90) = Inr (Dec 10)"
    by (simp add: stop_distance_decimal_def repr_sample dec_round_sample)
  obtain s where s: "canonical_simulation_specification (NDec (Dec 10)) = Inr s"
    "ss_stop_risk_per_unit s = NDec (Dec 10)" "ss_minimum_quantity s = NFloat tiny"
    "ss_quantity_increment s = NFloat tiny"
    and cap: "\<And>reg. authoritative_simulation_registry = Inr reg \<Longrightarrow>
       sc_stop_risk_authorizable (evaluate_simulation_capability s (Some canonical_simulation_proof) reg)"
    by (rule canonical_specification_ok [of 10]) auto
  have fl: "floor_synthetic_quantity_exact (NDec (Dec 5)) s = Inr (Some (Dec (1/2)))"
    by (simp add: floor_synthetic_quantity_exact_def s repr_tiny dec_round_sample exceeds_def)
  obtain reg where reg: "authoritative_simulation_registry = Inr reg"
    by (simp add: authoritative_simulation_registry_def register_def canonical_simulation_proof_def)
  have half: "fl (1/2) = Fin (1/2)" using fl_dyadic [of 1 "1/2" 1] by simp
  have "authorize_simulation (Fin 5) (Dec 5) (Dec 10) = Inr sample_sizing"
    by (simp add: authorize_simulation_def s(1) reg cap [OF reg] fl dec_round_sample make_quantity_Inr
        positive_finite_def half sample_sizing_def)
  then show ?thesis
    by (simp add: authorize_execution_quantity_def risk dist)
qed


theorem sizing_fails_closed_witness:
  "\<exists>d q. authorize_execution_quantity ''simulation'' (Fin 1000) (Fin (1/2)) (Fin 100) (Fin 90) = Inr d
     \<and> sz_quantity d = Some q \<and> positive_finite (qty_value q)"
  using sizing_fails_closed [OF sample_sizing_result] sample_sizing_result
  by (auto simp: sample_sizing_def)

theorem lot_within_bounds_witness:
  "calculate_lot \<lparr>psz_min_lot = Fin 1, psz_max_lot = Fin 100\<rparr> (Fin 500) (Fin 1) (Fin 1) = Inr (Fin 100)
   \<and> Fin 100 \<le> py_round 2 (Fin 100)"
proof -
  have "calculate_lot \<lparr>psz_min_lot = Fin 1, psz_max_lot = Fin 100\<rparr> (Fin 500) (Fin 1) (Fin 1) = Inr (Fin 100)"
    using round_half_even_of_int [of 10000]
    by (simp add: calculate_lot_def py_min_def py_max_def py_round_def)
  with lot_within_bounds [OF this] show ?thesis by simp
qed

text \<open>The Deriv demo sizing can authorize more than the risk: with a balance of 1 and half a
  percent of risk the authorized amount is 0.005, the stake is rounded up to 0.01, and the decision
  is marked as verified although its expected loss is twice the authorized risk.\<close>

theorem deriv_demo_stake_exceeds_risk:
  "\<exists>d loss. authorize_execution_quantity ''deriv_demo'' (Fin 1) (Fin (1/2)) (Fin 100) (Fin 90) = Inr d
     \<and> sz_risk_verifiable d \<and> sz_expected_loss_at_stop d = Some loss
     \<and> loss = sz_authorized_risk_amount d * Fin 2 \<and> sz_authorized_risk_amount d < loss"
proof -
  have r: "dec_round (1/2) = 1/2" "dec_round (1/200) = 1/200" "dec_round 10 = 10"
    using dec_round_exact [of "1/2" 5 "-1"] dec_round_exact [of "1/200" 5 "-3"] dec_round_exact [of 10 1 1]
    by (simp_all add: power_int_minus)
  have risk: "authorized_risk_decimal (Fin 1) (Fin (1/2)) = Inr (Dec (1/200))"
    by (simp add: authorized_risk_decimal_def repr_sample r)
  have dist: "stop_distance_decimal (Fin 100) (Fin 90) = Inr (Dec 10)"
    by (simp add: stop_distance_decimal_def repr_sample r)
  define f :: rat where "f = of_int 5764607523034235 / 2 ^ 60"
  have f: "fl (1/200) = Fin f" unfolding f_def by (rule fl_eval) simp_all
  have c: "fl (1/100) = Fin (f * 2)"
    using fl_eval [of "1/100" 59 5764607523034235] by (simp add: f_def)
  have "round_half_even (f * 10 ^ 2) = 1" by (rule round_half_even_eqI) (simp add: f_def)
  then have stake: "py_round 2 (Fin f) = Fin (f * 2)" using c by (simp add: py_round_def)
  have f2: "fl (f * 2) = Fin (f * 2)" using is_double_fl [of "1/100"] by (simp add: c is_double_def)
  have pos: "0 < f" by (simp add: f_def)
  show ?thesis
    using pos by (simp add: authorize_execution_quantity_def risk dist f authorize_deriv_demo_def stake
        make_quantity_Inr positive_finite_def Let_def f2)
qed

end
