(* ===== verification/Simulation_Gateway.thy ===== *)
theory Simulation_Gateway
  imports Reconciliation
begin

text \<open>
  The in-memory broker (\<open>src/broker/simulation_gateway.py\<close>): connection, synthetic candles and
  ticks, order fills, positions and closed-trade history, and the adapter that binds orders to a
  closed market observation. Log calls are left out.

  The locale \<open>order_book\<close> states what the simulation reconciliation relies on, that the broker's
  book only grows and keeps its keys apart; it is interpreted on the gateway's calls.
\<close>

section \<open>Market data\<close>

record candle =
  cd_time :: pydatetime
  cd_open :: pyfloat
  cd_high :: pyfloat
  cd_low :: pyfloat
  cd_close :: pyfloat
  cd_volume :: "pyfloat option"
  cd_source :: string

record tick =
  tk_time :: pydatetime
  tk_symbol :: string
  tk_bid :: pyfloat
  tk_ask :: pyfloat
  tk_last :: "pyfloat option"

record account_info =
  ai_account_id :: string
  ai_balance :: pyfloat
  ai_currency :: string
  ai_equity :: "pyfloat option"

text \<open>\<open>value - timedelta(seconds=n)\<close>\<close>

fun minus_seconds :: "pydatetime \<Rightarrow> int \<Rightarrow> pydatetime" where
  "minus_seconds (Aware t off) n = Aware (t - n * microseconds_per_second) off"
| "minus_seconds (Naive t) n = Naive (t - n * microseconds_per_second)"

text \<open>\<open>str(n)\<close> of a counter.\<close>

function nat_text :: "nat \<Rightarrow> string" where
  "nat_text n = (if n < 10 then [char_of (48 + n)] else nat_text (n div 10) @ [char_of (48 + n mod 10)])"
  by pat_completeness auto
termination by (relation "measure id") auto

declare nat_text.simps [simp del]

section \<open>State\<close>

text \<open>The random number generator is its state \<open>'r\<close> with the function \<open>uniform\<close>, a parameter of the
  operations that draw. \<open>_positions\<close> and \<open>_prices\<close> are dicts; a dict is an association list in
  insertion order.\<close>

record 'r simulation_gateway =
  gw_starting_balance :: pyfloat
  gw_connected :: bool
  gw_balance :: pyfloat
  gw_currency :: string
  gw_rng :: 'r
  gw_prices :: "(string \<times> pyfloat) list"
  gw_positions :: "(string \<times> position) list"
  gw_trade_history :: "trade_history_entry list"
  gw_next_order_id :: nat

type_synonym 'r draw = "pyfloat \<Rightarrow> pyfloat \<Rightarrow> 'r \<Rightarrow> pyfloat \<times> 'r"

definition make_gateway :: "pyfloat \<Rightarrow> 'r \<Rightarrow> 'r simulation_gateway" where
  "make_gateway starting_balance rng =
     \<lparr>gw_starting_balance = starting_balance, gw_connected = False, gw_balance = starting_balance,
      gw_currency = ''USD'', gw_rng = rng, gw_prices = [], gw_positions = [], gw_trade_history = [],
      gw_next_order_id = 1\<rparr>"

definition dict_set :: "'k \<Rightarrow> 'v \<Rightarrow> ('k \<times> 'v) list \<Rightarrow> ('k \<times> 'v) list" where
  "dict_set k v d = (if k \<in> fst ` set d then map (\<lambda>(k', v'). if k' = k then (k', v) else (k', v')) d else d @ [(k, v)])"

definition gw_connect :: "'r simulation_gateway \<Rightarrow> 'r simulation_gateway" where
  "gw_connect g = g\<lparr>gw_connected := True\<rparr>"

definition gw_disconnect :: "'r simulation_gateway \<Rightarrow> 'r simulation_gateway" where
  "gw_disconnect g = g\<lparr>gw_connected := False\<rparr>"

definition require_connected :: "'r simulation_gateway \<Rightarrow> unit result" where
  "require_connected g = (if gw_connected g then Inr ()
     else Inl (OtherException ''BrokerConnectionError: SimulationGateway is not connected''))"

definition get_account_info :: "'r simulation_gateway \<Rightarrow> account_info result" where
  "get_account_info g = rbind (require_connected g) (\<lambda>_.
     Inr \<lparr>ai_account_id = ''SIMULATED'', ai_balance = gw_balance g, ai_currency = gw_currency g,
          ai_equity = Some (gw_balance g)\<rparr>)"

section \<open>Prices\<close>

definition DEFAULT_STARTING_PRICE :: pyfloat where "DEFAULT_STARTING_PRICE = Fin 100"
definition MIN_PRICE :: pyfloat where "MIN_PRICE = fl (1/100)"

text \<open>\<open>_DEFAULT_SPREAD / 2\<close> with the default spread \<open>0.02\<close>.\<close>

definition HALF_SPREAD :: pyfloat where
  "HALF_SPREAD = (case fdiv (fl (1/50)) (Fin 2) of Inl e \<Rightarrow> NaN | Inr x \<Rightarrow> x)"

definition price_for :: "string \<Rightarrow> 'r simulation_gateway \<Rightarrow> pyfloat \<times> 'r simulation_gateway" where
  "price_for symb g = (case map_of (gw_prices g) symb of
     Some p \<Rightarrow> (p, g)
   | None \<Rightarrow> (DEFAULT_STARTING_PRICE, g\<lparr>gw_prices := gw_prices g @ [(symb, DEFAULT_STARTING_PRICE)]\<rparr>))"

definition next_candle :: "'r draw \<Rightarrow> pydatetime \<Rightarrow> pyfloat \<Rightarrow> 'r \<Rightarrow> candle \<times> 'r" where
  "next_candle uniform time open_price r\<^sub>0 =
     (let (d, r\<^sub>1) = uniform (Fin (-1/2)) (Fin (1/2)) r\<^sub>0;
          close_price = py_max MIN_PRICE (open_price + d);
          (up, r\<^sub>2) = uniform (Fin 0) (fl (1/5)) r\<^sub>1;
          high = py_max open_price close_price + \<bar>up\<bar>;
          (down, r\<^sub>3) = uniform (Fin 0) (fl (1/5)) r\<^sub>2;
          low = py_max MIN_PRICE (py_min open_price close_price - \<bar>down\<bar>);
          (vol, r\<^sub>4) = uniform (Fin 10) (Fin 100) r\<^sub>3
      in (\<lparr>cd_time = time, cd_open = open_price, cd_high = high, cd_low = low, cd_close = close_price,
           cd_volume = Some vol, cd_source = ''simulation''\<rparr>, r\<^sub>4))"

text \<open>The loop of \<open>get_candles\<close>: \<open>n\<close> candles are left, the next one is \<open>n\<close> steps before the anchor.\<close>

fun candle_loop :: "'r draw \<Rightarrow> pydatetime \<Rightarrow> int \<Rightarrow> nat \<Rightarrow> pyfloat \<Rightarrow> 'r \<Rightarrow> candle list \<times> pyfloat \<times> 'r" where
  "candle_loop uniform anchor step 0 price r = ([], price, r)"
| "candle_loop uniform anchor step (Suc n) price r =
     (case next_candle uniform (minus_seconds anchor (step * int (Suc n))) price r of
        (c, r) \<Rightarrow> (case candle_loop uniform anchor step n (cd_close c) r of
          (cs, price, r) \<Rightarrow> (c # cs, price, r)))"

definition get_candles ::
  "'r draw \<Rightarrow> pydatetime \<Rightarrow> string \<Rightarrow> timeframe \<Rightarrow> int \<Rightarrow> pydatetime option \<Rightarrow> 'r simulation_gateway
   \<Rightarrow> candle list result \<times> 'r simulation_gateway" where
  "get_candles uniform now symb tf count stop g =
     (case require_connected g of Inl e \<Rightarrow> (Inl e, g)
      | Inr _ \<Rightarrow>
          (let anchor = (case stop of Some t \<Rightarrow> t | None \<Rightarrow> now); (price, g) = price_for symb g;
               (cs, price, r) = candle_loop uniform anchor (TIMEFRAME_SECONDS tf) (nat count) price (gw_rng g)
           in (Inr cs, g\<lparr>gw_rng := r, gw_prices := dict_set symb price (gw_prices g)\<rparr>)))"

text \<open>One iteration of the tick stream; \<open>None\<close> ends the stream.\<close>

definition next_tick ::
  "'r draw \<Rightarrow> pydatetime \<Rightarrow> string \<Rightarrow> 'r simulation_gateway \<Rightarrow> tick option \<times> 'r simulation_gateway" where
  "next_tick uniform now symb g =
     (if \<not> gw_connected g then (None, g)
      else let (price, g) = price_for symb g;
               (d, r) = uniform (fl (-1/10)) (fl (1/10)) (gw_rng g);
               new_price = py_max MIN_PRICE (price + d)
           in (Some \<lparr>tk_time = now, tk_symbol = symb, tk_bid = new_price - HALF_SPREAD,
                    tk_ask = new_price + HALF_SPREAD, tk_last = Some new_price\<rparr>,
               g\<lparr>gw_rng := r, gw_prices := dict_set symb new_price (gw_prices g)\<rparr>))"

section \<open>Orders\<close>

definition order_text :: "nat \<Rightarrow> string" where
  "order_text n = ''SIM-'' @ nat_text n"

definition filled_position :: "string \<Rightarrow> order_request \<Rightarrow> pyfloat \<Rightarrow> pydatetime \<Rightarrow> position" where
  "filled_position order_id order price now =
     \<lparr>pos_position_id = order_id, pos_symbol = req_symbol order, pos_side = req_side order,
      pos_volume = qty_value (req_quantity order), pos_open_price = price, pos_current_price = Some price,
      pos_profit = Some (Fin 0), pos_stop_loss = Some (req_stop_loss order), pos_take_profit = req_take_profit order,
      pos_opened_at = Some now, pos_transaction_id = None, pos_contract_type = None, pos_magic = None,
      pos_comment = None\<rparr>"

definition fill_order ::
  "pydatetime \<Rightarrow> order_request \<Rightarrow> pyfloat \<Rightarrow> 'r simulation_gateway \<Rightarrow> order_result result \<times> 'r simulation_gateway" where
  "fill_order now order price g =
     (if qty_unit (req_quantity order) \<noteq> SIMULATION_UNITS
      then (Inl (OtherException ''ExecutionError: Simulation requires SIMULATION_UNITS''), g)
      else let order_id = order_text (gw_next_order_id g) in
        (Inr \<lparr>res_order_id = order_id, res_status = FILLED, res_symbol = req_symbol order,
              res_side = req_side order, res_volume = qty_value (req_quantity order),
              res_filled_price = Some price, res_transaction_id = None\<rparr>,
         g\<lparr>gw_next_order_id := gw_next_order_id g + 1,
           gw_positions := dict_set order_id (filled_position order_id order price now) (gw_positions g)\<rparr>))"

definition gw_submit_order ::
  "pydatetime \<Rightarrow> order_request \<Rightarrow> 'r simulation_gateway \<Rightarrow> order_result result \<times> 'r simulation_gateway" where
  "gw_submit_order now order g =
     (case require_connected g of Inl e \<Rightarrow> (Inl e, g)
      | Inr _ \<Rightarrow> (case price_for (req_symbol order) g of (price, g) \<Rightarrow> fill_order now order price g))"

definition submit_order_from_market_observation ::
  "pydatetime \<Rightarrow> order_request \<Rightarrow> closed_market_observation \<Rightarrow> 'r simulation_gateway
   \<Rightarrow> order_result result \<times> 'r simulation_gateway" where
  "submit_order_from_market_observation now order obs g =
     (case require_connected g of Inl e \<Rightarrow> (Inl e, g)
      | Inr _ \<Rightarrow>
          if py_upper (py_strip (req_symbol order)) \<noteq> py_upper (py_strip (cmo_canonical_symbol obs))
          then (Inl (OtherException ''ExecutionError: Simulation order symbol does not match market observation''), g)
          else if \<not> is_closed_at obs now
          then (Inl (OtherException ''ExecutionError: Simulation market observation is not closed''), g)
          else fill_order now order (reference_price obs) g)"

definition gw_get_positions :: "'r simulation_gateway \<Rightarrow> position list result" where
  "gw_get_positions g = rbind (require_connected g) (\<lambda>_. Inr (map snd (gw_positions g)))"

section \<open>History\<close>

text \<open>The slice \<open>xs[-count:]\<close>; \<open>-0\<close> is 0, so a count of zero keeps the whole list.\<close>

definition last_slice :: "int \<Rightarrow> 'a list \<Rightarrow> 'a list" where
  "last_slice count xs =
     (if 0 < count then drop (length xs - nat count) xs else drop (nat (- count)) xs)"

definition gw_get_trade_history :: "int \<Rightarrow> 'r simulation_gateway \<Rightarrow> trade_history_entry list result" where
  "gw_get_trade_history count g = rbind (require_connected g) (\<lambda>_. Inr (last_slice count (gw_trade_history g)))"

fun interval_trades :: "pydatetime \<Rightarrow> pydatetime \<Rightarrow> trade_history_entry list \<Rightarrow> trade_history_entry list result" where
  "interval_trades start stop [] = Inr []"
| "interval_trades start stop (t # ts) =
     rbind (py_all [dt_le start (th_closed_at t), dt_le (th_closed_at t) stop]) (\<lambda>inside.
     rbind (interval_trades start stop ts) (\<lambda>rest. Inr (if inside then t # rest else rest)))"

definition get_trade_history_snapshot ::
  "pydatetime \<Rightarrow> pydatetime \<Rightarrow> int \<Rightarrow> 'r simulation_gateway \<Rightarrow> trade_history_snapshot result" where
  "get_trade_history_snapshot start stop count g =
     rbind (require_connected g) (\<lambda>_.
     rbind (interval_trades start stop (gw_trade_history g)) (\<lambda>trades.
     Inr \<lparr>snap_trades = last_slice count trades,
          snap_completeness = (if count < int (length trades) then TRUNCATED else COMPLETE),
          snap_coverage_start = Some start, snap_coverage_end = Some stop,
          snap_position_fees = [], snap_position_open_volume = []\<rparr>))"

definition inject_closed_trade :: "trade_history_entry \<Rightarrow> 'r simulation_gateway \<Rightarrow> 'r simulation_gateway" where
  "inject_closed_trade t g = g\<lparr>gw_trade_history := gw_trade_history g @ [t]\<rparr>"

section \<open>Histories of calls\<close>

datatype gateway_call =
    Connect
  | Disconnect
  | Candles pydatetime string timeframe int "pydatetime option"
  | Tick pydatetime string
  | Submit pydatetime order_request
  | SubmitObserved pydatetime order_request closed_market_observation
  | InjectTrade trade_history_entry

fun gateway_step :: "'r draw \<Rightarrow> gateway_call \<Rightarrow> 'r simulation_gateway \<Rightarrow> 'r simulation_gateway" where
  "gateway_step u Connect g = gw_connect g"
| "gateway_step u Disconnect g = gw_disconnect g"
| "gateway_step u (Candles now symb tf count stop) g = snd (get_candles u now symb tf count stop g)"
| "gateway_step u (Tick now symb) g = snd (next_tick u now symb g)"
| "gateway_step u (Submit now order) g = snd (gw_submit_order now order g)"
| "gateway_step u (SubmitObserved now order obs) g = snd (submit_order_from_market_observation now order obs g)"
| "gateway_step u (InjectTrade t) g = inject_closed_trade t g"

definition gateway_run :: "'r draw \<Rightarrow> gateway_call list \<Rightarrow> 'r simulation_gateway \<Rightarrow> 'r simulation_gateway" where
  "gateway_run u = fold (gateway_step u)"

section \<open>Identifiers\<close>

definition text_value :: "string \<Rightarrow> nat" where
  "text_value s = foldl (\<lambda>a c. 10 * a + (of_char c - 48)) 0 s"

lemma digit_value: "d < 10 \<Longrightarrow> (of_char (char_of (48 + d) :: char) :: nat) - 48 = d"
  by simp

lemma text_value_nat_text: "text_value (nat_text n) = n"
proof (induction n rule: nat_text.induct)
  case (1 n)
  show ?case
  proof (cases "n < 10")
    case True
    then show ?thesis by (simp add: nat_text.simps [of n] text_value_def digit_value)
  next
    case False
    then show ?thesis
      using 1 digit_value [of "n mod 10"] by (simp add: nat_text.simps [of n] text_value_def)
  qed
qed

lemma order_text_inj [simp]: "order_text m = order_text n \<longleftrightarrow> m = n"
  by (metis order_text_def same_append_eq text_value_nat_text)

section \<open>The order book\<close>

text \<open>What the reconciliation relies on: the calls of a broker only ever append to its book, under an
  invariant that they keep and that makes the keys unique.\<close>

locale order_book =
  fixes step :: "'c \<Rightarrow> 's \<Rightarrow> 's" and inv :: "'s \<Rightarrow> bool" and book :: "'s \<Rightarrow> ('k \<times> 'p) list"
  assumes inv_step: "inv s \<Longrightarrow> inv (step c s)"
    and book_grows: "inv s \<Longrightarrow> \<exists>added. book (step c s) = book s @ added"
    and keys_unique: "inv s \<Longrightarrow> distinct (map fst (book s))"
begin

lemma inv_run: "inv s \<Longrightarrow> inv (fold step cs s)"
  by (induction cs arbitrary: s) (auto simp: inv_step)

lemma book_run: "inv s \<Longrightarrow> \<exists>added. book (fold step cs s) = book s @ added"
proof (induction cs arbitrary: s)
  case (Cons c cs)
  obtain a where "book (step c s) = book s @ a" using book_grows [OF Cons.prems] by blast
  with Cons.IH [OF inv_step [OF Cons.prems], of c] show ?case by auto
qed simp

lemma entry_stays:
  assumes "inv s" "(k, p) \<in> set (book s)"
  shows "map_of (book (fold step cs s)) k = Some p"
proof -
  have "(k, p) \<in> set (book (fold step cs s))" using assms book_run [OF assms(1), of cs] by auto
  with keys_unique [OF inv_run [OF assms(1)]] show ?thesis by simp
qed

end

definition gateway_inv :: "'r simulation_gateway \<Rightarrow> bool" where
  "gateway_inv g \<longleftrightarrow> 1 \<le> gw_next_order_id g
     \<and> map fst (gw_positions g) = map order_text [1..<gw_next_order_id g]
     \<and> (\<forall>(k, p) \<in> set (gw_positions g). pos_position_id p = k \<and> pos_transaction_id p = None)"

lemma gateway_inv_make: "gateway_inv (make_gateway b r)"
  by (simp add: gateway_inv_def make_gateway_def)

lemma inv_new_key: "gateway_inv g \<Longrightarrow> order_text (gw_next_order_id g) \<notin> fst ` set (gw_positions g)"
  by (simp only: set_map [symmetric]) (auto simp: gateway_inv_def)

lemma price_for_same:
  assumes "price_for s g = (p, h)"
  shows "gw_positions h = gw_positions g" "gw_next_order_id h = gw_next_order_id g"
    "gw_connected h = gw_connected g" "gw_trade_history h = gw_trade_history g" "gw_rng h = gw_rng g"
    "gateway_inv h = gateway_inv g"
  using assms by (auto simp: price_for_def gateway_inv_def split: option.splits)

lemma fill_order_cases:
  assumes "fill_order now order price g = (r, g')" "gateway_inv g"
  obtains (refused) e where "r = Inl e" "g' = g"
  | (filled) k p where "k = order_text (gw_next_order_id g)" "p = filled_position k order price now"
      "r = Inr \<lparr>res_order_id = k, res_status = FILLED, res_symbol = req_symbol order, res_side = req_side order,
        res_volume = qty_value (req_quantity order), res_filled_price = Some price, res_transaction_id = None\<rparr>"
      "gw_positions g' = gw_positions g @ [(k, p)]" "gateway_inv g'" "gw_connected g' = gw_connected g"
      "qty_unit (req_quantity order) = SIMULATION_UNITS"
proof (cases "qty_unit (req_quantity order) = SIMULATION_UNITS")
  case True
  let ?k = "order_text (gw_next_order_id g)"
  let ?g = "g\<lparr>gw_next_order_id := gw_next_order_id g + 1,
      gw_positions := gw_positions g @ [(?k, filled_position ?k order price now)]\<rparr>"
  have g': "g' = ?g" using assms True inv_new_key [OF assms(2)]
    by (auto simp: fill_order_def Let_def dict_set_def)
  have "gateway_inv ?g" using assms(2) by (auto simp: gateway_inv_def filled_position_def)
  then show thesis using assms True g' by (intro filled [OF refl refl]) (auto simp: fill_order_def Let_def)
next
  case False
  then show thesis using assms by (intro refused) (auto simp: fill_order_def)
qed

lemma fill_order_book:
  assumes "gateway_inv g"
  shows "gateway_inv (snd (fill_order now order price g))"
    "\<exists>added. gw_positions (snd (fill_order now order price g)) = gw_positions g @ added"
proof -
  obtain r g' where f: "fill_order now order price g = (r, g')" by fastforce
  show "gateway_inv (snd (fill_order now order price g))"
    using assms by (cases rule: fill_order_cases [OF f assms]) (simp_all add: f)
  show "\<exists>added. gw_positions (snd (fill_order now order price g)) = gw_positions g @ added"
    by (cases rule: fill_order_cases [OF f assms]) (simp_all add: f)
qed

lemma same_book_inv:
  "gw_positions g' = gw_positions g \<Longrightarrow> gw_next_order_id g' = gw_next_order_id g \<Longrightarrow> gateway_inv g' = gateway_inv g"
  by (simp add: gateway_inv_def)

lemma get_candles_book:
  "gw_positions (snd (get_candles u now s tf n stop g)) = gw_positions g"
  "gw_next_order_id (snd (get_candles u now s tf n stop g)) = gw_next_order_id g"
  by (auto simp: get_candles_def Let_def price_for_same split: sum.splits prod.splits)

lemma next_tick_book:
  "gw_positions (snd (next_tick u now s g)) = gw_positions g"
  "gw_next_order_id (snd (next_tick u now s g)) = gw_next_order_id g"
  by (auto simp: next_tick_def Let_def price_for_same split: prod.splits)

lemma gateway_step_book:
  assumes "gateway_inv g"
  shows "gateway_inv (gateway_step u c g) \<and> (\<exists>added. gw_positions (gateway_step u c g) = gw_positions g @ added)"
proof (cases c)
  case (Submit now order)
  obtain p h where p: "price_for (req_symbol order) g = (p, h)" by fastforce
  then have "gateway_inv h" "gw_positions h = gw_positions g" using assms price_for_same [OF p] by auto
  then show ?thesis using Submit p assms fill_order_book [of h now order p]
    by (auto simp: gw_submit_order_def split: sum.splits)
next
  case (SubmitObserved now order obs)
  then show ?thesis using assms fill_order_book [of g now order "reference_price obs"]
    by (auto simp: submit_order_from_market_observation_def split: sum.splits)
qed (use assms in \<open>auto simp: gateway_inv_def gw_connect_def gw_disconnect_def inject_closed_trade_def
  get_candles_book next_tick_book\<close>)

lemma gateway_inv_distinct: "gateway_inv g \<Longrightarrow> distinct (map fst (gw_positions g))"
  by (simp add: gateway_inv_def distinct_map inj_on_def)

interpretation sim_book: order_book "gateway_step u" gateway_inv gw_positions for u
  by unfold_locales (auto simp: gateway_step_book gateway_inv_distinct)

lemma gateway_run_inv: "gateway_inv (gateway_run u cs (make_gateway b r))"
  unfolding gateway_run_def by (rule sim_book.inv_run [OF gateway_inv_make])

section \<open>Reconciling a fill\<close>

lemma obs_identity_position: "pos_position_id p \<noteq> [] \<Longrightarrow> obs_identity (ObsPosition p) = Some (pos_position_id p)"
  by (simp add: obs_identity_def obs_text_def optional_text_def text_or_def)

lemma simulation_scan_positions:
  assumes "\<forall>p \<in> set ps. pos_transaction_id p = None \<and> pos_position_id p \<noteq> []" "k \<in> pos_position_id ` set ps"
  shows "\<exists>p \<in> set ps. pos_position_id p = k \<and> simulation_scan (Some k) tid key (map ObsPosition ps @ rest) =
    Some (recon_result CONFIRMED_MATCH ''Simulation order ID matched'' ''simulation'' key (Some (ObsPosition p))
      (no_ids\<lparr>id_order := Some k, id_transaction := None\<rparr>))"
  using assms
proof (induction ps)
  case (Cons p ps)
  have tr: "obs_text (ObsPosition p) ''transaction_id'' = None"
    using Cons.prems by (simp add: obs_text_def optional_text_def)
  show ?case
  proof (cases "pos_position_id p = k")
    case True
    then show ?thesis using Cons.prems tr by (auto simp: obs_identity_position py_str_def Let_def)
  next
    case False
    with Cons.prems have "k \<in> pos_position_id ` set ps" by auto
    with Cons.IH Cons.prems obtain q where "q \<in> set ps" "pos_position_id q = k"
      "simulation_scan (Some k) tid key (map ObsPosition ps @ rest) =
        Some (recon_result CONFIRMED_MATCH ''Simulation order ID matched'' ''simulation'' key (Some (ObsPosition q))
          (no_ids\<lparr>id_order := Some k, id_transaction := None\<rparr>))" by auto
    then show ?thesis using Cons.prems tr False by (auto simp: obs_identity_position py_str_def Let_def)
  qed
qed simp

lemma inv_positions:
  assumes "gateway_inv g" "(k, p) \<in> set (gw_positions g)"
  shows "pos_position_id p = k" "pos_transaction_id p = None" "k \<noteq> []"
proof -
  from assms show "pos_position_id p = k" "pos_transaction_id p = None" by (auto simp: gateway_inv_def)
  have "k \<in> set (map fst (gw_positions g))" using assms(2) by force
  then have "k \<in> set (map order_text [1..<gw_next_order_id g])" using assms(1) by (simp only: gateway_inv_def)
  then show "k \<noteq> []" by (auto simp: order_text_def)
qed

lemma position_reconciles:
  assumes "gateway_inv g" "gw_connected g" "(k, p) \<in> set (gw_positions g)"
  shows "\<exists>e ev. simulation_reconcile (gw_get_positions g) (gw_get_trade_history count g) (Some k) tid symb key = e
    \<and> rc_state e = CONFIRMED_MATCH \<and> rc_evidence e = Some ev \<and> ev_position_id ev = Some k
    \<and> ev_order_id ev = Some k \<and> ev_side ev = Some (side_value (pos_side p)) \<and> ev_volume ev = Some (pos_volume p)"
proof -
  let ?ps = "map snd (gw_positions g)"
  have "\<forall>q \<in> set ?ps. pos_transaction_id q = None \<and> pos_position_id q \<noteq> []"
    using inv_positions [OF assms(1)] by auto
  moreover have "k \<in> pos_position_id ` set ?ps" using inv_positions(1) [OF assms(1,3)] assms(3) by force
  ultimately obtain q where q: "q \<in> set ?ps" "pos_position_id q = k" and
    sc: "simulation_scan (Some k) tid key (map ObsPosition ?ps @ map ObsTrade (last_slice count (gw_trade_history g))) =
      Some (recon_result CONFIRMED_MATCH ''Simulation order ID matched'' ''simulation'' key (Some (ObsPosition q))
        (no_ids\<lparr>id_order := Some k, id_transaction := None\<rparr>))"
    using simulation_scan_positions by blast
  from q obtain k' where "(k', q) \<in> set (gw_positions g)" by auto
  with inv_positions(1) [OF assms(1)] q(2) have "(k, q) \<in> set (gw_positions g)" by metis
  with assms(3) have "q = p" using gateway_inv_distinct [OF assms(1)] by (metis eq_key_imp_eq_value)
  then show ?thesis
    using sc q(2) assms(2) inv_positions(3) [OF assms(1,3)]
    by (simp add: simulation_reconcile_def gw_get_positions_def gw_get_trade_history_def require_connected_def
        observe_def recon_result_def no_ids_def obs_text_def optional_text_def py_str_def text_or_def)
qed

lemma submit_order_filled:
  assumes "gw_submit_order now order g = (Inr r, g')" "gateway_inv g"
  obtains price where "fst (price_for (req_symbol order) g) = price"
    "res_order_id r \<notin> fst ` set (gw_positions g)"
    "gw_positions g' = gw_positions g @ [(res_order_id r, filled_position (res_order_id r) order price now)]"
    "res_status r = FILLED" "res_filled_price r = Some price" "gateway_inv g'" "gw_connected g'"
    "qty_unit (req_quantity order) = SIMULATION_UNITS"
proof -
  from assms(1) have con: "gw_connected g"
    by (auto simp: gw_submit_order_def require_connected_def split: if_splits)
  obtain p h where p: "price_for (req_symbol order) g = (p, h)" by fastforce
  note same = price_for_same [OF p]
  have f: "fill_order now order p h = (Inr r, g')"
    using assms(1) con p by (simp add: gw_submit_order_def require_connected_def)
  show thesis
  proof (rule fill_order_cases [OF f])
    show "gateway_inv h" using assms(2) same by simp
  next
    fix k q assume k: "k = order_text (gw_next_order_id h)" and q: "q = filled_position k order p now"
      and r: "Inr r = Inr \<lparr>res_order_id = k, res_status = FILLED, res_symbol = req_symbol order,
        res_side = req_side order, res_volume = qty_value (req_quantity order), res_filled_price = Some p,
        res_transaction_id = None\<rparr>"
      and g': "gw_positions g' = gw_positions h @ [(k, q)]" "gateway_inv g'" "gw_connected g' = gw_connected h"
      and u: "qty_unit (req_quantity order) = SIMULATION_UNITS"
    show thesis
      by (rule that [of p]) (use k q r g' u same con p inv_new_key [OF assms(2)] in simp_all)
  qed simp
qed

section \<open>Properties\<close>

text \<open>A simulated order gets a fresh identity and changes nothing else in the book: whatever
  calls came before, an accepted order is filled at the symbol's current price, its identifier is new,
  and exactly one position, with the order's facts, is appended to the book.\<close>

theorem orders_get_fresh_positions:
  assumes "g = gateway_run u calls (make_gateway balance rng)"
    and "gw_submit_order now order g = (Inr r, g')"
  shows "\<exists>price. fst (price_for (req_symbol order) g) = price
    \<and> res_order_id r \<notin> fst ` set (gw_positions g)
    \<and> gw_positions g' = gw_positions g @ [(res_order_id r, filled_position (res_order_id r) order price now)]
    \<and> res_status r = FILLED \<and> res_filled_price r = Some price"
  using submit_order_filled [OF assms(2)] gateway_run_inv [of u calls balance rng] assms(1) by metis

text \<open>C30. A filled order can always be reconciled: however the calls go on, as long as the gateway is
  connected, the simulation adapter confirms the order from its identifier, with the position, side
  and volume of the order as evidence, whatever transaction, symbol and key it is asked with.\<close>

theorem filled_order_reconciles:
  assumes "gw_submit_order now order (gateway_run u calls (make_gateway balance rng)) = (Inr r, g)"
    and "g' = gateway_run u later g" "gw_connected g'"
  shows "\<exists>e ev. simulation_reconcile (gw_get_positions g') (gw_get_trade_history 100 g') (Some (res_order_id r)) tid symb key = e
    \<and> rc_state e = CONFIRMED_MATCH \<and> rc_evidence e = Some ev \<and> ev_position_id ev = Some (res_order_id r)
    \<and> ev_order_id ev = Some (res_order_id r)
    \<and> ev_side ev = Some (side_value (req_side order)) \<and> ev_volume ev = Some (req_volume order)"
proof -
  let ?p = "\<lambda>price. filled_position (res_order_id r) order price now"
  obtain price where p: "(res_order_id r, ?p price) \<in> set (gw_positions g)" and inv: "gateway_inv g"
    by (rule submit_order_filled [OF assms(1) gateway_run_inv]) auto
  have g': "g' = fold (gateway_step u) later g" using assms(2) by (simp add: gateway_run_def)
  have "gateway_inv g'" "map_of (gw_positions g') (res_order_id r) = Some (?p price)"
    unfolding g' by (rule sim_book.inv_run [OF inv], rule sim_book.entry_stays [OF inv p])
  then show ?thesis
    using position_reconciles [OF _ assms(3) map_of_SomeD] by (fastforce simp: filled_position_def req_volume_def)
qed

lemma interval_trades_filter:
  assumes "interval_trades start stop ts = Inr us"
  shows "us = filter (\<lambda>t. dt_le start (th_closed_at t) = Inr True \<and> dt_le (th_closed_at t) stop = Inr True) ts"
  using assms
proof (induction ts arbitrary: us)
  case (Cons t ts)
  then obtain b vs where "py_all [dt_le start (th_closed_at t), dt_le (th_closed_at t) stop] = Inr b"
    "interval_trades start stop ts = Inr vs" "us = (if b then t # vs else vs)" by auto
  with Cons.IH show ?case
    by (cases b) (auto simp: py_all.simps(2) split: sum.splits if_splits)
qed simp

text \<open>A history snapshot that claims to cover an interval has every trade closed in it: when the
  snapshot of the simulation covers an interval, each trade of the gateway that closed within the
  interval is listed.\<close>

theorem covering_snapshot_has_all:
  assumes "get_trade_history_snapshot start stop count g = Inr s" "covers s a b = Inr True"
    and "t \<in> set (gw_trade_history g)" "dt_le a (th_closed_at t) = Inr True" "dt_le (th_closed_at t) b = Inr True"
  shows "t \<in> set (snap_trades s)"
proof -
  from assms(1) obtain us where us: "interval_trades start stop (gw_trade_history g) = Inr us"
    and s: "snap_trades s = last_slice count us" "snap_completeness s = (if count < int (length us) then TRUNCATED else COMPLETE)"
      "snap_coverage_start s = Some start" "snap_coverage_end s = Some stop"
    by (auto simp: get_trade_history_snapshot_def)
  from assms(2) s have le: "int (length us) \<le> count" "dt_le start a = Inr True" "dt_le b stop = Inr True"
    by (auto simp: covers_def split: if_splits)
  have "dt_le start (th_closed_at t) = Inr True" "dt_le (th_closed_at t) stop = Inr True"
    using le assms(4,5) dt_le_trans by blast+
  then have "t \<in> set us" using assms(3) interval_trades_filter [OF us] by simp
  moreover have "last_slice count us = us" using le(1) \<open>t \<in> set us\<close> by (auto simp: last_slice_def)
  ultimately show ?thesis by (simp add: s)
qed

section \<open>Orders bound to a market observation\<close>

text \<open>\<open>ObservedSimulationExecutionGateway\<close>: the executor's protocol with one observation fixed.\<close>

definition observed_get_positions :: "'r simulation_gateway \<times> closed_market_observation \<Rightarrow> position list result" where
  "observed_get_positions w = gw_get_positions (fst w)"

definition observed_submit_order ::
  "pydatetime \<Rightarrow> order_request \<Rightarrow> 'r simulation_gateway \<times> closed_market_observation
   \<Rightarrow> order_result result \<times> 'r simulation_gateway" where
  "observed_submit_order now order w = submit_order_from_market_observation now order (snd w) (fst w)"

text \<open>An order bound to a market observation is filled at the observation's close or not at all:
  a fill requires the observation's own symbol and a candle closed by then, has exactly the closing
  price, and leaves the synthetic prices and the random numbers as they were.\<close>

theorem observed_fill_at_close:
  assumes "observed_submit_order now order (g, obs) = (Inr r, g')"
  shows "res_filled_price r = Some (cmo_close obs) \<and> is_closed_at obs now
    \<and> py_upper (py_strip (req_symbol order)) = py_upper (py_strip (cmo_canonical_symbol obs))
    \<and> gw_prices g' = gw_prices g \<and> gw_rng g' = gw_rng g"
  using assms
  by (auto simp: observed_submit_order_def submit_order_from_market_observation_def fill_order_def Let_def
      reference_price_def split: sum.splits if_splits)

section \<open>Synthetic prices\<close>

text \<open>The documented contract of \<open>random.uniform\<close>: the result lies between the bounds.\<close>

definition uniform_ok :: "'r draw \<Rightarrow> bool" where
  "uniform_ok u \<longleftrightarrow> (\<forall>a b r. a \<le> b \<longrightarrow> a \<le> fst (u a b r) \<and> fst (u a b r) \<le> b)"

definition price_ok :: "pyfloat \<Rightarrow> bool" where
  "price_ok p \<longleftrightarrow> MIN_PRICE \<le> p \<and> is_double p"

definition prices_ok :: "'r simulation_gateway \<Rightarrow> bool" where
  "prices_ok g \<longleftrightarrow> (\<forall>(s, p) \<in> set (gw_prices g). price_ok p)"

definition candle_ok :: "candle \<Rightarrow> bool" where
  "candle_ok c \<longleftrightarrow> MIN_PRICE \<le> cd_low c \<and> cd_low c \<le> cd_open c \<and> cd_low c \<le> cd_close c
     \<and> cd_open c \<le> cd_high c \<and> cd_close c \<le> cd_high c"

lemma uniformD:
  assumes "uniform_ok u" "u a b r = (x, r')" "a \<le> b"
  shows "a \<le> x" "x \<le> b"
  using assms by (auto simp: uniform_ok_def) (metis fst_conv)+

lemma MIN_PRICE_pos: "Fin 0 \<le> MIN_PRICE" "MIN_PRICE \<noteq> NaN" "is_double MIN_PRICE" "MIN_PRICE \<le> Fin 100"
  using fl_mono [of "1/100" 100] by (simp_all add: MIN_PRICE_def fl_nonneg)

lemma price_nonneg: "price_ok p \<Longrightarrow> Fin 0 \<le> p"
  using MIN_PRICE_pos(1) pyfloat_le_trans by (auto simp: price_ok_def)

lemma default_price_ok: "price_ok DEFAULT_STARTING_PRICE"
  using MIN_PRICE_pos(4) by (simp add: price_ok_def DEFAULT_STARTING_PRICE_def is_double_def)

lemma price_max_ok: "is_double x \<Longrightarrow> price_ok (py_max MIN_PRICE x)"
  using MIN_PRICE_pos by (auto simp: price_ok_def py_max_ge) (simp add: py_max_def)

lemma price_minus_le:
  assumes "price_ok p" "Fin 0 \<le> y" "is_finite y"
  shows "p - y \<le> p"
proof (cases "is_finite p")
  case False
  with price_nonneg [OF assms(1)] have "p = PInf" by (cases p) auto
  with assms(3) show ?thesis by (cases y) (auto simp: minus_pyfloat_def)
qed (use assms in \<open>simp add: float_diff_nonneg_le price_ok_def\<close>)

lemma max_price_ok: "price_ok p \<Longrightarrow> price_ok q \<Longrightarrow> price_ok (py_max p q) \<and> p \<le> py_max p q \<and> q \<le> py_max p q"
  using price_nonneg [of p] price_nonneg [of q] pyfloat_le_not_NaN
  by (auto simp: py_max_def pyfloat_less_le pyfloat_not_less)

lemma min_price_ok: "price_ok p \<Longrightarrow> price_ok q \<Longrightarrow> price_ok (py_min p q) \<and> py_min p q \<le> p \<and> py_min p q \<le> q"
  using price_nonneg [of p] price_nonneg [of q] pyfloat_le_not_NaN
  by (auto simp: py_min_def pyfloat_less_le pyfloat_not_less)

lemma next_candle_ok:
  assumes u: "uniform_ok u" and p: "price_ok p" and n: "next_candle u time p r = (c, r')"
  shows "candle_ok c" "price_ok (cd_close c)" "cd_open c = p" "cd_time c = time"
proof -
  obtain d r\<^sub>1 where d: "u (Fin (-1/2)) (Fin (1/2)) r = (d, r\<^sub>1)" by fastforce
  obtain up r\<^sub>2 where up: "u (Fin 0) (fl (1/5)) r\<^sub>1 = (up, r\<^sub>2)" by fastforce
  obtain down r\<^sub>3 where down: "u (Fin 0) (fl (1/5)) r\<^sub>2 = (down, r\<^sub>3)" by fastforce
  have fifth: "Fin 0 \<le> fl (1/5)" "fl (1/5) \<le> Fin 1" using fl_mono [of "1/5" 1] by (simp_all add: fl_nonneg)
  have draws: "Fin 0 \<le> \<bar>up\<bar>" "Fin 0 \<le> \<bar>down\<bar>" "is_finite \<bar>down\<bar>"
    using uniformD [OF u up] uniformD [OF u down] fifth pyfloat_le_trans [OF _ fifth(2), of down]
    by (cases up; cases down; simp)+
  define close where "close = py_max MIN_PRICE (p + d)"
  have close: "price_ok close" unfolding close_def by (rule price_max_ok) (rule plus_double)
  note hi = max_price_ok [OF p close] and lo = min_price_ok [OF p close]
  have high: "py_max p close \<le> py_max p close + \<bar>up\<bar>"
    using hi draws by (intro plus_nonneg_ge) (auto simp: price_ok_def price_nonneg)
  have low: "py_max MIN_PRICE (py_min p close - \<bar>down\<bar>) \<le> py_min p close"
    using price_minus_le [OF _ draws(2,3), of "py_min p close"] lo
    by (auto simp: py_max_def price_ok_def)
  have c: "c = \<lparr>cd_time = time, cd_open = p, cd_high = py_max p close + \<bar>up\<bar>,
      cd_low = py_max MIN_PRICE (py_min p close - \<bar>down\<bar>), cd_close = close,
      cd_volume = Some (fst (u (Fin 10) (Fin 100) r\<^sub>3)), cd_source = ''simulation''\<rparr>"
    using n d up down by (auto simp: next_candle_def Let_def close_def split: prod.splits)
  show "candle_ok c" using high low hi lo MIN_PRICE_pos(2) by (auto simp: c candle_ok_def py_max_ge intro: pyfloat_le_trans)
  show "price_ok (cd_close c)" "cd_open c = p" "cd_time c = time" using close by (simp_all add: c)
qed

fun chained :: "pyfloat \<Rightarrow> candle list \<Rightarrow> bool" where
  "chained p [] = True"
| "chained p (c # cs) = (cd_open c = p \<and> chained (cd_close c) cs)"

lemma candle_loop_ok:
  assumes "uniform_ok u" "price_ok p" "candle_loop u anchor step n p r = (cs, q, r')"
  shows "price_ok q \<and> length cs = n \<and> list_all candle_ok cs \<and> chained p cs
    \<and> map cd_time cs = map (\<lambda>k. minus_seconds anchor (step * int k)) (rev [1..<n + 1])"
  using assms(2,3)
proof (induction n arbitrary: p r cs q r')
  case (Suc n)
  obtain c r\<^sub>1 where c: "next_candle u (minus_seconds anchor (step * int (Suc n))) p r = (c, r\<^sub>1)" by fastforce
  obtain ds where ds: "candle_loop u anchor step n (cd_close c) r\<^sub>1 = (ds, q, r')" "cs = c # ds"
    using Suc.prems(2) c by (auto split: prod.splits)
  note ok = next_candle_ok [OF assms(1) Suc.prems(1) c]
  from Suc.IH [OF ok(2) ds(1)] ok ds(2) show ?case by simp
qed simp

lemma price_for_ok:
  assumes "price_for s g = (p, h)" "prices_ok g"
  shows "price_ok p \<and> prices_ok h"
  using assms default_price_ok
  by (auto simp: price_for_def prices_ok_def dest: map_of_SomeD split: option.splits)

lemma prices_ok_set: "prices_ok g \<Longrightarrow> price_ok p \<Longrightarrow> prices_ok (g\<lparr>gw_rng := r, gw_prices := dict_set s p (gw_prices g)\<rparr>)"
  by (auto simp: prices_ok_def dict_set_def split: if_splits)

lemma get_candles_result:
  assumes "uniform_ok u" "prices_ok g" "get_candles u now s tf count stop g = (Inr cs, g')"
  shows "prices_ok g' \<and> length cs = nat count \<and> list_all candle_ok cs
    \<and> chained (fst (price_for s g)) cs
    \<and> map cd_time cs = map (\<lambda>k. minus_seconds (case stop of Some t \<Rightarrow> t | None \<Rightarrow> now) (TIMEFRAME_SECONDS tf * int k))
        (rev [1..<nat count + 1])"
proof -
  let ?anchor = "case stop of Some t \<Rightarrow> t | None \<Rightarrow> now"
  obtain p h where p: "price_for s g = (p, h)" by fastforce
  obtain q r where l: "candle_loop u ?anchor (TIMEFRAME_SECONDS tf) (nat count) p (gw_rng h) = (cs, q, r)"
    and g': "g' = h\<lparr>gw_rng := r, gw_prices := dict_set s q (gw_prices h)\<rparr>"
    using assms(3) p by (auto simp: get_candles_def Let_def split: sum.splits prod.splits)
  note pk = price_for_ok [OF p assms(2)]
  with candle_loop_ok [OF assms(1) _ l] prices_ok_set [of h q s r] p g' show ?thesis by simp
qed

lemma gateway_step_prices:
  assumes "uniform_ok u" "prices_ok g"
  shows "prices_ok (gateway_step u c g)"
proof (cases c)
  case (Candles now s tf n stop)
  obtain r g' where r: "get_candles u now s tf n stop g = (r, g')" by fastforce
  show ?thesis
  proof (cases r)
    case (Inl e)
    with r have "g' = g" by (auto simp: get_candles_def Let_def split: sum.splits prod.splits)
    with assms(2) Candles r show ?thesis by simp
  next
    case (Inr cs)
    with get_candles_result [OF assms, of now s tf n stop cs g'] r Candles show ?thesis by simp
  qed
next
  case (Tick now s)
  obtain p h where p: "price_for s g = (p, h)" by fastforce
  note pk = price_for_ok [OF p assms(2)]
  then show ?thesis using Tick assms(2) p
    by (auto simp: next_tick_def Let_def intro!: prices_ok_set price_max_ok plus_double split: prod.splits)
next
  case (Submit now order)
  obtain p h where p: "price_for (req_symbol order) g = (p, h)" by fastforce
  then show ?thesis using Submit assms(2) price_for_ok [OF p assms(2)]
    by (auto simp: gw_submit_order_def fill_order_def prices_ok_def Let_def split: sum.splits)
qed (use assms(2) in \<open>auto simp: prices_ok_def gw_connect_def gw_disconnect_def inject_closed_trade_def
  submit_order_from_market_observation_def fill_order_def Let_def split: sum.splits\<close>)

lemma gateway_run_prices: "uniform_ok u \<Longrightarrow> prices_ok g \<Longrightarrow> prices_ok (gateway_run u cs g)"
  unfolding gateway_run_def by (induction cs arbitrary: g) (auto simp: gateway_step_prices)

lemma make_gateway_prices: "prices_ok (make_gateway b r)"
  by (simp add: prices_ok_def make_gateway_def)

text \<open>C39. Synthetic candles are well formed: after any calls, a request for candles yields exactly as
  many as asked for, each with its low not above and its high not below both open and close and every
  price at least 0.01, each opening at the close of the one before, and with opening times one
  timeframe apart up to the anchor. Only the contract of \<open>random.uniform\<close> is assumed.\<close>

theorem candles_well_formed:
  assumes "uniform_ok u" "g = gateway_run u calls (make_gateway balance rng)"
    and "get_candles u now symb tf count stop g = (Inr cs, g')"
  shows "length cs = nat count \<and> list_all candle_ok cs \<and> chained (fst (price_for symb g)) cs
    \<and> map cd_time cs = map (\<lambda>k. minus_seconds (case stop of Some t \<Rightarrow> t | None \<Rightarrow> now) (TIMEFRAME_SECONDS tf * int k))
        (rev [1..<nat count + 1])"
  using get_candles_result [OF assms(1) _ assms(3)] gateway_run_prices [OF assms(1) make_gateway_prices] assms(2)
  by blast

section \<open>Samples\<close>

definition lower_draw :: "unit draw" where
  "lower_draw a b r = (a, r)"

lemma lower_draw_ok: "uniform_ok lower_draw"
proof -
  have "a \<le> a \<and> a \<le> b" if "a \<le> b" for a b :: pyfloat
    using that pyfloat_le_not_NaN [OF that] by simp
  then show ?thesis by (simp add: uniform_ok_def lower_draw_def)
qed

abbreviation sample_gateway :: "unit simulation_gateway" where
  "sample_gateway \<equiv> gateway_run lower_draw [Connect] (make_gateway (Fin 10000) ())"

definition sample_gateway_order :: order_request where
  "sample_gateway_order =
     \<lparr>req_symbol = ''XAUUSD'', req_side = BUY, req_quantity = \<lparr>qty_value = Fin 1, qty_unit = SIMULATION_UNITS\<rparr>,
      req_order_type = MARKET, req_entry_price = None, req_stop_limit_price = None, req_stop_loss = Fin 90,
      req_take_profit = None, req_idempotency_key = None, req_magic_number = None, req_order_comment = None\<rparr>"

lemma sample_gateway_connected: "gw_connected sample_gateway"
  by (simp add: gateway_run_def gw_connect_def)

lemma sample_gateway_submit: "\<exists>r g. gw_submit_order (Aware 0 0) sample_gateway_order sample_gateway = (Inr r, g) \<and> gw_connected g"
  by (simp add: gw_submit_order_def require_connected_def gateway_run_def gw_connect_def make_gateway_def price_for_def
      fill_order_def sample_gateway_order_def Let_def)

theorem orders_get_fresh_positions_witness:
  "\<exists>r g'. gw_submit_order (Aware 0 0) sample_gateway_order sample_gateway = (Inr r, g')
     \<and> res_order_id r \<notin> fst ` set (gw_positions sample_gateway) \<and> res_status r = FILLED"
  using sample_gateway_submit orders_get_fresh_positions [OF refl] by metis

theorem filled_order_reconciles_witness:
  "\<exists>r g. gw_submit_order (Aware 0 0) sample_gateway_order sample_gateway = (Inr r, g)
     \<and> rc_state (simulation_reconcile (gw_get_positions g) (gw_get_trade_history 100 g) (Some (res_order_id r)) None None None)
       = CONFIRMED_MATCH"
proof -
  obtain r g where g: "gw_submit_order (Aware 0 0) sample_gateway_order sample_gateway = (Inr r, g)" "gw_connected g"
    using sample_gateway_submit by blast
  have "g = gateway_run lower_draw [] g" by (simp add: gateway_run_def)
  from filled_order_reconciles [OF g(1) this g(2), of None None None] g(1) show ?thesis by auto
qed

definition sample_closed_trade :: trade_history_entry where
  "sample_closed_trade = \<lparr>th_trade_id = ''T1'', th_symbol = ''XAUUSD'', th_side = BUY, th_volume = Fin 1,
     th_open_price = Fin 10, th_close_price = Fin 8, th_profit = Fin (-2),
     th_opened_at = Aware 100 0, th_closed_at = Aware 200 0, th_transaction_id = None,
     th_contract_type = None, th_position_id = None, th_close_reason = None\<rparr>"

theorem covering_snapshot_has_all_witness:
  "\<exists>s. get_trade_history_snapshot (Aware 0 0) (Aware 1000 0) 100 (inject_closed_trade sample_closed_trade sample_gateway) = Inr s
     \<and> sample_closed_trade \<in> set (snap_trades s)"
proof -
  let ?g = "inject_closed_trade sample_closed_trade sample_gateway"
  obtain s where s: "get_trade_history_snapshot (Aware 0 0) (Aware 1000 0) 100 ?g = Inr s"
    and c: "covers s (Aware 0 0) (Aware 1000 0) = Inr True"
    by (auto simp: get_trade_history_snapshot_def require_connected_def gateway_run_def gw_connect_def
        make_gateway_def inject_closed_trade_def sample_closed_trade_def covers_def py_all.simps(2))
  have "sample_closed_trade \<in> set (gw_trade_history ?g)" by (simp add: inject_closed_trade_def)
  from covering_snapshot_has_all [OF s c this] s show ?thesis by (simp add: sample_closed_trade_def)
qed

definition sample_observation :: closed_market_observation where
  "sample_observation = \<lparr>cmo_canonical_symbol = ''XAUUSD'', cmo_source = ''sim'', cmo_provider_symbol = ''XAUUSD'',
     cmo_timeframe = M1, cmo_candle_opened_at = Aware 0 0, cmo_closed_at = Aware 60000000 0, cmo_open = Fin 10,
     cmo_high = Fin 12, cmo_low = Fin 9, cmo_close = Fin 11, cmo_volume = None\<rparr>"

theorem observed_fill_at_close_witness:
  "\<exists>r g'. observed_submit_order (Aware 70000000 0) sample_gateway_order (sample_gateway, sample_observation) = (Inr r, g')
     \<and> res_filled_price r = Some (Fin 11)"
proof -
  obtain r g' where r: "observed_submit_order (Aware 70000000 0) sample_gateway_order (sample_gateway, sample_observation) = (Inr r, g')"
    by (simp add: observed_submit_order_def submit_order_from_market_observation_def require_connected_def
        gateway_run_def gw_connect_def make_gateway_def sample_gateway_order_def sample_observation_def
        is_closed_at_def fill_order_def Let_def)
  from observed_fill_at_close [OF r] r show ?thesis by (simp add: sample_observation_def)
qed

theorem candles_well_formed_witness:
  "\<exists>cs g'. get_candles lower_draw (Aware 0 0) ''XAUUSD'' M1 3 None sample_gateway = (Inr cs, g') \<and> length cs = 3
     \<and> list_all candle_ok cs"
proof -
  have "\<exists>cs g'. get_candles lower_draw (Aware 0 0) ''XAUUSD'' M1 3 None sample_gateway = (Inr cs, g')"
    using sample_gateway_connected by (simp add: get_candles_def require_connected_def Let_def split: prod.split)
  then obtain cs g' where c: "get_candles lower_draw (Aware 0 0) ''XAUUSD'' M1 3 None sample_gateway = (Inr cs, g')"
    by blast
  from candles_well_formed [OF lower_draw_ok refl c] c show ?thesis by simp
qed

end
