(* ===== verification/Safety_Store.thy ===== *)
theory Safety_Store
  imports Broker_Types
begin

text \<open>
  Cross-process observations of the execution safety (\<open>src/execution/safety.py\<close>): the two snapshot
  types with their validation, and the SQLite store that keeps the latest snapshot of each kind.

  The locale \<open>latest_register\<close> states the interface of such a store, a register of the last value
  written; it is interpreted on the safety and on the risk table.
\<close>

section \<open>Enumerations\<close>

datatype emergency_stop_state = STOP_CLEAR | STOP_ACTIVE | STOP_UNKNOWN
datatype execution_mode = DURABLE
datatype daily_state_authority = AUTHORITATIVE | NOT_AUTHORITATIVE | AUTHORITY_NOT_EVALUATED | AUTHORITY_UNKNOWN
datatype execution_authorization = EXEC_AUTHORIZED | EXEC_BLOCKED | EXEC_NOT_EVALUATED | EXEC_UNKNOWN
datatype risk_evaluation_state = RISK_AUTHORIZED | RISK_BLOCKED | RISK_NOT_EVALUATED | RISK_UNKNOWN

fun stop_value :: "emergency_stop_state \<Rightarrow> string" where
  "stop_value STOP_CLEAR = ''CLEAR''"
| "stop_value STOP_ACTIVE = ''ACTIVE''"
| "stop_value STOP_UNKNOWN = ''UNKNOWN''"

fun mode_value :: "execution_mode \<Rightarrow> string" where
  "mode_value DURABLE = ''DURABLE''"

fun authority_value :: "daily_state_authority \<Rightarrow> string" where
  "authority_value AUTHORITATIVE = ''AUTHORITATIVE''"
| "authority_value NOT_AUTHORITATIVE = ''NOT_AUTHORITATIVE''"
| "authority_value AUTHORITY_NOT_EVALUATED = ''NOT_EVALUATED''"
| "authority_value AUTHORITY_UNKNOWN = ''UNKNOWN''"

fun authorization_value :: "execution_authorization \<Rightarrow> string" where
  "authorization_value EXEC_AUTHORIZED = ''AUTHORIZED''"
| "authorization_value EXEC_BLOCKED = ''BLOCKED''"
| "authorization_value EXEC_NOT_EVALUATED = ''NOT_EVALUATED''"
| "authorization_value EXEC_UNKNOWN = ''UNKNOWN''"

fun risk_state_value :: "risk_evaluation_state \<Rightarrow> string" where
  "risk_state_value RISK_AUTHORIZED = ''AUTHORIZED''"
| "risk_state_value RISK_BLOCKED = ''BLOCKED''"
| "risk_state_value RISK_NOT_EVALUATED = ''NOT_EVALUATED''"
| "risk_state_value RISK_UNKNOWN = ''UNKNOWN''"

text \<open>\<open>Enum(text)\<close>: the member with the value, else \<open>ValueError\<close>.\<close>

definition member :: "('e \<Rightarrow> string) \<Rightarrow> 'e list \<Rightarrow> string \<Rightarrow> 'e result" where
  "member value_of members text =
     (case find (\<lambda>m. value_of m = text) members of None \<Rightarrow> Inl (ValueError text) | Some m \<Rightarrow> Inr m)"

definition stop_of_value :: "string \<Rightarrow> emergency_stop_state result" where
  "stop_of_value = member stop_value [STOP_CLEAR, STOP_ACTIVE, STOP_UNKNOWN]"

definition mode_of_value :: "string \<Rightarrow> execution_mode result" where
  "mode_of_value = member mode_value [DURABLE]"

definition authority_of_value :: "string \<Rightarrow> daily_state_authority result" where
  "authority_of_value = member authority_value
     [AUTHORITATIVE, NOT_AUTHORITATIVE, AUTHORITY_NOT_EVALUATED, AUTHORITY_UNKNOWN]"

definition authorization_of_value :: "string \<Rightarrow> execution_authorization result" where
  "authorization_of_value = member authorization_value
     [EXEC_AUTHORIZED, EXEC_BLOCKED, EXEC_NOT_EVALUATED, EXEC_UNKNOWN]"

definition risk_state_of_value :: "string \<Rightarrow> risk_evaluation_state result" where
  "risk_state_of_value = member risk_state_value
     [RISK_AUTHORIZED, RISK_BLOCKED, RISK_NOT_EVALUATED, RISK_UNKNOWN]"

lemma enum_roundtrips [simp]:
  "stop_of_value (stop_value a) = Inr a" "mode_of_value (mode_value b) = Inr b"
  "authority_of_value (authority_value c) = Inr c" "authorization_of_value (authorization_value d) = Inr d"
  "risk_state_of_value (risk_state_value e) = Inr e"
proof -
  show "stop_of_value (stop_value a) = Inr a" by (cases a) (simp_all add: stop_of_value_def member_def)
  show "mode_of_value (mode_value b) = Inr b" by (cases b) (simp_all add: mode_of_value_def member_def)
  show "authority_of_value (authority_value c) = Inr c" by (cases c) (simp_all add: authority_of_value_def member_def)
  show "authorization_of_value (authorization_value d) = Inr d" by (cases d) (simp_all add: authorization_of_value_def member_def)
  show "risk_state_of_value (risk_state_value e) = Inr e" by (cases e) (simp_all add: risk_state_of_value_def member_def)
qed

section \<open>Snapshots\<close>

record risk_snapshot =
  rk_observed_at :: pydatetime
  rk_broker :: string
  rk_environment :: string
  rk_account_id :: "string option"
  rk_evaluation_state :: risk_evaluation_state
  rk_balance :: "pyfloat option"
  rk_equity :: "pyfloat option"
  rk_currency :: "string option"
  rk_max_daily_loss :: "pyfloat option"
  rk_max_trades_daily :: "int option"
  rk_daily_trades_count :: "int option"
  rk_daily_loss_percent :: "pyfloat option"
  rk_risk_allowed :: "bool option"
  rk_risk_message :: string
  rk_rejection_reason :: string
  rk_authorized_risk_amount :: "pyfloat option"
  rk_authorized_risk_percent :: "pyfloat option"
  rk_execution_quantity_available :: bool
  rk_execution_quantity_value :: "pyfloat option"
  rk_execution_quantity_unit :: "string option"
  rk_execution_quantity_reason :: string
  rk_schema_version :: int

definition infinite_number :: "pyfloat option \<Rightarrow> bool" where
  "infinite_number v \<longleftrightarrow> (case v of None \<Rightarrow> False | Some x \<Rightarrow> \<not> is_finite x)"

definition negative_count :: "int option \<Rightarrow> bool" where
  "negative_count v \<longleftrightarrow> (case v of None \<Rightarrow> False | Some n \<Rightarrow> n < 0)"

definition risk_checks :: "risk_snapshot \<Rightarrow> (bool \<times> string) list" where
  "risk_checks s =
     [(rk_schema_version s \<noteq> 2, ''Unsupported risk-observation schema version''),
      (\<not> tz_aware (rk_observed_at s), ''Risk-observation observed_at must be timezone-aware''),
      (\<not> nonblank (rk_broker s) \<or> \<not> nonblank (rk_environment s),
       ''Risk-observation broker and environment are required''),
      (case rk_account_id s of None \<Rightarrow> False | Some a \<Rightarrow> \<not> nonblank a,
       ''Risk-observation account_id must be nonblank when present''),
      (rk_evaluation_state s \<in> {RISK_AUTHORIZED, RISK_BLOCKED} \<and> rk_account_id s = None,
       ''Authoritative risk observations require account_id''),
      (list_ex infinite_number
         [rk_balance s, rk_equity s, rk_max_daily_loss s, rk_daily_loss_percent s,
          rk_authorized_risk_amount s, rk_authorized_risk_percent s, rk_execution_quantity_value s],
       ''Risk-observation numeric values must be finite''),
      (negative_count (rk_max_trades_daily s), ''Maximum daily trades cannot be negative''),
      (negative_count (rk_daily_trades_count s), ''Daily trade count cannot be negative''),
      (rk_evaluation_state s \<noteq> RISK_AUTHORIZED
         \<and> (rk_authorized_risk_amount s \<noteq> None \<or> rk_authorized_risk_percent s \<noteq> None),
       ''Only authorized risk observations may expose risk capital''),
      (rk_evaluation_state s \<noteq> RISK_AUTHORIZED \<and> rk_execution_quantity_available s,
       ''Blocked or unavailable risk cannot expose quantity''),
      (rk_execution_quantity_available s
         \<and> ((case rk_execution_quantity_value s of None \<Rightarrow> True | Some v \<Rightarrow> v \<le> Fin 0)
            \<or> \<not> truthy_text (rk_execution_quantity_unit s)),
       ''Available execution quantity requires a positive typed value''),
      (\<not> rk_execution_quantity_available s
         \<and> (rk_execution_quantity_value s \<noteq> None \<or> rk_execution_quantity_unit s \<noteq> None),
       ''Unavailable execution quantity cannot expose value or unit'')]"

definition make_risk_snapshot :: "risk_snapshot \<Rightarrow> risk_snapshot result" where
  "make_risk_snapshot s = rbind (raise_first (risk_checks s)) (\<lambda>_. Inr s)"

record safety_snapshot =
  sf_observed_at :: pydatetime
  sf_emergency_stop_state :: emergency_stop_state
  sf_execution_mode :: execution_mode
  sf_broker :: string
  sf_environment :: string
  sf_durable_executor_enabled :: bool
  sf_daily_state_authority :: daily_state_authority
  sf_unresolved_intent_count :: int
  sf_unresolved_intent_blocked :: bool
  sf_execution_authorization :: execution_authorization
  sf_reason_codes :: "string list"
  sf_schema_version :: int

definition make_safety_snapshot :: "safety_snapshot \<Rightarrow> safety_snapshot result" where
  "make_safety_snapshot s =
     (if sf_schema_version s \<noteq> 1 then Inl (ValueError ''Unsupported execution-safety schema version'')
      else if \<not> tz_aware (sf_observed_at s)
      then Inl (ValueError ''Execution-safety observed_at must be timezone-aware'')
      else if \<not> nonblank (sf_broker s) \<or> \<not> nonblank (sf_environment s)
      then Inl (ValueError ''Execution-safety broker and environment are required'')
      else if sf_unresolved_intent_count s < 0 then Inl (ValueError ''Unresolved intent count cannot be negative'')
      else if \<not> list_all nonblank (sf_reason_codes s)
      then Inl (ValueError ''Execution-safety reason codes must be nonblank strings'')
      else Inr s)"

section \<open>The store\<close>

text \<open>The two tables hold at most the row with \<open>singleton_id\<close> 1. Booleans are stored as 0 and 1.\<close>

record safety_row =
  sr_schema_version :: int
  sr_observed_at :: iso_text
  sr_emergency_stop_state :: string
  sr_execution_mode :: string
  sr_broker :: string
  sr_environment :: string
  sr_durable_executor_enabled :: int
  sr_daily_state_authority :: string
  sr_unresolved_intent_count :: int
  sr_unresolved_intent_blocked :: int
  sr_execution_authorization :: string
  sr_reason_codes :: string

record risk_row =
  rr_schema_version :: int
  rr_observed_at :: iso_text
  rr_broker :: string
  rr_environment :: string
  rr_account_id :: "string option"
  rr_evaluation_state :: string
  rr_balance :: "pyfloat option"
  rr_equity :: "pyfloat option"
  rr_currency :: "string option"
  rr_max_daily_loss :: "pyfloat option"
  rr_max_trades_daily :: "int option"
  rr_daily_trades_count :: "int option"
  rr_daily_loss_percent :: "pyfloat option"
  rr_risk_allowed :: "int option"
  rr_risk_message :: string
  rr_rejection_reason :: string
  rr_authorized_risk_amount :: "pyfloat option"
  rr_authorized_risk_percent :: "pyfloat option"
  rr_execution_quantity_available :: int
  rr_execution_quantity_value :: "pyfloat option"
  rr_execution_quantity_unit :: "string option"
  rr_execution_quantity_reason :: string

text \<open>\<open>sd_file\<close>: the file exists; \<open>sd_tables\<close>: a store was opened with \<open>initialize=True\<close>, which creates the
  tables. \<open>sd_outages\<close> says for each coming attempt to open the database whether it fails.\<close>

record safety_db =
  sd_file :: bool
  sd_tables :: bool
  sd_safety :: "safety_row option"
  sd_risk :: "risk_row option"
  sd_outages :: "bool list"

definition safety_connection :: "safety_db \<Rightarrow> (safety_db \<Rightarrow> 'a result \<times> safety_db) \<Rightarrow> 'a result \<times> safety_db" where
  "safety_connection s body =
     (case sd_outages s of
        [] \<Rightarrow> body s
      | down # rest \<Rightarrow>
          if down then (Inl (DatabaseError ''unable to open database file''), s\<lparr>sd_outages := rest\<rparr>)
          else body (s\<lparr>sd_outages := rest\<rparr>))"

text \<open>Writing to a missing file creates it without tables. \<open>CREATE TABLE IF NOT EXISTS\<close> keeps what is there.\<close>

definition initialize_store :: "bool \<Rightarrow> safety_db \<Rightarrow> unit result \<times> safety_db" where
  "initialize_store initialize s =
     (if initialize then safety_connection s (\<lambda>s. (Inr (), s\<lparr>sd_file := True, sd_tables := True\<rparr>)) else (Inr (), s))"

text \<open>An INTEGER column holds 64 bits; binding a larger integer raises.\<close>

definition sqlite_int :: "int \<Rightarrow> int result" where
  "sqlite_int n = (if - (2 ^ 63) \<le> n \<and> n < 2 ^ 63 then Inr n else Inl OverflowError)"

definition sqlite_opt_int :: "int option \<Rightarrow> int option result" where
  "sqlite_opt_int v = (case v of None \<Rightarrow> Inr None | Some n \<Rightarrow> rbind (sqlite_int n) (\<lambda>n. Inr (Some n)))"

definition int_of_bool :: "bool \<Rightarrow> int" where
  "int_of_bool b = (if b then 1 else 0)"

definition NEWLINE :: char where
  "NEWLINE = CHR 0x0A"

definition encode_safety :: "safety_snapshot \<Rightarrow> safety_row result" where
  "encode_safety s =
     rbind (sqlite_int (sf_unresolved_intent_count s)) (\<lambda>count.
     Inr \<lparr>sr_schema_version = sf_schema_version s, sr_observed_at = Iso (to_utc (sf_observed_at s)),
      sr_emergency_stop_state = stop_value (sf_emergency_stop_state s),
      sr_execution_mode = mode_value (sf_execution_mode s), sr_broker = sf_broker s,
      sr_environment = sf_environment s,
      sr_durable_executor_enabled = int_of_bool (sf_durable_executor_enabled s),
      sr_daily_state_authority = authority_value (sf_daily_state_authority s),
      sr_unresolved_intent_count = count,
      sr_unresolved_intent_blocked = int_of_bool (sf_unresolved_intent_blocked s),
      sr_execution_authorization = authorization_value (sf_execution_authorization s),
      sr_reason_codes = join_text [NEWLINE] (sf_reason_codes s)\<rparr>)"

definition publish :: "safety_snapshot \<Rightarrow> safety_db \<Rightarrow> unit result \<times> safety_db" where
  "publish snapshot s = safety_connection s (\<lambda>s.
     if \<not> sd_tables s then (Inl (DatabaseError ''no such table: execution_safety_snapshot''), s\<lparr>sd_file := True\<rparr>)
     else (case encode_safety snapshot of
        Inl e \<Rightarrow> (Inl e, s)
      | Inr row \<Rightarrow> (Inr (), s\<lparr>sd_safety := Some row\<rparr>)))"

fun from_iso :: "iso_text \<Rightarrow> pydatetime result" where
  "from_iso (Iso d) = Inr d"
| "from_iso (NotIso t) = Inl (ValueError t)"

definition decode_safety :: "safety_row \<Rightarrow> safety_snapshot result" where
  "decode_safety row =
     rbind (from_iso (sr_observed_at row)) (\<lambda>observed_at.
     rbind (stop_of_value (sr_emergency_stop_state row)) (\<lambda>stop.
     rbind (mode_of_value (sr_execution_mode row)) (\<lambda>mode.
     rbind (authority_of_value (sr_daily_state_authority row)) (\<lambda>authority.
     rbind (authorization_of_value (sr_execution_authorization row)) (\<lambda>authorization.
     make_safety_snapshot
       \<lparr>sf_observed_at = observed_at, sf_emergency_stop_state = stop, sf_execution_mode = mode,
        sf_broker = sr_broker row, sf_environment = sr_environment row,
        sf_durable_executor_enabled = (sr_durable_executor_enabled row \<noteq> 0),
        sf_daily_state_authority = authority, sf_unresolved_intent_count = sr_unresolved_intent_count row,
        sf_unresolved_intent_blocked = (sr_unresolved_intent_blocked row \<noteq> 0),
        sf_execution_authorization = authorization,
        sf_reason_codes = filter (\<lambda>c. c \<noteq> []) (split_text NEWLINE (sr_reason_codes row)),
        sf_schema_version = sr_schema_version row\<rparr>)))))"

text \<open>A decoding error of any of the caught kinds becomes one \<open>ValueError\<close>.\<close>

definition malformed :: "string \<Rightarrow> 'a result \<Rightarrow> 'a result" where
  "malformed reason r = (case r of Inl e \<Rightarrow> Inl (ValueError reason) | Inr x \<Rightarrow> Inr x)"

definition read_safety :: "safety_db \<Rightarrow> safety_snapshot option result \<times> safety_db" where
  "read_safety s =
     (if \<not> sd_file s then (Inr None, s)
      else safety_connection s (\<lambda>s.
        (if \<not> sd_tables s then Inl (DatabaseError ''no such table: execution_safety_snapshot'')
         else case sd_safety s of
          None \<Rightarrow> Inr None
        | Some row \<Rightarrow> malformed ''Malformed execution-safety snapshot'' (rbind (decode_safety row) (\<lambda>x. Inr (Some x))), s)))"

definition encode_risk :: "risk_snapshot \<Rightarrow> risk_row result" where
  "encode_risk s =
     rbind (sqlite_opt_int (rk_max_trades_daily s)) (\<lambda>max_trades.
     rbind (sqlite_opt_int (rk_daily_trades_count s)) (\<lambda>trades.
     Inr \<lparr>rr_schema_version = rk_schema_version s, rr_observed_at = Iso (to_utc (rk_observed_at s)),
      rr_broker = rk_broker s, rr_environment = rk_environment s, rr_account_id = rk_account_id s,
      rr_evaluation_state = risk_state_value (rk_evaluation_state s), rr_balance = sql_real (rk_balance s),
      rr_equity = sql_real (rk_equity s), rr_currency = rk_currency s,
      rr_max_daily_loss = sql_real (rk_max_daily_loss s), rr_max_trades_daily = max_trades,
      rr_daily_trades_count = trades, rr_daily_loss_percent = sql_real (rk_daily_loss_percent s),
      rr_risk_allowed = map_option int_of_bool (rk_risk_allowed s), rr_risk_message = rk_risk_message s,
      rr_rejection_reason = rk_rejection_reason s,
      rr_authorized_risk_amount = sql_real (rk_authorized_risk_amount s),
      rr_authorized_risk_percent = sql_real (rk_authorized_risk_percent s),
      rr_execution_quantity_available = int_of_bool (rk_execution_quantity_available s),
      rr_execution_quantity_value = sql_real (rk_execution_quantity_value s),
      rr_execution_quantity_unit = rk_execution_quantity_unit s,
      rr_execution_quantity_reason = rk_execution_quantity_reason s\<rparr>))"

definition publish_risk :: "risk_snapshot \<Rightarrow> safety_db \<Rightarrow> unit result \<times> safety_db" where
  "publish_risk snapshot s = safety_connection s (\<lambda>s.
     if \<not> sd_tables s then (Inl (DatabaseError ''no such table: risk_authorization_snapshot''), s\<lparr>sd_file := True\<rparr>)
     else (case encode_risk snapshot of
        Inl e \<Rightarrow> (Inl e, s)
      | Inr row \<Rightarrow> (Inr (), s\<lparr>sd_risk := Some row\<rparr>)))"

definition decode_risk :: "risk_row \<Rightarrow> risk_snapshot result" where
  "decode_risk row =
     rbind (from_iso (rr_observed_at row)) (\<lambda>observed_at.
     rbind (risk_state_of_value (rr_evaluation_state row)) (\<lambda>state.
     make_risk_snapshot
       \<lparr>rk_observed_at = observed_at, rk_broker = rr_broker row, rk_environment = rr_environment row,
        rk_account_id = rr_account_id row, rk_evaluation_state = state, rk_balance = rr_balance row,
        rk_equity = rr_equity row, rk_currency = rr_currency row, rk_max_daily_loss = rr_max_daily_loss row,
        rk_max_trades_daily = rr_max_trades_daily row, rk_daily_trades_count = rr_daily_trades_count row,
        rk_daily_loss_percent = rr_daily_loss_percent row,
        rk_risk_allowed = map_option (\<lambda>n. n \<noteq> 0) (rr_risk_allowed row), rk_risk_message = rr_risk_message row,
        rk_rejection_reason = rr_rejection_reason row,
        rk_authorized_risk_amount = rr_authorized_risk_amount row,
        rk_authorized_risk_percent = rr_authorized_risk_percent row,
        rk_execution_quantity_available = (rr_execution_quantity_available row \<noteq> 0),
        rk_execution_quantity_value = rr_execution_quantity_value row,
        rk_execution_quantity_unit = rr_execution_quantity_unit row,
        rk_execution_quantity_reason = rr_execution_quantity_reason row,
        rk_schema_version = rr_schema_version row\<rparr>))"

definition read_risk :: "safety_db \<Rightarrow> risk_snapshot option result \<times> safety_db" where
  "read_risk s =
     (if \<not> sd_file s then (Inr None, s)
      else safety_connection s (\<lambda>s.
        (if \<not> sd_tables s then Inl (DatabaseError ''no such table: risk_authorization_snapshot'')
         else case sd_risk s of
          None \<Rightarrow> Inr None
        | Some row \<Rightarrow> malformed ''Malformed risk-authorization snapshot'' (rbind (decode_risk row) (\<lambda>x. Inr (Some x))), s)))"

section \<open>Encoding and decoding\<close>

definition safety_valid :: "safety_snapshot \<Rightarrow> bool" where
  "safety_valid s \<longleftrightarrow> make_safety_snapshot s = Inr s \<and> (\<forall>c \<in> set (sf_reason_codes s). NEWLINE \<notin> set c)"

definition risk_valid :: "risk_snapshot \<Rightarrow> bool" where
  "risk_valid s \<longleftrightarrow> make_risk_snapshot s = Inr s"

definition safety_utc :: "safety_snapshot \<Rightarrow> safety_snapshot" where
  "safety_utc s = s\<lparr>sf_observed_at := to_utc (sf_observed_at s)\<rparr>"

definition risk_utc :: "risk_snapshot \<Rightarrow> risk_snapshot" where
  "risk_utc s = s\<lparr>rk_observed_at := to_utc (rk_observed_at s)\<rparr>"

lemma codes_roundtrip:
  assumes "list_all nonblank codes" "\<forall>c \<in> set codes. NEWLINE \<notin> set c"
  shows "filter (\<lambda>c. c \<noteq> []) (split_text NEWLINE (join_text [NEWLINE] codes)) = codes"
proof (cases "codes = []")
  case False
  have "c \<noteq> []" if "c \<in> set codes" for c using assms(1) that by (auto simp: list_all_iff)
  then show ?thesis using split_join [OF False assms(2)] by (simp add: filter_id_conv)
qed simp

lemma sqlite_int_Inr [simp]: "sqlite_int n = Inr m \<longleftrightarrow> m = n \<and> - (2 ^ 63) \<le> n \<and> n < 2 ^ 63"
  by (auto simp: sqlite_int_def)

lemma sqlite_opt_int_Inr: "sqlite_opt_int v = Inr w \<Longrightarrow> w = v"
  by (auto simp: sqlite_opt_int_def split: option.splits)

lemma int_of_bool_nonzero [simp]: "int_of_bool b \<noteq> 0 \<longleftrightarrow> b" "int_of_bool b = 0 \<longleftrightarrow> \<not> b"
  by (auto simp: int_of_bool_def)

lemma safety_roundtrip:
  assumes "safety_valid s" "encode_safety s = Inr row"
  shows "decode_safety row = Inr (safety_utc s)"
proof -
  have v: "make_safety_snapshot (safety_utc s) = Inr (safety_utc s)" "list_all nonblank (sf_reason_codes s)"
    using assms(1) by (auto simp: safety_valid_def make_safety_snapshot_def safety_utc_def split: if_splits)
  have "\<forall>c \<in> set (sf_reason_codes s). NEWLINE \<notin> set c" using assms(1) by (simp add: safety_valid_def)
  with codes_roundtrip [OF v(2)] assms(2) v(1) show ?thesis
    by (cases s) (auto simp: encode_safety_def decode_safety_def safety_utc_def)
qed

lemma sql_real_finite: "\<not> infinite_number v \<Longrightarrow> sql_real v = v"
  by (auto simp: sql_real_def infinite_number_def)

lemma risk_valid_iff: "risk_valid s \<longleftrightarrow> (\<forall>(c, msg) \<in> set (risk_checks s). \<not> c)"
  by (simp only: risk_valid_def make_risk_snapshot_def rbind_eq_Inr raise_first_Inr) simp

lemma risk_valid_finite:
  assumes "risk_valid s"
  shows "\<not> infinite_number (rk_balance s)" "\<not> infinite_number (rk_equity s)" "\<not> infinite_number (rk_max_daily_loss s)"
    "\<not> infinite_number (rk_daily_loss_percent s)" "\<not> infinite_number (rk_authorized_risk_amount s)"
    "\<not> infinite_number (rk_authorized_risk_percent s)" "\<not> infinite_number (rk_execution_quantity_value s)"
  using assms by (simp_all add: risk_valid_iff risk_checks_def)

lemma risk_valid_utc: "risk_valid s \<Longrightarrow> risk_valid (risk_utc s)"
  unfolding risk_valid_iff risk_checks_def risk_utc_def by simp

lemma risk_roundtrip:
  assumes "risk_valid s" "encode_risk s = Inr row"
  shows "decode_risk row = Inr (risk_utc s)"
proof -
  have "map_option ((\<lambda>n. n \<noteq> 0) \<circ> int_of_bool) b = b" for b by (cases b) auto
  then have b: "map_option (\<lambda>n. n \<noteq> 0) (map_option int_of_bool b) = b" for b by (simp add: option.map_comp)
  have "make_risk_snapshot (risk_utc s) = Inr (risk_utc s)" using risk_valid_utc [OF assms(1)] by (simp add: risk_valid_def)
  with assms(2) b risk_valid_finite [OF assms(1), THEN sql_real_finite] show ?thesis
    by (cases s) (auto simp: encode_risk_def decode_risk_def risk_utc_def dest!: sqlite_opt_int_Inr)
qed

section \<open>The store as a pair of registers\<close>

text \<open>A sequence of calls of a register, a write for \<open>Some w\<close> and a read for \<open>None\<close>, run beside the
  specification: the value of the last successful write, at first \<open>v\<close>.\<close>

fun register_calls ::
  "('v \<Rightarrow> 's \<Rightarrow> unit result \<times> 's) \<Rightarrow> ('s \<Rightarrow> 'v option result \<times> 's) \<Rightarrow> ('v \<Rightarrow> 'v)
   \<Rightarrow> 'v option list \<Rightarrow> 's \<Rightarrow> 'v option \<Rightarrow> 's \<times> 'v option" where
  "register_calls put get canon [] s v = (s, v)"
| "register_calls put get canon (Some w # cs) s v =
     (case put w s of
        (Inr _, s') \<Rightarrow> register_calls put get canon cs s' (Some (canon w))
      | (Inl e, s') \<Rightarrow> register_calls put get canon cs s' v)"
| "register_calls put get canon (None # cs) s v = register_calls put get canon cs (snd (get s)) v"

text \<open>The interface the observers rely on: a register of the latest value. \<open>content\<close> is what the
  register holds, a write that succeeds sets it, a read that succeeds returns it and changes nothing.\<close>

locale latest_register =
  fixes put :: "'v \<Rightarrow> 's \<Rightarrow> unit result \<times> 's"
    and get :: "'s \<Rightarrow> 'v option result \<times> 's"
    and content :: "'s \<Rightarrow> 'v option"
    and valid :: "'v \<Rightarrow> bool" and canon :: "'v \<Rightarrow> 'v"
    and wf :: "'s \<Rightarrow> bool"
  assumes put_sets: "valid v \<Longrightarrow> put v s = (Inr u, s') \<Longrightarrow> content s' = Some (canon v)"
    and put_fails: "put v s = (Inl e, s') \<Longrightarrow> content s' = content s"
    and put_wf: "valid v \<Longrightarrow> wf s \<Longrightarrow> wf (snd (put v s))"
    and get_returns: "wf s \<Longrightarrow> get s = (Inr x, s') \<Longrightarrow> x = content s"
    and get_keeps: "content (snd (get s)) = content s"
    and get_wf: "wf s \<Longrightarrow> wf (snd (get s))"
begin

lemma calls_content:
  assumes "\<forall>w. Some w \<in> set cs \<longrightarrow> valid w" "wf s" "content s = v"
    and "register_calls put get canon cs s v = (s', v')"
  shows "wf s' \<and> content s' = v'"
  using assms
proof (induction cs arbitrary: s v)
  case (Cons c cs)
  show ?case
  proof (cases c)
    case None
    then show ?thesis using Cons.IH [of "snd (get s)" v] Cons.prems get_keeps [of s] get_wf [of s] by simp
  next
    case (Some w)
    obtain r t where w: "put w s = (r, t)" by fastforce
    have "valid w" using Cons.prems Some by simp
    then have "wf t" using Cons.prems(2) put_wf [of w s] w by simp
    show ?thesis
    proof (cases r)
      case (Inl e)
      then show ?thesis using Cons Some w put_fails [of w s e t] \<open>wf t\<close> by auto
    next
      case (Inr u)
      then show ?thesis using Cons Some w put_sets [OF \<open>valid w\<close>, of s u t] \<open>wf t\<close> by auto
    qed
  qed
qed simp

lemma reads_latest:
  assumes "\<forall>w. Some w \<in> set cs \<longrightarrow> valid w" "wf s" "content s = v"
    and "register_calls put get canon cs s v = (s', v')" "get s' = (Inr x, s'')"
  shows "x = v'"
  using calls_content [OF assms(1-4)] get_returns [OF _ assms(5)] by simp

end

definition safety_content :: "safety_db \<Rightarrow> safety_snapshot option" where
  "safety_content s = (case sd_safety s of None \<Rightarrow> None
     | Some row \<Rightarrow> (case decode_safety row of Inl e \<Rightarrow> None | Inr x \<Rightarrow> Some x))"

definition risk_content :: "safety_db \<Rightarrow> risk_snapshot option" where
  "risk_content s = (case sd_risk s of None \<Rightarrow> None
     | Some row \<Rightarrow> (case decode_risk row of Inl e \<Rightarrow> None | Inr x \<Rightarrow> Some x))"

definition safety_readable :: "safety_db \<Rightarrow> bool" where
  "safety_readable s \<longleftrightarrow> (sd_tables s \<longrightarrow> sd_file s) \<and> (sd_safety s \<noteq> None \<longrightarrow> sd_tables s)
     \<and> (\<forall>row. sd_safety s = Some row \<longrightarrow> (\<exists>x. decode_safety row = Inr x))"

definition risk_readable :: "safety_db \<Rightarrow> bool" where
  "risk_readable s \<longleftrightarrow> (sd_tables s \<longrightarrow> sd_file s) \<and> (sd_risk s \<noteq> None \<longrightarrow> sd_tables s)
     \<and> (\<forall>row. sd_risk s = Some row \<longrightarrow> (\<exists>x. decode_risk row = Inr x))"

lemmas safety_store_defs = safety_connection_def safety_content_def risk_content_def

interpretation safety_register: latest_register publish read_safety safety_content safety_valid safety_utc safety_readable
proof
  show "safety_content s' = Some (safety_utc v)" if "safety_valid v" "publish v s = (Inr u, s')" for v s u s'
    using that by (auto simp: publish_def safety_store_defs safety_roundtrip split: list.splits if_splits sum.splits)
  show "safety_content s' = safety_content s" if "publish v s = (Inl e, s')" for v s e s'
    using that by (auto simp: publish_def safety_store_defs split: list.splits if_splits sum.splits)
  show "safety_readable (snd (publish v s))" if "safety_valid v" "safety_readable s" for v s
    using that by (auto simp: publish_def safety_connection_def safety_readable_def safety_roundtrip
        split: list.splits sum.splits)
  show "x = safety_content s" if "safety_readable s" "read_safety s = (Inr x, s')" for s x s'
    using that by (auto simp: read_safety_def safety_store_defs safety_readable_def malformed_def
        split: list.splits if_splits option.splits sum.splits)
  show "safety_content (snd (read_safety s)) = safety_content s" for s
    by (auto simp: read_safety_def safety_store_defs split: list.splits)
  show "safety_readable (snd (read_safety s))" if "safety_readable s" for s
    using that by (auto simp: read_safety_def safety_connection_def safety_readable_def split: list.splits)
qed

interpretation risk_register: latest_register publish_risk read_risk risk_content risk_valid risk_utc risk_readable
proof
  show "risk_content s' = Some (risk_utc v)" if "risk_valid v" "publish_risk v s = (Inr u, s')" for v s u s'
    using that by (auto simp: publish_risk_def safety_store_defs risk_roundtrip split: list.splits if_splits sum.splits)
  show "risk_content s' = risk_content s" if "publish_risk v s = (Inl e, s')" for v s e s'
    using that by (auto simp: publish_risk_def safety_store_defs split: list.splits if_splits sum.splits)
  show "risk_readable (snd (publish_risk v s))" if "risk_valid v" "risk_readable s" for v s
    using that by (auto simp: publish_risk_def safety_connection_def risk_readable_def risk_roundtrip
        split: list.splits sum.splits)
  show "x = risk_content s" if "risk_readable s" "read_risk s = (Inr x, s')" for s x s'
    using that by (auto simp: read_risk_def safety_store_defs risk_readable_def malformed_def
        split: list.splits if_splits option.splits sum.splits)
  show "risk_content (snd (read_risk s)) = risk_content s" for s
    by (auto simp: read_risk_def safety_store_defs split: list.splits)
  show "risk_readable (snd (read_risk s))" if "risk_readable s" for s
    using that by (auto simp: read_risk_def safety_connection_def risk_readable_def split: list.splits)
qed

section \<open>Properties\<close>

text \<open>The execution-safety store refines a register of the latest observation: over any sequence
  of publications and reads, with the database failing at any points, a read that succeeds returns
  exactly the last snapshot whose publication succeeded, with its time in UTC, and nothing when there
  was none. Reason codes must not contain a line break.\<close>

theorem safety_store_latest:
  assumes "\<forall>w. Some w \<in> set calls \<longrightarrow> safety_valid w"
    and "sd_safety s = None" "sd_tables s" "sd_file s"
    and "register_calls publish read_safety safety_utc calls s None = (s', latest)"
    and "read_safety s' = (Inr x, s'')"
  shows "x = latest"
  using assms(2-4) by (intro safety_register.reads_latest [OF assms(1) _ _ assms(5,6)])
    (simp_all add: safety_readable_def safety_content_def)

text \<open>The risk-authorization store refines a register of the latest observation in the same way,
  for every valid snapshot.\<close>

theorem risk_store_latest:
  assumes "\<forall>w. Some w \<in> set calls \<longrightarrow> risk_valid w"
    and "sd_risk s = None" "sd_tables s" "sd_file s"
    and "register_calls publish_risk read_risk risk_utc calls s None = (s', latest)"
    and "read_risk s' = (Inr x, s'')"
  shows "x = latest"
  using assms(2-4) by (intro risk_register.reads_latest [OF assms(1) _ _ assms(5,6)])
    (simp_all add: risk_readable_def risk_content_def)

text \<open>A risk observation exposes capital only when it is authorized: a valid snapshot that carries
  an authorized amount, an authorized percentage or an execution quantity is in the authorized state
  and names its account, and its quantity is positive and has a unit.\<close>

theorem risk_capital_only_authorized:
  assumes "make_risk_snapshot s = Inr t"
    and "rk_authorized_risk_amount s \<noteq> None \<or> rk_authorized_risk_percent s \<noteq> None
      \<or> rk_execution_quantity_value s \<noteq> None \<or> rk_execution_quantity_unit s \<noteq> None"
  shows "t = s \<and> rk_evaluation_state s = RISK_AUTHORIZED \<and> rk_account_id s \<noteq> None
    \<and> (case rk_execution_quantity_value s of None \<Rightarrow> True
       | Some v \<Rightarrow> positive_finite v \<and> truthy_text (rk_execution_quantity_unit s))"
proof -
  have t: "t = s" and "risk_valid s" using assms(1) by (auto simp: risk_valid_def make_risk_snapshot_def)
  then have ok: "rk_evaluation_state s = RISK_AUTHORIZED" "rk_account_id s \<noteq> None"
    "\<And>v. rk_execution_quantity_value s = Some v \<Longrightarrow> is_finite v \<and> \<not> v \<le> Fin 0 \<and> truthy_text (rk_execution_quantity_unit s)"
    using assms(2) by (auto simp: risk_valid_iff risk_checks_def infinite_number_def split: option.splits)
  have "positive_finite v" if "is_finite v" "\<not> v \<le> Fin 0" for v
    using that by (cases v) (auto simp: positive_finite_def)
  with t ok show ?thesis by (auto split: option.split)
qed

section \<open>Samples\<close>

definition broken_snapshot :: safety_snapshot where
  "broken_snapshot =
     \<lparr>sf_observed_at = Aware 0 0, sf_emergency_stop_state = STOP_CLEAR, sf_execution_mode = DURABLE,
      sf_broker = ''simulation'', sf_environment = ''demo'', sf_durable_executor_enabled = True,
      sf_daily_state_authority = AUTHORITATIVE, sf_unresolved_intent_count = 0,
      sf_unresolved_intent_blocked = False, sf_execution_authorization = EXEC_AUTHORIZED,
      sf_reason_codes = [''A'' @ [NEWLINE] @ '' ''], sf_schema_version = 1\<rparr>"

definition fresh_store :: safety_db where
  "fresh_store = \<lparr>sd_file = True, sd_tables = True, sd_safety = None, sd_risk = None, sd_outages = []\<rparr>"


lemma broken_snapshot_valid: "make_safety_snapshot broken_snapshot = Inr broken_snapshot"
  by (simp add: make_safety_snapshot_def broken_snapshot_def nonblank_iff py_isspace_def)


definition sample_safety :: safety_snapshot where
  "sample_safety = broken_snapshot\<lparr>sf_reason_codes := [''OK'']\<rparr>"

lemma sample_safety_valid: "safety_valid sample_safety"
  by (simp add: safety_valid_def make_safety_snapshot_def sample_safety_def broken_snapshot_def nonblank_iff
      py_isspace_def NEWLINE_def)

definition sample_risk :: risk_snapshot where
  "sample_risk =
     \<lparr>rk_observed_at = Aware 0 0, rk_broker = ''simulation'', rk_environment = ''demo'', rk_account_id = Some ''A1'',
      rk_evaluation_state = RISK_AUTHORIZED, rk_balance = Some (Fin 1000), rk_equity = None, rk_currency = None,
      rk_max_daily_loss = None, rk_max_trades_daily = Some 5, rk_daily_trades_count = Some 1,
      rk_daily_loss_percent = None, rk_risk_allowed = Some True, rk_risk_message = ''ok'', rk_rejection_reason = [],
      rk_authorized_risk_amount = Some (Fin 5), rk_authorized_risk_percent = None,
      rk_execution_quantity_available = True, rk_execution_quantity_value = Some (Fin 1),
      rk_execution_quantity_unit = Some ''SIMULATION_UNITS'', rk_execution_quantity_reason = [], rk_schema_version = 2\<rparr>"

lemma sample_risk_valid: "risk_valid sample_risk"
  by (simp add: risk_valid_iff risk_checks_def sample_risk_def nonblank_iff py_isspace_def infinite_number_def
      negative_count_def)

theorem safety_store_latest_witness:
  "\<exists>s' s''. register_calls publish read_safety safety_utc [Some sample_safety, None] fresh_store None =
       (s', Some (safety_utc sample_safety))
     \<and> read_safety s' = (Inr (Some (safety_utc sample_safety)), s'')"
proof -
  obtain row where row: "encode_safety sample_safety = Inr row"
    by (simp add: encode_safety_def sample_safety_def broken_snapshot_def sqlite_int_def)
  obtain s' where c: "register_calls publish read_safety safety_utc [Some sample_safety, None] fresh_store None =
       (s', Some (safety_utc sample_safety))"
    by (simp add: publish_def safety_connection_def fresh_store_def row)
  obtain x s'' where r: "read_safety s' = (Inr x, s'')"
    using c safety_roundtrip [OF sample_safety_valid row]
    by (auto simp: publish_def safety_connection_def fresh_store_def row read_safety_def malformed_def)
  have "x = Some (safety_utc sample_safety)"
    by (rule safety_store_latest [OF _ _ _ _ c r]) (simp_all add: sample_safety_valid fresh_store_def)
  with c r show ?thesis by blast
qed

theorem risk_store_latest_witness:
  "\<exists>s' s''. register_calls publish_risk read_risk risk_utc [Some sample_risk, None] fresh_store None =
       (s', Some (risk_utc sample_risk))
     \<and> read_risk s' = (Inr (Some (risk_utc sample_risk)), s'')"
proof -
  obtain row where row: "encode_risk sample_risk = Inr row"
    by (simp add: encode_risk_def sample_risk_def sqlite_int_def sqlite_opt_int_def)
  obtain s' where c: "register_calls publish_risk read_risk risk_utc [Some sample_risk, None] fresh_store None =
       (s', Some (risk_utc sample_risk))"
    by (simp add: publish_risk_def safety_connection_def fresh_store_def row)
  obtain x s'' where r: "read_risk s' = (Inr x, s'')"
    using c risk_roundtrip [OF sample_risk_valid row]
    by (auto simp: publish_risk_def safety_connection_def fresh_store_def row read_risk_def malformed_def)
  have "x = Some (risk_utc sample_risk)"
    by (rule risk_store_latest [OF _ _ _ _ c r]) (simp_all add: sample_risk_valid fresh_store_def)
  with c r show ?thesis by blast
qed

theorem risk_capital_only_authorized_witness:
  "make_risk_snapshot sample_risk = Inr sample_risk \<and> rk_authorized_risk_amount sample_risk \<noteq> None
   \<and> rk_evaluation_state sample_risk = RISK_AUTHORIZED"
  using risk_capital_only_authorized [of sample_risk sample_risk] sample_risk_valid
  by (simp add: risk_valid_def sample_risk_def)

text \<open>A line break in a reason code makes a published snapshot unreadable: a snapshot that passes
  its own validation and is published successfully is rejected as malformed by every later read,
  because the codes are joined and split at line breaks and a blank part is not a valid code.\<close>

theorem line_break_breaks_reader:
  "make_safety_snapshot broken_snapshot = Inr broken_snapshot
   \<and> (\<exists>s'. publish broken_snapshot fresh_store = (Inr (), s')
        \<and> fst (read_safety s') = Inl (ValueError ''Malformed execution-safety snapshot''))"
proof -
  have sp: "split_text NEWLINE (''A'' @ [NEWLINE] @ '' '') = [''A'', '' '']" by (simp add: NEWLINE_def)
  obtain row where row: "encode_safety broken_snapshot = Inr row" "sr_reason_codes row = ''A'' @ [NEWLINE] @ '' ''"
    by (simp add: encode_safety_def broken_snapshot_def sqlite_int_def)
  have "decode_safety row \<noteq> Inr x" for x
    unfolding decode_safety_def row(2) sp
    by (simp add: make_safety_snapshot_def nonblank_iff py_isspace_def split: if_split)
  then have "\<exists>e. decode_safety row = Inl e" by (cases "decode_safety row") auto
  then show ?thesis
    using row(1) broken_snapshot_valid
    by (auto simp: publish_def safety_connection_def fresh_store_def read_safety_def malformed_def)
qed

end
