(* ===== verification/Limit_Drafts.thy ===== *)
theory Limit_Drafts
  imports Py_Values
begin

text \<open>
  The preparation policy for limit drafts (\<open>src/execution/pending_limits.py\<close>). Its inputs are not
  trusted to have their annotated types, so they are values of \<open>pyval\<close>.
\<close>

section \<open>Drafts\<close>

record limit_draft =
  ld_symbol :: pyval
  ld_side :: pyval
  ld_entry :: pyval
  ld_stop_loss :: pyval
  ld_take_profit :: pyval
  ld_risk_amount :: pyval
  ld_idempotency_key :: pyval

record limit_preparation =
  lp_ready :: bool
  lp_reason :: string

definition not_ready :: "string \<Rightarrow> limit_preparation" where
  "not_ready reason = \<lparr>lp_ready = False, lp_reason = reason\<rparr>"

text \<open>\<open>type(v) in (int, float) and math.isfinite(v) and v > 0\<close>; \<open>isfinite\<close> raises for an integer
  beyond the floats.\<close>

fun positive_number :: "pyval \<Rightarrow> bool result" where
  "positive_number (PyInt i) = rbind (float_of_int i) (\<lambda>_. Inr (0 < i))"
| "positive_number (PyFloat x) = Inr (positive_finite x)"
| "positive_number _ = Inr False"

text \<open>The symbols and keys as texts: \<open>None\<close> unless every element is a nonblank string.\<close>

definition all_texts :: "pyval list \<Rightarrow> string list option" where
  "all_texts vs = (if list_all nonblank_str vs then Some (map (\<lambda>v. the (text_of v)) vs) else None)"

text \<open>Prices, risk and levels of a draft that passed the state checks.\<close>

definition check_levels ::
  "limit_draft \<Rightarrow> pyval \<Rightarrow> pyval \<Rightarrow> pyval \<Rightarrow> pyval \<Rightarrow> limit_preparation result" where
  "check_levels d bid ask risk_approved authorized =
     rbind (py_all (map positive_number
       [bid, ask, ld_entry d, ld_stop_loss d, ld_take_profit d, ld_risk_amount d, authorized])) (\<lambda>numbers.
     rbind (if numbers then py_less ask bid else Inr True) (\<lambda>unpriced.
     if unpriced then Inr (not_ready ''PRICE_OR_RISK_UNAVAILABLE'')
     else rbind (if risk_approved = PyBool True then py_less authorized (ld_risk_amount d) else Inr True) (\<lambda>unapproved.
     if unapproved then Inr (not_ready ''RISK_NOT_APPROVED'')
     else rbind (if text_of (ld_side d) = Some ''BUY''
         then py_all [py_less (ld_stop_loss d) (ld_entry d), py_less (ld_entry d) (ld_take_profit d),
                      py_less (ld_entry d) ask]
         else if text_of (ld_side d) = Some ''SELL''
         then py_all [py_less (ld_take_profit d) (ld_entry d), py_less (ld_entry d) (ld_stop_loss d),
                      py_less bid (ld_entry d)]
         else Inr False) (\<lambda>valid.
     Inr \<lparr>lp_ready = valid,
          lp_reason = (if valid then ''DRAFT_READY_NOT_AUTHORIZED_FOR_SUBMISSION'' else ''INVALID_LIMIT_LEVELS'')\<rparr>))))"

text \<open>The draft is \<open>None\<close> when the argument is not a \<open>LimitDraft\<close>.\<close>

definition check_draft ::
  "limit_draft option \<Rightarrow> string list \<Rightarrow> string list \<Rightarrow> pyval \<Rightarrow> pyval \<Rightarrow> pyval \<Rightarrow> pyval \<Rightarrow> limit_preparation result" where
  "check_draft draft symbols keys bid ask risk_approved authorized =
     (case draft of
        None \<Rightarrow> Inr (not_ready ''INVALID_DRAFT'')
      | Some d \<Rightarrow> (case (text_of (ld_symbol d), text_of (ld_idempotency_key d)) of
          (Some symb, Some key) \<Rightarrow>
            if \<not> nonblank symb \<or> \<not> nonblank key then Inr (not_ready ''INVALID_DRAFT'')
            else if key \<in> set keys then Inr (not_ready ''DUPLICATE_DRAFT'')
            else if py_upper (py_strip symb) \<in> (\<lambda>s. py_upper (py_strip s)) ` set symbols
            then Inr (not_ready ''SAME_SYMBOL_BLOCKED'')
            else check_levels d bid ask risk_approved authorized
        | _ \<Rightarrow> Inr (not_ready ''INVALID_DRAFT'')))"

definition prepare_limit ::
  "limit_draft option \<Rightarrow> pyval \<Rightarrow> pyval \<Rightarrow> pyval \<Rightarrow> pyval \<Rightarrow> pyval \<Rightarrow> pyval \<Rightarrow> pyval \<Rightarrow> pyval \<Rightarrow> pyval
   \<Rightarrow> limit_preparation result" where
  "prepare_limit draft bid ask open_symbols pending_symbols snapshots_complete risk_approved authorized total_cap used_keys =
     (if snapshots_complete \<noteq> PyBool True then Inr (not_ready ''BROKER_STATE_UNAVAILABLE'')
      else case (as_tuple open_symbols, as_tuple pending_symbols, as_frozenset used_keys) of
        (Some os, Some ps, Some ks) \<Rightarrow>
          (case (all_texts os, all_texts ps, all_texts ks) of
             (Some opens, Some pendings, Some keys) \<Rightarrow>
               (case as_int total_cap of
                  None \<Rightarrow> Inr (not_ready ''CAP_UNAVAILABLE'')
                | Some cap \<Rightarrow>
                    if \<not> (1 \<le> cap \<and> cap \<le> 5) then Inr (not_ready ''CAP_UNAVAILABLE'')
                    else if 2 \<le> length pendings then Inr (not_ready ''PENDING_LIMIT_REACHED'')
                    else if cap \<le> int (length opens + length pendings) then Inr (not_ready ''TOTAL_CAP_REACHED'')
                    else check_draft draft (opens @ pendings) keys bid ask risk_approved authorized)
           | _ \<Rightarrow> Inr (not_ready ''BROKER_STATE_UNAVAILABLE''))
      | _ \<Rightarrow> Inr (not_ready ''BROKER_STATE_UNAVAILABLE''))"

section \<open>When a draft is ready\<close>

lemma not_ready_simps [simp]: "\<not> lp_ready (not_ready r)"
  by (simp add: not_ready_def)

definition levels_ready :: "limit_draft \<Rightarrow> pyval \<Rightarrow> pyval \<Rightarrow> bool" where
  "levels_ready d bid ask \<longleftrightarrow>
     text_of (ld_side d) = Some ''BUY'' \<and> py_less (ld_stop_loss d) (ld_entry d) = Inr True
       \<and> py_less (ld_entry d) (ld_take_profit d) = Inr True \<and> py_less (ld_entry d) ask = Inr True
     \<or> text_of (ld_side d) = Some ''SELL'' \<and> py_less (ld_take_profit d) (ld_entry d) = Inr True
       \<and> py_less (ld_entry d) (ld_stop_loss d) = Inr True \<and> py_less bid (ld_entry d) = Inr True"

definition ready :: limit_preparation where
  "ready = \<lparr>lp_ready = True, lp_reason = ''DRAFT_READY_NOT_AUTHORIZED_FOR_SUBMISSION''\<rparr>"

lemma check_levels_ready:
  "check_levels d bid ask risk_approved authorized = Inr p \<and> lp_ready p \<longleftrightarrow>
     list_all (\<lambda>v. positive_number v = Inr True)
       [bid, ask, ld_entry d, ld_stop_loss d, ld_take_profit d, ld_risk_amount d, authorized]
     \<and> py_less ask bid = Inr False \<and> risk_approved = PyBool True
     \<and> py_less authorized (ld_risk_amount d) = Inr False \<and> levels_ready d bid ask \<and> p = ready"
proof -
  have numbers: "py_all (map f vs) = Inr True \<longleftrightarrow> list_all (\<lambda>v. f v = Inr True) vs" for f :: "pyval \<Rightarrow> bool result" and vs
    by (induction vs) (auto split: if_splits)
  have levels: "(rbind (if text_of (ld_side d) = Some ''BUY''
         then py_all [py_less (ld_stop_loss d) (ld_entry d), py_less (ld_entry d) (ld_take_profit d), py_less (ld_entry d) ask]
         else if text_of (ld_side d) = Some ''SELL''
         then py_all [py_less (ld_take_profit d) (ld_entry d), py_less (ld_entry d) (ld_stop_loss d), py_less bid (ld_entry d)]
         else Inr False) (\<lambda>valid. Inr \<lparr>lp_ready = valid,
          lp_reason = (if valid then ''DRAFT_READY_NOT_AUTHORIZED_FOR_SUBMISSION'' else ''INVALID_LIMIT_LEVELS'')\<rparr>)) = Inr p \<and> lp_ready p
     \<longleftrightarrow> levels_ready d bid ask \<and> p = ready"
    by (auto simp: levels_ready_def ready_def split: if_splits)
  have guard: "rbind m (\<lambda>c. if c then Inr (not_ready s) else x) = Inr p \<and> lp_ready p \<longleftrightarrow> m = Inr False \<and> x = Inr p \<and> lp_ready p" for m s x
    by (auto split: if_splits)
  have start: "rbind m (\<lambda>b. rbind (if b then n else Inr True) f) = Inr p \<and> lp_ready p \<longleftrightarrow>
     (m = Inr True \<and> rbind n f = Inr p \<and> lp_ready p) \<or> (m = Inr False \<and> f True = Inr p \<and> lp_ready p)" for m n f
    by (cases m) (auto split: if_splits)
  have refused: "not_ready s = p \<and> lp_ready p \<longleftrightarrow> False" for s by auto
  show ?thesis
    unfolding check_levels_def
    by (simp only: start guard levels numbers if_True simp_thms not_ready_simps) (cases "risk_approved = PyBool True"; simp add: refused)
qed

lemma check_draft_ready:
  "check_draft draft symbols keys bid ask risk_approved authorized = Inr p \<and> lp_ready p \<longleftrightarrow>
     (\<exists>d symb key. draft = Some d \<and> text_of (ld_symbol d) = Some symb \<and> text_of (ld_idempotency_key d) = Some key
       \<and> nonblank symb \<and> nonblank key \<and> key \<notin> set keys
       \<and> py_upper (py_strip symb) \<notin> (\<lambda>s. py_upper (py_strip s)) ` set symbols
       \<and> check_levels d bid ask risk_approved authorized = Inr p \<and> lp_ready p)"
  by (auto simp: check_draft_def split: option.splits)


abbreviation tx :: "pyval \<Rightarrow> string" where
  "tx v \<equiv> the (text_of v)"

lemma prepare_limit_ready:
  "prepare_limit draft bid ask open_symbols pending_symbols snapshots_complete risk_approved authorized total_cap used_keys
       = Inr p \<and> lp_ready p \<longleftrightarrow>
     (\<exists>os ps ks cap. snapshots_complete = PyBool True
       \<and> open_symbols = PyTuple os \<and> pending_symbols = PyTuple ps \<and> used_keys = PyFrozenset ks
       \<and> list_all nonblank_str (os @ ps @ ks)
       \<and> total_cap = PyInt cap \<and> 1 \<le> cap \<and> cap \<le> 5 \<and> length ps < 2 \<and> int (length os + length ps) < cap
       \<and> check_draft draft (map tx os @ map tx ps) (map tx ks) bid ask risk_approved authorized = Inr p \<and> lp_ready p)"
  by (auto simp: prepare_limit_def all_texts_def split: if_splits option.splits)

lemma texts_image:
  assumes "list_all nonblank_str vs"
  shows "x \<in> f ` set (map tx vs) \<longleftrightarrow> Some x \<in> (\<lambda>v. map_option f (text_of v)) ` set vs"
proof -
  have "(\<lambda>v. map_option f (text_of v)) ` set vs = (\<lambda>v. Some (f (tx v))) ` set vs"
    using assms by (intro image_cong) (auto simp: list_all_iff nonblank_str_iff)
  then show ?thesis by auto
qed

lemma texts_image_id:
  assumes "list_all nonblank_str vs"
  shows "x \<in> set (map tx vs) \<longleftrightarrow> Some x \<in> text_of ` set vs"
  using texts_image [OF assms, of x id] by (simp add: option.map_id)

text \<open>The draft has a symbol and a key, the key is unused and the symbol is not open or pending.\<close>

definition draft_new :: "limit_draft \<Rightarrow> pyval list \<Rightarrow> pyval list \<Rightarrow> bool" where
  "draft_new d symbols used_keys \<longleftrightarrow>
     (\<exists>symb key. text_of (ld_symbol d) = Some symb \<and> text_of (ld_idempotency_key d) = Some key
       \<and> nonblank symb \<and> nonblank key \<and> Some key \<notin> text_of ` set used_keys
       \<and> Some (py_upper (py_strip symb)) \<notin> (\<lambda>v. map_option (\<lambda>s. py_upper (py_strip s)) (text_of v)) ` set symbols)"

lemma check_draft_new:
  assumes "list_all nonblank_str symbols" "list_all nonblank_str ks"
  shows "check_draft draft (map tx symbols) (map tx ks) bid ask risk_approved authorized = Inr p \<and> lp_ready p \<longleftrightarrow>
    (\<exists>d. draft = Some d \<and> draft_new d symbols ks
      \<and> check_levels d bid ask risk_approved authorized = Inr p \<and> lp_ready p)"
  unfolding check_draft_ready draft_new_def texts_image [OF assms(1)] texts_image_id [OF assms(2)] by blast

text \<open>A limit draft is ready exactly when the broker state is complete and well formed, the cap is
  between one and five and not reached, fewer than two orders are pending, the draft is new and its
  symbol is not in use, all numbers are positive and finite with the bid not above the ask, the risk is
  approved and within the authorized amount, and the levels are in order: the stop and the target on
  their sides of the entry, and the entry better than the market.\<close>

theorem limit_ready_iff:
  "prepare_limit draft bid ask open_symbols pending_symbols snapshots_complete risk_approved authorized total_cap used_keys
       = Inr p \<and> lp_ready p \<longleftrightarrow>
     (\<exists>os ps ks cap. snapshots_complete = PyBool True
       \<and> open_symbols = PyTuple os \<and> pending_symbols = PyTuple ps \<and> used_keys = PyFrozenset ks
       \<and> list_all nonblank_str (os @ ps @ ks)
       \<and> total_cap = PyInt cap \<and> 1 \<le> cap \<and> cap \<le> 5 \<and> length ps < 2 \<and> int (length os + length ps) < cap
       \<and> (\<exists>d. draft = Some d \<and> draft_new d (os @ ps) ks
       \<and> list_all (\<lambda>v. positive_number v = Inr True)
           [bid, ask, ld_entry d, ld_stop_loss d, ld_take_profit d, ld_risk_amount d, authorized]
       \<and> py_less ask bid = Inr False \<and> risk_approved = PyBool True
       \<and> py_less authorized (ld_risk_amount d) = Inr False \<and> levels_ready d bid ask \<and> p = ready))"
proof -
  have "check_draft draft (map tx os @ map tx ps) (map tx ks) bid ask risk_approved authorized = Inr p \<and> lp_ready p \<longleftrightarrow>
    (\<exists>d. draft = Some d \<and> draft_new d (os @ ps) ks
      \<and> check_levels d bid ask risk_approved authorized = Inr p \<and> lp_ready p)"
    if "list_all nonblank_str (os @ ps @ ks)" for os ps ks
    using check_draft_new [of "os @ ps" ks] that by simp
  then show ?thesis unfolding prepare_limit_ready check_levels_ready by (intro iff_exI conj_cong refl) simp
qed

end
