(* ===== verification/Trade_Simulator.thy ===== *)
theory Trade_Simulator
  imports Risk_Engine
begin

text \<open>
  The forward trade simulation of the backtests (\<open>src/execution/simulator.py\<close>) on a frame with a
  positional index.
\<close>

section \<open>Simulating one trade\<close>

record bar =
  bar_high :: pyfloat
  bar_low :: pyfloat
  bar_close :: pyfloat
  bar_ATR :: pyfloat

definition LOOKAHEAD_CANDLES :: nat where
  "LOOKAHEAD_CANDLES = 19"

definition calculate_stop_target :: "pyfloat \<Rightarrow> pyfloat \<Rightarrow> string \<Rightarrow> pyfloat \<times> pyfloat" where
  "calculate_stop_target entry atr direction =
     (let stop_distance = atr * Fin (3/2); target_distance = atr * Fin 3 in
      if direction = ''BUY'' then (entry - stop_distance, entry + target_distance)
      else (entry + stop_distance, entry - target_distance))"

record simulated_trade =
  st_profit :: int
  st_result :: string
  st_entry :: pyfloat
  st_exit :: pyfloat
  st_entry_index :: nat
  st_exit_index :: nat

definition loss_trade :: "pyfloat \<Rightarrow> pyfloat \<Rightarrow> nat \<Rightarrow> nat \<Rightarrow> simulated_trade" where
  "loss_trade entry stop i j = \<lparr>st_profit = -1, st_result = ''LOSS'', st_entry = entry, st_exit = stop,
     st_entry_index = i, st_exit_index = j\<rparr>"

definition win_trade :: "pyfloat \<Rightarrow> pyfloat \<Rightarrow> nat \<Rightarrow> nat \<Rightarrow> simulated_trade" where
  "win_trade entry target i j = \<lparr>st_profit = 3, st_result = ''WIN'', st_entry = entry, st_exit = target,
     st_entry_index = i, st_exit_index = j\<rparr>"

definition hits_stop :: "string \<Rightarrow> pyfloat \<Rightarrow> bar \<Rightarrow> bool" where
  "hits_stop direction stop b \<longleftrightarrow> (if direction = ''BUY'' then bar_low b \<le> stop else stop \<le> bar_high b)"

definition hits_target :: "string \<Rightarrow> pyfloat \<Rightarrow> bar \<Rightarrow> bool" where
  "hits_target direction target b \<longleftrightarrow> (if direction = ''BUY'' then target \<le> bar_high b else bar_low b \<le> target)"

text \<open>The loop over the future candles; \<open>j\<close> is the index of the first one.\<close>

fun scan_future :: "string \<Rightarrow> pyfloat \<Rightarrow> pyfloat \<Rightarrow> pyfloat \<Rightarrow> nat \<Rightarrow> nat \<Rightarrow> bar list \<Rightarrow> simulated_trade option" where
  "scan_future direction entry stop target i j [] = None"
| "scan_future direction entry stop target i j (b # bs) =
     (if hits_stop direction stop b then Some (loss_trade entry stop i j)
      else if hits_target direction target b then Some (win_trade entry target i j)
      else scan_future direction entry stop target i (Suc j) bs)"

text \<open>The frame is the list of its rows, labelled by position. A row that does not exist raises.\<close>

definition simulate_trade :: "py_dict \<Rightarrow> nat \<Rightarrow> bar list \<Rightarrow> simulated_trade option result" where
  "simulate_trade signal current_index frame =
     (let direction = dict_get signal ''signal'' PyNone in
      if \<not> in_sides direction then Inr None
      else if length frame \<le> current_index then Inl IndexError
      else let entry = bar_close (frame ! current_index); atr = bar_ATR (frame ! current_index);
               dir = (case text_of direction of None \<Rightarrow> [] | Some d \<Rightarrow> d) in
        if atr \<le> Fin 0 then Inr None
        else let (stop, target) = calculate_stop_target entry atr dir;
                 future = take LOOKAHEAD_CANDLES (drop (Suc current_index) frame)
             in case scan_future dir entry stop target current_index (Suc current_index) future of
                  Some t \<Rightarrow> Inr (Some t)
                | None \<Rightarrow>
                    let exit_index = current_index + length future in
                    Inr (Some \<lparr>st_profit = 0, st_result = ''TIMEOUT'', st_entry = entry,
                      st_exit = bar_close (frame ! exit_index), st_entry_index = current_index,
                      st_exit_index = exit_index\<rparr>))"

section \<open>Properties\<close>

lemma scan_future_first:
  "scan_future dir entry stop target i j bs = Some t \<Longrightarrow>
     \<exists>k < length bs. (\<forall>m < k. \<not> hits_stop dir stop (bs ! m) \<and> \<not> hits_target dir target (bs ! m))
       \<and> (if hits_stop dir stop (bs ! k) then t = loss_trade entry stop i (j + k)
          else hits_target dir target (bs ! k) \<and> t = win_trade entry target i (j + k))"
proof (induction bs arbitrary: j)
  case (Cons b bs)
  show ?case
  proof (cases "hits_stop dir stop b \<or> hits_target dir target b")
    case True
    then show ?thesis using Cons.prems by (intro exI [of _ 0]) (auto split: if_splits)
  next
    case False
    with Cons obtain k where "k < length bs"
      "\<forall>m < k. \<not> hits_stop dir stop (bs ! m) \<and> \<not> hits_target dir target (bs ! m)"
      "if hits_stop dir stop (bs ! k) then t = loss_trade entry stop i (Suc j + k)
          else hits_target dir target (bs ! k) \<and> t = win_trade entry target i (Suc j + k)"
      by (auto split: if_splits)
    with False show ?thesis by (intro exI [of _ "Suc k"]) (auto simp: nth_Cons split: nat.splits)
  qed
qed simp

lemma scan_future_None:
  "scan_future dir entry stop target i j bs = None \<longleftrightarrow>
     (\<forall>b \<in> set bs. \<not> hits_stop dir stop b \<and> \<not> hits_target dir target b)"
  by (induction bs arbitrary: j) auto

text \<open>No look-ahead beyond the window: the outcome of a simulated trade is the same on any two
  frames that agree on the entry candle and the nineteen candles after it, whatever came before or
  comes later.\<close>

theorem simulation_window_only:
  assumes "i < length frame" "i < length frame'"
    and "take 20 (drop i frame) = take 20 (drop i frame')"
  shows "simulate_trade signal i frame = simulate_trade signal i frame'"
proof -
  have nth: "(take 20 (drop i f)) ! k = f ! (i + k)" if "k < 20" "i + k < length f" for k and f :: "bar list"
    using that by simp
  have "take 20 (drop i f) = f ! i # take 19 (drop (Suc i) f)" if "i < length f" for f :: "bar list"
    using that by (simp add: Cons_nth_drop_Suc [symmetric])
  with assms have eq: "frame ! i = frame' ! i" "take 19 (drop (Suc i) frame) = take 19 (drop (Suc i) frame')" by auto
  define n where "n = length (take 19 (drop (Suc i) frame))"
  have n': "n = length (take 19 (drop (Suc i) frame'))" unfolding n_def eq(2) ..
  have n: "n < 20" "i + n < length frame" using assms(1) by (auto simp: n_def)
  have m: "i + n < length frame'" using assms(2) by (auto simp: n')
  have last: "frame ! (i + n) = frame' ! (i + n)" using nth [OF n] nth [OF n(1) m] assms(3) by simp
  show ?thesis
    unfolding simulate_trade_def Let_def LOOKAHEAD_CANDLES_def eq n_def [symmetric] n' [symmetric] last
    using assms(1,2) by simp
qed


definition bar_frame :: "pyfloat \<Rightarrow> pyfloat \<Rightarrow> bar list" where
  "bar_frame high low =
     [\<lparr>bar_high = Fin 101, bar_low = Fin 99, bar_close = Fin 100, bar_ATR = Fin 2\<rparr>,
      \<lparr>bar_high = high, bar_low = low, bar_close = Fin 100, bar_ATR = Fin 2\<rparr>]"

definition buy_signal :: py_dict where
  "buy_signal = [''signal'' \<mapsto> PyStr ''BUY'']"

definition long_frame :: "pyfloat \<Rightarrow> bar list" where
  "long_frame last_high =
     replicate 20 \<lparr>bar_high = Fin 101, bar_low = Fin 99, bar_close = Fin 100, bar_ATR = Fin 2\<rparr>
     @ [\<lparr>bar_high = last_high, bar_low = Fin 99, bar_close = Fin 100, bar_ATR = Fin 2\<rparr>]"

theorem simulation_window_only_witness:
  "long_frame (Fin 110) \<noteq> long_frame (Fin 101)
   \<and> simulate_trade buy_signal 0 (long_frame (Fin 110)) = simulate_trade buy_signal 0 (long_frame (Fin 101))"
  using simulation_window_only [of 0 "long_frame (Fin 110)" "long_frame (Fin 101)" buy_signal]
  by (simp add: long_frame_def)

text \<open>A simulated trade ends at the first candle of the window that touches a level, and the stop
  is taken when one candle touches both: the trade is a loss at the stop or a win at the target of that
  candle, and a timeout without profit exactly when no candle of the window touches a level.\<close>

theorem simulated_outcome:
  assumes "simulate_trade signal i frame = Inr (Some t)"
    and "text_of (dict_get signal ''signal'' PyNone) = Some dir"
    and "calculate_stop_target (bar_close (frame ! i)) (bar_ATR (frame ! i)) dir = (stop, target)"
    and "touches = (\<lambda>k. hits_stop dir stop (frame ! k) \<or> hits_target dir target (frame ! k))"
  shows "(\<exists>k. i < k \<and> k \<le> i + 19 \<and> k < length frame \<and> (\<forall>m. i < m \<and> m < k \<longrightarrow> \<not> touches m)
      \<and> (if hits_stop dir stop (frame ! k) then t = loss_trade (bar_close (frame ! i)) stop i k
         else hits_target dir target (frame ! k) \<and> t = win_trade (bar_close (frame ! i)) target i k))
    \<or> (\<forall>m. i < m \<and> m \<le> i + 19 \<and> m < length frame \<longrightarrow> \<not> touches m) \<and> st_result t = ''TIMEOUT'' \<and> st_profit t = 0"
proof -
  define future where "future = take 19 (drop (Suc i) frame)"
  let ?entry = "bar_close (frame ! i)"
  have nth: "future ! k = frame ! (Suc i + k)" if "k < length future" for k
  proof -
    from that have "Suc i \<le> length frame" by (auto simp: future_def)
    from nth_drop [OF this, of k] that show ?thesis by (simp add: future_def)
  qed
  have len: "k < length future \<longleftrightarrow> Suc i + k \<le> i + 19 \<and> Suc i + k < length frame" for k by (auto simp: future_def)
  show ?thesis
  proof (cases "scan_future dir ?entry stop target i (Suc i) future")
    case None
    have "\<not> touches m" if "i < m" "m \<le> i + 19" "m < length frame" for m
    proof -
      have k: "m - Suc i < length future" "Suc i + (m - Suc i) = m" using that by (auto simp: len)
      then show ?thesis using None nth [OF k(1)] nth_mem [OF k(1)] by (simp add: scan_future_None assms(4))
    qed
    moreover have "st_result t = ''TIMEOUT'' \<and> st_profit t = 0"
      using assms(1,2,3) None by (auto simp: simulate_trade_def Let_def LOOKAHEAD_CANDLES_def future_def split: if_splits)
    ultimately show ?thesis by blast
  next
    case (Some u)
    then have "t = u"
      using assms(1,2,3) by (auto simp: simulate_trade_def Let_def LOOKAHEAD_CANDLES_def future_def split: if_splits)
    from scan_future_first [OF Some] obtain k where k: "k < length future"
      "\<forall>m < k. \<not> hits_stop dir stop (future ! m) \<and> \<not> hits_target dir target (future ! m)"
      "if hits_stop dir stop (future ! k) then t = loss_trade ?entry stop i (Suc i + k)
         else hits_target dir target (future ! k) \<and> t = win_trade ?entry target i (Suc i + k)"
      unfolding \<open>t = u\<close> by blast
    have "\<not> touches m" if "i < m" "m < Suc i + k" for m
    proof -
      have "m - Suc i < k" "Suc i + (m - Suc i) = m" using that by auto
      then show ?thesis using k(1) k(2) [rule_format, of "m - Suc i"] nth [of "m - Suc i"] by (simp add: assms(4))
    qed
    then show ?thesis using k(1) k(3) [unfolded nth [OF k(1)]] len [of k] by (intro disjI1 exI [of _ "Suc i + k"]) simp
  qed
qed

lemma sample_levels: "calculate_stop_target (Fin 100) (Fin 2) ''BUY'' = (Fin 97, Fin 106)"
  by (simp add: calculate_stop_target_def Let_def minus_pyfloat_def)

lemma sample_win: "simulate_trade buy_signal 0 (bar_frame (Fin 110) (Fin 99)) = Inr (Some (win_trade (Fin 100) (Fin 106) 0 1))"
  by (simp add: simulate_trade_def buy_signal_def dict_get_def in_sides_def bar_frame_def sample_levels
      LOOKAHEAD_CANDLES_def hits_stop_def hits_target_def)

theorem simulated_outcome_witness:
  "\<exists>k. 0 < k \<and> k \<le> (19 :: nat) \<and> win_trade (Fin 100) (Fin 106) 0 1 = win_trade (Fin 100) (Fin 106) 0 k"
  using simulated_outcome [OF sample_win, of "''BUY''" "Fin 97" "Fin 106", OF _ _ refl]
  by (auto simp: buy_signal_def dict_get_def bar_frame_def sample_levels win_trade_def loss_trade_def split: if_splits)

text \<open>A win is booked as three times the risk although the target is only twice as far as the
  stop: with the entry at 100 and an ATR of 2 the stop is 3 below and the target 6 above the entry,
  and the simulated win reports a profit of 3 risk multiples.\<close>

theorem win_profit_overstated:
  "calculate_stop_target (Fin 100) (Fin 2) ''BUY'' = (Fin (100 - 3), Fin (100 + 2 * 3))
   \<and> (\<exists>t. simulate_trade buy_signal 0 (bar_frame (Fin 110) (Fin 99)) = Inr (Some t)
        \<and> st_result t = ''WIN'' \<and> st_entry t = Fin 100 \<and> st_exit t = Fin (100 + 2 * 3) \<and> st_profit t = 3)"
  by (simp add: sample_levels sample_win win_trade_def)

end
