(* ===== verification/Trade_Plans.thy ===== *)
theory Trade_Plans
  imports Risk_Engine
begin

text \<open>
  Trade plans (\<open>src/intelligence/trade_plan.py\<close>): the plan record with \<open>is_valid\<close>, and
  \<open>TradePlanBuilder.build\<close>, which derives entry, stop and target from a signal, the price and the
  average true range. The lemmas state when a planned trade is valid and where rounding the levels to
  five decimals ends that guarantee.
\<close>

section \<open>Plans\<close>

text \<open>Reasons and invalidations with numbers in them are represented by the numbers.\<close>

datatype plan_note =
    Note string
  | BelowThreshold int
  | RiskRewardBelow pyfloat pyfloat
  | ClosesBelow pyfloat
  | ClosesAbove pyfloat

record trade_plan =
  tp_symbol :: string
  tp_signal :: string
  tp_confidence :: int
  tp_quality :: string
  tp_score :: int
  tp_setup_type :: string
  tp_entry_type :: "string option"
  tp_entry :: "pyfloat option"
  tp_stop_method :: "string option"
  tp_stop_loss :: "pyfloat option"
  tp_target_rr :: "pyfloat option"
  tp_take_profit :: "pyfloat option"
  tp_risk_reward :: "pyfloat option"
  tp_position_size :: "pyfloat option"
  tp_risk_percent :: "pyfloat option"
  tp_risk_amount :: "pyfloat option"
  tp_atr :: "pyfloat option"
  tp_trend :: string
  tp_momentum :: string
  tp_volatility :: string
  tp_liquidity :: string
  tp_regime :: string
  tp_reasons :: "plan_note list"
  tp_warnings :: "string list"
  tp_invalidation :: "plan_note option"
  tp_generated_at :: pydatetime

text \<open>The model's validation: the signal is one of three literals, the confidence a percentage.\<close>

definition make_trade_plan :: "trade_plan \<Rightarrow> trade_plan result" where
  "make_trade_plan p =
     (if tp_signal p \<notin> {''BUY'', ''SELL'', ''NO_TRADE''} then Inl (ValueError ''signal'')
      else if \<not> (0 \<le> tp_confidence p \<and> tp_confidence p \<le> 100) then Inl (ValueError ''confidence'')
      else Inr p)"

definition is_valid :: "trade_plan \<Rightarrow> bool" where
  "is_valid p =
     (if tp_signal p = ''NO_TRADE'' then False
      else case (tp_entry p, tp_stop_loss p, tp_take_profit p) of
        (Some entry, Some stop_loss, Some take_profit) \<Rightarrow>
          if tp_signal p = ''BUY'' \<and> \<not> (stop_loss < entry \<and> entry < take_profit) then False
          else if tp_signal p = ''SELL'' \<and> \<not> (take_profit < entry \<and> entry < stop_loss) then False
          else (case tp_risk_reward p of None \<Rightarrow> True | Some rr \<Rightarrow> \<not> rr < Fin (3/2))
      | _ \<Rightarrow> False)"

section \<open>The builder\<close>

record plan_builder =
  pb_min_rr :: pyfloat
  pb_atr_sl_multiplier :: pyfloat
  pb_target_rr :: pyfloat

definition default_builder :: plan_builder where
  "default_builder = \<lparr>pb_min_rr = Fin (3/2), pb_atr_sl_multiplier = Fin (3/2), pb_target_rr = Fin 2\<rparr>"

text \<open>The two dictionaries the builder reads: a missing key is \<open>None\<close>. An indicator that is present may
  itself be \<open>None\<close>.\<close>

record intelligence =
  in_trend :: "string option"
  in_momentum :: "string option"
  in_volatility :: "string option"
  in_liquidity :: "string option"
  in_regime :: "string option"
  in_confidence :: "int option"
  in_indicators :: "string \<Rightarrow> pyfloat option option"

record signal_dict =
  sd_signal :: "string option"
  sd_confidence :: "int option"
  sd_quality :: "string option"
  sd_score :: "int option"
  sd_reasons :: "plan_note list option"

definition get_or :: "'a \<Rightarrow> 'a option \<Rightarrow> 'a" where
  "get_or d v = (case v of None \<Rightarrow> d | Some x \<Rightarrow> x)"

text \<open>\<open>d.get(a, d.get(b, d.get(c)))\<close>\<close>

definition indicator :: "intelligence \<Rightarrow> string \<Rightarrow> string \<Rightarrow> string \<Rightarrow> pyfloat option" where
  "indicator i a b c = get_or (get_or (get_or None (in_indicators i c)) (in_indicators i b)) (in_indicators i a)"

definition base_plan :: "string \<Rightarrow> intelligence \<Rightarrow> signal_dict \<Rightarrow> pydatetime \<Rightarrow> trade_plan" where
  "base_plan symb i sg now =
     \<lparr>tp_symbol = symb, tp_signal = ''NO_TRADE'', tp_confidence = get_or 0 (sd_confidence sg),
      tp_quality = get_or ''POOR'' (sd_quality sg), tp_score = get_or 0 (sd_score sg), tp_setup_type = ''NO_SETUP'',
      tp_entry_type = None, tp_entry = None, tp_stop_method = None, tp_stop_loss = None, tp_target_rr = None,
      tp_take_profit = None, tp_risk_reward = None, tp_position_size = None, tp_risk_percent = None,
      tp_risk_amount = None, tp_atr = indicator i ''atr'' ''ATR'' ''ATR_14'',
      tp_trend = get_or ''UNKNOWN'' (in_trend i), tp_momentum = get_or ''UNKNOWN'' (in_momentum i),
      tp_volatility = get_or ''UNKNOWN'' (in_volatility i), tp_liquidity = get_or ''UNKNOWN'' (in_liquidity i),
      tp_regime = get_or ''UNKNOWN'' (in_regime i), tp_reasons = get_or [] (sd_reasons sg), tp_warnings = [],
      tp_invalidation = None, tp_generated_at = now\<rparr>"

definition reject_plan :: "trade_plan \<Rightarrow> plan_note \<Rightarrow> trade_plan result" where
  "reject_plan base reason =
     make_trade_plan (base\<lparr>tp_signal := ''NO_TRADE'', tp_setup_type := ''NO_SETUP'', tp_reasons := tp_reasons base @ [reason],
       tp_entry_type := None, tp_entry := None, tp_stop_method := None, tp_stop_loss := None, tp_take_profit := None,
       tp_risk_reward := None, tp_position_size := None, tp_risk_percent := None, tp_risk_amount := None\<rparr>)"

definition plan_warnings :: "intelligence \<Rightarrow> trade_plan \<Rightarrow> string list" where
  "plan_warnings i base =
     (if tp_liquidity base = ''LOW'' then [''Low liquidity''] else [])
     @ (if tp_volatility base = ''HIGH'' then [''High volatility''] else [])
     @ (case indicator i ''rsi'' ''RSI'' ''RSI_14'' of
          None \<Rightarrow> []
        | Some rsi \<Rightarrow> if Fin 70 \<le> rsi then [''Elevated RSI (Overbought)'']
            else if rsi \<le> Fin 30 then [''Depressed RSI (Oversold)''] else [])"

text \<open>Stop and target before they are rounded.\<close>

definition plan_levels :: "plan_builder \<Rightarrow> string \<Rightarrow> pyfloat \<Rightarrow> pyfloat \<Rightarrow> pyfloat \<times> pyfloat" where
  "plan_levels b raw_signal entry atr =
     (let stop_dist = atr * pb_atr_sl_multiplier b; target_dist = atr * pb_atr_sl_multiplier b * pb_target_rr b in
      if raw_signal = ''BUY'' then (entry - stop_dist, entry + target_dist)
      else (entry + stop_dist, entry - target_dist))"

definition actual_rr :: "pyfloat \<Rightarrow> pyfloat \<Rightarrow> pyfloat \<Rightarrow> pyfloat result" where
  "actual_rr entry stop_loss take_profit =
     (let risk = \<bar>entry - stop_loss\<bar>; reward = \<bar>entry - take_profit\<bar> in
      if Fin 0 < risk then fdiv reward risk else Inr (Fin 0))"

text \<open>\<open>not x or x <= 0\<close>\<close>

definition unusable :: "pyfloat \<Rightarrow> bool" where
  "unusable x \<longleftrightarrow> x = Fin 0 \<or> x \<le> Fin 0"

definition market_plan :: "plan_builder \<Rightarrow> trade_plan \<Rightarrow> string \<Rightarrow> pyfloat \<Rightarrow> pyfloat \<Rightarrow> pyfloat \<Rightarrow> pyfloat \<Rightarrow> trade_plan" where
  "market_plan b base raw_signal entry stop_loss take_profit rr = base\<lparr>tp_signal := raw_signal,
     tp_setup_type := (if tp_trend base \<in> {''BULLISH'', ''BEARISH''} then ''TREND_CONTINUATION'' else ''UNKNOWN''),
     tp_entry_type := Some ''MARKET'', tp_entry := Some entry, tp_stop_method := Some ''ATR'',
     tp_stop_loss := Some (py_round 5 stop_loss), tp_target_rr := Some (pb_target_rr b),
     tp_take_profit := Some (py_round 5 take_profit), tp_risk_reward := Some (py_round 2 rr),
     tp_position_size := None, tp_risk_percent := None, tp_risk_amount := None,
     tp_invalidation := Some ((if raw_signal = ''BUY'' then ClosesBelow else ClosesAbove) (py_round 5 stop_loss))\<rparr>"

definition plan_trade :: "plan_builder \<Rightarrow> trade_plan \<Rightarrow> string \<Rightarrow> pyfloat \<Rightarrow> pyfloat \<Rightarrow> trade_plan result" where
  "plan_trade b base raw_signal price atr =
     (case plan_levels b raw_signal price atr of (stop_loss, take_profit) \<Rightarrow>
      rbind (actual_rr price stop_loss take_profit) (\<lambda>rr.
      if rr < pb_min_rr b then reject_plan base (RiskRewardBelow (py_round 2 rr) (pb_min_rr b))
      else make_trade_plan (market_plan b base raw_signal price stop_loss take_profit rr)))"

definition build ::
  "plan_builder \<Rightarrow> string \<Rightarrow> intelligence \<Rightarrow> signal_dict \<Rightarrow> pyfloat \<Rightarrow> pydatetime \<Rightarrow> trade_plan result" where
  "build b symb i sg price now =
     (let base = base_plan symb i sg now in
      if unusable price then reject_plan base (Note ''Rejected: Invalid or unavailable market price'')
      else let base = base\<lparr>tp_warnings := plan_warnings i base\<rparr>; raw_signal = get_or ''NO_TRADE'' (sd_signal sg) in
      if raw_signal \<notin> {''BUY'', ''SELL''}
      then reject_plan base (Note ''Rejected: Signal model did not produce a valid setup'')
      else case tp_atr base of
        None \<Rightarrow> reject_plan base (Note ''Rejected: Cannot calculate ATR-based stops (Invalid ATR)'')
      | Some atr \<Rightarrow>
          if unusable atr then reject_plan base (Note ''Rejected: Cannot calculate ATR-based stops (Invalid ATR)'')
          else plan_trade b base raw_signal price atr)"

section \<open>What the builder guarantees\<close>

lemma make_trade_plan_Inr:
  "make_trade_plan p = Inr q \<longleftrightarrow> q = p \<and> tp_signal p \<in> {''BUY'', ''SELL'', ''NO_TRADE''}
     \<and> 0 \<le> tp_confidence p \<and> tp_confidence p \<le> 100"
  by (auto simp: make_trade_plan_def)

text \<open>A rejected plan has no executable field.\<close>

definition no_trade_plan :: "trade_plan \<Rightarrow> bool" where
  "no_trade_plan p \<longleftrightarrow> tp_signal p = ''NO_TRADE'' \<and> tp_setup_type p = ''NO_SETUP'' \<and> tp_entry p = None
     \<and> tp_stop_loss p = None \<and> tp_take_profit p = None \<and> tp_risk_reward p = None"

lemma reject_plan_no_trade: "reject_plan base reason = Inr p \<Longrightarrow> no_trade_plan p"
  by (auto simp: reject_plan_def make_trade_plan_Inr no_trade_plan_def)

lemma no_trade_plan_invalid: "no_trade_plan p \<Longrightarrow> \<not> is_valid p"
  by (simp add: no_trade_plan_def is_valid_def)

lemma tp_atr_base_plan [simp]: "tp_atr (base_plan symb i sg now) = indicator i ''atr'' ''ATR'' ''ATR_14''"
  by (simp add: base_plan_def)

lemma plan_trade_cases:
  assumes "plan_trade b base sig price atr = Inr p"
  obtains (rejected) "no_trade_plan p"
  | (planned) stop target rr where "plan_levels b sig price atr = (stop, target)"
      "actual_rr price stop target = Inr rr" "\<not> rr < pb_min_rr b" "p = market_plan b base sig price stop target rr"
  using assms
  by (auto simp: plan_trade_def make_trade_plan_Inr split: prod.splits if_splits dest: reject_plan_no_trade)

lemma build_planned:
  assumes "build b symb i sg price now = Inr p" "\<not> no_trade_plan p"
  obtains atr base sig where "plan_trade b base sig price atr = Inr p" "sd_signal sg = Some sig"
    "sig \<in> {''BUY'', ''SELL''}" "indicator i ''atr'' ''ATR'' ''ATR_14'' = Some atr" "\<not> unusable price" "\<not> unusable atr"
  using assms reject_plan_no_trade
  by (fastforce simp: build_def Let_def get_or_def split: if_splits option.splits)

text \<open>The fields of a plan that is not a rejection.\<close>

lemma build_cases:
  assumes "build b symb i sg price now = Inr p"
  obtains (rejected) "no_trade_plan p"
  | (planned) atr stop target rr where "tp_signal p \<in> {''BUY'', ''SELL''}" "sd_signal sg = Some (tp_signal p)"
      "indicator i ''atr'' ''ATR'' ''ATR_14'' = Some atr" "\<not> unusable price" "\<not> unusable atr"
      "plan_levels b (tp_signal p) price atr = (stop, target)" "actual_rr price stop target = Inr rr"
      "\<not> rr < pb_min_rr b" "tp_entry p = Some price" "tp_stop_loss p = Some (py_round 5 stop)"
      "tp_take_profit p = Some (py_round 5 target)" "tp_risk_reward p = Some (py_round 2 rr)"
proof (cases "no_trade_plan p")
  case False
  obtain atr base sig where b: "plan_trade b base sig price atr = Inr p" "sd_signal sg = Some sig"
      "sig \<in> {''BUY'', ''SELL''}" "indicator i ''atr'' ''ATR'' ''ATR_14'' = Some atr" "\<not> unusable price" "\<not> unusable atr"
    using build_planned [OF assms False] .
  from b(1) show ?thesis
    by (rule plan_trade_cases) (use False b that(2) in \<open>auto simp: market_plan_def\<close>)
qed (rule that(1))

definition sane_builder :: "plan_builder \<Rightarrow> bool" where
  "sane_builder b \<longleftrightarrow> Fin (3/2) \<le> pb_min_rr b \<and> Fin 0 < pb_atr_sl_multiplier b \<and> is_finite (pb_atr_sl_multiplier b)
     \<and> Fin 0 < pb_target_rr b \<and> is_finite (pb_target_rr b)"

lemma sane_default_builder: "sane_builder default_builder"
  by (simp add: sane_builder_def default_builder_def)

lemma not_unusable: "\<not> unusable x \<Longrightarrow> x \<noteq> NaN \<Longrightarrow> Fin 0 < x"
  by (cases x) (auto simp: unusable_def)

lemma plus_finite_right: "is_finite (x + y) \<Longrightarrow> is_finite y"
  by (cases x; cases y) auto

text \<open>Levels that are finite lie on their side of the entry.\<close>

lemma plan_levels_sides:
  assumes "sane_builder b" "\<not> unusable atr" "is_double (Fin entry)" "plan_levels b sig (Fin entry) atr = (Fin stop, Fin target)"
  shows "if sig = ''BUY'' then stop \<le> entry \<and> entry \<le> target else entry \<le> stop \<and> target \<le> entry"
proof -
  let ?d = "atr * pb_atr_sl_multiplier b" and ?t = "atr * pb_atr_sl_multiplier b * pb_target_rr b"
  have "atr \<noteq> NaN" using assms(4) by (auto simp: plan_levels_def Let_def minus_pyfloat_def split: if_splits)
  then have "Fin 0 < atr" by (rule not_unusable [OF assms(2)])
  then have d: "Fin 0 \<le> ?d"
    using assms(1) by (auto simp: sane_builder_def intro: float_mult_nonneg pyfloat_less_le)
  then have t: "Fin 0 \<le> ?t" using assms(1) by (auto simp: sane_builder_def intro: float_mult_nonneg)
  show ?thesis
  proof (cases "sig = ''BUY''")
    case True
    then have "Fin entry - ?d = Fin stop" "Fin entry + ?t = Fin target"
      using assms(4) by (auto simp: plan_levels_def Let_def)
    then show ?thesis
      using True float_diff_nonneg_le [OF assms(3) _ d] float_add_nonneg_ge [OF assms(3) _ t] by auto
  next
    case False
    then have "Fin entry + ?d = Fin stop" "Fin entry - ?t = Fin target"
      using assms(4) by (auto simp: plan_levels_def Let_def)
    then show ?thesis
      using False float_add_nonneg_ge [OF assms(3) _ d] float_diff_nonneg_le [OF assms(3) _ t] by auto
  qed
qed

lemma plan_levels_double: "plan_levels b sig entry atr = (stop, target) \<Longrightarrow> is_double stop \<and> is_double target"
  by (auto simp: plan_levels_def Let_def minus_pyfloat_def plus_double split: if_splits)

lemma risk_reward_kept:
  assumes "\<not> rr < m" "Fin (3/2) \<le> m"
  shows "\<not> py_round 2 rr < Fin (3/2)"
proof (cases "rr = NaN")
  case False
  have "fl (3/2) = Fin (3/2)" by (rule fl_dyadic [where m = 3 and k = 1]) auto
  then have "py_round 2 (Fin (3/2)) = Fin (3/2)"
    using round_half_even_of_int [of 150] by (simp add: py_round_def)
  moreover have "Fin (3/2) \<le> rr"
    using assms False by (cases rr; cases m) auto
  ultimately have "Fin (3/2) \<le> py_round 2 rr" using py_round_mono [of "Fin (3/2)" rr 2] by simp
  then show ?thesis by (cases "py_round 2 rr") auto
qed (simp add: py_round_def)

text \<open>A planned trade is valid: for a builder with a minimum reward ratio of at least 1.5 and positive
  multipliers, a plan with direction BUY or SELL passes \<open>is_valid\<close> (the rounded stop and target are strictly on their
  sides of the entry, the reported reward ratio is not below 1.5) whenever the levels before rounding are
  finite and more than one step of the fifth decimal away from the entry.\<close>

theorem planned_trade_valid:
  assumes "build b symb i sg (Fin entry) now = Inr p" "tp_signal p \<noteq> ''NO_TRADE''" "sane_builder b"
    and "is_double (Fin entry)" "indicator i ''atr'' ''ATR'' ''ATR_14'' = Some atr"
    and "plan_levels b (tp_signal p) (Fin entry) atr = (Fin stop, Fin target)"
    and "1 / 10 ^ 5 < \<bar>entry - stop\<bar>" "1 / 10 ^ 5 < \<bar>entry - target\<bar>"
  shows "is_valid p"
  using assms(1)
proof (cases rule: build_cases)
  case rejected
  then show ?thesis using assms(2) by (simp add: no_trade_plan_def)
next
  case (planned atr' stop' target' rr)
  have eqs: "stop' = Fin stop" "target' = Fin target" "\<not> unusable atr" using planned assms(5,6) by auto
  have doubles: "is_double (Fin stop)" "is_double (Fin target)" using plan_levels_double [OF assms(6)] by auto
  have sides: "if tp_signal p = ''BUY'' then stop \<le> entry \<and> entry \<le> target else entry \<le> stop \<and> target \<le> entry"
    using plan_levels_sides [OF assms(3) eqs(3) assms(4) assms(6)] .
  have below: "py_round 5 (Fin x) < Fin entry" if "x \<le> entry" "is_double (Fin x)" "1 / 10 ^ 5 < \<bar>entry - x\<bar>" for x
    using that by (intro py_round_less(1) assms(4)) auto
  have above: "Fin entry < py_round 5 (Fin x)" if "entry \<le> x" "is_double (Fin x)" "1 / 10 ^ 5 < \<bar>entry - x\<bar>" for x
    using that py_round_less(2) [of "- x" "- entry" 5] is_double_uminus [of "Fin x"] is_double_uminus [OF assms(4)] by auto
  have "\<not> py_round 2 rr < Fin (3/2)"
    using assms(3) by (intro risk_reward_kept [OF planned(8)]) (simp add: sane_builder_def)
  then show ?thesis
    using planned(1,9-12) eqs sides below [OF _ doubles(1) assms(7)] below [OF _ doubles(2) assms(8)]
      above [OF _ doubles(1) assms(7)] above [OF _ doubles(2) assms(8)]
    by (auto simp: is_valid_def)
qed

section \<open>A concrete plan, and the limits of the guarantee\<close>

definition sample_market :: "pyfloat \<Rightarrow> intelligence" where
  "sample_market atr = \<lparr>in_trend = Some ''BULLISH'', in_momentum = Some ''STRONG'', in_volatility = Some ''HIGH'',
     in_liquidity = Some ''GOOD'', in_regime = Some ''TRENDING'', in_confidence = Some 80,
     in_indicators = (\<lambda>k. if k = ''atr'' then Some (Some atr) else None)\<rparr>"

definition sample_buy :: signal_dict where
  "sample_buy = \<lparr>sd_signal = Some ''BUY'', sd_confidence = Some 80, sd_quality = Some ''GOOD'', sd_score = Some 85,
     sd_reasons = Some []\<rparr>"

lemma sample_indicator: "indicator (sample_market atr) ''atr'' ''ATR'' ''ATR_14'' = Some atr"
  by (simp add: indicator_def sample_market_def get_or_def)

lemma sample_build:
  assumes "\<not> unusable price" "\<not> unusable atr" "plan_levels default_builder ''BUY'' price atr = (stop, target)"
    and "actual_rr price stop target = Inr rr" "\<not> rr < Fin (3/2)"
  shows "\<exists>p. build default_builder ''X'' (sample_market atr) sample_buy price (Aware 0 0) = Inr p \<and> tp_signal p = ''BUY''
     \<and> tp_entry p = Some price \<and> tp_stop_loss p = Some (py_round 5 stop) \<and> tp_take_profit p = Some (py_round 5 target)
     \<and> tp_risk_reward p = Some (py_round 2 rr)"
  using assms
  by (simp add: build_def Let_def sample_indicator plan_trade_def make_trade_plan_def market_plan_def get_or_def)
     (simp add: sample_buy_def default_builder_def base_plan_def get_or_def)

text \<open>A stop of three quarters below a price of 2: the guarantee applies.\<close>

lemma sample_plan_levels:
  "plan_levels default_builder ''BUY'' (Fin 2) (Fin (1/2)) = (Fin (5/4), Fin (7/2))"
  "actual_rr (Fin 2) (Fin (5/4)) (Fin (7/2)) = Inr (Fin 2)"
proof -
  have f: "fl (3/4) = Fin (3/4)" "fl (5/4) = Fin (5/4)" "fl (3/2) = Fin (3/2)" "fl (7/2) = Fin (7/2)"
      "fl (- (3/2)) = Fin (- (3/2))"
    by (rule fl_dyadic [where m = 3 and k = 2], simp_all) (rule fl_dyadic [where m = 5 and k = 2], simp_all,
        rule fl_dyadic [where m = 3 and k = 1], simp_all, rule fl_dyadic [where m = 7 and k = 1], simp_all,
        rule fl_dyadic [where m = "-3" and k = 1], simp_all)
  show "plan_levels default_builder ''BUY'' (Fin 2) (Fin (1/2)) = (Fin (5/4), Fin (7/2))"
    using f by (simp add: plan_levels_def default_builder_def Let_def minus_pyfloat_def)
  show "actual_rr (Fin 2) (Fin (5/4)) (Fin (7/2)) = Inr (Fin 2)"
    using f by (simp add: actual_rr_def Let_def minus_pyfloat_def)
qed

theorem planned_trade_valid_witness:
  "\<exists>p. build default_builder ''X'' (sample_market (Fin (1/2))) sample_buy (Fin 2) (Aware 0 0) = Inr p \<and> is_valid p"
proof -
  obtain p where p: "build default_builder ''X'' (sample_market (Fin (1/2))) sample_buy (Fin 2) (Aware 0 0) = Inr p"
      "tp_signal p = ''BUY''"
    using sample_build [OF _ _ sample_plan_levels] by (auto simp: unusable_def)
  have "is_valid p"
    by (rule planned_trade_valid [where stop = "5/4" and target = "7/2", OF p(1) _ sane_default_builder _ sample_indicator])
       (use sample_plan_levels(1) in \<open>simp_all add: p(2) is_double_def\<close>)
  then show ?thesis using p(1) by blast
qed

text \<open>Within one step of the fifth decimal the rounded stop can meet the entry: the builder then returns
  a plan with direction BUY that \<open>is_valid\<close> refuses.\<close>

lemma tiny_levels:
  "plan_levels default_builder ''BUY'' (Fin 1) (Fin (1 / 2 ^ 20)) = (Fin (1 - 3 / 2 ^ 21), Fin (1 + 3 / 2 ^ 20))"
  "actual_rr (Fin 1) (Fin (1 - 3 / 2 ^ 21)) (Fin (1 + 3 / 2 ^ 20)) = Inr (Fin 2)"
proof -
  have f: "fl (3 / 2097152) = Fin (3 / 2097152)" "fl (3 / 1048576) = Fin (3 / 1048576)"
      "fl (- (3 / 1048576)) = Fin (- (3 / 1048576))"
      "fl (2097149 / 2097152) = Fin (2097149 / 2097152)" "fl (1048579 / 1048576) = Fin (1048579 / 1048576)"
    by (rule fl_dyadic [where m = 3 and k = 21], simp_all) (rule fl_dyadic [where m = 3 and k = 20], simp_all,
        rule fl_dyadic [where m = "-3" and k = 20], simp_all, rule fl_dyadic [where m = 2097149 and k = 21], simp_all,
        rule fl_dyadic [where m = 1048579 and k = 20], simp_all)
  show "plan_levels default_builder ''BUY'' (Fin 1) (Fin (1 / 2 ^ 20)) = (Fin (1 - 3 / 2 ^ 21), Fin (1 + 3 / 2 ^ 20))"
    using f by (simp add: plan_levels_def default_builder_def Let_def minus_pyfloat_def)
  show "actual_rr (Fin 1) (Fin (1 - 3 / 2 ^ 21)) (Fin (1 + 3 / 2 ^ 20)) = Inr (Fin 2)"
    using f by (simp add: actual_rr_def Let_def minus_pyfloat_def)
qed

theorem tiny_stop_plan_not_valid:
  "\<exists>p. build default_builder ''X'' (sample_market (Fin (1 / 2 ^ 20))) sample_buy (Fin 1) (Aware 0 0) = Inr p
     \<and> tp_signal p = ''BUY'' \<and> tp_stop_loss p = tp_entry p \<and> \<not> is_valid p"
proof -
  have "round_half_even (2097149 / 2097152 * 10 ^ 5) = 100000" by (rule round_half_even_eqI) simp
  then have "py_round 5 (Fin (1 - 3 / 2 ^ 21)) = Fin 1" by (simp add: py_round_def)
  then show ?thesis
    using sample_build [OF _ _ tiny_levels] by (force simp: unusable_def is_valid_def)
qed

end
