(* ===== verification/Strategy.thy ===== *)
theory Strategy
  imports Trade_Plans
begin

text \<open>
  The strategy decision (\<open>src/strategy\<close>, \<open>src/intelligence\<close>, \<open>src/core/regime.py\<close>): features and regime of
  the latest row of an indicator frame, the six-factor confidence, the signal, its score, the
  confidence gate and the plan, composed by \<open>StrategyEngine.evaluate\<close> and the pipeline. A frame is its
  list of columns and its rows. The column mean is computed by pandas and is a parameter.

  The lemmas on frames show that the two names of an indicator are read alike; \<open>strategy_signal_iff\<close>
  characterizes the signal, \<open>strategy_signal_reaches_limits\<close> connects it with the risk engine.
\<close>

section \<open>Frames\<close>

text \<open>A data frame: its columns and, per row, the value of each column.\<close>

type_synonym frame_row = "string \<Rightarrow> pyfloat"

record frame =
  fr_columns :: "string list"
  fr_rows :: "frame_row list"

definition last_row :: "frame \<Rightarrow> frame_row result" where
  "last_row df = (if fr_rows df = [] then Inl IndexError else Inr (last (fr_rows df)))"

text \<open>\<open>row[c]\<close> and \<open>row.get(a, row.get(b))\<close>\<close>

definition cell :: "frame \<Rightarrow> frame_row \<Rightarrow> string \<Rightarrow> pyfloat result" where
  "cell df r c = (if c \<in> set (fr_columns df) then Inr (r c) else Inl (KeyError c))"

definition cell_get :: "frame \<Rightarrow> frame_row \<Rightarrow> string \<Rightarrow> string \<Rightarrow> pyfloat option" where
  "cell_get df r a b =
     (if a \<in> set (fr_columns df) then Some (r a) else if b \<in> set (fr_columns df) then Some (r b) else None)"

definition renamed :: "(string \<times> string) list \<Rightarrow> string \<Rightarrow> string" where
  "renamed m c = (case map_of m c of Some v \<Rightarrow> v | None \<Rightarrow> c)"

definition rename_columns :: "(string \<times> string) list \<Rightarrow> frame \<Rightarrow> frame" where
  "rename_columns m df =
     \<lparr>fr_columns = map (renamed m) (fr_columns df),
      fr_rows = map (\<lambda>r c. case find (\<lambda>k. renamed m k = c) (fr_columns df) of Some k \<Rightarrow> r k | None \<Rightarrow> r c) (fr_rows df)\<rparr>"

section \<open>Features, liquidity and regime\<close>

definition no_indicators :: "string \<Rightarrow> pyfloat option option" where
  "no_indicators = (\<lambda>_. None)"

text \<open>\<open>FeatureEngine.analyze\<close>. The mean of a column is computed by pandas and is the parameter \<open>mean\<close>.\<close>

definition analyze_features :: "(pyfloat list \<Rightarrow> pyfloat) \<Rightarrow> frame \<Rightarrow> intelligence result" where
  "analyze_features mean df =
     rbind (last_row df) (\<lambda>latest.
     rbind (cell df latest ''EMA_50'') (\<lambda>ema50. rbind (cell df latest ''EMA_200'') (\<lambda>ema200.
     rbind (cell df latest ''RSI_14'') (\<lambda>rsi. rbind (cell df latest ''ATR_14'') (\<lambda>atr.
     let trend = (if ema200 < ema50 then ''BULLISH'' else ''BEARISH'');
         (momentum, momentum_score) = (if Fin 60 < rsi then (''STRONG'', 30) else if rsi < Fin 40 then (''WEAK'', 10)
            else (''NEUTRAL'', 20));
         average_atr = mean (map (\<lambda>r. r ''ATR_14'') (fr_rows df));
         (volatility, volatility_score) = (if average_atr < atr then (''HIGH'', 20) else (''NORMAL'', 10))
     in Inr \<lparr>in_trend = Some trend, in_momentum = Some momentum, in_volatility = Some volatility,
             in_liquidity = None, in_regime = None,
             in_confidence = Some (30 + momentum_score + volatility_score), in_indicators = no_indicators\<rparr>)))))"

definition analyze_liquidity :: "pyfloat option \<Rightarrow> string" where
  "analyze_liquidity spread =
     (case spread of None \<Rightarrow> ''UNKNOWN''
      | Some s \<Rightarrow> if s < Fin 3 then ''GOOD'' else if s < Fin 8 then ''MEDIUM'' else ''LOW'')"

text \<open>Comparing with a missing value raises.\<close>

definition greater :: "pyfloat option \<Rightarrow> pyfloat option \<Rightarrow> bool result" where
  "greater x y = (case (x, y) of (Some a, Some b) \<Rightarrow> Inr (b < a) | _ \<Rightarrow> Inl (TypeError ''unorderable operands''))"

definition averages_close :: "pyfloat option \<Rightarrow> pyfloat option \<Rightarrow> pyfloat option \<Rightarrow> bool result" where
  "averages_close ema50 ema200 atr =
     (case (ema50, ema200, atr) of (Some a, Some b, Some t) \<Rightarrow> Inr (\<bar>a - b\<bar> < t * Fin (1/2))
      | _ \<Rightarrow> Inl (TypeError ''unsupported operand''))"

definition detect_legacy_regime :: "frame \<Rightarrow> string result" where
  "detect_legacy_regime df =
     rbind (last_row df) (\<lambda>latest. rbind (cell df latest ''close'') (\<lambda>close.
     let ema50 = cell_get df latest ''EMA50'' ''EMA_50''; ema200 = cell_get df latest ''EMA200'' ''EMA_200'';
         rsi = cell_get df latest ''RSI'' ''RSI_14''; atr = cell_get df latest ''ATR'' ''ATR_14'' in
     rbind (py_all [greater (Some close) ema50, greater ema50 ema200, greater rsi (Some (Fin 50))]) (\<lambda>up.
     if up then Inr ''TREND_UP''
     else rbind (py_all [greater ema50 (Some close), greater ema200 ema50, greater (Some (Fin 50)) rsi]) (\<lambda>down.
     if down then Inr ''TREND_DOWN''
     else rbind (averages_close ema50 ema200 atr) (\<lambda>flat. Inr (if flat then ''RANGE'' else ''NO_TRADE''))))))"

definition detect_regime :: "(pyfloat list \<Rightarrow> pyfloat) \<Rightarrow> frame \<Rightarrow> string result" where
  "detect_regime mean df =
     rbind (last_row df) (\<lambda>latest. rbind (cell df latest ''close'') (\<lambda>close.
     let ema50 = cell_get df latest ''EMA50'' ''EMA_50''; ema200 = cell_get df latest ''EMA200'' ''EMA_200'';
         rsi = cell_get df latest ''RSI'' ''RSI_14''; atr = cell_get df latest ''ATR'' ''ATR_14'';
         avg_atr_col = (if ''ATR'' \<in> set (fr_columns df) then ''ATR'' else ''ATR_14'');
         avg_atr = (if avg_atr_col \<in> set (fr_columns df) \<and> 14 < length (fr_rows df)
                    then Some (mean (map (\<lambda>r. r avg_atr_col) (fr_rows df))) else atr) in
     rbind (case avg_atr of None \<Rightarrow> Inl (TypeError ''unsupported operand'')
              | Some a \<Rightarrow> greater atr (Some (a * Fin (3/2)))) (\<lambda>wild.
     if wild then Inr ''HIGH_VOLATILITY''
     else rbind (py_all [greater (Some close) ema50, greater ema50 ema200, greater rsi (Some (Fin 50))]) (\<lambda>up.
     if up then Inr ''TRENDING''
     else rbind (py_all [greater ema50 (Some close), greater ema200 ema50, greater (Some (Fin 50)) rsi]) (\<lambda>down.
     if down then Inr ''TRENDING''
     else rbind (averages_close ema50 ema200 atr) (\<lambda>flat. Inr (if flat then ''RANGING'' else ''UNKNOWN'')))))))"

definition CANONICAL_MAP :: "(string \<times> string) list" where
  "CANONICAL_MAP = [(''TREND_UP'', ''TRENDING''), (''TREND_DOWN'', ''TRENDING''), (''RANGE'', ''RANGING''),
     (''SIDEWAYS'', ''RANGING''), (''TRENDING'', ''TRENDING''), (''RANGING'', ''RANGING''),
     (''HIGH_VOLATILITY'', ''HIGH_VOLATILITY''), (''NO_TRADE'', ''UNKNOWN''), (''UNKNOWN'', ''UNKNOWN'')]"

definition to_canonical :: "string option \<Rightarrow> string" where
  "to_canonical raw_regime =
     (case raw_regime of None \<Rightarrow> ''UNKNOWN''
      | Some r \<Rightarrow> if r = [] then ''UNKNOWN'' else get_or ''UNKNOWN'' (map_of CANONICAL_MAP (py_upper r)))"

section \<open>The six-factor confidence\<close>

record candle_row =
  cr_high :: pyfloat
  cr_low :: pyfloat
  cr_close :: pyfloat

text \<open>\<open>max\<close> and \<open>min\<close> over a sequence.\<close>

fun py_max_list :: "pyfloat list \<Rightarrow> pyfloat result" where
  "py_max_list [] = Inl (ValueError ''empty sequence'')"
| "py_max_list (x # xs) = Inr (foldl py_max x xs)"

fun py_min_list :: "pyfloat list \<Rightarrow> pyfloat result" where
  "py_min_list [] = Inl (ValueError ''empty sequence'')"
| "py_min_list (x # xs) = Inr (foldl py_min x xs)"

definition classify_structure :: "candle_row list \<Rightarrow> nat \<Rightarrow> string result" where
  "classify_structure candles lookback =
     (if length candles < lookback + 1 then Inr ''UNKNOWN''
      else let reference = butlast (drop (length candles - (lookback + 1)) candles);
               latest_close = cr_close (last candles) in
      rbind (py_max_list (map cr_high reference)) (\<lambda>range_high.
      rbind (py_min_list (map cr_low reference)) (\<lambda>range_low.
      let range_size = range_high - range_low in
      if range_size \<le> Fin 0 then Inr ''UNKNOWN''
      else if range_high < latest_close \<or> latest_close < range_low then Inr ''CONFIRMED''
      else rbind (fdiv (latest_close - range_low) range_size) (\<lambda>position.
        Inr (if Fin (3/4) \<le> position \<or> position \<le> Fin (1/4) then ''WEAK'' else ''NONE'')))))"

definition classify_risk_conditions :: "pyfloat option \<Rightarrow> pyfloat option \<Rightarrow> string result" where
  "classify_risk_conditions spread atr =
     (case (spread, atr) of
        (Some s, Some a) \<Rightarrow>
          if a \<le> Fin 0 then Inr ''UNKNOWN''
          else rbind (fdiv s a) (\<lambda>ratio.
            Inr (if ratio < fl (15/100) then ''FAVORABLE'' else if ratio < fl (35/100) then ''MODERATE'' else ''UNFAVORABLE''))
      | _ \<Rightarrow> Inr ''UNKNOWN'')"

definition TREND_WEIGHT :: int where "TREND_WEIGHT = 25"
definition STRUCTURE_WEIGHT :: int where "STRUCTURE_WEIGHT = 20"
definition LIQUIDITY_WEIGHT :: int where "LIQUIDITY_WEIGHT = 20"
definition MOMENTUM_WEIGHT :: int where "MOMENTUM_WEIGHT = 15"
definition VOLATILITY_WEIGHT :: int where "VOLATILITY_WEIGHT = 10"
definition RISK_WEIGHT :: int where "RISK_WEIGHT = 10"

record confidence_breakdown =
  cb_trend_score :: int
  cb_structure_score :: int
  cb_liquidity_score :: int
  cb_momentum_score :: int
  cb_volatility_score :: int
  cb_risk_score :: int
  cb_total :: int
  cb_factors :: "string list"

definition make_breakdown :: "confidence_breakdown \<Rightarrow> confidence_breakdown result" where
  "make_breakdown b = (if 0 \<le> cb_total b \<and> cb_total b \<le> 100 then Inr b else Inl (ValueError ''total''))"

definition meets_threshold :: "confidence_breakdown \<Rightarrow> int \<Rightarrow> bool" where
  "meets_threshold b threshold \<longleftrightarrow> threshold \<le> cb_total b"

definition score_in :: "(string \<times> int) list \<Rightarrow> string \<Rightarrow> int" where
  "score_in table key = get_or 0 (map_of table key)"

definition calculate_confidence ::
  "string \<Rightarrow> string \<Rightarrow> string \<Rightarrow> string \<Rightarrow> string \<Rightarrow> string \<Rightarrow> confidence_breakdown result" where
  "calculate_confidence trend structure liquidity momentum volatility risk =
     (let trend_score = (if trend \<in> {''BULLISH'', ''BEARISH''} then TREND_WEIGHT else 0);
          structure_score = (if structure = ''CONFIRMED'' then STRUCTURE_WEIGHT
             else if structure = ''WEAK'' then STRUCTURE_WEIGHT div 2 else 0);
          liquidity_score = score_in [(''GOOD'', LIQUIDITY_WEIGHT), (''MEDIUM'', LIQUIDITY_WEIGHT div 2)] liquidity;
          momentum_score = score_in [(''STRONG'', MOMENTUM_WEIGHT), (''MODERATE'', (MOMENTUM_WEIGHT * 2) div 3)] momentum;
          volatility_score = score_in [(''MEDIUM'', VOLATILITY_WEIGHT), (''HIGH'', (VOLATILITY_WEIGHT * 2) div 3),
             (''LOW'', VOLATILITY_WEIGHT div 3)] volatility;
          risk_score = score_in [(''FAVORABLE'', RISK_WEIGHT), (''MODERATE'', RISK_WEIGHT div 2)] risk
      in make_breakdown \<lparr>cb_trend_score = trend_score, cb_structure_score = structure_score,
           cb_liquidity_score = liquidity_score, cb_momentum_score = momentum_score,
           cb_volatility_score = volatility_score, cb_risk_score = risk_score,
           cb_total = trend_score + structure_score + liquidity_score + momentum_score + volatility_score + risk_score,
           cb_factors = [trend, structure, liquidity, momentum, volatility, risk]\<rparr>)"

section \<open>Signals and their quality\<close>

record trading_signal =
  sg_action :: string
  sg_reason :: string
  sg_confidence :: int
  sg_quality :: string

definition wait_signal :: trading_signal where
  "wait_signal = \<lparr>sg_action = ''WAIT'', sg_reason = [], sg_confidence = 0, sg_quality = ''LOW''\<rparr>"

text \<open>\<open>SignalEngine.generate\<close>: the action and reason for a regime, then the quality class.\<close>

definition signal_action :: "string \<Rightarrow> string \<Rightarrow> string \<Rightarrow> string \<times> string" where
  "signal_action regime trend momentum =
     (if regime = ''TRENDING'' then
        if trend = ''BULLISH'' \<and> momentum = ''STRONG'' then (''BUY'', ''Bullish trend confirmed by strong momentum'')
        else if trend = ''BEARISH'' \<and> momentum = ''STRONG'' then (''SELL'', ''Bearish trend confirmed by strong momentum'')
        else (''WAIT'', ''Trend confirmation missing'')
      else if regime \<in> {''RANGING'', ''SIDEWAYS''} then (''WAIT'', ''No directional advantage'')
      else (''WAIT'', ''Unknown market condition''))"

definition generate_signal :: "intelligence \<Rightarrow> trading_signal" where
  "generate_signal i =
     (let trend = get_or ''UNKNOWN'' (in_trend i); momentum = get_or ''UNKNOWN'' (in_momentum i);
          regime = get_or ''UNKNOWN'' (in_regime i); confidence = get_or 0 (in_confidence i) in
      if regime = ''HIGH_VOLATILITY''
      then wait_signal\<lparr>sg_reason := ''High volatility protection'', sg_confidence := confidence\<rparr>
      else case signal_action regime trend momentum of (action, reason) \<Rightarrow>
        wait_signal\<lparr>sg_action := action, sg_reason := reason, sg_confidence := confidence,
          sg_quality := (if 85 \<le> confidence then ''HIGH'' else if 70 \<le> confidence then ''MEDIUM'' else ''LOW'')\<rparr>)"

record signal_score =
  sc_action :: string
  sc_score :: int
  sc_quality :: string
  sc_reasons :: "string list"

text \<open>The points and reasons of one factor.\<close>

definition scored_factors :: "intelligence \<Rightarrow> (int \<times> string) list" where
  "scored_factors i =
     (let trend = get_or ''UNKNOWN'' (in_trend i); momentum = get_or ''UNKNOWN'' (in_momentum i);
          volatility = get_or ''UNKNOWN'' (in_volatility i); regime = get_or ''UNKNOWN'' (in_regime i) in
      (if trend \<in> {''BULLISH'', ''BEARISH''} then [(30, ''Trend alignment'')] else [])
      @ (if momentum = ''STRONG'' then [(25, ''Strong momentum confirmation'')]
         else if momentum = ''MODERATE'' then [(15, ''Moderate momentum'')] else [])
      @ (if volatility \<in> {''LOW'', ''MEDIUM''} then [(20, ''Controlled volatility'')]
         else if volatility = ''HIGH'' then [(5, ''High volatility risk'')] else [])
      @ (if regime = ''TRENDING'' then [(25, ''Trending market condition'')]
         else if regime = ''RANGING'' then [(5, ''Range market'')] else []))"

definition score_quality :: "int \<Rightarrow> string" where
  "score_quality score =
     (if 90 \<le> score then ''HIGH'' else if 70 \<le> score then ''GOOD'' else if 50 \<le> score then ''WEAK'' else ''POOR'')"

definition evaluate_score :: "intelligence \<Rightarrow> trading_signal \<Rightarrow> signal_score" where
  "evaluate_score i sg =
     (let fs = scored_factors i; score = sum_list (map fst fs) in
      \<lparr>sc_action = sg_action sg, sc_score = score, sc_quality = score_quality score, sc_reasons = map snd fs\<rparr>)"

section \<open>The strategy engine\<close>

record strategy_engine =
  se_min_confidence :: int
  se_builder :: plan_builder

text \<open>Without an explicit threshold the engine uses that of the risk engine.\<close>

definition make_strategy_engine :: "int option \<Rightarrow> plan_builder option \<Rightarrow> strategy_engine" where
  "make_strategy_engine min_confidence builder =
     \<lparr>se_min_confidence = get_or (get_or 0 (as_int MIN_CONFIDENCE)) min_confidence,
      se_builder = get_or default_builder builder\<rparr>"

definition COLUMN_ALIASES :: "(string \<times> string) list" where
  "COLUMN_ALIASES = [(''EMA50'', ''EMA_50''), (''EMA200'', ''EMA_200''), (''RSI'', ''RSI_14''), (''ATR'', ''ATR_14'')]"

definition alias_columns :: "frame \<Rightarrow> frame" where
  "alias_columns df = rename_columns (filter (\<lambda>(k, v). v \<notin> set (fr_columns df)) COLUMN_ALIASES) df"

definition action_to_signal :: "string \<Rightarrow> string" where
  "action_to_signal action =
     get_or ''NO_TRADE'' (map_of [(''BUY'', ''BUY''), (''SELL'', ''SELL''), (''WAIT'', ''NO_TRADE'')] action)"

record strategy_decision =
  dn_symbol :: string
  dn_signal :: string
  dn_confidence :: int
  dn_quality :: string
  dn_score :: int
  dn_reasons :: "plan_note list"
  dn_intelligence :: intelligence
  dn_breakdown :: confidence_breakdown
  dn_trade_plan :: trade_plan

definition make_decision :: "strategy_decision \<Rightarrow> strategy_decision result" where
  "make_decision d =
     (if dn_signal d \<notin> {''BUY'', ''SELL'', ''NO_TRADE''} then Inl (ValueError ''signal'')
      else if \<not> (0 \<le> dn_confidence d \<and> dn_confidence d \<le> 100) then Inl (ValueError ''confidence'')
      else Inr d)"

text \<open>The candles of the last thirty rows.\<close>

fun read_candles :: "frame \<Rightarrow> frame_row list \<Rightarrow> candle_row list result" where
  "read_candles df [] = Inr []"
| "read_candles df (r # rs) =
     rbind (cell df r ''high'') (\<lambda>high. rbind (cell df r ''low'') (\<lambda>low. rbind (cell df r ''close'') (\<lambda>close.
     rbind (read_candles df rs) (\<lambda>rest. Inr (\<lparr>cr_high = high, cr_low = low, cr_close = close\<rparr> # rest)))))"

definition tail_rows :: "nat \<Rightarrow> frame \<Rightarrow> frame_row list" where
  "tail_rows n df = drop (length (fr_rows df) - n) (fr_rows df)"

text \<open>Regime and confidence from the frame, the features and the current price and spread.\<close>

definition market_indicators :: "pyfloat \<Rightarrow> pyfloat \<Rightarrow> pyfloat \<Rightarrow> pyfloat \<Rightarrow> string \<Rightarrow> pyfloat option option" where
  "market_indicators atr rsi price spread = no_indicators(''atr'' := Some (Some atr), ''ATR'' := Some (Some atr),
     ''rsi'' := Some (Some rsi), ''price'' := Some (Some price), ''spread'' := Some (Some spread))"

definition assess ::
  "frame \<Rightarrow> intelligence \<Rightarrow> pyfloat \<Rightarrow> pyfloat \<Rightarrow> confidence_breakdown result" where
  "assess df i spread atr =
     (let volatility_raw = get_or ''UNKNOWN'' (in_volatility i);
          tier = (if volatility_raw \<in> {''NORMAL'', ''MEDIUM''} then ''MEDIUM'' else volatility_raw) in
      rbind (read_candles df (tail_rows 30 df)) (\<lambda>candles.
      rbind (classify_structure candles 20) (\<lambda>structure.
      rbind (classify_risk_conditions (Some spread) (Some atr)) (\<lambda>risk_condition.
      calculate_confidence (get_or ''UNKNOWN'' (in_trend i)) structure (get_or ''GOOD'' (in_liquidity i))
        (get_or ''UNKNOWN'' (in_momentum i)) tier risk_condition))))"

text \<open>The first confidence gate.\<close>

definition gate_closed :: "strategy_engine \<Rightarrow> trading_signal \<Rightarrow> bool" where
  "gate_closed e raw \<longleftrightarrow> action_to_signal (sg_action raw) \<noteq> ''NO_TRADE'' \<and> sg_confidence raw < se_min_confidence e"

definition gated_signal :: "strategy_engine \<Rightarrow> trading_signal \<Rightarrow> string" where
  "gated_signal e raw = (if gate_closed e raw then ''NO_TRADE'' else action_to_signal (sg_action raw))"

text \<open>Steps 5 and 6: signal, score, confidence gate, plan and decision.\<close>

definition decide ::
  "strategy_engine \<Rightarrow> string \<Rightarrow> intelligence \<Rightarrow> confidence_breakdown \<Rightarrow> pyfloat \<Rightarrow> pydatetime \<Rightarrow> strategy_decision result" where
  "decide e symb i breakdown price now =
     (let raw = generate_signal i; score = evaluate_score i raw;
          signal = gated_signal e raw; confidence = sg_confidence raw;
          reasons = map Note (sc_reasons score) @ (if gate_closed e raw then [BelowThreshold (se_min_confidence e)] else []) in
      rbind (build (se_builder e) symb i
         \<lparr>sd_signal = Some signal, sd_confidence = Some confidence, sd_quality = Some (sc_quality score),
          sd_score = Some (sc_score score), sd_reasons = Some reasons\<rparr> price now) (\<lambda>plan.
      make_decision \<lparr>dn_symbol = symb, dn_signal = signal, dn_confidence = confidence, dn_quality = sc_quality score,
         dn_score = sc_score score, dn_reasons = reasons, dn_intelligence = i, dn_breakdown = breakdown,
         dn_trade_plan = plan\<rparr>))"

text \<open>The features with the regime, the liquidity class and the indicators of the latest row.\<close>

definition enrich ::
  "frame \<Rightarrow> frame_row \<Rightarrow> intelligence \<Rightarrow> string \<Rightarrow> pyfloat \<Rightarrow> pyfloat \<Rightarrow> intelligence" where
  "enrich df latest features canonical_regime price spread =
     features\<lparr>in_regime := Some canonical_regime, in_liquidity := Some (analyze_liquidity (Some spread)),
       in_indicators := market_indicators (get_or (Fin 0) (cell_get df latest ''ATR'' ''ATR_14''))
         (get_or (Fin 50) (cell_get df latest ''RSI'' ''RSI_14'')) price spread\<rparr>"

definition evaluate_strategy ::
  "(pyfloat list \<Rightarrow> pyfloat) \<Rightarrow> strategy_engine \<Rightarrow> frame \<Rightarrow> string \<Rightarrow> string option \<Rightarrow> pyfloat option \<Rightarrow> pyfloat option
   \<Rightarrow> pydatetime \<Rightarrow> strategy_decision result" where
  "evaluate_strategy mean e df symb regime price spread now =
     (if ''ATR'' \<notin> set (fr_columns df) \<and> ''ATR_14'' \<notin> set (fr_columns df)
      then Inl (KeyError ''calculate_indicators() output is required (missing ATR column)'')
      else rbind (analyze_features mean (alias_columns df)) (\<lambda>features.
      rbind (last_row df) (\<lambda>latest.
      rbind (case price of Some p \<Rightarrow> Inr p | None \<Rightarrow> cell df latest ''close'') (\<lambda>current_price.
      let latest_atr = get_or (Fin 0) (cell_get df latest ''ATR'' ''ATR_14'');
          current_spread = get_or (get_or (Fin 1) (cell_get df latest ''spread'' ''spread'')) spread in
      rbind (case regime of Some r \<Rightarrow> Inr (to_canonical (Some r))
               | None \<Rightarrow> rbind (detect_legacy_regime df) (\<lambda>r. Inr (to_canonical (Some r)))) (\<lambda>canonical_regime.
      let i = enrich df latest features canonical_regime current_price current_spread in
      rbind (assess df i current_spread latest_atr) (\<lambda>breakdown.
      decide e symb i breakdown current_price now))))))"

section \<open>What the indicators decide\<close>

text \<open>\<open>calculate_indicators\<close> stores every indicator under two names with one value.\<close>

definition aliases_agree :: "frame \<Rightarrow> frame_row \<Rightarrow> bool" where
  "aliases_agree df r \<longleftrightarrow> (\<forall>(k, v) \<in> set COLUMN_ALIASES. k \<in> set (fr_columns df) \<and> v \<in> set (fr_columns df) \<longrightarrow> r k = r v)"

definition atr_column :: "frame \<Rightarrow> pyfloat list" where
  "atr_column df = map (\<lambda>r. get_or NaN (cell_get df r ''ATR_14'' ''ATR'')) (fr_rows df)"

lemma cell_get_swap: "aliases_agree df r \<Longrightarrow> (k, v) \<in> set COLUMN_ALIASES \<Longrightarrow> cell_get df r v k = cell_get df r k v"
  by (auto simp: aliases_agree_def cell_get_def)

abbreviation alias_map :: "frame \<Rightarrow> (string \<times> string) list" where
  "alias_map df \<equiv> filter (\<lambda>(k, v). v \<notin> set (fr_columns df)) COLUMN_ALIASES"

abbreviation alias_row :: "frame \<Rightarrow> frame_row \<Rightarrow> frame_row" where
  "alias_row df r \<equiv> (\<lambda>c. case find (\<lambda>k. renamed (alias_map df) k = c) (fr_columns df) of Some k \<Rightarrow> r k | None \<Rightarrow> r c)"

lemma renamed_filter:
  assumes "distinct (map fst al)" "distinct (map snd al)" "fst ` set al \<inter> snd ` set al = {}" "(k, v) \<in> set al"
  shows "renamed (filter (\<lambda>(k, v). v \<notin> C) al) c = v \<longleftrightarrow> c = v \<or> (c = k \<and> v \<notin> C)"
proof -
  have keys: "map_of (filter (\<lambda>(k, v). v \<notin> C) al) c = Some v' \<longleftrightarrow> (c, v') \<in> set al \<and> v' \<notin> C" for v'
    using assms(1) by (subst map_of_eq_Some_iff) (auto intro: distinct_map_filter)
  have vals: "(c, v) \<in> set al \<Longrightarrow> c = k"
    using assms(2,4) by (metis distinct_map inj_onD prod.inject snd_conv)
  have "(v, v') \<notin> set al" for v' using assms(3,4) by force
  then show ?thesis
    using keys vals assms(4) by (cases "map_of (filter (\<lambda>(k, v). v \<notin> C) al) c") (fastforce simp: renamed_def)+
qed

lemma renamed_alias:
  "(k, v) \<in> set COLUMN_ALIASES \<Longrightarrow> renamed (alias_map df) c = v \<longleftrightarrow> c = v \<or> (c = k \<and> v \<notin> set (fr_columns df))"
  by (rule renamed_filter) (simp_all add: COLUMN_ALIASES_def)

lemma alias_lookup:
  assumes "(k, v) \<in> set COLUMN_ALIASES"
  shows "v \<in> set (fr_columns (alias_columns df)) \<longleftrightarrow> cell_get df r v k \<noteq> None"
    and "cell_get df r v k = Some x \<Longrightarrow> alias_row df r v = x"
proof -
  show "v \<in> set (fr_columns (alias_columns df)) \<longleftrightarrow> cell_get df r v k \<noteq> None"
    using renamed_alias [OF assms, of df]
    by (auto simp: alias_columns_def rename_columns_def cell_get_def image_iff eq_commute [of v])
  show "alias_row df r v = x" if "cell_get df r v k = Some x"
    using that by (auto simp: renamed_alias [OF assms] cell_get_def find_None_iff find_Some_iff split: option.splits if_splits)
qed

lemma alias_cell:
  assumes "(k, v) \<in> set COLUMN_ALIASES" "cell (alias_columns df) (alias_row df r) v = Inr x"
  shows "cell_get df r v k = Some x"
  using assms(2) alias_lookup [OF assms(1), of df r] by (auto simp: cell_def split: if_splits)

lemma alias_cell_swap:
  assumes "aliases_agree df r" "(k, v) \<in> set COLUMN_ALIASES" "cell (alias_columns df) (alias_row df r) v = Inr x"
  shows "cell_get df r k v = Some x"
  using alias_cell [OF assms(2,3)] cell_get_swap [OF assms(1,2)] by simp

lemma alias_last_row: "last_row (alias_columns df) = Inr r' \<Longrightarrow> \<exists>r. last_row df = Inr r \<and> r' = alias_row df r"
  by (auto simp: last_row_def alias_columns_def rename_columns_def last_map split: if_splits)

lemma alias_atr_column:
  assumes "''ATR_14'' \<in> set (fr_columns (alias_columns df))"
  shows "map (\<lambda>r. r ''ATR_14'') (fr_rows (alias_columns df)) = atr_column df"
proof -
  have a: "(''ATR'', ''ATR_14'') \<in> set COLUMN_ALIASES" by (simp add: COLUMN_ALIASES_def)
  have "alias_row df r ''ATR_14'' = get_or NaN (cell_get df r ''ATR_14'' ''ATR'')" for r
    using alias_lookup [OF a, of df r] assms by (auto simp: get_or_def)
  then show ?thesis by (simp add: alias_columns_def rename_columns_def atr_column_def)
qed

lemma COLUMN_ALIASES_members:
  "(''EMA50'', ''EMA_50'') \<in> set COLUMN_ALIASES" "(''EMA200'', ''EMA_200'') \<in> set COLUMN_ALIASES"
  "(''RSI'', ''RSI_14'') \<in> set COLUMN_ALIASES" "(''ATR'', ''ATR_14'') \<in> set COLUMN_ALIASES"
  by (simp_all add: COLUMN_ALIASES_def)

text \<open>The indicators of a row under either name.\<close>

definition indicators_of :: "frame \<Rightarrow> frame_row \<Rightarrow> pyfloat \<Rightarrow> pyfloat \<Rightarrow> pyfloat \<Rightarrow> pyfloat \<Rightarrow> bool" where
  "indicators_of df r ema50 ema200 rsi atr \<longleftrightarrow> cell_get df r ''EMA50'' ''EMA_50'' = Some ema50
     \<and> cell_get df r ''EMA200'' ''EMA_200'' = Some ema200 \<and> cell_get df r ''RSI'' ''RSI_14'' = Some rsi
     \<and> cell_get df r ''ATR'' ''ATR_14'' = Some atr"

definition momentum_of :: "pyfloat \<Rightarrow> string" where
  "momentum_of rsi = (if Fin 60 < rsi then ''STRONG'' else if rsi < Fin 40 then ''WEAK'' else ''NEUTRAL'')"

lemma features_values:
  assumes "analyze_features mean (alias_columns df) = Inr i" "\<forall>r \<in> set (fr_rows df). aliases_agree df r"
  obtains r ema50 ema200 rsi atr where "last_row df = Inr r" "indicators_of df r ema50 ema200 rsi atr"
    "in_trend i = Some (if ema200 < ema50 then ''BULLISH'' else ''BEARISH'')" "in_momentum i = Some (momentum_of rsi)"
    "in_confidence i = Some (30 + (if Fin 60 < rsi then 30 else if rsi < Fin 40 then 10 else 20)
       + (if mean (atr_column df) < atr then 20 else 10))"
proof -
  obtain r' ema50 ema200 rsi atr where r': "last_row (alias_columns df) = Inr r'"
      "cell (alias_columns df) r' ''EMA_50'' = Inr ema50" "cell (alias_columns df) r' ''EMA_200'' = Inr ema200"
      "cell (alias_columns df) r' ''RSI_14'' = Inr rsi" "cell (alias_columns df) r' ''ATR_14'' = Inr atr"
    and i: "in_trend i = Some (if ema200 < ema50 then ''BULLISH'' else ''BEARISH'')" "in_momentum i = Some (momentum_of rsi)"
      "in_confidence i = Some (30 + (if Fin 60 < rsi then 30 else if rsi < Fin 40 then 10 else 20)
         + (if mean (map (\<lambda>r. r ''ATR_14'') (fr_rows (alias_columns df))) < atr then 20 else 10))"
    using assms(1) by (auto simp: analyze_features_def momentum_of_def Let_def split: if_splits)
  obtain r where r: "last_row df = Inr r" "r' = alias_row df r" using alias_last_row [OF r'(1)] by blast
  have agree: "aliases_agree df r" using assms(2) r(1) by (auto simp: last_row_def split: if_splits)
  have "indicators_of df r ema50 ema200 rsi atr"
    using r'(2-5) unfolding r(2) indicators_of_def by (intro conjI alias_cell_swap [OF agree] COLUMN_ALIASES_members)
  moreover have "map (\<lambda>r. r ''ATR_14'') (fr_rows (alias_columns df)) = atr_column df"
    using r'(5) by (intro alias_atr_column) (auto simp: cell_def split: if_splits)
  ultimately show thesis using that r(1) i by auto
qed

lemma canonical_regimes:
  "to_canonical (Some ''TREND_UP'') = ''TRENDING''" "to_canonical (Some ''TREND_DOWN'') = ''TRENDING''"
  "to_canonical (Some ''RANGE'') = ''RANGING''" "to_canonical (Some ''NO_TRADE'') = ''UNKNOWN''"
  by code_simp+

lemma legacy_regime:
  assumes "detect_legacy_regime df = Inr rg" "last_row df = Inr r" "indicators_of df r ema50 ema200 rsi atr"
  obtains close where "cell df r ''close'' = Inr close"
    "to_canonical (Some rg) = (if ema50 < close \<and> ema200 < ema50 \<and> Fin 50 < rsi
        \<or> close < ema50 \<and> ema50 < ema200 \<and> rsi < Fin 50 then ''TRENDING''
      else if \<bar>ema50 - ema200\<bar> < atr * Fin (1/2) then ''RANGING'' else ''UNKNOWN'')"
  using assms
  by (auto simp: detect_legacy_regime_def indicators_of_def Let_def greater_def averages_close_def py_all.simps(2)
      canonical_regimes split: if_splits)

text \<open>The regime a caller passes is the one the engine would detect itself, or none is passed.\<close>

definition own_regime :: "frame \<Rightarrow> string option \<Rightarrow> bool" where
  "own_regime df regime \<longleftrightarrow> regime = None \<or> (\<exists>r. regime = Some r \<and> detect_legacy_regime df = Inr r)"

lemma enrich_simps [simp]:
  "in_regime (enrich df r f rg p s) = Some rg" "in_trend (enrich df r f rg p s) = in_trend f"
  "in_momentum (enrich df r f rg p s) = in_momentum f" "in_confidence (enrich df r f rg p s) = in_confidence f"
  "in_volatility (enrich df r f rg p s) = in_volatility f"
  by (simp_all add: enrich_def)

lemma evaluate_strategy_decides:
  assumes "evaluate_strategy mean e df symb regime price spread now = Inr d"
  obtains f i breakdown p rg where "analyze_features mean (alias_columns df) = Inr f" "in_regime i = Some rg"
    "in_trend i = in_trend f" "in_momentum i = in_momentum f" "in_confidence i = in_confidence f"
    "own_regime df regime \<Longrightarrow> \<exists>r. detect_legacy_regime df = Inr r \<and> rg = to_canonical (Some r)"
    "decide e symb i breakdown p now = Inr d"
proof -
  obtain f breakdown p rg r s where *: "analyze_features mean (alias_columns df) = Inr f"
    "(case regime of Some r \<Rightarrow> Inr (to_canonical (Some r))
        | None \<Rightarrow> rbind (detect_legacy_regime df) (\<lambda>r. Inr (to_canonical (Some r)))) = Inr rg"
    "decide e symb (enrich df r f rg p s) breakdown p now = Inr d"
    using assms unfolding evaluate_strategy_def Let_def by (simp split: if_splits) blast
  have "\<exists>r. detect_legacy_regime df = Inr r \<and> rg = to_canonical (Some r)" if "own_regime df regime"
    using that *(2) by (auto simp: own_regime_def)
  then show thesis using that [OF *(1) _ _ _ _ _ *(3)] by simp
qed

lemma make_decision_Inr:
  "make_decision d = Inr d' \<longleftrightarrow> d' = d \<and> dn_signal d \<in> {''BUY'', ''SELL'', ''NO_TRADE''}
     \<and> 0 \<le> dn_confidence d \<and> dn_confidence d \<le> 100"
  by (auto simp: make_decision_def)

lemma decide_fields:
  assumes "decide e symb i breakdown p now = Inr d"
  shows "dn_signal d = gated_signal e (generate_signal i)" "dn_confidence d = sg_confidence (generate_signal i)"
    and "\<exists>sg. build (se_builder e) symb i sg p now = Inr (dn_trade_plan d) \<and> sd_signal sg = Some (dn_signal d)"
  using assms by (auto simp: decide_def Let_def make_decision_Inr)

lemma generate_signal_action:
  assumes "in_regime i = Some rg" "in_trend i = Some tr" "in_momentum i = Some mo"
  shows "sg_action (generate_signal i) = (if rg = ''TRENDING'' \<and> tr = ''BULLISH'' \<and> mo = ''STRONG'' then ''BUY''
      else if rg = ''TRENDING'' \<and> tr = ''BEARISH'' \<and> mo = ''STRONG'' then ''SELL'' else ''WAIT'')"
  using assms by (simp add: generate_signal_def signal_action_def wait_signal_def get_or_def Let_def)

lemma generate_signal_confidence: "sg_confidence (generate_signal i) = get_or 0 (in_confidence i)"
  by (simp add: generate_signal_def Let_def split: prod.splits)

lemma action_to_signal_simps [simp]:
  "action_to_signal ''BUY'' = ''BUY''" "action_to_signal ''SELL'' = ''SELL''" "action_to_signal ''WAIT'' = ''NO_TRADE''"
  by (simp_all add: action_to_signal_def get_or_def)

lemma decide_signal:
  assumes "decide e symb i breakdown p now = Inr d" "in_regime i = Some rg" "in_trend i = Some tr" "in_momentum i = Some mo"
    "in_confidence i = Some c"
  shows "dn_signal d = (if rg = ''TRENDING'' \<and> tr = ''BULLISH'' \<and> mo = ''STRONG'' \<and> se_min_confidence e \<le> c then ''BUY''
      else if rg = ''TRENDING'' \<and> tr = ''BEARISH'' \<and> mo = ''STRONG'' \<and> se_min_confidence e \<le> c then ''SELL'' else ''NO_TRADE'')"
  using generate_signal_action [OF assms(2-4)] decide_fields(1) [OF assms(1)] generate_signal_confidence [of i] assms(5)
  by (auto simp: gated_signal_def gate_closed_def get_or_def)

lemma default_min_confidence [simp]: "se_min_confidence (make_strategy_engine None builder) = 75"
  by (simp add: make_strategy_engine_def get_or_def MIN_CONFIDENCE_def)

text \<open>C37. The decision of the default strategy engine, with the regime it detects itself or the same one
  passed by the caller: the signal is BUY exactly when the close is above the 50-period average, that
  above the 200-period average, the RSI above 60 and the average true range above its mean over the
  frame; otherwise it is NO_TRADE. In particular the engine never signals SELL, although it has a rule
  for it: a strong momentum means an RSI above 60, a downward trend one below 50.\<close>

theorem strategy_signal_iff:
  assumes "evaluate_strategy mean (make_strategy_engine None builder) df symb regime price spread now = Inr d"
    and "own_regime df regime" "\<forall>r \<in> set (fr_rows df). aliases_agree df r"
  shows "\<exists>r ema50 ema200 rsi atr close. last_row df = Inr r \<and> indicators_of df r ema50 ema200 rsi atr
    \<and> cell df r ''close'' = Inr close
    \<and> dn_signal d = (if ema50 < close \<and> ema200 < ema50 \<and> Fin 60 < rsi \<and> mean (atr_column df) < atr
                     then ''BUY'' else ''NO_TRADE'')"
proof -
  obtain f i breakdown p rg where f: "analyze_features mean (alias_columns df) = Inr f" "in_regime i = Some rg"
    "in_trend i = in_trend f" "in_momentum i = in_momentum f" "in_confidence i = in_confidence f"
    "\<exists>r. detect_legacy_regime df = Inr r \<and> rg = to_canonical (Some r)" "decide (make_strategy_engine None builder) symb i breakdown p now = Inr d"
    using evaluate_strategy_decides [OF assms(1)] assms(2) by metis
  obtain r ema50 ema200 rsi atr where v: "last_row df = Inr r" "indicators_of df r ema50 ema200 rsi atr"
    "in_trend f = Some (if ema200 < ema50 then ''BULLISH'' else ''BEARISH'')" "in_momentum f = Some (momentum_of rsi)"
    "in_confidence f = Some (30 + (if Fin 60 < rsi then 30 else if rsi < Fin 40 then 10 else 20)
       + (if mean (atr_column df) < atr then 20 else 10))"
    using features_values [OF f(1) assms(3)] .
  obtain rg0 where rg0: "detect_legacy_regime df = Inr rg0" "rg = to_canonical (Some rg0)" using f(6) by blast
  obtain close where close: "cell df r ''close'' = Inr close"
    "rg = (if ema50 < close \<and> ema200 < ema50 \<and> Fin 50 < rsi \<or> close < ema50 \<and> ema50 < ema200 \<and> rsi < Fin 50
       then ''TRENDING'' else if \<bar>ema50 - ema200\<bar> < atr * Fin (1/2) then ''RANGING'' else ''UNKNOWN'')"
    using legacy_regime [OF rg0(1) v(1,2)] unfolding rg0(2) .
  have rsi: "Fin 60 < rsi \<Longrightarrow> Fin 50 < rsi \<and> \<not> rsi < Fin 50" by (cases rsi) auto
  have ema: "ema50 < ema200 \<Longrightarrow> \<not> ema200 < ema50" by (cases ema50; cases ema200) auto
  have trending: "rg = ''TRENDING'' \<and> Fin 60 < rsi \<longleftrightarrow> ema50 < close \<and> ema200 < ema50 \<and> Fin 60 < rsi"
    using close(2) rsi by auto
  have strong: "momentum_of rsi = ''STRONG'' \<longleftrightarrow> Fin 60 < rsi" by (simp add: momentum_of_def)
  have signal: "dn_signal d = (if rg = ''TRENDING'' \<and> ema200 < ema50 \<and> Fin 60 < rsi \<and> mean (atr_column df) < atr then ''BUY''
      else if rg = ''TRENDING'' \<and> \<not> ema200 < ema50 \<and> Fin 60 < rsi \<and> mean (atr_column df) < atr then ''SELL'' else ''NO_TRADE'')"
    using decide_signal [OF f(7,2), unfolded f(3-5) v(3-5), OF refl refl refl] strong by (simp split: if_splits)
  have "dn_signal d = (if ema50 < close \<and> ema200 < ema50 \<and> Fin 60 < rsi \<and> mean (atr_column df) < atr
                     then ''BUY'' else ''NO_TRADE'')"
    unfolding signal using trending by auto
  then show ?thesis using v(1,2) close(1) by blast
qed

section \<open>Confidence\<close>

lemmas weight_defs = TREND_WEIGHT_def STRUCTURE_WEIGHT_def LIQUIDITY_WEIGHT_def MOMENTUM_WEIGHT_def VOLATILITY_WEIGHT_def
  RISK_WEIGHT_def

text \<open>The six-factor model scores every combination of classes: the breakdown is always accepted by its own
  validation, no factor exceeds its weight, the total is the sum of the factors and lies between 0
  and 100, and 100 is reached exactly by the best class of every factor.\<close>

theorem confidence_total:
  "\<exists>b. calculate_confidence trend structure liquidity momentum volatility risk = Inr b
    \<and> cb_total b = cb_trend_score b + cb_structure_score b + cb_liquidity_score b + cb_momentum_score b
        + cb_volatility_score b + cb_risk_score b
    \<and> cb_trend_score b \<in> {0..TREND_WEIGHT} \<and> cb_structure_score b \<in> {0..STRUCTURE_WEIGHT}
    \<and> cb_liquidity_score b \<in> {0..LIQUIDITY_WEIGHT} \<and> cb_momentum_score b \<in> {0..MOMENTUM_WEIGHT}
    \<and> cb_volatility_score b \<in> {0..VOLATILITY_WEIGHT} \<and> cb_risk_score b \<in> {0..RISK_WEIGHT}
    \<and> 0 \<le> cb_total b \<and> cb_total b \<le> 100
    \<and> (cb_total b = 100 \<longleftrightarrow> trend \<in> {''BULLISH'', ''BEARISH''} \<and> structure = ''CONFIRMED'' \<and> liquidity = ''GOOD''
         \<and> momentum = ''STRONG'' \<and> volatility = ''MEDIUM'' \<and> risk = ''FAVORABLE'')"
proof -
  define t where "t = (if trend \<in> {''BULLISH'', ''BEARISH''} then TREND_WEIGHT else 0)"
  define st where "st = (if structure = ''CONFIRMED'' then STRUCTURE_WEIGHT
             else if structure = ''WEAK'' then STRUCTURE_WEIGHT div 2 else 0)"
  define l where "l = score_in [(''GOOD'', LIQUIDITY_WEIGHT), (''MEDIUM'', LIQUIDITY_WEIGHT div 2)] liquidity"
  define m where "m = score_in [(''STRONG'', MOMENTUM_WEIGHT), (''MODERATE'', (MOMENTUM_WEIGHT * 2) div 3)] momentum"
  define v where "v = score_in [(''MEDIUM'', VOLATILITY_WEIGHT), (''HIGH'', (VOLATILITY_WEIGHT * 2) div 3),
             (''LOW'', VOLATILITY_WEIGHT div 3)] volatility"
  define r where "r = score_in [(''FAVORABLE'', RISK_WEIGHT), (''MODERATE'', RISK_WEIGHT div 2)] risk"
  note scores = score_in_def get_or_def weight_defs
  have t: "t \<in> {0..25}" "t = 25 \<longleftrightarrow> trend \<in> {''BULLISH'', ''BEARISH''}" by (auto simp: t_def scores)
  have st: "st \<in> {0..20}" "st = 20 \<longleftrightarrow> structure = ''CONFIRMED''" by (auto simp: st_def scores)
  have l: "l \<in> {0..20}" "l = 20 \<longleftrightarrow> liquidity = ''GOOD''" by (auto simp: l_def scores)
  have m: "m \<in> {0..15}" "m = 15 \<longleftrightarrow> momentum = ''STRONG''" by (auto simp: m_def scores)
  have v: "v \<in> {0..10}" "v = 10 \<longleftrightarrow> volatility = ''MEDIUM''" by (auto simp: v_def scores)
  have r: "r \<in> {0..10}" "r = 10 \<longleftrightarrow> risk = ''FAVORABLE''" by (auto simp: r_def scores)
  have total: "0 \<le> t + st + l + m + v + r" "t + st + l + m + v + r \<le> 100" using t(1) st(1) l(1) m(1) v(1) r(1) by auto
  have full: "t + st + l + m + v + r = 100 \<longleftrightarrow> t = 25 \<and> st = 20 \<and> l = 20 \<and> m = 15 \<and> v = 10 \<and> r = 10"
    using t(1) st(1) l(1) m(1) v(1) r(1) unfolding atLeastAtMost_iff by (intro iffI conjI; linarith)
  have "calculate_confidence trend structure liquidity momentum volatility risk
     = Inr \<lparr>cb_trend_score = t, cb_structure_score = st, cb_liquidity_score = l, cb_momentum_score = m,
            cb_volatility_score = v, cb_risk_score = r, cb_total = t + st + l + m + v + r,
            cb_factors = [trend, structure, liquidity, momentum, volatility, risk]\<rparr>"
    unfolding calculate_confidence_def Let_def t_def [symmetric] st_def [symmetric] l_def [symmetric] m_def [symmetric]
      v_def [symmetric] r_def [symmetric] make_breakdown_def
    using total by simp
  then show ?thesis
    using total full t(1) st(1) l(1) m(1) v(1) r(1) unfolding t(2) st(2) l(2) m(2) v(2) r(2)
    by (simp add: weight_defs)
qed

section \<open>From the strategy to the risk engine\<close>

text \<open>\<open>StrategyDecision.to_pipeline_dict\<close>; the list and the dictionary in it are opaque to the risk engine.\<close>

definition to_pipeline_dict :: "strategy_decision \<Rightarrow> py_dict" where
  "to_pipeline_dict d = [''signal'' \<mapsto> PyStr (dn_signal d), ''confidence'' \<mapsto> PyInt (dn_confidence d),
     ''quality'' \<mapsto> PyStr (dn_quality d), ''score'' \<mapsto> PyInt (dn_score d), ''reasons'' \<mapsto> PyOther,
     ''intelligence'' \<mapsto> PyOther]"

definition generate_trading_signal ::
  "(pyfloat list \<Rightarrow> pyfloat) \<Rightarrow> strategy_engine \<Rightarrow> frame \<Rightarrow> string \<Rightarrow> string option \<Rightarrow> pydatetime \<Rightarrow> strategy_decision result" where
  "generate_trading_signal mean e df symb regime now =
     (if ''ATR'' \<notin> set (fr_columns df) \<and> ''ATR_14'' \<notin> set (fr_columns df)
      then Inl (KeyError ''calculate_indicators() output is required (missing ATR column)'')
      else evaluate_strategy mean e df symb regime None None now)"

lemma build_signal: "build b symb i sg p now = Inr plan \<Longrightarrow> no_trade_plan plan \<or> sd_signal sg = Some (tp_signal plan) \<and> tp_signal plan \<noteq> ''NO_TRADE''"
  by (erule build_cases) auto

lemma gated_confidence:
  "gated_signal e raw \<noteq> ''NO_TRADE'' \<Longrightarrow> se_min_confidence e \<le> sg_confidence raw"
  by (auto simp: gated_signal_def gate_closed_def split: if_splits)

lemma action_to_signal_range: "action_to_signal a \<in> {''BUY'', ''SELL'', ''NO_TRADE''}"
  by (simp add: action_to_signal_def get_or_def)

lemma evaluate_strategy_signal:
  assumes "evaluate_strategy mean e df symb regime price spread now = Inr d"
  shows "dn_signal d \<in> {''BUY'', ''SELL'', ''NO_TRADE''}" "dn_signal d \<noteq> ''NO_TRADE'' \<Longrightarrow> se_min_confidence e \<le> dn_confidence d"
    and "no_trade_plan (dn_trade_plan d) \<or> tp_signal (dn_trade_plan d) = dn_signal d \<and> dn_signal d \<noteq> ''NO_TRADE''"
proof -
  obtain i breakdown p where i: "decide e symb i breakdown p now = Inr d"
    using evaluate_strategy_decides [OF assms] by metis
  note fields = decide_fields [OF i]
  show "dn_signal d \<in> {''BUY'', ''SELL'', ''NO_TRADE''}"
    using action_to_signal_range by (auto simp: fields(1) gated_signal_def)
  show "dn_signal d \<noteq> ''NO_TRADE'' \<Longrightarrow> se_min_confidence e \<le> dn_confidence d"
    unfolding fields(1,2) by (rule gated_confidence)
  show "no_trade_plan (dn_trade_plan d) \<or> tp_signal (dn_trade_plan d) = dn_signal d \<and> dn_signal d \<noteq> ''NO_TRADE''"
    using fields(3) build_signal by fastforce
qed

text \<open>C28. The gates of the strategy and of the risk engine agree. A signal other than NO_TRADE of the default
  strategy engine is never refused by an approval with the default confidence threshold for want of
  a signal or of confidence: it gets the verdict of the daily limits and of the market. Its plan has
  the same direction or is a rejected plan without levels, and a NO_TRADE decision has such a plan.\<close>

theorem strategy_signal_reaches_limits:
  assumes "generate_trading_signal mean (make_strategy_engine None builder) df symb regime now = Inr d"
    and "re_min_confidence e = MIN_CONFIDENCE"
  shows "if dn_signal d = ''NO_TRADE'' then no_trade_plan (dn_trade_plan d)
      \<and> approve_trade e (Some (to_pipeline_dict d)) candle balance enforce = Inr (refuse (Reason ''No trade signal'') NO_TRADE_SIGNAL)
    else (no_trade_plan (dn_trade_plan d) \<or> tp_signal (dn_trade_plan d) = dn_signal d)
      \<and> approve_trade e (Some (to_pipeline_dict d)) candle balance enforce =
          (if enforce \<and> \<not> fst (evaluate_limits e)
           then Inr (refuse (snd (evaluate_limits e))
             (if mentions_trade (snd (evaluate_limits e)) then DAILY_TRADE_LIMIT_REACHED else DAILY_LOSS_LIMIT_REACHED))
           else check_market e candle balance)"
proof -
  have ev: "evaluate_strategy mean (make_strategy_engine None builder) df symb regime None None now = Inr d"
    using assms(1) by (auto simp: generate_trading_signal_def split: if_splits)
  note d = evaluate_strategy_signal [OF ev]
  show ?thesis
  proof (cases "dn_signal d = ''NO_TRADE''")
    case True
    then have "approve_trade e (Some (to_pipeline_dict d)) candle balance enforce = Inr (refuse (Reason ''No trade signal'') NO_TRADE_SIGNAL)"
      by (simp add: approve_trade_def to_pipeline_dict_def dict_get_def in_sides_def)
    moreover have "no_trade_plan (dn_trade_plan d)"
      using d(3) True by simp
    ultimately show ?thesis using True by simp
  next
    case False
    then have side: "dn_signal d \<in> {''BUY'', ''SELL''}" and c: "75 \<le> dn_confidence d" using d(1,2) by auto
    then show ?thesis
      using False d(3) assms(2)
      by (auto simp: approve_trade_def to_pipeline_dict_def dict_get_def in_sides_def py_less_def MIN_CONFIDENCE_def Let_def)
  qed
qed

section \<open>A frame with a signal\<close>

definition sample_row :: "pyfloat \<Rightarrow> frame_row" where
  "sample_row atr c = (if c = ''high'' then Fin 11 else if c = ''low'' then Fin 9 else if c = ''close'' then Fin 10
     else if c = ''EMA50'' then Fin 9 else if c = ''EMA200'' then Fin 8 else if c = ''RSI'' then Fin 65 else atr)"

definition sample_frame :: frame where
  "sample_frame = \<lparr>fr_columns = [''high'', ''low'', ''close'', ''EMA50'', ''EMA200'', ''RSI'', ''ATR''],
     fr_rows = [sample_row (Fin 2), sample_row (Fin 4)]\<rparr>"

definition sample_mean :: "pyfloat list \<Rightarrow> pyfloat" where
  "sample_mean xs = Fin 3"

definition sample_features :: intelligence where
  "sample_features = \<lparr>in_trend = Some ''BULLISH'', in_momentum = Some ''STRONG'', in_volatility = Some ''HIGH'',
     in_liquidity = None, in_regime = None, in_confidence = Some 80, in_indicators = no_indicators\<rparr>"

lemma sample_last: "last_row sample_frame = Inr (sample_row (Fin 4))"
  by (simp add: last_row_def sample_frame_def)

lemma sample_aliases: "alias_map sample_frame = COLUMN_ALIASES"
  by (simp add: sample_frame_def COLUMN_ALIASES_def)

lemma sample_alias_columns:
  "fr_columns (alias_columns sample_frame) = [''high'', ''low'', ''close'', ''EMA_50'', ''EMA_200'', ''RSI_14'', ''ATR_14'']"
  by (simp add: alias_columns_def rename_columns_def sample_aliases) (simp add: renamed_def sample_frame_def COLUMN_ALIASES_def)

lemma sample_alias_row:
  "alias_row sample_frame (sample_row a) ''EMA_50'' = Fin 9" "alias_row sample_frame (sample_row a) ''EMA_200'' = Fin 8"
  "alias_row sample_frame (sample_row a) ''RSI_14'' = Fin 65" "alias_row sample_frame (sample_row a) ''ATR_14'' = a"
  unfolding sample_aliases by (simp_all add: renamed_def sample_frame_def COLUMN_ALIASES_def sample_row_def)

lemma sample_alias_last: "last_row (alias_columns sample_frame) = Inr (alias_row sample_frame (sample_row (Fin 4)))"
  by (simp add: last_row_def alias_columns_def rename_columns_def) (simp add: sample_frame_def)

lemma sample_analyze: "analyze_features sample_mean (alias_columns sample_frame) = Inr sample_features"
  by (simp only: analyze_features_def sample_alias_last cell_def sample_alias_columns sample_alias_row rbind.simps Let_def)
     (simp add: sample_mean_def sample_features_def)

lemma sample_regime: "detect_legacy_regime sample_frame = Inr ''TREND_UP''"
  by (simp only: detect_legacy_regime_def sample_last rbind.simps)
     (simp add: cell_def cell_get_def sample_frame_def sample_row_def greater_def py_all.simps(2) Let_def)

lemma sample_levels10:
  "plan_levels default_builder ''BUY'' (Fin 10) (Fin 4) = (Fin 4, Fin 22)" "actual_rr (Fin 10) (Fin 4) (Fin 22) = Inr (Fin 2)"
proof -
  have "fl (- 12) = Fin (- 12)" by (rule fl_dyadic [where m = "-12" and k = 0]) auto
  then show "plan_levels default_builder ''BUY'' (Fin 10) (Fin 4) = (Fin 4, Fin 22)" "actual_rr (Fin 10) (Fin 4) (Fin 22) = Inr (Fin 2)"
    by (simp_all add: plan_levels_def default_builder_def actual_rr_def Let_def minus_pyfloat_def)
qed

lemma sample_decides:
  assumes "in_trend i = Some ''BULLISH''" "in_momentum i = Some ''STRONG''" "in_confidence i = Some 80"
    "in_regime i = Some ''TRENDING''" "in_indicators i ''atr'' = Some (Some (Fin 4))"
  shows "\<exists>d. decide (make_strategy_engine None None) ''X'' i b (Fin 10) now = Inr d"
proof -
  have atr: "indicator i ''atr'' ''ATR'' ''ATR_14'' = Some (Fin 4)" using assms(5) by (simp add: indicator_def get_or_def)
  have raw: "sg_action (generate_signal i) = ''BUY''" "sg_confidence (generate_signal i) = 80"
    using generate_signal_action [OF assms(4,1,2)] generate_signal_confidence [of i] assms(3) by (simp_all add: get_or_def)
  have sig: "gated_signal (make_strategy_engine None None) (generate_signal i) = ''BUY''"
    by (simp add: gated_signal_def gate_closed_def raw)
  have builder: "se_builder (make_strategy_engine None None) = default_builder" by (simp add: make_strategy_engine_def get_or_def)
  have "\<exists>p. build default_builder ''X'' i sg (Fin 10) now = Inr p" if "sd_signal sg = Some ''BUY''" "sd_confidence sg = Some 80" for sg
    using that sample_levels10
    by (simp add: build_def Let_def atr plan_trade_def make_trade_plan_def market_plan_def get_or_def unusable_def)
       (simp add: default_builder_def base_plan_def get_or_def)
  then show ?thesis by (simp add: decide_def Let_def sig raw builder make_decision_def)
qed

lemma sample_assess: "\<exists>b. assess sample_frame i (Fin 1) (Fin 4) = Inr b"
proof -
  obtain cs where cs: "read_candles sample_frame (tail_rows 30 sample_frame) = Inr cs" "length cs = 2"
    by (simp add: tail_rows_def sample_frame_def cell_def)
  have "\<exists>q. fdiv (Fin 1) (Fin 4) = Inr q" by simp
  then obtain r where r: "classify_risk_conditions (Some (Fin 1)) (Some (Fin 4)) = Inr r"
    by (force simp: classify_risk_conditions_def simp del: fdiv.simps)
  have st: "classify_structure cs 20 = Inr ''UNKNOWN''" by (simp add: classify_structure_def cs)
  show ?thesis by (simp add: assess_def Let_def cs r st) (use confidence_total in blast)
qed

lemma sample_cells:
  "cell sample_frame (sample_row a) ''close'' = Inr (Fin 10)"
  "cell_get sample_frame (sample_row a) ''ATR'' ''ATR_14'' = Some a"
  "cell_get sample_frame (sample_row a) ''spread'' ''spread'' = None"
  "''ATR'' \<in> set (fr_columns sample_frame)"
  by (simp_all add: cell_def cell_get_def sample_frame_def sample_row_def)

lemma sample_evaluates:
  "\<exists>d. evaluate_strategy sample_mean (make_strategy_engine None None) sample_frame ''X'' None None None now = Inr d"
proof -
  let ?i = "enrich sample_frame (sample_row (Fin 4)) sample_features ''TRENDING'' (Fin 10) (Fin 1)"
  obtain b where b: "assess sample_frame ?i (Fin 1) (Fin 4) = Inr b" using sample_assess by blast
  have ind: "in_indicators ?i ''atr'' = Some (Some (Fin 4))"
    by (simp add: enrich_def sample_cells market_indicators_def get_or_def)
  obtain d where d: "decide (make_strategy_engine None None) ''X'' ?i b (Fin 10) now = Inr d"
    using sample_decides [of ?i, OF _ _ _ _ ind] by (auto simp: sample_features_def)
  show ?thesis
    using b d sample_cells(4)
    by (simp add: evaluate_strategy_def sample_analyze sample_last sample_cells sample_regime canonical_regimes Let_def get_or_def
        del: enrich_simps)
qed

theorem strategy_signal_iff_witness:
  "\<exists>d r ema50 ema200 rsi atr close.
     evaluate_strategy sample_mean (make_strategy_engine None None) sample_frame ''X'' None None None (Aware 0 0) = Inr d
     \<and> last_row sample_frame = Inr r \<and> indicators_of sample_frame r ema50 ema200 rsi atr
     \<and> cell sample_frame r ''close'' = Inr close
     \<and> dn_signal d = (if ema50 < close \<and> ema200 < ema50 \<and> Fin 60 < rsi \<and> sample_mean (atr_column sample_frame) < atr
                     then ''BUY'' else ''NO_TRADE'')"
proof -
  obtain d where d: "evaluate_strategy sample_mean (make_strategy_engine None None) sample_frame ''X'' None None None (Aware 0 0) = Inr d"
    using sample_evaluates by blast
  have agree: "\<forall>r \<in> set (fr_rows sample_frame). aliases_agree sample_frame r"
    by (simp add: aliases_agree_def sample_frame_def COLUMN_ALIASES_def)
  have own: "own_regime sample_frame None" by (simp add: own_regime_def)
  show ?thesis using strategy_signal_iff [OF d own agree] d by blast
qed

theorem strategy_signal_reaches_limits_witness:
  "\<exists>d. generate_trading_signal sample_mean (make_strategy_engine None None) sample_frame ''X'' None (Aware 0 0) = Inr d
     \<and> (if dn_signal d = ''NO_TRADE'' then no_trade_plan (dn_trade_plan d)
        else no_trade_plan (dn_trade_plan d) \<or> tp_signal (dn_trade_plan d) = dn_signal d)"
proof -
  obtain d where d: "generate_trading_signal sample_mean (make_strategy_engine None None) sample_frame ''X'' None (Aware 0 0) = Inr d"
    using sample_evaluates sample_cells(4) by (auto simp: generate_trading_signal_def)
  have e: "re_min_confidence (default_engine (Fin 2) 5) = MIN_CONFIDENCE"
    by (simp add: default_engine_def make_engine_def)
  show ?thesis
    using strategy_signal_reaches_limits [OF d e, of None "Fin 100" False] d by (auto split: if_splits)
qed

end
