(* ===== verification/Terminal_Audit.thy ===== *)
theory Terminal_Audit
  imports Trade_Plans Position_Ledger Intent_Store Safety_Store "HOL-Library.AList"
begin

text \<open>
  Continuous reconciliation of the broker's positions with the internal state
  (\<open>src/execution/continuous_reconciliation.py\<close>): the auditor, the service that trips the emergency
  stop and the monitoring loop. The broker is a function of an environment, the ledger, the intent
  store and the safety store are the models of their components.

  \<open>clean_audit_sound\<close> and \<open>matching_audit_clean\<close> bound what a clean audit means from both sides,
  \<open>breach_reaches_observers\<close> and \<open>loop_halts_at_breach\<close> show what follows a breach, and the last section
  two positions the audit misjudges.
\<close>

section \<open>Discrepancies and tracked trades\<close>

datatype discrepancy_type =
    UNTRACKED_BROKER_POSITION | EXTERNAL_MANUAL_TRADE | VOLUME_MISMATCH | SYMBOL_MISMATCH | SIDE_MISMATCH
  | PROTECTIVE_STOP_ALTERED | PHANTOM_INTERNAL_POSITION | BROKER_UNAVAILABLE | MALFORMED_BROKER_DATA

fun discrepancy_value :: "discrepancy_type \<Rightarrow> string" where
  "discrepancy_value UNTRACKED_BROKER_POSITION = ''UNTRACKED_BROKER_POSITION''"
| "discrepancy_value EXTERNAL_MANUAL_TRADE = ''EXTERNAL_MANUAL_TRADE''"
| "discrepancy_value VOLUME_MISMATCH = ''VOLUME_MISMATCH''"
| "discrepancy_value SYMBOL_MISMATCH = ''SYMBOL_MISMATCH''"
| "discrepancy_value SIDE_MISMATCH = ''SIDE_MISMATCH''"
| "discrepancy_value PROTECTIVE_STOP_ALTERED = ''PROTECTIVE_STOP_ALTERED''"
| "discrepancy_value PHANTOM_INTERNAL_POSITION = ''PHANTOM_INTERNAL_POSITION''"
| "discrepancy_value BROKER_UNAVAILABLE = ''BROKER_UNAVAILABLE''"
| "discrepancy_value MALFORMED_BROKER_DATA = ''MALFORMED_BROKER_DATA''"

text \<open>The message, a text for operators put together from the other fields, is left out.\<close>

record discrepancy =
  dp_type :: discrepancy_type
  dp_symbol :: "string option"
  dp_position_id :: "string option"
  dp_broker_volume :: "pyfloat option"
  dp_internal_volume :: "pyfloat option"
  dp_detected_at :: pydatetime

definition plain_discrepancy :: "pydatetime \<Rightarrow> discrepancy_type \<Rightarrow> discrepancy" where
  "plain_discrepancy now kind = \<lparr>dp_type = kind, dp_symbol = None, dp_position_id = None, dp_broker_volume = None,
     dp_internal_volume = None, dp_detected_at = now\<rparr>"

record tracked_trade =
  tt_symbol :: string
  tt_side :: order_side
  tt_volume :: "pyfloat option"
  tt_position_id :: "string option"
  tt_order_id :: "string option"
  tt_stop_loss :: pyval
  tt_take_profit :: pyval
  tt_magic_number :: "int option"
  tt_source :: string

definition canonical_symbol :: "string \<Rightarrow> string" where
  "canonical_symbol s = py_upper (py_strip s)"

definition optional_number :: "pyfloat option \<Rightarrow> pyval" where
  "optional_number v = (case v of None \<Rightarrow> PyNone | Some x \<Rightarrow> PyFloat x)"

definition from_trade_plan ::
  "trade_plan \<Rightarrow> string option \<Rightarrow> string option \<Rightarrow> pyfloat option \<Rightarrow> int option \<Rightarrow> tracked_trade" where
  "from_trade_plan plan position_id order_id volume magic =
     \<lparr>tt_symbol = canonical_symbol (tp_symbol plan), tt_side = (if tp_signal plan = ''BUY'' then BUY else SELL),
      tt_volume = volume, tt_position_id = position_id, tt_order_id = order_id,
      tt_stop_loss = optional_number (tp_stop_loss plan), tt_take_profit = optional_number (tp_take_profit plan),
      tt_magic_number = magic, tt_source = ''trade_plan''\<rparr>"

definition from_intent_record :: "intent_record \<Rightarrow> tracked_trade option result" where
  "from_intent_record r =
     (case rec_symbol r of
        None \<Rightarrow> Inr None
      | Some symb \<Rightarrow>
          if rec_side r = NoSide then Inr None
          else rbind (case rec_side r of EnumSide s \<Rightarrow> Inr s | TextSide t \<Rightarrow> side_of_value t
                      | NoSide \<Rightarrow> Inl (ValueError [])) (\<lambda>side. Inr (Some
            \<lparr>tt_symbol = canonical_symbol symb, tt_side = side, tt_volume = map_option qty_value (rec_quantity r),
             tt_position_id = rec_order_id r, tt_order_id = rec_order_id r, tt_stop_loss = rec_stop_loss r,
             tt_take_profit = rec_take_profit r, tt_magic_number = None, tt_source = ''intent_record''\<rparr>)))"

definition from_ledger_entry :: "ledger_entry \<Rightarrow> order_side \<Rightarrow> pyfloat option \<Rightarrow> tracked_trade" where
  "from_ledger_entry e side volume =
     \<lparr>tt_symbol = canonical_symbol (le_symbol e), tt_side = side, tt_volume = volume,
      tt_position_id = Some (le_position_id e), tt_order_id = Some (le_order_id e), tt_stop_loss = PyNone,
      tt_take_profit = PyNone, tt_magic_number = None, tt_source = ''ledger_entry''\<rparr>"

section \<open>Gathering the internal state\<close>

text \<open>The two dictionaries: by position identifier in insertion order (\<open>AList.update\<close> keeps the place of a
  key that is written again), and by symbol.\<close>

record tracked_state =
  tk_map :: "(string \<times> tracked_trade) list"
  tk_by_symbol :: "string \<Rightarrow> tracked_trade list"

definition nothing_tracked :: tracked_state where
  "nothing_tracked = \<lparr>tk_map = [], tk_by_symbol = (\<lambda>_. [])\<rparr>"

definition add_tracked :: "tracked_trade \<Rightarrow> tracked_state \<Rightarrow> tracked_state" where
  "add_tracked t k =
     k\<lparr>tk_map := (case tt_position_id t of None \<Rightarrow> tk_map k | Some pid \<Rightarrow> AList.update pid t (tk_map k)),
       tk_by_symbol := (tk_by_symbol k)(tt_symbol t := tk_by_symbol k (tt_symbol t) @ [t])\<rparr>"

definition add_all :: "tracked_trade list \<Rightarrow> tracked_state \<Rightarrow> tracked_state" where
  "add_all ts k = fold add_tracked ts k"

text \<open>The records before one that raises have been added when the exception is caught.\<close>

fun add_intents :: "intent_record list \<Rightarrow> tracked_state \<Rightarrow> tracked_state" where
  "add_intents [] k = k"
| "add_intents (r # rs) k =
     (if rec_status r \<noteq> ACCEPTED then add_intents rs k
      else case from_intent_record r of
        Inl e \<Rightarrow> k
      | Inr None \<Rightarrow> add_intents rs k
      | Inr (Some t) \<Rightarrow> add_intents rs (add_tracked t k))"

record 'g auditor =
  au_get_positions :: "'g \<Rightarrow> raw_position list result \<times> 'g"
  au_broker :: string
  au_expected_magic_number :: "int option"

definition make_auditor :: "('g \<Rightarrow> raw_position list result \<times> 'g) \<Rightarrow> string \<Rightarrow> int option \<Rightarrow> 'g auditor" where
  "make_auditor get_positions broker magic =
     \<lparr>au_get_positions = get_positions, au_broker = py_lower (py_strip broker), au_expected_magic_number = magic\<rparr>"

record 'g audit_state =
  as_env :: 'g
  as_ledger :: "ledger_db option"
  as_intents :: "intent_db option"

definition read_ledger :: "string \<Rightarrow> 'g audit_state \<Rightarrow> tracked_trade list \<times> 'g audit_state" where
  "read_ledger broker s =
     (case as_ledger s of
        None \<Rightarrow> ([], s)
      | Some l \<Rightarrow> (case open_entries broker l of
          (Inl e, l) \<Rightarrow> ([], s\<lparr>as_ledger := Some l\<rparr>)
        | (Inr es, l) \<Rightarrow> (map (\<lambda>e. from_ledger_entry e BUY None) es, s\<lparr>as_ledger := Some l\<rparr>)))"

definition read_intents :: "tracked_state \<Rightarrow> 'g audit_state \<Rightarrow> tracked_state \<times> 'g audit_state" where
  "read_intents k s =
     (case as_intents s of
        None \<Rightarrow> (k, s)
      | Some d \<Rightarrow> (case list_unresolved d of
          (Inl e, d) \<Rightarrow> (k, s\<lparr>as_intents := Some d\<rparr>)
        | (Inr rs, d) \<Rightarrow> (add_intents rs k, s\<lparr>as_intents := Some d\<rparr>)))"

definition gather ::
  "string \<Rightarrow> trade_plan list option \<Rightarrow> tracked_trade list option \<Rightarrow> 'g audit_state \<Rightarrow> tracked_state \<times> 'g audit_state" where
  "gather broker active_plans explicit_tracked s =
     (let k = add_all (get_or [] explicit_tracked) nothing_tracked;
          k = add_all (map (\<lambda>p. from_trade_plan p None None None None) (get_or [] active_plans)) k in
      case read_ledger broker s of (entries, s) \<Rightarrow> read_intents (add_all entries k) s)"

section \<open>The audit\<close>

definition match_position ::
  "tracked_state \<Rightarrow> string set \<Rightarrow> string \<Rightarrow> string \<Rightarrow> tracked_trade option \<times> string set" where
  "match_position k matched pid symb =
     (case map_of (tk_map k) pid of
        Some t \<Rightarrow> (Some t, insert pid matched)
      | None \<Rightarrow>
          (case filter (\<lambda>t. case tt_position_id t of None \<Rightarrow> True | Some q \<Rightarrow> q \<notin> matched) (tk_by_symbol k symb) of
             [] \<Rightarrow> (None, matched)
           | t # _ \<Rightarrow> (Some t, case tt_position_id t of None \<Rightarrow> matched | Some q \<Rightarrow> insert q matched)))"

definition position_discrepancy :: "pydatetime \<Rightarrow> position \<Rightarrow> discrepancy_type \<Rightarrow> discrepancy" where
  "position_discrepancy now p kind = (plain_discrepancy now kind)
     \<lparr>dp_symbol := Some (canonical_symbol (pos_symbol p)), dp_position_id := Some (pos_position_id p)\<rparr>"

definition volume_differs :: "pyfloat \<Rightarrow> pyfloat \<Rightarrow> bool" where
  "volume_differs broker_volume tracked_volume \<longleftrightarrow> fl (1 / 10000) < \<bar>broker_volume - tracked_volume\<bar>"

definition check_matched :: "int option \<Rightarrow> pydatetime \<Rightarrow> position \<Rightarrow> tracked_trade \<Rightarrow> discrepancy list" where
  "check_matched magic now p t =
     (if canonical_symbol (pos_symbol p) \<noteq> tt_symbol t then [position_discrepancy now p SYMBOL_MISMATCH] else [])
     @ (if pos_side p \<noteq> tt_side t then [position_discrepancy now p SIDE_MISMATCH] else [])
     @ (case tt_volume t of
          None \<Rightarrow> []
        | Some v \<Rightarrow> if volume_differs (pos_volume p) v
            then [(position_discrepancy now p VOLUME_MISMATCH)
                    \<lparr>dp_broker_volume := Some (pos_volume p), dp_internal_volume := Some v\<rparr>] else [])
     @ (case (magic, pos_magic p) of
          (Some expected, Some m) \<Rightarrow> if m \<noteq> expected then [position_discrepancy now p EXTERNAL_MANUAL_TRADE] else []
        | _ \<Rightarrow> [])"

definition untracked :: "int option \<Rightarrow> pydatetime \<Rightarrow> position \<Rightarrow> discrepancy" where
  "untracked magic now p =
     (position_discrepancy now p (if magic \<noteq> None \<and> pos_magic p \<noteq> magic then EXTERNAL_MANUAL_TRADE
        else UNTRACKED_BROKER_POSITION))\<lparr>dp_broker_volume := Some (pos_volume p)\<rparr>"

fun audit_positions ::
  "int option \<Rightarrow> pydatetime \<Rightarrow> tracked_state \<Rightarrow> string set \<Rightarrow> position list \<Rightarrow> discrepancy list \<times> string set" where
  "audit_positions magic now k matched [] = ([], matched)"
| "audit_positions magic now k matched (p # ps) =
     (case match_position k matched (pos_position_id p) (canonical_symbol (pos_symbol p)) of (found, matched) \<Rightarrow>
      (case audit_positions magic now k matched ps of (ds, final) \<Rightarrow>
       ((case found of None \<Rightarrow> [untracked magic now p] | Some t \<Rightarrow> check_matched magic now p t) @ ds, final)))"

definition phantoms :: "pydatetime \<Rightarrow> tracked_state \<Rightarrow> string set \<Rightarrow> discrepancy list" where
  "phantoms now k matched =
     map (\<lambda>(pid, t). (plain_discrepancy now PHANTOM_INTERNAL_POSITION)
            \<lparr>dp_symbol := Some (tt_symbol t), dp_position_id := Some pid, dp_internal_volume := tt_volume t\<rparr>)
       (filter (\<lambda>(pid, t). pid \<notin> matched \<and> tt_position_id t \<noteq> None) (tk_map k))"

record audit_report =
  ar_reconciled_at :: pydatetime
  ar_broker :: string
  ar_is_clean :: bool
  ar_emergency_stop_tripped :: bool
  ar_discrepancies :: "discrepancy list"
  ar_broker_positions_count :: nat
  ar_tracked_positions_count :: nat
  ar_action_taken :: string

fun actual_positions :: "raw_position list \<Rightarrow> position list" where
  "actual_positions [] = []"
| "actual_positions (RawPosition p # ps) = p # actual_positions ps"
| "actual_positions (RawOther # ps) = actual_positions ps"

definition audit ::
  "'g auditor \<Rightarrow> pydatetime \<Rightarrow> trade_plan list option \<Rightarrow> tracked_trade list option \<Rightarrow> 'g audit_state
   \<Rightarrow> audit_report \<times> 'g audit_state" where
  "audit au now active_plans explicit_tracked s =
     (case au_get_positions au (as_env s) of
        (Inl e, g) \<Rightarrow>
          (\<lparr>ar_reconciled_at = now, ar_broker = au_broker au, ar_is_clean = False, ar_emergency_stop_tripped = False,
            ar_discrepancies = [plain_discrepancy now BROKER_UNAVAILABLE], ar_broker_positions_count = 0,
            ar_tracked_positions_count = 0, ar_action_taken = ''AUDIT_FAILED''\<rparr>, s\<lparr>as_env := g\<rparr>)
      | (Inr raw, g) \<Rightarrow>
          (case gather (au_broker au) active_plans explicit_tracked (s\<lparr>as_env := g\<rparr>) of (k, s) \<Rightarrow>
           let malformed_items = map (\<lambda>_. plain_discrepancy now MALFORMED_BROKER_DATA) (filter (\<lambda>r. r = RawOther) raw) in
           (case audit_positions (au_expected_magic_number au) now k {} (actual_positions raw) of (found, matched) \<Rightarrow>
            let discrepancies = malformed_items @ found @ phantoms now k matched; is_clean = (discrepancies = []) in
            (\<lparr>ar_reconciled_at = now, ar_broker = au_broker au, ar_is_clean = is_clean, ar_emergency_stop_tripped = False,
              ar_discrepancies = discrepancies, ar_broker_positions_count = length (actual_positions raw),
              ar_tracked_positions_count = length (tk_map k),
              ar_action_taken = (if is_clean then ''CLEAN'' else ''DISCREPANCIES_DETECTED'')\<rparr>, s))))"

section \<open>The circuit breaker\<close>

record service_settings =
  cfg_emergency_stop :: emergency_stop_state
  cfg_broker_execution_enabled :: bool

record 'g audit_service =
  sv_state :: "'g audit_state"
  sv_safety :: "safety_db option"
  sv_settings :: "service_settings option"
  sv_latched :: bool
  sv_last_report :: "audit_report option"
  sv_running :: bool

record 'g service_config =
  sc_auditor :: "'g auditor"
  sc_on_circuit_break :: "(audit_report \<Rightarrow> 'g \<Rightarrow> unit result \<times> 'g) option"
  sc_environment :: string

definition breach_snapshot :: "string \<Rightarrow> string \<Rightarrow> audit_report \<Rightarrow> safety_snapshot" where
  "breach_snapshot broker environment report =
     \<lparr>sf_observed_at = ar_reconciled_at report, sf_emergency_stop_state = STOP_ACTIVE, sf_execution_mode = DURABLE,
      sf_broker = broker, sf_environment = environment, sf_durable_executor_enabled = False,
      sf_daily_state_authority = AUTHORITATIVE, sf_unresolved_intent_count = int (length (ar_discrepancies report)),
      sf_unresolved_intent_blocked = True, sf_execution_authorization = EXEC_BLOCKED,
      sf_reason_codes = map (\<lambda>d. discrepancy_value (dp_type d)) (ar_discrepancies report), sf_schema_version = 1\<rparr>"

text \<open>Building and publishing the snapshot; any exception is logged.\<close>

definition publish_breach :: "string \<Rightarrow> string \<Rightarrow> audit_report \<Rightarrow> safety_db \<Rightarrow> safety_db" where
  "publish_breach broker environment report d =
     (case make_safety_snapshot (breach_snapshot broker environment report) of
        Inl e \<Rightarrow> d
      | Inr snapshot \<Rightarrow> snd (publish snapshot d))"

definition trip :: "'g service_config \<Rightarrow> audit_report \<Rightarrow> 'g audit_service \<Rightarrow> audit_report \<times> 'g audit_service" where
  "trip c report s =
     (let s = s\<lparr>sv_latched := True,
                sv_settings := map_option (\<lambda>x. x\<lparr>cfg_emergency_stop := STOP_ACTIVE, cfg_broker_execution_enabled := False\<rparr>)
                  (sv_settings s),
                sv_safety := map_option (publish_breach (au_broker (sc_auditor c)) (sc_environment c) report) (sv_safety s)\<rparr>;
          s = (case sc_on_circuit_break c of
                 None \<Rightarrow> s
               | Some f \<Rightarrow> s\<lparr>sv_state := (sv_state s)\<lparr>as_env := snd (f report (as_env (sv_state s)))\<rparr>\<rparr>);
          report = report\<lparr>ar_is_clean := False, ar_emergency_stop_tripped := True,
                     ar_action_taken := ''EMERGENCY_STOP_TRIPPED''\<rparr>
      in (report, s\<lparr>sv_last_report := Some report\<rparr>))"

definition reconcile_and_protect ::
  "'g service_config \<Rightarrow> pydatetime \<Rightarrow> trade_plan list option \<Rightarrow> tracked_trade list option \<Rightarrow> 'g audit_service
   \<Rightarrow> audit_report \<times> 'g audit_service" where
  "reconcile_and_protect c now active_plans explicit_tracked s =
     (case audit (sc_auditor c) now active_plans explicit_tracked (sv_state s) of (report, st) \<Rightarrow>
      let s = s\<lparr>sv_state := st, sv_last_report := Some report\<rparr> in
      if ar_is_clean report then (report, s) else trip c report s)"

text \<open>What happens around one iteration of the loop: \<open>stop()\<close> was called, the event is set, what the two
  providers return, the time of the audit, and whether the task is cancelled while it sleeps.\<close>

record loop_tick =
  lt_stop_called :: bool
  lt_stop_event :: bool
  lt_plans :: "trade_plan list option result"
  lt_tracked :: "tracked_trade list option result"
  lt_now :: pydatetime
  lt_cancelled :: bool

datatype loop_end = LoopRunning | LoopStopped | LoopTripped | LoopRaised py_exn

definition end_loop :: "loop_end \<Rightarrow> 'g audit_service \<Rightarrow> loop_end \<times> 'g audit_service" where
  "end_loop e s = (e, s\<lparr>sv_running := False\<rparr>)"

definition stop_service :: "'g audit_service \<Rightarrow> 'g audit_service" where
  "stop_service s = s\<lparr>sv_running := False\<rparr>"

text \<open>One iteration of \<open>run_loop\<close>; \<open>LoopRunning\<close> means that the next one follows.\<close>

definition loop_iteration :: "'g service_config \<Rightarrow> loop_tick \<Rightarrow> 'g audit_service \<Rightarrow> loop_end \<times> 'g audit_service" where
  "loop_iteration c t s =
     (let s = (if lt_stop_called t then stop_service s else s) in
      if \<not> sv_running s \<or> lt_stop_event t then end_loop LoopStopped s
      else case (lt_plans t, lt_tracked t) of
        (Inl e, _) \<Rightarrow> end_loop (LoopRaised e) s
      | (Inr plans, Inl e) \<Rightarrow> end_loop (LoopRaised e) s
      | (Inr plans, Inr tracked) \<Rightarrow>
          (case reconcile_and_protect c (lt_now t) plans tracked s of (report, s) \<Rightarrow>
           if ar_emergency_stop_tripped report then end_loop LoopTripped s
           else if lt_cancelled t then end_loop (LoopRaised (OtherException ''CancelledError'')) s
           else (LoopRunning, s)))"

fun iterate_loop :: "'g service_config \<Rightarrow> loop_tick list \<Rightarrow> 'g audit_service \<Rightarrow> loop_end \<times> 'g audit_service" where
  "iterate_loop c [] s = (LoopRunning, s)"
| "iterate_loop c (t # ts) s =
     (case loop_iteration c t s of (e, s) \<Rightarrow> if e = LoopRunning then iterate_loop c ts s else (e, s))"

definition run_loop :: "'g service_config \<Rightarrow> loop_tick list \<Rightarrow> 'g audit_service \<Rightarrow> loop_end \<times> 'g audit_service" where
  "run_loop c ts s = iterate_loop c ts (s\<lparr>sv_running := True\<rparr>)"

section \<open>The gathered state\<close>

definition all_tracked :: "(tracked_trade \<Rightarrow> bool) \<Rightarrow> tracked_state \<Rightarrow> bool" where
  "all_tracked P k \<longleftrightarrow> (\<forall>(pid, t) \<in> set (tk_map k). P t) \<and> (\<forall>symb. \<forall>t \<in> set (tk_by_symbol k symb). P t)"

definition tracked_wf :: "tracked_state \<Rightarrow> bool" where
  "tracked_wf k \<longleftrightarrow> distinct (map fst (tk_map k))
     \<and> (\<forall>(pid, t) \<in> set (tk_map k). tt_position_id t = Some pid \<and> t \<in> set (tk_by_symbol k (tt_symbol t)))
     \<and> (\<forall>symb. \<forall>t \<in> set (tk_by_symbol k symb). tt_symbol t = symb)"

lemma tracked_wfD:
  assumes "tracked_wf k"
  shows "map_of (tk_map k) pid = Some t \<Longrightarrow> t \<in> set (tk_by_symbol k (tt_symbol t))"
    and "t \<in> set (tk_by_symbol k symb) \<Longrightarrow> tt_symbol t = symb"
  using assms by (auto simp: tracked_wf_def dest: map_of_SomeD)

lemma set_AList_update: "x \<in> set (AList.update a b al) \<Longrightarrow> x = (a, b) \<or> x \<in> set al"
  by (induction al) (auto split: if_splits)

lemma tracked_wf_empty: "tracked_wf nothing_tracked"
  by (simp add: tracked_wf_def nothing_tracked_def)

lemma tracked_wf_add: "tracked_wf k \<Longrightarrow> tracked_wf (add_tracked t k)"
proof -
  assume wf: "tracked_wf k"
  have wf1: "(pid, x) \<in> set (tk_map k) \<Longrightarrow> tt_position_id x = Some pid \<and> x \<in> set (tk_by_symbol k (tt_symbol x))"
    and wf2: "x \<in> set (tk_by_symbol k symb) \<Longrightarrow> tt_symbol x = symb" for pid x symb
    using wf by (auto simp: tracked_wf_def)
  have entries: "x \<in> set (tk_map k) \<or> (\<exists>pid. x = (pid, t) \<and> tt_position_id t = Some pid)"
    if "x \<in> set (tk_map (add_tracked t k))" for x
    using that by (auto simp: add_tracked_def split: option.splits dest!: set_AList_update)
  have symbols: "set (tk_by_symbol (add_tracked t k) symb) = set (tk_by_symbol k symb) \<union> (if symb = tt_symbol t then {t} else {})"
    for symb by (simp add: add_tracked_def)
  have "distinct (map fst (tk_map (add_tracked t k)))"
    using wf by (simp add: tracked_wf_def add_tracked_def distinct_update split: option.splits)
  moreover have "tt_position_id x = Some pid \<and> x \<in> set (tk_by_symbol (add_tracked t k) (tt_symbol x))"
    if "(pid, x) \<in> set (tk_map (add_tracked t k))" for pid x
    using entries [OF that] wf1 [of pid x] by (auto simp: symbols)
  moreover have "tt_symbol x = symb" if "x \<in> set (tk_by_symbol (add_tracked t k) symb)" for x symb
    using that wf2 [of x symb] by (auto simp: symbols split: if_splits)
  ultimately show ?thesis unfolding tracked_wf_def by blast
qed

lemma all_tracked_add: "P t \<Longrightarrow> all_tracked P k \<Longrightarrow> all_tracked P (add_tracked t k)"
  unfolding all_tracked_def add_tracked_def by (auto split: option.splits dest!: set_AList_update)

lemma all_tracked_empty: "all_tracked P nothing_tracked"
  by (simp add: all_tracked_def nothing_tracked_def)

lemma tracked_wf_add_all: "tracked_wf k \<Longrightarrow> tracked_wf (add_all ts k)"
  unfolding add_all_def by (induction ts arbitrary: k) (auto intro: tracked_wf_add)

lemma all_tracked_add_all: "\<forall>t \<in> set ts. P t \<Longrightarrow> all_tracked P k \<Longrightarrow> all_tracked P (add_all ts k)"
  unfolding add_all_def by (induction ts arbitrary: k) (auto intro: all_tracked_add)

text \<open>Only unresolved records are listed, and an accepted record is not unresolved: the intent store never
  contributes a tracked trade.\<close>

lemma add_intents_unresolved: "\<forall>r \<in> set rs. unresolved (rec_status r) \<Longrightarrow> add_intents rs k = k"
  by (induction rs) (auto simp: unresolved_def)

lemma list_unresolved_unresolved: "list_unresolved d = (Inr rs, d') \<Longrightarrow> \<forall>r \<in> set rs. unresolved (rec_status r)"
  by (auto simp: list_unresolved_def with_connection_def split: if_splits prod.splits list.splits)

lemma read_intents_nothing: "fst (read_intents k s) = k"
  using list_unresolved_unresolved add_intents_unresolved
  by (fastforce simp: read_intents_def split: option.splits prod.splits sum.splits)

lemma gather_sources:
  "fst (gather broker plans explicit s) = add_all (fst (read_ledger broker s))
     (add_all (map (\<lambda>p. from_trade_plan p None None None None) (get_or [] plans))
       (add_all (get_or [] explicit) nothing_tracked))"
  by (simp add: gather_def Let_def read_intents_nothing split: prod.splits)

lemma gather_wf: "tracked_wf (fst (gather broker plans explicit s))"
  unfolding gather_sources by (intro tracked_wf_add_all tracked_wf_empty)

lemma ledger_trades_buy: "t \<in> set (fst (read_ledger broker s)) \<Longrightarrow> tt_side t = BUY"
  by (auto simp: read_ledger_def from_ledger_entry_def split: option.splits prod.splits sum.splits)

section \<open>What a clean audit establishes\<close>

text \<open>A position agrees with a tracked trade.\<close>

definition agrees :: "int option \<Rightarrow> position \<Rightarrow> tracked_trade \<Rightarrow> bool" where
  "agrees magic p t \<longleftrightarrow> tt_symbol t = canonical_symbol (pos_symbol p) \<and> pos_side p = tt_side t
     \<and> (case tt_volume t of None \<Rightarrow> True | Some v \<Rightarrow> \<not> volume_differs (pos_volume p) v)
     \<and> (case (magic, pos_magic p) of (Some expected, Some m) \<Rightarrow> m = expected | _ \<Rightarrow> True)"

lemma check_matched_iff: "check_matched magic now p t = [] \<longleftrightarrow> agrees magic p t"
  by (auto simp: check_matched_def agrees_def split: option.splits)

lemma match_position_cases:
  assumes "match_position k M pid symb = (found, M')"
  obtains (by_id) t where "map_of (tk_map k) pid = Some t" "found = Some t" "M' = insert pid M"
  | (missing) "map_of (tk_map k) pid = None" "found = None" "M' = M"
  | (by_symbol) t where "map_of (tk_map k) pid = None" "found = Some t" "t \<in> set (tk_by_symbol k symb)"
      "M' = (case tt_position_id t of None \<Rightarrow> M | Some q \<Rightarrow> insert q M)"
proof (cases "map_of (tk_map k) pid")
  case (Some t)
  then show ?thesis using assms by_id [OF Some] by (simp add: match_position_def)
next
  case None
  show ?thesis
  proof (cases "filter (\<lambda>t. case tt_position_id t of None \<Rightarrow> True | Some q \<Rightarrow> q \<notin> M) (tk_by_symbol k symb)")
    case Nil
    then show ?thesis using assms None missing by (simp add: match_position_def)
  next
    case (Cons t ts)
    then have "t \<in> set (tk_by_symbol k symb)" by (metis filter_is_subset list.set_intros(1) subsetD)
    then show ?thesis using assms None Cons by (intro by_symbol [of t]) (simp_all add: match_position_def)
  qed
qed

definition claimed_by :: "tracked_state \<Rightarrow> position \<Rightarrow> string \<Rightarrow> bool" where
  "claimed_by k p pid \<longleftrightarrow> pos_position_id p = pid
     \<or> (\<exists>t \<in> set (tk_by_symbol k (canonical_symbol (pos_symbol p))). tt_position_id t = Some pid)"

lemma audit_positions_clean:
  assumes "tracked_wf k" "audit_positions magic now k M ps = ([], M')"
  shows "(\<forall>p \<in> set ps. \<exists>t \<in> set (tk_by_symbol k (canonical_symbol (pos_symbol p))). agrees magic p t)
    \<and> M' \<subseteq> M \<union> {pid. \<exists>p \<in> set ps. claimed_by k p pid}"
  using assms(2)
proof (induction ps arbitrary: M)
  case (Cons p ps)
  obtain found M1 where m: "match_position k M (pos_position_id p) (canonical_symbol (pos_symbol p)) = (found, M1)" by force
  obtain ds M2 where a: "audit_positions magic now k M1 ps = (ds, M2)" by force
  have none: "found \<noteq> None" "\<And>t. found = Some t \<Longrightarrow> agrees magic p t" "ds = []" "M2 = M'"
    using Cons.prems m a by (auto simp: check_matched_iff split: option.splits)
  note IH = Cons.IH [OF a [unfolded none(3,4)]]
  from m show ?case
  proof (cases rule: match_position_cases)
    case (by_id t)
    have "t \<in> set (tk_by_symbol k (canonical_symbol (pos_symbol p)))"
      using tracked_wfD(1) [OF assms(1) by_id(1)] none(2) [OF by_id(2)] by (simp add: agrees_def)
    then show ?thesis using IH none(2) [OF by_id(2)] by_id(3) by (auto simp: claimed_by_def)
  next
    case missing
    then show ?thesis using none(1) by simp
  next
    case (by_symbol t)
    then show ?thesis using IH none(2) by (auto simp: claimed_by_def split: option.splits)
  qed
qed simp

lemma audit_clean:
  assumes "audit au now plans explicit s = (report, s')" "ar_is_clean report"
  obtains raw g k M where "au_get_positions au (as_env s) = (Inr raw, g)" "RawOther \<notin> set raw"
    "gather (au_broker au) plans explicit (s\<lparr>as_env := g\<rparr>) = (k, s')"
    "audit_positions (au_expected_magic_number au) now k {} (actual_positions raw) = ([], M)" "phantoms now k M = []"
proof -
  have others: "filter (\<lambda>r. r = RawOther) raw = [] \<longleftrightarrow> RawOther \<notin> set raw" for raw by (induction raw) auto
  have "\<exists>raw g k M. au_get_positions au (as_env s) = (Inr raw, g) \<and> RawOther \<notin> set raw
    \<and> gather (au_broker au) plans explicit (s\<lparr>as_env := g\<rparr>) = (k, s')
    \<and> audit_positions (au_expected_magic_number au) now k {} (actual_positions raw) = ([], M) \<and> phantoms now k M = []"
    using assms unfolding audit_def Let_def
    by (auto simp: others split: prod.splits sum.splits)
  then show thesis using that by blast
qed


section \<open>When an audit is clean\<close>

lemma audit_positions_by_id:
  assumes "\<forall>p \<in> set ps. \<exists>t. map_of (tk_map k) (pos_position_id p) = Some t \<and> agrees magic p t"
  shows "audit_positions magic now k M ps = ([], M \<union> pos_position_id ` set ps)"
  using assms by (induction ps arbitrary: M) (auto simp: match_position_def check_matched_iff)

text \<open>The converse for identified trades: when the broker answers with positions only, each of them
  carries the identifier of a tracked trade it agrees with, and every tracked identifier is carried by
  a position, the audit is clean and trips nothing.\<close>

theorem matching_audit_clean:
  assumes "au_get_positions au (as_env s) = (Inr raw, g)" "RawOther \<notin> set raw"
    and "gather (au_broker au) plans explicit (s\<lparr>as_env := g\<rparr>) = (k, s')"
    and "\<forall>p \<in> set (actual_positions raw). \<exists>t. map_of (tk_map k) (pos_position_id p) = Some t
           \<and> agrees (au_expected_magic_number au) p t"
    and "fst ` set (tk_map k) \<subseteq> pos_position_id ` set (actual_positions raw)"
  shows "\<exists>report. audit au now plans explicit s = (report, s') \<and> ar_is_clean report \<and> ar_discrepancies report = []"
proof -
  have others: "filter (\<lambda>r. r = RawOther) raw = []" using assms(2) by (induction raw) auto
  have "phantoms now k (pos_position_id ` set (actual_positions raw)) = []"
    using assms(5) by (auto simp: phantoms_def filter_empty_conv)
  then show ?thesis
    by (simp add: audit_def Let_def assms(1,3) others audit_positions_by_id [OF assms(4)])
qed

section \<open>The circuit breaker\<close>

lemma trip_effect:
  assumes "trip c report s = (r, s')"
  shows "ar_emergency_stop_tripped r" "\<not> ar_is_clean r" "sv_latched s'" "sv_last_report s' = Some r"
    "sv_settings s' = map_option (\<lambda>x. x\<lparr>cfg_emergency_stop := STOP_ACTIVE, cfg_broker_execution_enabled := False\<rparr>) (sv_settings s)"
    "sv_safety s' = map_option (publish_breach (au_broker (sc_auditor c)) (sc_environment c) report) (sv_safety s)"
    "ar_discrepancies r = ar_discrepancies report" "sv_running s' = sv_running s"
  using assms by (auto simp: trip_def Let_def split: option.splits)

lemma audit_not_tripped: "audit au now plans explicit s = (r, s') \<Longrightarrow> \<not> ar_emergency_stop_tripped r \<and> ar_reconciled_at r = now"
  by (auto simp: audit_def Let_def split: prod.splits sum.splits)

lemma protect_cases:
  assumes "reconcile_and_protect c now plans explicit s = (r, s')"
  obtains (clean) st where "audit (sc_auditor c) now plans explicit (sv_state s) = (r, st)" "ar_is_clean r"
      "s' = s\<lparr>sv_state := st, sv_last_report := Some r\<rparr>" "\<not> ar_emergency_stop_tripped r"
  | (breach) report st where "audit (sc_auditor c) now plans explicit (sv_state s) = (report, st)" "\<not> ar_is_clean report"
      "trip c report (s\<lparr>sv_state := st, sv_last_report := Some report\<rparr>) = (r, s')"
  using assms by (auto simp: reconcile_and_protect_def Let_def dest: audit_not_tripped split: prod.splits if_splits)

definition halted :: "service_settings \<Rightarrow> bool" where
  "halted x \<longleftrightarrow> cfg_emergency_stop x = STOP_ACTIVE \<and> \<not> cfg_broker_execution_enabled x"

lemma protect_effect:
  assumes "reconcile_and_protect c now plans explicit s = (r, s')"
  shows "if ar_is_clean r
    then \<not> ar_emergency_stop_tripped r \<and> sv_latched s' = sv_latched s \<and> sv_settings s' = sv_settings s
         \<and> sv_safety s' = sv_safety s \<and> sv_running s' = sv_running s
    else ar_emergency_stop_tripped r \<and> sv_latched s' \<and> sv_last_report s' = Some r \<and> sv_running s' = sv_running s
         \<and> (case sv_settings s' of None \<Rightarrow> sv_settings s = None | Some x \<Rightarrow> halted x)"
  using assms
proof (cases rule: protect_cases)
  case clean
  then show ?thesis by simp
next
  case breach
  then show ?thesis using trip_effect [OF breach(3)] by (auto simp: halted_def split: option.splits)
qed

lemma discrepancy_value_text: "nonblank (discrepancy_value d) \<and> NEWLINE \<notin> set (discrepancy_value d)"
  by (cases d) (simp_all add: nonblank_def py_strip_def py_isspace_def NEWLINE_def)

lemma breach_snapshot_valid:
  assumes "tz_aware (ar_reconciled_at report)" "nonblank broker" "nonblank environment"
  shows "safety_valid (breach_snapshot broker environment report)"
  using assms discrepancy_value_text
  by (auto simp: safety_valid_def make_safety_snapshot_def breach_snapshot_def list_all_iff)

text \<open>C12. A breach is seen by every observer: when an audit is not clean, the service latches, its settings
  stop and disable execution, and an observer that then reads the execution-safety store finds the
  emergency stop active, execution blocked and the number of discrepancies. The store is open, its
  tables exist and it holds nothing malformed.\<close>

theorem breach_reaches_observers:
  assumes "reconcile_and_protect c now plans explicit s = (r, s')" "\<not> ar_is_clean r"
    and "sv_safety s = Some d" "safety_readable d" "sd_tables d" "sd_outages d = []"
    and "tz_aware now" "nonblank (au_broker (sc_auditor c))" "nonblank (sc_environment c)"
    and "length (ar_discrepancies r) < 2 ^ 63"
  shows "sv_latched s' \<and> (case sv_settings s' of None \<Rightarrow> sv_settings s = None | Some x \<Rightarrow> halted x)
    \<and> (\<exists>d' snap. sv_safety s' = Some d' \<and> fst (read_safety d') = Inr (Some snap)
        \<and> sf_emergency_stop_state snap = STOP_ACTIVE \<and> sf_execution_authorization snap = EXEC_BLOCKED
        \<and> sf_unresolved_intent_count snap = int (length (ar_discrepancies r)))"
  using assms(1)
proof (cases rule: protect_cases)
  case clean
  then show ?thesis using assms(2) by simp
next
  case (breach report st)
  note eff = trip_effect [OF breach(3)]
  let ?snap = "breach_snapshot (au_broker (sc_auditor c)) (sc_environment c) report"
  have valid: "safety_valid ?snap"
    using audit_not_tripped [OF breach(1)] assms(7-9) by (intro breach_snapshot_valid) auto
  then have make: "make_safety_snapshot ?snap = Inr ?snap" by (simp add: safety_valid_def)
  obtain d' where d': "publish ?snap d = (Inr (), d')" "sd_outages d' = []" "sd_file d'"
    using assms(4-6,10) eff(7)
    by (auto simp: publish_def safety_connection_def encode_safety_def breach_snapshot_def safety_readable_def sqlite_int_def)
  have "sv_safety s' = Some d'" using eff(6) assms(3) d'(1) by (simp add: publish_breach_def make)
  moreover have "safety_readable d'" using safety_register.put_wf [OF valid assms(4)] d'(1) by simp
  then have "fst (read_safety d') = Inr (Some (safety_utc ?snap))"
    using safety_register.put_sets [OF valid d'(1)] safety_register.get_returns [of d' _ "snd (read_safety d')"] d'(2,3)
    by (auto simp: read_safety_def safety_store_defs malformed_def safety_readable_def split: option.splits sum.splits)
  ultimately show ?thesis
    using eff(3,5,7) by (auto simp: halted_def safety_utc_def breach_snapshot_def split: option.splits)
qed

section \<open>The monitoring loop\<close>

lemma loop_iteration_cases:
  assumes "loop_iteration c t s = (e, s')"
  obtains (idle) "e \<noteq> LoopRunning" "e \<noteq> LoopTripped" "s' = s\<lparr>sv_running := False\<rparr>"
  | (audited) plans explicit r s1 where "reconcile_and_protect c (lt_now t) plans explicit s = (r, s1)"
      "e = LoopTripped \<longleftrightarrow> ar_emergency_stop_tripped r"
      "s' = (if e = LoopRunning then s1 else s1\<lparr>sv_running := False\<rparr>)"
  using assms
  by (auto simp: loop_iteration_def end_loop_def stop_service_def Let_def split: if_splits sum.splits prod.splits)

text \<open>C35. The monitoring loop halts exactly at a breach. If it ends because of a breach, the service is latched,
  its last report is a tripped one, its settings are stopped and the loop is over; and as long as it
  has not tripped, whatever else happened, the service is not latched and neither its settings nor the
  safety store have been touched. After it has ended, further ticks change nothing.\<close>

theorem loop_halts_at_breach:
  assumes "run_loop c ts s = (e, s')" "\<not> sv_latched s"
  shows "if e = LoopTripped
    then sv_latched s' \<and> \<not> sv_running s' \<and> (\<exists>r. sv_last_report s' = Some r \<and> ar_emergency_stop_tripped r)
         \<and> (case sv_settings s' of None \<Rightarrow> sv_settings s = None | Some x \<Rightarrow> halted x)
         \<and> run_loop c (ts @ more_ticks) s = (e, s')
    else \<not> sv_latched s' \<and> sv_settings s' = sv_settings s \<and> sv_safety s' = sv_safety s
         \<and> (e = LoopRunning \<or> \<not> sv_running s' \<and> run_loop c (ts @ more_ticks) s = (e, s'))"
proof -
  have "if e = LoopTripped
    then sv_latched s' \<and> \<not> sv_running s' \<and> (\<exists>r. sv_last_report s' = Some r \<and> ar_emergency_stop_tripped r)
         \<and> (case sv_settings s' of None \<Rightarrow> sv_settings s = None | Some x \<Rightarrow> halted x)
         \<and> iterate_loop c (ts @ more_ticks) s = (e, s')
    else \<not> sv_latched s' \<and> sv_settings s' = sv_settings s \<and> sv_safety s' = sv_safety s
         \<and> (e = LoopRunning \<or> \<not> sv_running s' \<and> iterate_loop c (ts @ more_ticks) s = (e, s'))"
    if "iterate_loop c ts s = (e, s')" "\<not> sv_latched s" for s
    using that
  proof (induction ts arbitrary: s)
    case (Cons t ts)
    obtain e1 s1 where it: "loop_iteration c t s = (e1, s1)" by force
    show ?case
    proof (cases "e1 = LoopRunning")
      case False
      then have end': "e = e1" "s' = s1" "iterate_loop c ((t # ts) @ more_ticks) s = (e, s')" using Cons.prems it by auto
      from it show ?thesis
      proof (cases rule: loop_iteration_cases)
        case idle
        then show ?thesis using end' Cons.prems(2) False by simp
      next
        case (audited plans explicit r s2)
        then show ?thesis
          using protect_effect [OF audited(1)] end' Cons.prems(2) False by (auto split: if_splits)
      qed
    next
      case True
      then have next': "iterate_loop c ts s1 = (e, s')" using Cons.prems(1) it by simp
      from it show ?thesis
      proof (cases rule: loop_iteration_cases)
        case (audited plans explicit r s2)
        then have same: "\<not> sv_latched s1" "sv_settings s1 = sv_settings s" "sv_safety s1 = sv_safety s"
          using protect_effect [OF audited(1)] Cons.prems(2) True by (auto split: if_splits)
        show ?thesis using Cons.IH [OF next' same(1), unfolded same(2,3)] it True by simp
      qed (use True in simp)
    qed
  qed simp
  from this [of "s\<lparr>sv_running := True\<rparr>"] assms show ?thesis by (simp add: run_loop_def split: option.splits if_splits)
qed

section \<open>Positions the audit misjudges\<close>

lemma all_buy_tracked: "all_tracked (\<lambda>t. tt_side t = BUY) (fst (gather broker None None s))"
  unfolding gather_sources
  by (auto simp: get_or_def add_all_def ledger_trades_buy intro!: all_tracked_add_all [unfolded add_all_def] all_tracked_empty)

text \<open>The audit against the durable state alone rejects every short position: ledger entries are tracked
  as BUY whatever their side, and the intent store contributes nothing. So with no plans and no
  explicit trades passed in, any open SELL position trips the emergency stop, also one that the ledger
  records as a filled SELL.\<close>

theorem sell_position_always_trips:
  assumes "reconcile_and_protect c now None None s = (r, s')"
    and "au_get_positions (sc_auditor c) (as_env (sv_state s)) = (Inr raw, g)"
    and "p \<in> set (actual_positions raw)" "pos_side p = SELL"
  shows "\<not> ar_is_clean r \<and> ar_emergency_stop_tripped r \<and> sv_latched s'"
  using assms(1)
proof (cases rule: protect_cases)
  case (clean st)
  obtain raw' g' k M where a: "au_get_positions (sc_auditor c) (as_env (sv_state s)) = (Inr raw', g')"
    "gather (au_broker (sc_auditor c)) None None ((sv_state s)\<lparr>as_env := g'\<rparr>) = (k, st)"
    "audit_positions (au_expected_magic_number (sc_auditor c)) now k {} (actual_positions raw') = ([], M)"
    using audit_clean [OF clean(1,2)] by metis
  have k: "k = fst (gather (au_broker (sc_auditor c)) None None ((sv_state s)\<lparr>as_env := g'\<rparr>))" using a(2) by simp
  have "tracked_wf k" unfolding k by (rule gather_wf)
  note agree = audit_positions_clean [OF this a(3)]
  obtain t where "t \<in> set (tk_by_symbol k (canonical_symbol (pos_symbol p)))" "pos_side p = tt_side t"
    using agree a(1) assms(2,3) by (auto simp: agrees_def)
  moreover have "all_tracked (\<lambda>t. tt_side t = BUY) k" unfolding k by (rule all_buy_tracked)
  ultimately show ?thesis using assms(4) by (auto simp: all_tracked_def)
next
  case breach
  then show ?thesis using trip_effect [OF breach(3)] by simp
qed

section \<open>Concrete audits\<close>

definition sample_position :: "string \<Rightarrow> order_side \<Rightarrow> position" where
  "sample_position pid side = \<lparr>pos_position_id = pid, pos_symbol = ''X'', pos_side = side, pos_volume = Fin 1,
     pos_open_price = Fin 10, pos_current_price = None, pos_profit = None, pos_stop_loss = None, pos_take_profit = None,
     pos_opened_at = None, pos_transaction_id = None, pos_contract_type = None, pos_magic = None, pos_comment = None\<rparr>"

definition sample_trade :: tracked_trade where
  "sample_trade = \<lparr>tt_symbol = ''X'', tt_side = BUY, tt_volume = Some (Fin 1), tt_position_id = Some ''1'',
     tt_order_id = None, tt_stop_loss = PyNone, tt_take_profit = PyNone, tt_magic_number = None, tt_source = ''internal''\<rparr>"

definition sample_auditor :: "raw_position list \<Rightarrow> unit auditor" where
  "sample_auditor raw = make_auditor (\<lambda>g. (Inr raw, g)) ''weltrade'' None"

definition bare_state :: "unit audit_state" where
  "bare_state = \<lparr>as_env = (), as_ledger = None, as_intents = None\<rparr>"

definition sample_tracked :: tracked_state where
  "sample_tracked = add_tracked sample_trade nothing_tracked"

lemma sample_canonical: "canonical_symbol ''X'' = ''X''"
  by (simp add: canonical_symbol_def py_strip_def py_isspace_def py_upper_def)

lemma sample_gather:
  "gather broker None (Some [sample_trade]) bare_state = (sample_tracked, bare_state)"
  by (simp add: gather_def get_or_def add_all_def read_ledger_def read_intents_def bare_state_def sample_tracked_def)

lemma sample_trade_simps [simp]: "tt_position_id sample_trade = Some ''1''" "tt_symbol sample_trade = ''X''"
  by (simp_all add: sample_trade_def)

lemma sample_position_simps [simp]: "pos_position_id (sample_position pid side) = pid" "pos_symbol (sample_position pid side) = ''X''"
  "pos_side (sample_position pid side) = side"
  by (simp_all add: sample_position_def)

lemma sample_tables: "tk_map sample_tracked = [(''1'', sample_trade)]" "tk_by_symbol sample_tracked ''X'' = [sample_trade]"
  by (simp_all add: sample_tracked_def add_tracked_def nothing_tracked_def)

lemma sample_by_id: "map_of (tk_map sample_tracked) ''1'' = Some sample_trade" "fst ` set (tk_map sample_tracked) = {''1''}"
  by (simp_all add: sample_tables)

lemma same_volume: "\<not> volume_differs (Fin 1) (Fin 1)"
  by (simp add: volume_differs_def minus_pyfloat_def pyfloat_not_less fl_nonneg)

lemma sample_agrees: "agrees magic (sample_position pid BUY) sample_trade"
  by (simp add: agrees_def sample_position_def sample_trade_def sample_canonical same_volume split: option.splits)

lemma sample_env: "bare_state\<lparr>as_env := ()\<rparr> = bare_state"
  by (simp add: bare_state_def)

theorem matching_audit_clean_witness:
  "\<exists>report. audit (sample_auditor [RawPosition (sample_position ''1'' BUY)]) (Aware 0 0) None (Some [sample_trade]) bare_state
     = (report, bare_state) \<and> ar_is_clean report \<and> ar_discrepancies report = []"
  by (rule matching_audit_clean [where g = "()" and k = sample_tracked and raw = "[RawPosition (sample_position ''1'' BUY)]"])
     (simp_all add: sample_auditor_def make_auditor_def sample_env sample_gather sample_by_id sample_agrees)

text \<open>The fallback by symbol also takes trades that have a position identifier: the tracked position 1 is gone
  and another position on the symbol is open, and the audit is clean.\<close>

lemma replaced_position_passes:
  "\<exists>report. audit (sample_auditor [RawPosition (sample_position ''2'' BUY)]) (Aware 0 0) None (Some [sample_trade]) bare_state
     = (report, bare_state) \<and> ar_is_clean report"
proof -
  let ?p = "sample_position ''2'' BUY"
  have m: "match_position sample_tracked {} (pos_position_id ?p) (canonical_symbol (pos_symbol ?p)) = (Some sample_trade, {''1''})"
    by (simp add: match_position_def sample_canonical sample_tables)
  have ph: "phantoms now sample_tracked {''1''} = []" for now
    by (simp add: phantoms_def sample_tables)
  have a: "audit_positions magic now sample_tracked {} [?p] = ([], {''1''})" for magic now
    unfolding audit_positions.simps m by (simp add: check_matched_iff sample_agrees)
  show ?thesis
    unfolding audit_def sample_auditor_def make_auditor_def
    by (simp add: sample_env sample_gather a ph del: audit_positions.simps)
qed


definition sample_service :: "unit audit_service" where
  "sample_service = \<lparr>sv_state = bare_state, sv_safety = Some (fresh_store), sv_settings = Some \<lparr>cfg_emergency_stop = STOP_CLEAR,
     cfg_broker_execution_enabled = True\<rparr>, sv_latched = False, sv_last_report = None, sv_running = False\<rparr>"

definition sample_config :: "raw_position list \<Rightarrow> unit service_config" where
  "sample_config raw = \<lparr>sc_auditor = sample_auditor raw, sc_on_circuit_break = None, sc_environment = ''demo''\<rparr>"

lemma sample_breach:
  assumes "reconcile_and_protect (sample_config [RawOther]) now None None sample_service = (r, s')"
  shows "\<not> ar_is_clean r" "length (ar_discrepancies r) = 1"
  using assms
  by (auto simp: reconcile_and_protect_def audit_def Let_def sample_config_def sample_service_def sample_auditor_def
      make_auditor_def gather_def get_or_def add_all_def read_ledger_def read_intents_def bare_state_def trip_def
      phantoms_def nothing_tracked_def)

lemma sample_config_simps [simp]:
  "au_broker (sc_auditor (sample_config raw)) = ''weltrade''" "sc_environment (sample_config raw) = ''demo''"
  "au_get_positions (sc_auditor (sample_config raw)) g = (Inr raw, g)"
  by (simp_all add: sample_config_def sample_auditor_def make_auditor_def py_lower_def py_strip_def py_isspace_def)

theorem breach_reaches_observers_witness:
  "\<exists>r s' d' snap. reconcile_and_protect (sample_config [RawOther]) (Aware 0 0) None None sample_service = (r, s')
     \<and> sv_latched s' \<and> sv_safety s' = Some d' \<and> fst (read_safety d') = Inr (Some snap)
     \<and> sf_emergency_stop_state snap = STOP_ACTIVE \<and> sf_execution_authorization snap = EXEC_BLOCKED"
proof -
  obtain r s' where r: "reconcile_and_protect (sample_config [RawOther]) (Aware 0 0) None None sample_service = (r, s')" by force
  note b = sample_breach [OF r]
  have "sv_safety sample_service = Some fresh_store" "safety_readable fresh_store" "sd_tables fresh_store" "sd_outages fresh_store = []"
    by (simp_all add: sample_service_def fresh_store_def safety_readable_def)
  from breach_reaches_observers [OF r b(1) this] b(2) r show ?thesis
    by (auto simp: nonblank_def py_strip_def py_isspace_def)
qed

definition sample_tick :: loop_tick where
  "sample_tick = \<lparr>lt_stop_called = False, lt_stop_event = False, lt_plans = Inr None, lt_tracked = Inr None,
     lt_now = Aware 0 0, lt_cancelled = False\<rparr>"

theorem loop_halts_at_breach_witness:
  "\<exists>e s'. run_loop (sample_config [RawOther]) [sample_tick] sample_service = (e, s')
     \<and> (if e = LoopTripped then sv_latched s' \<and> \<not> sv_running s' else \<not> sv_latched s')"
proof -
  obtain e s' where r: "run_loop (sample_config [RawOther]) [sample_tick] sample_service = (e, s')" by force
  have "\<not> sv_latched sample_service" by (simp add: sample_service_def)
  from loop_halts_at_breach [OF r this, of "[]"] r show ?thesis by (auto split: if_splits)
qed

text \<open>A filled SELL of the ledger whose position is open at the broker.\<close>

definition sell_entry :: ledger_entry where
  "sell_entry = (blank_entry ''weltrade'' ''X'' ''7'' ''7'' 5)\<lparr>le_side := Some ''SELL'', le_volume := Some (Fin 1)\<rparr>"

definition sell_service :: "unit audit_service" where
  "sell_service = sample_service\<lparr>sv_state := bare_state\<lparr>as_ledger := Some \<lparr>ldb_rows = [sell_entry], ldb_outages = []\<rparr>\<rparr>\<rparr>"

theorem sell_position_always_trips_witness:
  "\<exists>r s'. reconcile_and_protect (sample_config [RawPosition (sample_position ''7'' SELL)]) (Aware 0 0) None None sell_service = (r, s')
     \<and> sv_latched s'"
proof -
  obtain r s' where r: "reconcile_and_protect (sample_config [RawPosition (sample_position ''7'' SELL)]) (Aware 0 0) None None sell_service
      = (r, s')" by force
  have "\<not> ar_is_clean r \<and> ar_emergency_stop_tripped r \<and> sv_latched s'"
    by (rule sell_position_always_trips [OF r, where raw = "[RawPosition (sample_position ''7'' SELL)]" and g = "()"
          and p = "sample_position ''7'' SELL"]) simp_all
  then show ?thesis using r by blast
qed

end
