(* ===== verification/Paper_Contract.thy ===== *)
theory Paper_Contract
  imports Trade_Plans Simulation_Gateway Position_Sizing Executor
begin

text \<open>
  The offline paper venue, \<open>src/execution/paper_contract.py\<close>: the contract specification, proposals with
  their maximum loss, the contracts the engine opens, observes candle by candle and closes, and the gateway
  that turns an order of the executor into an open contract. The methods are functions on the engine that
  return a result and the engine as it is left; a Python dictionary is an association list in insertion order.

  \<open>paper_command\<close> lists what a caller can do to an engine, \<open>paper_step\<close> is its effect. The recorded closes are
  an \<open>order_book\<close> (the locale of \<open>Simulation_Gateway\<close>): entries are added and never changed. On that rest the
  properties: a close is final, the books agree in every reachable state, a stop without a gap realizes exactly
  the maximum loss of the proposal, and the gateway opens contracts only within the authorized risk.
\<close>

section \<open>Decimal operations\<close>

fun dec_plus :: "pydec \<Rightarrow> pydec \<Rightarrow> pydec result" where
  "dec_plus DecNaN y = Inr DecNaN"
| "dec_plus x DecNaN = Inr DecNaN"
| "dec_plus (Dec a) (Dec b) = Inr (Dec (dec_round (a + b)))"
| "dec_plus (DecInf s) (Dec b) = Inr (DecInf s)"
| "dec_plus (Dec a) (DecInf s) = Inr (DecInf s)"
| "dec_plus (DecInf s) (DecInf t) = (if s = t then Inr (DecInf s) else Inl InvalidOperation)"

text \<open>\<open>a <= b\<close>; like every order comparison it raises on a NaN.\<close>

definition dec_le :: "pydec \<Rightarrow> pydec \<Rightarrow> bool result" where
  "dec_le x y = rbind (dec_less y x) (\<lambda>b. Inr (\<not> b))"

text \<open>\<open>a % b\<close> of finite decimals has the sign of \<open>a\<close>; a quotient of more than 28 digits and a zero divisor raise.\<close>

definition trunc_quotient :: "rat \<Rightarrow> int" where
  "trunc_quotient q = (if 0 \<le> q then \<lfloor>q\<rfloor> else \<lceil>q\<rceil>)"

fun dec_mod :: "pydec \<Rightarrow> pydec \<Rightarrow> pydec result" where
  "dec_mod DecNaN y = Inr DecNaN"
| "dec_mod x DecNaN = Inr DecNaN"
| "dec_mod (Dec a) (Dec b) =
     (if b = 0 then Inl InvalidOperation
      else let n = trunc_quotient (a / b) in
        if 10 ^ 28 \<le> \<bar>n\<bar> then Inl InvalidOperation else Inr (Dec (dec_round (a - of_int n * b))))"
| "dec_mod (DecInf s) y = Inl InvalidOperation"
| "dec_mod (Dec a) (DecInf s) = Inr (Dec (dec_round a))"

text \<open>\<open>Decimal(str(v))\<close> of a number; the text of any other value met here is not a number.\<close>

fun dec_of_pyval :: "pyval \<Rightarrow> pydec result" where
  "dec_of_pyval (PyInt i) = Inr (Dec (of_int i))"
| "dec_of_pyval (PyFloat x) = Inr (dec_of_float x)"
| "dec_of_pyval _ = Inl InvalidOperation"

section \<open>Specification\<close>

datatype lifecycle_state =
    SUBMISSION_UNKNOWN | PROPOSED | PURCHASED_OPEN | SELLABLE | CLOSE_REQUESTED | CONTRACT_CLOSED | EXPIRED | CANCELLED
  | CONTRACT_REJECTED | RECONCILIATION_MISMATCH | BROKER_STATE_UNAVAILABLE

datatype paper_exit_reason = EXIT_STOP_LOSS | EXIT_TAKE_PROFIT | EXIT_STRATEGY | EXIT_END_OF_TEST

definition money :: "string \<Rightarrow> bool \<Rightarrow> pydec \<Rightarrow> pydec result" where
  "money name nonnegative v =
     (case v of Dec q \<Rightarrow> if nonnegative \<and> q < 0 then Inl (ValueError (name @ '' must be a finite Decimal'')) else Inr v
      | _ \<Rightarrow> Inl (ValueError (name @ '' must be a finite Decimal'')))"

record paper_specification =
  pc_minimum_stake :: pydec
  pc_maximum_stake :: pydec
  pc_stake_increment :: pydec
  pc_fee_rate :: pydec
  pc_slippage :: pydec
  pc_quantity_basis :: string

definition default_paper_specification :: paper_specification where
  "default_paper_specification = \<lparr>pc_minimum_stake = Dec (1/100), pc_maximum_stake = Dec 1000000, pc_stake_increment = Dec (1/100),
     pc_fee_rate = Dec 0, pc_slippage = Dec 0, pc_quantity_basis = ''SIMULATION_STAKE''\<rparr>"

definition positive_money :: "string \<Rightarrow> pydec \<Rightarrow> unit result" where
  "positive_money name v = rbind (money name False v) (\<lambda>v. rbind (dec_le v (Dec 0)) (\<lambda>b.
     if b then Inl (ValueError (name @ '' must be positive'')) else Inr ()))"

definition make_paper_specification :: "paper_specification \<Rightarrow> paper_specification result" where
  "make_paper_specification s =
     rbind (positive_money ''minimum_stake'' (pc_minimum_stake s)) (\<lambda>_.
     rbind (positive_money ''maximum_stake'' (pc_maximum_stake s)) (\<lambda>_.
     rbind (positive_money ''stake_increment'' (pc_stake_increment s)) (\<lambda>_.
     rbind (money ''fee_rate'' True (pc_fee_rate s)) (\<lambda>_. rbind (money ''slippage'' True (pc_slippage s)) (\<lambda>_.
     rbind (dec_less (pc_maximum_stake s) (pc_minimum_stake s)) (\<lambda>b.
     if b then Inl (ValueError ''maximum stake cannot be below minimum'')
     else if pc_quantity_basis s \<noteq> ''SIMULATION_STAKE''
     then Inl (ValueError ''paper quantity basis must be SIMULATION_STAKE'') else Inr s))))))"

definition validate_stake :: "paper_specification \<Rightarrow> pydec \<Rightarrow> unit result" where
  "validate_stake s stake =
     rbind (money ''stake'' False stake) (\<lambda>_. rbind (dec_less stake (pc_minimum_stake s)) (\<lambda>low.
     if low then Inl (ValueError ''quantity below minimum_stake'')
     else rbind (dec_less (pc_maximum_stake s) stake) (\<lambda>high.
     if high then Inl (ValueError ''quantity above maximum_stake'')
     else rbind (dec_minus stake (pc_minimum_stake s)) (\<lambda>excess. rbind (dec_mod excess (pc_stake_increment s)) (\<lambda>r.
     if r \<noteq> Dec 0 then Inl (ValueError ''quantity does not align to stake_increment'') else Inr ())))))"

definition paper_fee :: "paper_specification \<Rightarrow> pydec \<Rightarrow> pydec \<Rightarrow> pydec result" where
  "paper_fee s price stake = rbind (dec_mult price stake) (\<lambda>p. dec_mult (dec_abs p) (pc_fee_rate s))"

section \<open>Proposals, positions and closes\<close>

text \<open>A side is a value: a member of \<open>OrderSide\<close>, or a text that equals one but is not identical to it.\<close>

record paper_proposal =
  pr_proposal_id :: string
  pr_idempotency_key :: string
  pr_symbol :: string
  pr_side :: pyval
  pr_stake :: pydec
  pr_entry :: pydec
  pr_stop_loss :: pydec
  pr_take_profit :: pydec
  pr_observation_closed_at :: pydatetime
  pr_maximum_loss :: pydec

record paper_position =
  pp_contract_id :: string
  pp_proposal_id :: string
  pp_idempotency_key :: string
  pp_symbol :: string
  pp_side :: pyval
  pp_stake :: pydec
  pp_entry :: pydec
  pp_stop_loss :: pydec
  pp_take_profit :: pydec
  pp_opened_at :: pydatetime
  pp_last_observed_at :: pydatetime
  pp_state :: lifecycle_state
  pp_close_requested :: bool

record paper_close =
  cl_contract_id :: string
  cl_close_id :: string
  cl_reason :: paper_exit_reason
  cl_exit_price :: pydec
  cl_closed_at :: pydatetime
  cl_gross_profit :: pydec
  cl_fees :: pydec
  cl_realized_profit :: pydec
  cl_state :: lifecycle_state

record paper_reconciliation =
  prc_state :: lifecycle_state
  prc_contract_id :: string
  prc_close_id :: "string option"
  prc_realized_profit :: "pydec option"

record paper_engine =
  pe_specification :: paper_specification
  pe_proposals :: "(string \<times> paper_proposal) list"
  pe_positions :: "(string \<times> paper_position) list"
  pe_closes :: "(string \<times> paper_close) list"

definition make_paper_engine :: "paper_specification option \<Rightarrow> paper_engine" where
  "make_paper_engine s = \<lparr>pe_specification = (case s of None \<Rightarrow> default_paper_specification | Some x \<Rightarrow> x),
     pe_proposals = [], pe_positions = [], pe_closes = []\<rparr>"

definition get_item :: "string \<Rightarrow> (string \<times> 'v) list \<Rightarrow> 'v result" where
  "get_item k d = (case map_of d k of None \<Rightarrow> Inl (KeyError k) | Some v \<Rightarrow> Inr v)"

definition paper_positions :: "paper_engine \<Rightarrow> paper_position list" where
  "paper_positions e = map snd (pe_positions e)"

definition get_position :: "paper_engine \<Rightarrow> string \<Rightarrow> paper_position result" where
  "get_position e contract_id = get_item contract_id (pe_positions e)"

definition paper_closes :: "paper_engine \<Rightarrow> paper_close list" where
  "paper_closes e = map snd (pe_closes e)"

definition maximum_loss_for :: "paper_engine \<Rightarrow> string \<Rightarrow> pydec result" where
  "maximum_loss_for e contract_id = rbind (get_item contract_id (pe_positions e)) (\<lambda>p.
     rbind (get_item (pp_idempotency_key p) (pe_proposals e)) (\<lambda>r. Inr (pr_maximum_loss r)))"

section \<open>Proposing\<close>

text \<open>Equality of proposals: sides compare as texts, times as instants.\<close>

definition same_proposal :: "paper_proposal \<Rightarrow> paper_proposal \<Rightarrow> bool" where
  "same_proposal p q \<longleftrightarrow> text_of (pr_side p) = text_of (pr_side q)
     \<and> instant (pr_observation_closed_at p) = instant (pr_observation_closed_at q)
     \<and> p\<lparr>pr_side := PyNone, pr_observation_closed_at := Aware 0 0\<rparr> = q\<lparr>pr_side := PyNone, pr_observation_closed_at := Aware 0 0\<rparr>"

definition check_paper_levels :: "pyval \<Rightarrow> pydec \<Rightarrow> pydec \<Rightarrow> pydec \<Rightarrow> unit result" where
  "check_paper_levels side stop_loss entry take_profit =
     (if side = PySide BUY then rbind (py_all [dec_less stop_loss entry, dec_less entry take_profit]) (\<lambda>ok.
        if ok then Inr () else Inl (ValueError ''BUY paper levels are invalid''))
      else if side = PySide SELL then rbind (py_all [dec_less take_profit entry, dec_less entry stop_loss]) (\<lambda>ok.
        if ok then Inr () else Inl (ValueError ''SELL paper levels are invalid''))
      else Inr ())"

text \<open>The price at which a stop or a target is filled.\<close>

definition slipped :: "paper_specification \<Rightarrow> pyval \<Rightarrow> pydec \<Rightarrow> pydec result" where
  "slipped s side price = (if side = PySide BUY then dec_minus price (pc_slippage s) else dec_plus price (pc_slippage s))"

definition maximum_loss :: "paper_specification \<Rightarrow> pyval \<Rightarrow> pydec \<Rightarrow> pydec \<Rightarrow> pydec \<Rightarrow> pydec result" where
  "maximum_loss s side stake entry stop_loss =
     rbind (slipped s side stop_loss) (\<lambda>slipped_stop. rbind (dec_minus entry slipped_stop) (\<lambda>distance.
     rbind (dec_mult (dec_abs distance) stake) (\<lambda>loss_at_stop.
     rbind (paper_fee s entry stake) (\<lambda>f1. rbind (paper_fee s slipped_stop stake) (\<lambda>f2. rbind (dec_plus f1 f2) (\<lambda>fees.
     dec_plus loss_at_stop fees))))))"

definition make_proposal ::
  "paper_specification \<Rightarrow> string \<Rightarrow> pyval \<Rightarrow> pydec \<Rightarrow> pydec \<Rightarrow> pydec \<Rightarrow> closed_market_observation \<Rightarrow> pydec option
   \<Rightarrow> paper_proposal result" where
  "make_proposal s key side stake stop_loss take_profit observation entry_price =
     rbind (validate_stake s stake) (\<lambda>_.
     rbind (case entry_price of None \<Rightarrow> Inr (dec_of_float (reference_price observation))
              | Some p \<Rightarrow> money ''entry_price'' False p) (\<lambda>entry.
     rbind (dec_le entry (Dec 0)) (\<lambda>nonpositive.
     if nonpositive then Inl (ValueError ''entry_price must be positive'')
     else rbind (check_paper_levels side stop_loss entry take_profit) (\<lambda>_.
     rbind (maximum_loss s side stake entry stop_loss) (\<lambda>loss. Inr
       \<lparr>pr_proposal_id = ''PAPER-P-'' @ key, pr_idempotency_key = key, pr_symbol = cmo_canonical_symbol observation,
        pr_side = side, pr_stake = stake, pr_entry = entry, pr_stop_loss = stop_loss, pr_take_profit = take_profit,
        pr_observation_closed_at = cmo_closed_at observation, pr_maximum_loss = loss\<rparr>)))))"

definition propose ::
  "string \<Rightarrow> pyval \<Rightarrow> pydec \<Rightarrow> pydec \<Rightarrow> pydec \<Rightarrow> closed_market_observation \<Rightarrow> pydec option \<Rightarrow> paper_engine
   \<Rightarrow> paper_proposal result \<times> paper_engine" where
  "propose key side stake stop_loss take_profit observation entry_price e =
     (case make_proposal (pe_specification e) key side stake stop_loss take_profit observation entry_price of
        Inl x \<Rightarrow> (Inl x, e)
      | Inr proposal \<Rightarrow>
          (case map_of (pe_proposals e) key of
             Some existing \<Rightarrow> if \<not> same_proposal existing proposal
               then (Inl (ValueError ''paper idempotency context mismatch''), e) else (Inr existing, e)
           | None \<Rightarrow> (Inr proposal, e\<lparr>pe_proposals := dict_set key proposal (pe_proposals e)\<rparr>)))"

text \<open>The check on the authorized risk that follows a proposal.\<close>

definition authorize_and_propose ::
  "execution_intent \<Rightarrow> execution_context \<Rightarrow> closed_market_observation \<Rightarrow> pydatetime \<Rightarrow> paper_engine
   \<Rightarrow> paper_proposal result \<times> paper_engine" where
  "authorize_and_propose intent context observation observed_at e =
     (case rbind (evaluate intent (Some context)) (\<lambda>decision.
        if \<not> dec_allowed decision then Inl (ValueError ''paper trade blocked'')
        else case (text_of (int_symbol intent), quantity_of_pyval (int_quantity intent), text_of (int_idempotency_key intent)) of
          (None, _, _) \<Rightarrow> Inl (AttributeError ''strip'')
        | (Some symb, q, key) \<Rightarrow>
            if py_upper (py_strip symb) \<noteq> py_upper (py_strip (cmo_canonical_symbol observation))
            then Inl (ValueError ''paper intent symbol does not match the closed observation'')
            else if \<not> is_closed_at observation observed_at then Inl (ValueError ''paper market observation is not closed'')
            else (case q of None \<Rightarrow> Inl (ValueError ''paper stake is missing'')
              | Some q \<Rightarrow> rbind (dec_of_pyval (int_stop_loss intent)) (\<lambda>stop. rbind (dec_of_pyval (int_take_profit intent)) (\<lambda>target.
                  Inr (get_or [] key, dec_of_float (qty_value q), stop, target))))) of
        Inl x \<Rightarrow> (Inl x, e)
      | Inr (key, stake, stop, target) \<Rightarrow>
          (case propose key (int_side intent) stake stop target observation None e of
             (Inl x, e) \<Rightarrow> (Inl x, e)
           | (Inr proposal, e) \<Rightarrow>
               (rbind (dec_of_pyval (int_entry intent)) (\<lambda>entry.
                if pr_entry proposal \<noteq> entry then Inl (ValueError ''intent entry is not bound to the closed observation'')
                else if int_authorized_risk_amount intent = PyNone
                then Inl (ValueError ''paper maximum loss exceeds authorized risk'')
                else rbind (dec_of_pyval (int_authorized_risk_amount intent)) (\<lambda>risk.
                rbind (dec_less risk (pr_maximum_loss proposal)) (\<lambda>over.
                if over then Inl (ValueError ''paper maximum loss exceeds authorized risk'') else Inr proposal))), e)))"

section \<open>Opening, observing and closing\<close>

definition paper_contract_id :: "string \<Rightarrow> string" where
  "paper_contract_id key = ''PAPER-C-'' @ key"

definition open_contract :: "paper_proposal \<Rightarrow> paper_engine \<Rightarrow> paper_position result \<times> paper_engine" where
  "open_contract p e =
     (let cid = paper_contract_id (pr_idempotency_key p) in
      if cid \<in> fst ` set (pe_positions e) then (Inl (ValueError ''paper contract is already open''), e)
      else let position =
          \<lparr>pp_contract_id = cid, pp_proposal_id = pr_proposal_id p, pp_idempotency_key = pr_idempotency_key p,
           pp_symbol = pr_symbol p, pp_side = pr_side p, pp_stake = pr_stake p, pp_entry = pr_entry p,
           pp_stop_loss = pr_stop_loss p, pp_take_profit = pr_take_profit p, pp_opened_at = pr_observation_closed_at p,
           pp_last_observed_at = pr_observation_closed_at p, pp_state = PURCHASED_OPEN, pp_close_requested = False\<rparr>
        in (Inr position, e\<lparr>pe_positions := dict_set cid position (pe_positions e)\<rparr>))"

definition request_close :: "string \<Rightarrow> paper_engine \<Rightarrow> paper_position result \<times> paper_engine" where
  "request_close cid e =
     (case get_item cid (pe_positions e) of
        Inl x \<Rightarrow> (Inl x, e)
      | Inr position \<Rightarrow>
          if cid \<in> fst ` set (pe_closes e) \<or> pp_close_requested position
          then (Inl (ValueError ''paper close is already requested or completed''), e)
          else let updated = position\<lparr>pp_close_requested := True, pp_state := CLOSE_REQUESTED\<rparr>
            in (Inr updated, e\<lparr>pe_positions := dict_set cid updated (pe_positions e)\<rparr>))"

text \<open>The first exit of a candle: the open beyond a level, then the stop, then the target.\<close>

definition paper_exit ::
  "paper_position \<Rightarrow> closed_market_observation \<Rightarrow> (paper_exit_reason \<times> pydec) option result" where
  "paper_exit p obs =
     (let opened = dec_of_float (cmo_open obs); high = dec_of_float (cmo_high obs); low = dec_of_float (cmo_low obs);
          stop = pp_stop_loss p; target = pp_take_profit p in
      if pp_side p = PySide BUY then
        rbind (dec_le opened stop) (\<lambda>b1. if b1 then Inr (Some (EXIT_STOP_LOSS, opened)) else
        rbind (dec_le target opened) (\<lambda>b2. if b2 then Inr (Some (EXIT_TAKE_PROFIT, opened)) else
        rbind (dec_le low stop) (\<lambda>b3. if b3 then Inr (Some (EXIT_STOP_LOSS, stop)) else
        rbind (dec_le target high) (\<lambda>b4. Inr (if b4 then Some (EXIT_TAKE_PROFIT, target) else None)))))
      else
        rbind (dec_le stop opened) (\<lambda>b1. if b1 then Inr (Some (EXIT_STOP_LOSS, opened)) else
        rbind (dec_le opened target) (\<lambda>b2. if b2 then Inr (Some (EXIT_TAKE_PROFIT, opened)) else
        rbind (dec_le stop high) (\<lambda>b3. if b3 then Inr (Some (EXIT_STOP_LOSS, stop)) else
        rbind (dec_le low target) (\<lambda>b4. Inr (if b4 then Some (EXIT_TAKE_PROFIT, target) else None))))))"

definition settle ::
  "paper_specification \<Rightarrow> string \<Rightarrow> paper_position \<Rightarrow> closed_market_observation \<Rightarrow> paper_exit_reason \<Rightarrow> pydec
   \<Rightarrow> paper_close result" where
  "settle s cid p obs reason level =
     rbind (slipped s (pp_side p) level) (\<lambda>price. rbind (dec_minus price (pp_entry p)) (\<lambda>move.
     rbind (dec_mult move (pp_stake p)) (\<lambda>signed.
     rbind (dec_mult signed (Dec (if pp_side p = PySide BUY then 1 else -1))) (\<lambda>gross.
     rbind (paper_fee s (pp_entry p) (pp_stake p)) (\<lambda>f1. rbind (paper_fee s price (pp_stake p)) (\<lambda>f2.
     rbind (dec_plus f1 f2) (\<lambda>fees. rbind (dec_minus gross fees) (\<lambda>realized. Inr
       \<lparr>cl_contract_id = cid, cl_close_id = ''PAPER-X-'' @ pp_idempotency_key p, cl_reason = reason,
        cl_exit_price = price, cl_closed_at = cmo_closed_at obs, cl_gross_profit = gross, cl_fees = fees,
        cl_realized_profit = realized, cl_state = CONTRACT_CLOSED\<rparr>))))))))"

definition check_observation :: "string \<Rightarrow> closed_market_observation \<Rightarrow> paper_engine \<Rightarrow> paper_position result" where
  "check_observation cid obs e =
     rbind (get_item cid (pe_positions e)) (\<lambda>position.
     if cid \<in> fst ` set (pe_closes e) then Inl (ValueError ''paper contract is already closed'')
     else if cmo_canonical_symbol obs \<noteq> pp_symbol position then Inl (ValueError ''paper observation symbol mismatch'')
     else if instant (cmo_closed_at obs) \<le> instant (pp_last_observed_at position)
     then Inl (ValueError ''paper observations must be strictly chronological'') else Inr position)"

definition exit_or_forced ::
  "bool \<Rightarrow> bool \<Rightarrow> closed_market_observation \<Rightarrow> (paper_exit_reason \<times> pydec) option \<Rightarrow> (paper_exit_reason \<times> pydec) option" where
  "exit_or_forced strategy_exit force_close obs found =
     (case found of Some x \<Rightarrow> Some x
      | None \<Rightarrow> if strategy_exit then Some (EXIT_STRATEGY, dec_of_float (cmo_close obs))
          else if force_close then Some (EXIT_END_OF_TEST, dec_of_float (cmo_close obs)) else None)"

definition observe_contract ::
  "string \<Rightarrow> closed_market_observation \<Rightarrow> bool \<Rightarrow> bool \<Rightarrow> paper_engine \<Rightarrow> paper_close option result \<times> paper_engine" where
  "observe_contract cid obs strategy_exit force_close e =
     (case rbind (check_observation cid obs e) (\<lambda>p. rbind (paper_exit p obs) (\<lambda>found.
        case exit_or_forced strategy_exit force_close obs found of
          None \<Rightarrow> Inr (p, None)
        | Some (reason, level) \<Rightarrow> rbind (settle (pe_specification e) cid p obs reason level) (\<lambda>c. Inr (p, Some c)))) of
        Inl x \<Rightarrow> (Inl x, e)
      | Inr (p, None) \<Rightarrow> (Inr None, e\<lparr>pe_positions := dict_set cid (p\<lparr>pp_last_observed_at := cmo_closed_at obs\<rparr>) (pe_positions e)\<rparr>)
      | Inr (p, Some c) \<Rightarrow> (Inr (Some c), e\<lparr>pe_closes := dict_set cid c (pe_closes e),
          pe_positions := dict_set cid (p\<lparr>pp_last_observed_at := cmo_closed_at obs, pp_close_requested := True,
            pp_state := CONTRACT_CLOSED\<rparr>) (pe_positions e)\<rparr>))"

text \<open>\<open>replay\<close>: the last observation of the list may be forced to close.\<close>

fun replay ::
  "string \<Rightarrow> closed_market_observation list \<Rightarrow> bool \<Rightarrow> paper_engine \<Rightarrow> paper_close option result \<times> paper_engine" where
  "replay cid [] force_close e = (Inr None, e)"
| "replay cid (obs # rest) force_close e =
     (case observe_contract cid obs False (force_close \<and> rest = []) e of
        (Inr None, e) \<Rightarrow> replay cid rest force_close e
      | ended \<Rightarrow> ended)"

definition paper_reconcile :: "paper_engine \<Rightarrow> string \<Rightarrow> paper_reconciliation" where
  "paper_reconcile e cid =
     (case map_of (pe_positions e) cid of
        None \<Rightarrow> \<lparr>prc_state = SUBMISSION_UNKNOWN, prc_contract_id = cid, prc_close_id = None, prc_realized_profit = None\<rparr>
      | Some p \<Rightarrow> (case map_of (pe_closes e) cid of
          Some c \<Rightarrow> \<lparr>prc_state = CONTRACT_CLOSED, prc_contract_id = cid, prc_close_id = Some (cl_close_id c),
                     prc_realized_profit = Some (cl_realized_profit c)\<rparr>
        | None \<Rightarrow> \<lparr>prc_state = pp_state p, prc_contract_id = cid, prc_close_id = None, prc_realized_profit = None\<rparr>))"

section \<open>Every history keeps the engine consistent\<close>

lemma dict_set_keys [simp]: "fst ` set (dict_set k v d) = insert k (fst ` set d)"
  by (force simp: dict_set_def)

lemma dict_set_distinct: "distinct (map fst d) \<Longrightarrow> distinct (map fst (dict_set k v d))"
proof -
  have "map fst (map (\<lambda>(k', v'). if k' = k then (k', v) else (k', v')) d) = map fst d" by (induction d) auto
  then show "distinct (map fst d) \<Longrightarrow> ?thesis" by (auto simp: dict_set_def simp del: map_map)
qed

lemma dict_set_entry: "(k', v') \<in> set (dict_set k v d) \<Longrightarrow> k' = k \<and> v' = v \<or> k' \<noteq> k \<and> (k', v') \<in> set d"
  by (auto simp: dict_set_def split: if_splits intro: rev_image_eqI)

lemma dict_update_map_of:
  "map_of (map (\<lambda>(k', v'). if k' = k then (k', v) else (k', v')) d) x
     = (if x = k \<and> k \<in> fst ` set d then Some v else map_of d x)"
proof (induction d)
  case (Cons a d)
  then show ?case by (cases a; cases "fst a = k"; cases "x = k"; simp)
qed simp

lemma dict_set_map_of [simp]: "map_of (dict_set k v d) = (map_of d)(k \<mapsto> v)"
proof (cases "k \<in> fst ` set d")
  case False
  then have "map_of d k = None" by (simp add: map_of_eq_None_iff)
  with False show ?thesis by (auto simp: dict_set_def map_add_def fun_eq_iff split: option.split)
qed (simp add: dict_set_def dict_update_map_of fun_eq_iff)

lemma dict_set_new: "k \<notin> fst ` set d \<Longrightarrow> dict_set k v d = d @ [(k, v)]"
  by (simp add: dict_set_def)

definition engine_inv :: "paper_engine \<Rightarrow> bool" where
  "engine_inv e \<longleftrightarrow> distinct (map fst (pe_positions e)) \<and> distinct (map fst (pe_closes e))
     \<and> (\<forall>(k, p) \<in> set (pe_positions e). pp_contract_id p = k \<and> k = paper_contract_id (pp_idempotency_key p)
          \<and> (pp_state p = CONTRACT_CLOSED \<longleftrightarrow> k \<in> fst ` set (pe_closes e))
          \<and> pp_state p \<in> {PURCHASED_OPEN, CLOSE_REQUESTED, CONTRACT_CLOSED})
     \<and> fst ` set (pe_closes e) \<subseteq> fst ` set (pe_positions e)
     \<and> (\<forall>(k, c) \<in> set (pe_closes e). cl_contract_id c = k)"

lemma engine_invI:
  assumes "engine_inv e" "pe_positions e' = dict_set k p (pe_positions e)" "pe_closes e' = pe_closes e"
    and "pp_contract_id p = k" "k = paper_contract_id (pp_idempotency_key p)"
    and "pp_state p \<in> {PURCHASED_OPEN, CLOSE_REQUESTED}" "k \<notin> fst ` set (pe_closes e)"
  shows "engine_inv e'"
  using assms unfolding engine_inv_def
  by (auto dest!: dict_set_entry simp: dict_set_distinct)

lemma engine_inv_close:
  assumes "engine_inv e" "pe_positions e' = dict_set k p (pe_positions e)" "pe_closes e' = dict_set k c (pe_closes e)"
    and "pp_contract_id p = k" "k = paper_contract_id (pp_idempotency_key p)" "pp_state p = CONTRACT_CLOSED"
    and "cl_contract_id c = k"
  shows "engine_inv e'"
  using assms unfolding engine_inv_def
  by (auto dest!: dict_set_entry simp: dict_set_distinct)

lemma engine_inv_entry:
  assumes "engine_inv e" "map_of (pe_positions e) k = Some p"
  shows "pp_contract_id p = k" "k = paper_contract_id (pp_idempotency_key p)"
    "pp_state p = CONTRACT_CLOSED \<longleftrightarrow> k \<in> fst ` set (pe_closes e)"
    "pp_state p \<in> {PURCHASED_OPEN, CLOSE_REQUESTED, CONTRACT_CLOSED}"
  using assms by (auto simp: engine_inv_def dest!: map_of_SomeD)

lemma get_item_Inr [simp]: "get_item k d = Inr v \<longleftrightarrow> map_of d k = Some v"
  by (simp add: get_item_def split: option.splits)

lemma propose_effect:
  assumes "propose key side stake stop target obs price e = (r, e')"
  shows "pe_positions e' = pe_positions e \<and> pe_closes e' = pe_closes e \<and> pe_specification e' = pe_specification e"
    and "map_of (pe_proposals e) k = Some q \<Longrightarrow> map_of (pe_proposals e') k = Some q"
    and "r = Inr p \<Longrightarrow> map_of (pe_proposals e') key = Some p"
  using assms by (auto simp: propose_def split: sum.splits option.splits if_splits)

lemma authorize_effect:
  assumes "authorize_and_propose intent ctx obs at_time e = (r, e')"
  shows "pe_positions e' = pe_positions e \<and> pe_closes e' = pe_closes e \<and> pe_specification e' = pe_specification e"
  using assms by (auto simp: authorize_and_propose_def split: sum.splits prod.splits dest!: propose_effect(1))

lemma open_effect:
  assumes "open_contract p e = (r, e')"
  obtains (refused) x where "r = Inl x" "e' = e"
  | (opened) q where "r = Inr q" "paper_contract_id (pr_idempotency_key p) \<notin> fst ` set (pe_positions e)"
      "e' = e\<lparr>pe_positions := pe_positions e @ [(paper_contract_id (pr_idempotency_key p), q)]\<rparr>"
      "pp_contract_id q = paper_contract_id (pr_idempotency_key p)" "pp_idempotency_key q = pr_idempotency_key p"
      "pp_state q = PURCHASED_OPEN" "pp_side q = pr_side p" "pp_stake q = pr_stake p" "pp_entry q = pr_entry p"
      "pp_stop_loss q = pr_stop_loss p" "pp_take_profit q = pr_take_profit p" "pp_symbol q = pr_symbol p"
      "pp_last_observed_at q = pr_observation_closed_at p"
proof (cases "paper_contract_id (pr_idempotency_key p) \<in> fst ` set (pe_positions e)")
  case True
  then show thesis using assms by (intro refused) (auto simp: open_contract_def)
next
  case False
  then obtain q where "r = Inr q" using assms by (auto simp: open_contract_def Let_def)
  with assms False show thesis by (intro opened [of q]) (auto simp: open_contract_def Let_def dict_set_new)
qed

lemma request_close_effect:
  assumes "request_close cid e = (r, e')"
  obtains (refused) x where "r = Inl x" "e' = e"
  | (requested) p where "map_of (pe_positions e) cid = Some p" "cid \<notin> fst ` set (pe_closes e)" "\<not> pp_close_requested p"
      "r = Inr (p\<lparr>pp_close_requested := True, pp_state := CLOSE_REQUESTED\<rparr>)"
      "e' = e\<lparr>pe_positions := dict_set cid (p\<lparr>pp_close_requested := True, pp_state := CLOSE_REQUESTED\<rparr>) (pe_positions e)\<rparr>"
proof (cases "get_item cid (pe_positions e)")
  case (Inl x)
  then show thesis using assms by (intro refused [of x]) (auto simp: request_close_def)
next
  case (Inr p)
  show thesis
  proof (cases "cid \<in> fst ` set (pe_closes e) \<or> pp_close_requested p")
    case True
    then show thesis using assms Inr by (intro refused) (auto simp: request_close_def)
  next
    case False
    then show thesis using assms Inr by (intro requested [of p]) (auto simp: request_close_def Let_def)
  qed
qed

lemma check_observation_Inr:
  "check_observation cid obs e = Inr p \<longleftrightarrow> map_of (pe_positions e) cid = Some p \<and> cid \<notin> fst ` set (pe_closes e)
     \<and> cmo_canonical_symbol obs = pp_symbol p \<and> instant (pp_last_observed_at p) < instant (cmo_closed_at obs)"
  by (cases "map_of (pe_positions e) cid") (auto simp: check_observation_def get_item_def)

lemma observe_effect:
  assumes "observe_contract cid obs strategy_exit force e = (r, e')"
  obtains (refused) x where "r = Inl x" "e' = e"
  | (held) p where "check_observation cid obs e = Inr p" "paper_exit p obs = Inr None" "\<not> strategy_exit" "\<not> force" "r = Inr None"
      "e' = e\<lparr>pe_positions := dict_set cid (p\<lparr>pp_last_observed_at := cmo_closed_at obs\<rparr>) (pe_positions e)\<rparr>"
  | (closed) p found reason level c where "check_observation cid obs e = Inr p" "paper_exit p obs = Inr found"
      "exit_or_forced strategy_exit force obs found = Some (reason, level)"
      "settle (pe_specification e) cid p obs reason level = Inr c" "r = Inr (Some c)"
      "e' = e\<lparr>pe_closes := dict_set cid c (pe_closes e), pe_positions := dict_set cid (p\<lparr>pp_last_observed_at := cmo_closed_at obs,
          pp_close_requested := True, pp_state := CONTRACT_CLOSED\<rparr>) (pe_positions e)\<rparr>"
proof (cases r)
  case (Inl x)
  then show thesis using assms by (intro refused) (auto simp: observe_contract_def split: sum.splits option.splits prod.splits)
next
  case (Inr c)
  then obtain p found where p: "check_observation cid obs e = Inr p" "paper_exit p obs = Inr found"
    using assms by (auto simp: observe_contract_def split: sum.splits)
  show thesis
  proof (cases "exit_or_forced strategy_exit force obs found")
    case None
    then show thesis using assms p Inr
      by (intro held [of p]) (auto simp: observe_contract_def exit_or_forced_def split: option.splits if_splits)
  next
    case (Some x)
    obtain reason level where x: "x = (reason, level)" by (cases x)
    with assms p Inr Some obtain q where "settle (pe_specification e) cid p obs reason level = Inr q"
      by (auto simp: observe_contract_def split: sum.splits)
    with assms p Inr Some x show thesis by (intro closed [of p found reason level q]) (auto simp: observe_contract_def)
  qed
qed

lemma settle_fields:
  assumes "settle s cid p obs reason level = Inr c"
  shows "cl_contract_id c = cid" "cl_reason c = reason" "cl_closed_at c = cmo_closed_at obs"
  using assms by (auto simp: settle_def)

section \<open>The execution gateway\<close>

record paper_gateway =
  pg_engine :: paper_engine
  pg_observation :: closed_market_observation
  pg_observed_at :: pydatetime
  pg_authorized_risk_amount :: pydec
  pg_entry_price :: "pydec option"

definition make_paper_gateway ::
  "paper_engine \<Rightarrow> closed_market_observation \<Rightarrow> pydatetime \<Rightarrow> pydec \<Rightarrow> pydec option \<Rightarrow> paper_gateway result" where
  "make_paper_gateway engine observation observed_at authorized entry_price =
     (if \<not> is_closed_at observation observed_at then Inl (ValueError ''paper market observation is not closed'')
      else rbind (money ''authorized_risk_amount'' True authorized) (\<lambda>risk. Inr
        \<lparr>pg_engine = engine, pg_observation = observation, pg_observed_at = observed_at,
         pg_authorized_risk_amount = risk, pg_entry_price = entry_price\<rparr>))"

text \<open>The constructors of \<open>Position\<close> and \<open>OrderResult\<close> convert the side to a member of \<open>OrderSide\<close>.\<close>

definition position_of_paper :: "paper_position \<Rightarrow> position result" where
  "position_of_paper p = rbind (side_of_pyval (pp_side p)) (\<lambda>side. Inr
     \<lparr>pos_position_id = pp_contract_id p, pos_symbol = pp_symbol p, pos_side = side,
      pos_volume = dec_to_float (pp_stake p), pos_open_price = dec_to_float (pp_entry p), pos_current_price = None,
      pos_profit = None, pos_stop_loss = Some (dec_to_float (pp_stop_loss p)),
      pos_take_profit = Some (dec_to_float (pp_take_profit p)), pos_opened_at = Some (pp_opened_at p),
      pos_transaction_id = None, pos_contract_type = None, pos_magic = None, pos_comment = None\<rparr>)"

fun positions_of_paper :: "paper_position list \<Rightarrow> position list result" where
  "positions_of_paper [] = Inr []"
| "positions_of_paper (p # ps) =
     (if pp_state p = CONTRACT_CLOSED then positions_of_paper ps
      else rbind (position_of_paper p) (\<lambda>x. rbind (positions_of_paper ps) (\<lambda>xs. Inr (x # xs))))"

definition paper_get_positions :: "paper_gateway \<Rightarrow> position list result" where
  "paper_get_positions g = positions_of_paper (paper_positions (pg_engine g))"

definition paper_fill :: "paper_position \<Rightarrow> order_result result" where
  "paper_fill p = rbind (side_of_pyval (pp_side p)) (\<lambda>side. Inr
     \<lparr>res_order_id = pp_contract_id p, res_status = FILLED, res_symbol = pp_symbol p, res_side = side,
      res_volume = dec_to_float (pp_stake p), res_filled_price = Some (dec_to_float (pp_entry p)),
      res_transaction_id = None\<rparr>)"

text \<open>An order without a target raises before anything is proposed, as does the text \<open>None\<close>.\<close>

definition paper_submit_order :: "order_request \<Rightarrow> paper_gateway \<Rightarrow> order_result result \<times> paper_gateway" where
  "paper_submit_order order g =
     (if py_upper (py_strip (req_symbol order)) \<noteq> py_upper (py_strip (cmo_canonical_symbol (pg_observation g)))
      then (Inl (ValueError ''paper order symbol does not match the closed observation''), g)
      else case req_take_profit order of
        None \<Rightarrow> (Inl InvalidOperation, g)
      | Some target \<Rightarrow>
          (case propose (get_or [] (req_idempotency_key order)) (PySide (req_side order))
              (dec_of_float (qty_value (req_quantity order))) (dec_of_float (req_stop_loss order)) (dec_of_float target)
              (pg_observation g) (pg_entry_price g) (pg_engine g) of
             (Inl x, e) \<Rightarrow> (Inl x, g\<lparr>pg_engine := e\<rparr>)
           | (Inr proposal, e) \<Rightarrow>
               (case dec_less (pg_authorized_risk_amount g) (pr_maximum_loss proposal) of
                  Inl x \<Rightarrow> (Inl x, g\<lparr>pg_engine := e\<rparr>)
                | Inr True \<Rightarrow> (Inl (ValueError ''paper maximum loss exceeds authorized risk''), g\<lparr>pg_engine := e\<rparr>)
                | Inr False \<Rightarrow>
                    (case open_contract proposal e of
                       (Inl x, e) \<Rightarrow> (Inl x, g\<lparr>pg_engine := e\<rparr>)
                     | (Inr position, e) \<Rightarrow> (paper_fill position, g\<lparr>pg_engine := e\<rparr>)))))"

section \<open>Commands\<close>

datatype paper_command =
    Propose string pyval pydec pydec pydec closed_market_observation "pydec option"
  | Authorize execution_intent execution_context closed_market_observation pydatetime
  | Open paper_proposal
  | RequestClose string
  | Observe string closed_market_observation bool bool
  | Replay string "closed_market_observation list" bool
  | Submit order_request closed_market_observation pydatetime pydec "pydec option"

fun paper_step :: "paper_command \<Rightarrow> paper_engine \<Rightarrow> paper_engine" where
  "paper_step (Propose key side stake stop target obs price) e = snd (propose key side stake stop target obs price e)"
| "paper_step (Authorize intent ctx obs at_time) e = snd (authorize_and_propose intent ctx obs at_time e)"
| "paper_step (Open p) e = snd (open_contract p e)"
| "paper_step (RequestClose cid) e = snd (request_close cid e)"
| "paper_step (Observe cid obs strategy_exit force) e = snd (observe_contract cid obs strategy_exit force e)"
| "paper_step (Replay cid obss force) e = snd (replay cid obss force e)"
| "paper_step (Submit order obs at_time risk price) e = (case make_paper_gateway e obs at_time risk price of
     Inl x \<Rightarrow> e | Inr g \<Rightarrow> pg_engine (snd (paper_submit_order order g)))"

text \<open>What every operation leaves: the specification, the terms of the open contracts, the recorded closes.\<close>

definition position_terms :: "paper_position \<Rightarrow> paper_position" where
  "position_terms p = p\<lparr>pp_last_observed_at := Aware 0 0, pp_state := PURCHASED_OPEN, pp_close_requested := False\<rparr>"

definition engine_terms :: "paper_engine \<Rightarrow> string \<Rightarrow> paper_position option" where
  "engine_terms e k = map_option position_terms (map_of (pe_positions e) k)"

definition keeps_books :: "paper_engine \<Rightarrow> paper_engine \<Rightarrow> bool" where
  "keeps_books e e' \<longleftrightarrow> pe_specification e' = pe_specification e \<and> engine_terms e \<subseteq>\<^sub>m engine_terms e'
     \<and> (engine_inv e \<longrightarrow> engine_inv e' \<and> (\<exists>added. pe_closes e' = pe_closes e @ added))"

lemma keeps_books_refl: "keeps_books e e"
  by (simp add: keeps_books_def)

lemma keeps_books_trans: "keeps_books e e' \<Longrightarrow> keeps_books e' e'' \<Longrightarrow> keeps_books e e''"
  unfolding keeps_books_def by (auto intro: map_le_trans)

lemma keeps_books_same:
  "pe_positions e' = pe_positions e \<and> pe_closes e' = pe_closes e \<and> pe_specification e' = pe_specification e
   \<Longrightarrow> keeps_books e e'"
  by (auto simp: keeps_books_def engine_inv_def engine_terms_def map_le_def)

lemma engine_terms_update:
  assumes "pe_positions e' = dict_set k q (pe_positions e)"
    and "\<And>p. map_of (pe_positions e) k = Some p \<Longrightarrow> position_terms q = position_terms p"
  shows "engine_terms e \<subseteq>\<^sub>m engine_terms e'"
  using assms by (auto simp: map_le_def engine_terms_def)

lemma keeps_books_open: "keeps_books e (snd (open_contract p e))"
proof -
  obtain r e' where o: "open_contract p e = (r, e')" by fastforce
  have "keeps_books e e'"
  proof (cases rule: open_effect [OF o, case_names refused opened])
    case refused
    then show "keeps_books e e'" by (simp add: keeps_books_refl)
  next
    case (opened q)
    let ?k = "paper_contract_id (pr_idempotency_key p)"
    have "engine_inv e \<Longrightarrow> engine_inv e'"
    proof (rule engine_invI [of e e' ?k q])
      show "pe_positions e' = dict_set ?k q (pe_positions e)" using opened by (simp add: dict_set_new)
      assume "engine_inv e"
      with opened(2) show "?k \<notin> fst ` set (pe_closes e)" by (auto simp: engine_inv_def)
    qed (use opened in auto)
    moreover have "engine_terms e \<subseteq>\<^sub>m engine_terms e'"
      by (rule engine_terms_update [of e' ?k q])
        (use opened(2,3) map_of_eq_None_iff [THEN iffD2, OF opened(2)] in \<open>auto simp: dict_set_new\<close>)
    ultimately show "keeps_books e e'" using opened by (simp add: keeps_books_def)
  qed
  then show ?thesis by (simp add: o)
qed

lemma keeps_books_request: "keeps_books e (snd (request_close cid e))"
proof -
  obtain r e' where o: "request_close cid e = (r, e')" by fastforce
  have "keeps_books e e'"
  proof (cases rule: request_close_effect [OF o, case_names refused requested])
    case refused
    then show "keeps_books e e'" by (simp add: keeps_books_refl)
  next
    case (requested p)
    let ?q = "p\<lparr>pp_close_requested := True, pp_state := CLOSE_REQUESTED\<rparr>"
    have "engine_inv e \<Longrightarrow> engine_inv e'"
      by (rule engine_invI [of e e' cid ?q]) (use requested engine_inv_entry [of e cid p] in auto)
    moreover have "engine_terms e \<subseteq>\<^sub>m engine_terms e'"
      by (rule engine_terms_update [of e' cid ?q]) (use requested in \<open>auto simp: position_terms_def\<close>)
    ultimately show "keeps_books e e'" using requested by (simp add: keeps_books_def)
  qed
  then show ?thesis by (simp add: o)
qed

lemma keeps_books_observe: "keeps_books e (snd (observe_contract cid obs strategy_exit force e))"
proof -
  obtain r e' where o: "observe_contract cid obs strategy_exit force e = (r, e')" by fastforce
  have "keeps_books e e'"
  proof (cases rule: observe_effect [OF o, case_names refused held closed])
    case refused
    then show "keeps_books e e'" by (simp add: keeps_books_refl)
  next
    case (held p)
    let ?q = "p\<lparr>pp_last_observed_at := cmo_closed_at obs\<rparr>"
    have p: "map_of (pe_positions e) cid = Some p" "cid \<notin> fst ` set (pe_closes e)"
      using held(1) by (auto simp: check_observation_Inr)
    have "engine_inv e \<Longrightarrow> engine_inv e'"
      by (rule engine_invI [of e e' cid ?q]) (use held p engine_inv_entry [of e cid p] in auto)
    moreover have "engine_terms e \<subseteq>\<^sub>m engine_terms e'"
      by (rule engine_terms_update [of e' cid ?q]) (use held p in \<open>auto simp: position_terms_def\<close>)
    ultimately show "keeps_books e e'" using held by (simp add: keeps_books_def)
  next
    case (closed p found reason level c)
    let ?q = "p\<lparr>pp_last_observed_at := cmo_closed_at obs, pp_close_requested := True, pp_state := CONTRACT_CLOSED\<rparr>"
    have p: "map_of (pe_positions e) cid = Some p" "cid \<notin> fst ` set (pe_closes e)"
      using closed(1) by (auto simp: check_observation_Inr)
    have "engine_inv e \<Longrightarrow> engine_inv e'"
      by (rule engine_inv_close [of e e' cid ?q c])
        (use closed p engine_inv_entry [of e cid p] settle_fields [OF closed(4)] in auto)
    moreover have "engine_terms e \<subseteq>\<^sub>m engine_terms e'"
      by (rule engine_terms_update [of e' cid ?q]) (use closed p in \<open>auto simp: position_terms_def\<close>)
    ultimately show "keeps_books e e'" using closed p by (simp add: keeps_books_def dict_set_new)
  qed
  then show ?thesis by (simp add: o)
qed

lemma keeps_books_replay: "keeps_books e (snd (replay cid obss force e))"
proof (induction obss arbitrary: e)
  case (Cons obs obss)
  obtain r e' where o: "observe_contract cid obs False (force \<and> obss = []) e = (r, e')" by fastforce
  have "keeps_books e e'" using keeps_books_observe [of e cid obs False "force \<and> obss = []"] by (simp add: o)
  moreover from Cons.IH [of e'] this have "keeps_books e (snd (replay cid obss force e'))" by (blast intro: keeps_books_trans)
  ultimately show ?case by (simp add: o split: sum.split option.split)
qed (simp add: keeps_books_refl)

lemma keeps_books_submit: "keeps_books (pg_engine g) (pg_engine (snd (paper_submit_order order g)))"
proof (cases "req_take_profit order")
  case (Some target)
  obtain r e where p: "propose (get_or [] (req_idempotency_key order)) (PySide (req_side order))
      (dec_of_float (qty_value (req_quantity order))) (dec_of_float (req_stop_loss order)) (dec_of_float target)
      (pg_observation g) (pg_entry_price g) (pg_engine g) = (r, e)" by fastforce
  have e: "keeps_books (pg_engine g) e" using propose_effect(1) [OF p] by (simp add: keeps_books_same)
  have "keeps_books (pg_engine g) (snd (open_contract q e))" for q
    using e keeps_books_open by (rule keeps_books_trans)
  then have "keeps_books (pg_engine g) e'" if "open_contract q e = (x, e')" for q x e'
    using that by (metis snd_conv)
  with e show ?thesis
    by (auto simp: paper_submit_order_def Some p keeps_books_refl split: sum.split prod.split bool.split)
qed (simp add: paper_submit_order_def keeps_books_refl)

lemma keeps_books_step: "keeps_books e (paper_step c e)"
proof (cases c)
  case (Propose key side stake stop target obs price)
  then show ?thesis using propose_effect(1) [of key side stake stop target obs price e]
    by (cases "propose key side stake stop target obs price e") (simp add: keeps_books_same)
next
  case (Authorize intent ctx obs at_time)
  then show ?thesis using authorize_effect [of intent ctx obs at_time e]
    by (cases "authorize_and_propose intent ctx obs at_time e") (simp add: keeps_books_same)
next
  case (Submit order obs at_time risk price)
  show ?thesis
  proof (cases "make_paper_gateway e obs at_time risk price")
    case (Inr g)
    then have "pg_engine g = e" by (auto simp: make_paper_gateway_def split: if_splits)
    with Submit Inr show ?thesis using keeps_books_submit [of g order] by simp
  qed (simp add: Submit keeps_books_refl)
qed (simp_all add: keeps_books_open keeps_books_request keeps_books_observe keeps_books_replay)

text \<open>The closes are an order book: an entry, once recorded, stays for ever.\<close>

interpretation paper_book: order_book paper_step engine_inv pe_closes
  using keeps_books_step by unfold_locales (auto simp: keeps_books_def engine_inv_def)

lemma keeps_books_run: "keeps_books e (fold paper_step cs e)"
  by (induction cs arbitrary: e) (auto intro: keeps_books_refl keeps_books_trans keeps_books_step)

lemma engine_inv_make: "engine_inv (make_paper_engine s)"
  by (simp add: engine_inv_def make_paper_engine_def)

section \<open>A close is final\<close>

lemma closed_entry:
  assumes "engine_inv e" "map_of (pe_closes e) cid = Some c"
  shows "paper_reconcile e cid = \<lparr>prc_state = CONTRACT_CLOSED, prc_contract_id = cid, prc_close_id = Some (cl_close_id c),
      prc_realized_profit = Some (cl_realized_profit c)\<rparr>"
    and "observe_contract cid obs strategy_exit force e = (Inl (ValueError ''paper contract is already closed''), e)"
    and "request_close cid e = (Inl (ValueError ''paper close is already requested or completed''), e)"
proof -
  have k: "cid \<in> fst ` set (pe_closes e)" using assms(2) by (metis map_of_eq_None_iff option.distinct(1))
  with assms(1) have "cid \<in> fst ` set (pe_positions e)" by (auto simp: engine_inv_def)
  then obtain p where p: "map_of (pe_positions e) cid = Some p" by (metis map_of_eq_None_iff not_None_eq)
  show "paper_reconcile e cid = \<lparr>prc_state = CONTRACT_CLOSED, prc_contract_id = cid, prc_close_id = Some (cl_close_id c),
      prc_realized_profit = Some (cl_realized_profit c)\<rparr>" using p assms(2) by (simp add: paper_reconcile_def)
  show "observe_contract cid obs strategy_exit force e = (Inl (ValueError ''paper contract is already closed''), e)"
    using p k by (simp add: observe_contract_def check_observation_def get_item_def)
  show "request_close cid e = (Inl (ValueError ''paper close is already requested or completed''), e)"
    using p k by (simp add: request_close_def get_item_def)
qed

lemma observe_close_recorded:
  assumes "observe_contract cid obs strategy_exit force e = (Inr (Some c), e')"
  shows "(cid, c) \<in> set (pe_closes e')"
  by (cases rule: observe_effect [OF assms, case_names refused held closed])
    (auto simp: check_observation_Inr dict_set_new)

text \<open>C29. A paper contract is closed at most once and for good: when observing a contract of an engine has
  returned a close, then after any further commands (proposals, orders, openings, close requests, observations
  and replays) reconciling the contract reports that close and its profit, and observing it or requesting its
  close again is refused and changes nothing.\<close>

theorem paper_close_final:
  assumes "observe_contract cid obs strategy_exit force (fold paper_step cs (make_paper_engine spec)) = (Inr (Some c), e)"
  shows "paper_reconcile (fold paper_step ds e) cid
      = \<lparr>prc_state = CONTRACT_CLOSED, prc_contract_id = cid, prc_close_id = Some (cl_close_id c),
         prc_realized_profit = Some (cl_realized_profit c)\<rparr>
    \<and> observe_contract cid obs' strategy_exit' force' (fold paper_step ds e)
      = (Inl (ValueError ''paper contract is already closed''), fold paper_step ds e)
    \<and> request_close cid (fold paper_step ds e)
      = (Inl (ValueError ''paper close is already requested or completed''), fold paper_step ds e)"
proof -
  have i: "engine_inv e"
    using paper_book.inv_run [OF engine_inv_make, of "cs @ [Observe cid obs strategy_exit force]" spec] assms by simp
  from paper_book.entry_stays [OF i observe_close_recorded [OF assms], of ds]
  show ?thesis by (intro conjI closed_entry [OF paper_book.inv_run [OF i]])
qed

text \<open>In every state that commands can bring the paper engine to, the books agree: a position is
  marked closed exactly when a close of its contract is recorded, every close belongs to an open position's
  contract, and the contract of a position is the one its idempotency key names.\<close>

theorem paper_books_agree:
  "let e = fold paper_step cs (make_paper_engine spec) in
     ((\<exists>p. map_of (pe_positions e) cid = Some p \<and> pp_state p = CONTRACT_CLOSED) \<longleftrightarrow> (\<exists>c. map_of (pe_closes e) cid = Some c))
     \<and> distinct (map fst (pe_positions e)) \<and> distinct (map fst (pe_closes e))
     \<and> map_option (\<lambda>p. paper_contract_id (pp_idempotency_key p)) (map_of (pe_positions e) cid)
       = map_option (\<lambda>p. cid) (map_of (pe_positions e) cid)"
proof -
  let ?e = "fold paper_step cs (make_paper_engine spec)"
  have i: "engine_inv ?e" by (rule paper_book.inv_run [OF engine_inv_make])
  have c: "cid \<in> fst ` set (pe_closes ?e) \<longleftrightarrow> (\<exists>c. map_of (pe_closes ?e) cid = Some c)"
    using map_of_eq_None_iff [of "pe_closes ?e" cid] by auto
  have "cid \<in> fst ` set (pe_closes ?e) \<Longrightarrow> \<exists>p. map_of (pe_positions ?e) cid = Some p"
    using i map_of_eq_None_iff [of "pe_positions ?e" cid] by (auto simp: engine_inv_def)
  with c i engine_inv_entry [OF i] show ?thesis
    by (cases "map_of (pe_positions ?e) cid") (auto simp: Let_def engine_inv_def)
qed

section \<open>The maximum loss\<close>

lemma dec_round_minus: "dec_round (- a) = - dec_round a"
  by (simp add: dec_round_def round_sig_minus)

text \<open>Settling at the level that the proposal reckoned its loss with.\<close>

lemma settle_at_stop:
  assumes loss: "maximum_loss s (PySide side) stake (Dec q) (Dec stop) = Inr m"
    and p: "pp_side p = PySide side" "pp_stake p = stake" "pp_entry p = Dec q"
    and slip: "pc_slippage s = Dec d" "0 \<le> d" "pc_fee_rate s = Dec f" "stake = Dec k"
    and level: "side = BUY \<and> stop \<le> q \<or> side = SELL \<and> q \<le> stop" and exact: "dec_round q = q"
  obtains n c where "m = Dec n" "settle s cid p obs reason (Dec stop) = Inr c" "cl_realized_profit c = Dec (- n)"
    "cl_reason c = reason"
proof -
  define t where "t = (if side = BUY then dec_round (stop - d) else dec_round (stop + d))"
  define dist where "dist = dec_round (q - t)"
  define fees where "fees = dec_round (dec_round (dec_round \<bar>dec_round (q * k)\<bar> * f) + dec_round (dec_round \<bar>dec_round (t * k)\<bar> * f))"
  have dist_side: "side = BUY \<Longrightarrow> 0 \<le> dist" "side = SELL \<Longrightarrow> dist \<le> 0"
  proof -
    assume "side = BUY"
    then have "t \<le> dec_round q" using level slip(2) by (simp add: t_def dec_round_mono)
    then show "0 \<le> dist" by (simp add: exact dist_def dec_round_nonneg)
  next
    assume "side = SELL"
    then have "dec_round q \<le> t" using level slip(2) by (simp add: t_def dec_round_mono)
    then show "dist \<le> 0" using dec_round_nonneg [of "t - q"] dec_round_minus [of "t - q"] by (simp add: exact dist_def)
  qed
  have slipped: "slipped s (PySide side) (Dec stop) = Inr (Dec t)" by (cases side) (simp_all add: slipped_def slip t_def)
  have m: "m = Dec (dec_round (dec_round (dec_round \<bar>dist\<bar> * k) + fees))"
    using loss by (simp add: maximum_loss_def slipped slip paper_fee_def fees_def dist_def)
  have "dec_round \<bar>dist\<bar> = \<bar>dist\<bar>" by (cases "0 \<le> dist") (simp_all add: dist_def dec_round_minus)
  with m have m: "m = Dec (dec_round (dec_round (\<bar>dist\<bar> * k) + fees))" by simp
  have move: "dec_round (t - q) = - dist" using dec_round_minus [of "q - t"] by (simp add: dist_def)
  have gross: "dec_round (dec_round (- dist * k) * (if PySide side = PySide BUY then 1 else - 1)) = - dec_round (\<bar>dist\<bar> * k)"
    using dist_side dec_round_minus [of "dist * k"] dec_round_minus [of "dec_round (dist * k)"] by (cases side) simp_all
  have "settle s cid p obs reason (Dec stop) = Inr
      \<lparr>cl_contract_id = cid, cl_close_id = ''PAPER-X-'' @ pp_idempotency_key p, cl_reason = reason,
       cl_exit_price = Dec t, cl_closed_at = cmo_closed_at obs,
       cl_gross_profit = Dec (- dec_round (\<bar>dist\<bar> * k)), cl_fees = Dec fees,
       cl_realized_profit = Dec (dec_round (- dec_round (\<bar>dist\<bar> * k) - fees)), cl_state = CONTRACT_CLOSED\<rparr>"
    using gross by (simp add: settle_def p slipped slip paper_fee_def fees_def move)
  moreover have "dec_round (- dec_round (\<bar>dist\<bar> * k) - fees) = - dec_round (dec_round (\<bar>dist\<bar> * k) + fees)"
    using dec_round_minus [of "dec_round (\<bar>dist\<bar> * k) + fees"] by simp
  ultimately show thesis using that m by simp
qed

lemma specification_money:
  assumes "make_paper_specification raw = Inr s"
  obtains d f where "pc_slippage s = Dec d" "0 \<le> d" "pc_fee_rate s = Dec f"
  using assms by (auto simp: make_paper_specification_def money_def split: pydec.splits if_splits)

lemma make_proposal_terms:
  assumes "make_proposal s key side stake stop target obs price = Inr r"
  shows "pr_idempotency_key r = key" "pr_side r = side" "pr_stake r = stake" "pr_stop_loss r = stop" "pr_take_profit r = target"
    and "maximum_loss s side stake (pr_entry r) stop = Inr (pr_maximum_loss r)" "check_paper_levels side stop (pr_entry r) target = Inr ()"
    and "\<exists>k. stake = Dec k"
  using assms by (auto simp: make_proposal_def validate_stake_def money_def split: if_splits pydec.splits)

lemma levels_around_stop:
  assumes "check_paper_levels (PySide side) (Dec stop) (Dec q) target = Inr ()"
  shows "side = BUY \<and> stop \<le> q \<or> side = SELL \<and> q \<le> stop"
  using assms by (cases side) (auto simp: check_paper_levels_def split: if_splits)

text \<open>A stop that is reached inside a candle is filled at the stop.\<close>

lemma paper_exit_stop:
  assumes "paper_exit p obs = Inr (Some (EXIT_STOP_LOSS, level))" "pp_side p = PySide side"
    and "if side = BUY then dec_less (pp_stop_loss p) (dec_of_float (cmo_open obs)) = Inr True
         else dec_less (dec_of_float (cmo_open obs)) (pp_stop_loss p) = Inr True"
  shows "level = pp_stop_loss p"
  using assms by (cases side) (auto simp: paper_exit_def Let_def dec_le_def split: if_splits)

lemma observe_stop_exit:
  assumes "observe_contract cid obs strategy_exit force e = (Inr (Some c), e')" "cl_reason c = EXIT_STOP_LOSS"
  obtains p level where "map_of (pe_positions e) cid = Some p" "paper_exit p obs = Inr (Some (EXIT_STOP_LOSS, level))"
    "settle (pe_specification e) cid p obs EXIT_STOP_LOSS level = Inr c"
proof (cases rule: observe_effect [OF assms(1), case_names refused held closed])
  case (closed p found reason level c')
  then have "c' = c" "reason = EXIT_STOP_LOSS" using settle_fields(2) [OF closed(4)] assms(2) by auto
  moreover from this(2) closed(3) have "found = Some (EXIT_STOP_LOSS, level)"
    by (auto simp: exit_or_forced_def split: option.splits if_splits)
  ultimately show thesis using that closed by (auto simp: check_observation_Inr)
qed simp_all

lemma open_contract_Inr:
  assumes "open_contract r e = (Inr p, e')"
  shows "pp_contract_id p \<notin> fst ` set (pe_positions e)" "pe_positions e' = pe_positions e @ [(pp_contract_id p, p)]"
    "map_of (pe_positions e') (pp_contract_id p) = Some p" "pe_proposals e' = pe_proposals e" "pp_state p = PURCHASED_OPEN"
    "pp_idempotency_key p = pr_idempotency_key r" "pp_side p = pr_side r" "pp_stake p = pr_stake r" "pp_entry p = pr_entry r"
    "pp_stop_loss p = pr_stop_loss r"
proof -
  let ?k = "paper_contract_id (pr_idempotency_key r)"
  have k: "?k \<notin> fst ` set (pe_positions e)" using assms by (auto simp: open_contract_def Let_def split: if_splits)
  then have "map_of (pe_positions e) ?k = None" by (simp add: map_of_eq_None_iff)
  moreover from k assms have c: "pp_contract_id p = ?k" by (auto simp: open_contract_def Let_def)
  ultimately show "pp_contract_id p \<notin> fst ` set (pe_positions e)" using k by simp
  from k assms \<open>map_of (pe_positions e) ?k = None\<close> show "pe_positions e' = pe_positions e @ [(pp_contract_id p, p)]"
    "map_of (pe_positions e') (pp_contract_id p) = Some p" "pe_proposals e' = pe_proposals e" "pp_state p = PURCHASED_OPEN"
    "pp_idempotency_key p = pr_idempotency_key r" "pp_side p = pr_side r" "pp_stake p = pr_stake r" "pp_entry p = pr_entry r"
    "pp_stop_loss p = pr_stop_loss r"
    by (auto simp: open_contract_def Let_def dict_set_new map_add_def)
qed

lemma position_terms_fields:
  assumes "position_terms p' = position_terms p"
  shows "pp_side p' = pp_side p" "pp_stake p' = pp_stake p" "pp_entry p' = pp_entry p" "pp_stop_loss p' = pp_stop_loss p"
  using assms by (cases p, cases p', simp add: position_terms_def)+

lemma keeps_terms:
  assumes "keeps_books e e'" "map_of (pe_positions e) k = Some p" "map_of (pe_positions e') k = Some p'"
  shows "position_terms p' = position_terms p"
proof -
  have "k \<in> dom (engine_terms e)" using assms(2) by (simp add: dom_def engine_terms_def)
  with assms(1) have "engine_terms e k = engine_terms e' k" by (auto simp: keeps_books_def map_le_def)
  with assms(2,3) show ?thesis by (simp add: engine_terms_def)
qed

text \<open>C36. A paper contract that is stopped out without a gap realizes exactly the maximum loss of its proposal:
  whatever commands come between opening the contract and the observation that closes it, when the candle opens
  inside the stop and the close is a stop loss, the realized profit, slippage and fees included and every
  decimal operation rounded, is the negated maximum loss (for an entry of at most 28 digits).\<close>

theorem paper_stop_loss_exact:
  assumes "make_paper_specification raw = Inr s"
    and "make_proposal s key (PySide side) stake (Dec stop) target obs price = Inr proposal"
    and "pr_entry proposal = Dec q" "dec_round q = q"
    and "open_contract proposal (fold paper_step cs (make_paper_engine (Some s))) = (Inr p, e)"
    and "observe_contract (pp_contract_id p) candle strategy_exit force (fold paper_step ds e) = (Inr (Some c), e')"
    and "cl_reason c = EXIT_STOP_LOSS"
    and "if side = BUY then dec_less (Dec stop) (dec_of_float (cmo_open candle)) = Inr True
         else dec_less (dec_of_float (cmo_open candle)) (Dec stop) = Inr True"
  shows "\<exists>n. pr_maximum_loss proposal = Dec n \<and> cl_realized_profit c = Dec (- n)"
proof -
  let ?e = "fold paper_step ds e"
  note r = make_proposal_terms [OF assms(2)]
  have spec: "pe_specification ?e = s"
    using keeps_books_run [of "make_paper_engine (Some s)" "cs @ Open proposal # ds"] assms(5)
    by (simp add: keeps_books_def make_paper_engine_def)
  obtain p' level where p': "map_of (pe_positions ?e) (pp_contract_id p) = Some p'"
    "paper_exit p' candle = Inr (Some (EXIT_STOP_LOSS, level))"
    "settle s (pp_contract_id p) p' candle EXIT_STOP_LOSS level = Inr c"
    using observe_stop_exit [OF assms(6,7)] unfolding spec by metis
  note o = open_contract_Inr [OF assms(5)]
  have p: "map_of (pe_positions e) (pp_contract_id p) = Some p" "pp_side p = PySide side" "pp_stake p = stake"
    "pp_entry p = Dec q" "pp_stop_loss p = Dec stop"
    using o r assms(3) by simp_all
  have "position_terms p' = position_terms p"
    by (rule keeps_terms [OF keeps_books_run p(1) p'(1)])
  then have t: "pp_side p' = PySide side" "pp_stake p' = stake" "pp_entry p' = Dec q" "pp_stop_loss p' = Dec stop"
    using p by (simp_all add: position_terms_fields [of p' p])
  from paper_exit_stop [OF p'(2) t(1)] assms(8) have l: "level = Dec stop" by (simp add: t)
  obtain d f k where s: "pc_slippage s = Dec d" "0 \<le> d" "pc_fee_rate s = Dec f" "stake = Dec k"
    using specification_money [OF assms(1)] r(8) by metis
  have "side = BUY \<and> stop \<le> q \<or> side = SELL \<and> q \<le> stop"
    by (rule levels_around_stop [of side stop q target]) (use r(7) assms(3) in simp)
  then obtain n c' where "pr_maximum_loss proposal = Dec n" "cl_realized_profit c' = Dec (- n)"
    "settle s (pp_contract_id p) p' candle EXIT_STOP_LOSS (Dec stop) = Inr c'"
    using settle_at_stop [OF _ t(1-3) s _ assms(4), of stop "pr_maximum_loss proposal"] r(6) assms(3) by metis
  with p'(3) l show ?thesis by auto
qed

lemma same_proposal_key: "same_proposal p q \<Longrightarrow> pr_idempotency_key p = pr_idempotency_key q"
  by (cases p, cases q) (simp add: same_proposal_def)

text \<open>The side of a proposal that is returned reads as the side asked for.\<close>

lemma propose_Inr:
  assumes "propose key (PySide side) stake stop target obs price e = (Inr q, e')"
  shows "pr_idempotency_key q = key \<and> side_of_pyval (pr_side q) = Inr side"
proof -
  have side: "side_of_pyval v = Inr side" if "text_of v = text_of (PySide side)" for v
    using that by (cases side) (simp_all add: side_of_pyval_def side_of_value_def)
  obtain n where n: "make_proposal (pe_specification e) key (PySide side) stake stop target obs price = Inr n"
    using assms by (auto simp: propose_def split: sum.splits)
  note r = make_proposal_terms [OF n]
  show ?thesis
  proof (cases "map_of (pe_proposals e) key")
    case None
    then show ?thesis using assms n r by (auto simp: propose_def side)
  next
    case (Some old)
    with assms n have "same_proposal old n" "q = old" by (auto simp: propose_def split: if_splits)
    then show ?thesis using r(1,2) side [of "pr_side old"] same_proposal_key [of old n] by (simp add: same_proposal_def)
  qed
qed

text \<open>C24. The paper gateway opens a contract only within the authorized risk: an order that is filled opens
  exactly one new contract, on the side of the order and with an identifier no contract had, whose recorded
  maximum loss is at most the authorized risk; an order that raises leaves every position as it was.\<close>

theorem paper_fill_within_risk:
  assumes "paper_submit_order order g = (r, g')"
  shows "case r of Inl x \<Rightarrow> pe_positions (pg_engine g') = pe_positions (pg_engine g)
    | Inr res \<Rightarrow> res_order_id res \<notin> fst ` set (pe_positions (pg_engine g)) \<and> res_side res = req_side order
        \<and> (\<exists>p loss. pe_positions (pg_engine g') = pe_positions (pg_engine g) @ [(res_order_id res, p)]
          \<and> pp_state p = PURCHASED_OPEN \<and> maximum_loss_for (pg_engine g') (res_order_id res) = Inr loss
          \<and> dec_le loss (pg_authorized_risk_amount g) = Inr True)"
proof (cases "\<exists>target. req_take_profit order = Some target
    \<and> py_upper (py_strip (req_symbol order)) = py_upper (py_strip (cmo_canonical_symbol (pg_observation g)))")
  case False
  then show ?thesis using assms by (auto simp: paper_submit_order_def split: if_splits option.splits)
next
  case True
  let ?key = "get_or [] (req_idempotency_key order)"
  from True obtain target where t: "req_take_profit order = Some target"
    "py_upper (py_strip (req_symbol order)) = py_upper (py_strip (cmo_canonical_symbol (pg_observation g)))" by auto
  obtain x e where x: "propose ?key (PySide (req_side order)) (dec_of_float (qty_value (req_quantity order)))
      (dec_of_float (req_stop_loss order)) (dec_of_float target) (pg_observation g) (pg_entry_price g) (pg_engine g) = (x, e)"
    by fastforce
  note same = propose_effect(1) [OF x]
  show ?thesis
  proof (cases "\<exists>proposal position e'. x = Inr proposal \<and> dec_less (pg_authorized_risk_amount g) (pr_maximum_loss proposal) = Inr False
      \<and> open_contract proposal e = (Inr position, e')")
    case False
    then have "\<exists>z. r = Inl z \<and> pe_positions (pg_engine g') = pe_positions e"
      using assms by (auto simp: paper_submit_order_def t x open_contract_def Let_def split: sum.splits bool.splits if_splits)
    with same show ?thesis by auto
  next
    case True
    then obtain q p e' where q: "x = Inr q" "dec_less (pg_authorized_risk_amount g) (pr_maximum_loss q) = Inr False"
      "open_contract q e = (Inr p, e')" by auto
    with assms t x have g': "r = paper_fill p" "g' = g\<lparr>pg_engine := e'\<rparr>" by (simp_all add: paper_submit_order_def)
    have terms: "pr_idempotency_key q = ?key" "side_of_pyval (pr_side q) = Inr (req_side order)"
      using propose_Inr [OF x [unfolded q(1)]] by simp_all
    note o = open_contract_Inr [OF q(3)]
    have "maximum_loss_for e' (pp_contract_id p) = Inr (pr_maximum_loss q)"
      using o(3,4,6) propose_effect(3) [OF x q(1)] by (simp add: maximum_loss_for_def get_item_def terms)
    with o g' terms q same show ?thesis by (auto simp: paper_fill_def dec_le_def)
  qed
qed

section \<open>Witnesses\<close>

definition sample_candle :: "int \<Rightarrow> pyfloat \<Rightarrow> pyfloat \<Rightarrow> pyfloat \<Rightarrow> pyfloat \<Rightarrow> closed_market_observation" where
  "sample_candle t op hi lo cl = \<lparr>cmo_canonical_symbol = ''XAUUSD'', cmo_source = ''sim'', cmo_provider_symbol = ''XAUUSD'',
     cmo_timeframe = M1, cmo_candle_opened_at = Aware (t - 60000000) 0, cmo_closed_at = Aware t 0, cmo_open = op,
     cmo_high = hi, cmo_low = lo, cmo_close = cl, cmo_volume = None\<rparr>"

definition costly_specification :: paper_specification where
  "costly_specification = default_paper_specification\<lparr>pc_fee_rate := Dec 1, pc_slippage := Dec 1\<rparr>"

lemma paper_digits:
  "repr_value 1 = 1" "repr_value 2 = 2" "repr_value 3 = 3" "repr_value 4 = 4" "repr_value 5 = 5" "repr_value 6 = 6" "repr_value 8 = 8"
  using repr_value_one_digit [of 1 1 0] repr_value_one_digit [of 2 2 0] repr_value_one_digit [of 3 3 0]
    repr_value_one_digit [of 4 4 0] repr_value_one_digit [of 5 5 0] repr_value_one_digit [of 6 6 0] repr_value_one_digit [of 8 8 0]
  by simp_all

lemma paper_rounds:
  "dec_round 1 = 1" "dec_round 2 = 2" "dec_round 3 = 3" "dec_round 4 = 4" "dec_round 5 = 5" "dec_round 8 = 8" "dec_round 10 = 10"
  "dec_round (99/100) = 99/100"
  using dec_round_exact [of 1 1 0] dec_round_exact [of 2 2 0] dec_round_exact [of 3 3 0] dec_round_exact [of 4 4 0]
    dec_round_exact [of 5 5 0] dec_round_exact [of 8 8 0] dec_round_exact [of 10 10 0] dec_round_exact [of "99/100" 99 "-2"]
  by (simp_all add: power_int_minus)

lemma paper_neg_rounds: "dec_round (- numeral n) = - dec_round (numeral n)" "dec_round (- 1) = - dec_round 1"
  by (rule dec_round_minus)+

lemma costly_specification_ok: "make_paper_specification costly_specification = Inr costly_specification"
  by (simp add: make_paper_specification_def costly_specification_def default_paper_specification_def positive_money_def
      money_def dec_le_def)

lemma sample_stake:
  "pc_minimum_stake s = Dec (1/100) \<Longrightarrow> pc_maximum_stake s = Dec 1000000 \<Longrightarrow> pc_stake_increment s = Dec (1/100)
   \<Longrightarrow> validate_stake s (Dec 1) = Inr ()"
  by (simp add: validate_stake_def money_def paper_rounds trunc_quotient_def)

definition sample_proposal :: "pydec \<Rightarrow> paper_proposal" where
  "sample_proposal loss = \<lparr>pr_proposal_id = ''PAPER-P-k'', pr_idempotency_key = ''k'', pr_symbol = ''XAUUSD'', pr_side = PySide BUY,
     pr_stake = Dec 1, pr_entry = Dec 5, pr_stop_loss = Dec 4, pr_take_profit = Dec 8,
     pr_observation_closed_at = Aware 0 0, pr_maximum_loss = loss\<rparr>"

lemma sample_proposals:
  "make_proposal costly_specification ''k'' (PySide BUY) (Dec 1) (Dec 4) (Dec 8) (sample_candle 0 (Fin 5) (Fin 5) (Fin 5) (Fin 5)) None
     = Inr (sample_proposal (Dec 10))"
  "make_proposal default_paper_specification ''k'' (PySide BUY) (Dec 1) (Dec 4) (Dec 8)
     (sample_candle 0 (Fin 5) (Fin 5) (Fin 5) (Fin 5)) None = Inr (sample_proposal (Dec 1))"
  by (simp_all add: make_proposal_def sample_stake costly_specification_def default_paper_specification_def reference_price_def
      sample_candle_def paper_digits dec_le_def check_paper_levels_def maximum_loss_def slipped_def paper_fee_def paper_rounds
      sample_proposal_def, auto)

definition sample_engine :: "paper_specification \<Rightarrow> pydec \<Rightarrow> paper_engine" where
  "sample_engine s loss = snd (open_contract (sample_proposal loss) (make_paper_engine (Some s)))"

definition sample_paper_position :: paper_position where
  "sample_paper_position = \<lparr>pp_contract_id = ''PAPER-C-k'', pp_proposal_id = ''PAPER-P-k'', pp_idempotency_key = ''k'',
     pp_symbol = ''XAUUSD'', pp_side = PySide BUY, pp_stake = Dec 1, pp_entry = Dec 5, pp_stop_loss = Dec 4,
     pp_take_profit = Dec 8, pp_opened_at = Aware 0 0, pp_last_observed_at = Aware 0 0, pp_state = PURCHASED_OPEN,
     pp_close_requested = False\<rparr>"

lemma sample_open:
  "open_contract (sample_proposal loss) (make_paper_engine (Some s)) = (Inr sample_paper_position, sample_engine s loss)"
  "pe_positions (sample_engine s loss) = [(''PAPER-C-k'', sample_paper_position)]" "pe_closes (sample_engine s loss) = []"
  "pe_specification (sample_engine s loss) = s"
  by (simp_all add: sample_engine_def open_contract_def Let_def sample_proposal_def make_paper_engine_def paper_contract_id_def
      sample_paper_position_def dict_set_def)

lemma sample_stop:
  "paper_exit sample_paper_position (sample_candle 60000000 (Fin 5) (Fin 6) (Fin 3) (Fin 4)) = Inr (Some (EXIT_STOP_LOSS, Dec 4))"
  by (simp add: paper_exit_def sample_paper_position_def sample_candle_def paper_digits dec_le_def)

lemma sample_stopped_out:
  "\<exists>c e. observe_contract ''PAPER-C-k'' (sample_candle 60000000 (Fin 5) (Fin 6) (Fin 3) (Fin 4)) False False
       (sample_engine costly_specification (Dec 10)) = (Inr (Some c), e)
     \<and> cl_reason c = EXIT_STOP_LOSS"
proof -
  let ?obs = "sample_candle 60000000 (Fin 5) (Fin 6) (Fin 3) (Fin 4)"
  have c: "check_observation ''PAPER-C-k'' ?obs (sample_engine costly_specification (Dec 10)) = Inr sample_paper_position"
    by (simp add: check_observation_Inr sample_open) (simp add: sample_candle_def sample_paper_position_def)
  obtain q where q: "settle costly_specification ''PAPER-C-k'' sample_paper_position ?obs EXIT_STOP_LOSS (Dec 4) = Inr q"
    by (simp add: settle_def sample_paper_position_def slipped_def paper_fee_def costly_specification_def
        default_paper_specification_def paper_rounds paper_neg_rounds)
  from settle_fields [OF q] show ?thesis by (simp add: observe_contract_def c sample_stop exit_or_forced_def sample_open q)
qed

theorem paper_stop_loss_exact_witness:
  "\<exists>c e. observe_contract ''PAPER-C-k'' (sample_candle 60000000 (Fin 5) (Fin 6) (Fin 3) (Fin 4)) False False
       (sample_engine costly_specification (Dec 10)) = (Inr (Some c), e)
     \<and> cl_realized_profit c = Dec (- 10)"
proof -
  obtain c e where c: "observe_contract ''PAPER-C-k'' (sample_candle 60000000 (Fin 5) (Fin 6) (Fin 3) (Fin 4)) False False
       (sample_engine costly_specification (Dec 10)) = (Inr (Some c), e)" "cl_reason c = EXIT_STOP_LOSS"
    using sample_stopped_out by blast
  have "\<exists>n. pr_maximum_loss (sample_proposal (Dec 10)) = Dec n \<and> cl_realized_profit c = Dec (- n)"
    by (rule paper_stop_loss_exact [where cs = "[]" and ds = "[]", OF costly_specification_ok sample_proposals(1)])
      (use c sample_open in \<open>auto simp: sample_proposal_def sample_paper_position_def sample_candle_def paper_digits paper_rounds\<close>)
  with c show ?thesis by (auto simp: sample_proposal_def)
qed

theorem paper_close_final_witness:
  "\<exists>c e. observe_contract ''PAPER-C-k'' (sample_candle 60000000 (Fin 5) (Fin 6) (Fin 3) (Fin 4)) False False
       (sample_engine costly_specification (Dec 10)) = (Inr (Some c), e)
     \<and> prc_state (paper_reconcile e ''PAPER-C-k'') = CONTRACT_CLOSED"
proof -
  obtain c e where c: "observe_contract ''PAPER-C-k'' (sample_candle 60000000 (Fin 5) (Fin 6) (Fin 3) (Fin 4)) False False
       (fold paper_step [Open (sample_proposal (Dec 10))] (make_paper_engine (Some costly_specification))) = (Inr (Some c), e)"
    using sample_stopped_out by (auto simp: sample_open)
  from paper_close_final [OF c, of "[]"] c show ?thesis by (auto simp: sample_open)
qed

text \<open>A gap: the candle opens below the stop, the contract is filled at that price, and the loss is three times
  the maximum loss of the proposal.\<close>

lemma gap_exceeds_maximum_loss:
  "\<exists>c e. pr_maximum_loss (sample_proposal (Dec 1)) = Dec 1
     \<and> observe_contract ''PAPER-C-k'' (sample_candle 60000000 (Fin 2) (Fin 3) (Fin 1) (Fin 2)) False False
       (sample_engine default_paper_specification (Dec 1)) = (Inr (Some c), e)
     \<and> cl_reason c = EXIT_STOP_LOSS \<and> cl_realized_profit c = Dec (- 3)"
proof -
  let ?obs = "sample_candle 60000000 (Fin 2) (Fin 3) (Fin 1) (Fin 2)"
  have c: "check_observation ''PAPER-C-k'' ?obs (sample_engine default_paper_specification (Dec 1)) = Inr sample_paper_position"
    by (simp add: check_observation_Inr sample_open) (simp add: sample_candle_def sample_paper_position_def)
  have x: "paper_exit sample_paper_position ?obs = Inr (Some (EXIT_STOP_LOSS, Dec 2))"
    by (simp add: paper_exit_def sample_paper_position_def sample_candle_def paper_digits dec_le_def)
  have "\<exists>q. settle default_paper_specification ''PAPER-C-k'' sample_paper_position ?obs EXIT_STOP_LOSS (Dec 2) = Inr q
      \<and> cl_reason q = EXIT_STOP_LOSS \<and> cl_realized_profit q = Dec (- 3)"
    by (simp add: settle_def sample_paper_position_def slipped_def paper_fee_def
        default_paper_specification_def paper_rounds paper_neg_rounds)
  then show ?thesis by (auto simp: observe_contract_def c x exit_or_forced_def sample_open sample_proposal_def)
qed

definition sample_paper_gateway :: paper_gateway where
  "sample_paper_gateway = \<lparr>pg_engine = make_paper_engine None, pg_observation = sample_candle 0 (Fin 5) (Fin 5) (Fin 5) (Fin 5),
     pg_observed_at = Aware 0 0, pg_authorized_risk_amount = Dec 1, pg_entry_price = None\<rparr>"

definition sample_paper_order :: order_request where
  "sample_paper_order = \<lparr>req_symbol = ''XAUUSD'', req_side = BUY, req_quantity = \<lparr>qty_value = Fin 1, qty_unit = SIMULATION_UNITS\<rparr>,
     req_order_type = MARKET, req_entry_price = None, req_stop_limit_price = None, req_stop_loss = Fin 4,
     req_take_profit = Some (Fin 8), req_idempotency_key = Some ''k'', req_magic_number = None, req_order_comment = None\<rparr>"

theorem paper_fill_within_risk_witness:
  "\<exists>res g'. paper_submit_order sample_paper_order sample_paper_gateway = (Inr res, g')
     \<and> maximum_loss_for (pg_engine g') (res_order_id res) = Inr (Dec 1) \<and> length (pe_positions (pg_engine g')) = 1"
proof -
  let ?e = "(make_paper_engine None)\<lparr>pe_proposals := [(''k'', sample_proposal (Dec 1))]\<rparr>"
  have p: "propose ''k'' (PySide BUY) (Dec 1) (Dec 4) (Dec 8) (sample_candle 0 (Fin 5) (Fin 5) (Fin 5) (Fin 5)) None (make_paper_engine None)
      = (Inr (sample_proposal (Dec 1)), ?e)"
    by (simp add: propose_def make_paper_engine_def sample_proposals dict_set_def)
  have o: "open_contract (sample_proposal (Dec 1)) ?e
      = (Inr sample_paper_position, ?e\<lparr>pe_positions := [(''PAPER-C-k'', sample_paper_position)]\<rparr>)"
    by (simp add: open_contract_def Let_def sample_proposal_def make_paper_engine_def paper_contract_id_def
        sample_paper_position_def dict_set_def)
  obtain res where r: "paper_submit_order sample_paper_order sample_paper_gateway
      = (Inr res, sample_paper_gateway\<lparr>pg_engine := ?e\<lparr>pe_positions := [(''PAPER-C-k'', sample_paper_position)]\<rparr>\<rparr>)"
    using p o by (auto simp: paper_submit_order_def sample_paper_order_def sample_paper_gateway_def get_or_def paper_digits paper_fill_def
        sample_proposal_def sample_paper_position_def sample_candle_def side_of_pyval_def side_of_value_def)
  from paper_fill_within_risk [OF r] r show ?thesis
    by (auto simp: maximum_loss_for_def get_item_def sample_paper_position_def sample_proposal_def)
qed

end
