(* ===== verification/Paper_Runtime.thy ===== *)
theory Paper_Runtime
  imports Paper_Contract Histories "HOL-Library.Sublist"
begin

text \<open>
  The continuous paper runtime, \<open>src/execution/paper_runtime.py\<close>: the journal of observations and the heartbeat in
  SQLite, one cycle (observe, manage the open contracts, decide, submit through the executor over the paper
  gateway) and the polling loop with its backoff. The source of observations, the decision builder and the
  notifications are parameters acting on an outside world; of a notification only its kind is represented. The
  loop is a function of the list of its turns.

  The journal is a shared resource: its claims are an instance of \<open>once_only\<close>. The locale \<open>cycle_relation\<close> is
  the contract of a relation that the elementary steps of a cycle respect, \<open>runtime_relation\<close> extends it to whole
  runs, and \<open>gateway_relation\<close> does the same for a submission of the executor; their interpretations are the books
  of the paper engine and the times of the journal.
\<close>

section \<open>The observation journal\<close>

datatype observation_claim = OBS_NEW | OBS_DUPLICATE | OBS_OLD | OBS_UNRESOLVED

text \<open>What a cycle did; a blocked decision is shown by its code.\<close>

datatype runtime_action = Action string | BlockedBy decision_code

record runtime_heartbeat =
  hb_runtime_mode :: string
  hb_running :: bool
  hb_started_at :: "pydatetime option"
  hb_last_cycle_at :: "pydatetime option"
  hb_last_processed_observation :: "pydatetime option"
  hb_symbols_monitored :: "string list"
  hb_open_paper_positions :: nat
  hb_cycles_completed :: int
  hb_last_signal :: pyval
  hb_last_action :: runtime_action
  hb_last_error :: "string option"
  hb_notification_state :: string
  hb_shutdown_state :: string
  hb_paper_execution_enabled :: bool
  hb_broker_execution_enabled :: bool
  hb_market_data_source :: string

definition default_heartbeat :: runtime_heartbeat where
  "default_heartbeat = \<lparr>hb_runtime_mode = ''paper_continuous'', hb_running = False, hb_started_at = None,
     hb_last_cycle_at = None, hb_last_processed_observation = None, hb_symbols_monitored = [],
     hb_open_paper_positions = 0, hb_cycles_completed = 0, hb_last_signal = PyNone, hb_last_action = Action ''IDLE'',
     hb_last_error = None, hb_notification_state = ''DISABLED'', hb_shutdown_state = ''STOPPED'',
     hb_paper_execution_enabled = False, hb_broker_execution_enabled = False,
     hb_market_data_source = ''UNSPECIFIED''\<rparr>"

record observation_row =
  ob_scope :: string
  ob_closed_at :: iso_text
  ob_state :: string

record journal_db =
  jd_rows :: "observation_row list"
  jd_heartbeat :: "runtime_heartbeat option"
  jd_outages :: "bool list"

text \<open>\<open>with self._connect() as connection\<close>: opening may fail; the body is one transaction.\<close>

definition with_journal ::
  "(observation_row list \<Rightarrow> runtime_heartbeat option \<Rightarrow> 'a result \<times> observation_row list \<times> runtime_heartbeat option)
   \<Rightarrow> journal_db \<Rightarrow> 'a result \<times> journal_db" where
  "with_journal body s =
     (if jd_outages s \<noteq> [] \<and> hd (jd_outages s)
      then (Inl (DatabaseError ''unable to open database file''), s\<lparr>jd_outages := tl (jd_outages s)\<rparr>)
      else case body (jd_rows s) (jd_heartbeat s) of
        (r, rows, hb) \<Rightarrow> (r, \<lparr>jd_rows = rows, jd_heartbeat = hb, jd_outages = tl (jd_outages s)\<rparr>))"

fun timeframe_value :: "timeframe \<Rightarrow> string" where
  "timeframe_value M1 = ''M1''"
| "timeframe_value M5 = ''M5''"
| "timeframe_value M15 = ''M15''"
| "timeframe_value M30 = ''M30''"
| "timeframe_value H1 = ''H1''"
| "timeframe_value H4 = ''H4''"
| "timeframe_value D1 = ''D1''"

definition observation_scope :: "closed_market_observation \<Rightarrow> string" where
  "observation_scope obs = py_upper (py_strip (cmo_canonical_symbol obs)) @ '':'' @ timeframe_value (cmo_timeframe obs)"

fun journal_time :: "iso_text \<Rightarrow> pydatetime result" where
  "journal_time (Iso d) = Inr d"
| "journal_time (NotIso s) = Inl (ValueError ''Invalid isoformat string'')"

text \<open>The claim against the row of the scope.\<close>

definition judge_observation :: "pydatetime \<Rightarrow> observation_row option \<Rightarrow> observation_claim result" where
  "judge_observation closed_at row =
     (case row of None \<Rightarrow> Inr OBS_NEW
      | Some r \<Rightarrow> rbind (journal_time (ob_closed_at r)) (\<lambda>prior.
          if ob_state r = ''PROCESSING'' then Inr OBS_UNRESOLVED
          else if tz_aware closed_at = tz_aware prior \<and> instant closed_at = instant prior then Inr OBS_DUPLICATE
          else rbind (dt_less closed_at prior) (\<lambda>old. Inr (if old then OBS_OLD else OBS_NEW))))"

definition put_observation :: "observation_row \<Rightarrow> observation_row list \<Rightarrow> observation_row list" where
  "put_observation r rows =
     (if sel ob_scope (ob_scope r) rows = None then rows @ [r]
      else upd_where (\<lambda>x. ob_scope x = ob_scope r)
        (\<lambda>x. x\<lparr>ob_closed_at := ob_closed_at r, ob_state := ob_state r\<rparr>) rows)"

definition begin_observation :: "closed_market_observation \<Rightarrow> journal_db \<Rightarrow> observation_claim result \<times> journal_db" where
  "begin_observation obs = with_journal (\<lambda>rows hb.
     let scp = observation_scope obs; timestamp = to_utc (cmo_closed_at obs) in
     (case judge_observation (cmo_closed_at obs) (sel ob_scope scp rows) of
        Inr OBS_NEW \<Rightarrow>
          (Inr OBS_NEW, put_observation \<lparr>ob_scope = scp, ob_closed_at = Iso timestamp, ob_state = ''PROCESSING''\<rparr> rows, hb)
      | r \<Rightarrow> (r, rows, hb)))"

definition complete_observation :: "closed_market_observation \<Rightarrow> journal_db \<Rightarrow> unit result \<times> journal_db" where
  "complete_observation obs = with_journal (\<lambda>rows hb.
     (Inr (), upd_where (\<lambda>x. ob_scope x = observation_scope obs) (\<lambda>x. x\<lparr>ob_state := ''COMPLETE''\<rparr>) rows, hb))"

definition publish_heartbeat :: "runtime_heartbeat \<Rightarrow> journal_db \<Rightarrow> unit result \<times> journal_db" where
  "publish_heartbeat h = with_journal (\<lambda>rows hb. (Inr (), rows, Some h))"

definition read_heartbeat :: "journal_db \<Rightarrow> runtime_heartbeat result \<times> journal_db" where
  "read_heartbeat = with_journal (\<lambda>rows hb. (Inr (case hb of None \<Rightarrow> default_heartbeat | Some h \<Rightarrow> h), rows, hb))"

section \<open>The runtime\<close>

record paper_entry =
  pn_intent :: execution_intent
  pn_context :: execution_context

text \<open>The callbacks the runtime is given act on the outside world \<open>'n\<close>. Of a notification only its kind is kept.\<close>

record 'n runtime_config =
  cf_source :: "'n \<Rightarrow> closed_market_observation list result \<times> 'n"
  cf_decide :: "closed_market_observation list \<Rightarrow> 'n \<Rightarrow> paper_entry option result \<times> 'n"
  cf_paper_event :: "string \<Rightarrow> 'n \<Rightarrow> unit result \<times> 'n"
  cf_notification_state :: "'n \<Rightarrow> string"
  cf_recovery_mode :: bool
  cf_poll_seconds :: pyfloat
  cf_max_backoff_seconds :: pyfloat

record 'n paper_runtime =
  rt_engine :: paper_engine
  rt_records :: intent_db
  rt_journal :: journal_db
  rt_heartbeat :: runtime_heartbeat
  rt_env :: 'n
  rt_clock :: "nat \<Rightarrow> pydatetime"
  rt_ticks :: nat

type_synonym ('n, 'a) runtime_op = "'n paper_runtime \<Rightarrow> 'a result \<times> 'n paper_runtime"

definition sbind :: "('n, 'a) runtime_op \<Rightarrow> ('a \<Rightarrow> ('n, 'b) runtime_op) \<Rightarrow> ('n, 'b) runtime_op" where
  "sbind m f s = (case m s of (Inl e, s) \<Rightarrow> (Inl e, s) | (Inr x, s) \<Rightarrow> f x s)"

definition outside :: "('n \<Rightarrow> 'a result \<times> 'n) \<Rightarrow> ('n, 'a) runtime_op" where
  "outside f s = (case f (rt_env s) of (r, e) \<Rightarrow> (r, s\<lparr>rt_env := e\<rparr>))"

definition journal :: "(journal_db \<Rightarrow> 'a result \<times> journal_db) \<Rightarrow> ('n, 'a) runtime_op" where
  "journal f s = (case f (rt_journal s) of (r, j) \<Rightarrow> (r, s\<lparr>rt_journal := j\<rparr>))"

definition on_engine :: "(paper_engine \<Rightarrow> 'a result \<times> paper_engine) \<Rightarrow> ('n, 'a) runtime_op" where
  "on_engine f s = (case f (rt_engine s) of (r, e) \<Rightarrow> (r, s\<lparr>rt_engine := e\<rparr>))"

definition beat :: "(runtime_heartbeat \<Rightarrow> runtime_heartbeat) \<Rightarrow> 'n paper_runtime \<Rightarrow> 'n paper_runtime" where
  "beat f s = s\<lparr>rt_heartbeat := f (rt_heartbeat s)\<rparr>"

definition make_runtime ::
  "bool \<Rightarrow> string \<Rightarrow> pyfloat \<Rightarrow> pyfloat \<Rightarrow> paper_engine option \<Rightarrow> intent_db \<Rightarrow> string list \<Rightarrow> string \<Rightarrow> 'n
   \<Rightarrow> (nat \<Rightarrow> pydatetime) \<Rightarrow> journal_db \<Rightarrow> 'n paper_runtime result \<times> journal_db" where
  "make_runtime enabled mode poll max_backoff engine records symbols source env clock j =
     (if \<not> enabled \<or> mode \<noteq> ''paper_continuous''
      then (Inl (ValueError ''continuous paper runtime requires explicit opt-in''), j)
      else if poll < Fin 1 \<or> max_backoff < poll
      then (Inl (ValueError ''paper runtime polling configuration is invalid''), j)
      else (case read_heartbeat j of
          (Inl e, j) \<Rightarrow> (Inl e, j)
        | (Inr previous, j) \<Rightarrow>
            if hb_open_paper_positions previous \<noteq> 0
            then (Inl (RuntimeError ''paper restart blocked: open position reconstruction is unavailable''), j)
            else (Inr \<lparr>rt_engine = (case engine of None \<Rightarrow> make_paper_engine None | Some e \<Rightarrow> e), rt_records = records,
              rt_journal = j, rt_heartbeat = previous\<lparr>hb_symbols_monitored := symbols, hb_paper_execution_enabled := True,
                hb_broker_execution_enabled := False, hb_market_data_source := source\<rparr>,
              rt_env = env, rt_clock = clock, rt_ticks = 0\<rparr>, j)))"

section \<open>One cycle\<close>

definition accepted_observation :: "pydatetime \<Rightarrow> closed_market_observation list \<Rightarrow> closed_market_observation result" where
  "accepted_observation now obss =
     (if obss = [] then Inl (RuntimeError ''market data unavailable'')
      else if \<not> list_all (\<lambda>o'. is_closed_at o' now) obss then Inl (ValueError ''forming paper observation rejected'')
      else if \<not> list_all (\<lambda>(a, b). instant (cmo_closed_at a) < instant (cmo_closed_at b)) (zip obss (tl obss))
      then Inl (ValueError ''out-of-order paper observations rejected'') else Inr (last obss))"

fun exit_reason_value :: "paper_exit_reason \<Rightarrow> string" where
  "exit_reason_value EXIT_STOP_LOSS = ''STOP_LOSS''"
| "exit_reason_value EXIT_TAKE_PROFIT = ''TAKE_PROFIT''"
| "exit_reason_value EXIT_STRATEGY = ''STRATEGY_EXIT''"
| "exit_reason_value EXIT_END_OF_TEST = ''END_OF_TEST''"

text \<open>The contracts open at the start of the cycle are shown the observation; the number of those it closed.\<close>

fun observe_positions ::
  "'n runtime_config \<Rightarrow> closed_market_observation \<Rightarrow> paper_position list \<Rightarrow> nat \<Rightarrow> ('n, nat) runtime_op" where
  "observe_positions c obs [] n s = (Inr n, s)"
| "observe_positions c obs (p # ps) n s =
     (if pp_state p = CONTRACT_CLOSED \<or> cmo_canonical_symbol obs \<noteq> pp_symbol p
         \<or> \<not> instant (pp_last_observed_at p) < instant (cmo_closed_at obs)
      then observe_positions c obs ps n s
      else sbind (on_engine (observe_contract (pp_contract_id p) obs False False)) (\<lambda>closed.
        case closed of
          None \<Rightarrow> observe_positions c obs ps n
        | Some x \<Rightarrow> (\<lambda>s. if prc_state (paper_reconcile (rt_engine s) (pp_contract_id p)) \<noteq> CONTRACT_CLOSED
            then (Inl (RuntimeError ''paper reconciliation mismatch''), s)
            else sbind (outside (cf_paper_event c (exit_reason_value (cl_reason x)))) (\<lambda>_.
              sbind (outside (cf_paper_event c ''CLOSED'')) (\<lambda>_. observe_positions c obs ps (Suc n))) s)) s)"

text \<open>\<open>casefold\<close>, \<open>-\<close> and blanks to underscores, then the tokens of a minimum stake.\<close>

definition venue_block_code :: "string \<Rightarrow> string" where
  "venue_block_code reason =
     (let normalized = map (\<lambda>ch. if ch = CHR ''-'' \<or> ch = CHR '' '' then CHR ''_'' else ch) (py_lower reason) in
      if sublist ''minimum'' normalized \<and> (\<exists>t \<in> set [''stake'', ''quantity'', ''lot'', ''volume'']. sublist t normalized)
         \<or> sublist ''min_stake'' normalized \<or> sublist ''min_quantity'' normalized \<or> sublist ''min_lot'' normalized
      then ''MIN_STAKE'' else ''VENUE_REJECTED'')"

text \<open>\<open>AsyncTradeExecutor(venue, records)\<close>: the methods of the paper gateway do not await anything.\<close>

definition paper_dependencies :: "bool \<Rightarrow> paper_gateway dependencies" where
  "paper_dependencies recovery_mode =
     \<lparr>gw_get_positions = (\<lambda>g s. (rbind (paper_get_positions g) (\<lambda>ps. Inr (map RawPosition ps)), g, s)),
      gw_submit_order = (\<lambda>order g s. case paper_submit_order order g of (r, g) \<Rightarrow> (rbind r (\<lambda>x. Inr (Reply x)), g, s)),
      gw_reconcile = None, gw_before_submit = None, gw_context_provider = None, gw_after_submit = None,
      gw_lease_seconds = 120, gw_recovery_mode = recovery_mode\<rparr>"

definition submit_entry :: "bool \<Rightarrow> string \<Rightarrow> paper_entry \<Rightarrow> paper_gateway \<Rightarrow> ('n, execution_result) runtime_op" where
  "submit_entry recovery_mode owner entry venue s =
     (case submit (paper_dependencies recovery_mode) (pn_intent entry) (Some (pn_context entry)) owner
         \<lparr>w_store = rt_records s, w_env = venue, w_clock = rt_clock s, w_ticks = rt_ticks s, w_log = []\<rparr> of
       (r, w) \<Rightarrow> (r, s\<lparr>rt_engine := pg_engine (w_env w), rt_records := w_store w, rt_ticks := w_ticks w\<rparr>))"

text \<open>The action, the error of the cycle and the notification for a submission.\<close>

definition entry_outcome :: "execution_result \<Rightarrow> runtime_action \<times> string option \<times> string" where
  "entry_outcome x =
     (if xr_state x = ALREADY_EXECUTED \<and> truthy_text (xr_order_id x) then (Action ''POSITION_OPENED'', None, ''OPENED'')
      else if dec_allowed (xr_decision x) \<and> xr_state x = RECON_UNKNOWN
      then let error = (if xr_reason x = [] then ''Submission outcome unknown'' else xr_reason x)
        in (Action (''BLOCKED:'' @ venue_block_code error), Some error, ''BLOCKED'')
      else if dec_allowed (xr_decision x) \<and> xr_state x = RECON_REJECTED
      then (Action ''BLOCKED:VENUE_REJECTED'', Some (if xr_reason x = [] then ''Broker rejected order'' else xr_reason x), ''BLOCKED'')
      else (BlockedBy (dec_code (xr_decision x)), None, ''BLOCKED''))"

definition signal_text :: "pyval \<Rightarrow> pyval" where
  "signal_text side = (case text_of side of Some s \<Rightarrow> PyStr s | None \<Rightarrow> PyOther)"

definition process_entry ::
  "'n runtime_config \<Rightarrow> pydatetime \<Rightarrow> string \<Rightarrow> closed_market_observation \<Rightarrow> paper_entry
   \<Rightarrow> ('n, runtime_action \<times> pyval \<times> string option) runtime_op" where
  "process_entry c now owner obs entry =
     sbind (outside (cf_paper_event c ''SIGNAL'')) (\<lambda>_ s.
       (case rbind (dec_of_pyval (int_authorized_risk_amount (pn_intent entry))) (\<lambda>risk.
             rbind (dec_of_pyval (int_entry (pn_intent entry))) (\<lambda>price.
             make_paper_gateway (rt_engine s) obs now risk (Some price))) of
          Inl e \<Rightarrow> (Inl e, s)
        | Inr venue \<Rightarrow> sbind (submit_entry (cf_recovery_mode c) owner entry venue) (\<lambda>x.
            case entry_outcome x of (action, error, kind) \<Rightarrow>
              sbind (outside (cf_paper_event c kind)) (\<lambda>_ s.
                (Inr (action, signal_text (int_side (pn_intent entry)), error), s))) s))"

definition finish_cycle ::
  "'n runtime_config \<Rightarrow> pydatetime \<Rightarrow> closed_market_observation \<Rightarrow> runtime_action \<times> pyval \<times> string option \<Rightarrow> ('n, unit) runtime_op" where
  "finish_cycle c now obs outcome = sbind (journal (complete_observation obs)) (\<lambda>_ s.
     (case outcome of (action, last_signal, error) \<Rightarrow>
       (Inr (), beat (\<lambda>h. h\<lparr>hb_last_cycle_at := Some now, hb_last_processed_observation := Some (cmo_closed_at obs),
          hb_open_paper_positions := length (filter (\<lambda>p. pp_state p \<noteq> CONTRACT_CLOSED) (paper_positions (rt_engine s))),
          hb_cycles_completed := hb_cycles_completed h + 1, hb_last_signal := last_signal, hb_last_action := action,
          hb_last_error := error, hb_notification_state := cf_notification_state c (rt_env s)\<rparr>) s)))"

text \<open>The observation is new: manage the open contracts, decide, submit.\<close>

definition trade_cycle ::
  "'n runtime_config \<Rightarrow> pydatetime \<Rightarrow> string \<Rightarrow> closed_market_observation list \<Rightarrow> closed_market_observation \<Rightarrow> ('n, unit) runtime_op" where
  "trade_cycle c now owner obss obs s =
     sbind (observe_positions c obs (paper_positions (rt_engine s)) 0) (\<lambda>closed_count.
     sbind (outside (cf_decide c obss)) (\<lambda>entry.
     sbind (case entry of
         None \<Rightarrow> (\<lambda>s. (Inr (if 0 < closed_count then (Action ''POSITION_CLOSED'', PyNone, None)
                          else (Action ''NO_SIGNAL'', PyStr ''NO_TRADE'', None)), s))
       | Some entry \<Rightarrow> process_entry c now owner obs entry)
     (finish_cycle c now obs))) s"

text \<open>The \<open>try\<close> block; \<open>True\<close> when it returned early, with the heartbeat published.\<close>

definition try_cycle :: "'n runtime_config \<Rightarrow> pydatetime \<Rightarrow> string \<Rightarrow> ('n, bool) runtime_op" where
  "try_cycle c now owner =
     sbind (outside (cf_source c)) (\<lambda>obss s.
       (case accepted_observation now obss of
          Inl e \<Rightarrow> (Inl e, s)
        | Inr obs \<Rightarrow> sbind (journal (begin_observation obs)) (\<lambda>claim.
            (case claim of
               OBS_UNRESOLVED \<Rightarrow> (\<lambda>s. (Inl (RuntimeError ''unresolved observation processing state''), s))
             | OBS_NEW \<Rightarrow> sbind (trade_cycle c now owner obss obs) (\<lambda>_ s. (Inr False, s))
             | _ \<Rightarrow> (\<lambda>s. let s = beat (\<lambda>h. h\<lparr>hb_last_cycle_at := Some now, hb_last_error := None, hb_last_action :=
                   Action (if claim = OBS_DUPLICATE then ''DUPLICATE_IGNORED'' else ''OLD_IGNORED'')\<rparr>) s
                 in sbind (journal (publish_heartbeat (rt_heartbeat s))) (\<lambda>_ s. (Inr True, s)) s))) s))"

text \<open>\<open>type(exc).__name__\<close>; the class of an exception that is not built in precedes its message.\<close>

fun exn_name :: "py_exn \<Rightarrow> string" where
  "exn_name (ValueError s) = ''ValueError''"
| "exn_name (TypeError s) = ''TypeError''"
| "exn_name (RuntimeError s) = ''RuntimeError''"
| "exn_name (KeyError s) = ''KeyError''"
| "exn_name (AttributeError s) = ''AttributeError''"
| "exn_name IndexError = ''IndexError''"
| "exn_name ZeroDivisionError = ''ZeroDivisionError''"
| "exn_name OverflowError = ''OverflowError''"
| "exn_name InvalidOperation = ''InvalidOperation''"
| "exn_name IntegrityError = ''IntegrityError''"
| "exn_name (DatabaseError s) = ''OperationalError''"
| "exn_name (DailyInstrumentCapReached a b c d) = ''DailyInstrumentCapReached''"
| "exn_name (SimulationDailyCapReached a b) = ''SimulationDailyCapReached''"
| "exn_name (PreSubmitOrderRejected s) = ''PreSubmitOrderRejected''"
| "exn_name (OtherException s) = takeWhile (\<lambda>ch. ch \<noteq> CHR '':'') s"

definition failed_cycle :: "'n runtime_config \<Rightarrow> pydatetime \<Rightarrow> py_exn \<Rightarrow> ('n, unit) runtime_op" where
  "failed_cycle c now e s =
     outside (cf_paper_event c ''RUNTIME_ERROR'') (beat (\<lambda>h. h\<lparr>hb_last_cycle_at := Some now,
       hb_last_action := Action (if exn_name e \<in> {''MarketDataError'', ''BrokerConnectionError''} then ''BLOCKED:MARKET_DATA'' else ''ERROR''),
       hb_last_error := Some (exn_name e)\<rparr>) s)"

definition publish_current :: "('n, runtime_heartbeat) runtime_op" where
  "publish_current s = sbind (journal (publish_heartbeat (rt_heartbeat s))) (\<lambda>_ s. (Inr (rt_heartbeat s), s)) s"

definition run_once :: "'n runtime_config \<Rightarrow> bool \<Rightarrow> pydatetime \<Rightarrow> string \<Rightarrow> ('n, runtime_heartbeat) runtime_op" where
  "run_once c locked now owner s =
     (if locked then (Inl (RuntimeError ''paper runtime cycle overlap rejected''), s)
      else (case try_cycle c now owner s of
          (Inr True, s) \<Rightarrow> (Inr (rt_heartbeat s), s)
        | (Inr False, s) \<Rightarrow> publish_current s
        | (Inl e, s) \<Rightarrow> sbind (failed_cycle c now e) (\<lambda>_. publish_current) s))"

section \<open>The loop\<close>

text \<open>One turn of the loop: whether the stop event is set when it is tested, and the inputs of the cycle.\<close>

record runtime_tick =
  rk_stopped :: bool
  rk_locked :: bool
  rk_now :: pydatetime
  rk_owner :: string

definition next_backoff :: "'n runtime_config \<Rightarrow> pyfloat \<Rightarrow> runtime_heartbeat \<Rightarrow> pyfloat" where
  "next_backoff c backoff h =
     (if truthy_text (hb_last_error h) then py_min (cf_max_backoff_seconds c) (backoff * Fin 2) else cf_poll_seconds c)"

text \<open>The waits of the turns, as far as the list goes.\<close>

fun runtime_loop :: "'n runtime_config \<Rightarrow> bool \<Rightarrow> pyfloat \<Rightarrow> runtime_tick list \<Rightarrow> ('n, pyfloat list) runtime_op" where
  "runtime_loop c once backoff [] s = (Inr [], s)"
| "runtime_loop c once backoff (t # ts) s =
     (if rk_stopped t then (Inr [], s)
      else sbind (run_once c (rk_locked t) (rk_now t) (rk_owner t)) (\<lambda>h s.
        if once then (Inr [], s)
        else let b = next_backoff c backoff h in
          sbind (runtime_loop c once b ts) (\<lambda>ws s. (Inr (b # ws), s)) s) s)"

definition runtime_finally :: "'n runtime_config \<Rightarrow> ('n, unit) runtime_op" where
  "runtime_finally c s =
     (let s = beat (\<lambda>h. h\<lparr>hb_running := False, hb_shutdown_state := ''STOPPED''\<rparr>) s
      in sbind (journal (publish_heartbeat (rt_heartbeat s))) (\<lambda>_. outside (cf_paper_event c ''RUNTIME_STOPPED'')) s)"

definition run_runtime :: "'n runtime_config \<Rightarrow> bool \<Rightarrow> pydatetime \<Rightarrow> runtime_tick list \<Rightarrow> ('n, runtime_heartbeat) runtime_op" where
  "run_runtime c once started ticks s =
     (let s = beat (\<lambda>h. h\<lparr>hb_running := True, hb_started_at := Some started, hb_shutdown_state := ''RUNNING''\<rparr>) s in
      sbind (journal (publish_heartbeat (rt_heartbeat s))) (\<lambda>_.
      sbind (outside (cf_paper_event c ''RUNTIME_STARTED'')) (\<lambda>_ s.
        (case runtime_loop c once (cf_poll_seconds c) ticks s of
           (Inl e, s) \<Rightarrow> (case runtime_finally c s of (Inl e', s) \<Rightarrow> (Inl e', s) | (Inr _, s) \<Rightarrow> (Inl e, s))
         | (Inr _, s) \<Rightarrow> sbind (runtime_finally c) (\<lambda>_ s. (Inr (rt_heartbeat s), s)) s))) s)"

section \<open>An observation is claimed once\<close>

datatype journal_event = Began closed_market_observation "observation_claim result" | Completed closed_market_observation | Beat

inductive journal_step :: "journal_db \<Rightarrow> journal_event \<Rightarrow> journal_db \<Rightarrow> bool" where
  began: "begin_observation obs s = (r, t) \<Longrightarrow> journal_step s (Began obs r) t"
| completed: "complete_observation obs s = (r, t) \<Longrightarrow> journal_step s (Completed obs) t"
| beat: "publish_heartbeat h s = (r, t) \<Longrightarrow> journal_step s Beat t"
| read: "read_heartbeat s = (r, t) \<Longrightarrow> journal_step s Beat t"

inductive_cases journal_step_BeganE: "journal_step s (Began obs r) t"

abbreviation observed_row :: "string \<Rightarrow> journal_db \<Rightarrow> observation_row option" where
  "observed_row scp s \<equiv> sel ob_scope scp (jd_rows s)"

lemma sel_put_observation:
  "sel ob_scope scp (put_observation r rows) =
     (if scp = ob_scope r
      then Some (case sel ob_scope scp rows of None \<Rightarrow> r | Some x \<Rightarrow> x\<lparr>ob_closed_at := ob_closed_at r, ob_state := ob_state r\<rparr>)
      else sel ob_scope scp rows)"
  by (auto simp: put_observation_def sel_append sel_upd_where split: option.splits dest: sel_SomeD)

lemma begin_effect:
  assumes "begin_observation obs s = (r, t)"
  obtains (kept) "jd_rows t = jd_rows s" "r \<noteq> Inr OBS_NEW"
  | (claimed) "r = Inr OBS_NEW" "judge_observation (cmo_closed_at obs) (observed_row (observation_scope obs) s) = Inr OBS_NEW"
      "jd_rows t = put_observation \<lparr>ob_scope = observation_scope obs, ob_closed_at = Iso (to_utc (cmo_closed_at obs)),
         ob_state = ''PROCESSING''\<rparr> (jd_rows s)"
proof (cases "r = Inr OBS_NEW")
  case True
  then show thesis using assms
    by (intro claimed) (auto simp: begin_observation_def with_journal_def Let_def
        split: if_splits prod.splits sum.splits observation_claim.splits)
next
  case False
  then show thesis using assms
    by (intro kept) (auto simp: begin_observation_def with_journal_def Let_def
        split: if_splits prod.splits sum.splits observation_claim.splits)
qed

lemma complete_effect:
  assumes "complete_observation obs s = (r, t)"
  shows "jd_rows t = jd_rows s \<or> jd_rows t = upd_where (\<lambda>x. ob_scope x = observation_scope obs) (\<lambda>x. x\<lparr>ob_state := ''COMPLETE''\<rparr>) (jd_rows s)"
  using assms by (auto simp: complete_observation_def with_journal_def split: if_splits)

lemma beat_effect:
  "publish_heartbeat h s = (r, t) \<Longrightarrow> jd_rows t = jd_rows s"
  "read_heartbeat s = (r', t) \<Longrightarrow> jd_rows t = jd_rows s"
  by (auto simp: publish_heartbeat_def read_heartbeat_def with_journal_def split: if_splits)

lemma judge_new:
  assumes "judge_observation d (Some row) = Inr OBS_NEW"
  obtains prior where "ob_closed_at row = Iso prior" "ob_state row \<noteq> ''PROCESSING''" "instant prior < instant d" "tz_aware prior = tz_aware d"
proof (cases "ob_closed_at row")
  case (Iso prior)
  with assms have "dt_less d prior = Inr False" "ob_state row \<noteq> ''PROCESSING''" "\<not> (tz_aware d = tz_aware prior \<and> instant d = instant prior)"
    by (auto simp: judge_observation_def split: if_splits)
  with Iso that show thesis by (cases d; cases prior) auto
qed (use assms in \<open>simp add: judge_observation_def\<close>)

text \<open>The journal has seen the scope up to the time.\<close>

definition seen_until :: "string \<Rightarrow> int \<Rightarrow> journal_db \<Rightarrow> bool" where
  "seen_until scp time s \<longleftrightarrow> (\<exists>row d. observed_row scp s = Some row \<and> ob_closed_at row = Iso d \<and> tz_aware d \<and> time \<le> instant d)"

definition claims_observation :: "string \<Rightarrow> int \<Rightarrow> journal_event \<Rightarrow> bool" where
  "claims_observation scp time ev \<longleftrightarrow> (\<exists>obs. ev = Began obs (Inr OBS_NEW) \<and> observation_scope obs = scp
     \<and> tz_aware (cmo_closed_at obs) \<and> instant (cmo_closed_at obs) = time)"

lemma seen_stays:
  assumes "journal_step s ev t" "seen_until scp time s"
  shows "seen_until scp time t"
  using assms(1)
proof cases
  case (began obs r)
  from began(2) show ?thesis
  proof (cases rule: begin_effect)
    case kept
    with assms(2) show ?thesis by (simp add: seen_until_def)
  next
    case claimed
    show ?thesis
    proof (cases "scp = observation_scope obs")
      case True
      obtain row d where row: "observed_row scp s = Some row" "ob_closed_at row = Iso d" "tz_aware d" "time \<le> instant d"
        using assms(2) by (auto simp: seen_until_def)
      with claimed(2) True have "judge_observation (cmo_closed_at obs) (Some row) = Inr OBS_NEW" by simp
      then have "instant d < instant (cmo_closed_at obs)" "tz_aware (cmo_closed_at obs)"
        by (rule judge_new; use row in simp)+
      with claimed(3) True row show ?thesis by (simp add: seen_until_def sel_put_observation)
    qed (use claimed(3) assms(2) in \<open>simp add: seen_until_def sel_put_observation\<close>)
  qed
next
  case (completed obs r)
  from complete_effect [OF completed(2)] assms(2) show ?thesis
    by (auto simp: seen_until_def sel_upd_where)
qed (use assms(2) in \<open>auto simp: seen_until_def dest: beat_effect\<close>)

interpretation observed_once: once_only journal_step "claims_observation scp time" "seen_until scp time" for scp time
proof
  fix s ev t assume st: "journal_step s ev t"
  show "seen_until scp time s \<Longrightarrow> seen_until scp time t" by (rule seen_stays [OF st])
  assume "claims_observation scp time ev"
  then obtain obs where obs: "ev = Began obs (Inr OBS_NEW)" "observation_scope obs = scp" "tz_aware (cmo_closed_at obs)"
    "instant (cmo_closed_at obs) = time" by (auto simp: claims_observation_def)
  with st have "begin_observation obs s = (Inr OBS_NEW, t)" by (auto elim: journal_step_BeganE)
  then show "\<not> seen_until scp time s \<and> seen_until scp time t"
  proof (cases rule: begin_effect)
    case claimed
    have "\<not> seen_until scp time s"
    proof
      assume "seen_until scp time s"
      then obtain row d where row: "observed_row scp s = Some row" "ob_closed_at row = Iso d" "time \<le> instant d"
        by (auto simp: seen_until_def)
      with claimed(2) obs(2) have "judge_observation (cmo_closed_at obs) (Some row) = Inr OBS_NEW" by simp
      then show False by (rule judge_new) (use row obs(4) in simp)
    qed
    with claimed(3) obs show ?thesis by (auto simp: seen_until_def sel_put_observation split: option.splits)
  qed simp
qed

text \<open>C13. Each observation is claimed at most once: in every history of the journal, by any number of runtimes
  that begin and complete observations and publish heartbeats, of the calls that begin an observation with one
  symbol, timeframe and closing time at most one is told that it is new.\<close>

theorem observation_claimed_once:
  assumes "run journal_step s evs t"
  shows "length (filter (claims_observation (observation_scope obs) (instant (cmo_closed_at obs))) evs) \<le> 1"
  using observed_once.granted_once [OF assms] by blast

section \<open>What a cycle keeps\<close>

definition keeps :: "('s \<Rightarrow> 's \<Rightarrow> bool) \<Rightarrow> ('s \<Rightarrow> 'a \<times> 's) \<Rightarrow> bool" where
  "keeps R m \<longleftrightarrow> (\<forall>s. R s (snd (m s)))"

text \<open>A relation between states that the elementary steps of a cycle respect, whatever the callbacks do. The
  steps after an observation has been claimed then respect it together.\<close>

locale cycle_relation =
  fixes R :: "'n paper_runtime \<Rightarrow> 'n paper_runtime \<Rightarrow> bool"
  assumes reflexive: "R s s"
    and transitive: "R s t \<Longrightarrow> R t u \<Longrightarrow> R s u"
    and env_step: "R s (s\<lparr>rt_env := e\<rparr>)"
    and beat_step: "R s (beat f s)"
    and observe_step: "R s (s\<lparr>rt_engine := snd (observe_contract cid obs sx fc (rt_engine s))\<rparr>)"
    and submit_step: "pg_engine venue = rt_engine s \<Longrightarrow> R s (snd (submit_entry rm owner entry venue s))"
    and complete_step: "R s (s\<lparr>rt_journal := snd (complete_observation obs (rt_journal s))\<rparr>)"
    and publish_step: "R s (s\<lparr>rt_journal := snd (publish_heartbeat h (rt_journal s))\<rparr>)"
begin

lemma keeps_sbind:
  assumes "keeps R m" "\<And>x. keeps R (f x)"
  shows "keeps R (sbind m f)"
proof -
  have "R s (snd (sbind m f s))" for s
  proof -
    obtain r t where m: "m s = (r, t)" by fastforce
    have t: "R s t" using assms(1) m by (auto simp: keeps_def dest: spec [of _ s])
    show ?thesis
    proof (cases r)
      case (Inr x)
      have "R t (snd (f x t))" using assms(2) [of x] by (simp add: keeps_def)
      with t Inr m show ?thesis by (auto simp: sbind_def intro: transitive)
    qed (use m t in \<open>simp add: sbind_def\<close>)
  qed
  then show ?thesis by (simp add: keeps_def)
qed

lemma sbind_at: "keeps R m \<Longrightarrow> (\<And>x. keeps R (f x)) \<Longrightarrow> R s (snd (sbind m f s))"
  using keeps_sbind unfolding keeps_def by blast

lemma keeps_outside: "keeps R (outside f)"
  by (auto simp: keeps_def outside_def env_step split: prod.split)

lemma keeps_complete: "keeps R (journal (complete_observation obs))"
proof -
  have "R s (snd (journal (complete_observation obs) s))" for s
    using complete_step [of s obs] by (cases "complete_observation obs (rt_journal s)") (simp add: journal_def)
  then show ?thesis by (simp add: keeps_def)
qed

lemma keeps_publish: "keeps R (journal (publish_heartbeat h))"
proof -
  have "R s (snd (journal (publish_heartbeat h) s))" for s
    using publish_step [of s h] by (cases "publish_heartbeat h (rt_journal s)") (simp add: journal_def)
  then show ?thesis by (simp add: keeps_def)
qed

lemma keeps_observe: "keeps R (on_engine (observe_contract cid obs sx fc))"
proof -
  have "R s (snd (on_engine (observe_contract cid obs sx fc) s))" for s
    using observe_step [of s cid obs sx fc] by (cases "observe_contract cid obs sx fc (rt_engine s)") (simp add: on_engine_def)
  then show ?thesis by (simp add: keeps_def)
qed

lemma keeps_positions: "keeps R (observe_positions c obs ps n)"
proof (induction ps arbitrary: n)
  case (Cons p ps)
  have rest: "keeps R (sbind (outside (cf_paper_event c (exit_reason_value (cl_reason x)))) (\<lambda>_.
      sbind (outside (cf_paper_event c ''CLOSED'')) (\<lambda>_. observe_positions c obs ps (Suc n))))" for x :: paper_close
    by (intro keeps_sbind keeps_outside Cons.IH)
  have close: "keeps R (\<lambda>s. if prc_state (paper_reconcile (rt_engine s) (pp_contract_id p)) \<noteq> CONTRACT_CLOSED
      then (Inl (RuntimeError ''paper reconciliation mismatch''), s)
      else sbind (outside (cf_paper_event c (exit_reason_value (cl_reason x)))) (\<lambda>_.
        sbind (outside (cf_paper_event c ''CLOSED'')) (\<lambda>_. observe_positions c obs ps (Suc n))) s)" for x :: paper_close
    using rest [of x] by (auto simp: keeps_def reflexive)
  have after: "keeps R (case closed of None \<Rightarrow> observe_positions c obs ps n
      | Some x \<Rightarrow> (\<lambda>s. if prc_state (paper_reconcile (rt_engine s) (pp_contract_id p)) \<noteq> CONTRACT_CLOSED
        then (Inl (RuntimeError ''paper reconciliation mismatch''), s)
        else sbind (outside (cf_paper_event c (exit_reason_value (cl_reason x)))) (\<lambda>_.
          sbind (outside (cf_paper_event c ''CLOSED'')) (\<lambda>_. observe_positions c obs ps (Suc n))) s))" for closed :: "paper_close option"
    by (cases closed) (simp_all only: option.case close Cons.IH)
  have "R s (snd (observe_positions c obs (p # ps) n s))" for s
    using Cons.IH [of n] sbind_at [OF keeps_observe after, of s "pp_contract_id p" obs False False]
    by (simp add: keeps_def)
  then show ?case by (simp add: keeps_def)
qed (simp add: keeps_def reflexive)

lemma keeps_return: "keeps R (\<lambda>s. (r, s))"
  by (simp add: keeps_def reflexive)

lemma keeps_entry: "keeps R (process_entry c now owner obs entry)"
proof -
  have "keeps R (\<lambda>s. case rbind (dec_of_pyval (int_authorized_risk_amount (pn_intent entry))) (\<lambda>risk.
             rbind (dec_of_pyval (int_entry (pn_intent entry))) (\<lambda>price.
             make_paper_gateway (rt_engine s) obs now risk (Some price))) of
          Inl e \<Rightarrow> (Inl e, s)
        | Inr venue \<Rightarrow> sbind (submit_entry (cf_recovery_mode c) owner entry venue) (\<lambda>x.
            case entry_outcome x of (action, error, kind) \<Rightarrow>
              sbind (outside (cf_paper_event c kind)) (\<lambda>_ s.
                (Inr (action, signal_text (int_side (pn_intent entry)), error), s))) s)"
    unfolding keeps_def
  proof
    fix s :: "'n paper_runtime"
    let ?v = "rbind (dec_of_pyval (int_authorized_risk_amount (pn_intent entry))) (\<lambda>risk.
             rbind (dec_of_pyval (int_entry (pn_intent entry))) (\<lambda>price.
             make_paper_gateway (rt_engine s) obs now risk (Some price)))"
    let ?k = "\<lambda>x. case entry_outcome x of (action, error, kind) \<Rightarrow>
              sbind (outside (cf_paper_event c kind)) (\<lambda>_ s.
                (Inr (action, signal_text (int_side (pn_intent entry)), error), s))"
    have k: "keeps R (?k x)" for x
      by (simp add: keeps_sbind keeps_outside keeps_return split: prod.split)
    show "R s (snd (case ?v of Inl e \<Rightarrow> (Inl e, s)
        | Inr venue \<Rightarrow> sbind (submit_entry (cf_recovery_mode c) owner entry venue) ?k s))"
    proof (cases ?v)
      case (Inr venue)
      then have "pg_engine venue = rt_engine s" by (auto simp: make_paper_gateway_def split: if_splits)
      from submit_step [OF this] obtain r t
        where t: "submit_entry (cf_recovery_mode c) owner entry venue s = (r, t)" "R s t" by (metis surj_pair snd_conv)
      show ?thesis
      proof (cases r)
        case (Inr x)
        have "R t (snd (?k x t))" using k [of x] unfolding keeps_def by blast
        with t Inr show ?thesis unfolding \<open>?v = Inr venue\<close> by (simp add: sbind_def transitive)
      qed (simp add: \<open>?v = Inr venue\<close> sbind_def t)
    qed (simp add: reflexive)
  qed
  then show ?thesis unfolding process_entry_def by (intro keeps_sbind keeps_outside)
qed

lemma keeps_finish: "keeps R (finish_cycle c now obs outcome)"
  unfolding finish_cycle_def
  by (intro keeps_sbind keeps_complete) (simp add: keeps_def beat_step split: prod.split)

lemma trade_cycle_keeps: "R s (snd (trade_cycle c now owner obss obs s))"
  unfolding trade_cycle_def
  by (intro sbind_at keeps_positions keeps_sbind keeps_outside keeps_finish)
    (simp add: keeps_return keeps_entry split: option.split)

lemma failed_cycle_keeps: "keeps R (failed_cycle c now e)"
proof -
  have "R s (snd (failed_cycle c now e s))" for s
    unfolding failed_cycle_def using keeps_outside unfolding keeps_def by (blast intro: transitive beat_step)
  then show ?thesis by (simp add: keeps_def)
qed

lemma publish_current_keeps: "keeps R publish_current"
proof -
  have "R s (snd (publish_current s))" for s :: "'n paper_runtime"
    unfolding publish_current_def by (intro sbind_at keeps_publish) (simp add: keeps_def reflexive)
  then show ?thesis by (simp add: keeps_def)
qed

end

text \<open>Claiming an observation is respected too: then whole runs are.\<close>

locale runtime_relation = cycle_relation R for R :: "'n paper_runtime \<Rightarrow> 'n paper_runtime \<Rightarrow> bool" +
  assumes begin_step: "R s (s\<lparr>rt_journal := snd (begin_observation obs (rt_journal s))\<rparr>)"
begin

lemma keeps_begin: "keeps R (journal (begin_observation obs))"
proof -
  have "R s (snd (journal (begin_observation obs) s))" for s
    using begin_step [of s obs] by (cases "begin_observation obs (rt_journal s)") (simp add: journal_def)
  then show ?thesis by (simp add: keeps_def)
qed

lemma keeps_ignored: "keeps R (\<lambda>s. let s = beat f s in sbind (journal (publish_heartbeat (rt_heartbeat s))) (\<lambda>_ s. (Inr b, s)) s)"
proof -
  have "R (beat f s) (snd (sbind (journal (publish_heartbeat (rt_heartbeat (beat f s)))) (\<lambda>_ s. (Inr b, s)) (beat f s)))" for s
    by (intro sbind_at keeps_publish keeps_return)
  then show ?thesis unfolding keeps_def Let_def by (blast intro: transitive beat_step)
qed

lemma keeps_claim:
  "keeps R (case claim of
     OBS_UNRESOLVED \<Rightarrow> (\<lambda>s. (Inl (RuntimeError ''unresolved observation processing state''), s))
   | OBS_NEW \<Rightarrow> sbind (trade_cycle c now owner obss obs) (\<lambda>_ s. (Inr False, s))
   | _ \<Rightarrow> (\<lambda>s. let s = beat (\<lambda>h. h\<lparr>hb_last_cycle_at := Some now, hb_last_error := None, hb_last_action :=
         Action (if claim = OBS_DUPLICATE then ''DUPLICATE_IGNORED'' else ''OLD_IGNORED'')\<rparr>) s
       in sbind (journal (publish_heartbeat (rt_heartbeat s))) (\<lambda>_ s. (Inr True, s)) s))"
proof -
  have "keeps R (trade_cycle c now owner obss obs)" by (simp add: keeps_def trade_cycle_keeps)
  then have "keeps R (sbind (trade_cycle c now owner obss obs) (\<lambda>_ s. (Inr False, s)))"
    by (intro keeps_sbind keeps_return)
  then show ?thesis using keeps_return keeps_ignored by (cases claim) simp_all
qed

lemma keeps_try: "keeps R (try_cycle c now owner)"
  unfolding try_cycle_def
proof (intro keeps_sbind keeps_outside)
  fix obss
  show "keeps R (\<lambda>s. case accepted_observation now obss of Inl e \<Rightarrow> (Inl e, s)
      | Inr obs \<Rightarrow> sbind (journal (begin_observation obs)) (\<lambda>claim.
          (case claim of
             OBS_UNRESOLVED \<Rightarrow> (\<lambda>s. (Inl (RuntimeError ''unresolved observation processing state''), s))
           | OBS_NEW \<Rightarrow> sbind (trade_cycle c now owner obss obs) (\<lambda>_ s. (Inr False, s))
           | _ \<Rightarrow> (\<lambda>s. let s = beat (\<lambda>h. h\<lparr>hb_last_cycle_at := Some now, hb_last_error := None, hb_last_action :=
                 Action (if claim = OBS_DUPLICATE then ''DUPLICATE_IGNORED'' else ''OLD_IGNORED'')\<rparr>) s
               in sbind (journal (publish_heartbeat (rt_heartbeat s))) (\<lambda>_ s. (Inr True, s)) s))) s)"
    using keeps_return keeps_sbind [OF keeps_begin keeps_claim]
    by (cases "accepted_observation now obss") simp_all
qed

lemma keeps_run_once: "keeps R (run_once c locked now owner)"
proof -
  have "R s (snd (run_once c locked now owner s))" for s
  proof -
    obtain r t where t: "try_cycle c now owner s = (r, t)" by fastforce
    have st: "R s t" using keeps_try t by (metis keeps_def snd_conv)
    have "R t (snd (publish_current t))" "R t (snd (sbind (failed_cycle c now e) (\<lambda>_. publish_current) t))" for e
      using publish_current_keeps sbind_at [OF failed_cycle_keeps publish_current_keeps] by (simp_all add: keeps_def)
    with st show ?thesis
      by (auto simp: run_once_def t reflexive intro: transitive split: sum.split bool.split)
  qed
  then show ?thesis by (simp add: keeps_def)
qed

lemma keeps_loop: "keeps R (runtime_loop c once backoff ticks)"
proof (induction ticks arbitrary: backoff)
  case (Cons t ts)
  have "keeps R (\<lambda>s. if once then (Inr [], s) else let b = next_backoff c backoff h in
          sbind (runtime_loop c once b ts) (\<lambda>ws s. (Inr (b # ws), s)) s)" for h
  proof (cases once)
    case False
    let ?b = "next_backoff c backoff h"
    have "keeps R (sbind (runtime_loop c once ?b ts) (\<lambda>ws s. (Inr (?b # ws), s)))"
      by (intro keeps_sbind Cons.IH keeps_return)
    with False show ?thesis by (simp add: Let_def)
  qed (simp add: keeps_return)
  from keeps_sbind [OF keeps_run_once this] show ?case by (simp add: keeps_def reflexive)
qed (simp add: keeps_def reflexive)

lemma keeps_finally: "keeps R (runtime_finally c)"
proof -
  have "R s (snd (runtime_finally c s))" for s
  proof -
    let ?s = "beat (\<lambda>h. h\<lparr>hb_running := False, hb_shutdown_state := ''STOPPED''\<rparr>) s"
    have "R ?s (snd (sbind (journal (publish_heartbeat (rt_heartbeat ?s))) (\<lambda>_. outside (cf_paper_event c ''RUNTIME_STOPPED'')) ?s))"
      by (intro sbind_at keeps_publish keeps_outside)
    then show ?thesis unfolding runtime_finally_def Let_def by (blast intro: transitive beat_step)
  qed
  then show ?thesis by (simp add: keeps_def)
qed

lemma run_runtime_keeps:
  fixes c :: "'n runtime_config"
  shows "R s (snd (run_runtime c once started ticks s))"
proof -
  have loop: "keeps R (\<lambda>s. case runtime_loop c once (cf_poll_seconds c) ticks s of
           (Inl e, s) \<Rightarrow> (case runtime_finally c s of (Inl e', s) \<Rightarrow> (Inl e', s) | (Inr _, s) \<Rightarrow> (Inl e, s))
         | (Inr _, s) \<Rightarrow> sbind (runtime_finally c) (\<lambda>_ s. (Inr (rt_heartbeat s), s)) s)"
    unfolding keeps_def
  proof
    fix s :: "'n paper_runtime"
    obtain r t where t: "runtime_loop c once (cf_poll_seconds c) ticks s = (r, t)" by fastforce
    obtain q u where u: "runtime_finally c t = (q, u)" by fastforce
    have "R s t" "R t u" using keeps_loop t keeps_finally u by (metis keeps_def snd_conv)+
    moreover have "R u (beat id u)" by (rule beat_step)
    ultimately show "R s (snd (case runtime_loop c once (cf_poll_seconds c) ticks s of
           (Inl e, s) \<Rightarrow> (case runtime_finally c s of (Inl e', s) \<Rightarrow> (Inl e', s) | (Inr _, s) \<Rightarrow> (Inl e, s))
         | (Inr _, s) \<Rightarrow> sbind (runtime_finally c) (\<lambda>_ s. (Inr (rt_heartbeat s), s)) s))"
      by (auto simp: t u sbind_def intro: transitive split: sum.split)
  qed
  let ?s = "beat (\<lambda>h. h\<lparr>hb_running := True, hb_started_at := Some started, hb_shutdown_state := ''RUNNING''\<rparr>) s"
  have "R ?s (snd (run_runtime c once started ticks s))"
    unfolding run_runtime_def Let_def by (intro sbind_at keeps_publish keeps_sbind keeps_outside loop)
  then show ?thesis by (blast intro: transitive beat_step)
qed

end

section \<open>A submission through the executor\<close>

text \<open>Without a reconciler and callbacks, all a submission does to the world outside the store is to call the
  gateway: a relation that both its calls respect relates the ends.\<close>

lemma env_steps:
  "w_env (log_event ev w) = w_env w"
  "w_env (snd (timed f w)) = w_env w"
  "w_env (snd (stored h w)) = w_env w"
  "w_env (snd (record_transition i st oid tid w)) = w_env w"
  "w_env (snd (claim_intent i ctx scp owner w)) = w_env w"
  by (auto simp: log_event_def timed_def stored_def record_transition_def claim_intent_def split: prod.split sum.split)

lemma env_pairs:
  "timed f w = (r1, w') \<Longrightarrow> w_env w' = w_env w"
  "stored h w = (r2, w') \<Longrightarrow> w_env w' = w_env w"
  "record_transition i st oid tid w = (r3, w') \<Longrightarrow> w_env w' = w_env w"
  "claim_intent i ctx scp owner w = (r4, w') \<Longrightarrow> w_env w' = w_env w"
  by (metis env_steps(2) snd_conv, metis env_steps(3) snd_conv, metis env_steps(4) snd_conv, metis env_steps(5) snd_conv)

definition gateway_only :: "'g dependencies \<Rightarrow> bool" where
  "gateway_only g \<longleftrightarrow> gw_reconcile g = None \<and> gw_before_submit g = None \<and> gw_context_provider g = None \<and> gw_after_submit g = None"

locale gateway_relation =
  fixes R :: "'g \<Rightarrow> 'g \<Rightarrow> bool" and g :: "'g dependencies"
  assumes refl: "R e e" and trans: "R a b \<Longrightarrow> R b d \<Longrightarrow> R a d"
    and positions: "R e (fst (snd (gw_get_positions g e s)))"
    and order: "R e (fst (snd (gw_submit_order g ord e s)))"
    and only: "gateway_only g"
begin

lemma env_positions: "read_positions g w = (r, w') \<Longrightarrow> R (w_env w) (w_env w')"
  using positions [of "w_env w" "w_store w"] by (auto simp: read_positions_def await_def log_event_def split: prod.splits)

lemma env_reconcile:
  assumes "reconcile g i ps w = (r, w')"
  shows "R (w_env w) (w_env w')"
proof -
  have observed: "w_env (snd (reconcile_observed g i f obs v)) = w_env v" for f obs v
    using only by (auto simp: gateway_only_def reconcile_observed_def reconcile_record_def Let_def split: option.split)
  obtain r1 w1 where s: "stored (store_get (int_idempotency_key i)) w = (r1, w1)" by fastforce
  obtain r2 w2 where p: "read_positions g w1 = (r2, w2)" by fastforce
  have "w_env w' = w_env w1 \<or> w_env w' = w_env w2"
    using assms observed
    by (auto simp: reconcile_def s p split: sum.splits option.splits intent_status.splits) (metis snd_conv)+
  with env_pairs(2) [OF s] env_positions [OF p] show ?thesis by (auto simp: refl)
qed

lemma env_send:
  assumes "send_order g i d ord w = (r, w')"
  shows "R (w_env w) (w_env w')"
proof -
  obtain x w1 where a: "await (gw_submit_order g ord) (log_event (OrderSent ord) w) = (x, w1)" by fastforce
  have "R (w_env w) (w_env w1)" using order [of "w_env w" ord "w_store w"] a
    by (auto simp: await_def log_event_def split: prod.splits)
  moreover have "\<exists>st oid tid b. record_transition i st oid tid w1 = (b, w')"
    using assms unfolding send_order_def a prod.case
    by (auto simp: Let_def split: sum.splits py_exn.splits prod.splits if_splits)
  ultimately show ?thesis using env_pairs(3) by metis
qed

lemma env_claim_and_send:
  assumes "claim_and_send g i ctx d scp owner w = (r, w')"
  shows "R (w_env w) (w_env w')"
proof -
  obtain cl w1 where c: "claim_intent i ctx scp owner w = (cl, w1)" by fastforce
  have "w' = w1 \<or> (\<exists>x. reconcile g i None w1 = (x, w')) \<or> (\<exists>o' y. send_order g i d o' w1 = (y, w'))"
    using assms by (auto simp: claim_and_send_def c as_result_def split: sum.splits if_splits prod.splits)
  with env_pairs(4) [OF c] show ?thesis using env_reconcile env_send refl by metis
qed

lemma env_submit_allowed:
  assumes "submit_allowed g i ctx d ps scp owner w = (r, w')"
  shows "R (w_env w) (w_env w')"
proof -
  obtain x w1 where c: "reconcile g i ps w = (x, w1)" by fastforce
  have "w' = w1 \<or> claim_and_send g i ctx d scp owner w1 = (r, w')"
    using assms only by (auto simp: submit_allowed_def c callback_def gateway_only_def split: sum.splits if_splits)
  with env_reconcile [OF c] show ?thesis using env_claim_and_send trans by blast
qed

lemma env_submit_reserved:
  assumes "submit_reserved g i ctx scp owner w = (r, w')"
  shows "R (w_env w) (w_env w')"
proof -
  obtain x w1 where c: "read_positions g w = (x, w1)" by fastforce
  have "w' = w1 \<or> (\<exists>d ps. submit_allowed g i ctx d ps scp owner w1 = (r, w'))"
    using assms by (auto simp: submit_reserved_def c Let_def split: sum.splits if_splits)
  with env_positions [OF c] show ?thesis using env_submit_allowed trans by blast
qed

lemma env_submit: "R (w_env w) (w_env (snd (submit g i ctx owner w)))"
proof -
  let ?scp = "submission_scope ctx"
  obtain x w1 where a: "timed (acquire_reservation ?scp owner (gw_lease_seconds g) (int_idempotency_key i)) w = (x, w1)" by fastforce
  obtain y w2 where r: "submit_reserved g i ctx ?scp owner w1 = (y, w2)" by fastforce
  have held: "submit_held g i ctx ?scp owner w1 = (y, w2)"
    using only by (auto simp: submit_held_def gateway_only_def r callback_def split: sum.split)
  obtain z w3 where l: "stored (release_reservation ?scp owner) w2 = (z, w3)" by fastforce
  have "R (w_env w) (w_env w3)" using env_submit_reserved [OF r] env_pairs(1) [OF a] env_pairs(2) [OF l] by simp
  then show ?thesis using env_pairs(1) [OF a] refl
    by (auto simp: submit_def Let_def a held release_after_def l split: sum.split)
qed

end

text \<open>The paper gateway's books.\<close>

interpretation paper_venue: gateway_relation "\<lambda>a b. keeps_books (pg_engine a) (pg_engine b)" "paper_dependencies rm" for rm
proof
  show "keeps_books (pg_engine e) (pg_engine (fst (snd (gw_submit_order (paper_dependencies rm) ord e s))))" for e :: paper_gateway and ord s
    using keeps_books_submit [of e ord] by (auto simp: paper_dependencies_def split: prod.split)
qed (auto simp: paper_dependencies_def gateway_only_def keeps_books_refl intro: keeps_books_trans)

lemma submit_entry_books:
  assumes "pg_engine venue = rt_engine s"
  shows "keeps_books (rt_engine s) (rt_engine (snd (submit_entry rm owner entry venue s)))"
  using paper_venue.env_submit [of "\<lparr>w_store = rt_records s, w_env = venue, w_clock = rt_clock s, w_ticks = rt_ticks s, w_log = []\<rparr>"
      rm "pn_intent entry" "Some (pn_context entry)" owner] assms
  by (auto simp: submit_entry_def split: prod.split)

interpretation runtime_books: runtime_relation "\<lambda>s t. keeps_books (rt_engine s) (rt_engine t)"
  by unfold_locales (auto simp: beat_def keeps_books_refl keeps_books_observe submit_entry_books intro: keeps_books_trans)

text \<open>The times of the journal: only claiming changes them.\<close>

definition journal_times :: "journal_db \<Rightarrow> string \<Rightarrow> iso_text option" where
  "journal_times j scp = map_option ob_closed_at (observed_row scp j)"

lemma journal_times_steps:
  "journal_times (snd (complete_observation obs j)) = journal_times j"
  "journal_times (snd (publish_heartbeat h j)) = journal_times j"
proof -
  obtain r t where c: "complete_observation obs j = (r, t)" by fastforce
  have "journal_times t scp = journal_times j scp" for scp
    using complete_effect [OF c] by (cases "observed_row scp j") (auto simp: journal_times_def sel_upd_where)
  then show "journal_times (snd (complete_observation obs j)) = journal_times j" by (simp add: c fun_eq_iff)
  obtain r' t' where p: "publish_heartbeat h j = (r', t')" by fastforce
  show "journal_times (snd (publish_heartbeat h j)) = journal_times j"
    using beat_effect(1) [OF p] by (simp add: p journal_times_def fun_eq_iff)
qed

interpretation claimed_times: cycle_relation "\<lambda>s t. journal_times (rt_journal t) = journal_times (rt_journal s)"
  by unfold_locales (auto simp: beat_def journal_times_steps submit_entry_def split: prod.split)

section \<open>Cycles that trade\<close>

lemma try_cycle_untouched:
  assumes "try_cycle c now owner s = (r, t)"
  obtains (untouched) "rt_engine t = rt_engine s" "rt_records t = rt_records s"
  | (claimed) obs where "judge_observation (cmo_closed_at obs) (observed_row (observation_scope obs) (rt_journal s)) = Inr OBS_NEW"
      "journal_times (rt_journal t) (observation_scope obs) = Some (Iso (to_utc (cmo_closed_at obs)))"
proof -
  obtain x e where src: "outside (cf_source c) s = (x, s\<lparr>rt_env := e\<rparr>)"
    by (cases "cf_source c (rt_env s)") (simp add: outside_def)
  consider (none) "t = s\<lparr>rt_env := e\<rparr>" | (some) obss obs where "x = Inr obss" "accepted_observation now obss = Inr obs"
    using assms by (auto simp: try_cycle_def sbind_def src split: sum.splits)
  then show thesis
  proof cases
    case some
    obtain b j where b: "begin_observation obs (rt_journal s) = (b, j)" by fastforce
    let ?s = "s\<lparr>rt_env := e, rt_journal := j\<rparr>"
    show thesis
    proof (cases "b = Inr OBS_NEW")
      case True
      have j: "journal_times j (observation_scope obs) = Some (Iso (to_utc (cmo_closed_at obs)))"
        and new: "judge_observation (cmo_closed_at obs) (observed_row (observation_scope obs) (rt_journal s)) = Inr OBS_NEW"
        using b by (cases rule: begin_effect; simp add: True journal_times_def sel_put_observation split: option.split)+
      have "t = snd (trade_cycle c now owner obss obs ?s)"
        using assms some b True by (auto simp: try_cycle_def sbind_def src journal_def split: sum.splits prod.splits)
      then have "journal_times (rt_journal t) = journal_times j"
        using claimed_times.trade_cycle_keeps [where s = ?s and c = c and now = now and owner = owner and obss = obss and obs = obs] by simp
      with j new show thesis by (intro claimed) simp_all
    next
      case False
      then have "rt_engine t = rt_engine s \<and> rt_records t = rt_records s"
        using assms some b by (auto simp: try_cycle_def sbind_def src journal_def beat_def Let_def
            split: sum.splits prod.splits observation_claim.splits)
      then show thesis by (intro untouched) simp_all
    qed
  qed (auto intro: untouched)
qed


text \<open>Through any run of the runtime, with every submission going through the executor and its store, the
  books of the paper engine stay consistent and a recorded close stays as it is.\<close>

theorem paper_runtime_keeps_closes:
  assumes "run_runtime c once started ticks s = (r, t)" "engine_inv (rt_engine s)"
    and "map_of (pe_closes (rt_engine s)) k = Some x"
  shows "engine_inv (rt_engine t) \<and> map_of (pe_closes (rt_engine t)) k = Some x
    \<and> paper_reconcile (rt_engine t) k = \<lparr>prc_state = CONTRACT_CLOSED, prc_contract_id = k, prc_close_id = Some (cl_close_id x),
         prc_realized_profit = Some (cl_realized_profit x)\<rparr>"
proof -
  have "keeps_books (rt_engine s) (rt_engine t)"
    using runtime_books.run_runtime_keeps [where s = s and c = c and once = once and started = started and ticks = ticks]
    by (simp add: assms(1))
  with assms(2) obtain added where a: "engine_inv (rt_engine t)" "pe_closes (rt_engine t) = pe_closes (rt_engine s) @ added"
    by (auto simp: keeps_books_def)
  with assms(3) have "map_of (pe_closes (rt_engine t)) k = Some x"
    by (auto simp: engine_inv_def map_add_Some_iff dest!: map_of_SomeD intro!: map_of_is_SomeI)
  with a(1) closed_entry(1) [OF a(1) this] show ?thesis by simp
qed

lemma next_backoff_bounds:
  assumes "cf_poll_seconds c = Fin p" "cf_max_backoff_seconds c = Fin m" "is_double (Fin p)" "is_double (Fin m)" "0 \<le> p" "p \<le> m"
    and "backoff = Fin b" "is_double backoff" "p \<le> b" "b \<le> m"
  obtains w where "next_backoff c backoff h = Fin w" "is_double (Fin w)" "p \<le> w" "w \<le> m"
proof (cases "truthy_text (hb_last_error h) \<and> backoff * Fin 2 < Fin m")
  case False
  then have "next_backoff c backoff h = Fin p \<or> next_backoff c backoff h = Fin m"
    using assms(1,2) by (auto simp: next_backoff_def py_min_def)
  then show thesis using assms(3-6) that by auto
next
  case True
  have "Fin b \<le> fl (b * 2)"
    using fl_mono [of b "b * 2"] assms(5,7,8,9) by (simp add: is_double_def)
  with True assms(7) obtain w where w: "fl (b * 2) = Fin w" "b \<le> w" "w < m" by (cases "fl (b * 2)") auto
  have "is_double (Fin w)" using is_double_fl [of "b * 2"] w(1) by simp
  with True w assms show thesis by (intro that [of w]) (auto simp: next_backoff_def py_min_def)
qed

text \<open>The waits between cycles are bounded: with a configuration the constructor accepts, finite and with the
  polling interval at most the maximal wait, every wait of a run is at least the polling interval and at most the
  maximal backoff, however many cycles fail.\<close>

theorem paper_backoff_bounded:
  assumes "cf_poll_seconds c = Fin p" "cf_max_backoff_seconds c = Fin m" "is_double (Fin p)" "is_double (Fin m)" "1 \<le> p" "p \<le> m"
    and "runtime_loop c once (cf_poll_seconds c) ticks s = (Inr ws, t)"
  shows "\<forall>w \<in> set ws. Fin p \<le> w \<and> w \<le> Fin m"
proof -
  have "\<forall>w \<in> set ws. Fin p \<le> w \<and> w \<le> Fin m"
    if "runtime_loop c once backoff ticks s = (Inr ws, t)" "backoff = Fin b" "is_double backoff" "p \<le> b" "b \<le> m" for backoff b
    using that
  proof (induction ticks arbitrary: backoff b s ws)
    case (Cons k ks)
    show ?case
    proof (cases "rk_stopped k \<or> once")
      case False
      obtain r u where r: "run_once c (rk_locked k) (rk_now k) (rk_owner k) s = (r, u)" by fastforce
      with Cons.prems False obtain h vs where h: "r = Inr h"
        "runtime_loop c once (next_backoff c backoff h) ks u = (Inr vs, t)" "ws = next_backoff c backoff h # vs"
        by (auto simp: sbind_def Let_def split: sum.splits prod.splits)
      obtain w where w: "next_backoff c backoff h = Fin w" "is_double (Fin w)" "p \<le> w" "w \<le> m"
        using next_backoff_bounds [OF assms(1-4) _ assms(6) Cons.prems(2-5), of h] assms(5) by auto
      from Cons.IH [OF h(2) w(1) _ w(3,4)] w h(3) show ?thesis by auto
    qed (use Cons.prems in \<open>auto simp: sbind_def split: if_splits sum.splits prod.splits\<close>)
  qed simp
  from this [OF assms(7) assms(1)] assms(1,3,6) show ?thesis by simp
qed

section \<open>Concrete cycles\<close>

definition sample_config :: "closed_market_observation list result \<Rightarrow> unit runtime_config" where
  "sample_config obss = \<lparr>cf_source = (\<lambda>e. (obss, e)), cf_decide = (\<lambda>_ e. (Inr None, e)), cf_paper_event = (\<lambda>_ e. (Inr (), e)),
     cf_notification_state = (\<lambda>_. ''DISABLED''), cf_recovery_mode = False, cf_poll_seconds = Fin 1, cf_max_backoff_seconds = Fin 4\<rparr>"

definition sample_runtime :: "paper_engine \<Rightarrow> unit paper_runtime" where
  "sample_runtime e = \<lparr>rt_engine = e, rt_records = empty_db, rt_journal = \<lparr>jd_rows = [], jd_heartbeat = None, jd_outages = []\<rparr>,
     rt_heartbeat = default_heartbeat, rt_env = (), rt_clock = (\<lambda>_. Aware 0 0), rt_ticks = 0\<rparr>"

abbreviation stop_candle :: closed_market_observation where
  "stop_candle \<equiv> sample_candle 60000000 (Fin 5) (Fin 6) (Fin 3) (Fin 4)"

theorem observation_claimed_once_witness:
  "\<exists>evs t. run journal_step \<lparr>jd_rows = [], jd_heartbeat = None, jd_outages = []\<rparr> evs t \<and> length evs = 2
     \<and> length (filter (claims_observation (observation_scope stop_candle) (instant (cmo_closed_at stop_candle))) evs) \<le> 1"
proof -
  let ?s = "\<lparr>jd_rows = [], jd_heartbeat = None, jd_outages = []\<rparr>"
  obtain t where b: "begin_observation stop_candle ?s = (Inr OBS_NEW, t)"
    by (simp add: begin_observation_def with_journal_def Let_def judge_observation_def)
  obtain r u where "begin_observation stop_candle t = (r, u)" by fastforce
  with b have r: "run journal_step ?s [Began stop_candle (Inr OBS_NEW), Began stop_candle r] u"
    by (blast intro: run.intros journal_step.intros)
  from observation_claimed_once [OF r, of stop_candle] r show ?thesis
    by (intro exI [of _ "[Began stop_candle (Inr OBS_NEW), Began stop_candle r]"] exI [of _ u]) simp
qed

lemma sample_engine_inv: "engine_inv (sample_engine s loss)"
  using keeps_books_open [of "make_paper_engine (Some s)" "sample_proposal loss"] engine_inv_make
  by (simp add: keeps_books_def sample_engine_def)

lemma sample_closed:
  obtains x e where "observe_contract ''PAPER-C-k'' stop_candle False False (sample_engine costly_specification (Dec 10)) = (Inr (Some x), e)"
    "engine_inv e" "map_of (pe_closes e) ''PAPER-C-k'' = Some x"
proof -
  obtain x e where o: "observe_contract ''PAPER-C-k'' stop_candle False False (sample_engine costly_specification (Dec 10)) = (Inr (Some x), e)"
    using sample_stopped_out by blast
  have i: "engine_inv e"
    using keeps_books_observe [of "sample_engine costly_specification (Dec 10)" "''PAPER-C-k''" stop_candle False False] sample_engine_inv
    by (simp add: keeps_books_def o)
  with observe_close_recorded [OF o] have "map_of (pe_closes e) ''PAPER-C-k'' = Some x" by (auto simp: engine_inv_def)
  with that o i show thesis by blast
qed


theorem paper_runtime_keeps_closes_witness:
  "\<exists>e x h t. run_runtime (sample_config (Inr [])) False (Aware 0 0) [] (sample_runtime e) = (Inr h, t)
     \<and> map_of (pe_closes (rt_engine t)) ''PAPER-C-k'' = Some x"
proof -
  obtain x e where x: "engine_inv e" "map_of (pe_closes e) ''PAPER-C-k'' = Some x" using sample_closed by blast
  obtain h t where t: "run_runtime (sample_config (Inr [])) False (Aware 0 0) [] (sample_runtime e) = (Inr h, t)"
    by (simp add: run_runtime_def sbind_def journal_def publish_heartbeat_def with_journal_def outside_def sample_config_def
        sample_runtime_def beat_def runtime_finally_def)
  have s: "engine_inv (rt_engine (sample_runtime e))" "map_of (pe_closes (rt_engine (sample_runtime e))) ''PAPER-C-k'' = Some x"
    using x by (simp_all add: sample_runtime_def)
  from paper_runtime_keeps_closes [OF t s] t show ?thesis by blast
qed

theorem paper_backoff_bounded_witness:
  "\<exists>ws t. runtime_loop (sample_config (Inl (RuntimeError ''x''))) False (Fin 1)
       [\<lparr>rk_stopped = False, rk_locked = False, rk_now = Aware 0 0, rk_owner = ''w1''\<rparr>] (sample_runtime (make_paper_engine None)) = (Inr ws, t)
     \<and> ws \<noteq> [] \<and> (\<forall>w \<in> set ws. Fin 1 \<le> w \<and> w \<le> Fin 4)"
proof -
  let ?c = "sample_config (Inl (RuntimeError ''x''))"
  obtain ws t where t: "runtime_loop ?c False (cf_poll_seconds ?c)
       [\<lparr>rk_stopped = False, rk_locked = False, rk_now = Aware 0 0, rk_owner = ''w1''\<rparr>] (sample_runtime (make_paper_engine None)) = (Inr ws, t)"
    "ws \<noteq> []"
    by (simp add: sbind_def run_once_def try_cycle_def outside_def failed_cycle_def publish_current_def journal_def
        publish_heartbeat_def with_journal_def sample_config_def sample_runtime_def beat_def Let_def)
  have c: "cf_poll_seconds ?c = Fin 1" "cf_max_backoff_seconds ?c = Fin 4" "is_double (Fin 1)" "is_double (Fin 4)" "(1 :: rat) \<le> 1" "(1 :: rat) \<le> 4"
    by (simp_all add: sample_config_def is_double_def)
  from paper_backoff_bounded [OF c t(1)] t show ?thesis by (auto simp: sample_config_def)
qed

end
