(* ===== verification/Continuation.thy ===== *)
theory Continuation
  imports Limit_Drafts
begin

text \<open>
  The preparation of a batch of continuation drafts and the advice to leave a position
  (\<open>src/execution/continuation_preparation.py\<close>). Every draft that is ready takes a pending slot, its
  key, its symbol and its risk from the drafts after it; none is sent. The request and the
  drafts are values of \<open>pyval\<close>, as in the policy for single drafts.
\<close>

section \<open>Arithmetic on numbers of either type\<close>

text \<open>Two integers are added exactly; otherwise both operands are converted to floats.\<close>

definition num_op :: "(int \<Rightarrow> int \<Rightarrow> int) \<Rightarrow> (pyfloat \<Rightarrow> pyfloat \<Rightarrow> pyfloat) \<Rightarrow> pyval \<Rightarrow> pyval \<Rightarrow> pyval result" where
  "num_op f g x y = (case (x, y) of
      (PyInt a, PyInt b) \<Rightarrow> Inr (PyInt (f a b))
    | _ \<Rightarrow> rbind (to_float x) (\<lambda>a. rbind (to_float y) (\<lambda>b. Inr (PyFloat (g a b)))))"

definition py_plus :: "pyval \<Rightarrow> pyval \<Rightarrow> pyval result" where
  "py_plus = num_op (+) (+)"

definition py_minus :: "pyval \<Rightarrow> pyval \<Rightarrow> pyval result" where
  "py_minus = num_op (-) (-)"

fun py_abs :: "pyval \<Rightarrow> pyval" where
  "py_abs (PyInt i) = PyInt \<bar>i\<bar>"
| "py_abs (PyFloat x) = PyFloat \<bar>x\<bar>"
| "py_abs v = v"

text \<open>\<open>a / b\<close>: the quotient of two integers is rounded once.\<close>

definition py_quotient :: "pyval \<Rightarrow> pyval \<Rightarrow> pyval result" where
  "py_quotient x y = (case (x, y) of
      (PyInt a, PyInt b) \<Rightarrow>
        if b = 0 then Inl ZeroDivisionError
        else (case fl (of_int a / of_int b) of Fin q \<Rightarrow> Inr (PyFloat (Fin q)) | _ \<Rightarrow> Inl OverflowError)
    | _ \<Rightarrow> rbind (to_float x) (\<lambda>a. rbind (to_float y) (\<lambda>b. rbind (fdiv a b) (\<lambda>q. Inr (PyFloat q)))))"

text \<open>\<open>type(v) in (int, float) and math.isfinite(v) and v >= 0\<close>\<close>

fun nonnegative_number :: "pyval \<Rightarrow> bool result" where
  "nonnegative_number (PyInt i) = rbind (float_of_int i) (\<lambda>_. Inr (0 \<le> i))"
| "nonnegative_number (PyFloat x) = Inr (is_finite x \<and> Fin 0 \<le> x)"
| "nonnegative_number _ = Inr False"

section \<open>Evidence and candidates\<close>

definition FACTORS :: "string set" where
  "FACTORS = {''trend'', ''structure'', ''liquidity'', ''momentum'', ''volatility'', ''risk''}"

record continuation_evidence =
  ce_signal :: string
  ce_regime :: string
  ce_confirmed_factors :: "string set"
  ce_observed_at :: pydatetime
  ce_closed_bar_at :: pydatetime
  ce_provider :: string
  ce_continuation_confirmed :: pyval
  ce_risk_approved :: pyval
  ce_authorized_risk_amount :: pyval
  ce_bid :: pyval
  ce_ask :: pyval
  ce_bar_seconds :: int

text \<open>The evidence is \<open>None\<close> when it is some other object.\<close>

record continuation_candidate =
  cc_draft :: limit_draft
  cc_evidence :: "continuation_evidence option"

record prepared_continuation =
  pn_draft :: limit_draft
  pn_ready :: bool
  pn_reason :: string
  pn_submission_authorized :: bool

record batch_request =
  bq_now :: pydatetime
  bq_open_symbols :: pyval
  bq_pending_symbols :: pyval
  bq_snapshots_complete :: pyval
  bq_used_keys :: pyval
  bq_verified_demo :: pyval
  bq_equity :: pyval
  bq_currency :: pyval
  bq_total_cap :: pyval
  bq_total_risk_budget :: pyval
  bq_existing_reserved_risk :: pyval

text \<open>\<open>(a - b).total_seconds()\<close> of aware values: microseconds divided by a million, rounded once.\<close>

definition seconds_between :: "pydatetime \<Rightarrow> pydatetime \<Rightarrow> pyfloat" where
  "seconds_between a b = fl (of_int (instant a - instant b) / 1000000)"

definition fresh_evidence :: "continuation_evidence option \<Rightarrow> pydatetime \<Rightarrow> bool" where
  "fresh_evidence evidence now \<longleftrightarrow>
     (case evidence of None \<Rightarrow> False | Some e \<Rightarrow>
        tz_aware now \<and> tz_aware (ce_observed_at e) \<and> tz_aware (ce_closed_bar_at e)
        \<and> ce_provider e = ''weltrade'' \<and> ce_bar_seconds e \<in> {60, 300}
        \<and> Fin 0 \<le> seconds_between now (ce_closed_bar_at e)
        \<and> seconds_between now (ce_closed_bar_at e) \<le> Fin (of_int (ce_bar_seconds e + 90))
        \<and> Fin 0 \<le> seconds_between now (ce_observed_at e) \<and> seconds_between now (ce_observed_at e) \<le> Fin 90
        \<and> instant (ce_closed_bar_at e) \<le> instant (ce_observed_at e))"

section \<open>The batch\<close>

definition batch_state_valid :: "batch_request \<Rightarrow> bool result" where
  "batch_state_valid q = py_all
     [Inr (bq_snapshots_complete q = PyBool True), Inr (bq_verified_demo q = PyBool True),
      Inr (text_of (bq_currency q) = Some ''USD''), positive_number (bq_equity q), positive_number (bq_total_risk_budget q),
      nonnegative_number (bq_existing_reserved_risk q),
      rbind (num_op (*) (*) (bq_equity q) (PyFloat (fl (5/1000)))) (\<lambda>limit. py_ge limit (bq_total_risk_budget q)),
      rbind (py_ge (bq_equity q) (PyInt 50)) (\<lambda>large. Inr (case bq_total_cap q of
          PyInt cap \<Rightarrow> 1 \<le> cap \<and> cap \<le> (if large then 5 else 1) | _ \<Rightarrow> False)),
      Inr (as_tuple (bq_open_symbols q) \<noteq> None), Inr (as_tuple (bq_pending_symbols q) \<noteq> None),
      Inr (as_frozenset (bq_used_keys q) \<noteq> None)]"

text \<open>Levels that are positive numbers need a reward of one and a half times the risk.\<close>

definition reward_too_small :: "limit_draft \<Rightarrow> bool result" where
  "reward_too_small d =
     rbind (py_all [positive_number (ld_entry d), positive_number (ld_stop_loss d), positive_number (ld_take_profit d)]) (\<lambda>numbers.
     if \<not> numbers then Inr False
     else rbind (py_minus (ld_entry d) (ld_stop_loss d)) (\<lambda>r. let risk = py_abs r in
       if exact risk = Some (Fin 0) then Inr True
       else rbind (py_minus (ld_take_profit d) (ld_entry d)) (\<lambda>w. rbind (py_quotient (py_abs w) risk) (\<lambda>ratio.
         py_less ratio (PyFloat (Fin (3/2)))))))"

definition over_budget :: "pyval \<Rightarrow> pyval \<Rightarrow> limit_draft \<Rightarrow> bool result" where
  "over_budget budget reserved d =
     rbind (positive_number (ld_risk_amount d)) (\<lambda>positive.
     if \<not> positive then Inr True
     else rbind (py_plus reserved (ld_risk_amount d)) (\<lambda>total. py_less budget total))"

definition continuation_confirmed :: "limit_draft \<Rightarrow> continuation_evidence \<Rightarrow> bool" where
  "continuation_confirmed d e \<longleftrightarrow> ce_continuation_confirmed e = PyBool True \<and> ce_regime e = ''TRENDING''
     \<and> text_of (ld_side d) = Some (ce_signal e) \<and> ce_confirmed_factors e = FACTORS"

text \<open>The preview: what the drafts that are ready so far have taken.\<close>

record batch_preview =
  bp_pending :: pyval
  bp_keys :: pyval
  bp_reserved :: pyval

definition prepare_candidate ::
  "batch_request \<Rightarrow> bool \<Rightarrow> batch_preview \<Rightarrow> continuation_candidate \<Rightarrow> limit_preparation result" where
  "prepare_candidate q valid v cand =
     (let d = cc_draft cand in
      if \<not> valid then Inr (not_ready ''COMPLETE_DEMO_ACCOUNT_RISK_STATE_REQUIRED'')
      else if \<not> fresh_evidence (cc_evidence cand) (bq_now q) then Inr (not_ready ''FRESH_CLOSED_BROKER_EVIDENCE_REQUIRED'')
      else case cc_evidence cand of None \<Rightarrow> Inr (not_ready ''FRESH_CLOSED_BROKER_EVIDENCE_REQUIRED'') | Some e \<Rightarrow>
        if \<not> continuation_confirmed d e then Inr (not_ready ''CONTINUATION_AND_ALL_FACTORS_REQUIRED'')
        else rbind (over_budget (bq_total_risk_budget q) (bp_reserved v) d) (\<lambda>over.
        if over then Inr (not_ready ''COMBINED_RISK_BUDGET_EXCEEDED'')
        else rbind (reward_too_small d) (\<lambda>small.
        if small then Inr (not_ready ''CANONICAL_MINIMUM_REWARD_RISK_REQUIRED'')
        else prepare_limit (Some d) (ce_bid e) (ce_ask e) (bq_open_symbols q) (bp_pending v) (PyBool True) (ce_risk_approved e)
          (ce_authorized_risk_amount e) (bq_total_cap q) (bp_keys v))))"

definition reserve :: "limit_draft \<Rightarrow> batch_preview \<Rightarrow> batch_preview result" where
  "reserve d v = rbind (py_plus (bp_reserved v) (ld_risk_amount d)) (\<lambda>total. Inr
     \<lparr>bp_pending = (case as_tuple (bp_pending v) of Some ps \<Rightarrow> PyTuple (ps @ [ld_symbol d]) | None \<Rightarrow> bp_pending v),
      bp_keys = (case as_frozenset (bp_keys v) of Some ks \<Rightarrow> PyFrozenset (ks @ [ld_idempotency_key d]) | None \<Rightarrow> bp_keys v),
      bp_reserved = total\<rparr>)"

fun prepare_each ::
  "batch_request \<Rightarrow> bool \<Rightarrow> batch_preview \<Rightarrow> continuation_candidate list \<Rightarrow> prepared_continuation list result" where
  "prepare_each q valid v [] = Inr []"
| "prepare_each q valid v (cand # cands) =
     rbind (prepare_candidate q valid v cand) (\<lambda>p.
     rbind (if lp_ready p then reserve (cc_draft cand) v else Inr v) (\<lambda>v.
     rbind (prepare_each q valid v cands) (\<lambda>rest. Inr
       (\<lparr>pn_draft = cc_draft cand, pn_ready = lp_ready p, pn_reason = lp_reason p, pn_submission_authorized = False\<rparr> # rest))))"

definition prepare_continuation_batch ::
  "continuation_candidate list \<Rightarrow> batch_request \<Rightarrow> prepared_continuation list result" where
  "prepare_continuation_batch cands q = rbind (batch_state_valid q) (\<lambda>valid.
     prepare_each q valid \<lparr>bp_pending = bq_pending_symbols q, bp_keys = bq_used_keys q,
       bp_reserved = bq_existing_reserved_risk q\<rparr> cands)"

definition continuation_exit_advice ::
  "string \<Rightarrow> continuation_evidence option \<Rightarrow> pydatetime \<Rightarrow> string \<Rightarrow> string \<Rightarrow> string" where
  "continuation_exit_advice side evidence now closed_bar_trend prior_closed_bar_trend =
     (if side \<notin> {''BUY'', ''SELL''} \<or> \<not> fresh_evidence evidence now then ''OBSERVATION_UNAVAILABLE_KEEP_BROKER_PROTECTION''
      else let opposite = (if side = ''BUY'' then ''BEARISH'' else ''BULLISH'') in
        if closed_bar_trend = prior_closed_bar_trend \<and> prior_closed_bar_trend = opposite
        then ''CONTINUATION_FAILED_EXIT_REVIEW_REQUIRED'' else ''KEEP_CURRENT_STOP_AND_TARGET'')"


section \<open>What a prepared batch takes\<close>

text \<open>The evidence of a ready draft is fresh and confirms it, and the reward is large enough.\<close>

definition draft_backed :: "batch_request \<Rightarrow> continuation_candidate \<Rightarrow> bool" where
  "draft_backed q cand \<longleftrightarrow> (case cc_evidence cand of None \<Rightarrow> False | Some e \<Rightarrow>
     fresh_evidence (cc_evidence cand) (bq_now q) \<and> continuation_confirmed (cc_draft cand) e
     \<and> reward_too_small (cc_draft cand) = Inr False)"

lemma prepare_candidate_backed:
  assumes "prepare_candidate q valid v cand = Inr p" "lp_ready p"
  shows "draft_backed q cand"
  using assms by (auto simp: prepare_candidate_def draft_backed_def Let_def split: if_splits option.splits)

lemma prepare_candidate_ready:
  assumes "prepare_candidate q valid v cand = Inr p" "lp_ready p"
  shows "over_budget (bq_total_risk_budget q) (bp_reserved v) (cc_draft cand) = Inr False
    \<and> (\<exists>bid ask approved authorized. prepare_limit (Some (cc_draft cand)) bid ask (bq_open_symbols q) (bp_pending v)
          (PyBool True) approved authorized (bq_total_cap q) (bp_keys v) = Inr p)"
  using assms by (auto simp: prepare_candidate_def Let_def split: if_splits option.splits)

definition outcome_for :: "batch_request \<Rightarrow> continuation_candidate \<Rightarrow> prepared_continuation \<Rightarrow> bool" where
  "outcome_for q cand r \<longleftrightarrow> pn_draft r = cc_draft cand \<and> \<not> pn_submission_authorized r
     \<and> (if pn_ready r then draft_backed q cand else True)"

definition slot_symbol :: "limit_draft \<Rightarrow> string option" where
  "slot_symbol d = map_option (\<lambda>s. py_upper (py_strip s)) (text_of (ld_symbol d))"

definition slot_key :: "limit_draft \<Rightarrow> string option" where
  "slot_key d = text_of (ld_idempotency_key d)"

definition symbols_of :: "pyval list \<Rightarrow> string option set" where
  "symbols_of vs = (\<lambda>v. map_option (\<lambda>s. py_upper (py_strip s)) (text_of v)) ` set vs"

text \<open>The drafts fit one after the other: each finds a free slot, is new, and leaves the risk within the budget.\<close>

fun batch_fits :: "pyval list \<Rightarrow> pyval list \<Rightarrow> pyval list \<Rightarrow> int \<Rightarrow> pyval \<Rightarrow> pyval \<Rightarrow> limit_draft list \<Rightarrow> bool" where
  "batch_fits os ps ks cap budget reserved [] = True"
| "batch_fits os ps ks cap budget reserved (d # ds) \<longleftrightarrow>
     length ps < 2 \<and> int (length os + length ps) < cap \<and> draft_new d (os @ ps) ks
     \<and> (case py_plus reserved (ld_risk_amount d) of Inl err \<Rightarrow> False
        | Inr taken \<Rightarrow> py_less budget taken = Inr False
            \<and> batch_fits os (ps @ [ld_symbol d]) (ks @ [ld_idempotency_key d]) cap budget taken ds)"

definition ready_drafts :: "prepared_continuation list \<Rightarrow> limit_draft list" where
  "ready_drafts outcomes = map pn_draft (filter pn_ready outcomes)"

fun reserved_after :: "pyval \<Rightarrow> limit_draft list \<Rightarrow> pyval result" where
  "reserved_after reserved [] = Inr reserved"
| "reserved_after reserved (d # ds) = rbind (py_plus reserved (ld_risk_amount d)) (\<lambda>total. reserved_after total ds)"

lemma ready_drafts_simps [simp]:
  "ready_drafts [] = []"
  "ready_drafts (x # xs) = (if pn_ready x then pn_draft x # ready_drafts xs else ready_drafts xs)"
  by (simp_all add: ready_drafts_def)

lemma draft_new_slots:
  assumes "draft_new d vs ks"
  shows "slot_symbol d \<notin> symbols_of vs" "slot_key d \<notin> text_of ` set ks"
  using assms unfolding draft_new_def slot_symbol_def slot_key_def symbols_of_def by (elim exE conjE; simp)+

lemma symbols_of_append [simp]: "symbols_of (vs @ [ld_symbol d]) = insert (slot_symbol d) (symbols_of vs)"
  by (simp add: symbols_of_def slot_symbol_def)

lemma batch_fits_symbols:
  assumes "batch_fits os ps ks cap budget reserved ds"
  shows "distinct (map slot_symbol ds) \<and> slot_symbol ` set ds \<inter> symbols_of (os @ ps) = {}"
  using assms
proof (induction ds arbitrary: ps ks reserved)
  case (Cons d ds)
  obtain total where "batch_fits os (ps @ [ld_symbol d]) (ks @ [ld_idempotency_key d]) cap budget total ds"
    and new: "draft_new d (os @ ps) ks"
    using Cons.prems by (auto split: sum.splits)
  from Cons.IH [OF this(1)] show ?case
    using draft_new_slots(1) [OF new] by (auto simp: append_assoc [symmetric] simp del: append_assoc)
qed simp

lemma batch_fits_keys:
  assumes "batch_fits os ps ks cap budget reserved ds"
  shows "distinct (map slot_key ds) \<and> slot_key ` set ds \<inter> text_of ` set ks = {}"
  using assms
proof (induction ds arbitrary: ps ks reserved)
  case (Cons d ds)
  obtain total where "batch_fits os (ps @ [ld_symbol d]) (ks @ [ld_idempotency_key d]) cap budget total ds"
    and new: "draft_new d (os @ ps) ks"
    using Cons.prems by (auto split: sum.splits)
  from Cons.IH [OF this(1)] show ?case
    using draft_new_slots(2) [OF new] by (auto simp: slot_key_def)
qed simp

lemma batch_fits_slots:
  assumes "batch_fits os ps ks cap budget reserved ds" "ds \<noteq> []"
  shows "length ps + length ds \<le> 2 \<and> int (length os + length ps + length ds) \<le> cap"
  using assms
proof (induction ds arbitrary: ps ks reserved)
  case (Cons d ds)
  obtain total where "batch_fits os (ps @ [ld_symbol d]) (ks @ [ld_idempotency_key d]) cap budget total ds"
    using Cons.prems by (auto split: sum.splits)
  from Cons.IH [OF this] show ?case using Cons.prems by (cases ds) auto
qed simp

lemma batch_fits_reserved:
  assumes "batch_fits os ps ks cap budget reserved ds" "ds \<noteq> []"
  shows "\<exists>total. reserved_after reserved ds = Inr total \<and> py_less budget total = Inr False"
  using assms
proof (induction ds arbitrary: ps ks reserved)
  case (Cons d ds)
  obtain total where total: "py_plus reserved (ld_risk_amount d) = Inr total" "py_less budget total = Inr False"
    and fits: "batch_fits os (ps @ [ld_symbol d]) (ks @ [ld_idempotency_key d]) cap budget total ds"
    using Cons.prems by (auto split: sum.splits)
  show ?case using Cons.IH [OF fits] total by (cases ds) auto
qed simp

lemma prepare_each_ConsE:
  assumes "prepare_each q valid v (cand # cands) = Inr outcomes"
  obtains p v' rest where "prepare_candidate q valid v cand = Inr p"
    "(if lp_ready p then reserve (cc_draft cand) v else Inr v) = Inr v'" "prepare_each q valid v' cands = Inr rest"
    "outcomes = \<lparr>pn_draft = cc_draft cand, pn_ready = lp_ready p, pn_reason = lp_reason p,
      pn_submission_authorized = False\<rparr> # rest"
  using assms that by auto

lemma prepare_each_outcomes:
  assumes "prepare_each q valid v cands = Inr outcomes"
  shows "list_all2 (outcome_for q) cands outcomes"
  using assms
proof (induction cands arbitrary: v outcomes)
  case (Cons cand cands)
  from Cons.prems show ?case
    by (rule prepare_each_ConsE) (use Cons.IH prepare_candidate_backed in \<open>auto simp: outcome_for_def\<close>)
qed simp

lemma prepare_limit_slot:
  assumes "prepare_limit (Some d) bid ask opens pending snapshots approved authorized total_cap keys = Inr p" "lp_ready p"
  obtains os ps ks cap where "opens = PyTuple os" "pending = PyTuple ps" "keys = PyFrozenset ks"
    "total_cap = PyInt cap" "cap \<le> 5" "length ps < 2" "int (length os + length ps) < cap" "draft_new d (os @ ps) ks"
proof -
  obtain os ps ks cap where facts: "opens = PyTuple os" "pending = PyTuple ps" "keys = PyFrozenset ks"
      "total_cap = PyInt cap" "cap \<le> 5" "length ps < 2" "int (length os + length ps) < cap"
    and texts: "list_all nonblank_str (os @ ps)" "list_all nonblank_str ks"
    and checked: "check_draft (Some d) (map tx (os @ ps)) (map tx ks) bid ask approved authorized = Inr p \<and> lp_ready p"
    using prepare_limit_ready [THEN iffD1, OF conjI [OF assms]] by auto
  have "draft_new d (os @ ps) ks"
    using check_draft_new [OF texts, THEN iffD1, OF checked] by auto
  then show ?thesis using that facts by blast
qed

lemma over_budget_False:
  assumes "over_budget budget reserved d = Inr False"
  obtains total where "py_plus reserved (ld_risk_amount d) = Inr total" "py_less budget total = Inr False"
  using assms by (auto simp: over_budget_def split: if_splits)

lemma prepare_each_fits:
  assumes "prepare_each q valid v cands = Inr outcomes" "ready_drafts outcomes \<noteq> []"
  shows "\<exists>os ps ks cap. bq_open_symbols q = PyTuple os \<and> bp_pending v = PyTuple ps \<and> bp_keys v = PyFrozenset ks
    \<and> bq_total_cap q = PyInt cap \<and> cap \<le> 5
    \<and> batch_fits os ps ks cap (bq_total_risk_budget q) (bp_reserved v) (ready_drafts outcomes)"
  using assms
proof (induction cands arbitrary: v outcomes)
  case (Cons cand cands)
  let ?d = "cc_draft cand"
  obtain p v' rest where p: "prepare_candidate q valid v cand = Inr p"
    and v': "(if lp_ready p then reserve ?d v else Inr v) = Inr v'" and rest: "prepare_each q valid v' cands = Inr rest"
    and out: "outcomes = \<lparr>pn_draft = ?d, pn_ready = lp_ready p, pn_reason = lp_reason p,
      pn_submission_authorized = False\<rparr> # rest"
    by (rule prepare_each_ConsE [OF Cons.prems(1)])
  show ?case
  proof (cases "lp_ready p")
    case False
    then show ?thesis using Cons.IH [OF rest] Cons.prems(2) v' out by simp
  next
    case True
    obtain bid ask approved authorized where over: "over_budget (bq_total_risk_budget q) (bp_reserved v) ?d = Inr False"
      and limit: "prepare_limit (Some ?d) bid ask (bq_open_symbols q) (bp_pending v) (PyBool True)
        approved authorized (bq_total_cap q) (bp_keys v) = Inr p"
      using prepare_candidate_ready [OF p True] by (elim conjE exE)
    obtain os ps ks cap where slot: "bq_open_symbols q = PyTuple os" "bp_pending v = PyTuple ps" "bp_keys v = PyFrozenset ks"
        "bq_total_cap q = PyInt cap" "cap \<le> 5" "length ps < 2" "int (length os + length ps) < cap" "draft_new ?d (os @ ps) ks"
      by (rule prepare_limit_slot [OF limit True])
    obtain total where total: "py_plus (bp_reserved v) (ld_risk_amount ?d) = Inr total"
        "py_less (bq_total_risk_budget q) total = Inr False"
      by (rule over_budget_False [OF over])
    have v'_eq: "v' = \<lparr>bp_pending = PyTuple (ps @ [ld_symbol ?d]), bp_keys = PyFrozenset (ks @ [ld_idempotency_key ?d]),
      bp_reserved = total\<rparr>"
      using v' True slot total by (simp add: reserve_def)
    have "batch_fits os (ps @ [ld_symbol ?d]) (ks @ [ld_idempotency_key ?d]) cap (bq_total_risk_budget q) total (ready_drafts rest)"
    proof (cases "ready_drafts rest = []")
      case False
      show ?thesis using Cons.IH [OF rest False] slot v'_eq by simp
    qed simp
    then show ?thesis using slot total out True by simp
  qed
qed simp

lemma prepare_each_invalid:
  assumes "prepare_each q False v cands = Inr outcomes"
  shows "ready_drafts outcomes = []"
  using assms
  by (induction cands arbitrary: v outcomes) (auto simp: prepare_candidate_def)



definition sample_evidence :: continuation_evidence where
  "sample_evidence = \<lparr>ce_signal = ''BUY'', ce_regime = ''TRENDING'', ce_confirmed_factors = FACTORS,
     ce_observed_at = Aware 60000000 0, ce_closed_bar_at = Aware 0 0, ce_provider = ''weltrade'',
     ce_continuation_confirmed = PyBool True, ce_risk_approved = PyBool True, ce_authorized_risk_amount = PyInt 4,
     ce_bid = PyInt 101, ce_ask = PyInt 102, ce_bar_seconds = 300\<rparr>"

definition sample_draft :: "string \<Rightarrow> int \<Rightarrow> limit_draft" where
  "sample_draft symb risk = \<lparr>ld_symbol = PyStr symb, ld_side = PyStr ''BUY'', ld_entry = PyInt 100, ld_stop_loss = PyInt 98,
     ld_take_profit = PyInt 104, ld_risk_amount = PyInt risk, ld_idempotency_key = PyStr symb\<rparr>"

definition sample_batch :: "continuation_candidate list" where
  "sample_batch = [\<lparr>cc_draft = sample_draft ''A'' 2, cc_evidence = Some sample_evidence\<rparr>,
     \<lparr>cc_draft = sample_draft ''B'' 4, cc_evidence = Some sample_evidence\<rparr>]"

definition sample_request :: batch_request where
  "sample_request = \<lparr>bq_now = Aware 120000000 0, bq_open_symbols = PyTuple [], bq_pending_symbols = PyTuple [],
     bq_snapshots_complete = PyBool True, bq_used_keys = PyFrozenset [], bq_verified_demo = PyBool True,
     bq_equity = PyFloat (Fin 1024), bq_currency = PyStr ''USD'', bq_total_cap = PyInt 3,
     bq_total_risk_budget = PyInt 5, bq_existing_reserved_risk = PyInt 0\<rparr>"

lemma sample_request_valid: "batch_state_valid sample_request = Inr True"
proof -
  have f: "fl (5/1000) = Fin (of_int 5764607523034235 / 2 ^ 60)" by (rule fl_eval) simp_all
  have "fl (1024 * (of_int 5764607523034235 / 2 ^ 60)) = Fin (1024 * (of_int 5764607523034235 / 2 ^ 60))"
    by (rule fl_dyadic [where m = 5764607523034235 and k = 50]) simp_all
  with f show ?thesis
    by (simp add: batch_state_valid_def sample_request_def num_op_def py_ge_def positive_finite_def float_of_int_def)
qed

lemma sample_batch_outcome:
  "prepare_continuation_batch sample_batch sample_request = Inr
    [\<lparr>pn_draft = sample_draft ''A'' 2, pn_ready = True, pn_reason = ''DRAFT_READY_NOT_AUTHORIZED_FOR_SUBMISSION'',
      pn_submission_authorized = False\<rparr>,
     \<lparr>pn_draft = sample_draft ''B'' 4, pn_ready = False, pn_reason = ''COMBINED_RISK_BUDGET_EXCEEDED'',
      pn_submission_authorized = False\<rparr>]"
proof -
  have fresh: "fresh_evidence (Some sample_evidence) (Aware 120000000 0)"
    by (simp add: fresh_evidence_def sample_evidence_def seconds_between_def)
  have confirmed: "continuation_confirmed (sample_draft symb risk) sample_evidence" for symb risk
    by (simp add: continuation_confirmed_def sample_evidence_def sample_draft_def)
  have reward: "reward_too_small (sample_draft ''A'' 2) = Inr False"
    by (simp add: reward_too_small_def sample_draft_def py_all.simps(2) float_of_int_def py_minus_def num_op_def py_less_def
      py_quotient_def Let_def)
  have limit: "prepare_limit (Some (sample_draft ''A'' 2)) (ce_bid sample_evidence) (ce_ask sample_evidence) (PyTuple []) (PyTuple [])
      (PyBool True) (ce_risk_approved sample_evidence) (ce_authorized_risk_amount sample_evidence) (PyInt 3) (PyFrozenset []) = Inr ready"
    by (simp add: prepare_limit_def all_texts_def check_draft_def py_all.simps(2) py_strip_def py_isspace_def check_levels_def nonblank_def sample_evidence_def
      sample_draft_def ready_def float_of_int_def py_less_def)
  have first: "prepare_candidate sample_request True \<lparr>bp_pending = PyTuple [], bp_keys = PyFrozenset [], bp_reserved = PyInt 0\<rparr>
      \<lparr>cc_draft = sample_draft ''A'' 2, cc_evidence = Some sample_evidence\<rparr> = Inr ready"
    using fresh confirmed reward limit
    by (simp add: prepare_candidate_def sample_request_def over_budget_def sample_draft_def float_of_int_def py_plus_def
      num_op_def py_less_def Let_def)
  have second: "prepare_candidate sample_request True \<lparr>bp_pending = PyTuple [PyStr ''A''], bp_keys = PyFrozenset [PyStr ''A''], bp_reserved = PyInt 2\<rparr>
      \<lparr>cc_draft = sample_draft ''B'' 4, cc_evidence = Some sample_evidence\<rparr> = Inr (not_ready ''COMBINED_RISK_BUDGET_EXCEEDED'')"
    using fresh confirmed
    by (simp add: prepare_candidate_def sample_request_def over_budget_def sample_draft_def
      float_of_int_def py_plus_def num_op_def py_less_def Let_def)
  show ?thesis
    using first second sample_request_valid
    by (simp add: prepare_continuation_batch_def sample_batch_def reserve_def py_plus_def num_op_def ready_def not_ready_def
      sample_draft_def sample_request_def)
qed


end
