(* ===== verification/Backtest_Engine.thy ===== *)
theory Backtest_Engine
  imports Strategy Position_Sizing Trade_Simulator
begin

text \<open>
  The backtest engine (\<open>src/backtesting/engine.py\<close>) with its configuration, trades and decisions
  (\<open>src/backtesting/models.py\<close>): one position at a time, a signal on one candle, an entry at the open
  of a later one, exits at the stop, the target, the time limit or the end of the data.

  An operation returns the new engine, or the exception when it raises (the run is then abandoned).
  The lemmas show that the cash books balance after any sequence of calls, that every trade follows the
  candles, and that a replay does not depend on later candles.
\<close>

section \<open>Assumptions and configuration\<close>

datatype entry_timing = NEXT_CANDLE_OPEN
datatype collision_policy = STOP_LOSS_WINS
datatype gap_fill_policy = AT_TRIGGER_PRICE
datatype backtest_exit = BT_STOP_LOSS | BT_TAKE_PROFIT | BT_TIMEOUT | BT_END_OF_DATA

record backtest_execution =
  be_entry_timing :: entry_timing
  be_spread :: pyfloat
  be_slippage :: pyfloat
  be_fee_per_trade :: pyfloat
  be_same_candle_collision_policy :: collision_policy
  be_gap_fill_policy :: gap_fill_policy
  be_max_holding_candles :: int
  be_stop_atr_multiple :: pyfloat
  be_target_atr_multiple :: pyfloat
  be_adverse_slippage_atr_fraction :: pyfloat
  be_spread_atr_fraction :: pyfloat

definition default_execution :: backtest_execution where
  "default_execution = \<lparr>be_entry_timing = NEXT_CANDLE_OPEN, be_spread = Fin 0, be_slippage = Fin 0, be_fee_per_trade = Fin 0,
     be_same_candle_collision_policy = STOP_LOSS_WINS, be_gap_fill_policy = AT_TRIGGER_PRICE, be_max_holding_candles = 19,
     be_stop_atr_multiple = Fin (3/2), be_target_atr_multiple = Fin 3, be_adverse_slippage_atr_fraction = Fin 0,
     be_spread_atr_fraction = Fin 0\<rparr>"

text \<open>Construction checks the fields; the configurations are immutable.\<close>

definition make_execution :: "backtest_execution \<Rightarrow> backtest_execution result" where
  "make_execution x =
     (if \<not> list_all is_finite [be_spread x, be_slippage x, be_fee_per_trade x, be_stop_atr_multiple x,
         be_target_atr_multiple x, be_adverse_slippage_atr_fraction x, be_spread_atr_fraction x]
      then Inl (ValueError ''Backtest execution assumptions must be finite'')
      else if list_ex (\<lambda>v. v < Fin 0) [be_spread x, be_slippage x, be_fee_per_trade x,
         be_adverse_slippage_atr_fraction x, be_spread_atr_fraction x]
      then Inl (ValueError ''Backtest costs cannot be negative'')
      else if be_max_holding_candles x \<le> 0 then Inl (ValueError ''max_holding_candles must be positive'')
      else if be_stop_atr_multiple x \<le> Fin 0 \<or> be_target_atr_multiple x \<le> Fin 0
      then Inl (ValueError ''Backtest ATR multiples must be positive'')
      else Inr x)"

record backtest_risk =
  br_risk_percent :: pyfloat
  br_minimum_confidence :: int
  br_minimum_atr :: pyfloat
  br_maximum_spread :: pyfloat

definition default_risk :: backtest_risk where
  "default_risk = \<lparr>br_risk_percent = Fin 1, br_minimum_confidence = 70, br_minimum_atr = Fin 1, br_maximum_spread = Fin 30\<rparr>"

definition make_risk_configuration :: "backtest_risk \<Rightarrow> backtest_risk result" where
  "make_risk_configuration r =
     (if \<not> list_all is_finite [br_risk_percent r, br_minimum_atr r, br_maximum_spread r]
      then Inl (ValueError ''Backtest risk configuration must be finite'')
      else if \<not> (Fin 0 < br_risk_percent r \<and> br_risk_percent r \<le> Fin 100)
      then Inl (ValueError ''risk_percent must be in (0, 100]'')
      else if \<not> (0 \<le> br_minimum_confidence r \<and> br_minimum_confidence r \<le> 100)
      then Inl (ValueError ''minimum_confidence must be in [0, 100]'')
      else if br_minimum_atr r < Fin 0 \<or> br_maximum_spread r < Fin 0
      then Inl (ValueError ''Backtest market-risk limits cannot be negative'')
      else Inr r)"

section \<open>Trades and decisions\<close>

record backtest_trade =
  bt_trade_id :: nat
  bt_symbol :: string
  bt_timeframe :: timeframe
  bt_direction :: string
  bt_signal_timestamp :: pydatetime
  bt_entry_timestamp :: pydatetime
  bt_entry_price :: pyfloat
  bt_exit_timestamp :: pydatetime
  bt_exit_price :: pyfloat
  bt_stop_price :: pyfloat
  bt_target_price :: pyfloat
  bt_quantity :: execution_quantity
  bt_gross_pnl :: pyfloat
  bt_costs :: pyfloat
  bt_net_pnl :: pyfloat
  bt_balance_before :: pyfloat
  bt_balance_after :: pyfloat
  bt_holding_candles :: int
  bt_exit_reason :: backtest_exit

text \<open>Reason texts; the text with two formatted numbers is represented by the numbers.\<close>

datatype backtest_reason = StrategyReason plan_note | EngineReason string | RiskReason risk_reason | AdverseReason pyfloat pyfloat

record backtest_decision =
  bd_candle_index :: nat
  bd_timestamp :: pydatetime
  bd_signal :: string
  bd_confidence :: int
  bd_state :: string
  bd_reasons :: "backtest_reason list"
  bd_entry_price :: "pyfloat option"
  bd_stop_price :: "pyfloat option"
  bd_target_price :: "pyfloat option"

section \<open>The candles with their indicators\<close>

text \<open>The data frame: the numeric columns of the strategy's frame and the column \<open>time\<close>.\<close>

record candle_frame =
  cf_frame :: frame
  cf_times :: "pydatetime list"

definition row_at :: "candle_frame \<Rightarrow> nat \<Rightarrow> frame_row result" where
  "row_at df i = (if i < length (fr_rows (cf_frame df)) then Inr (fr_rows (cf_frame df) ! i) else Inl IndexError)"

definition time_at :: "candle_frame \<Rightarrow> nat \<Rightarrow> pydatetime result" where
  "time_at df i = (if i < length (cf_times df) then Inr (cf_times df ! i) else Inl IndexError)"

definition price :: "candle_frame \<Rightarrow> frame_row \<Rightarrow> string \<Rightarrow> pyfloat result" where
  "price df row c = cell (cf_frame df) row c"

text \<open>\<open>row.get("ATR", 0.0)\<close>, and the row as the risk engine reads it.\<close>

definition atr_of :: "candle_frame \<Rightarrow> frame_row \<Rightarrow> pyfloat" where
  "atr_of df row = (if ''ATR'' \<in> set (fr_columns (cf_frame df)) then row ''ATR'' else Fin 0)"

definition row_dict :: "candle_frame \<Rightarrow> frame_row \<Rightarrow> py_dict" where
  "row_dict df row = (\<lambda>k. if k \<in> set (fr_columns (cf_frame df)) then Some (PyFloat (row k)) else None)"

text \<open>\<open>df.iloc[: index + 1]\<close>\<close>

definition history :: "candle_frame \<Rightarrow> nat \<Rightarrow> candle_frame" where
  "history df i = \<lparr>cf_frame = (cf_frame df)\<lparr>fr_rows := take (Suc i) (fr_rows (cf_frame df))\<rparr>,
     cf_times = take (Suc i) (cf_times df)\<rparr>"

text \<open>The signal dictionary: the entries the engine reads.\<close>

record backtest_signal =
  sg_signal :: "string option"
  sg_confidence_value :: "int option"
  sg_reasons :: "plan_note list"
  sg_plan :: "trade_plan option"

definition signal_items :: "backtest_signal \<Rightarrow> py_dict" where
  "signal_items s = (\<lambda>k. if k = ''signal'' then map_option PyStr (sg_signal s)
     else if k = ''confidence'' then map_option PyInt (sg_confidence_value s) else None)"

section \<open>The engine\<close>

record pending_signal =
  bs_direction :: string
  bs_confidence :: int
  bs_signal_index :: nat
  bs_atr :: pyfloat

record open_position =
  bo_direction :: string
  bo_signal_index :: nat
  bo_entry_index :: nat
  bo_entry_price :: pyfloat
  bo_stop :: pyfloat
  bo_target :: pyfloat
  bo_quantity :: execution_quantity
  bo_balance_before :: pyfloat

record backtest_engine =
  bg_starting_balance :: pyfloat
  bg_balance :: pyfloat
  bg_symbol :: string
  bg_timeframe :: timeframe
  bg_risk :: backtest_risk
  bg_execution :: backtest_execution
  bg_risk_engine :: risk_engine
  bg_pending :: "pending_signal option"
  bg_position :: "open_position option"
  bg_trades :: "backtest_trade list"
  bg_decisions :: "backtest_decision list"
  bg_equity_curve :: "pyfloat list"
  bg_total_trades :: int
  bg_wins :: int
  bg_losses :: int

definition make_backtest_engine ::
  "pyfloat \<Rightarrow> string \<Rightarrow> timeframe \<Rightarrow> backtest_risk option \<Rightarrow> backtest_execution option \<Rightarrow> pyfloat \<Rightarrow> int \<Rightarrow> backtest_engine result" where
  "make_backtest_engine starting_balance symb tf risk execution settings_max_daily_loss settings_max_trades_daily =
     (if \<not> is_finite starting_balance \<or> starting_balance \<le> Fin 0
      then Inl (ValueError ''starting_balance must be positive and finite'')
      else let r = (case risk of Some r \<Rightarrow> r | None \<Rightarrow> default_risk);
               x = (case execution of Some x \<Rightarrow> x | None \<Rightarrow> default_execution) in
        Inr \<lparr>bg_starting_balance = starting_balance, bg_balance = starting_balance, bg_symbol = symb, bg_timeframe = tf,
          bg_risk = r, bg_execution = x,
          bg_risk_engine = make_engine (PyInt (br_minimum_confidence r)) (br_risk_percent r) (PyFloat (br_minimum_atr r))
            (PyFloat (br_maximum_spread r)) None None settings_max_daily_loss settings_max_trades_daily,
          bg_pending = None, bg_position = None, bg_trades = [], bg_decisions = [], bg_equity_curve = [starting_balance],
          bg_total_trades = 0, bg_wins = 0, bg_losses = 0\<rparr>)"

text \<open>\<open>_close\<close>: the trade of a position that is closed, and how it is booked. The balance does not
  become negative.\<close>

definition closing_trade ::
  "nat \<Rightarrow> pyfloat \<Rightarrow> backtest_exit \<Rightarrow> pydatetime \<Rightarrow> pydatetime \<Rightarrow> pydatetime \<Rightarrow> open_position \<Rightarrow> backtest_engine \<Rightarrow> backtest_trade" where
  "closing_trade index exit_price reason signal_time entry_time exit_time p e =
     (let gross = (if bo_direction p = ''BUY'' then exit_price - bo_entry_price p else bo_entry_price p - exit_price)
            * qty_value (bo_quantity p);
          costs = be_fee_per_trade (bg_execution e); before = bo_balance_before p;
          balance = py_max (Fin 0) (bg_balance e + (gross - costs)) in
      \<lparr>bt_trade_id = length (bg_trades e) + 1, bt_symbol = bg_symbol e, bt_timeframe = bg_timeframe e,
       bt_direction = bo_direction p, bt_signal_timestamp = signal_time, bt_entry_timestamp = entry_time,
       bt_entry_price = bo_entry_price p, bt_exit_timestamp = exit_time, bt_exit_price = exit_price,
       bt_stop_price = bo_stop p, bt_target_price = bo_target p, bt_quantity = bo_quantity p, bt_gross_pnl = gross,
       bt_costs = costs, bt_net_pnl = balance - before, bt_balance_before = before, bt_balance_after = balance,
       bt_holding_candles = int index - int (bo_entry_index p) + 1, bt_exit_reason = reason\<rparr>)"

definition book_trade :: "backtest_trade \<Rightarrow> backtest_engine \<Rightarrow> backtest_engine" where
  "book_trade t e =
     e\<lparr>bg_balance := bt_balance_after t, bg_trades := bg_trades e @ [t],
       bg_equity_curve := bg_equity_curve e @ [bt_balance_after t], bg_total_trades := bg_total_trades e + 1,
       bg_wins := bg_wins e + (if Fin 0 < bt_net_pnl t then 1 else 0),
       bg_losses := bg_losses e + (if bt_net_pnl t < Fin 0 then 1 else 0), bg_position := None\<rparr>"

definition close_position ::
  "nat \<Rightarrow> pyfloat \<Rightarrow> backtest_exit \<Rightarrow> candle_frame \<Rightarrow> open_position \<Rightarrow> backtest_engine \<Rightarrow> backtest_engine result" where
  "close_position index exit_price reason df p e =
     rbind (time_at df (bo_signal_index p)) (\<lambda>signal_time.
     rbind (time_at df (bo_entry_index p)) (\<lambda>entry_time.
     rbind (time_at df index) (\<lambda>exit_time.
     Inr (book_trade (closing_trade index exit_price reason signal_time entry_time exit_time p e) e))))"

text \<open>\<open>_evaluate_exit\<close>: the stop is tested before the target.\<close>

definition stop_hit :: "string \<Rightarrow> pyfloat \<Rightarrow> candle_frame \<Rightarrow> frame_row \<Rightarrow> bool result" where
  "stop_hit direction stop df row = (if direction = ''BUY'' then rbind (price df row ''low'') (\<lambda>x. Inr (x \<le> stop))
     else rbind (price df row ''high'') (\<lambda>x. Inr (stop \<le> x)))"

definition target_hit :: "string \<Rightarrow> pyfloat \<Rightarrow> candle_frame \<Rightarrow> frame_row \<Rightarrow> bool result" where
  "target_hit direction target df row = (if direction = ''BUY'' then rbind (price df row ''high'') (\<lambda>x. Inr (target \<le> x))
     else rbind (price df row ''low'') (\<lambda>x. Inr (x \<le> target)))"

definition evaluate_exit ::
  "nat \<Rightarrow> frame_row \<Rightarrow> candle_frame \<Rightarrow> open_position \<Rightarrow> backtest_engine \<Rightarrow> backtest_engine result" where
  "evaluate_exit index row df p e =
     rbind (stop_hit (bo_direction p) (bo_stop p) df row) (\<lambda>stopped.
     rbind (target_hit (bo_direction p) (bo_target p) df row) (\<lambda>reached.
     if stopped then close_position index (bo_stop p) BT_STOP_LOSS df p e
     else if reached then close_position index (bo_target p) BT_TAKE_PROFIT df p e
     else if be_max_holding_candles (bg_execution e) \<le> int index - int (bo_entry_index p) + 1
     then rbind (price df row ''close'') (\<lambda>c. close_position index c BT_TIMEOUT df p e)
     else Inr e))"

text \<open>\<open>_enter\<close>: the open of the entry candle, worsened by the fixed and the volatility-scaled costs.\<close>

definition atr_adverse_of :: "backtest_execution \<Rightarrow> pyfloat \<Rightarrow> pyfloat" where
  "atr_adverse_of x atr = atr * (be_spread_atr_fraction x + be_adverse_slippage_atr_fraction x)"

definition entry_fill :: "backtest_execution \<Rightarrow> string \<Rightarrow> pyfloat \<Rightarrow> pyfloat \<Rightarrow> pyfloat" where
  "entry_fill x direction atr raw_open =
     (let total_adverse = (be_spread x + be_slippage x) + atr_adverse_of x atr in
      if direction = ''BUY'' then raw_open + total_adverse else raw_open - total_adverse)"

definition entry_stop :: "backtest_execution \<Rightarrow> string \<Rightarrow> pyfloat \<Rightarrow> pyfloat \<Rightarrow> pyfloat" where
  "entry_stop x direction atr entry = (let stop_distance = atr * be_stop_atr_multiple x in
     if direction = ''BUY'' then entry - stop_distance else entry + stop_distance)"

definition entry_target :: "backtest_execution \<Rightarrow> string \<Rightarrow> pyfloat \<Rightarrow> pyfloat \<Rightarrow> pyfloat" where
  "entry_target x direction atr entry =
     (if direction = ''BUY'' then entry + atr * be_target_atr_multiple x else entry - atr * be_target_atr_multiple x)"

definition enter_position ::
  "nat \<Rightarrow> frame_row \<Rightarrow> candle_frame \<Rightarrow> pending_signal \<Rightarrow> backtest_engine \<Rightarrow> backtest_engine result" where
  "enter_position index row df s e =
     (let x = bg_execution e; atr = bs_atr s; direction = bs_direction s in
      rbind (price df row ''open'') (\<lambda>raw_open.
      let entry = entry_fill x direction atr raw_open in
      rbind (fdiv (bg_balance e * br_risk_percent (bg_risk e)) (Fin 100)) (\<lambda>risk_amount.
      if atr * be_stop_atr_multiple x \<le> Fin 0 \<or> risk_amount \<le> be_fee_per_trade x \<or> bg_balance e < risk_amount then Inr e
      else rbind (authorize_execution_quantity ''simulation'' (bg_balance e) (br_risk_percent (bg_risk e)) entry
            (entry_stop x direction atr entry)) (\<lambda>sizing.
        case (sz_risk_verifiable sizing, sz_quantity sizing) of
          (True, Some quantity) \<Rightarrow>
            Inr (e\<lparr>bg_position := Some \<lparr>bo_direction = direction, bo_signal_index = bs_signal_index s, bo_entry_index = index,
              bo_entry_price = entry, bo_stop = entry_stop x direction atr entry, bo_target = entry_target x direction atr entry,
              bo_quantity = quantity, bo_balance_before = bg_balance e\<rparr>\<rparr>)
        | _ \<Rightarrow> rbind (time_at df index) (\<lambda>time.
            Inr (e\<lparr>bg_decisions := bg_decisions e @ [\<lparr>bd_candle_index = index, bd_timestamp = time, bd_signal = direction,
              bd_confidence = bs_confidence s, bd_state = ''EXECUTION_REJECTED'',
              bd_reasons = [EngineReason (sz_reason sizing), AdverseReason (atr_adverse_of x atr) (be_spread x + be_slippage x)],
              bd_entry_price = None, bd_stop_price = None, bd_target_price = None\<rparr>]\<rparr>))))))"

definition enter_pending :: "nat \<Rightarrow> frame_row \<Rightarrow> candle_frame \<Rightarrow> backtest_engine \<Rightarrow> backtest_engine result" where
  "enter_pending index row df e =
     (if bg_position e \<noteq> None then Inr e
      else case bg_pending e of
        None \<Rightarrow> Inr e
      | Some s \<Rightarrow> if bs_signal_index s < index
          then rbind (enter_position index row df s e) (\<lambda>e. Inr (e\<lparr>bg_pending := None\<rparr>)) else Inr e)"

definition exit_position :: "nat \<Rightarrow> frame_row \<Rightarrow> candle_frame \<Rightarrow> backtest_engine \<Rightarrow> backtest_engine result" where
  "exit_position index row df e =
     (case bg_position e of None \<Rightarrow> Inr e | Some p \<Rightarrow> evaluate_exit index row df p e)"

definition process_candle :: "nat \<Rightarrow> candle_frame \<Rightarrow> backtest_engine \<Rightarrow> backtest_engine result" where
  "process_candle index df e =
     rbind (row_at df index) (\<lambda>row. rbind (enter_pending index row df e) (\<lambda>e. exit_position index row df e))"

text \<open>\<open>queue_signal\<close>: the state of the candidate, its reasons and the pending signal it leaves.\<close>

definition judge_signal ::
  "backtest_signal \<Rightarrow> nat \<Rightarrow> pyfloat \<Rightarrow> py_dict \<Rightarrow> backtest_engine \<Rightarrow> (string \<times> backtest_reason list \<times> pending_signal option) result" where
  "judge_signal signal index atr last_candle e =
     (let confidence = get_or 0 (sg_confidence_value signal); keep = bg_pending e in
      if bg_position e \<noteq> None then Inr (''REJECTED_CANDIDATE'', [EngineReason ''Position already open''], keep)
      else if bg_pending e \<noteq> None then Inr (''REJECTED_CANDIDATE'', [EngineReason ''Entry already pending''], keep)
      else case sg_signal signal of
        None \<Rightarrow> Inr (''NO_TRADE'', [], keep)
      | Some direction \<Rightarrow>
        if direction \<notin> {''BUY'', ''SELL''} then Inr (''NO_TRADE'', [], keep)
        else if confidence < br_minimum_confidence (bg_risk e)
        then Inr (''REJECTED_CANDIDATE'', [EngineReason ''Confidence below backtest minimum''], keep)
        else if atr \<le> Fin 0 then Inr (''INSUFFICIENT_SETUP'', [EngineReason ''ATR unavailable''], keep)
        else rbind (approve_trade (bg_risk_engine e) (Some (signal_items signal)) (Some last_candle) (bg_balance e) False) (\<lambda>decision.
          if rd_approved decision
          then Inr (''QUEUED'', [], Some \<lparr>bs_direction = direction, bs_confidence = confidence, bs_signal_index = index, bs_atr = atr\<rparr>)
          else Inr (''RISK_BLOCKED'', [RiskReason (rd_reason decision)], keep)))"

definition queue_signal :: "backtest_signal \<Rightarrow> nat \<Rightarrow> candle_frame \<Rightarrow> backtest_engine \<Rightarrow> backtest_engine result" where
  "queue_signal signal index df e =
     rbind (row_at df index) (\<lambda>row. let atr = atr_of df row in
     rbind (judge_signal signal index atr (row_dict df row) e) (\<lambda>(state, reasons, pending).
     rbind (time_at df index) (\<lambda>time.
     Inr (e\<lparr>bg_pending := pending, bg_decisions := bg_decisions e @ [\<lparr>bd_candle_index = index, bd_timestamp = time,
       bd_signal = (case sg_signal signal of Some d \<Rightarrow> if d = [] then ''NO_TRADE'' else d | None \<Rightarrow> ''NO_TRADE''),
       bd_confidence = get_or 0 (sg_confidence_value signal), bd_state = state,
       bd_reasons = map StrategyReason (sg_reasons signal) @ reasons,
       bd_entry_price = Option.bind (sg_plan signal) tp_entry, bd_stop_price = Option.bind (sg_plan signal) tp_stop_loss,
       bd_target_price = Option.bind (sg_plan signal) tp_take_profit\<rparr>]\<rparr>))))"

definition finish_backtest :: "nat \<Rightarrow> candle_frame \<Rightarrow> backtest_engine \<Rightarrow> backtest_engine result" where
  "finish_backtest final_index df e =
     rbind (case bg_position e of None \<Rightarrow> Inr e
       | Some p \<Rightarrow> rbind (row_at df final_index) (\<lambda>row. rbind (price df row ''close'') (\<lambda>c.
           close_position final_index c BT_END_OF_DATA df p e))) (\<lambda>e.
     Inr (e\<lparr>bg_pending := None\<rparr>))"

definition backtest_statistics :: "backtest_engine \<Rightarrow> pyfloat \<times> pyfloat \<times> pyfloat \<times> int \<times> int \<times> int" where
  "backtest_statistics e = (bg_starting_balance e, py_round 2 (bg_balance e),
     py_round 2 (bg_balance e - bg_starting_balance e), bg_total_trades e, bg_wins e, bg_losses e)"


section \<open>The immediate test helper\<close>

text \<open>\<open>execute_trade\<close> looks ahead itself and books fixed amounts; the runner does not use it.\<close>

fun scan_rows ::
  "candle_frame \<Rightarrow> string \<Rightarrow> pyfloat \<Rightarrow> pyfloat \<Rightarrow> nat list \<Rightarrow> (int \<times> pyfloat \<times> nat) option result" where
  "scan_rows df direction stop target [] = Inr None"
| "scan_rows df direction stop target (j # js) =
     rbind (row_at df j) (\<lambda>row.
     rbind (stop_hit direction stop df row) (\<lambda>stopped.
     if stopped then Inr (Some (-1, stop, j))
     else rbind (target_hit direction target df row) (\<lambda>reached.
       if reached then Inr (Some (3, target, j)) else scan_rows df direction stop target js)))"

definition helper_exit ::
  "candle_frame \<Rightarrow> string \<Rightarrow> pyfloat \<Rightarrow> pyfloat \<Rightarrow> nat \<Rightarrow> (int \<times> pyfloat \<times> nat) result" where
  "helper_exit df direction stop target current_index =
     (let future = [current_index + 1 ..< min (current_index + 20) (length (fr_rows (cf_frame df)))] in
      rbind (scan_rows df direction stop target future) (\<lambda>found.
      case found of
        Some r \<Rightarrow> Inr r
      | None \<Rightarrow> let exit_index = (if future = [] then current_index else last future) in
          rbind (row_at df exit_index) (\<lambda>row. rbind (price df row ''close'') (\<lambda>c. Inr (0, c, exit_index)))))"

definition execute_trade ::
  "backtest_signal \<Rightarrow> nat \<Rightarrow> candle_frame \<Rightarrow> backtest_engine \<Rightarrow> ((int \<times> pyfloat \<times> nat) option \<times> backtest_engine) result" where
  "execute_trade signal current_index df e =
     (case sg_signal signal of None \<Rightarrow> Inr (None, e) | Some direction \<Rightarrow>
      if direction \<notin> {''BUY'', ''SELL''} then Inr (None, e)
      else rbind (row_at df current_index) (\<lambda>row. let atr = atr_of df row in
      rbind (approve_trade (bg_risk_engine e) (Some (signal_items signal)) (Some (row_dict df row)) (bg_balance e) False) (\<lambda>decision.
      if \<not> rd_approved decision \<or> atr \<le> Fin 0 then Inr (None, e)
      else rbind (price df row ''close'') (\<lambda>entry.
      let (stop, target) = calculate_stop_target entry atr direction in
      rbind (helper_exit df direction stop target current_index) (\<lambda>(pnl, exit_price, exit_index).
      rbind (time_at df current_index) (\<lambda>timestamp. rbind (time_at df exit_index) (\<lambda>exit_timestamp.
      rbind (make_quantity (Fin 1) SIMULATION_UNITS) (\<lambda>quantity.
      let before = bg_balance e; profit = Fin (of_int pnl); after = before + profit in
      Inr (Some (pnl, exit_price, exit_index),
        e\<lparr>bg_balance := after, bg_total_trades := bg_total_trades e + 1,
          bg_wins := bg_wins e + (if 0 < pnl then 1 else 0), bg_losses := bg_losses e + (if pnl < 0 then 1 else 0),
          bg_trades := bg_trades e @ [\<lparr>bt_trade_id = length (bg_trades e) + 1, bt_symbol = bg_symbol e,
            bt_timeframe = bg_timeframe e, bt_direction = direction, bt_signal_timestamp = timestamp,
            bt_entry_timestamp = timestamp, bt_entry_price = entry, bt_exit_timestamp = exit_timestamp,
            bt_exit_price = exit_price, bt_stop_price = stop, bt_target_price = target, bt_quantity = quantity,
            bt_gross_pnl = profit, bt_costs = Fin 0, bt_net_pnl = profit, bt_balance_before = before,
            bt_balance_after = after, bt_holding_candles = int exit_index - int current_index,
            bt_exit_reason = (if 0 < pnl then BT_TAKE_PROFIT else if pnl < 0 then BT_STOP_LOSS else BT_TIMEOUT)\<rparr>],
          bg_equity_curve := bg_equity_curve e @ [after]\<rparr>)))))))))"

section \<open>The replay\<close>

text \<open>The loop of \<open>run_backtest\<close>: each candle is processed before the signal on it is queued.\<close>

fun replay_candles :: "(nat \<Rightarrow> backtest_signal result) \<Rightarrow> candle_frame \<Rightarrow> nat list \<Rightarrow> backtest_engine \<Rightarrow> backtest_engine result" where
  "replay_candles signal_at df [] e = Inr e"
| "replay_candles signal_at df (i # is) e =
     rbind (process_candle i df e) (\<lambda>e. rbind (signal_at i) (\<lambda>s. rbind (queue_signal s i df e) (\<lambda>e. replay_candles signal_at df is e)))"

text \<open>The signal on candle \<open>i\<close>: the default strategy on the candles up to it, with the regime detected on them.\<close>

definition strategy_signal ::
  "(pyfloat list \<Rightarrow> pyfloat) \<Rightarrow> (nat \<Rightarrow> pydatetime) \<Rightarrow> string \<Rightarrow> candle_frame \<Rightarrow> nat \<Rightarrow> backtest_signal result" where
  "strategy_signal mean clock symb df i =
     (let past = cf_frame (history df i) in
      rbind (detect_legacy_regime past) (\<lambda>regime.
      rbind (generate_trading_signal mean (make_strategy_engine None None) past symb (Some regime) (clock i)) (\<lambda>d.
      Inr \<lparr>sg_signal = Some (dn_signal d), sg_confidence_value = Some (dn_confidence d), sg_reasons = dn_reasons d,
           sg_plan = Some (dn_trade_plan d)\<rparr>)))"

section \<open>The cash books\<close>

text \<open>Any order of calls on an engine.\<close>

datatype backtest_call = Process nat | Queue backtest_signal nat | Finish nat

fun backtest_step :: "candle_frame \<Rightarrow> backtest_call \<Rightarrow> backtest_engine \<Rightarrow> backtest_engine result" where
  "backtest_step df (Process i) e = process_candle i df e"
| "backtest_step df (Queue s i) e = queue_signal s i df e"
| "backtest_step df (Finish i) e = finish_backtest i df e"

fun backtest_calls :: "candle_frame \<Rightarrow> backtest_call list \<Rightarrow> backtest_engine \<Rightarrow> backtest_engine result" where
  "backtest_calls df [] e = Inr e"
| "backtest_calls df (c # cs) e = rbind (backtest_step df c e) (backtest_calls df cs)"

definition cash_of_trade :: "backtest_trade \<Rightarrow> bool" where
  "cash_of_trade t \<longleftrightarrow> bt_balance_after t = py_max (Fin 0) (bt_balance_before t + (bt_gross_pnl t - bt_costs t))
     \<and> bt_net_pnl t = bt_balance_after t - bt_balance_before t"

definition cash_books :: "backtest_engine \<Rightarrow> bool" where
  "cash_books e \<longleftrightarrow>
     bg_equity_curve e = bg_starting_balance e # map bt_balance_after (bg_trades e)
     \<and> map bt_balance_before (bg_trades e) = butlast (bg_equity_curve e) \<and> bg_balance e = last (bg_equity_curve e)
     \<and> list_all (\<lambda>b. Fin 0 \<le> b) (bg_equity_curve e) \<and> list_all cash_of_trade (bg_trades e)
     \<and> map bt_trade_id (bg_trades e) = [1..<length (bg_trades e) + 1] \<and> bg_total_trades e = int (length (bg_trades e))
     \<and> bg_wins e = int (length (filter (\<lambda>t. Fin 0 < bt_net_pnl t) (bg_trades e)))
     \<and> bg_losses e = int (length (filter (\<lambda>t. bt_net_pnl t < Fin 0) (bg_trades e)))"

text \<open>The balance does not move while a position is open.\<close>

definition position_cash :: "backtest_engine \<Rightarrow> bool" where
  "position_cash e \<longleftrightarrow> (case bg_position e of None \<Rightarrow> True | Some p \<Rightarrow> bo_balance_before p = bg_balance e)"

lemma close_position_trade:
  assumes "close_position i x r df p e = Inr e'"
  obtains s t u where "time_at df (bo_signal_index p) = Inr s" "time_at df (bo_entry_index p) = Inr t" "time_at df i = Inr u"
    "e' = book_trade (closing_trade i x r s t u p e) e"
  using assms by (auto simp: close_position_def)

lemma closing_trade_cash:
  assumes "bo_balance_before p = bg_balance e"
  shows "cash_of_trade (closing_trade i x r s t u p e)" "bt_balance_before (closing_trade i x r s t u p e) = bg_balance e"
    "Fin 0 \<le> bt_balance_after (closing_trade i x r s t u p e)" "bt_trade_id (closing_trade i x r s t u p e) = length (bg_trades e) + 1"
  using assms by (simp_all add: closing_trade_def Let_def cash_of_trade_def py_max_ge)

lemma book_trade_books:
  assumes books: "cash_books e" and t: "cash_of_trade t" "bt_balance_before t = bg_balance e" "Fin 0 \<le> bt_balance_after t"
    "bt_trade_id t = length (bg_trades e) + 1"
  shows "cash_books (book_trade t e)"
proof -
  have ne: "bg_equity_curve e \<noteq> []" using books by (auto simp: cash_books_def)
  have curve: "butlast (bg_equity_curve e @ [b]) = butlast (bg_equity_curve e) @ [bg_balance e]" for b
    using books append_butlast_last_id [OF ne] by (auto simp: cash_books_def)
  have ids: "[1..<Suc n + 1] = [1..<n + 1] @ [n + 1]" for n by simp
  have "Fin 0 \<le> bg_starting_balance e \<and> list_all (\<lambda>b. Fin 0 \<le> b) (map bt_balance_after (bg_trades e))"
    using books unfolding cash_books_def by (elim conjE) simp
  then show ?thesis
    using books t unfolding cash_books_def book_trade_def by (simp add: curve)
qed

lemma close_position_books:
  assumes "close_position i x r df p e = Inr e'" "cash_books e" "bo_balance_before p = bg_balance e"
  shows "cash_books e' \<and> bg_position e' = None"
proof -
  from assms(1) obtain s t u where e': "e' = book_trade (closing_trade i x r s t u p e) e"
    by (rule close_position_trade)
  show ?thesis
    unfolding e' using book_trade_books [OF assms(2) closing_trade_cash [OF assms(3)]] by (simp add: book_trade_def)
qed

text \<open>What the other operations change is not in the books.\<close>

lemma cash_books_unchanged [simp]:
  "cash_books (e\<lparr>bg_position := p\<rparr>) = cash_books e" "cash_books (e\<lparr>bg_pending := s\<rparr>) = cash_books e"
  "cash_books (e\<lparr>bg_decisions := ds\<rparr>) = cash_books e"
  by (simp_all add: cash_books_def)

lemma enter_position_cases:
  assumes "enter_position i row df s e = Inr e'" "bg_position e = None"
  obtains "e' = e"
  | d where "e' = e\<lparr>bg_decisions := bg_decisions e @ [d]\<rparr>"
  | raw q where "price df row ''open'' = Inr raw"
      "e' = e\<lparr>bg_position := Some \<lparr>bo_direction = bs_direction s, bo_signal_index = bs_signal_index s, bo_entry_index = i,
        bo_entry_price = entry_fill (bg_execution e) (bs_direction s) (bs_atr s) raw,
        bo_stop = entry_stop (bg_execution e) (bs_direction s) (bs_atr s) (entry_fill (bg_execution e) (bs_direction s) (bs_atr s) raw),
        bo_target = entry_target (bg_execution e) (bs_direction s) (bs_atr s) (entry_fill (bg_execution e) (bs_direction s) (bs_atr s) raw),
        bo_quantity = q, bo_balance_before = bg_balance e\<rparr>\<rparr>"
proof -
  note step = assms(1) [unfolded enter_position_def Let_def, simplified]
  from step obtain raw where raw: "price df row ''open'' = Inr raw" by blast
  show ?thesis
    using step that(1) that(2) that(3) [OF raw] raw by (auto split: if_splits bool.splits option.splits)
qed

lemma evaluate_exit_cases:
  assumes "evaluate_exit i row df p e = Inr e'"
  obtains (stays) "e' = e" "stop_hit (bo_direction p) (bo_stop p) df row = Inr False"
      "target_hit (bo_direction p) (bo_target p) df row = Inr False"
      "int i - int (bo_entry_index p) + 1 < be_max_holding_candles (bg_execution e)"
  | (stopped) "stop_hit (bo_direction p) (bo_stop p) df row = Inr True" "close_position i (bo_stop p) BT_STOP_LOSS df p e = Inr e'"
  | (reached) "stop_hit (bo_direction p) (bo_stop p) df row = Inr False" "target_hit (bo_direction p) (bo_target p) df row = Inr True"
      "close_position i (bo_target p) BT_TAKE_PROFIT df p e = Inr e'"
  | (timeout) c where "stop_hit (bo_direction p) (bo_stop p) df row = Inr False"
      "target_hit (bo_direction p) (bo_target p) df row = Inr False" "price df row ''close'' = Inr c"
      "be_max_holding_candles (bg_execution e) \<le> int i - int (bo_entry_index p) + 1"
      "close_position i c BT_TIMEOUT df p e = Inr e'"
proof -
  obtain a b where hits: "stop_hit (bo_direction p) (bo_stop p) df row = Inr a" "target_hit (bo_direction p) (bo_target p) df row = Inr b"
    using assms by (auto simp: evaluate_exit_def)
  then show ?thesis
    using assms that by (cases a; cases b) (auto simp: evaluate_exit_def split: if_splits)
qed

lemma enter_position_books:
  assumes "enter_position i row df s e = Inr e'" "bg_position e = None" "cash_books e"
  shows "cash_books e' \<and> position_cash e'"
  using assms(1,2) by (rule enter_position_cases) (use assms(2,3) in \<open>auto simp: position_cash_def\<close>)

lemma evaluate_exit_books:
  assumes "evaluate_exit i row df p e = Inr e'" "cash_books e" "position_cash e" "bg_position e = Some p"
  shows "cash_books e' \<and> position_cash e'"
proof -
  have before: "bo_balance_before p = bg_balance e" using assms(3,4) by (simp add: position_cash_def)
  show ?thesis
    using assms(1)
    by (rule evaluate_exit_cases)
      (use assms(2-3) close_position_books [OF _ assms(2) before] in \<open>auto simp: position_cash_def\<close>)
qed


lemma enter_pending_books:
  assumes "enter_pending i row df e = Inr e'" "cash_books e" "position_cash e"
  shows "cash_books e' \<and> position_cash e'"
  using assms enter_position_books
  by (fastforce simp: enter_pending_def position_cash_def split: if_splits option.splits)

lemma exit_position_books:
  assumes "exit_position i row df e = Inr e'" "cash_books e" "position_cash e"
  shows "cash_books e' \<and> position_cash e'"
  using assms evaluate_exit_books by (auto simp: exit_position_def split: option.splits)

lemma process_candle_books:
  assumes "process_candle i df e = Inr e'" "cash_books e" "position_cash e"
  shows "cash_books e' \<and> position_cash e'"
  using assms enter_pending_books exit_position_books unfolding process_candle_def by fastforce

lemma queue_signal_fields:
  assumes "queue_signal s i df e = Inr e'"
  obtains row st rs pe d where "row_at df i = Inr row"
    "judge_signal s i (atr_of df row) (row_dict df row) e = Inr (st, rs, pe)"
    "e' = e\<lparr>bg_pending := pe, bg_decisions := bg_decisions e @ [d]\<rparr>"
  using assms by (auto simp: queue_signal_def Let_def)

lemma queue_signal_books:
  assumes "queue_signal s i df e = Inr e'" "cash_books e" "position_cash e"
  shows "cash_books e' \<and> position_cash e'"
  by (rule queue_signal_fields [OF assms(1)]) (use assms(2,3) in \<open>simp add: position_cash_def split: option.splits\<close>)

lemma finish_backtest_books:
  assumes "finish_backtest i df e = Inr e'" "cash_books e" "position_cash e"
  shows "cash_books e' \<and> position_cash e'"
proof (cases "bg_position e")
  case None
  then show ?thesis using assms by (auto simp: finish_backtest_def position_cash_def)
next
  case (Some p)
  then obtain c e1 where "close_position i c BT_END_OF_DATA df p e = Inr e1" "e' = e1\<lparr>bg_pending := None\<rparr>"
    using assms(1) by (auto simp: finish_backtest_def)
  then show ?thesis
    using close_position_books [of i c BT_END_OF_DATA df p e e1] assms(2,3) Some by (auto simp: position_cash_def)
qed

lemma backtest_step_books:
  assumes "backtest_step df c e = Inr e'" "cash_books e" "position_cash e"
  shows "cash_books e' \<and> position_cash e'"
  using assms process_candle_books queue_signal_books finish_backtest_books by (cases c) auto

lemma backtest_calls_books:
  "backtest_calls df cs e = Inr e' \<Longrightarrow> cash_books e \<and> position_cash e \<Longrightarrow> cash_books e' \<and> position_cash e'"
  by (induction cs arbitrary: e) (auto dest: backtest_step_books)

lemma make_backtest_engine_books:
  assumes "make_backtest_engine b symb tf r x l n = Inr e"
  shows "cash_books e \<and> position_cash e"
proof -
  have "Fin 0 \<le> b" using assms by (cases b) (auto simp: make_backtest_engine_def split: if_splits)
  then show ?thesis
    using assms by (auto simp: make_backtest_engine_def Let_def cash_books_def position_cash_def split: if_splits)
qed



section \<open>What the trades mean\<close>

definition row_of :: "candle_frame \<Rightarrow> nat \<Rightarrow> frame_row" where
  "row_of df i = fr_rows (cf_frame df) ! i"

lemma row_at_Inr: "row_at df i = Inr row \<longleftrightarrow> i < length (fr_rows (cf_frame df)) \<and> row = row_of df i"
  by (auto simp: row_at_def row_of_def)

text \<open>A position taken on candle \<open>i\<close> after the signal on candle \<open>s\<close>: filled at the open, with the levels of the
  volatility on the signal candle.\<close>

definition entered ::
  "backtest_execution \<Rightarrow> candle_frame \<Rightarrow> string \<Rightarrow> nat \<Rightarrow> nat \<Rightarrow> pyfloat \<Rightarrow> pyfloat \<Rightarrow> pyfloat \<Rightarrow> bool" where
  "entered x df direction s i entry stop target \<longleftrightarrow>
     (let atr = atr_of df (row_of df s) in
      direction \<in> {''BUY'', ''SELL''} \<and> s < i
      \<and> (\<exists>raw_open. price df (row_of df i) ''open'' = Inr raw_open \<and> entry = entry_fill x direction atr raw_open)
      \<and> stop = entry_stop x direction atr entry \<and> target = entry_target x direction atr entry)"

definition untouched :: "string \<Rightarrow> pyfloat \<Rightarrow> pyfloat \<Rightarrow> candle_frame \<Rightarrow> nat \<Rightarrow> bool" where
  "untouched direction stop target df k \<longleftrightarrow> stop_hit direction stop df (row_of df k) = Inr False
     \<and> target_hit direction target df (row_of df k) = Inr False"

text \<open>Why and at which price a trade left on candle \<open>j\<close>.\<close>

definition exit_rule :: "backtest_execution \<Rightarrow> candle_frame \<Rightarrow> backtest_trade \<Rightarrow> nat \<Rightarrow> bool" where
  "exit_rule x df t j \<longleftrightarrow>
     (let dir = bt_direction t; row = row_of df j; calm = untouched dir (bt_stop_price t) (bt_target_price t) df j in
      case bt_exit_reason t of
        BT_STOP_LOSS \<Rightarrow> stop_hit dir (bt_stop_price t) df row = Inr True \<and> bt_exit_price t = bt_stop_price t
      | BT_TAKE_PROFIT \<Rightarrow> stop_hit dir (bt_stop_price t) df row = Inr False
          \<and> target_hit dir (bt_target_price t) df row = Inr True \<and> bt_exit_price t = bt_target_price t
      | BT_TIMEOUT \<Rightarrow> calm \<and> price df row ''close'' = Inr (bt_exit_price t) \<and> bt_holding_candles t = be_max_holding_candles x
      | BT_END_OF_DATA \<Rightarrow> calm \<and> price df row ''close'' = Inr (bt_exit_price t))"

text \<open>The trade of the span \<open>(s, i, j)\<close>: signal on \<open>s\<close>, entry on \<open>i\<close>, exit on \<open>j\<close>.\<close>

fun trade_follows :: "backtest_execution \<Rightarrow> candle_frame \<Rightarrow> backtest_trade \<Rightarrow> nat \<times> nat \<times> nat \<Rightarrow> bool" where
  "trade_follows x df t (s, i, j) \<longleftrightarrow>
     entered x df (bt_direction t) s i (bt_entry_price t) (bt_stop_price t) (bt_target_price t) \<and> i \<le> j
     \<and> time_at df s = Inr (bt_signal_timestamp t) \<and> time_at df i = Inr (bt_entry_timestamp t)
     \<and> time_at df j = Inr (bt_exit_timestamp t)
     \<and> list_all (untouched (bt_direction t) (bt_stop_price t) (bt_target_price t) df) [i..<j]
     \<and> bt_holding_candles t = int (j - i) + 1 \<and> bt_holding_candles t \<le> be_max_holding_candles x \<and> exit_rule x df t j"

definition exit_index :: "nat \<times> nat \<times> nat \<Rightarrow> nat" where
  "exit_index z = snd (snd z)"

text \<open>One trade at a time: a signal that led to a trade came no earlier than the exit before it.\<close>

definition spans_ok :: "backtest_execution \<Rightarrow> candle_frame \<Rightarrow> nat \<Rightarrow> (nat \<times> nat \<times> nat) list \<Rightarrow> backtest_engine \<Rightarrow> bool" where
  "spans_ok x df n spans e \<longleftrightarrow> bg_execution e = x \<and> list_all2 (trade_follows x df) (bg_trades e) spans
     \<and> sorted_wrt (\<lambda>y z. exit_index y \<le> fst z) spans \<and> list_all (\<lambda>z. exit_index z < n) spans"

definition holds ::
  "backtest_execution \<Rightarrow> candle_frame \<Rightarrow> nat \<Rightarrow> (nat \<times> nat \<times> nat) list \<Rightarrow> open_position \<Rightarrow> bool" where
  "holds x df n spans p \<longleftrightarrow>
     entered x df (bo_direction p) (bo_signal_index p) (bo_entry_index p) (bo_entry_price p) (bo_stop p) (bo_target p)
     \<and> bo_entry_index p \<le> n \<and> list_all (untouched (bo_direction p) (bo_stop p) (bo_target p) df) [bo_entry_index p..<n]
     \<and> int n - int (bo_entry_index p) < be_max_holding_candles x \<and> list_all (\<lambda>z. exit_index z \<le> bo_signal_index p) spans"

definition waits :: "candle_frame \<Rightarrow> nat \<Rightarrow> (nat \<times> nat \<times> nat) list \<Rightarrow> pending_signal \<Rightarrow> bool" where
  "waits df n spans s \<longleftrightarrow> bs_direction s \<in> {''BUY'', ''SELL''} \<and> bs_signal_index s < n
     \<and> bs_atr s = atr_of df (row_of df (bs_signal_index s)) \<and> list_all (\<lambda>z. exit_index z \<le> bs_signal_index s) spans"

text \<open>The state before candle \<open>n\<close>, and after the entry on it.\<close>

definition chronicle :: "backtest_execution \<Rightarrow> candle_frame \<Rightarrow> nat \<Rightarrow> (nat \<times> nat \<times> nat) list \<Rightarrow> backtest_engine \<Rightarrow> bool" where
  "chronicle x df n spans e \<longleftrightarrow> spans_ok x df n spans e
     \<and> (case bg_position e of
          Some p \<Rightarrow> bg_pending e = None \<and> holds x df n spans p \<and> bo_entry_index p < n
        | None \<Rightarrow> (case bg_pending e of None \<Rightarrow> True | Some s \<Rightarrow> waits df n spans s))"

definition entered_state :: "backtest_execution \<Rightarrow> candle_frame \<Rightarrow> nat \<Rightarrow> (nat \<times> nat \<times> nat) list \<Rightarrow> backtest_engine \<Rightarrow> bool" where
  "entered_state x df n spans e \<longleftrightarrow> spans_ok x df n spans e \<and> bg_pending e = None
     \<and> (case bg_position e of None \<Rightarrow> True | Some p \<Rightarrow> holds x df n spans p)"

lemma spans_ok_unchanged [simp]:
  "spans_ok x df n spans (e\<lparr>bg_position := p\<rparr>) = spans_ok x df n spans e"
  "spans_ok x df n spans (e\<lparr>bg_pending := s\<rparr>) = spans_ok x df n spans e"
  "spans_ok x df n spans (e\<lparr>bg_decisions := ds\<rparr>) = spans_ok x df n spans e"
  by (simp_all add: spans_ok_def)

lemma enter_position_chronicle:
  assumes enter: "enter_position n row df s e = Inr e'" and row: "row = row_of df n" and e: "spans_ok x df n spans e"
    and s: "waits df n spans s" and none: "bg_position e = None" and max: "0 < be_max_holding_candles x"
  shows "entered_state x df n spans (e'\<lparr>bg_pending := None\<rparr>)"
  using enter none
proof (rule enter_position_cases)
  fix raw q
  assume raw: "price df row ''open'' = Inr raw"
    and e': "e' = e\<lparr>bg_position := Some \<lparr>bo_direction = bs_direction s, bo_signal_index = bs_signal_index s, bo_entry_index = n,
        bo_entry_price = entry_fill (bg_execution e) (bs_direction s) (bs_atr s) raw,
        bo_stop = entry_stop (bg_execution e) (bs_direction s) (bs_atr s) (entry_fill (bg_execution e) (bs_direction s) (bs_atr s) raw),
        bo_target = entry_target (bg_execution e) (bs_direction s) (bs_atr s) (entry_fill (bg_execution e) (bs_direction s) (bs_atr s) raw),
        bo_quantity = q, bo_balance_before = bg_balance e\<rparr>\<rparr>"
  have x: "bg_execution e = x" using e by (simp add: spans_ok_def)
  show ?thesis
    unfolding e' x using e s raw max by (simp add: entered_state_def holds_def waits_def entered_def Let_def row)
qed (use e none in \<open>auto simp: entered_state_def\<close>)

lemma enter_pending_chronicle:
  assumes "enter_pending n (row_of df n) df e = Inr e'" "chronicle x df n spans e" "0 < be_max_holding_candles x"
  shows "entered_state x df n spans e'"
proof (cases "bg_position e")
  case (Some p)
  then show ?thesis using assms(1,2) by (simp add: enter_pending_def chronicle_def entered_state_def)
next
  case None
  show ?thesis
  proof (cases "bg_pending e")
    case (Some s)
    then have s: "waits df n spans s" "spans_ok x df n spans e" using assms(2) None by (simp_all add: chronicle_def)
    then obtain e0 where "enter_position n (row_of df n) df s e = Inr e0" "e' = e0\<lparr>bg_pending := None\<rparr>"
      using assms(1) None Some by (auto simp: enter_pending_def waits_def)
    then show ?thesis using enter_position_chronicle [OF _ refl s(2,1) None assms(3)] by simp
  qed (use assms(1,2) None in \<open>simp add: enter_pending_def chronicle_def entered_state_def\<close>)
qed

text \<open>A close on candle \<open>n\<close> adds its span.\<close>

lemma closing_trade_fields [simp]:
  "bt_direction (closing_trade n c r u v w p e) = bo_direction p" "bt_stop_price (closing_trade n c r u v w p e) = bo_stop p"
  "bt_target_price (closing_trade n c r u v w p e) = bo_target p" "bt_exit_price (closing_trade n c r u v w p e) = c"
  "bt_exit_reason (closing_trade n c r u v w p e) = r" "bt_entry_price (closing_trade n c r u v w p e) = bo_entry_price p"
  "bt_holding_candles (closing_trade n c r u v w p e) = int n - int (bo_entry_index p) + 1"
  "bt_signal_timestamp (closing_trade n c r u v w p e) = u" "bt_entry_timestamp (closing_trade n c r u v w p e) = v"
  "bt_exit_timestamp (closing_trade n c r u v w p e) = w"
  by (simp_all add: closing_trade_def Let_def)

lemma close_position_chronicle:
  assumes close: "close_position n exit_price r df p e = Inr e'" and e: "spans_ok x df n spans e"
    and p: "holds x df n spans p"
    and rule: "\<And>u v w. exit_rule x df (closing_trade n exit_price r u v w p e) n"
  shows "spans_ok x df (Suc n) (spans @ [(bo_signal_index p, bo_entry_index p, n)]) e' \<and> bg_pending e' = bg_pending e
    \<and> bg_position e' = None"
proof -
  from close obtain u v w where times: "time_at df (bo_signal_index p) = Inr u" "time_at df (bo_entry_index p) = Inr v"
      "time_at df n = Inr w"
    and e': "e' = book_trade (closing_trade n exit_price r u v w p e) e"
    by (rule close_position_trade)
  let ?t = "closing_trade n exit_price r u v w p e" and ?z = "(bo_signal_index p, bo_entry_index p, n)"
  have "trade_follows x df ?t ?z"
    using p times rule [of u v w] by (auto simp: holds_def)
  moreover have "list_all (\<lambda>z. exit_index z < Suc n) spans"
    using e by (auto simp: spans_ok_def list_all_iff less_Suc_eq)
  moreover have "list_all2 (trade_follows x df) (bg_trades e) spans" "bg_execution e = x"
      "sorted_wrt (\<lambda>y z. exit_index y \<le> fst z) spans"
    using e by (simp_all add: spans_ok_def)
  moreover have "\<forall>y \<in> set spans. exit_index y \<le> fst ?z"
    using p by (simp add: holds_def list_all_iff)
  moreover have "exit_index ?z < Suc n" by (simp add: exit_index_def)
  ultimately show ?thesis
    unfolding e' by (simp add: spans_ok_def book_trade_def list_all2_appendI sorted_wrt_append del: trade_follows.simps)
qed

lemma spans_ok_Suc: "spans_ok x df n spans e \<Longrightarrow> spans_ok x df (Suc n) spans e"
  by (auto simp: spans_ok_def list_all_iff less_Suc_eq)

lemma holds_Suc:
  assumes "holds x df n spans p" "untouched (bo_direction p) (bo_stop p) (bo_target p) df n"
    "int n - int (bo_entry_index p) + 1 < be_max_holding_candles x"
  shows "holds x df (Suc n) spans p"
  using assms by (auto simp: holds_def)

lemma evaluate_exit_chronicle:
  assumes exit: "evaluate_exit n (row_of df n) df p e = Inr e'" and e: "entered_state x df n spans e" and p: "bg_position e = Some p"
  shows "\<exists>spans'. chronicle x df (Suc n) spans' e' \<and> bg_pending e' = None"
proof -
  have ok: "spans_ok x df n spans e" and none: "bg_pending e = None" and h: "holds x df n spans p"
    using e p by (simp_all add: entered_state_def)
  have x: "bg_execution e = x" using ok by (simp add: spans_ok_def)
  have closed: "\<exists>spans'. chronicle x df (Suc n) spans' e' \<and> bg_pending e' = None"
    if "close_position n c r df p e = Inr e'" "\<And>u v w. exit_rule x df (closing_trade n c r u v w p e) n" for c r
    using close_position_chronicle [OF that(1) ok h that(2)] none by (auto simp: chronicle_def)
  show ?thesis
    using exit
  proof (rule evaluate_exit_cases)
    assume stays: "e' = e" "stop_hit (bo_direction p) (bo_stop p) df (row_of df n) = Inr False"
      "target_hit (bo_direction p) (bo_target p) df (row_of df n) = Inr False"
      "int n - int (bo_entry_index p) + 1 < be_max_holding_candles (bg_execution e)"
    then have "holds x df (Suc n) spans p" using holds_Suc [OF h] x by (simp add: untouched_def)
    then show ?thesis using stays(1) spans_ok_Suc [OF ok] none p h by (auto simp: chronicle_def holds_def)
  next
    assume hit: "stop_hit (bo_direction p) (bo_stop p) df (row_of df n) = Inr True"
      and c: "close_position n (bo_stop p) BT_STOP_LOSS df p e = Inr e'"
    show ?thesis by (rule closed [OF c]) (use hit in \<open>simp add: exit_rule_def Let_def\<close>)
  next
    assume hit: "stop_hit (bo_direction p) (bo_stop p) df (row_of df n) = Inr False"
      "target_hit (bo_direction p) (bo_target p) df (row_of df n) = Inr True"
      and c: "close_position n (bo_target p) BT_TAKE_PROFIT df p e = Inr e'"
    show ?thesis by (rule closed [OF c]) (use hit in \<open>simp add: exit_rule_def Let_def\<close>)
  next
    fix cl
    assume hit: "stop_hit (bo_direction p) (bo_stop p) df (row_of df n) = Inr False"
      "target_hit (bo_direction p) (bo_target p) df (row_of df n) = Inr False" "price df (row_of df n) ''close'' = Inr cl"
      "be_max_holding_candles (bg_execution e) \<le> int n - int (bo_entry_index p) + 1"
      and c: "close_position n cl BT_TIMEOUT df p e = Inr e'"
    show ?thesis by (rule closed [OF c]) (use hit h x in \<open>simp add: exit_rule_def Let_def untouched_def holds_def\<close>)
  qed
qed

lemma process_candle_chronicle:
  assumes "process_candle n df e = Inr e'" "chronicle x df n spans e" "0 < be_max_holding_candles x"
  shows "\<exists>spans'. chronicle x df (Suc n) spans' e' \<and> bg_pending e' = None"
proof -
  from assms(1) obtain e1 where e1: "enter_pending n (row_of df n) df e = Inr e1" "exit_position n (row_of df n) df e1 = Inr e'"
    by (auto simp: process_candle_def row_at_Inr)
  note mid = enter_pending_chronicle [OF e1(1) assms(2,3)]
  show ?thesis
  proof (cases "bg_position e1")
    case None
    then show ?thesis using e1(2) mid
      by (auto simp: exit_position_def chronicle_def entered_state_def intro: spans_ok_Suc)
  next
    case (Some p)
    then show ?thesis using e1(2) evaluate_exit_chronicle [OF _ mid Some] by (simp add: exit_position_def)
  qed
qed

lemma judge_signal_pending:
  assumes "judge_signal s n atr candle e = Inr (st, rs, pe)"
  shows "pe = bg_pending e \<or> bg_position e = None \<and> (\<exists>p. pe = Some p \<and> bs_direction p \<in> {''BUY'', ''SELL''}
    \<and> bs_signal_index p = n \<and> bs_atr p = atr)"
  using assms by (auto simp: judge_signal_def Let_def split: if_splits option.splits)

lemma queue_signal_chronicle:
  assumes "queue_signal s n df e = Inr e'" "chronicle x df (Suc n) spans e" "bg_pending e = None"
  shows "chronicle x df (Suc n) spans e'"
  using assms(1)
proof (rule queue_signal_fields)
  fix row st rs pe d
  assume row: "row_at df n = Inr row" and judged: "judge_signal s n (atr_of df row) (row_dict df row) e = Inr (st, rs, pe)"
    and e': "e' = e\<lparr>bg_pending := pe, bg_decisions := bg_decisions e @ [d]\<rparr>"
  have "list_all (\<lambda>z. exit_index z \<le> n) spans"
    using assms(2) by (auto simp: chronicle_def spans_ok_def list_all_iff)
  then show ?thesis
    using judge_signal_pending [OF judged] assms(2,3) row unfolding e'
    by (auto simp: chronicle_def waits_def row_at_Inr split: option.splits)
qed

lemma replay_chronicle:
  assumes "0 < be_max_holding_candles x"
  shows "replay_candles signal_at df [n..<n + k] e = Inr e' \<Longrightarrow> chronicle x df n spans e \<Longrightarrow> \<exists>spans'. chronicle x df (n + k) spans' e'"
proof (induction k arbitrary: n e spans)
  case (Suc k)
  have "[n..<n + Suc k] = n # [Suc n..<Suc n + k]" by (simp add: upt_conv_Cons)
  then obtain e1 s e2 where steps: "process_candle n df e = Inr e1" "queue_signal s n df e1 = Inr e2"
    "replay_candles signal_at df [Suc n..<Suc n + k] e2 = Inr e'"
    using Suc.prems(1) by auto
  obtain spans' where "chronicle x df (Suc n) spans' e1" "bg_pending e1 = None"
    using process_candle_chronicle [OF steps(1) Suc.prems(2) assms] by blast
  then have "chronicle x df (Suc n) spans' e2" using queue_signal_chronicle [OF steps(2)] by blast
  from Suc.IH [OF steps(3) this] show ?case by simp
qed auto

lemma finish_chronicle:
  assumes finish: "finish_backtest (n - 1) df e = Inr e'" and e: "chronicle x df n spans e"
  shows "\<exists>spans'. spans_ok x df n spans' e'"
proof (cases "bg_position e")
  case None
  then show ?thesis using finish e by (auto simp: finish_backtest_def chronicle_def)
next
  case (Some p)
  then have ok: "spans_ok x df n spans e" and p: "holds x df n spans p" "bo_entry_index p < n"
    using e by (simp_all add: chronicle_def)
  then obtain m where n: "n = Suc m" by (cases n) auto
  obtain c e1 where c: "price df (row_of df m) ''close'' = Inr c" "close_position m c BT_END_OF_DATA df p e = Inr e1"
    "e' = e1\<lparr>bg_pending := None\<rparr>"
    using finish Some n by (auto simp: finish_backtest_def row_at_Inr)
  have quiet: "untouched (bo_direction p) (bo_stop p) (bo_target p) df m" using p n by (auto simp: holds_def)
  have "list_all (\<lambda>z. exit_index z < m) spans" using p n by (auto simp: holds_def entered_def Let_def list_all_iff)
  then have "spans_ok x df m spans e" using ok by (simp add: spans_ok_def)
  moreover have "holds x df m spans p" using p n by (auto simp: holds_def list_all_iff)
  ultimately have "spans_ok x df (Suc m) (spans @ [(bo_signal_index p, bo_entry_index p, m)]) e1"
    using close_position_chronicle [OF c(2)] quiet c(1) by (simp add: exit_rule_def Let_def)
  then show ?thesis using c(3) n by auto
qed

lemma make_backtest_engine_chronicle:
  assumes "make_backtest_engine b symb tf r x l m = Inr e"
  shows "chronicle (bg_execution e) df n [] e"
  using assms by (auto simp: make_backtest_engine_def Let_def chronicle_def spans_ok_def split: if_splits)


section \<open>No look-ahead\<close>

text \<open>The first \<open>n\<close> candles of two frames are the same.\<close>

definition same_candles :: "nat \<Rightarrow> candle_frame \<Rightarrow> candle_frame \<Rightarrow> bool" where
  "same_candles n df df' \<longleftrightarrow> n \<le> length (fr_rows (cf_frame df)) \<and> n \<le> length (fr_rows (cf_frame df'))
     \<and> n \<le> length (cf_times df) \<and> n \<le> length (cf_times df')
     \<and> fr_columns (cf_frame df) = fr_columns (cf_frame df')
     \<and> take n (fr_rows (cf_frame df)) = take n (fr_rows (cf_frame df')) \<and> take n (cf_times df) = take n (cf_times df')"

lemma same_candles_access:
  assumes "same_candles n df df'" "i < n"
  shows "row_at df i = row_at df' i" "time_at df i = time_at df' i" "price df = price df'" "atr_of df = atr_of df'"
    "row_dict df = row_dict df'" "stop_hit direction stop df = stop_hit direction stop df'"
    "target_hit direction target df = target_hit direction target df'" "history df i = history df' i"
proof -
  have "take n (fr_rows (cf_frame df)) ! i = take n (fr_rows (cf_frame df')) ! i"
    "take n (cf_times df) ! i = take n (cf_times df') ! i" using assms(1) by (simp_all add: same_candles_def)
  then have rows: "fr_rows (cf_frame df) ! i = fr_rows (cf_frame df') ! i" and times: "cf_times df ! i = cf_times df' ! i"
    by (simp_all only: nth_take [OF assms(2)])
  show "row_at df i = row_at df' i" "time_at df i = time_at df' i"
    using assms rows times by (auto simp: same_candles_def row_at_def time_at_def)
  have cols: "fr_columns (cf_frame df) = fr_columns (cf_frame df')" using assms(1) by (simp add: same_candles_def)
  show p: "price df = price df'" by (intro ext) (simp add: price_def cell_def cols)
  show "atr_of df = atr_of df'" "row_dict df = row_dict df'" by (intro ext, simp add: atr_of_def row_dict_def cols)+
  show "stop_hit direction stop df = stop_hit direction stop df'" "target_hit direction target df = target_hit direction target df'"
    by (intro ext, simp add: stop_hit_def target_hit_def p)+
  have "take (Suc i) (take n (fr_rows (cf_frame df))) = take (Suc i) (take n (fr_rows (cf_frame df')))"
    "take (Suc i) (take n (cf_times df)) = take (Suc i) (take n (cf_times df'))"
    using assms(1) by (simp_all add: same_candles_def)
  then show "history df i = history df' i" using cols assms(2) by (simp add: history_def min_absorb1)
qed


definition seen :: "nat \<Rightarrow> backtest_engine \<Rightarrow> bool" where
  "seen n e \<longleftrightarrow> (case bg_position e of None \<Rightarrow> True | Some p \<Rightarrow> bo_signal_index p < n \<and> bo_entry_index p < n)
     \<and> (case bg_pending e of None \<Rightarrow> True | Some s \<Rightarrow> bs_signal_index s < n)"

lemma close_position_same:
  assumes "same_candles n df df'" "i < n" "bo_signal_index p < n" "bo_entry_index p < n"
  shows "close_position i c r df p e = close_position i c r df' p e"
  using same_candles_access(2) [OF assms(1)] assms(2-4) by (simp add: close_position_def)

lemma enter_pending_same:
  assumes "same_candles n df df'" "i < n"
  shows "enter_pending i row df e = enter_pending i row df' e"
  unfolding enter_pending_def enter_position_def same_candles_access [OF assms] ..

lemma exit_position_same:
  assumes "same_candles n df df'" "i < n" "seen n e"
  shows "exit_position i row df e = exit_position i row df' e"
proof (cases "bg_position e")
  case (Some p)
  then have "bo_signal_index p < n" "bo_entry_index p < n" using assms(3) by (simp_all add: seen_def)
  note close = close_position_same [OF assms(1,2) this]
  have "evaluate_exit i row df p e = evaluate_exit i row df' p e"
    unfolding evaluate_exit_def close same_candles_access(3,6,7) [OF assms(1,2)] ..
  then show ?thesis using Some by (simp add: exit_position_def)
qed (simp add: exit_position_def)

lemma enter_pending_seen:
  assumes "enter_pending i row df e = Inr e'" "seen n e" "i < n"
  shows "seen n e'"
proof (cases "bg_position e = None \<and> (\<exists>s. bg_pending e = Some s \<and> bs_signal_index s < i)")
  case True
  then obtain s e0 where s: "bg_position e = None" "bg_pending e = Some s" "enter_position i row df s e = Inr e0" "e' = e0\<lparr>bg_pending := None\<rparr>"
    using assms(1) by (auto simp: enter_pending_def)
  show ?thesis
    by (rule enter_position_cases [OF s(3,1)]) (use assms(2,3) s in \<open>auto simp: seen_def\<close>)
next
  case False
  then show ?thesis using assms(1,2) by (auto simp: enter_pending_def split: option.splits if_splits)
qed

lemma exit_position_seen:
  assumes "exit_position i row df e = Inr e'" "seen n e"
  shows "seen n e'"
proof (cases "bg_position e")
  case (Some p)
  have closed: "seen n e'" if "close_position i c r df p e = Inr e'" for c r
    using that by (rule close_position_trade) (use assms(2) in \<open>auto simp: seen_def book_trade_def\<close>)
  have "evaluate_exit i row df p e = Inr e'" using assms(1) Some by (simp add: exit_position_def)
  then show ?thesis by (rule evaluate_exit_cases) (use assms(2) closed in auto)
qed (use assms in \<open>simp add: exit_position_def\<close>)

lemma process_candle_seen:
  assumes "process_candle i df e = Inr e'" "seen n e" "i < n"
  shows "seen n e'"
  using assms enter_pending_seen exit_position_seen unfolding process_candle_def by fastforce

lemma process_candle_same:
  assumes "same_candles n df df'" "i < n" "seen n e"
  shows "process_candle i df e = process_candle i df' e"
proof -
  have "rbind (enter_pending i row df e) (exit_position i row df) = rbind (enter_pending i row df' e) (exit_position i row df')" for row
    using enter_pending_seen [OF _ assms(3,2), of row df] exit_position_same [OF assms(1,2)]
    by (cases "enter_pending i row df e") (simp_all add: enter_pending_same [OF assms(1,2), symmetric])
  then show ?thesis using same_candles_access(1) [OF assms(1,2)] by (simp add: process_candle_def)
qed

lemma queue_signal_same:
  assumes "same_candles n df df'" "i < n"
  shows "queue_signal s i df e = queue_signal s i df' e"
  unfolding queue_signal_def same_candles_access [OF assms] ..

lemma queue_signal_seen:
  assumes "queue_signal s i df e = Inr e'" "seen n e" "i < n"
  shows "seen n e'"
  using assms(1)
proof (rule queue_signal_fields)
  fix row st rs pe d
  assume judged: "judge_signal s i (atr_of df row) (row_dict df row) e = Inr (st, rs, pe)"
    and e': "e' = e\<lparr>bg_pending := pe, bg_decisions := bg_decisions e @ [d]\<rparr>"
  show ?thesis using judge_signal_pending [OF judged] assms(2,3) unfolding e' by (auto simp: seen_def split: option.splits)
qed

lemma replay_same:
  assumes "same_candles n df df'"
  shows "(\<And>i. i \<in> set is \<Longrightarrow> i < n \<and> signal_at i = signal_at' i) \<Longrightarrow> seen n e
    \<Longrightarrow> replay_candles signal_at df is e = replay_candles signal_at' df' is e"
proof (induction "is" arbitrary: e)
  case (Cons i js)
  have i: "i < n" "signal_at i = signal_at' i" using Cons.prems(1) by auto
  have rest: "replay_candles signal_at df js e\<^sub>2 = replay_candles signal_at' df' js e\<^sub>2" if "seen n e\<^sub>2" for e\<^sub>2
    using Cons.IH [OF _ that] Cons.prems(1) by auto
  show ?case
  proof (cases "process_candle i df e")
    case (Inr e\<^sub>1)
    note e\<^sub>1 = process_candle_seen [OF Inr Cons.prems(2) i(1)]
    have "rbind (queue_signal s i df e\<^sub>1) (replay_candles signal_at df js) = rbind (queue_signal s i df' e\<^sub>1) (replay_candles signal_at' df' js)" for s
      using queue_signal_seen [OF _ e\<^sub>1 i(1), of s df] rest
      by (cases "queue_signal s i df e\<^sub>1") (simp_all add: queue_signal_same [OF assms i(1), symmetric])
    then show ?thesis using Inr process_candle_same [OF assms i(1) Cons.prems(2)] i(2) by simp
  qed (use process_candle_same [OF assms i(1) Cons.prems(2)] in simp)
qed simp

lemma make_backtest_engine_seen: "make_backtest_engine b symb tf r x l m = Inr e \<Longrightarrow> seen n e"
  by (auto simp: make_backtest_engine_def Let_def seen_def split: if_splits)



section \<open>A sample run\<close>

definition sample_bar_row :: "pyfloat \<Rightarrow> pyfloat \<Rightarrow> frame_row" where
  "sample_bar_row high low k = (if k = ''open'' then Fin 100 else if k = ''high'' then high else if k = ''low'' then low
     else if k = ''close'' then Fin 101 else Fin 4)"

definition sample_candles :: "pyfloat \<Rightarrow> candle_frame" where
  "sample_candles high = \<lparr>cf_frame = \<lparr>fr_columns = [''open'', ''high'', ''low'', ''close'', ''ATR''],
       fr_rows = [sample_bar_row (Fin 102) (Fin 99), sample_bar_row (Fin 103) (Fin 98), sample_bar_row high (Fin 95)]\<rparr>,
     cf_times = [Aware 0 0, Aware 300000000 0, Aware 600000000 0]\<rparr>"

definition sample_signal :: "nat \<Rightarrow> backtest_signal" where
  "sample_signal i = \<lparr>sg_signal = Some (if i = 0 then ''BUY'' else ''NO_TRADE''), sg_confidence_value = Some 80, sg_reasons = [],
     sg_plan = None\<rparr>"

definition sample_assumptions :: backtest_execution where
  "sample_assumptions = default_execution\<lparr>be_stop_atr_multiple := Fin (5/2)\<rparr>"

definition sample_risk_configuration :: backtest_risk where
  "sample_risk_configuration = default_risk\<lparr>br_risk_percent := Fin (1/2)\<rparr>"

definition sample_backtest :: backtest_engine where
  "sample_backtest = \<lparr>bg_starting_balance = Fin 1000, bg_balance = Fin 1000, bg_symbol = ''X'', bg_timeframe = M5,
     bg_risk = sample_risk_configuration, bg_execution = sample_assumptions,
     bg_risk_engine = make_engine (PyInt 70) (Fin (1/2)) (PyFloat (Fin 1)) (PyFloat (Fin 30)) None None (Fin 5) 10,
     bg_pending = None, bg_position = None, bg_trades = [], bg_decisions = [], bg_equity_curve = [Fin 1000],
     bg_total_trades = 0, bg_wins = 0, bg_losses = 0\<rparr>"

lemma sample_backtest_made:
  "make_backtest_engine (Fin 1000) ''X'' M5 (Some sample_risk_configuration) (Some sample_assumptions) (Fin 5) 10 = Inr sample_backtest"
  by (simp add: make_backtest_engine_def sample_backtest_def) (simp add: sample_risk_configuration_def default_risk_def)

lemma sample_assumptions_valid: "make_execution sample_assumptions = Inr sample_assumptions"
  by (simp add: make_execution_def sample_assumptions_def default_execution_def)

lemma sample_queue:
  "\<exists>ds. queue_signal (sample_signal 0) 0 (sample_candles h) sample_backtest = Inr (sample_backtest\<lparr>
     bg_pending := Some \<lparr>bs_direction = ''BUY'', bs_confidence = 80, bs_signal_index = 0, bs_atr = Fin 4\<rparr>, bg_decisions := ds\<rparr>)"
  by (simp add: queue_signal_def row_at_def time_at_def sample_candles_def atr_of_def sample_bar_row_def judge_signal_def
      sample_signal_def sample_backtest_def get_or_def sample_risk_configuration_def default_risk_def approve_trade_def signal_items_def
      dict_get_def in_sides_def make_engine_def py_less_def row_dict_def check_market_def)

definition sample_open :: open_position where
  "sample_open = \<lparr>bo_direction = ''BUY'', bo_signal_index = 0, bo_entry_index = 1, bo_entry_price = Fin 100, bo_stop = Fin 90,
     bo_target = Fin 112, bo_quantity = \<lparr>qty_value = Fin (1/2), qty_unit = SIMULATION_UNITS\<rparr>, bo_balance_before = Fin 1000\<rparr>"

lemma sample_levels_open:
  "entry_fill sample_assumptions ''BUY'' (Fin 4) (Fin 100) = Fin 100" "entry_stop sample_assumptions ''BUY'' (Fin 4) (Fin 100) = Fin 90"
  "entry_target sample_assumptions ''BUY'' (Fin 4) (Fin 100) = Fin 112"
  by (simp_all add: entry_fill_def entry_stop_def entry_target_def sample_assumptions_def default_execution_def atr_adverse_of_def
      Let_def minus_pyfloat_def)

lemma sample_enter:
  "process_candle 1 (sample_candles h) (sample_backtest\<lparr>bg_pending := Some \<lparr>bs_direction = ''BUY'', bs_confidence = 80,
      bs_signal_index = 0, bs_atr = Fin 4\<rparr>, bg_decisions := ds\<rparr>)
   = Inr (sample_backtest\<lparr>bg_position := Some sample_open, bg_decisions := ds\<rparr>)"
proof -
  have row: "row_at (sample_candles h) 1 = Inr (sample_bar_row (Fin 103) (Fin 98))" by (simp add: row_at_def sample_candles_def)
  have price: "price (sample_candles h) (sample_bar_row (Fin 103) (Fin 98)) ''open'' = Inr (Fin 100)"
    "price (sample_candles h) (sample_bar_row (Fin 103) (Fin 98)) ''high'' = Inr (Fin 103)"
    "price (sample_candles h) (sample_bar_row (Fin 103) (Fin 98)) ''low'' = Inr (Fin 98)"
    by (simp_all add: price_def cell_def sample_candles_def sample_bar_row_def)
  have d: "atr * be_stop_atr_multiple sample_assumptions = Fin 10" if "atr = Fin 4" for atr
    using that by (simp add: sample_assumptions_def default_execution_def)
  have "enter_pending 1 (sample_bar_row (Fin 103) (Fin 98)) (sample_candles h) (sample_backtest\<lparr>bg_pending := Some \<lparr>bs_direction = ''BUY'',
      bs_confidence = 80, bs_signal_index = 0, bs_atr = Fin 4\<rparr>, bg_decisions := ds\<rparr>)
     = Inr (sample_backtest\<lparr>bg_position := Some sample_open, bg_decisions := ds\<rparr>)"
    using sample_sizing_result
    by (simp add: enter_pending_def enter_position_def Let_def sample_backtest_def price d sample_levels_open sample_risk_configuration_def default_risk_def
        sample_sizing_def sample_open_def) (simp add: sample_assumptions_def default_execution_def)
  moreover have "exit_position 1 (sample_bar_row (Fin 103) (Fin 98)) (sample_candles h)
      (sample_backtest\<lparr>bg_position := Some sample_open, bg_decisions := ds\<rparr>) = Inr (sample_backtest\<lparr>bg_position := Some sample_open, bg_decisions := ds\<rparr>)"
    by (simp add: exit_position_def evaluate_exit_def stop_hit_def target_hit_def price sample_open_def)
       (simp add: sample_backtest_def sample_assumptions_def default_execution_def)
  ultimately show ?thesis by (simp only: process_candle_def row rbind.simps)
qed


definition sample_closed :: backtest_engine where
  "sample_closed = book_trade (closing_trade 2 (Fin 112) BT_TAKE_PROFIT (Aware 0 0) (Aware 300000000 0) (Aware 600000000 0)
     sample_open sample_backtest) sample_backtest"

lemma sample_exit:
  "process_candle 2 (sample_candles (Fin 113)) (sample_backtest\<lparr>bg_position := Some sample_open, bg_decisions := ds\<rparr>)
   = Inr (sample_closed\<lparr>bg_decisions := ds\<rparr>)"
proof -
  have row: "row_at (sample_candles (Fin 113)) 2 = Inr (sample_bar_row (Fin 113) (Fin 95))"
    by (simp add: row_at_def sample_candles_def)
  have price: "price (sample_candles (Fin 113)) (sample_bar_row (Fin 113) (Fin 95)) ''high'' = Inr (Fin 113)"
    "price (sample_candles (Fin 113)) (sample_bar_row (Fin 113) (Fin 95)) ''low'' = Inr (Fin 95)"
    by (simp_all add: price_def cell_def sample_candles_def sample_bar_row_def)
  have times: "time_at (sample_candles (Fin 113)) 0 = Inr (Aware 0 0)" "time_at (sample_candles (Fin 113)) (Suc 0) = Inr (Aware 300000000 0)"
    "time_at (sample_candles (Fin 113)) 2 = Inr (Aware 600000000 0)"
    by (simp_all add: time_at_def sample_candles_def)
  show ?thesis
    by (simp add: process_candle_def row enter_pending_def exit_position_def evaluate_exit_def stop_hit_def target_hit_def price
        close_position_def times sample_open_def [THEN arg_cong, of bo_direction] sample_open_def [THEN arg_cong, of bo_stop]
        sample_open_def [THEN arg_cong, of bo_target] sample_open_def [THEN arg_cong, of bo_signal_index]
        sample_open_def [THEN arg_cong, of bo_entry_index])
      (simp add: sample_closed_def sample_backtest_def closing_trade_def book_trade_def Let_def)
qed

lemma judge_no_trade:
  assumes "sg_signal s = Some ''NO_TRADE''"
  shows "\<exists>st rs. judge_signal s i atr candle e = Inr (st, rs, bg_pending e)"
proof (cases "bg_position e")
  case None
  then show ?thesis using assms by (cases "bg_pending e") (simp_all add: judge_signal_def Let_def)
qed (simp add: judge_signal_def Let_def)

lemma sample_no_trade:
  assumes "i \<noteq> 0" "i < 3"
  shows "\<exists>ds. queue_signal (sample_signal i) i (sample_candles h) e = Inr (e\<lparr>bg_decisions := ds\<rparr>)"
proof -
  obtain row time where "row_at (sample_candles h) i = Inr row" "time_at (sample_candles h) i = Inr time"
    using assms by (auto simp: row_at_def time_at_def sample_candles_def)
  moreover obtain st rs where "judge_signal (sample_signal i) i (atr_of (sample_candles h) row) (row_dict (sample_candles h) row) e
      = Inr (st, rs, bg_pending e)"
    using judge_no_trade [of "sample_signal i"] assms(1) by (fastforce simp: sample_signal_def)
  ultimately show ?thesis by (cases e) (simp add: queue_signal_def Let_def)
qed

text \<open>The run: the signal on the first candle, the entry on the second, the exit at the target on the third.\<close>

lemma sample_run:
  obtains ds ds' e\<^sub>1 where
    "process_candle 0 (sample_candles h) sample_backtest = Inr sample_backtest"
    "queue_signal (sample_signal 0) 0 (sample_candles h) sample_backtest = Inr e\<^sub>1"
    "process_candle 1 (sample_candles h) e\<^sub>1 = Inr (sample_backtest\<lparr>bg_position := Some sample_open, bg_decisions := ds\<rparr>)"
    "queue_signal (sample_signal 1) 1 (sample_candles h) (sample_backtest\<lparr>bg_position := Some sample_open, bg_decisions := ds\<rparr>)
       = Inr (sample_backtest\<lparr>bg_position := Some sample_open, bg_decisions := ds'\<rparr>)"
proof -
  have first: "process_candle 0 (sample_candles h) sample_backtest = Inr sample_backtest"
    by (simp add: process_candle_def row_at_def sample_candles_def enter_pending_def exit_position_def sample_backtest_def)
  obtain ds where q0: "queue_signal (sample_signal 0) 0 (sample_candles h) sample_backtest = Inr (sample_backtest\<lparr>
     bg_pending := Some \<lparr>bs_direction = ''BUY'', bs_confidence = 80, bs_signal_index = 0, bs_atr = Fin 4\<rparr>, bg_decisions := ds\<rparr>)"
    using sample_queue by blast
  obtain ds' where q1: "queue_signal (sample_signal 1) 1 (sample_candles h) (sample_backtest\<lparr>bg_position := Some sample_open, bg_decisions := ds\<rparr>)
       = Inr (sample_backtest\<lparr>bg_position := Some sample_open, bg_decisions := ds'\<rparr>)"
    using sample_no_trade [of 1 h "sample_backtest\<lparr>bg_position := Some sample_open, bg_decisions := ds\<rparr>"] by auto
  show ?thesis using that [OF first q0 sample_enter q1] .
qed

lemma sample_replay:
  "\<exists>ds. replay_candles (\<lambda>i. Inr (sample_signal i)) (sample_candles (Fin 113)) [0..<0 + 3] sample_backtest = Inr (sample_closed\<lparr>bg_decisions := ds\<rparr>)
   \<and> finish_backtest (0 + 3 - 1) (sample_candles (Fin 113)) (sample_closed\<lparr>bg_decisions := ds\<rparr>) = Inr (sample_closed\<lparr>bg_decisions := ds\<rparr>)"
proof -
  obtain ds ds' e\<^sub>1 where steps:
    "process_candle 0 (sample_candles (Fin 113)) sample_backtest = Inr sample_backtest"
    "queue_signal (sample_signal 0) 0 (sample_candles (Fin 113)) sample_backtest = Inr e\<^sub>1"
    "process_candle 1 (sample_candles (Fin 113)) e\<^sub>1 = Inr (sample_backtest\<lparr>bg_position := Some sample_open, bg_decisions := ds\<rparr>)"
    "queue_signal (sample_signal 1) 1 (sample_candles (Fin 113)) (sample_backtest\<lparr>bg_position := Some sample_open, bg_decisions := ds\<rparr>)
       = Inr (sample_backtest\<lparr>bg_position := Some sample_open, bg_decisions := ds'\<rparr>)"
    by (rule sample_run)
  obtain ds'' where last: "queue_signal (sample_signal 2) 2 (sample_candles (Fin 113)) (sample_closed\<lparr>bg_decisions := ds'\<rparr>)
      = Inr (sample_closed\<lparr>bg_decisions := ds''\<rparr>)"
    using sample_no_trade [of 2 "Fin 113" "sample_closed\<lparr>bg_decisions := ds'\<rparr>"] by auto
  have indices: "[0..<0 + 3 :: nat] = [0, 1, 2]" by (simp add: upt_rec)
  have "replay_candles (\<lambda>i. Inr (sample_signal i)) (sample_candles (Fin 113)) [0..<0 + 3] sample_backtest = Inr (sample_closed\<lparr>bg_decisions := ds''\<rparr>)"
    unfolding indices by (simp add: steps [simplified] sample_exit last)
  moreover have "bg_position sample_closed = None" "bg_pending sample_closed = None"
    by (simp_all add: sample_closed_def book_trade_def sample_backtest_def)
  then have "finish_backtest (0 + 3 - 1) (sample_candles (Fin 113)) (sample_closed\<lparr>bg_decisions := ds''\<rparr>) = Inr (sample_closed\<lparr>bg_decisions := ds''\<rparr>)"
    by (cases sample_closed) (simp add: finish_backtest_def)
  ultimately show ?thesis by blast
qed

lemma sample_closed_trade:
  "bg_balance sample_closed = Fin 1006" "length (bg_trades sample_closed) = 1"
  by (simp_all add: sample_closed_def book_trade_def closing_trade_def sample_backtest_def sample_open_def Let_def minus_pyfloat_def
      sample_assumptions_def default_execution_def py_max_def)




end
