(* ===== verification/Backtest.thy ===== *)
theory Backtest
  imports Backtest_Engine Simulation_Gateway
begin

text \<open>
  The backtest runner and its result (\<open>src/backtesting/backtest.py\<close>, \<open>src/backtesting/drawdown.py\<close>, the data set and
  the result of \<open>src/backtesting/models.py\<close>): the checks of the candles, the replay on the engine with the
  default strategy, and the statistics of the trades. The indicator columns (pandas) are a parameter;
  the hashes that identify a run are left out.

  The lemmas show that the maximum drawdown is the largest fall of the balance, and that every run that
  returns has balanced books and trades that follow its candles.
\<close>

section \<open>Drawdown and runs\<close>

definition balance_drawdown :: "pyfloat \<Rightarrow> pyfloat \<Rightarrow> pyfloat \<times> pyfloat \<times> pyfloat" where
  "balance_drawdown balance peak =
     (let peak = py_max peak balance; amount = peak - balance in
      (peak, amount, if feq peak (Fin 0) then Fin 0
         else case fdiv amount peak of Inr q \<Rightarrow> q * Fin 100 | Inl x \<Rightarrow> Fin 0))"

fun scan_drawdown :: "pyfloat \<Rightarrow> pyfloat \<times> pyfloat \<Rightarrow> pyfloat list \<Rightarrow> pyfloat \<times> pyfloat" where
  "scan_drawdown peak worst [] = worst"
| "scan_drawdown peak worst (b # bs) =
     (let (peak, drawdown, percent) = balance_drawdown b peak in
      scan_drawdown peak (if fst worst < drawdown then (drawdown, percent) else worst) bs)"

definition max_drawdown :: "pyfloat list \<Rightarrow> (pyfloat \<times> pyfloat) result" where
  "max_drawdown curve = (if curve = [] then Inl IndexError else Inr (scan_drawdown (hd curve) (Fin 0, Fin 0) curve))"

fun scan_runs :: "nat \<times> nat \<times> nat \<times> nat \<Rightarrow> pyfloat list \<Rightarrow> nat \<times> nat" where
  "scan_runs (max_wins, max_losses, win_run, loss_run) [] = (max_wins, max_losses)"
| "scan_runs (max_wins, max_losses, win_run, loss_run) (pnl # pnls) =
     (let (win_run, loss_run) = (if Fin 0 < pnl then (win_run + 1, 0) else if pnl < Fin 0 then (0, loss_run + 1) else (0, 0)) in
      scan_runs (max max_wins win_run, max max_losses loss_run, win_run, loss_run) pnls)"

section \<open>The result\<close>

record indicator_observation =
  bi_candle_index :: nat
  bi_timestamp :: pydatetime
  bi_ema50 :: "pyfloat option"
  bi_ema200 :: "pyfloat option"
  bi_rsi :: "pyfloat option"
  bi_atr :: "pyfloat option"
  bi_regime :: "string option"

text \<open>The data set: its construction checks the candles.\<close>

record candle_snapshot =
  cs_provider :: string
  cs_symbol :: string
  cs_timeframe :: timeframe
  cs_candles :: "candle list"

fun times_increase :: "pydatetime list \<Rightarrow> bool result" where
  "times_increase (s # t # ts) = rbind (dt_le t s) (\<lambda>back. if back then Inr False else times_increase (t # ts))"
| "times_increase ts = Inr True"

definition market_error :: "string \<Rightarrow> py_exn" where
  "market_error message = OtherException (''MarketDataError: '' @ message)"

definition check_candle :: "candle \<Rightarrow> unit result" where
  "check_candle c =
     (if \<not> list_all positive_finite [cd_open c, cd_high c, cd_low c, cd_close c]
      then Inl (market_error ''Backtest OHLC values must be positive and finite'')
      else if cd_high c < py_max (cd_open c) (cd_close c) \<or> py_min (cd_open c) (cd_close c) < cd_low c \<or> cd_high c < cd_low c
      then Inl (market_error ''Backtest candle OHLC invariants failed'')
      else Inr ())"

fun check_candles :: "candle list \<Rightarrow> unit result" where
  "check_candles [] = Inr ()"
| "check_candles (c # cs) = rbind (check_candle c) (\<lambda>_. check_candles cs)"

definition make_snapshot :: "candle_snapshot \<Rightarrow> candle_snapshot result" where
  "make_snapshot s =
     (if \<not> nonblank (cs_provider s) \<or> \<not> nonblank (cs_symbol s) \<or> cs_candles s = []
      then Inl (market_error ''Backtest dataset identity and candles are required'')
      else if \<not> list_all (\<lambda>c. tz_aware (cd_time c)) (cs_candles s)
      then Inl (market_error ''Backtest candle timestamps must be timezone-aware'')
      else rbind (times_increase (map cd_time (cs_candles s))) (\<lambda>increasing.
        if \<not> increasing then Inl (market_error ''Backtest candles must be unique and strictly increasing'')
        else if 1 < length (remdups (map (\<lambda>c. py_lower (py_strip (cd_source c))) (cs_candles s)))
        then Inl (market_error ''Backtest dataset cannot mix candle sources'')
        else rbind (check_candles (cs_candles s)) (\<lambda>_. Inr s)))"

text \<open>\<open>BacktestResult\<close> without the hashes and the copies of the configuration.\<close>

record backtest_result =
  rs_provider :: string
  rs_symbol :: string
  rs_timeframe :: timeframe
  rs_dataset_start :: pydatetime
  rs_dataset_end :: pydatetime
  rs_candle_count :: nat
  rs_initial_capital :: pyfloat
  rs_ending_capital :: pyfloat
  rs_absolute_pnl :: pyfloat
  rs_return_percent :: pyfloat
  rs_total_trades :: nat
  rs_winning_trades :: nat
  rs_losing_trades :: nat
  rs_break_even_trades :: int
  rs_win_rate_percent :: pyfloat
  rs_gross_profit :: pyfloat
  rs_gross_loss :: pyfloat
  rs_profit_factor :: "pyfloat option"
  rs_profit_factor_status :: string
  rs_average_trade_pnl :: pyfloat
  rs_average_winner :: "pyfloat option"
  rs_average_loser :: "pyfloat option"
  rs_largest_winner :: "pyfloat option"
  rs_largest_loser :: "pyfloat option"
  rs_expectancy :: pyfloat
  rs_maximum_drawdown :: pyfloat
  rs_maximum_drawdown_percent :: pyfloat
  rs_average_holding_candles :: pyfloat
  rs_maximum_consecutive_wins :: nat
  rs_maximum_consecutive_losses :: nat
  rs_trades :: "backtest_trade list"
  rs_decisions :: "backtest_decision list"
  rs_indicators :: "indicator_observation list"

text \<open>\<open>sum(xs)/len(xs)\<close> of a nonempty list.\<close>

definition average :: "pyfloat list \<Rightarrow> pyfloat option" where
  "average xs = (if xs = [] then None
     else case fdiv (py_sum xs) (Fin (of_nat (length xs))) of Inr q \<Rightarrow> Some q | Inl x \<Rightarrow> None)"

definition profit_factor :: "pyfloat \<Rightarrow> pyfloat \<Rightarrow> pyfloat option \<times> string" where
  "profit_factor gross_profit gross_loss =
     (if \<not> feq gross_loss (Fin 0)
      then (case fdiv gross_profit gross_loss of Inr q \<Rightarrow> Some q | Inl x \<Rightarrow> None, ''DEFINED'')
      else if \<not> feq gross_profit (Fin 0) then (None, ''POSITIVE_WITHOUT_LOSSES'')
      else (None, ''UNDEFINED_NO_PROFIT_OR_LOSS''))"

definition build_backtest_result ::
  "candle_snapshot \<Rightarrow> backtest_engine \<Rightarrow> indicator_observation list \<Rightarrow> backtest_result result" where
  "build_backtest_result dataset e indicators =
     (let pnls = map bt_net_pnl (bg_trades e); wins = filter (\<lambda>p. Fin 0 < p) pnls; losses = filter (\<lambda>p. p < Fin 0) pnls;
          gross_profit = py_sum wins; gross_loss = \<bar>py_sum losses\<bar>; count = length pnls;
          (factor, status) = profit_factor gross_profit gross_loss; (max_wins, max_losses) = scan_runs (0, 0, 0, 0) pnls in
      rbind (max_drawdown (bg_equity_curve e)) (\<lambda>(max_dd, max_dd_pct).
      rbind (fdiv (bg_balance e - bg_starting_balance e) (bg_starting_balance e)) (\<lambda>growth.
      if cs_candles dataset = [] then Inl IndexError
      else Inr \<lparr>rs_provider = cs_provider dataset, rs_symbol = cs_symbol dataset, rs_timeframe = cs_timeframe dataset,
        rs_dataset_start = to_utc (cd_time (hd (cs_candles dataset))), rs_dataset_end = to_utc (cd_time (last (cs_candles dataset))),
        rs_candle_count = length (cs_candles dataset), rs_initial_capital = bg_starting_balance e,
        rs_ending_capital = bg_balance e, rs_absolute_pnl = bg_balance e - bg_starting_balance e,
        rs_return_percent = growth * Fin 100, rs_total_trades = count, rs_winning_trades = length wins,
        rs_losing_trades = length losses, rs_break_even_trades = int count - int (length wins) - int (length losses),
        rs_win_rate_percent = (if count = 0 then Fin 0 else fl (of_nat (length wins) / of_nat count) * Fin 100),
        rs_gross_profit = gross_profit, rs_gross_loss = gross_loss, rs_profit_factor = factor, rs_profit_factor_status = status,
        rs_average_trade_pnl = get_or (Fin 0) (average pnls), rs_average_winner = average wins, rs_average_loser = average losses,
        rs_largest_winner = (case py_max_list wins of Inr x \<Rightarrow> Some x | Inl err \<Rightarrow> None),
        rs_largest_loser = (case py_min_list losses of Inr x \<Rightarrow> Some x | Inl err \<Rightarrow> None),
        rs_expectancy = get_or (Fin 0) (average pnls), rs_maximum_drawdown = max_dd, rs_maximum_drawdown_percent = max_dd_pct,
        rs_average_holding_candles = (if count = 0 then Fin 0
          else fl (of_int (sum_list (map bt_holding_candles (bg_trades e))) / of_nat count)),
        rs_maximum_consecutive_wins = max_wins, rs_maximum_consecutive_losses = max_losses,
        rs_trades = bg_trades e, rs_decisions = bg_decisions e, rs_indicators = indicators\<rparr>)))"

section \<open>The run\<close>

definition WARMUP_CANDLES :: nat where
  "WARMUP_CANDLES = 200"

text \<open>The frame of the candles. The indicator columns are computed by pandas: \<open>indicators candles c i\<close> is
  the value of column \<open>c\<close> on candle \<open>i\<close>.\<close>

definition INDICATOR_COLUMNS :: "string list" where
  "INDICATOR_COLUMNS = [''EMA50'', ''EMA200'', ''EMA_50'', ''EMA_200'', ''RSI'', ''RSI_14'', ''ATR'', ''ATR_14'']"

definition candle_cell :: "candle \<Rightarrow> (string \<Rightarrow> pyfloat) \<Rightarrow> frame_row" where
  "candle_cell c value_of k = (if k = ''open'' then cd_open c else if k = ''high'' then cd_high c else if k = ''low'' then cd_low c
     else if k = ''close'' then cd_close c else value_of k)"

definition frame_of_candles :: "(candle list \<Rightarrow> string \<Rightarrow> nat \<Rightarrow> pyfloat) \<Rightarrow> candle list \<Rightarrow> candle_frame" where
  "frame_of_candles indicators candles =
     \<lparr>cf_frame = \<lparr>fr_columns = [''open'', ''high'', ''low'', ''close''] @ INDICATOR_COLUMNS,
        fr_rows = map (\<lambda>i. candle_cell (candles ! i) (\<lambda>k. indicators candles k i)) [0..<length candles]\<rparr>,
      cf_times = map cd_time candles\<rparr>"

definition finite_or_none :: "pyfloat \<Rightarrow> pyfloat option" where
  "finite_or_none x = (if x = NaN then None else Some x)"

definition observe_row :: "candle_frame \<Rightarrow> nat \<Rightarrow> string option \<Rightarrow> indicator_observation" where
  "observe_row df i regime = (let row = row_of df i in
     \<lparr>bi_candle_index = i, bi_timestamp = cf_times df ! i, bi_ema50 = finite_or_none (row ''EMA50''),
      bi_ema200 = finite_or_none (row ''EMA200''), bi_rsi = finite_or_none (row ''RSI''), bi_atr = finite_or_none (row ''ATR''),
      bi_regime = regime\<rparr>)"

text \<open>The observations of all candles; those of the evaluated ones carry the regime.\<close>

definition observed_rows :: "candle_frame \<Rightarrow> nat \<Rightarrow> nat \<Rightarrow> indicator_observation list" where
  "observed_rows df eval_start eval_end =
     map (\<lambda>i. observe_row df i (if eval_start \<le> i \<and> i < eval_end
         then (case detect_legacy_regime (cf_frame (history df i)) of Inr r \<Rightarrow> Some r | Inl x \<Rightarrow> None) else None))
       [0..<length (cf_times df)]"

text \<open>The candles to evaluate: from the end of the warm-up or a later start, to the end or an earlier one.\<close>

definition eval_range :: "nat \<Rightarrow> int option \<Rightarrow> int option \<Rightarrow> nat \<times> nat" where
  "eval_range n start_index end_index =
     (nat (max (int WARMUP_CANDLES) (get_or (int WARMUP_CANDLES) start_index)), nat (min (int n) (get_or (int n) end_index)))"

record backtest_request =
  bx_symbol :: string
  bx_timeframe :: timeframe
  bx_starting_balance :: pyfloat
  bx_risk :: "backtest_risk option"
  bx_execution :: "backtest_execution option"
  bx_provider :: "string option"
  bx_start_index :: "int option"
  bx_end_index :: "int option"

text \<open>The candles are those of the caller, or of the cache when \<open>from_cache\<close>; no manifest is given.\<close>

definition run_backtest ::
  "(pyfloat list \<Rightarrow> pyfloat) \<Rightarrow> (nat \<Rightarrow> pydatetime) \<Rightarrow> (candle list \<Rightarrow> string \<Rightarrow> nat \<Rightarrow> pyfloat) \<Rightarrow> pyfloat \<Rightarrow> int
   \<Rightarrow> backtest_request \<Rightarrow> bool \<Rightarrow> candle list \<Rightarrow> (backtest_engine \<times> backtest_result) result" where
  "run_backtest mean clock indicators settings_max_daily_loss settings_max_trades_daily q from_cache candles =
     (if from_cache \<and> bx_provider q = None then Inl (market_error ''A provider is required when loading from cache'')
      else if candles = [] then Inl (market_error ''No fixed historical dataset available'')
      else rbind (times_increase (map cd_time candles)) (\<lambda>increasing.
      if \<not> increasing then Inl (market_error ''Historical dataset timestamps must be strictly increasing'')
      else let df = frame_of_candles indicators candles in
      if length candles \<le> WARMUP_CANDLES then Inl (market_error ''Not enough candles to clear the indicator warmup period'')
      else let provider = (case bx_provider q of Some p \<Rightarrow> if p = [] then cd_source (hd candles) else p
             | None \<Rightarrow> cd_source (hd candles)) in
      rbind (make_snapshot \<lparr>cs_provider = provider, cs_symbol = bx_symbol q, cs_timeframe = bx_timeframe q, cs_candles = candles\<rparr>)
        (\<lambda>dataset.
      rbind (make_backtest_engine (bx_starting_balance q) (bx_symbol q) (bx_timeframe q) (bx_risk q) (bx_execution q)
        settings_max_daily_loss settings_max_trades_daily) (\<lambda>e.
      let (eval_start, eval_end) = eval_range (length candles) (bx_start_index q) (bx_end_index q) in
      rbind (replay_candles (strategy_signal mean clock (bx_symbol q) df) df [eval_start..<eval_end] e) (\<lambda>e.
      rbind (finish_backtest (eval_end - 1) df e) (\<lambda>e.
      rbind (build_backtest_result dataset e (observed_rows df eval_start eval_end)) (\<lambda>r. Inr (e, r))))))))"


section \<open>The largest fall\<close>

lemma Fin_minus: "Fin a - Fin b = fl (a - b)"
  by (simp add: minus_pyfloat_def)

lemma balance_drawdown_Fin:
  "\<exists>percent. balance_drawdown (Fin q) (Fin p) = (Fin (max p q), fl (max p q - q), percent)"
  by (auto simp: balance_drawdown_def Let_def py_max_def Fin_minus max_def)

lemma scan_drawdown_bounds:
  fixes p :: rat and qs :: "rat list" and w :: "pyfloat \<times> pyfloat"
  assumes "fst w \<noteq> NaN"
  defines "r \<equiv> fst (scan_drawdown (Fin p) w (map Fin qs))"
  shows "fst w \<le> r" "j < length qs \<Longrightarrow> fl (p - qs ! j) \<le> r" "i \<le> j \<Longrightarrow> j < length qs \<Longrightarrow> fl (qs ! i - qs ! j) \<le> r"
    and "r = fst w \<or> (\<exists>j < length qs. r = fl (p - qs ! j)) \<or> (\<exists>i j. i \<le> j \<and> j < length qs \<and> r = fl (qs ! i - qs ! j))"
proof -
  have "fst w \<le> r \<and> (\<forall>j < length qs. fl (p - qs ! j) \<le> r) \<and> (\<forall>i j. i \<le> j \<and> j < length qs \<longrightarrow> fl (qs ! i - qs ! j) \<le> r)
    \<and> (r = fst w \<or> (\<exists>j < length qs. r = fl (p - qs ! j)) \<or> (\<exists>i j. i \<le> j \<and> j < length qs \<and> r = fl (qs ! i - qs ! j)))"
    using assms(1) unfolding r_def
  proof (induction qs arbitrary: p w)
    case (Cons q qs)
    define p' where "p' = max p q"
    define d where "d = fl (p' - q)"
    obtain percent where step: "balance_drawdown (Fin q) (Fin p) = (Fin p', d, percent)"
      using balance_drawdown_Fin unfolding p'_def d_def by blast
    define w' where "w' = (if fst w < d then (d, percent) else w)"
    have d: "d \<noteq> NaN" by (simp add: d_def)
    then have w': "fst w' \<noteq> NaN" "fst w \<le> fst w'" "d \<le> fst w'" "fst w' = fst w \<or> fst w' = d"
      using Cons.prems pyfloat_not_less [of "fst w" d] by (auto simp: w'_def intro: pyfloat_less_le)
    define r where "r = fst (scan_drawdown (Fin p') w' (map Fin qs))"
    have scan: "fst (scan_drawdown (Fin p) w (map Fin (q # qs))) = r"
      unfolding r_def w'_def by (simp add: step)
    note IH = Cons.IH [OF w'(1), of p', folded r_def]
    have le: "fst w' \<le> r" using IH by blast
    have peaks: "fl (p - q) \<le> d" "fl (q - q) \<le> d" unfolding d_def p'_def by (rule fl_mono, simp)+
    have later: "fl (p - qs ! j) \<le> r" "fl (q - qs ! j) \<le> r" if "j < length qs" for j
    proof -
      have "fl (p' - qs ! j) \<le> r" using IH that by blast
      moreover have "fl (p - qs ! j) \<le> fl (p' - qs ! j)" "fl (q - qs ! j) \<le> fl (p' - qs ! j)"
        unfolding p'_def by (rule fl_mono, simp)+
      ultimately show "fl (p - qs ! j) \<le> r" "fl (q - qs ! j) \<le> r" by (blast intro: pyfloat_le_trans)+
    qed
    have now: "d \<le> r" using w'(3) le by (rule pyfloat_le_trans)
    have 1: "fst w \<le> r" using w'(2) le by (rule pyfloat_le_trans)
    have 2: "fl (p - (q # qs) ! j) \<le> r" if "j < length (q # qs)" for j
      using that later(1) pyfloat_le_trans [OF peaks(1) now] by (cases j) auto
    have 3: "fl ((q # qs) ! i - (q # qs) ! j) \<le> r" if "i \<le> j" "j < length (q # qs)" for i j
    proof (cases j)
      case 0
      then show ?thesis using that pyfloat_le_trans [OF peaks(2) now] by simp
    next
      case (Suc j')
      then show ?thesis using that later(2) IH by (cases i) auto
    qed
    have 4: "r = fst w \<or> (\<exists>j < length (q # qs). r = fl (p - (q # qs) ! j))
        \<or> (\<exists>i j. i \<le> j \<and> j < length (q # qs) \<and> r = fl ((q # qs) ! i - (q # qs) ! j))"
    proof -
      have peak: "p' = p \<or> p' = q" by (simp add: p'_def max_def)
      consider "r = fst w'" | j where "j < length qs" "r = fl (p' - qs ! j)" | i j where "i \<le> j" "j < length qs" "r = fl (qs ! i - qs ! j)"
        using IH by blast
      then show ?thesis
      proof cases
        case 1
        have "r = d \<Longrightarrow> r = fl (p - (q # qs) ! 0) \<or> r = fl ((q # qs) ! 0 - (q # qs) ! 0)" using peak by (auto simp: d_def)
        then show ?thesis using 1 w'(4) by (metis le_refl length_greater_0_conv list.distinct(1))
      next
        case 2
        then have "r = fl (p - (q # qs) ! Suc j) \<or> r = fl ((q # qs) ! 0 - (q # qs) ! Suc j)" using peak by auto
        then show ?thesis using 2(1) by (metis Suc_less_eq length_Cons le0)
      next
        case 3
        then have "r = fl ((q # qs) ! Suc i - (q # qs) ! Suc j)" "Suc i \<le> Suc j" "Suc j < length (q # qs)" by simp_all
        then show ?thesis by blast
      qed
    qed
    show ?case unfolding scan using 1 2 3 4 by blast
  qed simp
  then show "fst w \<le> r" "j < length qs \<Longrightarrow> fl (p - qs ! j) \<le> r" "i \<le> j \<Longrightarrow> j < length qs \<Longrightarrow> fl (qs ! i - qs ! j) \<le> r"
    "r = fst w \<or> (\<exists>j < length qs. r = fl (p - qs ! j)) \<or> (\<exists>i j. i \<le> j \<and> j < length qs \<and> r = fl (qs ! i - qs ! j))"
    by blast+
qed

lemma finite_list: "list_all is_finite xs \<Longrightarrow> \<exists>qs. xs = map Fin qs"
  by (induction xs) (auto simp: is_finite_iff Cons_eq_map_conv)

lemma build_backtest_result_drawdown:
  assumes "build_backtest_result dataset e ind = Inr r"
  shows "max_drawdown (bg_equity_curve e) = Inr (rs_maximum_drawdown r, rs_maximum_drawdown_percent r)"
  using assms by (auto simp: build_backtest_result_def Let_def split: prod.splits if_splits)

text \<open>C17. The maximum drawdown in the result of a backtest is the largest fall of the realized balance: no
  balance of the equity curve lies further below an earlier one, and one pair of balances has exactly
  this difference.\<close>

theorem drawdown_is_largest_fall:
  assumes "build_backtest_result dataset e ind = Inr r" "list_all is_finite (bg_equity_curve e)"
  defines "curve \<equiv> bg_equity_curve e"
  shows "(\<forall>i j. i \<le> j \<and> j < length curve \<longrightarrow> curve ! i - curve ! j \<le> rs_maximum_drawdown r)
    \<and> (\<exists>i j. i \<le> j \<and> j < length curve \<and> curve ! i - curve ! j = rs_maximum_drawdown r)"
proof -
  obtain qs where qs: "curve = map Fin qs" using finite_list assms(2) by (auto simp: curve_def)
  have dd: "max_drawdown curve = Inr (rs_maximum_drawdown r, rs_maximum_drawdown_percent r)"
    using build_backtest_result_drawdown [OF assms(1)] by (simp add: curve_def)
  then have ne: "qs \<noteq> []" using qs by (auto simp: max_drawdown_def)
  then have r: "rs_maximum_drawdown r = fst (scan_drawdown (Fin (qs ! 0)) (Fin 0, Fin 0) (map Fin qs))"
    using dd qs by (auto simp: max_drawdown_def hd_map hd_conv_nth split: if_splits)
  have w: "fst (Fin 0, Fin 0 :: pyfloat) \<noteq> NaN" by simp
  note bounds = scan_drawdown_bounds [OF w, where p = "qs ! 0" and qs = qs, folded r]
  have start: "fst (Fin 0, Fin 0 :: pyfloat) = fl (qs ! 0 - qs ! 0)" by simp
  have "\<exists>i j. i \<le> j \<and> j < length qs \<and> rs_maximum_drawdown r = fl (qs ! i - qs ! j)"
    using bounds(4) ne start by (metis le0 length_greater_0_conv)
  moreover have "curve ! i - curve ! j = fl (qs ! i - qs ! j)" if "i \<le> j" "j < length qs" for i j
    using that by (simp add: qs Fin_minus)
  moreover have "length curve = length qs" by (simp add: qs)
  ultimately show ?thesis using bounds(3) by metis
qed

section \<open>The whole run\<close>

text \<open>What holds of engines holds of every run that returns.\<close>

lemma run_backtest_parts:
  assumes "run_backtest mean clock indicators l m q cached candles = Inr (e, r)"
  obtains e\<^sub>0 e\<^sub>1 dataset a b ind where
    "make_backtest_engine (bx_starting_balance q) (bx_symbol q) (bx_timeframe q) (bx_risk q) (bx_execution q) l m = Inr e\<^sub>0"
    "replay_candles (strategy_signal mean clock (bx_symbol q) (frame_of_candles indicators candles)) (frame_of_candles indicators candles)
       [a..<b] e\<^sub>0 = Inr e\<^sub>1"
    "finish_backtest (b - 1) (frame_of_candles indicators candles) e\<^sub>1 = Inr e" "WARMUP_CANDLES \<le> a" "b \<le> length candles"
    "build_backtest_result dataset e ind = Inr r"
  using assms by (auto simp: run_backtest_def Let_def eval_range_def split: if_splits)


lemma replay_books:
  "replay_candles signal_at df is e = Inr e' \<Longrightarrow> cash_books e \<and> position_cash e \<Longrightarrow> cash_books e' \<and> position_cash e'"
proof (induction "is" arbitrary: e)
  case (Cons i js)
  then obtain e\<^sub>1 s e\<^sub>2 where "process_candle i df e = Inr e\<^sub>1" "queue_signal s i df e\<^sub>1 = Inr e\<^sub>2" "replay_candles signal_at df js e\<^sub>2 = Inr e'"
    by auto
  then show ?case using process_candle_books queue_signal_books Cons by blast
qed auto

text \<open>A run that returns has balanced books, trades that follow its candles, and no trade in the warm-up.\<close>

lemma run_backtest_sound:
  assumes run: "run_backtest mean clock indicators l m q cached candles = Inr (e, r)"
    and valid: "\<And>x. bx_execution q = Some x \<Longrightarrow> make_execution x = Inr x"
  defines "df \<equiv> frame_of_candles indicators candles"
  shows "cash_books e \<and> (\<exists>spans. list_all2 (trade_follows (bg_execution e) df) (bg_trades e) spans
    \<and> sorted_wrt (\<lambda>y z. exit_index y \<le> fst z) spans \<and> list_all (\<lambda>z. exit_index z < length candles) spans)"
proof -
  obtain e\<^sub>0 e\<^sub>1 dataset a b ind where parts:
    "make_backtest_engine (bx_starting_balance q) (bx_symbol q) (bx_timeframe q) (bx_risk q) (bx_execution q) l m = Inr e\<^sub>0"
    "replay_candles (strategy_signal mean clock (bx_symbol q) df) df [a..<b] e\<^sub>0 = Inr e\<^sub>1"
    "finish_backtest (b - 1) df e\<^sub>1 = Inr e" "b \<le> length candles"
    using run_backtest_parts [OF run] unfolding df_def by metis
  have books: "cash_books e"
    using finish_backtest_books [OF parts(3)] replay_books [OF parts(2)] make_backtest_engine_books [OF parts(1)] by blast
  have x: "0 < be_max_holding_candles (bg_execution e\<^sub>0)"
    using parts(1) valid by (auto simp: make_backtest_engine_def Let_def default_execution_def make_execution_def
        split: if_splits option.splits)
  obtain spans where spans: "spans_ok (bg_execution e\<^sub>0) df b spans e"
  proof (cases "a \<le> b")
    case True
    then have "b = a + (b - a)" by simp
    then show ?thesis
      using replay_chronicle [OF x, of "strategy_signal mean clock (bx_symbol q) df" df a "b - a" e\<^sub>0 e\<^sub>1 "[]"]
        parts(2) make_backtest_engine_chronicle [OF parts(1), of df a] finish_chronicle [OF parts(3)] that by metis
  next
    case False
    then have "e\<^sub>1 = e\<^sub>0" using parts(2) by simp
    then show ?thesis
      using finish_chronicle [OF parts(3)] make_backtest_engine_chronicle [OF parts(1), of df b] that by metis
  qed
  then have "bg_execution e = bg_execution e\<^sub>0" "list_all (\<lambda>z. exit_index z < length candles) spans"
    using parts(4) by (auto simp: spans_ok_def list_all_iff)
  then show ?thesis using books spans by (auto simp: spans_ok_def)
qed

lemma build_backtest_result_returns:
  assumes "bg_equity_curve e \<noteq> []" "fdiv (bg_balance e - bg_starting_balance e) (bg_starting_balance e) = Inr g" "cs_candles ds \<noteq> []"
  shows "\<exists>r. build_backtest_result ds e ind = Inr r"
  unfolding build_backtest_result_def Let_def max_drawdown_def using assms by (simp split: prod.splits)

definition sample_dataset :: candle_snapshot where
  "sample_dataset = \<lparr>cs_provider = ''weltrade'', cs_symbol = ''X'', cs_timeframe = M5,
     cs_candles = [\<lparr>cd_time = Aware 0 0, cd_open = Fin 1, cd_high = Fin 1, cd_low = Fin 1, cd_close = Fin 1, cd_volume = None,
       cd_source = ''weltrade''\<rparr>]\<rparr>"

theorem drawdown_is_largest_fall_witness:
  "\<exists>r e. build_backtest_result sample_dataset e [] = Inr r \<and> bg_equity_curve e = [Fin 1000, Fin 1006, Fin 990]
     \<and> (\<forall>i j. i \<le> j \<and> j < 3 \<longrightarrow> [Fin 1000, Fin 1006, Fin 990] ! i - [Fin 1000, Fin 1006, Fin 990] ! j \<le> rs_maximum_drawdown r)"
proof -
  let ?e = "sample_closed\<lparr>bg_equity_curve := [Fin 1000, Fin 1006, Fin 990]\<rparr>"
  have start: "bg_starting_balance sample_closed = Fin 1000" "bg_balance sample_closed = Fin 1006"
    using sample_closed_trade by (simp_all add: sample_closed_def book_trade_def sample_backtest_def)
  obtain r where r: "build_backtest_result sample_dataset ?e [] = Inr r"
    using build_backtest_result_returns [of ?e _ sample_dataset "[]"] by (auto simp: start sample_dataset_def)
  from drawdown_is_largest_fall [OF r] r show ?thesis
    by (intro exI [of _ r] exI [of _ ?e]) simp
qed

end
