(* ===== verification/Demo_Guard.thy ===== *)
theory Demo_Guard
  imports Py_Values
begin

text \<open>
  The demo-only guard (\<open>src/broker/demo_guard.py\<close>), which every broker gateway passes at connection and before
  an order: it verifies from the data the broker returned that the account is a demo account, and records
  the verification as evidence. The text of a number (\<open>str\<close>) is a parameter; log calls are left out.
\<close>

section \<open>Account data\<close>

text \<open>The payload of a broker: nothing, a mapping (with its entry \<open>authorize\<close> when that is a mapping), or an
  object with attributes. The entries are values of \<open>pyval\<close>.\<close>

type_synonym account_facts = "string \<Rightarrow> pyval option"

datatype account_data = NoAccountData | MappingData account_facts "account_facts option" | ObjectData account_facts

text \<open>The truth value of a value, and its text; the text of a number is the function \<open>text\<close>.\<close>

fun truthy :: "pyval \<Rightarrow> bool" where
  "truthy PyNone = False"
| "truthy (PyBool b) = b"
| "truthy (PyInt i) = (i \<noteq> 0)"
| "truthy (PyFloat x) = (\<not> feq x (Fin 0))"
| "truthy (PyStr s) = (s \<noteq> [])"
| "truthy (PyTuple vs) = (vs \<noteq> [])"
| "truthy (PyFrozenset vs) = (vs \<noteq> [])"
| "truthy v = True"

definition str_of :: "(pyval \<Rightarrow> string) \<Rightarrow> pyval \<Rightarrow> string" where
  "str_of text v = (case text_of v of Some s \<Rightarrow> s | None \<Rightarrow> text v)"

definition fact :: "account_facts \<Rightarrow> string \<Rightarrow> pyval" where
  "fact d k = (case d k of Some v \<Rightarrow> v | None \<Rightarrow> PyNone)"

text \<open>\<open>str(d.get(a) or d.get(b) or "").strip()\<close>\<close>

fun first_text :: "(pyval \<Rightarrow> string) \<Rightarrow> account_facts \<Rightarrow> string list \<Rightarrow> string" where
  "first_text text d [] = []"
| "first_text text d (k # ks) = (if truthy (fact d k) then py_strip (str_of text (fact d k)) else first_text text d ks)"

section \<open>Verification\<close>

record demo_verification =
  dv_broker :: string
  dv_account_id :: string
  dv_checked_field :: string
  dv_observed_value :: int
  dv_verified_at :: pydatetime
  dv_status :: string

definition MT5_ACCOUNT_TRADE_MODE_DEMO :: int where
  "MT5_ACCOUNT_TRADE_MODE_DEMO = 0"

text \<open>The evidence kept outside: the rows of the SQLite store and the events of the campaign store. A
  write that raises is logged and forgotten.\<close>

record evidence_store =
  es_rows :: "(string \<times> demo_verification) list"
  es_events :: "(string \<times> demo_verification) list"

record evidence_request =
  eq_session_id :: "string option"
  eq_sqlite_works :: bool
  eq_campaign_store :: "bool option"

definition record_verification :: "demo_verification \<Rightarrow> evidence_request \<Rightarrow> evidence_store \<Rightarrow> evidence_store" where
  "record_verification v q s =
     (let session = (case eq_session_id q of Some t \<Rightarrow> t | None \<Rightarrow> []);
          s = (if eq_sqlite_works q then s\<lparr>es_rows := es_rows s @ [(session, v)]\<rparr> else s) in
      if eq_campaign_store q = Some True \<and> session \<noteq> [] then s\<lparr>es_events := es_events s @ [(session, v)]\<rparr> else s)"

definition unsafe_account :: "string \<Rightarrow> py_exn" where
  "unsafe_account message = OtherException (''UnsafeBrokerAccountError: '' @ message)"

definition or_unknown :: "string \<Rightarrow> string \<Rightarrow> string" where
  "or_unknown account_id broker_name = (if account_id = [] then ''UNKNOWN_'' @ broker_name else account_id)"

definition passed :: "string \<Rightarrow> string \<Rightarrow> string \<Rightarrow> int \<Rightarrow> pydatetime \<Rightarrow> demo_verification" where
  "passed broker account_id checked_field observed now =
     \<lparr>dv_broker = broker, dv_account_id = account_id, dv_checked_field = checked_field, dv_observed_value = observed,
      dv_verified_at = now, dv_status = ''PASSED''\<rparr>"

text \<open>A mapping that holds the mapping \<open>authorize\<close> stands for it.\<close>

fun deriv_facts :: "account_data \<Rightarrow> account_facts" where
  "deriv_facts (MappingData d (Some authorize)) = authorize"
| "deriv_facts (MappingData d None) = d"
| "deriv_facts (ObjectData d) = d"
| "deriv_facts NoAccountData = Map.empty"

fun mt5_facts :: "account_data \<Rightarrow> account_facts" where
  "mt5_facts (MappingData d authorize) = d"
| "mt5_facts (ObjectData d) = d"
| "mt5_facts NoAccountData = Map.empty"

definition verify_deriv ::
  "(pyval \<Rightarrow> string) \<Rightarrow> pydatetime \<Rightarrow> account_data \<Rightarrow> evidence_request \<Rightarrow> evidence_store \<Rightarrow> demo_verification result \<times> evidence_store" where
  "verify_deriv text now account q s =
     (let d = deriv_facts account; account_id = first_text text d [''loginid'', ''account_id''] in
      if fact d ''is_virtual'' \<noteq> PyInt 1
      then (Inl (unsafe_account ''Deriv account is NOT authoritatively verified as DEMO/virtual (is_virtual must be 1)''), s)
      else let v = passed ''deriv'' (or_unknown account_id ''DERIV'') ''is_virtual'' 1 now in
        (Inr v, record_verification v q s))"

text \<open>\<open>text.startswith("weltrade")\<close>\<close>

definition evidence_broker :: "string \<Rightarrow> string" where
  "evidence_broker broker =
     (if take 8 (py_lower (py_strip broker)) = ''weltrade'' then ''weltrade'' else ''mt5'')"

definition verify_mt5 ::
  "(pyval \<Rightarrow> string) \<Rightarrow> pydatetime \<Rightarrow> string \<Rightarrow> account_data \<Rightarrow> evidence_request \<Rightarrow> evidence_store
   \<Rightarrow> demo_verification result \<times> evidence_store" where
  "verify_mt5 text now broker account q s =
     (let d = mt5_facts account; account_id = first_text text d [''login'']; name = evidence_broker broker in
      if fact d ''trade_mode'' \<noteq> PyInt MT5_ACCOUNT_TRADE_MODE_DEMO
      then (Inl (unsafe_account (py_upper name @ '' account is NOT authoritatively verified as DEMO (trade_mode must be 0/ACCOUNT_TRADE_MODE_DEMO)'')), s)
      else let v = passed name (or_unknown account_id (py_upper name)) ''trade_mode'' 0 now in
        (Inr v, record_verification v q s))"

definition assert_demo_account ::
  "(pyval \<Rightarrow> string) \<Rightarrow> pydatetime \<Rightarrow> string \<Rightarrow> account_data \<Rightarrow> evidence_request \<Rightarrow> evidence_store
   \<Rightarrow> demo_verification result \<times> evidence_store" where
  "assert_demo_account text now broker account q s =
     (if account = NoAccountData
      then (Inl (unsafe_account ''Broker account data is missing; cannot verify demo status''), s)
      else let broker_norm = py_lower (py_strip broker) in
      if broker_norm \<in> {''deriv'', ''deriv_demo''} then verify_deriv text now account q s
      else if broker_norm \<in> {''mt5'', ''mt5_demo'', ''weltrade'', ''weltrade_demo''} then verify_mt5 text now broker_norm account q s
      else (Inl (unsafe_account ''Unsupported broker; only verified demo gateways are authorized''), s))"

text \<open>The data come from a call to the broker, which may raise.\<close>

definition guard_order_submission ::
  "(pyval \<Rightarrow> string) \<Rightarrow> pydatetime \<Rightarrow> string \<Rightarrow> account_data result \<Rightarrow> string option \<Rightarrow> bool \<Rightarrow> evidence_store
   \<Rightarrow> demo_verification result \<times> evidence_store" where
  "guard_order_submission text now broker provided session_id sqlite_works s =
     (case provided of
        Inl exc \<Rightarrow> (Inl (unsafe_account ''Failed to fetch account data for pre-order demo verification''), s)
      | Inr account \<Rightarrow> assert_demo_account text now broker account
          \<lparr>eq_session_id = session_id, eq_sqlite_works = sqlite_works, eq_campaign_store = None\<rparr> s)"

section \<open>The guard lets only demo accounts pass\<close>

text \<open>What the broker must have returned for the account to count as a demo account.\<close>

definition proven_demo :: "string \<Rightarrow> account_data \<Rightarrow> bool" where
  "proven_demo broker account \<longleftrightarrow> account \<noteq> NoAccountData \<and>
     (let name = py_lower (py_strip broker) in
      name \<in> {''deriv'', ''deriv_demo''} \<and> deriv_facts account ''is_virtual'' = Some (PyInt 1)
      \<or> name \<in> {''mt5'', ''mt5_demo'', ''weltrade'', ''weltrade_demo''} \<and> mt5_facts account ''trade_mode'' = Some (PyInt 0))"

lemma fact_PyInt [simp]: "fact d k = PyInt i \<longleftrightarrow> d k = Some (PyInt i)"
  by (auto simp: fact_def split: option.splits)

definition broker_recorded :: "string \<Rightarrow> string" where
  "broker_recorded broker = (let name = py_lower (py_strip broker) in
     if name \<in> {''deriv'', ''deriv_demo''} then ''deriv'' else if name \<in> {''mt5'', ''mt5_demo''} then ''mt5'' else ''weltrade'')"


definition demo_outcome ::
  "string \<Rightarrow> account_data \<Rightarrow> evidence_request \<Rightarrow> evidence_store \<Rightarrow> demo_verification result \<times> evidence_store \<Rightarrow> bool" where
  "demo_outcome broker account q s outcome \<longleftrightarrow>
     (if proven_demo broker account
      then (case fst outcome of Inl x \<Rightarrow> False | Inr v \<Rightarrow> dv_broker v = broker_recorded broker \<and> dv_account_id v \<noteq> []
        \<and> dv_status v = ''PASSED'' \<and> snd outcome = record_verification v q s)
      else (case fst outcome of Inl x \<Rightarrow> \<exists>m. x = unsafe_account m | Inr v \<Rightarrow> False) \<and> snd outcome = s)"

lemma unsafe_account_is [simp]: "\<exists>m. unsafe_account t = unsafe_account m"
  by blast

lemma or_unknown_nonempty: "or_unknown a b \<noteq> []"
  by (simp add: or_unknown_def)

lemma evidence_broker_names:
  "evidence_broker ''mt5'' = ''mt5''" "evidence_broker ''mt5_demo'' = ''mt5''"
  "evidence_broker ''weltrade'' = ''weltrade''" "evidence_broker ''weltrade_demo'' = ''weltrade''"
  by (simp_all add: evidence_broker_def py_strip_def py_isspace_def py_lower_def)

lemma verify_deriv_outcome:
  assumes "py_lower (py_strip broker) \<in> {''deriv'', ''deriv_demo''}" "account \<noteq> NoAccountData"
  shows "demo_outcome broker account q s (verify_deriv text now account q s)"
  using assms
  by (auto simp: demo_outcome_def proven_demo_def verify_deriv_def Let_def passed_def broker_recorded_def or_unknown_nonempty)

lemma verify_mt5_outcome:
  assumes "py_lower (py_strip broker) \<in> {''mt5'', ''mt5_demo'', ''weltrade'', ''weltrade_demo''}" "account \<noteq> NoAccountData"
  shows "demo_outcome broker account q s (verify_mt5 text now (py_lower (py_strip broker)) account q s)"
proof -
  have "evidence_broker (py_lower (py_strip broker)) = broker_recorded broker"
    using assms(1) by (auto simp: broker_recorded_def evidence_broker_names)
  then show ?thesis
    using assms by (auto simp: demo_outcome_def proven_demo_def verify_mt5_def Let_def passed_def or_unknown_nonempty
        MT5_ACCOUNT_TRADE_MODE_DEMO_def)
qed

lemma assert_demo_outcome: "demo_outcome broker account q s (assert_demo_account text now broker account q s)"
proof (cases "account = NoAccountData")
  case True
  then show ?thesis by (simp add: demo_outcome_def proven_demo_def assert_demo_account_def)
next
  case False
  consider (deriv) "py_lower (py_strip broker) \<in> {''deriv'', ''deriv_demo''}"
    | (mt5) "py_lower (py_strip broker) \<notin> {''deriv'', ''deriv_demo''}"
        "py_lower (py_strip broker) \<in> {''mt5'', ''mt5_demo'', ''weltrade'', ''weltrade_demo''}"
    | (other) "py_lower (py_strip broker) \<notin> {''deriv'', ''deriv_demo'', ''mt5'', ''mt5_demo'', ''weltrade'', ''weltrade_demo''}"
    by blast
  then show ?thesis
  proof cases
    case deriv
    then show ?thesis using verify_deriv_outcome [OF deriv False] False by (simp add: assert_demo_account_def Let_def)
  next
    case mt5
    then show ?thesis using verify_mt5_outcome [OF mt5(2) False] False by (simp add: assert_demo_account_def Let_def)
  next
    case other
    then show ?thesis using False by (auto simp: assert_demo_account_def Let_def demo_outcome_def proven_demo_def)
  qed
qed


lemma demo_guard_examples:
  "proven_demo '' weltrade'' (ObjectData [''trade_mode'' \<mapsto> PyInt 0])"
  "\<not> proven_demo ''mt5'' (ObjectData [''trade_mode'' \<mapsto> PyBool False])"
  "\<not> proven_demo ''deriv'' (MappingData [''is_virtual'' \<mapsto> PyInt 1] (Some [''is_virtual'' \<mapsto> PyInt 0]))"
  by (simp_all add: proven_demo_def py_strip_def py_isspace_def py_lower_def Let_def)

end
