(* ===== verification/Deriv_Evidence.thy ===== *)
theory Deriv_Evidence
  imports Deriv_Contract Py_Time "HOL-Library.List_Lexorder"
begin

text \<open>
  Evidence for Deriv loss models: recorded source material and its catalogue
  (\<open>src/broker/deriv_evidence.py\<close>) and the declared financial semantics
  (\<open>src/broker/deriv_financial_semantics.py\<close>).

  The dataclasses are immutable; the constructor of a record is the function \<open>make_\<dots>\<close> that runs the checks of
  \<open>__post_init__\<close>. Checks that a value has its declared type hold by typing. The catalogue is shown to be a
  map by identity and by content.
\<close>

section \<open>Checks the dataclasses share\<close>

definition blank_checks :: "(string \<times> string) list \<Rightarrow> (bool \<times> string) list" where
  "blank_checks = map (\<lambda>(name, v). (\<not> nonblank v, name @ '' must be a nonblank string''))"

definition optional_blank :: "string option \<Rightarrow> bool" where
  "optional_blank v \<longleftrightarrow> (case v of None \<Rightarrow> False | Some s \<Rightarrow> \<not> nonblank s)"

definition optional_checks :: "(string \<times> string option) list \<Rightarrow> (bool \<times> string) list" where
  "optional_checks = map (\<lambda>(name, v). (optional_blank v, name @ '' must be a nonblank string''))"

text \<open>The regular expression \<open>sha256:[0-9a-f]{64}\<close>.\<close>

definition sha256_id :: "string \<Rightarrow> bool" where
  "sha256_id s \<longleftrightarrow> length s = 71 \<and> take 7 s = ''sha256:'' \<and> list_all (\<lambda>c. c \<in> set ''0123456789abcdef'') (drop 7 s)"

text \<open>A reason that is added when a condition holds.\<close>

definition reason_if :: "bool \<Rightarrow> 'r \<Rightarrow> 'r set" where
  "reason_if c r = (if c then {r} else {})"

lemma reason_if_mem [simp]: "x \<in> reason_if c r \<longleftrightarrow> c \<and> x = r"
  by (simp add: reason_if_def)

lemma reason_if_empty [simp]: "reason_if c r = {} \<longleftrightarrow> \<not> c"
  by (simp add: reason_if_def)

section \<open>Recorded evidence\<close>

datatype evidence_review_state = EV_UNREVIEWED | EV_REVIEWED | EV_REJECTED

datatype evidence_claim_type = CONTRACT_FAMILY_AVAILABILITY | QUANTITY_BASIS_SEMANTICS | STOP_LOSS_SEMANTICS
  | MULTIPLIER_SEMANTICS | SYMBOL_ELIGIBILITY | DURATION_REQUIREMENTS | CURRENCY_SEMANTICS | MINIMUM_STAKE
  | STAKE_INCREMENT_PRECISION | LOSS_MODEL_DESCRIPTION_IDENTITY

record evidence_applicability =
  ap_broker :: string
  ap_contract_family :: "string option"
  ap_symbol :: "string option"
  ap_account_currency :: "string option"
  ap_environment :: "string option"
  ap_quantity_basis :: "string option"
  ap_stop_loss_semantic_id :: "string option"
  ap_multiplier_semantics_id :: "string option"
  ap_symbol_capability_scope :: "string option"

definition optional_scopes :: "evidence_applicability \<Rightarrow> (string \<times> string option) list" where
  "optional_scopes a =
     [(''contract_family'', ap_contract_family a), (''symbol'', ap_symbol a), (''account_currency'', ap_account_currency a),
      (''environment'', ap_environment a), (''quantity_basis'', ap_quantity_basis a),
      (''stop_loss_semantic_id'', ap_stop_loss_semantic_id a), (''multiplier_semantics_id'', ap_multiplier_semantics_id a),
      (''symbol_capability_scope'', ap_symbol_capability_scope a)]"

definition make_evidence_applicability :: "evidence_applicability \<Rightarrow> evidence_applicability result" where
  "make_evidence_applicability a =
     rbind (deriv_required_text ''broker'' (ap_broker a)) (\<lambda>broker.
     if py_lower broker \<noteq> ''deriv'' then Inl (ValueError ''broker must identify Deriv'')
     else rbind (raise_first (optional_checks (optional_scopes a))) (\<lambda>_. Inr a))"

record evidence_claim =
  ec_claim_id :: string
  ec_artifact_id :: string
  ec_claim_type :: evidence_claim_type
  ec_subject :: string
  ec_value :: string
  ec_applicability :: evidence_applicability
  ec_review_state :: evidence_review_state

definition make_evidence_claim :: "evidence_claim \<Rightarrow> evidence_claim result" where
  "make_evidence_claim c =
     rbind (raise_first (blank_checks [(''claim_id'', ec_claim_id c), (''artifact_id'', ec_artifact_id c),
       (''subject'', ec_subject c), (''value'', ec_value c)])) (\<lambda>_. Inr c)"

record evidence_artifact =
  ea_schema_version :: int
  ea_artifact_id :: string
  ea_source_identifier :: string
  ea_source_title :: string
  ea_source_publisher :: string
  ea_recorded_date :: int
  ea_content_hash :: string
  ea_claims :: "evidence_claim list"
  ea_review_state :: evidence_review_state
  ea_source_version :: "string option"

definition artifact_checks :: "evidence_artifact \<Rightarrow> (bool \<times> string) list" where
  "artifact_checks a =
     [(ea_schema_version a \<noteq> 1, ''unsupported evidence schema version'')]
     @ blank_checks [(''artifact_id'', ea_artifact_id a), (''source_identifier'', ea_source_identifier a),
         (''source_title'', ea_source_title a), (''source_publisher'', ea_source_publisher a)]
     @ optional_checks [(''source_version'', ea_source_version a)]
     @ [(\<not> sha256_id (ea_content_hash a), ''content_hash must use sha256:<64 lowercase hex characters>''),
        (\<not> distinct (map ec_claim_id (ea_claims a)), ''duplicate claim IDs are not allowed''),
        (\<exists>c \<in> set (ea_claims a). ec_artifact_id c \<noteq> ea_artifact_id a, ''claim artifact identity mismatch'')]"

definition make_evidence_artifact :: "evidence_artifact \<Rightarrow> evidence_artifact result" where
  "make_evidence_artifact a = rbind (raise_first (artifact_checks a)) (\<lambda>_. Inr a)"

text \<open>The catalogue: an immutable tuple of artifacts.\<close>

type_synonym evidence_registry = "evidence_artifact list"

definition make_evidence_registry :: "evidence_artifact list \<Rightarrow> evidence_registry result" where
  "make_evidence_registry artifacts =
     rbind (raise_first [(\<not> distinct (map ea_artifact_id artifacts), ''duplicate artifact IDs are not allowed''),
       (\<not> distinct (map ea_content_hash artifacts), ''duplicate artifact content hashes are not allowed'')])
       (\<lambda>_. Inr artifacts)"

definition register_artifact :: "evidence_artifact \<Rightarrow> evidence_registry \<Rightarrow> evidence_registry result" where
  "register_artifact a reg =
     (if \<exists>b \<in> set reg. ea_artifact_id b = ea_artifact_id a then Inl (ValueError ''duplicate artifact ID'')
      else if \<exists>b \<in> set reg. ea_content_hash b = ea_content_hash a then Inl (ValueError ''duplicate artifact content hash'')
      else make_evidence_registry (reg @ [a]))"

definition get_by_id :: "string \<Rightarrow> evidence_registry \<Rightarrow> evidence_artifact option result" where
  "get_by_id artifact_id reg =
     rbind (deriv_required_text ''artifact_id'' artifact_id) (\<lambda>normalized. Inr (find (\<lambda>a. ea_artifact_id a = normalized) reg))"

definition get_by_hash :: "string \<Rightarrow> evidence_registry \<Rightarrow> evidence_artifact option result" where
  "get_by_hash content_hash reg =
     (if \<not> sha256_id content_hash then Inl (ValueError ''content_hash must use sha256:<64 lowercase hex characters>'')
      else Inr (find (\<lambda>a. ea_content_hash a = content_hash) reg))"

definition remove_artifact :: "string \<Rightarrow> evidence_registry \<Rightarrow> evidence_registry result" where
  "remove_artifact artifact_id reg =
     rbind (deriv_required_text ''artifact_id'' artifact_id) (\<lambda>normalized.
       make_evidence_registry (filter (\<lambda>a. ea_artifact_id a \<noteq> normalized) reg))"

section \<open>The catalogue is a map by identity and by content\<close>

definition registry_ok :: "evidence_registry \<Rightarrow> bool" where
  "registry_ok reg \<longleftrightarrow> distinct (map ea_artifact_id reg) \<and> distinct (map ea_content_hash reg)"

lemma make_evidence_registry_Inr: "make_evidence_registry as = Inr reg \<longleftrightarrow> reg = as \<and> registry_ok as"
  by (auto simp: make_evidence_registry_def registry_ok_def)

lemma register_artifact_Inr:
  "register_artifact a reg = Inr reg' \<longleftrightarrow> reg' = reg @ [a] \<and> registry_ok (reg @ [a])"
  by (auto simp: register_artifact_def make_evidence_registry_Inr registry_ok_def image_iff; metis)

lemma registry_ok_filter: "registry_ok reg \<Longrightarrow> registry_ok (filter P reg)"
  by (auto simp: registry_ok_def distinct_map_filter)

lemma remove_artifact_Inr:
  "registry_ok reg \<Longrightarrow> nonblank i \<Longrightarrow> remove_artifact i reg = Inr (filter (\<lambda>a. ea_artifact_id a \<noteq> py_strip i) reg)"
  by (simp add: remove_artifact_def deriv_required_text_def make_evidence_registry_Inr registry_ok_filter)

lemma get_by_id_Inr:
  "get_by_id i reg = Inr found \<longleftrightarrow> nonblank i \<and> found = find (\<lambda>a. ea_artifact_id a = py_strip i) reg"
  by (auto simp: get_by_id_def deriv_required_text_def)

lemma find_distinct_key:
  assumes "distinct (map key xs)" "x \<in> set xs"
  shows "find (\<lambda>y. key y = key x) xs = Some x"
  using assms by (induction xs) (auto simp: image_iff)

text \<open>The identity of an artifact is checked with its blanks stripped, but kept as it is; the look-up strips its
  argument. So an artifact whose identity has outer blanks is registered and can then neither be found
  nor removed.\<close>

lemma padded_artifact_unreachable:
  assumes "registry_ok reg" "a \<in> set reg" "py_strip (ea_artifact_id a) \<noteq> ea_artifact_id a"
  shows "get_by_id i reg \<noteq> Inr (Some a)" and "remove_artifact i reg = Inr reg' \<Longrightarrow> a \<in> set reg'"
proof -
  have n: "ea_artifact_id a \<noteq> py_strip i" using assms(3) by (metis py_strip_idem)
  show "get_by_id i reg \<noteq> Inr (Some a)" using n by (auto simp: get_by_id_Inr find_Some_iff find_Some_iff2)
  show "a \<in> set reg'" if "remove_artifact i reg = Inr reg'"
    using that n assms(2) by (auto simp: remove_artifact_def deriv_required_text_def make_evidence_registry_Inr split: if_splits)
qed

lemma registered_artifact_found:
  assumes "register_artifact a reg = Inr reg'" "py_strip (ea_artifact_id a) = ea_artifact_id a" "nonblank (ea_artifact_id a)"
  shows "get_by_id (ea_artifact_id a) reg' = Inr (Some a)"
  using assms find_distinct_key [of ea_artifact_id reg' a] by (auto simp: get_by_id_Inr register_artifact_Inr registry_ok_def)

section \<open>Financial semantics\<close>

datatype equation_family = SYNTHETIC_LINEAR_PRODUCT
datatype operand_role = FACTOR | RATE | BASE
datatype financial_unit = ACCOUNT_CURRENCY_AMOUNT | STAKE_CURRENCY_AMOUNT | PRICE_UNIT | PRICE_DISTANCE | RATIO
  | MULTIPLIER_UNIT | CONTRACT_QUANTITY | PERCENTAGE
datatype numeric_domain = POSITIVE | NONNEGATIVE | SIGNED | DOMAIN_UNKNOWN
datatype output_semantic = SYNTHETIC_MONETARY_LOSS_FOR_SUPPLIED_INPUTS | SYNTHETIC_MAXIMUM_MONETARY_LOSS
  | SYNTHETIC_MONETARY_PROFIT_FOR_SUPPLIED_INPUTS
datatype currency_binding = APPLICABILITY_ACCOUNT_CURRENCY | EXPLICIT_CURRENCY | CURRENCY_NOT_APPLICABLE
datatype rounding_mode = NO_ROUNDING | ROUND_FLOOR | ROUND_CEILING | ROUND_HALF_EVEN
datatype rounding_stage = NO_STAGE | EACH_OPERATION | FINAL_OUTPUT

text \<open>A \<open>Decimal\<close> as it was written: sign, digits and exponent. Comparison and equality look only at the number it
  denotes, the canonical text and with it the hash of the semantics at the digits too.\<close>

datatype decimal_literal = Digits bool nat int | InfinityLiteral bool | NaNLiteral

fun finite_literal :: "decimal_literal \<Rightarrow> bool" where
  "finite_literal (Digits neg c e) = True"
| "finite_literal d = False"

fun literal_value :: "decimal_literal \<Rightarrow> rat" where
  "literal_value (Digits neg c e) = (if neg then - 1 else 1) * of_nat c * 10 powi e"
| "literal_value d = 0"

record financial_operand =
  op_operand_id :: string
  op_semantic_id :: string
  op_unit :: financial_unit
  op_role :: operand_role
  op_position :: int
  op_required :: bool
  op_domain :: numeric_domain
  op_lower_bound :: "decimal_literal option"
  op_upper_bound :: "decimal_literal option"
  op_zero_allowed :: bool
  op_currency_bound :: bool
  op_multiplier_bound :: bool

definition infinite_bound :: "decimal_literal option \<Rightarrow> bool" where
  "infinite_bound v \<longleftrightarrow> (case v of None \<Rightarrow> False | Some d \<Rightarrow> \<not> finite_literal d)"

definition operand_checks :: "financial_operand \<Rightarrow> (bool \<times> string) list" where
  "operand_checks x =
     blank_checks [(''operand_id'', op_operand_id x), (''semantic_id'', op_semantic_id x)]
     @ [(op_position x < 0, ''operand position must be a nonnegative strict integer''),
        (infinite_bound (op_lower_bound x), ''lower_bound must be a finite Decimal''),
        (infinite_bound (op_upper_bound x), ''upper_bound must be a finite Decimal''),
        (case (op_lower_bound x, op_upper_bound x) of
           (Some l, Some u) \<Rightarrow> literal_value u < literal_value l | _ \<Rightarrow> False, ''operand lower bound cannot exceed upper bound''),
        (op_domain x = POSITIVE \<and> op_zero_allowed x, ''positive operands cannot allow zero'')]"

definition make_financial_operand :: "financial_operand \<Rightarrow> financial_operand result" where
  "make_financial_operand x = rbind (raise_first (operand_checks x)) (\<lambda>_. Inr x)"

record financial_output =
  fo_semantic :: output_semantic
  fo_unit :: financial_unit
  fo_currency_binding :: currency_binding
  fo_explicit_currency :: "string option"
  fo_signed :: bool
  fo_zero_allowed :: bool

definition make_financial_output :: "financial_output \<Rightarrow> financial_output result" where
  "make_financial_output x =
     rbind (raise_first
       [(fo_currency_binding x = EXPLICIT_CURRENCY
           \<and> (case fo_explicit_currency x of None \<Rightarrow> True | Some t \<Rightarrow> \<not> nonblank t), ''explicit_currency must be a nonblank string''),
        (fo_currency_binding x \<noteq> EXPLICIT_CURRENCY \<and> fo_explicit_currency x \<noteq> None,
         ''explicit currency is inconsistent with currency binding'')]) (\<lambda>_. Inr x)"

record rounding_policy =
  rp_required :: bool
  rp_precision :: "int option"
  rp_mode :: rounding_mode
  rp_stage :: rounding_stage

definition make_rounding_policy :: "rounding_policy \<Rightarrow> rounding_policy result" where
  "make_rounding_policy x =
     rbind (raise_first
       [(rp_required x \<and> (case rp_precision x of None \<Rightarrow> True | Some n \<Rightarrow> n < 0), ''required rounding needs nonnegative precision''),
        (rp_required x \<and> (rp_mode x = NO_ROUNDING \<or> rp_stage x = NO_STAGE), ''required rounding needs explicit mode and stage''),
        (\<not> rp_required x \<and> (rp_precision x \<noteq> None \<or> rp_mode x \<noteq> NO_ROUNDING \<or> rp_stage x \<noteq> NO_STAGE),
         ''disabled rounding cannot define precision, mode, or stage'')]) (\<lambda>_. Inr x)"

record financial_semantics =
  fs_schema_version :: int
  fs_semantic_id :: string
  fs_semantic_version :: int
  fs_equation_family :: equation_family
  fs_equation_identity_hash :: string
  fs_operands :: "financial_operand list"
  fs_output :: financial_output
  fs_rounding :: rounding_policy
  fs_domain_constraint_ids :: "string list"
  fs_applicability :: evidence_applicability
  fs_contract_family :: string
  fs_quantity_basis_semantic_id :: string
  fs_stop_semantic_id :: string
  fs_multiplier_semantic_id :: string
  fs_take_profit_output :: "financial_output option"
  fs_take_profit_semantic_id :: "string option"
  fs_maximum_loss_output :: "financial_output option"
  fs_maximum_loss_semantic_id :: "string option"
  fs_allowed_multiplier_values :: "decimal_literal list"

text \<open>An optional output comes with its identity, has the given meaning and is an amount in account currency.\<close>

definition optional_output_checks ::
  "string \<Rightarrow> output_semantic \<Rightarrow> financial_output option \<Rightarrow> string option \<Rightarrow> (bool \<times> string) list" where
  "optional_output_checks name meaning out semantic_id =
     (case out of
        Some x \<Rightarrow> [(case semantic_id of None \<Rightarrow> True | Some t \<Rightarrow> \<not> nonblank t, name @ ''_semantic_id must be a nonblank string''),
          (fo_semantic x \<noteq> meaning \<or> fo_unit x \<noteq> ACCOUNT_CURRENCY_AMOUNT, name @ '' output must be a monetary semantic'')]
      | None \<Rightarrow> [(semantic_id \<noteq> None, name @ '' semantic requires an output'')])"

definition semantics_checks :: "financial_semantics \<Rightarrow> (bool \<times> string) list" where
  "semantics_checks s =
     [(fs_schema_version s \<noteq> 1, ''unsupported financial-semantics schema version'')]
     @ blank_checks [(''semantic_id'', fs_semantic_id s)]
     @ [(fs_semantic_version s \<le> 0, ''semantic_version must be a positive strict integer''),
        (\<not> sha256_id (fs_equation_identity_hash s), ''equation identity must be a lowercase SHA-256 ID''),
        (fs_operands s = [], ''operands must be a nonempty immutable typed tuple''),
        (\<not> distinct (map op_operand_id (fs_operands s)), ''duplicate operand IDs are not allowed''),
        (map op_position (fs_operands s) \<noteq> map int [0..<length (fs_operands s)],
         ''operand positions must be ordered and contiguous''),
        (\<not> list_all nonblank (fs_domain_constraint_ids s), ''domain constraints must be an immutable text tuple''),
        (fs_domain_constraint_ids s \<noteq> sort (remdups (fs_domain_constraint_ids s)),
         ''domain constraints must be unique and deterministically ordered'')]
     @ blank_checks [(''contract_family'', fs_contract_family s),
         (''quantity_basis_semantic_id'', fs_quantity_basis_semantic_id s),
         (''stop_semantic_id'', fs_stop_semantic_id s), (''multiplier_semantic_id'', fs_multiplier_semantic_id s)]
     @ optional_output_checks ''take_profit'' SYNTHETIC_MONETARY_PROFIT_FOR_SUPPLIED_INPUTS
         (fs_take_profit_output s) (fs_take_profit_semantic_id s)
     @ optional_output_checks ''maximum_loss'' SYNTHETIC_MAXIMUM_MONETARY_LOSS
         (fs_maximum_loss_output s) (fs_maximum_loss_semantic_id s)
     @ [(\<not> list_all (\<lambda>d. finite_literal d \<and> 0 < literal_value d) (fs_allowed_multiplier_values s),
         ''allowed multipliers must be positive finite Decimals''),
        (map literal_value (fs_allowed_multiplier_values s) \<noteq> sort (remdups (map literal_value (fs_allowed_multiplier_values s))),
         ''allowed multipliers must be unique and ordered''),
        (Some (fs_contract_family s) \<noteq> ap_contract_family (fs_applicability s)
         \<or> Some (fs_quantity_basis_semantic_id s) \<noteq> ap_quantity_basis (fs_applicability s)
         \<or> Some (fs_stop_semantic_id s) \<noteq> ap_stop_loss_semantic_id (fs_applicability s)
         \<or> Some (fs_multiplier_semantic_id s) \<noteq> ap_multiplier_semantics_id (fs_applicability s),
         ''financial semantics conflict with exact applicability'')]"

definition make_financial_semantics :: "financial_semantics \<Rightarrow> financial_semantics result" where
  "make_financial_semantics s = rbind (raise_first (semantics_checks s)) (\<lambda>_. Inr s)"

text \<open>Equality of the dataclasses: field by field, a \<open>Decimal\<close> by the number it denotes.\<close>

definition operand_schema :: "financial_operand \<Rightarrow> string \<times> string \<times> operand_role \<times> int \<times> bool" where
  "operand_schema x = (op_operand_id x, op_semantic_id x, op_role x, op_position x, op_required x)"

definition operand_domain :: "financial_operand \<Rightarrow> numeric_domain \<times> rat option \<times> rat option \<times> bool" where
  "operand_domain x = (op_domain x, map_option literal_value (op_lower_bound x), map_option literal_value (op_upper_bound x),
     op_zero_allowed x)"

definition same_operand :: "financial_operand \<Rightarrow> financial_operand \<Rightarrow> bool" where
  "same_operand x y \<longleftrightarrow> operand_schema x = operand_schema y \<and> op_unit x = op_unit y \<and> operand_domain x = operand_domain y
     \<and> op_currency_bound x = op_currency_bound y \<and> op_multiplier_bound x = op_multiplier_bound y"

definition same_semantics :: "financial_semantics \<Rightarrow> financial_semantics \<Rightarrow> bool" where
  "same_semantics s t \<longleftrightarrow> list_all2 same_operand (fs_operands s) (fs_operands t)
     \<and> map literal_value (fs_allowed_multiplier_values s) = map literal_value (fs_allowed_multiplier_values t)
     \<and> s\<lparr>fs_operands := [], fs_allowed_multiplier_values := []\<rparr> = t\<lparr>fs_operands := [], fs_allowed_multiplier_values := []\<rparr>"

definition same_optional_semantics :: "financial_semantics option \<Rightarrow> financial_semantics option \<Rightarrow> bool" where
  "same_optional_semantics = rel_option same_semantics"

lemma same_operand_refl [simp]: "same_operand x x"
  by (simp add: same_operand_def)

lemma same_semantics_refl [simp]: "same_semantics s s"
  by (auto simp: same_semantics_def list.rel_refl)

lemma same_semantics_sym: "same_semantics s t \<Longrightarrow> same_semantics t s"
  by (auto simp: same_semantics_def list_all2_conv_all_nth same_operand_def)

lemma same_semantics_trans:
  assumes "same_semantics s t" "same_semantics t u" shows "same_semantics s u"
proof -
  have "list_all2 same_operand (fs_operands s) (fs_operands u)"
    using assms by (auto simp: same_semantics_def list_all2_conv_all_nth same_operand_def)
  with assms show ?thesis by (simp add: same_semantics_def)
qed

lemma same_optional_semantics_refl [simp]: "same_optional_semantics s s"
  by (cases s) (auto simp: same_optional_semantics_def)

lemma same_optional_semantics_sym: "same_optional_semantics s t \<Longrightarrow> same_optional_semantics t s"
  by (cases s; cases t) (auto simp: same_optional_semantics_def same_semantics_sym)

lemma same_optional_semantics_trans:
  "same_optional_semantics s t \<Longrightarrow> same_optional_semantics t u \<Longrightarrow> same_optional_semantics s u"
  by (cases s; cases t; cases u) (auto simp: same_optional_semantics_def intro: same_semantics_trans)

end
