(* ===== verification/Deriv_Review.thy ===== *)
theory Deriv_Review
  imports Deriv_Evidence
begin

text \<open>
  The advisory review of Deriv evidence: the decision over one exact evidence set
  (\<open>src/broker/deriv_evidence_review.py\<close>) and the assessment of the reviewed package before a proof is considered
  (\<open>src/broker/deriv_proof_review.py\<close>). Two dataclasses that share a block of fields extend one record. The SHA-256
  identity of financial semantics is the parameter \<open>material_hash\<close>.

  The two validations are characterized: an approved decision is valid exactly when its evidence is complete,
  and a package that is ready rests on a valid approved decision about the same evidence.
\<close>

section \<open>Review of an evidence set\<close>

datatype evidence_decision_state = APPROVED_FOR_PROOF_REVIEW | DECISION_REJECTED | DECISION_INSUFFICIENT

datatype evidence_review_reason = MISSING_REQUIRED_CLAIM | ARTIFACT_REJECTED | CLAIM_REJECTED | ARTIFACT_UNREVIEWED
  | CLAIM_UNREVIEWED | REVIEW_APPLICABILITY_MISMATCH | CONTENT_IDENTITY_MISMATCH | DUPLICATE_OR_CONFLICTING_CLAIM
  | EVIDENCE_SET_COMPLETE

text \<open>The fields that a review decision and a proof-review assessment share: one exact evidence set and who judged
  it.\<close>

record review_package =
  pk_schema_version :: int
  pk_artifact_ids :: "string list"
  pk_artifact_content_hashes :: "string list"
  pk_claim_ids :: "string list"
  pk_reviewer_id :: string
  pk_reviewed_at :: pydatetime
  pk_applicability :: evidence_applicability
  pk_rationale :: "string option"
  pk_financial_semantics :: "financial_semantics option"

definition evidence_set_checks :: "string list \<Rightarrow> string list \<Rightarrow> string list \<Rightarrow> (bool \<times> string) list" where
  "evidence_set_checks artifact_ids hashes claim_ids =
     [(\<not> list_all nonblank artifact_ids, ''artifact_ids must contain nonblank strings''),
      (\<not> distinct artifact_ids, ''duplicate artifact IDs are not allowed''),
      (\<not> list_all sha256_id hashes, ''artifact hashes must use sha256:<64 lowercase hex characters>''),
      (length artifact_ids \<noteq> length hashes, ''artifact IDs and hashes must be positionally aligned''),
      (\<not> list_all nonblank claim_ids, ''claim_ids must contain nonblank strings''),
      (\<not> distinct claim_ids, ''duplicate claim IDs are not allowed'')]"

definition package_checks :: "'a review_package_scheme \<Rightarrow> (bool \<times> string) list" where
  "package_checks p =
     optional_checks [(''rationale'', pk_rationale p)]
     @ [(case pk_financial_semantics p of None \<Rightarrow> False | Some s \<Rightarrow> fs_applicability s \<noteq> pk_applicability p,
         ''financial semantics applicability is inconsistent'')]
     @ evidence_set_checks (pk_artifact_ids p) (pk_artifact_content_hashes p) (pk_claim_ids p)"

text \<open>A package that is accepted is not empty and gives completeness as the only reason; no other claims it.\<close>

definition verdict_checks :: "bool \<Rightarrow> 'r \<Rightarrow> 'r set \<Rightarrow> 'a review_package_scheme \<Rightarrow> (bool \<times> string) list" where
  "verdict_checks accepted complete_reason reasons p =
     [(reasons = {}, ''reason_codes must contain recognized reasons''),
      (\<not> tz_aware (pk_reviewed_at p), ''reviewed_at must be a timezone-aware datetime''),
      (accepted \<and> (pk_artifact_ids p = [] \<or> pk_claim_ids p = []), ''a nonempty evidence set is required''),
      (accepted \<and> reasons \<noteq> {complete_reason}, ''an accepted package requires its completeness reason''),
      (\<not> accepted \<and> complete_reason \<in> reasons, ''only an accepted package may declare completeness'')]"

record review_decision = review_package +
  ed_decision_id :: string
  ed_state :: evidence_decision_state
  ed_reason_codes :: "evidence_review_reason set"

definition review_decision_checks :: "review_decision \<Rightarrow> (bool \<times> string) list" where
  "review_decision_checks d =
     [(pk_schema_version d \<noteq> 1, ''unsupported evidence-review schema version'')]
     @ blank_checks [(''decision_id'', ed_decision_id d), (''reviewer_id'', pk_reviewer_id d)]
     @ package_checks d
     @ verdict_checks (ed_state d = APPROVED_FOR_PROOF_REVIEW) EVIDENCE_SET_COMPLETE (ed_reason_codes d) d"

definition make_review_decision :: "review_decision \<Rightarrow> review_decision result" where
  "make_review_decision d = rbind (raise_first (review_decision_checks d)) (\<lambda>_. Inr d)"

record review_validation =
  vd_valid :: bool
  vd_observed_reasons :: "evidence_review_reason set"

definition artifact_state_reasons :: "evidence_artifact \<Rightarrow> evidence_review_reason set" where
  "artifact_state_reasons a =
     (case ea_review_state a of EV_REJECTED \<Rightarrow> {ARTIFACT_REJECTED} | EV_UNREVIEWED \<Rightarrow> {ARTIFACT_UNREVIEWED} | EV_REVIEWED \<Rightarrow> {})"

fun review_artifacts ::
  "evidence_registry \<Rightarrow> (string \<times> string) list \<Rightarrow> (evidence_review_reason set \<times> evidence_artifact list) result" where
  "review_artifacts reg [] = Inr ({}, [])"
| "review_artifacts reg ((artifact_id, expected_hash) # rest) =
     rbind (get_by_id artifact_id reg) (\<lambda>found. rbind (review_artifacts reg rest) (\<lambda>(reasons, artifacts).
       case found of
         None \<Rightarrow> Inr (insert CONTENT_IDENTITY_MISMATCH reasons, artifacts)
       | Some a \<Rightarrow> Inr (reason_if (ea_content_hash a \<noteq> expected_hash) CONTENT_IDENTITY_MISMATCH
             \<union> artifact_state_reasons a \<union> reasons, a # artifacts)))"

text \<open>The dictionary of the claims by identity: of two claims with one identity the later one stays.\<close>

definition claim_of_id :: "evidence_artifact list \<Rightarrow> string \<Rightarrow> evidence_claim option" where
  "claim_of_id artifacts claim_id = find (\<lambda>c. ec_claim_id c = claim_id) (rev (concat (map ea_claims artifacts)))"

definition claim_reasons :: "evidence_applicability \<Rightarrow> evidence_claim \<Rightarrow> evidence_review_reason set" where
  "claim_reasons a c =
     (case ec_review_state c of EV_REJECTED \<Rightarrow> {CLAIM_REJECTED} | EV_UNREVIEWED \<Rightarrow> {CLAIM_UNREVIEWED} | EV_REVIEWED \<Rightarrow> {})
     \<union> reason_if (ec_applicability c \<noteq> a) REVIEW_APPLICABILITY_MISMATCH"

fun review_claims ::
  "evidence_artifact list \<Rightarrow> evidence_applicability \<Rightarrow> string list \<Rightarrow> evidence_review_reason set \<times> evidence_claim list" where
  "review_claims artifacts a [] = ({}, [])"
| "review_claims artifacts a (claim_id # rest) =
     (let (reasons, claims) = review_claims artifacts a rest in
      case claim_of_id artifacts claim_id of
        None \<Rightarrow> (insert MISSING_REQUIRED_CLAIM reasons, claims)
      | Some c \<Rightarrow> (claim_reasons a c \<union> reasons, c # claims))"

text \<open>Two selected claims about one subject that state different values: the first value of a subject is kept
  and compared with the later ones.\<close>

definition claim_identity :: "evidence_claim \<Rightarrow> evidence_claim_type \<times> string \<times> evidence_applicability" where
  "claim_identity c = (ec_claim_type c, ec_subject c, ec_applicability c)"

fun contradictory :: "('k \<times> 'v) list \<Rightarrow> ('k \<times> 'v) list \<Rightarrow> bool" where
  "contradictory seen [] = False"
| "contradictory seen ((k, v) # rest) =
     (case map_of seen k of None \<Rightarrow> contradictory ((k, v) # seen) rest | Some w \<Rightarrow> w \<noteq> v \<or> contradictory seen rest)"

definition claims_conflict :: "evidence_claim list \<Rightarrow> bool" where
  "claims_conflict claims = contradictory [] (map (\<lambda>c. (claim_identity c, ec_value c)) claims)"

definition semantics_claimed :: "(financial_semantics \<Rightarrow> string) \<Rightarrow> evidence_claim list \<Rightarrow> financial_semantics option \<Rightarrow> bool" where
  "semantics_claimed material_hash claims semantics =
     (case semantics of None \<Rightarrow> True
      | Some s \<Rightarrow> \<exists>c \<in> set claims. ec_claim_type c = LOSS_MODEL_DESCRIPTION_IDENTITY \<and> ec_value c = material_hash s)"

definition observed_reasons ::
  "(financial_semantics \<Rightarrow> string) \<Rightarrow> review_decision \<Rightarrow> evidence_registry \<Rightarrow> evidence_review_reason set result" where
  "observed_reasons material_hash d reg =
     rbind (review_artifacts reg (zip (pk_artifact_ids d) (pk_artifact_content_hashes d))) (\<lambda>(artifact_reasons, artifacts).
     let (of_claims, claims) = review_claims artifacts (pk_applicability d) (pk_claim_ids d);
         reasons = reason_if (pk_artifact_ids d = [] \<or> pk_claim_ids d = []) MISSING_REQUIRED_CLAIM \<union> artifact_reasons \<union> of_claims
           \<union> reason_if (claims_conflict claims) DUPLICATE_OR_CONFLICTING_CLAIM
           \<union> reason_if (\<not> semantics_claimed material_hash claims (pk_financial_semantics d)) MISSING_REQUIRED_CLAIM in
     Inr (if reasons = {} then {EVIDENCE_SET_COMPLETE} else reasons))"

definition validate_evidence_review ::
  "(financial_semantics \<Rightarrow> string) \<Rightarrow> review_decision \<Rightarrow> evidence_registry \<Rightarrow> review_validation result" where
  "validate_evidence_review material_hash d reg =
     rbind (observed_reasons material_hash d reg) (\<lambda>observed. Inr
       \<lparr>vd_valid = CONTENT_IDENTITY_MISMATCH \<notin> observed \<and> observed = ed_reason_codes d
          \<and> (case ed_state d of
               APPROVED_FOR_PROOF_REVIEW \<Rightarrow> observed = {EVIDENCE_SET_COMPLETE}
             | DECISION_REJECTED \<Rightarrow> observed \<inter> {ARTIFACT_REJECTED, CLAIM_REJECTED, REVIEW_APPLICABILITY_MISMATCH,
                 DUPLICATE_OR_CONFLICTING_CLAIM} \<noteq> {}
             | DECISION_INSUFFICIENT \<Rightarrow> observed \<inter> {ARTIFACT_UNREVIEWED, CLAIM_UNREVIEWED, MISSING_REQUIRED_CLAIM} \<noteq> {}),
        vd_observed_reasons = observed\<rparr>)"

section \<open>What an approved review rests on\<close>

lemma not_contradictory:
  "\<not> contradictory seen xs \<longleftrightarrow> (\<forall>x \<in> set xs. map_of seen (fst x) \<in> {None, Some (snd x)})
     \<and> (\<forall>x \<in> set xs. \<forall>y \<in> set xs. fst x = fst y \<longrightarrow> snd x = snd y)"
proof (induction seen xs rule: contradictory.induct)
  case (2 seen k v rest)
  show ?case
  proof (cases "map_of seen k")
    case None
    have "\<not> contradictory seen ((k, v) # rest) \<longleftrightarrow> (\<forall>x \<in> set rest. map_of ((k, v) # seen) (fst x) \<in> {None, Some (snd x)})
        \<and> (\<forall>x \<in> set rest. \<forall>y \<in> set rest. fst x = fst y \<longrightarrow> snd x = snd y)"
      using 2(1) [OF None] None by simp
    also have "(\<forall>x \<in> set rest. map_of ((k, v) # seen) (fst x) \<in> {None, Some (snd x)})
       \<longleftrightarrow> (\<forall>x \<in> set rest. map_of seen (fst x) \<in> {None, Some (snd x)} \<and> (fst x = k \<longrightarrow> snd x = v))"
      by (rule ball_cong) (use None in auto)
    finally show ?thesis using None by (simp, blast)
  next
    case (Some w)
    show ?thesis
    proof (cases "w = v")
      case True
      have "snd x = v" if "\<forall>x \<in> set rest. map_of seen (fst x) \<in> {None, Some (snd x)}" "x \<in> set rest" "fst x = k" for x
        using that Some True by fastforce
      then show ?thesis using 2(2) [OF Some] Some True by (simp, blast)
    qed (use Some in simp)
  qed
qed simp

lemma claims_conflict_iff:
  "claims_conflict cs \<longleftrightarrow> (\<exists>c \<in> set cs. \<exists>d \<in> set cs. claim_identity c = claim_identity d \<and> ec_value c \<noteq> ec_value d)"
  using not_contradictory [of "[]" "map (\<lambda>c. (claim_identity c, ec_value c)) cs"]
  by (simp add: claims_conflict_def) blast

definition artifact_backs :: "evidence_registry \<Rightarrow> string \<times> string \<Rightarrow> evidence_artifact \<Rightarrow> bool" where
  "artifact_backs reg x a \<longleftrightarrow> get_by_id (fst x) reg = Inr (Some a) \<and> ea_content_hash a = snd x \<and> ea_review_state a = EV_REVIEWED"

lemma review_artifacts_clean:
  "review_artifacts reg xs = Inr ({}, as) \<longleftrightarrow> list_all2 (artifact_backs reg) xs as"
proof (induction xs arbitrary: as)
  case (Cons x xs)
  obtain i h where x: "x = (i, h)" by fastforce
  have found: ?case if f: "get_by_id i reg = Inr (Some a)" for a
  proof -
    have b: "artifact_backs reg x c \<longleftrightarrow> c = a \<and> ea_content_hash a = h \<and> ea_review_state a = EV_REVIEWED" for c
      by (auto simp: artifact_backs_def x f)
    have "review_artifacts reg (x # xs) = Inr ({}, as) \<longleftrightarrow>
        (\<exists>bs. review_artifacts reg xs = Inr ({}, bs) \<and> as = a # bs) \<and> ea_content_hash a = h \<and> ea_review_state a = EV_REVIEWED"
      by (cases "review_artifacts reg xs"; cases "ea_review_state a") (simp_all add: x f artifact_state_reasons_def split: prod.split, fastforce+)
    also have "(\<exists>bs. review_artifacts reg xs = Inr ({}, bs) \<and> as = a # bs) \<longleftrightarrow> (\<exists>bs. list_all2 (artifact_backs reg) xs bs \<and> as = a # bs)"
      by (simp add: Cons.IH)
    finally show ?case by (cases as) (simp_all add: b, blast)
  qed
  show ?case
  proof (cases "get_by_id i reg")
    case (Inl e)
    then show ?thesis by (cases as) (simp_all add: x artifact_backs_def)
  next
    case (Inr r)
    show ?thesis
    proof (cases r)
      case None
      then show ?thesis using Inr by (cases as; cases "review_artifacts reg xs") (simp_all add: x artifact_backs_def split: prod.split)
    qed (use Inr found in simp)
  qed
qed auto

definition claim_backs :: "evidence_artifact list \<Rightarrow> evidence_applicability \<Rightarrow> string \<Rightarrow> evidence_claim \<Rightarrow> bool" where
  "claim_backs artifacts a i c \<longleftrightarrow> claim_of_id artifacts i = Some c \<and> ec_review_state c = EV_REVIEWED \<and> ec_applicability c = a"

lemma claim_reasons_empty: "claim_reasons a c = {} \<longleftrightarrow> ec_review_state c = EV_REVIEWED \<and> ec_applicability c = a"
  by (cases "ec_review_state c") (simp_all add: claim_reasons_def)

lemma review_claims_clean:
  "review_claims artifacts a ids = ({}, cs) \<longleftrightarrow> list_all2 (claim_backs artifacts a) ids cs"
proof (induction ids arbitrary: cs)
  case (Cons i ids)
  obtain rs ds where r: "review_claims artifacts a ids = (rs, ds)" by fastforce
  have ih: "list_all2 (claim_backs artifacts a) ids es \<longleftrightarrow> rs = {} \<and> es = ds" for es
    using Cons.IH [of es] r by auto
  show ?case
  proof (cases "claim_of_id artifacts i")
    case (Some c)
    then have "claim_backs artifacts a i e \<longleftrightarrow> e = c \<and> claim_reasons a c = {}" for e
      by (auto simp: claim_backs_def claim_reasons_empty)
    then show ?thesis by (cases cs) (simp_all add: r Some ih, blast)
  qed (cases cs; simp add: r claim_backs_def)
qed auto

text \<open>The evidence of an approved decision: every artifact is in the catalogue with its content and reviewed,
  every claim stands in one of them, is reviewed and has exactly the decision's scope, no two claims
  contradict each other, and the declared semantics are named by one.\<close>

definition evidence_complete :: "(financial_semantics \<Rightarrow> string) \<Rightarrow> 'a review_package_scheme \<Rightarrow> evidence_registry \<Rightarrow> bool" where
  "evidence_complete material_hash p reg \<longleftrightarrow> pk_artifact_ids p \<noteq> [] \<and> pk_claim_ids p \<noteq> []
     \<and> (\<exists>artifacts claims. list_all2 (artifact_backs reg) (zip (pk_artifact_ids p) (pk_artifact_content_hashes p)) artifacts
         \<and> list_all2 (claim_backs artifacts (pk_applicability p)) (pk_claim_ids p) claims
         \<and> (\<forall>c \<in> set claims. \<forall>d \<in> set claims. claim_identity c = claim_identity d \<longrightarrow> ec_value c = ec_value d)
         \<and> semantics_claimed material_hash claims (pk_financial_semantics p))"

lemma artifact_reasons_bounded:
  "review_artifacts reg xs = Inr (rs, as) \<Longrightarrow> rs \<subseteq> {CONTENT_IDENTITY_MISMATCH, ARTIFACT_REJECTED, ARTIFACT_UNREVIEWED}"
proof (induction xs arbitrary: rs as)
  case (Cons x xs)
  obtain i h where x: "x = (i, h)" by fastforce
  with Cons.prems obtain found qs bs where f: "get_by_id i reg = Inr found" "review_artifacts reg xs = Inr (qs, bs)" by fastforce
  show ?case
    using Cons.prems Cons.IH [OF f(2)]
    by (cases found; cases "ea_review_state (the found)") (auto simp: x f artifact_state_reasons_def)
qed simp

lemma claim_reasons_bounded:
  "fst (review_claims artifacts a ids) \<subseteq> {MISSING_REQUIRED_CLAIM, CLAIM_REJECTED, CLAIM_UNREVIEWED, REVIEW_APPLICABILITY_MISMATCH}"
  by (induction ids) (auto simp: claim_reasons_def split: prod.splits option.splits evidence_review_state.splits)

lemma observed_complete_iff:
  "observed_reasons material_hash d reg = Inr {EVIDENCE_SET_COMPLETE} \<longleftrightarrow> evidence_complete material_hash d reg"
  (is "?l \<longleftrightarrow> ?r")
proof (cases "review_artifacts reg (zip (pk_artifact_ids d) (pk_artifact_content_hashes d))")
  case (Inl e)
  then have "\<not> ?r" using review_artifacts_clean by (metis Inl_Inr_False evidence_complete_def)
  then show ?thesis using Inl by (simp add: observed_reasons_def)
next
  case (Inr x)
  obtain ars artifacts where x: "x = (ars, artifacts)" by fastforce
  obtain crs claims where c: "review_claims artifacts (pk_applicability d) (pk_claim_ids d) = (crs, claims)" by fastforce
  have b: "EVIDENCE_SET_COMPLETE \<notin> ars" "EVIDENCE_SET_COMPLETE \<notin> crs"
    using artifact_reasons_bounded [of reg _ ars artifacts] Inr x claim_reasons_bounded [of artifacts "pk_applicability d" "pk_claim_ids d"] c
    by auto
  define rest where "rest = reason_if (pk_artifact_ids d = [] \<or> pk_claim_ids d = []) MISSING_REQUIRED_CLAIM \<union> ars \<union> crs
           \<union> reason_if (claims_conflict claims) DUPLICATE_OR_CONFLICTING_CLAIM
           \<union> reason_if (\<not> semantics_claimed material_hash claims (pk_financial_semantics d)) MISSING_REQUIRED_CLAIM"
  have re: "rest = {} \<longleftrightarrow> pk_artifact_ids d \<noteq> [] \<and> pk_claim_ids d \<noteq> [] \<and> ars = {} \<and> crs = {} \<and> \<not> claims_conflict claims
      \<and> semantics_claimed material_hash claims (pk_financial_semantics d)"
    unfolding rest_def by (simp only: Un_empty reason_if_empty de_Morgan_disj not_not) blast
  have "EVIDENCE_SET_COMPLETE \<notin> rest" using b by (auto simp: rest_def)
  moreover have "observed_reasons material_hash d reg = Inr (if rest = {} then {EVIDENCE_SET_COMPLETE} else rest)"
    unfolding observed_reasons_def Inr x c rest_def by (simp only: rbind.simps prod.case Let_def c)
  ultimately have l: "?l \<longleftrightarrow> rest = {}" by auto
  have a: "list_all2 (artifact_backs reg) (zip (pk_artifact_ids d) (pk_artifact_content_hashes d)) as \<longleftrightarrow> ars = {} \<and> as = artifacts" for as
    using Inr x by (auto simp: review_artifacts_clean [symmetric])
  have cl: "list_all2 (claim_backs artifacts (pk_applicability d)) (pk_claim_ids d) cs \<longleftrightarrow> crs = {} \<and> cs = claims" for cs
    using review_claims_clean [of artifacts "pk_applicability d" "pk_claim_ids d" cs] c by auto
  have "?r \<longleftrightarrow> pk_artifact_ids d \<noteq> [] \<and> pk_claim_ids d \<noteq> [] \<and> ars = {} \<and> crs = {} \<and> \<not> claims_conflict claims
      \<and> semantics_claimed material_hash claims (pk_financial_semantics d)"
    by (auto simp: evidence_complete_def a cl claims_conflict_iff)
  then show ?thesis unfolding l re by simp
qed

lemma approved_reasons:
  "make_review_decision d = Inr d' \<Longrightarrow> ed_state d = APPROVED_FOR_PROOF_REVIEW \<Longrightarrow> ed_reason_codes d = {EVIDENCE_SET_COMPLETE}"
  by (simp add: make_review_decision_def raise_first_Inr review_decision_checks_def verdict_checks_def del: raise_first.simps)
    (elim conjE, simp)

lemma approved_review_iff:
  assumes "make_review_decision d = Inr d'" "ed_state d = APPROVED_FOR_PROOF_REVIEW"
  shows "(\<exists>v. validate_evidence_review material_hash d reg = Inr v \<and> vd_valid v) \<longleftrightarrow> evidence_complete material_hash d reg"
proof -
  note r = approved_reasons [OF assms]
  show ?thesis
    using assms(2) r observed_complete_iff [of material_hash d reg]
    by (cases "observed_reasons material_hash d reg") (simp_all add: validate_evidence_review_def, blast)
qed


lemma find_append: "find P (xs @ ys) = (case find P xs of None \<Rightarrow> find P ys | Some x \<Rightarrow> Some x)"
  by (induction xs) auto

text \<open>Claim identities are unique within an artifact only. A claim of a later artifact hides one with the same
  identity in an earlier artifact, even a rejected one that states something else.\<close>

lemma later_claim_hides:
  assumes "c \<in> set (ea_claims b)" "distinct (map ec_claim_id (ea_claims b))"
  shows "claim_of_id (artifacts @ [b]) (ec_claim_id c) = Some c"
proof -
  have "find (\<lambda>x. ec_claim_id x = ec_claim_id c) (rev (ea_claims b) @ ys) = Some c" for ys
    using find_distinct_key [of ec_claim_id "rev (ea_claims b)" c] assms by (simp add: rev_map [symmetric] find_append)
  then show ?thesis by (simp add: claim_of_id_def)
qed

section \<open>Assessment of the reviewed package\<close>

datatype proof_review_state = READY_FOR_AUTHORITATIVE_PROOF_REVIEW | ASSESSMENT_REJECTED | ASSESSMENT_INSUFFICIENT

datatype proof_review_reason = REVIEW_DECISION_NOT_APPROVED | REVIEW_DECISION_STALE | PACKAGE_APPLICABILITY_MISMATCH
  | PACKAGE_EVIDENCE_MISMATCH | PACKAGE_CLAIM_SET_MISMATCH | REVIEW_SCOPE_INCOMPLETE | REVIEW_PACKAGE_CONSISTENT
  | REVIEW_PACKAGE_CONFLICTING

record proof_assessment = review_package +
  pa_assessment_id :: string
  pa_review_decision_id :: string
  pa_state :: proof_review_state
  pa_reason_codes :: "proof_review_reason set"

definition assessment_checks :: "proof_assessment \<Rightarrow> (bool \<times> string) list" where
  "assessment_checks a =
     [(pk_schema_version a \<noteq> 1, ''unsupported proof-review schema version'')]
     @ blank_checks [(''assessment_id'', pa_assessment_id a), (''review_decision_id'', pa_review_decision_id a),
         (''reviewer_id'', pk_reviewer_id a)]
     @ package_checks a
     @ verdict_checks (pa_state a = READY_FOR_AUTHORITATIVE_PROOF_REVIEW) REVIEW_PACKAGE_CONSISTENT (pa_reason_codes a) a"

definition make_proof_assessment :: "proof_assessment \<Rightarrow> proof_assessment result" where
  "make_proof_assessment a = rbind (raise_first (assessment_checks a)) (\<lambda>_. Inr a)"

record assessment_validation =
  av_valid :: bool
  av_observed_reasons :: "proof_review_reason set"

definition decision_reasons :: "evidence_decision_state \<Rightarrow> proof_review_reason set" where
  "decision_reasons st =
     (case st of APPROVED_FOR_PROOF_REVIEW \<Rightarrow> {}
      | DECISION_REJECTED \<Rightarrow> {REVIEW_DECISION_NOT_APPROVED, REVIEW_PACKAGE_CONFLICTING}
      | DECISION_INSUFFICIENT \<Rightarrow> {REVIEW_DECISION_NOT_APPROVED, REVIEW_SCOPE_INCOMPLETE})"

definition assessment_reasons :: "proof_assessment \<Rightarrow> review_decision \<Rightarrow> bool \<Rightarrow> proof_review_reason set" where
  "assessment_reasons a d decision_valid =
     reason_if (pa_review_decision_id a \<noteq> ed_decision_id d \<or> pk_artifact_ids a \<noteq> pk_artifact_ids d
         \<or> pk_artifact_content_hashes a \<noteq> pk_artifact_content_hashes d
         \<or> \<not> same_optional_semantics (pk_financial_semantics a) (pk_financial_semantics d)) PACKAGE_EVIDENCE_MISMATCH
     \<union> reason_if (pk_claim_ids a \<noteq> pk_claim_ids d) PACKAGE_CLAIM_SET_MISMATCH
     \<union> reason_if (pk_applicability a \<noteq> pk_applicability d) PACKAGE_APPLICABILITY_MISMATCH
     \<union> reason_if (\<not> decision_valid) REVIEW_DECISION_STALE
     \<union> decision_reasons (ed_state d)"

definition validate_proof_assessment ::
  "(financial_semantics \<Rightarrow> string) \<Rightarrow> proof_assessment \<Rightarrow> review_decision \<Rightarrow> evidence_registry \<Rightarrow> assessment_validation result" where
  "validate_proof_assessment material_hash a d reg =
     rbind (validate_evidence_review material_hash d reg) (\<lambda>v.
     let reasons = assessment_reasons a d (vd_valid v);
         identity_failure = reasons \<inter> {REVIEW_DECISION_STALE, PACKAGE_APPLICABILITY_MISMATCH, PACKAGE_EVIDENCE_MISMATCH,
           PACKAGE_CLAIM_SET_MISMATCH} \<noteq> {};
         observed = (if reasons = {} then {REVIEW_PACKAGE_CONSISTENT} else reasons) in
     Inr \<lparr>av_valid = \<not> identity_failure \<and> observed = pa_reason_codes a
            \<and> (case pa_state a of
                 READY_FOR_AUTHORITATIVE_PROOF_REVIEW \<Rightarrow> observed = {REVIEW_PACKAGE_CONSISTENT}
               | ASSESSMENT_REJECTED \<Rightarrow> REVIEW_PACKAGE_CONFLICTING \<in> observed
               | ASSESSMENT_INSUFFICIENT \<Rightarrow> REVIEW_SCOPE_INCOMPLETE \<in> observed),
          av_observed_reasons = observed\<rparr>)"

text \<open>The two records are about the same evidence.\<close>

definition same_package :: "'a review_package_scheme \<Rightarrow> 'b review_package_scheme \<Rightarrow> bool" where
  "same_package a d \<longleftrightarrow> pk_artifact_ids a = pk_artifact_ids d \<and> pk_artifact_content_hashes a = pk_artifact_content_hashes d
     \<and> pk_claim_ids a = pk_claim_ids d \<and> pk_applicability a = pk_applicability d
     \<and> same_optional_semantics (pk_financial_semantics a) (pk_financial_semantics d)"

lemma assessment_reasons_empty:
  "assessment_reasons a d ok = {} \<longleftrightarrow> ok \<and> ed_state d = APPROVED_FOR_PROOF_REVIEW \<and> pa_review_decision_id a = ed_decision_id d
     \<and> same_package a d"
  by (cases "ed_state d") (auto simp: assessment_reasons_def decision_reasons_def same_package_def)

lemma consistent_not_reason: "REVIEW_PACKAGE_CONSISTENT \<notin> assessment_reasons a d ok"
  by (cases "ed_state d") (simp_all add: assessment_reasons_def decision_reasons_def)

lemma ready_reasons:
  "make_proof_assessment a = Inr a' \<Longrightarrow> pa_state a = READY_FOR_AUTHORITATIVE_PROOF_REVIEW \<Longrightarrow> pa_reason_codes a = {REVIEW_PACKAGE_CONSISTENT}"
  by (simp add: make_proof_assessment_def raise_first_Inr assessment_checks_def verdict_checks_def del: raise_first.simps)
    (elim conjE, simp)

lemma ready_assessment_iff:
  assumes a: "make_proof_assessment a = Inr a'" "pa_state a = READY_FOR_AUTHORITATIVE_PROOF_REVIEW"
    and d: "make_review_decision d = Inr d'"
  shows "(\<exists>v. validate_proof_assessment material_hash a d reg = Inr v \<and> av_valid v) \<longleftrightarrow>
    ed_state d = APPROVED_FOR_PROOF_REVIEW \<and> pa_review_decision_id a = ed_decision_id d \<and> same_package a d
    \<and> evidence_complete material_hash d reg" (is "?l \<longleftrightarrow> ?r")
proof -
  note r = ready_reasons [OF a]
  have "?l \<longleftrightarrow> (\<exists>v. validate_evidence_review material_hash d reg = Inr v \<and> assessment_reasons a d (vd_valid v) = {})"
  proof (cases "validate_evidence_review material_hash d reg")
    case (Inr v)
    have "{REVIEW_PACKAGE_CONSISTENT} = assessment_reasons a d (vd_valid v) \<longleftrightarrow> False"
      using consistent_not_reason [of a d "vd_valid v"] by auto
    then show ?thesis
      using a(2) r by (auto simp: validate_proof_assessment_def Inr Let_def)
  qed (simp add: validate_proof_assessment_def)
  also have "\<dots> \<longleftrightarrow> ?r"
    using approved_review_iff [OF d] by (simp add: assessment_reasons_empty) blast
  finally show ?thesis .
qed

end
