(* ===== verification/Deriv_Registration.thy ===== *)
theory Deriv_Registration
  imports Deriv_Review
begin

text \<open>
  Governance before a Deriv loss-model proof enters the registry (\<open>src/broker/deriv_proof_registration.py\<close>):
  candidate material, its independent verification, revocation records, and the eligibility for registration.

  Candidate, verification, admission request, registry entry and consumption request carry the same identity of
  the proof material; these fields are the record \<open>proof_lineage\<close>, which the others extend. The eligibility is
  characterized: a candidate is eligible exactly when its whole advisory chain is complete and nothing in it is
  revoked. The constructors share lists of checks, which run in one order: where several fields of a record are
  wrong, the exception is a \<open>ValueError\<close> as in the code, but its message may name another of them.
\<close>

section \<open>The lineage of a proof\<close>

record proof_lineage =
  ln_schema_version :: int
  ln_candidate_id :: string
  ln_candidate_material_hash :: string
  ln_loss_model_id :: string
  ln_loss_model_version :: int
  ln_evidence_source_id :: string
  ln_source_assessment_id :: string
  ln_review_decision_id :: string
  ln_artifact_ids :: "string list"
  ln_artifact_content_hashes :: "string list"
  ln_claim_ids :: "string list"
  ln_applicability :: evidence_applicability
  ln_valid_from :: pydatetime
  ln_valid_until :: pydatetime
  ln_financial_semantics :: "financial_semantics option"

text \<open>Every scope of the applicability is required.\<close>

definition applicability_checks :: "evidence_applicability \<Rightarrow> (bool \<times> string) list" where
  "applicability_checks a =
     map (\<lambda>(name, v). (case v of None \<Rightarrow> True | Some t \<Rightarrow> \<not> nonblank t, ''applicability.'' @ name @ '' must be a nonblank string''))
       (optional_scopes a)
     @ [(ap_environment a \<notin> {Some ''demo'', Some ''real''}, ''applicability.environment must be demo or real'')]"

definition identity_checks :: "(string \<times> string) list \<Rightarrow> 'a proof_lineage_scheme \<Rightarrow> (bool \<times> string) list" where
  "identity_checks own l =
     [(ln_schema_version l \<noteq> 1, ''unsupported schema version'')]
     @ blank_checks (own @ [(''candidate_id'', ln_candidate_id l), (''loss_model_id'', ln_loss_model_id l),
         (''evidence_source_id'', ln_evidence_source_id l), (''source_assessment_id'', ln_source_assessment_id l),
         (''review_decision_id'', ln_review_decision_id l)])"

definition material_checks :: "'a proof_lineage_scheme \<Rightarrow> (bool \<times> string) list" where
  "material_checks l =
     [(\<not> sha256_id (ln_candidate_material_hash l), ''candidate_material_hash must use sha256:<64 lowercase hex characters>''),
      (ln_loss_model_version l \<le> 0, ''loss_model_version must be a positive strict integer'')]
     @ evidence_set_checks (ln_artifact_ids l) (ln_artifact_content_hashes l) (ln_claim_ids l)
     @ [(ln_artifact_ids l = [] \<or> ln_claim_ids l = [], ''at least one artifact and one claim are required'')]
     @ applicability_checks (ln_applicability l)
     @ [(\<not> tz_aware (ln_valid_from l), ''valid_from must be a timezone-aware datetime''),
        (\<not> tz_aware (ln_valid_until l), ''valid_until must be a timezone-aware datetime''),
        (instant (ln_valid_until l) \<le> instant (ln_valid_from l), ''valid_until must follow valid_from'')]"

text \<open>The declared semantics belong to the lineage, by scope, and by identity and hash as well.\<close>

definition semantics_in_scope :: "'a proof_lineage_scheme \<Rightarrow> bool" where
  "semantics_in_scope l \<longleftrightarrow> (case ln_financial_semantics l of None \<Rightarrow> True | Some s \<Rightarrow> fs_applicability s = ln_applicability l)"

definition semantics_bound :: "(financial_semantics \<Rightarrow> string) \<Rightarrow> 'a proof_lineage_scheme \<Rightarrow> bool" where
  "semantics_bound material_hash l \<longleftrightarrow> (case ln_financial_semantics l of None \<Rightarrow> True
     | Some s \<Rightarrow> fs_applicability s = ln_applicability l \<and> fs_semantic_id s = ln_loss_model_id l
         \<and> fs_semantic_version s = ln_loss_model_version l \<and> material_hash s = ln_candidate_material_hash l)"

text \<open>Equality of two \<open>datetime\<close> values: that of their instants when both are aware.\<close>

definition same_time :: "pydatetime \<Rightarrow> pydatetime \<Rightarrow> bool" where
  "same_time s t \<longleftrightarrow> tz_aware s = tz_aware t \<and> instant s = instant t"

lemma same_time_refl [simp]: "same_time t t"
  by (simp add: same_time_def)

section \<open>Candidate, verification, revocation\<close>

type_synonym proof_candidate = proof_lineage

definition make_proof_candidate :: "(financial_semantics \<Rightarrow> string) \<Rightarrow> proof_candidate \<Rightarrow> proof_candidate result" where
  "make_proof_candidate material_hash c =
     rbind (raise_first (identity_checks [] c @ material_checks c
       @ [(\<not> semantics_bound material_hash c, ''candidate financial semantics are inconsistent'')])) (\<lambda>_. Inr c)"

datatype verification_state = INDEPENDENTLY_VERIFIED | VERIFICATION_REJECTED | VERIFICATION_INSUFFICIENT

datatype verification_reason = CANDIDATE_INDEPENDENTLY_VERIFIED | CANDIDATE_REJECTED | VERIFICATION_SCOPE_INCOMPLETE

record independent_verification = proof_lineage +
  vf_verification_decision_id :: string
  vf_state :: verification_state
  vf_reason_codes :: "verification_reason set"
  vf_verifier_id :: string
  vf_verified_at :: pydatetime
  vf_rationale :: "string option"

fun expected_reasons :: "verification_state \<Rightarrow> verification_reason set" where
  "expected_reasons INDEPENDENTLY_VERIFIED = {CANDIDATE_INDEPENDENTLY_VERIFIED}"
| "expected_reasons VERIFICATION_REJECTED = {CANDIDATE_REJECTED}"
| "expected_reasons VERIFICATION_INSUFFICIENT = {VERIFICATION_SCOPE_INCOMPLETE}"

definition make_independent_verification ::
  "(financial_semantics \<Rightarrow> string) \<Rightarrow> independent_verification \<Rightarrow> independent_verification result" where
  "make_independent_verification material_hash v =
     rbind (raise_first (identity_checks [(''verification_decision_id'', vf_verification_decision_id v), (''verifier_id'', vf_verifier_id v)] v
       @ optional_checks [(''rationale'', vf_rationale v)] @ material_checks v
       @ [(vf_reason_codes v \<noteq> expected_reasons (vf_state v), ''reason_codes do not match verification state''),
          (\<not> tz_aware (vf_verified_at v), ''verified_at must be a timezone-aware datetime''),
          (\<not> semantics_bound material_hash v, ''verification financial semantics are inconsistent'')])) (\<lambda>_. Inr v)"

datatype revocation_target = CANDIDATE_TARGET | VERIFICATION_TARGET | REGISTERED_PROOF_TARGET

datatype revocation_reason = REVOKED | SUPERSEDED | EVIDENCE_INVALIDATED | APPLICABILITY_INVALIDATED

record proof_revocation =
  rx_schema_version :: int
  rx_revocation_id :: string
  rx_target_kind :: revocation_target
  rx_target_id :: string
  rx_reason :: revocation_reason
  rx_revoked_by :: string
  rx_revoked_at :: pydatetime
  rx_superseded_by_id :: "string option"

definition make_proof_revocation :: "proof_revocation \<Rightarrow> proof_revocation result" where
  "make_proof_revocation r =
     rbind (raise_first ([(rx_schema_version r \<noteq> 1, ''unsupported proof-registration schema version'')]
       @ blank_checks [(''revocation_id'', rx_revocation_id r), (''target_id'', rx_target_id r), (''revoked_by'', rx_revoked_by r)]
       @ [(\<not> tz_aware (rx_revoked_at r), ''revoked_at must be a timezone-aware datetime''),
          (rx_reason r = SUPERSEDED \<and> (case rx_superseded_by_id r of None \<Rightarrow> True | Some t \<Rightarrow> \<not> nonblank t),
           ''superseded_by_id must be a nonblank string''),
          (rx_reason r \<noteq> SUPERSEDED \<and> rx_superseded_by_id r \<noteq> None, ''superseded_by_id is allowed only for SUPERSEDED'')])) (\<lambda>_. Inr r)"

definition revoked :: "proof_revocation list \<Rightarrow> revocation_target \<Rightarrow> string \<Rightarrow> bool" where
  "revoked revocations kind target \<longleftrightarrow> (\<exists>r \<in> set revocations. rx_target_kind r = kind \<and> rx_target_id r = target)"

section \<open>Eligibility\<close>

datatype registration_state = ELIGIBLE_FOR_REGISTRATION | INELIGIBLE

datatype registration_reason = REGISTRATION_CHAIN_COMPLETE | SOURCE_ASSESSMENT_INVALID | SOURCE_ASSESSMENT_NOT_READY
  | ADVISORY_DECISION_NOT_APPROVED | CANDIDATE_IDENTITY_MISMATCH | EVIDENCE_IDENTITY_MISMATCH | CLAIM_SET_MISMATCH
  | APPLICABILITY_MISMATCH | INDEPENDENT_VERIFICATION_MISSING | INDEPENDENT_VERIFICATION_NOT_VERIFIED
  | INDEPENDENT_VERIFICATION_MISMATCH | CANDIDATE_REVOKED | INDEPENDENT_VERIFICATION_REVOKED | REVOCATION_RECORD_CONFLICT
  | FINANCIAL_SEMANTICS_MISSING | SEMANTIC_ID_MISMATCH | SEMANTIC_VERSION_MISMATCH | EQUATION_IDENTITY_MISMATCH
  | OPERAND_SCHEMA_MISMATCH | UNIT_SCHEMA_MISMATCH | OUTPUT_SEMANTIC_MISMATCH | DOMAIN_MISMATCH | ROUNDING_POLICY_MISMATCH

record registration_eligibility =
  el_state :: registration_state
  el_reason_codes :: "registration_reason set"

definition make_registration_eligibility :: "registration_eligibility \<Rightarrow> registration_eligibility result" where
  "make_registration_eligibility e =
     rbind (raise_first
       [(el_reason_codes e = {}, ''reason_codes must contain recognized reasons''),
        (el_state e = ELIGIBLE_FOR_REGISTRATION \<and> el_reason_codes e \<noteq> {REGISTRATION_CHAIN_COMPLETE},
         ''eligible result requires REGISTRATION_CHAIN_COMPLETE''),
        (el_state e = INELIGIBLE \<and> REGISTRATION_CHAIN_COMPLETE \<in> el_reason_codes e,
         ''ineligible result cannot declare a complete chain'')]) (\<lambda>_. Inr e)"

definition semantic_differences :: "financial_semantics \<Rightarrow> financial_semantics \<Rightarrow> registration_reason set" where
  "semantic_differences s t =
     reason_if (fs_semantic_id s \<noteq> fs_semantic_id t) SEMANTIC_ID_MISMATCH
     \<union> reason_if (fs_semantic_version s \<noteq> fs_semantic_version t) SEMANTIC_VERSION_MISMATCH
     \<union> reason_if (fs_equation_family s \<noteq> fs_equation_family t \<or> fs_equation_identity_hash s \<noteq> fs_equation_identity_hash t)
         EQUATION_IDENTITY_MISMATCH
     \<union> reason_if (map operand_schema (fs_operands s) \<noteq> map operand_schema (fs_operands t)) OPERAND_SCHEMA_MISMATCH
     \<union> reason_if (map op_unit (fs_operands s) \<noteq> map op_unit (fs_operands t) \<or> fo_unit (fs_output s) \<noteq> fo_unit (fs_output t))
         UNIT_SCHEMA_MISMATCH
     \<union> reason_if (fo_semantic (fs_output s) \<noteq> fo_semantic (fs_output t)
         \<or> fo_currency_binding (fs_output s) \<noteq> fo_currency_binding (fs_output t)
         \<or> fo_explicit_currency (fs_output s) \<noteq> fo_explicit_currency (fs_output t)
         \<or> fo_signed (fs_output s) \<noteq> fo_signed (fs_output t) \<or> fo_zero_allowed (fs_output s) \<noteq> fo_zero_allowed (fs_output t))
         OUTPUT_SEMANTIC_MISMATCH
     \<union> reason_if (map operand_domain (fs_operands s) \<noteq> map operand_domain (fs_operands t)
         \<or> fs_domain_constraint_ids s \<noteq> fs_domain_constraint_ids t) DOMAIN_MISMATCH
     \<union> reason_if (fs_rounding s \<noteq> fs_rounding t) ROUNDING_POLICY_MISMATCH"

definition semantic_mismatch_reasons :: "financial_semantics option \<Rightarrow> financial_semantics option \<Rightarrow> registration_reason set" where
  "semantic_mismatch_reasons left right =
     (if same_optional_semantics left right then {}
      else case (left, right) of
        (Some s, Some t) \<Rightarrow> (if semantic_differences s t = {} then {CANDIDATE_IDENTITY_MISMATCH} else semantic_differences s t)
      | _ \<Rightarrow> {FINANCIAL_SEMANTICS_MISSING})"

definition verification_matches :: "proof_candidate \<Rightarrow> independent_verification \<Rightarrow> bool" where
  "verification_matches c v \<longleftrightarrow> ln_candidate_id v = ln_candidate_id c
     \<and> ln_candidate_material_hash v = ln_candidate_material_hash c \<and> ln_loss_model_id v = ln_loss_model_id c
     \<and> ln_loss_model_version v = ln_loss_model_version c \<and> ln_evidence_source_id v = ln_evidence_source_id c
     \<and> ln_source_assessment_id v = ln_source_assessment_id c \<and> ln_review_decision_id v = ln_review_decision_id c
     \<and> ln_artifact_ids v = ln_artifact_ids c \<and> ln_artifact_content_hashes v = ln_artifact_content_hashes c
     \<and> ln_claim_ids v = ln_claim_ids c \<and> same_time (ln_valid_from v) (ln_valid_from c)
     \<and> same_time (ln_valid_until v) (ln_valid_until c)"

text \<open>The reasons the verification gives, and those the revocations give.\<close>

definition verification_reasons :: "proof_candidate \<Rightarrow> independent_verification option \<Rightarrow> registration_reason set" where
  "verification_reasons c verification =
     (case verification of
        None \<Rightarrow> {INDEPENDENT_VERIFICATION_MISSING}
      | Some v \<Rightarrow> reason_if (vf_state v \<noteq> INDEPENDENTLY_VERIFIED) INDEPENDENT_VERIFICATION_NOT_VERIFIED
          \<union> reason_if (\<not> verification_matches c v) INDEPENDENT_VERIFICATION_MISMATCH
          \<union> reason_if (ln_applicability v \<noteq> ln_applicability c) APPLICABILITY_MISMATCH
          \<union> (let differences = semantic_mismatch_reasons (ln_financial_semantics c) (ln_financial_semantics v) in
              if differences = {} then {} else insert INDEPENDENT_VERIFICATION_MISMATCH differences))"

definition revocation_reasons_of ::
  "proof_candidate \<Rightarrow> independent_verification option \<Rightarrow> proof_revocation list \<Rightarrow> registration_reason set" where
  "revocation_reasons_of c verification revocations =
     reason_if (\<not> distinct (map rx_revocation_id revocations)) REVOCATION_RECORD_CONFLICT
     \<union> reason_if (revoked revocations CANDIDATE_TARGET (ln_candidate_id c)) CANDIDATE_REVOKED
     \<union> (case verification of None \<Rightarrow> {}
         | Some v \<Rightarrow> reason_if (revoked revocations VERIFICATION_TARGET (vf_verification_decision_id v)) INDEPENDENT_VERIFICATION_REVOKED)"

definition assessment_mismatches :: "proof_candidate \<Rightarrow> proof_assessment \<Rightarrow> review_decision \<Rightarrow> registration_reason set" where
  "assessment_mismatches c a d =
     reason_if (pa_state a \<noteq> READY_FOR_AUTHORITATIVE_PROOF_REVIEW) SOURCE_ASSESSMENT_NOT_READY
     \<union> reason_if (ed_state d \<noteq> APPROVED_FOR_PROOF_REVIEW) ADVISORY_DECISION_NOT_APPROVED
     \<union> reason_if (ln_source_assessment_id c \<noteq> pa_assessment_id a \<or> ln_review_decision_id c \<noteq> ed_decision_id d)
         CANDIDATE_IDENTITY_MISMATCH
     \<union> reason_if (ln_artifact_ids c \<noteq> pk_artifact_ids a \<or> ln_artifact_content_hashes c \<noteq> pk_artifact_content_hashes a)
         EVIDENCE_IDENTITY_MISMATCH
     \<union> reason_if (ln_claim_ids c \<noteq> pk_claim_ids a) CLAIM_SET_MISMATCH
     \<union> reason_if (ln_applicability c \<noteq> pk_applicability a) APPLICABILITY_MISMATCH
     \<union> semantic_mismatch_reasons (ln_financial_semantics c) (pk_financial_semantics a)"

definition eligibility_reasons ::
  "bool \<Rightarrow> proof_candidate \<Rightarrow> independent_verification option \<Rightarrow> proof_assessment \<Rightarrow> review_decision \<Rightarrow> proof_revocation list
   \<Rightarrow> registration_reason set" where
  "eligibility_reasons assessment_valid c verification a d revocations =
     reason_if (\<not> assessment_valid) SOURCE_ASSESSMENT_INVALID \<union> assessment_mismatches c a d
     \<union> verification_reasons c verification \<union> revocation_reasons_of c verification revocations"

definition validate_registration_eligibility ::
  "(financial_semantics \<Rightarrow> string) \<Rightarrow> proof_candidate \<Rightarrow> independent_verification option \<Rightarrow> proof_assessment \<Rightarrow> review_decision
   \<Rightarrow> evidence_registry \<Rightarrow> proof_revocation list \<Rightarrow> registration_eligibility result" where
  "validate_registration_eligibility material_hash c verification a d reg revocations =
     rbind (validate_proof_assessment material_hash a d reg) (\<lambda>assessed.
     let reasons = eligibility_reasons (av_valid assessed) c verification a d revocations in
     make_registration_eligibility (if reasons = {}
       then \<lparr>el_state = ELIGIBLE_FOR_REGISTRATION, el_reason_codes = {REGISTRATION_CHAIN_COMPLETE}\<rparr>
       else \<lparr>el_state = INELIGIBLE, el_reason_codes = reasons\<rparr>))"

section \<open>What makes a candidate eligible\<close>

text \<open>The whole chain: an approved decision about complete evidence, a ready assessment of the same package,
  a candidate with the lineage of both, verified independently with the same lineage, and no revocation.\<close>

definition same_material :: "'a proof_lineage_scheme \<Rightarrow> 'b review_package_scheme \<Rightarrow> bool" where
  "same_material l p \<longleftrightarrow> ln_artifact_ids l = pk_artifact_ids p \<and> ln_artifact_content_hashes l = pk_artifact_content_hashes p
     \<and> ln_claim_ids l = pk_claim_ids p \<and> ln_applicability l = pk_applicability p
     \<and> same_optional_semantics (ln_financial_semantics l) (pk_financial_semantics p)"

definition advisory_chain ::
  "(financial_semantics \<Rightarrow> string) \<Rightarrow> 'a proof_lineage_scheme \<Rightarrow> proof_assessment \<Rightarrow> review_decision \<Rightarrow> evidence_registry \<Rightarrow> bool" where
  "advisory_chain material_hash l a d reg \<longleftrightarrow> ln_source_assessment_id l = pa_assessment_id a \<and> ln_review_decision_id l = ed_decision_id d
     \<and> pa_review_decision_id a = ed_decision_id d \<and> pa_state a = READY_FOR_AUTHORITATIVE_PROOF_REVIEW
     \<and> ed_state d = APPROVED_FOR_PROOF_REVIEW \<and> same_material l a \<and> same_package a d \<and> evidence_complete material_hash d reg"

definition verified_by :: "proof_candidate \<Rightarrow> independent_verification \<Rightarrow> bool" where
  "verified_by c v \<longleftrightarrow> vf_state v = INDEPENDENTLY_VERIFIED \<and> verification_matches c v \<and> ln_applicability v = ln_applicability c
     \<and> same_optional_semantics (ln_financial_semantics c) (ln_financial_semantics v)"

definition registration_chain ::
  "(financial_semantics \<Rightarrow> string) \<Rightarrow> proof_candidate \<Rightarrow> independent_verification \<Rightarrow> proof_assessment \<Rightarrow> review_decision
   \<Rightarrow> evidence_registry \<Rightarrow> proof_revocation list \<Rightarrow> bool" where
  "registration_chain material_hash c v a d reg revocations \<longleftrightarrow> advisory_chain material_hash c a d reg \<and> verified_by c v
     \<and> distinct (map rx_revocation_id revocations) \<and> \<not> revoked revocations CANDIDATE_TARGET (ln_candidate_id c)
     \<and> \<not> revoked revocations VERIFICATION_TARGET (vf_verification_decision_id v)"

lemma semantic_mismatch_empty [simp]: "semantic_mismatch_reasons l r = {} \<longleftrightarrow> same_optional_semantics l r"
  by (simp add: semantic_mismatch_reasons_def split: option.split)

lemma semantic_differences_no_complete: "REGISTRATION_CHAIN_COMPLETE \<notin> semantic_mismatch_reasons l r"
  by (simp add: semantic_mismatch_reasons_def semantic_differences_def split: option.split)

lemma assessment_mismatches_empty:
  "assessment_mismatches c a d = {} \<longleftrightarrow> pa_state a = READY_FOR_AUTHORITATIVE_PROOF_REVIEW \<and> ed_state d = APPROVED_FOR_PROOF_REVIEW
     \<and> ln_source_assessment_id c = pa_assessment_id a \<and> ln_review_decision_id c = ed_decision_id d \<and> same_material c a"
  by (auto simp: assessment_mismatches_def same_material_def)

lemma verification_reasons_empty: "verification_reasons c (Some v) = {} \<longleftrightarrow> verified_by c v"
  by (simp add: verification_reasons_def verified_by_def Let_def)

lemma revocation_reasons_empty:
  "revocation_reasons_of c (Some v) revs = {} \<longleftrightarrow> distinct (map rx_revocation_id revs) \<and> \<not> revoked revs CANDIDATE_TARGET (ln_candidate_id c)
     \<and> \<not> revoked revs VERIFICATION_TARGET (vf_verification_decision_id v)"
  by (simp add: revocation_reasons_of_def)

lemma no_complete_reason: "REGISTRATION_CHAIN_COMPLETE \<notin> eligibility_reasons b c w a d revs"
  by (simp add: eligibility_reasons_def assessment_mismatches_def verification_reasons_def revocation_reasons_of_def Let_def
      semantic_differences_no_complete split: option.split)

text \<open>The computed result always passes its own checks.\<close>

lemma validate_registration_result:
  assumes "validate_proof_assessment h a d reg = Inr assessed"
  shows "validate_registration_eligibility h c w a d reg revs =
    (let reasons = eligibility_reasons (av_valid assessed) c w a d revs in Inr (if reasons = {}
       then \<lparr>el_state = ELIGIBLE_FOR_REGISTRATION, el_reason_codes = {REGISTRATION_CHAIN_COMPLETE}\<rparr>
       else \<lparr>el_state = INELIGIBLE, el_reason_codes = reasons\<rparr>))"
  using assms(1) no_complete_reason [of "av_valid assessed" c w a d revs]
  by (simp add: validate_registration_eligibility_def make_registration_eligibility_def Let_def)

lemma eligible_iff:
  assumes a: "make_proof_assessment a = Inr a'" and d: "make_review_decision d = Inr d'"
  shows "(\<exists>e. validate_registration_eligibility h c (Some v) a d reg revs = Inr e \<and> el_state e = ELIGIBLE_FOR_REGISTRATION) \<longleftrightarrow>
    registration_chain h c v a d reg revs" (is "?l \<longleftrightarrow> ?r")
proof -
  have l: "?l \<longleftrightarrow> (\<exists>x. validate_proof_assessment h a d reg = Inr x \<and> av_valid x) \<and> assessment_mismatches c a d = {}
      \<and> verification_reasons c (Some v) = {} \<and> revocation_reasons_of c (Some v) revs = {}"
  proof (cases "validate_proof_assessment h a d reg")
    case (Inr x)
    show ?thesis unfolding validate_registration_result [OF Inr] by (simp add: Inr Let_def eligibility_reasons_def)
  qed (simp add: validate_registration_eligibility_def)
  show ?thesis
    unfolding l assessment_mismatches_empty verification_reasons_empty revocation_reasons_empty
      registration_chain_def advisory_chain_def
    using ready_assessment_iff [OF a _ d, of h reg] by blast
qed

lemma ineligible_without_verification:
  assumes "validate_registration_eligibility h c None a d reg revs = Inr e"
  shows "el_state e = INELIGIBLE"
proof -
  obtain x where x: "validate_proof_assessment h a d reg = Inr x"
    using assms by (auto simp: validate_registration_eligibility_def)
  show ?thesis using assms unfolding validate_registration_result [OF x] by (auto simp: eligibility_reasons_def verification_reasons_def Let_def split: if_splits)
qed

end
