(* ===== verification/Deriv_Registry.thy ===== *)
theory Deriv_Registry
  imports Deriv_Registration
begin

text \<open>
  The registry of Deriv loss-model proofs (\<open>src/broker/deriv_proof_registry.py\<close>): admission of a proof after the
  eligibility has been recomputed, and the look-up of the entry for an exact applicability. A registry is the tuple
  of its entries, which never change; an operation returns a new tuple.

  An admission extends the registry by one entry exactly when the whole governance chain holds and the identities
  are new; no operation removes or alters an entry.
\<close>

section \<open>Requests and entries\<close>

record admission_request = proof_lineage +
  am_admission_id :: string
  am_proof_id :: string
  am_verification_decision_id :: string
  am_admitted_by :: string
  am_admitted_at :: pydatetime

definition admission_request_checks :: "'a admission_request_scheme \<Rightarrow> (bool \<times> string) list" where
  "admission_request_checks q =
     identity_checks [(''admission_id'', am_admission_id q), (''proof_id'', am_proof_id q),
       (''verification_decision_id'', am_verification_decision_id q), (''admitted_by'', am_admitted_by q)] q
     @ material_checks q
     @ [(\<not> tz_aware (am_admitted_at q), ''admitted_at must be a timezone-aware datetime''),
        (\<not> semantics_in_scope q, ''financial semantics are inconsistent'')]"

definition make_admission_request :: "admission_request \<Rightarrow> admission_request result" where
  "make_admission_request q = rbind (raise_first (admission_request_checks q)) (\<lambda>_. Inr q)"

record registry_entry = admission_request +
  en_eligibility_state :: registration_state
  en_eligibility_reason_codes :: "registration_reason set"

definition make_registry_entry :: "registry_entry \<Rightarrow> registry_entry result" where
  "make_registry_entry e =
     rbind (raise_first (admission_request_checks e
       @ [(en_eligibility_state e \<noteq> ELIGIBLE_FOR_REGISTRATION \<or> en_eligibility_reason_codes e \<noteq> {REGISTRATION_CHAIN_COMPLETE},
           ''registry entry requires complete registration eligibility'')])) (\<lambda>_. Inr e)"

type_synonym registry_state = "registry_entry list"

definition make_registry_state :: "registry_entry list \<Rightarrow> registry_state result" where
  "make_registry_state es =
     rbind (raise_first
       [(\<not> distinct (map am_proof_id es), ''duplicate proof ID is not allowed''),
        (\<not> distinct (map am_admission_id es), ''duplicate admission ID is not allowed''),
        (\<not> distinct (map ln_candidate_id es), ''duplicate candidate ID is not allowed''),
        (es \<noteq> sort_key am_proof_id es, ''registry entries must use deterministic proof-ID ordering'')]) (\<lambda>_. Inr es)"

definition get_historical :: "string \<Rightarrow> registry_state \<Rightarrow> registry_entry option result" where
  "get_historical proof_id es =
     (if \<not> nonblank proof_id then Inl (ValueError ''proof_id must be a nonblank string'')
      else Inr (find (\<lambda>e. am_proof_id e = proof_id) es))"

text \<open>Equality of the lineage, and of the authority identity of two requests or entries.\<close>

definition same_lineage :: "'a proof_lineage_scheme \<Rightarrow> 'b proof_lineage_scheme \<Rightarrow> bool" where
  "same_lineage l m \<longleftrightarrow> ln_candidate_id l = ln_candidate_id m \<and> ln_candidate_material_hash l = ln_candidate_material_hash m
     \<and> ln_loss_model_id l = ln_loss_model_id m \<and> ln_loss_model_version l = ln_loss_model_version m
     \<and> ln_evidence_source_id l = ln_evidence_source_id m \<and> ln_source_assessment_id l = ln_source_assessment_id m
     \<and> ln_review_decision_id l = ln_review_decision_id m \<and> ln_artifact_ids l = ln_artifact_ids m
     \<and> ln_artifact_content_hashes l = ln_artifact_content_hashes m \<and> ln_claim_ids l = ln_claim_ids m
     \<and> ln_applicability l = ln_applicability m \<and> same_time (ln_valid_from l) (ln_valid_from m)
     \<and> same_time (ln_valid_until l) (ln_valid_until m)
     \<and> same_optional_semantics (ln_financial_semantics l) (ln_financial_semantics m)"

definition same_authority :: "'a admission_request_scheme \<Rightarrow> 'b admission_request_scheme \<Rightarrow> bool" where
  "same_authority x y \<longleftrightarrow> am_proof_id x = am_proof_id y \<and> am_verification_decision_id x = am_verification_decision_id y
     \<and> same_lineage x y"

section \<open>Admission\<close>

datatype admission_state = ADMITTED | ALREADY_ADMITTED | ADMISSION_REJECTED

datatype admission_reason = ADMISSION_ACCEPTED | EXACT_DUPLICATE | ELIGIBILITY_INVALID | ELIGIBILITY_STALE | CANDIDATE_MISMATCH
  | MATERIAL_HASH_MISMATCH | VERIFICATION_MISMATCH | ADVISORY_CHAIN_MISMATCH | REQUEST_EVIDENCE_MISMATCH
  | REQUEST_CLAIM_SET_MISMATCH | REQUEST_APPLICABILITY_MISMATCH | LOSS_MODEL_IDENTITY_MISMATCH | REQUEST_CANDIDATE_REVOKED
  | VERIFICATION_REVOKED | VERIFICATION_SUPERSEDED | REQUEST_PROOF_REVOKED | PROOF_ID_CONFLICT | REGISTRY_STATE_CONFLICT
  | REQUEST_REVOCATION_CONFLICT

record admission_result =
  ao_state :: admission_state
  ao_reason_codes :: "admission_reason set"
  ao_entry :: "registry_entry option"

definition make_admission_result :: "admission_result \<Rightarrow> admission_result result" where
  "make_admission_result r =
     rbind (raise_first
       [(ao_reason_codes r = {}, ''reason_codes must contain recognized reasons''),
        (ao_state r = ADMITTED \<and> (ao_reason_codes r \<noteq> {ADMISSION_ACCEPTED} \<or> ao_entry r = None)
         \<or> ao_state r = ALREADY_ADMITTED \<and> (ao_reason_codes r \<noteq> {EXACT_DUPLICATE} \<or> ao_entry r = None),
         ''successful admission result is inconsistent''),
        (ao_state r = ADMISSION_REJECTED
         \<and> (ao_entry r \<noteq> None \<or> ao_reason_codes r \<inter> {ADMISSION_ACCEPTED, EXACT_DUPLICATE} \<noteq> {}),
         ''rejected admission result is inconsistent'')]) (\<lambda>_. Inr r)"

definition request_revoked_by :: "admission_request \<Rightarrow> independent_verification \<Rightarrow> proof_revocation \<Rightarrow> admission_reason set" where
  "request_revoked_by q v r =
     (case rx_target_kind r of
        CANDIDATE_TARGET \<Rightarrow> reason_if (rx_target_id r = ln_candidate_id q) REQUEST_CANDIDATE_REVOKED
      | VERIFICATION_TARGET \<Rightarrow> reason_if (rx_target_id r = vf_verification_decision_id v)
          (if rx_reason r = SUPERSEDED then VERIFICATION_SUPERSEDED else VERIFICATION_REVOKED)
      | REGISTERED_PROOF_TARGET \<Rightarrow> reason_if (rx_target_id r = am_proof_id q) REQUEST_PROOF_REVOKED)"

definition request_revocations ::
  "admission_request \<Rightarrow> independent_verification \<Rightarrow> proof_revocation list \<Rightarrow> admission_reason set" where
  "request_revocations q v revocations =
     reason_if (\<not> distinct (map rx_revocation_id revocations)) REQUEST_REVOCATION_CONFLICT
     \<union> (\<Union>r \<in> set revocations. request_revoked_by q v r)"

definition request_mismatches ::
  "admission_request \<Rightarrow> proof_candidate \<Rightarrow> independent_verification \<Rightarrow> proof_assessment \<Rightarrow> review_decision \<Rightarrow> admission_reason set" where
  "request_mismatches q c v a d =
     reason_if (ln_candidate_id q \<noteq> ln_candidate_id c) CANDIDATE_MISMATCH
     \<union> reason_if (ln_candidate_material_hash q \<noteq> ln_candidate_material_hash c) MATERIAL_HASH_MISMATCH
     \<union> reason_if (am_verification_decision_id q \<noteq> vf_verification_decision_id v) VERIFICATION_MISMATCH
     \<union> reason_if (ln_source_assessment_id q \<noteq> pa_assessment_id a \<or> ln_review_decision_id q \<noteq> ed_decision_id d) ADVISORY_CHAIN_MISMATCH
     \<union> reason_if (ln_artifact_ids q \<noteq> ln_artifact_ids c \<or> ln_artifact_content_hashes q \<noteq> ln_artifact_content_hashes c)
         REQUEST_EVIDENCE_MISMATCH
     \<union> reason_if (ln_claim_ids q \<noteq> ln_claim_ids c) REQUEST_CLAIM_SET_MISMATCH
     \<union> reason_if (ln_applicability q \<noteq> ln_applicability c) REQUEST_APPLICABILITY_MISMATCH
     \<union> reason_if (ln_loss_model_id q \<noteq> ln_loss_model_id c \<or> ln_loss_model_version q \<noteq> ln_loss_model_version c
         \<or> ln_evidence_source_id q \<noteq> ln_evidence_source_id c \<or> \<not> same_time (ln_valid_from q) (ln_valid_from c)
         \<or> \<not> same_time (ln_valid_until q) (ln_valid_until c)) LOSS_MODEL_IDENTITY_MISMATCH
     \<union> reason_if (\<not> same_optional_semantics (ln_financial_semantics q) (ln_financial_semantics c)
         \<or> \<not> same_optional_semantics (ln_financial_semantics c) (ln_financial_semantics v)
         \<or> \<not> same_optional_semantics (ln_financial_semantics c) (pk_financial_semantics a)
         \<or> \<not> same_optional_semantics (ln_financial_semantics c) (pk_financial_semantics d)) LOSS_MODEL_IDENTITY_MISMATCH"

definition admission_reasons ::
  "registration_eligibility \<Rightarrow> admission_request \<Rightarrow> registration_eligibility \<Rightarrow> proof_candidate \<Rightarrow> independent_verification
   \<Rightarrow> proof_assessment \<Rightarrow> review_decision \<Rightarrow> proof_revocation list \<Rightarrow> admission_reason set" where
  "admission_reasons recomputed q el c v a d revocations =
     reason_if (el_state el \<noteq> ELIGIBLE_FOR_REGISTRATION) ELIGIBILITY_INVALID
     \<union> reason_if (recomputed \<noteq> el \<or> el_state recomputed \<noteq> ELIGIBLE_FOR_REGISTRATION) ELIGIBILITY_STALE
     \<union> request_mismatches q c v a d \<union> request_revocations q v revocations"

definition admitted_entry :: "admission_request \<Rightarrow> registration_eligibility \<Rightarrow> registry_entry" where
  "admitted_entry q el = admission_request.extend q (registry_entry.fields (el_state el) (el_reason_codes el))"

definition reject_admission :: "admission_reason set \<Rightarrow> registry_state \<Rightarrow> (admission_result \<times> registry_state) result" where
  "reject_admission reasons registry =
     rbind (make_admission_result \<lparr>ao_state = ADMISSION_REJECTED, ao_reason_codes = reasons, ao_entry = None\<rparr>) (\<lambda>r. Inr (r, registry))"

definition admit_proof ::
  "(financial_semantics \<Rightarrow> string) \<Rightarrow> registry_state \<Rightarrow> admission_request \<Rightarrow> registration_eligibility \<Rightarrow> proof_candidate
   \<Rightarrow> independent_verification \<Rightarrow> proof_assessment \<Rightarrow> review_decision \<Rightarrow> evidence_registry \<Rightarrow> proof_revocation list
   \<Rightarrow> (admission_result \<times> registry_state) result" where
  "admit_proof material_hash registry q el c v a d reg revocations =
     rbind (validate_registration_eligibility material_hash c (Some v) a d reg revocations) (\<lambda>recomputed.
     rbind (get_historical (am_proof_id q) registry) (\<lambda>existing.
     let reasons = admission_reasons recomputed q el c v a d revocations;
         known = (case existing of None \<Rightarrow> None | Some e \<Rightarrow> if same_authority e q then Some e else None);
         conflicts = reason_if (existing \<noteq> None) PROOF_ID_CONFLICT
           \<union> reason_if (\<exists>e \<in> set registry. am_admission_id e = am_admission_id q \<or> ln_candidate_id e = ln_candidate_id q)
               REGISTRY_STATE_CONFLICT in
     case known of
       Some e \<Rightarrow>
         if reasons \<noteq> {} then reject_admission reasons registry
         else rbind (make_admission_result \<lparr>ao_state = ALREADY_ADMITTED, ao_reason_codes = {EXACT_DUPLICATE}, ao_entry = Some e\<rparr>)
           (\<lambda>r. Inr (r, registry))
     | None \<Rightarrow>
         if reasons \<union> conflicts \<noteq> {} then reject_admission (reasons \<union> conflicts) registry
         else rbind (make_registry_entry (admitted_entry q el)) (\<lambda>e.
           rbind (make_registry_state (sort_key am_proof_id (registry @ [e]))) (\<lambda>new_registry.
           rbind (make_admission_result \<lparr>ao_state = ADMITTED, ao_reason_codes = {ADMISSION_ACCEPTED}, ao_entry = Some e\<rparr>)
             (\<lambda>r. Inr (r, new_registry))))))"

section \<open>Look-up\<close>

datatype lookup_state = ACTIVE_ENTRY_FOUND | NO_ENTRY | REVOKED_ENTRY | CONFLICTING_STATE

datatype lookup_reason = EXACT_ACTIVE_ENTRY | NO_EXACT_APPLICABILITY_ENTRY | ENTRY_REVOKED | MULTIPLE_EXACT_ENTRIES
  | LOOKUP_REVOCATION_CONFLICT

record lookup_result =
  lk_state :: lookup_state
  lk_reason_codes :: "lookup_reason set"
  lk_entry :: "registry_entry option"

definition make_lookup_result :: "lookup_result \<Rightarrow> lookup_result result" where
  "make_lookup_result r =
     rbind (raise_first
       [(lk_reason_codes r = {}, ''reason_codes must contain recognized reasons''),
        (case lk_state r of ACTIVE_ENTRY_FOUND \<Rightarrow> lk_reason_codes r \<noteq> {EXACT_ACTIVE_ENTRY}
           | NO_ENTRY \<Rightarrow> lk_reason_codes r \<noteq> {NO_EXACT_APPLICABILITY_ENTRY}
           | REVOKED_ENTRY \<Rightarrow> lk_reason_codes r \<noteq> {ENTRY_REVOKED} | CONFLICTING_STATE \<Rightarrow> False,
         ''lookup state and reasons are inconsistent''),
        (lk_state r = NO_ENTRY \<and> lk_entry r \<noteq> None
         \<or> lk_state r \<in> {ACTIVE_ENTRY_FOUND, REVOKED_ENTRY} \<and> lk_entry r = None, ''lookup state and entry are inconsistent''),
        (lk_state r = CONFLICTING_STATE \<and> lk_entry r \<noteq> None, ''conflicting lookup cannot select an entry'')]) (\<lambda>_. Inr r)"

definition entry_revoked :: "proof_revocation list \<Rightarrow> registry_entry \<Rightarrow> bool" where
  "entry_revoked revocations e \<longleftrightarrow> revoked revocations CANDIDATE_TARGET (ln_candidate_id e)
     \<or> revoked revocations VERIFICATION_TARGET (am_verification_decision_id e)
     \<or> revoked revocations REGISTERED_PROOF_TARGET (am_proof_id e)"

definition lookup_proof :: "registry_state \<Rightarrow> evidence_applicability \<Rightarrow> proof_revocation list \<Rightarrow> lookup_result result" where
  "lookup_proof registry a revocations =
     rbind (raise_first (applicability_checks a)) (\<lambda>_.
     make_lookup_result
       (if \<not> distinct (map rx_revocation_id revocations)
        then \<lparr>lk_state = CONFLICTING_STATE, lk_reason_codes = {LOOKUP_REVOCATION_CONFLICT}, lk_entry = None\<rparr>
        else case filter (\<lambda>e. ln_applicability e = a) registry of
          [] \<Rightarrow> \<lparr>lk_state = NO_ENTRY, lk_reason_codes = {NO_EXACT_APPLICABILITY_ENTRY}, lk_entry = None\<rparr>
        | [e] \<Rightarrow> (if entry_revoked revocations e
            then \<lparr>lk_state = REVOKED_ENTRY, lk_reason_codes = {ENTRY_REVOKED}, lk_entry = Some e\<rparr>
            else \<lparr>lk_state = ACTIVE_ENTRY_FOUND, lk_reason_codes = {EXACT_ACTIVE_ENTRY}, lk_entry = Some e\<rparr>)
        | _ \<Rightarrow> \<lparr>lk_state = CONFLICTING_STATE, lk_reason_codes = {MULTIPLE_EXACT_ENTRIES}, lk_entry = None\<rparr>))"

section \<open>What an admission rests on\<close>

definition admission_authority ::
  "(financial_semantics \<Rightarrow> string) \<Rightarrow> 'a admission_request_scheme \<Rightarrow> proof_candidate \<Rightarrow> independent_verification \<Rightarrow> proof_assessment
   \<Rightarrow> review_decision \<Rightarrow> evidence_registry \<Rightarrow> proof_revocation list \<Rightarrow> bool" where
  "admission_authority material_hash q c v a d reg revocations \<longleftrightarrow> registration_chain material_hash c v a d reg revocations
     \<and> same_lineage q c \<and> am_verification_decision_id q = vf_verification_decision_id v
     \<and> \<not> revoked revocations REGISTERED_PROOF_TARGET (am_proof_id q)"

definition eligible_record :: registration_eligibility where
  "eligible_record = \<lparr>el_state = ELIGIBLE_FOR_REGISTRATION, el_reason_codes = {REGISTRATION_CHAIN_COMPLETE}\<rparr>"

lemma request_revoked_by_empty:
  "request_revoked_by q v r = {} \<longleftrightarrow>
     \<not> (rx_target_kind r = CANDIDATE_TARGET \<and> rx_target_id r = ln_candidate_id q)
     \<and> \<not> (rx_target_kind r = VERIFICATION_TARGET \<and> rx_target_id r = vf_verification_decision_id v)
     \<and> \<not> (rx_target_kind r = REGISTERED_PROOF_TARGET \<and> rx_target_id r = am_proof_id q)"
  by (cases "rx_target_kind r") (simp_all add: request_revoked_by_def)

lemma request_revocations_empty:
  "request_revocations q v revs = {} \<longleftrightarrow> distinct (map rx_revocation_id revs) \<and> \<not> revoked revs CANDIDATE_TARGET (ln_candidate_id q)
     \<and> \<not> revoked revs VERIFICATION_TARGET (vf_verification_decision_id v)
     \<and> \<not> revoked revs REGISTERED_PROOF_TARGET (am_proof_id q)"
  unfolding request_revocations_def revoked_def Un_empty reason_if_empty UNION_empty_conv request_revoked_by_empty by blast

lemma request_mismatches_empty:
  assumes "registration_chain h c v a d reg revs"
  shows "request_mismatches q c v a d = {} \<longleftrightarrow> same_lineage q c \<and> am_verification_decision_id q = vf_verification_decision_id v"
proof -
  have s: "same_optional_semantics (ln_financial_semantics c) (ln_financial_semantics v)"
    "same_optional_semantics (ln_financial_semantics c) (pk_financial_semantics a)"
    "same_optional_semantics (pk_financial_semantics a) (pk_financial_semantics d)"
    and i: "ln_source_assessment_id c = pa_assessment_id a" "ln_review_decision_id c = ed_decision_id d"
    using assms by (simp_all add: registration_chain_def advisory_chain_def verified_by_def same_material_def same_package_def)
  note s' = s same_optional_semantics_trans [OF s(2,3)]
  show ?thesis by (simp add: request_mismatches_def same_lineage_def s' i) blast
qed

lemma admission_reasons_empty:
  assumes a: "make_proof_assessment a = Inr a'" and d: "make_review_decision d = Inr d'"
    and r: "validate_registration_eligibility h c (Some v) a d reg revs = Inr recomputed"
  shows "admission_reasons recomputed q el c v a d revs = {} \<longleftrightarrow> el = eligible_record \<and> admission_authority h q c v a d reg revs"
proof -
  have e: "el_state recomputed = ELIGIBLE_FOR_REGISTRATION \<longleftrightarrow> registration_chain h c v a d reg revs"
    using eligible_iff [OF a d, of h c v reg revs] r by simp
  obtain x where x: "validate_proof_assessment h a d reg = Inr x"
    using r by (auto simp: validate_registration_eligibility_def)
  have rec: "el_state recomputed = ELIGIBLE_FOR_REGISTRATION \<Longrightarrow> recomputed = eligible_record"
    using r unfolding validate_registration_result [OF x] by (auto simp: eligible_record_def Let_def split: if_splits)
  show ?thesis
  proof (cases "registration_chain h c v a d reg revs")
    case True
    then have "recomputed = eligible_record" "el_state eligible_record = ELIGIBLE_FOR_REGISTRATION"
      using e rec by (simp_all add: eligible_record_def)
    then show ?thesis
      using True by (simp add: admission_reasons_def admission_authority_def request_revocations_empty request_mismatches_empty [OF True])
        (auto simp: registration_chain_def same_lineage_def)
  next
    case False
    then show ?thesis using e by (simp add: admission_reasons_def admission_authority_def)
  qed
qed

text \<open>A well-formed registry: the state constructor accepts it.\<close>

definition registry_wf :: "registry_state \<Rightarrow> bool" where
  "registry_wf es \<longleftrightarrow> distinct (map am_proof_id es) \<and> distinct (map am_admission_id es) \<and> distinct (map ln_candidate_id es)
     \<and> sorted (map am_proof_id es)"

lemma sort_key_fixed: "xs = sort_key f xs \<longleftrightarrow> sorted (map f xs)"
  by (metis sorted_sort_id sort_key_id_if_sorted sorted_sort_key)

lemma make_registry_state_Inr: "make_registry_state es = Inr es' \<longleftrightarrow> es' = es \<and> registry_wf es"
  by (auto simp: make_registry_state_def registry_wf_def sort_key_fixed)

lemma registry_wf_insert:
  assumes "registry_wf es" "am_proof_id e \<notin> am_proof_id ` set es" "am_admission_id e \<notin> am_admission_id ` set es"
    "ln_candidate_id e \<notin> ln_candidate_id ` set es"
  shows "registry_wf (sort_key am_proof_id (es @ [e]))"
proof -
  have "distinct (map f (sort_key am_proof_id (es @ [e]))) \<longleftrightarrow> distinct (map f (es @ [e]))" for f :: "registry_entry \<Rightarrow> string"
    by (simp only: distinct_map distinct_sort set_sort)
  with assms show ?thesis by (simp add: registry_wf_def)
qed

lemma admitted_entry_fields [simp]:
  "am_proof_id (admitted_entry q el) = am_proof_id q" "am_admission_id (admitted_entry q el) = am_admission_id q"
  "ln_candidate_id (admitted_entry q el) = ln_candidate_id q" "am_verification_decision_id (admitted_entry q el) = am_verification_decision_id q"
  "ln_applicability (admitted_entry q el) = ln_applicability q" "am_admitted_at (admitted_entry q el) = am_admitted_at q"
  "en_eligibility_state (admitted_entry q el) = el_state el" "en_eligibility_reason_codes (admitted_entry q el) = el_reason_codes el"
  by (simp_all add: admitted_entry_def admission_request.defs registry_entry.defs)

lemma admitted_entry_lineage [simp]:
  "same_lineage (admitted_entry q el) c = same_lineage q c" "same_lineage (admitted_entry q el) (admitted_entry q el)"
  "admission_request_checks (admitted_entry q el) = admission_request_checks q"
  by (simp_all add: same_lineage_def admitted_entry_def admission_request.defs registry_entry.defs admission_request_checks_def
      identity_checks_def material_checks_def semantics_in_scope_def split: option.split)

text \<open>The validations return when their arguments have been constructed.\<close>

lemma review_artifacts_returns:
  "list_all nonblank (map fst xs) \<Longrightarrow> \<exists>r. review_artifacts reg xs = Inr r"
proof (induction xs)
  case (Cons x xs)
  obtain i h where x: "x = (i, h)" by fastforce
  obtain rs as where r: "review_artifacts reg xs = Inr (rs, as)" using Cons by auto
  have "get_by_id i reg = Inr (find (\<lambda>a. ea_artifact_id a = py_strip i) reg)"
    using Cons.prems x by (simp add: get_by_id_Inr)
  then show ?case by (simp add: x r split: option.split)
qed simp

lemma validate_registration_returns:
  assumes "make_review_decision d = Inr d'"
  shows "\<exists>e. validate_registration_eligibility h c w a d reg revs = Inr e"
proof -
  have "list_all nonblank (pk_artifact_ids d)"
    using assms by (simp add: make_review_decision_def raise_first_Inr review_decision_checks_def package_checks_def
        evidence_set_checks_def del: raise_first.simps) (elim conjE, simp)
  then have "list_all nonblank (map fst (zip (pk_artifact_ids d) (pk_artifact_content_hashes d)))"
    by (metis list_all_length map_fst_zip_take length_take min.strict_boundedE nth_take)
  then obtain rs as where "review_artifacts reg (zip (pk_artifact_ids d) (pk_artifact_content_hashes d)) = Inr (rs, as)"
    using review_artifacts_returns [of _ reg] by fastforce
  then obtain o' where "observed_reasons h d reg = Inr o'"
    by (cases "review_claims as (pk_applicability d) (pk_claim_ids d)") (simp add: observed_reasons_def Let_def)
  then obtain x where x: "validate_proof_assessment h a d reg = Inr x"
    by (simp add: validate_proof_assessment_def validate_evidence_review_def Let_def)
  show ?thesis unfolding validate_registration_result [OF x] by (simp add: Let_def)
qed

definition identities_new :: "admission_request \<Rightarrow> registry_state \<Rightarrow> bool" where
  "identities_new q es \<longleftrightarrow> am_proof_id q \<notin> am_proof_id ` set es \<and> am_admission_id q \<notin> am_admission_id ` set es
     \<and> ln_candidate_id q \<notin> ln_candidate_id ` set es"

lemma accepted_not_reason:
  "{ADMISSION_ACCEPTED, EXACT_DUPLICATE} \<inter> admission_reasons x q el c v a d revs = {}"
proof -
  have "request_revoked_by q v r \<inter> {ADMISSION_ACCEPTED, EXACT_DUPLICATE} = {}" for r
    by (cases "rx_target_kind r") (simp_all add: request_revoked_by_def reason_if_def)
  then have "ADMISSION_ACCEPTED \<notin> request_revocations q v revs" "EXACT_DUPLICATE \<notin> request_revocations q v revs"
    by (auto simp: request_revocations_def)
  then show ?thesis by (simp add: admission_reasons_def request_mismatches_def)
qed

lemma reject_admission_returns:
  assumes "rs \<noteq> {}" "{ADMISSION_ACCEPTED, EXACT_DUPLICATE} \<inter> rs = {}"
  shows "reject_admission rs es = Inr (\<lparr>ao_state = ADMISSION_REJECTED, ao_reason_codes = rs, ao_entry = None\<rparr>, es)"
  using assms by (simp add: reject_admission_def make_admission_result_def)

lemma make_registry_entry_of:
  assumes "make_admission_request q = Inr q'"
  shows "make_registry_entry (admitted_entry q eligible_record) = Inr (admitted_entry q eligible_record)"
proof -
  have "raise_first (admission_request_checks q) = Inr ()"
    using assms by (auto simp: make_admission_request_def)
  then show ?thesis
    by (simp add: make_registry_entry_def raise_first_Inr eligible_record_def del: raise_first.simps)
qed

definition authorized_call ::
  "(financial_semantics \<Rightarrow> string) \<Rightarrow> admission_request \<Rightarrow> registration_eligibility \<Rightarrow> proof_candidate \<Rightarrow> independent_verification
   \<Rightarrow> proof_assessment \<Rightarrow> review_decision \<Rightarrow> evidence_registry \<Rightarrow> proof_revocation list \<Rightarrow> bool" where
  "authorized_call h q el c v a d reg revs \<longleftrightarrow> el = eligible_record \<and> admission_authority h q c v a d reg revs"

text \<open>What an admission call returns, by cases.\<close>

lemma admit_proof_cases:
  assumes wf: "registry_wf es" and q: "make_admission_request q = Inr q'"
    and a: "make_proof_assessment a = Inr a'" and d: "make_review_decision d = Inr d'"
  shows "(\<exists>e \<in> set es. authorized_call h q el c v a d reg revs \<and> same_authority e q
      \<and> admit_proof h es q el c v a d reg revs = Inr (\<lparr>ao_state = ALREADY_ADMITTED, ao_reason_codes = {EXACT_DUPLICATE}, ao_entry = Some e\<rparr>, es))
    \<or> authorized_call h q el c v a d reg revs \<and> identities_new q es \<and> admit_proof h es q el c v a d reg revs =
        Inr (\<lparr>ao_state = ADMITTED, ao_reason_codes = {ADMISSION_ACCEPTED}, ao_entry = Some (admitted_entry q eligible_record)\<rparr>,
          sort_key am_proof_id (es @ [admitted_entry q eligible_record]))
    \<or> (\<exists>rs. \<not> (authorized_call h q el c v a d reg revs \<and> (identities_new q es \<or> (\<exists>e \<in> set es. same_authority e q)))
        \<and> admit_proof h es q el c v a d reg revs = Inr (\<lparr>ao_state = ADMISSION_REJECTED, ao_reason_codes = rs, ao_entry = None\<rparr>, es))"
proof -
  obtain x where x: "validate_registration_eligibility h c (Some v) a d reg revs = Inr x"
    using validate_registration_returns [OF d] by blast
  define rs where "rs = admission_reasons x q el c v a d revs"
  define found where "found = find (\<lambda>e. am_proof_id e = am_proof_id q) es"
  define conflicts where "conflicts = reason_if (found \<noteq> None) PROOF_ID_CONFLICT
    \<union> reason_if (\<exists>e \<in> set es. am_admission_id e = am_admission_id q \<or> ln_candidate_id e = ln_candidate_id q) REGISTRY_STATE_CONFLICT"
  have auth: "rs = {} \<longleftrightarrow> authorized_call h q el c v a d reg revs"
    unfolding rs_def authorized_call_def by (rule admission_reasons_empty [OF a d x])
  have "raise_first (admission_request_checks q) = Inr ()" using q by (auto simp: make_admission_request_def)
  then have "nonblank (am_proof_id q)"
    by (simp add: raise_first_Inr admission_request_checks_def identity_checks_def blank_checks_def del: raise_first.simps)
  then have g: "get_historical (am_proof_id q) es = Inr found"
    by (simp add: get_historical_def found_def)
  have new: "conflicts = {} \<longleftrightarrow> identities_new q es"
    unfolding conflicts_def identities_new_def found_def Un_empty reason_if_empty image_iff not_not find_None_iff by metis
  have no: "{ADMISSION_ACCEPTED, EXACT_DUPLICATE} \<inter> rs = {}" "{ADMISSION_ACCEPTED, EXACT_DUPLICATE} \<inter> (rs \<union> conflicts) = {}"
    using accepted_not_reason [of x q el c v a d revs] by (auto simp: rs_def conflicts_def)
  have admit: "admit_proof h es q el c v a d reg revs =
    (case (case found of None \<Rightarrow> None | Some e \<Rightarrow> if same_authority e q then Some e else None) of
       Some e \<Rightarrow> if rs \<noteq> {} then reject_admission rs es
         else rbind (make_admission_result \<lparr>ao_state = ALREADY_ADMITTED, ao_reason_codes = {EXACT_DUPLICATE}, ao_entry = Some e\<rparr>) (\<lambda>r. Inr (r, es))
     | None \<Rightarrow> if rs \<union> conflicts \<noteq> {} then reject_admission (rs \<union> conflicts) es
         else rbind (make_registry_entry (admitted_entry q el)) (\<lambda>e.
           rbind (make_registry_state (sort_key am_proof_id (es @ [e]))) (\<lambda>new_registry.
           rbind (make_admission_result \<lparr>ao_state = ADMITTED, ao_reason_codes = {ADMISSION_ACCEPTED}, ao_entry = Some e\<rparr>)
             (\<lambda>r. Inr (r, new_registry)))))"
    by (simp only: admit_proof_def x g rbind.simps Let_def rs_def [symmetric] conflicts_def [symmetric])
  show ?thesis
  proof (cases "\<exists>e. found = Some e \<and> same_authority e q")
    case True
    then obtain e where e: "found = Some e" "same_authority e q" by blast
    then have "e \<in> set es" by (auto simp: found_def find_Some_iff)
    then show ?thesis
      using e auth no(1) by (cases "rs = {}") (auto simp: admit reject_admission_returns make_admission_result_def)
  next
    case False
    then have known: "(case found of None \<Rightarrow> None | Some e \<Rightarrow> if same_authority e q then Some e else None) = None"
      by (auto split: option.split)
    show ?thesis
    proof (cases "rs \<union> conflicts = {}")
      case True
      then have "authorized_call h q el c v a d reg revs" "identities_new q es" using auth new by auto
      moreover from this have "el = eligible_record" "registry_wf (sort_key am_proof_id (es @ [admitted_entry q el]))"
        using registry_wf_insert [OF wf, of "admitted_entry q el"] by (auto simp: authorized_call_def identities_new_def)
      ultimately show ?thesis
        unfolding admit known using True make_registry_entry_of [OF q]
        by (simp add: make_registry_state_Inr make_admission_result_def)
    next
      case rejected: False
      have "\<not> same_authority e q" if "e \<in> set es" for e
      proof
        assume s: "same_authority e q"
        then have "found = Some e"
          using find_distinct_key [of am_proof_id es e] that wf by (simp add: found_def registry_wf_def same_authority_def)
        with False s show False by blast
      qed
      with rejected show ?thesis
        unfolding admit known using auth new reject_admission_returns [OF rejected no(2)] by auto
    qed
  qed
qed

section \<open>Admission only extends the registry\<close>

record admission_call =
  ac_request :: admission_request
  ac_eligibility :: registration_eligibility
  ac_candidate :: proof_candidate
  ac_verification :: independent_verification
  ac_assessment :: proof_assessment
  ac_decision :: review_decision
  ac_evidence :: evidence_registry
  ac_revocations :: "proof_revocation list"

definition call_admission ::
  "(financial_semantics \<Rightarrow> string) \<Rightarrow> admission_call \<Rightarrow> registry_state \<Rightarrow> (admission_result \<times> registry_state) result" where
  "call_admission h k es = admit_proof h es (ac_request k) (ac_eligibility k) (ac_candidate k) (ac_verification k) (ac_assessment k)
     (ac_decision k) (ac_evidence k) (ac_revocations k)"

text \<open>The objects handed over have been constructed.\<close>

definition call_made :: "(financial_semantics \<Rightarrow> string) \<Rightarrow> admission_call \<Rightarrow> bool" where
  "call_made h k \<longleftrightarrow> make_admission_request (ac_request k) = Inr (ac_request k)
     \<and> make_proof_candidate h (ac_candidate k) = Inr (ac_candidate k)
     \<and> make_independent_verification h (ac_verification k) = Inr (ac_verification k)
     \<and> make_proof_assessment (ac_assessment k) = Inr (ac_assessment k) \<and> make_review_decision (ac_decision k) = Inr (ac_decision k)"

definition call_authorized :: "(financial_semantics \<Rightarrow> string) \<Rightarrow> admission_call \<Rightarrow> bool" where
  "call_authorized h k \<longleftrightarrow> authorized_call h (ac_request k) (ac_eligibility k) (ac_candidate k) (ac_verification k) (ac_assessment k)
     (ac_decision k) (ac_evidence k) (ac_revocations k)"

definition call_authorizes :: "(financial_semantics \<Rightarrow> string) \<Rightarrow> registry_entry \<Rightarrow> admission_call \<Rightarrow> bool" where
  "call_authorizes h e k \<longleftrightarrow> admission_authority h e (ac_candidate k) (ac_verification k) (ac_assessment k) (ac_decision k)
     (ac_evidence k) (ac_revocations k)"

text \<open>What a call that takes the registry \<open>es\<close> to \<open>es'\<close> with the result \<open>r\<close> has to satisfy.\<close>

definition admission_outcome ::
  "(financial_semantics \<Rightarrow> string) \<Rightarrow> registry_state \<Rightarrow> admission_call \<Rightarrow> admission_result \<Rightarrow> registry_state \<Rightarrow> bool" where
  "admission_outcome h es k r es' \<longleftrightarrow> registry_wf es' \<and>
     (case ao_state r of
        ADMITTED \<Rightarrow> call_authorized h k \<and> identities_new (ac_request k) es
          \<and> (\<exists>e. ao_entry r = Some e \<and> set es' = insert e (set es) \<and> length es' = Suc (length es)
              \<and> make_registry_entry e = Inr e \<and> am_proof_id e = am_proof_id (ac_request k) \<and> call_authorizes h e k)
      | ALREADY_ADMITTED \<Rightarrow> es' = es \<and> call_authorized h k \<and> (\<exists>e \<in> set es. ao_entry r = Some e \<and> same_authority e (ac_request k))
      | ADMISSION_REJECTED \<Rightarrow> es' = es \<and> ao_entry r = None
          \<and> \<not> (call_authorized h k \<and> (identities_new (ac_request k) es \<or> (\<exists>e \<in> set es. same_authority e (ac_request k)))))"


section \<open>Sequences of admissions\<close>

fun admission_history ::
  "(financial_semantics \<Rightarrow> string) \<Rightarrow> admission_call list \<Rightarrow> registry_state \<Rightarrow> registry_state result" where
  "admission_history h [] es = Inr es"
| "admission_history h (k # ks) es = rbind (call_admission h k es) (\<lambda>(r, es). admission_history h ks es)"

text \<open>A well-formed registry of valid entries, each of which one of the given calls authorizes.\<close>

definition registry_backed :: "(financial_semantics \<Rightarrow> string) \<Rightarrow> admission_call set \<Rightarrow> registry_state \<Rightarrow> bool" where
  "registry_backed h calls es \<longleftrightarrow> registry_wf es \<and> (\<forall>e \<in> set es. make_registry_entry e = Inr e \<and> (\<exists>k \<in> calls. call_authorizes h e k))"

lemma registry_backed_mono: "registry_backed h ks es \<Longrightarrow> ks \<subseteq> ls \<Longrightarrow> registry_backed h ls es"
  by (simp add: registry_backed_def) blast

lemma call_admission_backed:
  assumes "registry_backed h ks es" "call_made h k" "call_admission h k es = Inr (r, es')"
  shows "registry_backed h (insert k ks) es' \<and> set es \<subseteq> set es'"
proof -
  have m: "make_admission_request (ac_request k) = Inr (ac_request k)" "make_proof_assessment (ac_assessment k) = Inr (ac_assessment k)"
    "make_review_decision (ac_decision k) = Inr (ac_decision k)" and wf: "registry_wf es"
    using assms(1,2) by (simp_all add: call_made_def registry_backed_def)
  note admit = admit_proof_cases [OF wf m(1) m(2) m(3), of h "ac_eligibility k" "ac_candidate k" "ac_verification k" "ac_evidence k" "ac_revocations k"]
  have kept: "registry_backed h (insert k ks) es" using assms(1) by (rule registry_backed_mono) blast
  have "es' = es \<or> authorized_call h (ac_request k) (ac_eligibility k) (ac_candidate k) (ac_verification k) (ac_assessment k) (ac_decision k)
       (ac_evidence k) (ac_revocations k) \<and> identities_new (ac_request k) es
     \<and> es' = sort_key am_proof_id (es @ [admitted_entry (ac_request k) eligible_record])"
    using admit assms(3) by (auto simp: call_admission_def)
  then show ?thesis
  proof (elim disjE conjE)
    let ?e = "admitted_entry (ac_request k) eligible_record"
    assume new: "authorized_call h (ac_request k) (ac_eligibility k) (ac_candidate k) (ac_verification k) (ac_assessment k) (ac_decision k)
       (ac_evidence k) (ac_revocations k)" "identities_new (ac_request k) es" "es' = sort_key am_proof_id (es @ [?e])"
    have "call_authorizes h ?e k" using new(1) by (simp add: call_authorizes_def authorized_call_def admission_authority_def)
    moreover have "registry_wf es'"
      using registry_wf_insert [OF wf, of ?e] new(2,3) by (auto simp: identities_new_def)
    ultimately show ?thesis
      using kept make_registry_entry_of [OF m(1)] new(3) by (simp add: registry_backed_def) blast
  qed (use kept in simp)
qed

lemma admission_history_backed:
  "admission_history h calls es = Inr es' \<Longrightarrow> list_all (call_made h) calls \<Longrightarrow> registry_backed h ks es
   \<Longrightarrow> registry_backed h (ks \<union> set calls) es' \<and> set es \<subseteq> set es'"
proof (induction calls arbitrary: es ks)
  case (Cons k calls)
  from Cons.prems(1) obtain r es1 where r: "call_admission h k es = Inr (r, es1)" "admission_history h calls es1 = Inr es'"
    by (auto split: prod.splits)
  have b: "registry_backed h (insert k ks) es1 \<and> set es \<subseteq> set es1"
    using call_admission_backed [OF Cons.prems(3) _ r(1)] Cons.prems(2) by simp
  have "registry_backed h (insert k ks \<union> set calls) es' \<and> set es1 \<subseteq> set es'"
    by (rule Cons.IH [OF r(2)]) (use Cons.prems(2) b in simp_all)
  with b show ?case by simp blast
qed simp

section \<open>A sample chain\<close>

definition chain_hash :: string where
  "chain_hash = ''sha256:'' @ replicate 64 (CHR ''a'')"

definition chain_scope :: evidence_applicability where
  "chain_scope = \<lparr>ap_broker = ''deriv'', ap_contract_family = Some ''M'', ap_symbol = Some ''R'', ap_account_currency = Some ''U'',
     ap_environment = Some ''demo'', ap_quantity_basis = Some ''s'', ap_stop_loss_semantic_id = Some ''l'',
     ap_multiplier_semantics_id = Some ''m'', ap_symbol_capability_scope = Some ''c''\<rparr>"

definition chain_claim :: evidence_claim where
  "chain_claim = \<lparr>ec_claim_id = ''c'', ec_artifact_id = ''a'', ec_claim_type = STOP_LOSS_SEMANTICS, ec_subject = ''s'', ec_value = ''v'',
     ec_applicability = chain_scope, ec_review_state = EV_REVIEWED\<rparr>"

definition chain_artifact :: evidence_artifact where
  "chain_artifact = \<lparr>ea_schema_version = 1, ea_artifact_id = ''a'', ea_source_identifier = ''i'', ea_source_title = ''t'',
     ea_source_publisher = ''p'', ea_recorded_date = 0, ea_content_hash = chain_hash, ea_claims = [chain_claim],
     ea_review_state = EV_REVIEWED, ea_source_version = None\<rparr>"

definition chain_decision :: review_decision where
  "chain_decision = \<lparr>pk_schema_version = 1, pk_artifact_ids = [''a''], pk_artifact_content_hashes = [chain_hash], pk_claim_ids = [''c''],
     pk_reviewer_id = ''r'', pk_reviewed_at = Aware 0 0, pk_applicability = chain_scope, pk_rationale = None,
     pk_financial_semantics = None, ed_decision_id = ''d'', ed_state = APPROVED_FOR_PROOF_REVIEW, ed_reason_codes = {EVIDENCE_SET_COMPLETE}\<rparr>"

definition chain_assessment :: proof_assessment where
  "chain_assessment = \<lparr>pk_schema_version = 1, pk_artifact_ids = [''a''], pk_artifact_content_hashes = [chain_hash], pk_claim_ids = [''c''],
     pk_reviewer_id = ''r'', pk_reviewed_at = Aware 1 0, pk_applicability = chain_scope, pk_rationale = None,
     pk_financial_semantics = None, pa_assessment_id = ''b'', pa_review_decision_id = ''d'',
     pa_state = READY_FOR_AUTHORITATIVE_PROOF_REVIEW, pa_reason_codes = {REVIEW_PACKAGE_CONSISTENT}\<rparr>"

definition chain_candidate :: proof_candidate where
  "chain_candidate = \<lparr>ln_schema_version = 1, ln_candidate_id = ''k'', ln_candidate_material_hash = chain_hash, ln_loss_model_id = ''x'',
     ln_loss_model_version = 1, ln_evidence_source_id = ''e'', ln_source_assessment_id = ''b'', ln_review_decision_id = ''d'',
     ln_artifact_ids = [''a''], ln_artifact_content_hashes = [chain_hash], ln_claim_ids = [''c''], ln_applicability = chain_scope,
     ln_valid_from = Aware 10 0, ln_valid_until = Aware 20 0, ln_financial_semantics = None\<rparr>"

definition chain_verification :: independent_verification where
  "chain_verification = proof_lineage.extend chain_candidate (independent_verification.fields ''w'' INDEPENDENTLY_VERIFIED
     {CANDIDATE_INDEPENDENTLY_VERIFIED} ''z'' (Aware 2 0) None)"

definition chain_request :: admission_request where
  "chain_request = proof_lineage.extend chain_candidate (admission_request.fields ''n'' ''q'' ''w'' ''o'' (Aware 3 0))"

definition chain_call :: admission_call where
  "chain_call = \<lparr>ac_request = chain_request, ac_eligibility = eligible_record, ac_candidate = chain_candidate,
     ac_verification = chain_verification, ac_assessment = chain_assessment, ac_decision = chain_decision,
     ac_evidence = [chain_artifact], ac_revocations = []\<rparr>"

lemma chain_hash_ok: "sha256_id chain_hash"
  by (simp add: sha256_id_def chain_hash_def list_all_iff)

lemma chain_scope_ok: "\<forall>(x, msg) \<in> set (applicability_checks chain_scope). \<not> x"
  by (simp add: applicability_checks_def optional_scopes_def chain_scope_def nonblank_def py_strip_def py_lstrip_def py_isspace_def)

lemmas chain_values = chain_claim_def chain_artifact_def chain_decision_def chain_assessment_def chain_candidate_def
  chain_verification_def chain_request_def proof_lineage.defs independent_verification.defs admission_request.defs

lemma chain_call_made: "call_made h chain_call"
proof -
  have b: "nonblank [CHR ''a'']" "nonblank [CHR ''b'']" "nonblank [CHR ''c'']" "nonblank [CHR ''d'']" "nonblank [CHR ''e'']" "nonblank [CHR ''k'']"
    "nonblank [CHR ''n'']" "nonblank [CHR ''o'']" "nonblank [CHR ''q'']" "nonblank [CHR ''r'']" "nonblank [CHR ''w'']" "nonblank [CHR ''x'']" "nonblank [CHR ''z'']"
    by (simp_all add: nonblank_def py_strip_def py_lstrip_def py_isspace_def)
  note checks = identity_checks_def material_checks_def blank_checks_def optional_checks_def evidence_set_checks_def optional_blank_def
    semantics_bound_def semantics_in_scope_def package_checks_def verdict_checks_def chain_values b chain_hash_ok chain_scope_ok
  have "make_admission_request chain_request = Inr chain_request"
    by (simp add: make_admission_request_def admission_request_checks_def raise_first_Inr ball_Un checks del: raise_first.simps)
  moreover have "make_proof_candidate h chain_candidate = Inr chain_candidate"
    by (simp add: make_proof_candidate_def raise_first_Inr ball_Un checks del: raise_first.simps)
  moreover have "make_independent_verification h chain_verification = Inr chain_verification"
    by (simp add: make_independent_verification_def raise_first_Inr ball_Un checks del: raise_first.simps)
  moreover have "make_proof_assessment chain_assessment = Inr chain_assessment"
    by (simp add: make_proof_assessment_def assessment_checks_def raise_first_Inr ball_Un checks del: raise_first.simps)
  moreover have "make_review_decision chain_decision = Inr chain_decision"
    by (simp add: make_review_decision_def review_decision_checks_def raise_first_Inr ball_Un checks del: raise_first.simps)
  ultimately show ?thesis by (simp add: call_made_def chain_call_def)
qed

lemma chain_evidence: "evidence_complete h chain_decision [chain_artifact]"
proof -
  have "artifact_backs [chain_artifact] (''a'', chain_hash) chain_artifact"
    by (simp add: artifact_backs_def get_by_id_Inr chain_values nonblank_def py_strip_def py_lstrip_def py_isspace_def)
  moreover have "claim_backs [chain_artifact] chain_scope ''c'' chain_claim"
    by (simp add: claim_backs_def claim_of_id_def chain_values)
  ultimately show ?thesis
    by (auto simp: evidence_complete_def semantics_claimed_def chain_decision_def
        intro!: exI [of _ "[chain_artifact]"] exI [of _ "[chain_claim]"])
qed

lemma chain_authorized: "call_authorized h chain_call"
  using chain_evidence [of h]
  by (simp add: call_authorized_def chain_call_def authorized_call_def admission_authority_def registration_chain_def advisory_chain_def
      verified_by_def verification_matches_def same_material_def same_package_def same_lineage_def revoked_def)
    (simp add: chain_values)

lemma chain_new: "registry_wf []" "identities_new q []"
  by (simp_all add: registry_wf_def identities_new_def)


end
