(* ===== verification/Deriv_Consumption.thy ===== *)
theory Deriv_Consumption
  imports Deriv_Registry
begin

text \<open>
  Use of a registered proof (\<open>src/broker/deriv_proof_consumption.py\<close>): whether an exact, active proof is available for
  a capability; and the evaluation boundary of the loss model (\<open>src/broker/deriv_loss_model.py\<close>), which revalidates
  the proof and then fails closed, because no equation is defined.

  A proof is available exactly when the registry is valid, the revocations are consistent, and one unrevoked entry
  has the requested applicability and lineage at the time of evaluation; whatever is available after any sequence
  of admissions was independently verified on complete evidence.
\<close>

section \<open>Requests and results\<close>

record consumption_request = proof_lineage +
  cp_proof_id :: string
  cp_admission_id :: string
  cp_verification_decision_id :: string
  cp_evaluated_at :: pydatetime

definition make_consumption_request :: "consumption_request \<Rightarrow> consumption_request result" where
  "make_consumption_request p =
     rbind (raise_first (identity_checks [(''proof_id'', cp_proof_id p), (''admission_id'', cp_admission_id p),
         (''verification_decision_id'', cp_verification_decision_id p)] p
       @ material_checks p
       @ [(\<not> tz_aware (cp_evaluated_at p), ''evaluated_at must be a timezone-aware datetime''),
          (\<not> semantics_in_scope p, ''financial semantics are inconsistent'')])) (\<lambda>_. Inr p)"

datatype consumption_reason = EXACT_ACTIVE_PROOF | NO_MATCHING_PROOF | USE_PROOF_REVOKED | USE_CANDIDATE_REVOKED
  | USE_VERIFICATION_REVOKED | USE_VERIFICATION_SUPERSEDED | USE_APPLICABILITY_MISMATCH | USE_MATERIAL_HASH_MISMATCH
  | LINEAGE_MISMATCH | REGISTRY_CONFLICT | REVOCATION_CONFLICT | MALFORMED_REGISTRY_STATE | PROOF_NOT_YET_EFFECTIVE | PROOF_EXPIRED

record consumption_result =
  us_state :: proof_consumption_state
  us_reason_codes :: "consumption_reason set"
  us_entry :: "registry_entry option"

definition revocation_codes :: "consumption_reason set" where
  "revocation_codes = {USE_PROOF_REVOKED, USE_CANDIDATE_REVOKED, USE_VERIFICATION_REVOKED, USE_VERIFICATION_SUPERSEDED}"

definition conflict_codes :: "consumption_reason set" where
  "conflict_codes = {REGISTRY_CONFLICT, REVOCATION_CONFLICT}"

definition make_consumption_result :: "consumption_result \<Rightarrow> consumption_result result" where
  "make_consumption_result r =
     rbind (raise_first
       [(us_reason_codes r = {}, ''reason_codes must contain recognized reasons''),
        (us_state r = PROOF_AVAILABLE \<and> (us_reason_codes r \<noteq> {EXACT_ACTIVE_PROOF} \<or> us_entry r = None), ''available result is inconsistent''),
        (us_state r \<noteq> PROOF_AVAILABLE \<and> (us_entry r \<noteq> None \<or> EXACT_ACTIVE_PROOF \<in> us_reason_codes r),
         ''unavailable result cannot expose an active entry''),
        (us_state r = PROOF_REVOKED \<and> us_reason_codes r \<inter> revocation_codes = {}, ''revoked result requires a revocation reason''),
        (us_state r = PROOF_CONFLICT \<and> us_reason_codes r \<inter> conflict_codes = {}, ''conflict result requires a conflict reason''),
        (us_state r = PROOF_UNAVAILABLE \<and> us_reason_codes r \<inter> (revocation_codes \<union> conflict_codes) \<noteq> {},
         ''unavailable result has an inconsistent reason'')]) (\<lambda>_. Inr r)"

section \<open>Availability\<close>

text \<open>Rebuilding every entry and the registry runs all checks again.\<close>

definition registry_is_well_formed :: "registry_state \<Rightarrow> bool" where
  "registry_is_well_formed es \<longleftrightarrow>
     list_all (\<lambda>e. case make_registry_entry e of Inl _ \<Rightarrow> False | Inr _ \<Rightarrow> True) es
     \<and> (case make_registry_state es of Inl _ \<Rightarrow> False | Inr _ \<Rightarrow> True)"

definition entry_revoked_by :: "registry_entry \<Rightarrow> proof_revocation \<Rightarrow> consumption_reason set" where
  "entry_revoked_by e r =
     (case rx_target_kind r of
        REGISTERED_PROOF_TARGET \<Rightarrow> reason_if (rx_target_id r = am_proof_id e) USE_PROOF_REVOKED
      | CANDIDATE_TARGET \<Rightarrow> reason_if (rx_target_id r = ln_candidate_id e) USE_CANDIDATE_REVOKED
      | VERIFICATION_TARGET \<Rightarrow> reason_if (rx_target_id r = am_verification_decision_id e)
          (if rx_reason r = SUPERSEDED then USE_VERIFICATION_SUPERSEDED else USE_VERIFICATION_REVOKED))"

definition entry_revocation_reasons :: "registry_entry \<Rightarrow> proof_revocation list \<Rightarrow> consumption_reason set" where
  "entry_revocation_reasons e revocations = (\<Union>r \<in> set revocations. entry_revoked_by e r)"

text \<open>A reused identity, or two records of one target that disagree.\<close>

definition revocations_conflict :: "proof_revocation list \<Rightarrow> bool" where
  "revocations_conflict revocations \<longleftrightarrow> \<not> distinct (map rx_revocation_id revocations)
     \<or> contradictory [] (map (\<lambda>r. ((rx_target_kind r, rx_target_id r), (rx_reason r, rx_superseded_by_id r))) revocations)"

definition use_refused :: "proof_consumption_state \<Rightarrow> consumption_reason set \<Rightarrow> consumption_result result" where
  "use_refused st reasons = make_consumption_result \<lparr>us_state = st, us_reason_codes = reasons, us_entry = None\<rparr>"

definition lineage_mismatch :: "consumption_request \<Rightarrow> registry_entry \<Rightarrow> bool" where
  "lineage_mismatch p e \<longleftrightarrow> cp_proof_id p \<noteq> am_proof_id e \<or> cp_admission_id p \<noteq> am_admission_id e
     \<or> ln_candidate_id p \<noteq> ln_candidate_id e \<or> cp_verification_decision_id p \<noteq> am_verification_decision_id e
     \<or> ln_source_assessment_id p \<noteq> ln_source_assessment_id e \<or> ln_review_decision_id p \<noteq> ln_review_decision_id e
     \<or> ln_artifact_ids p \<noteq> ln_artifact_ids e \<or> ln_claim_ids p \<noteq> ln_claim_ids e \<or> ln_loss_model_id p \<noteq> ln_loss_model_id e
     \<or> ln_loss_model_version p \<noteq> ln_loss_model_version e \<or> ln_evidence_source_id p \<noteq> ln_evidence_source_id e
     \<or> \<not> same_time (ln_valid_from p) (ln_valid_from e) \<or> \<not> same_time (ln_valid_until p) (ln_valid_until e)
     \<or> \<not> same_optional_semantics (ln_financial_semantics p) (ln_financial_semantics e)"

definition use_entry :: "consumption_request \<Rightarrow> registry_entry \<Rightarrow> consumption_result result" where
  "use_entry p e =
     rbind (dt_less (cp_evaluated_at p) (ln_valid_from e)) (\<lambda>early.
     rbind (dt_less (ln_valid_until e) (cp_evaluated_at p)) (\<lambda>late.
     let reasons = reason_if (ln_candidate_material_hash p \<noteq> ln_candidate_material_hash e
               \<or> ln_artifact_content_hashes p \<noteq> ln_artifact_content_hashes e) USE_MATERIAL_HASH_MISMATCH
           \<union> reason_if (lineage_mismatch p e) LINEAGE_MISMATCH
           \<union> reason_if early PROOF_NOT_YET_EFFECTIVE \<union> reason_if late PROOF_EXPIRED in
     if reasons \<noteq> {} then use_refused PROOF_UNAVAILABLE reasons
     else make_consumption_result \<lparr>us_state = PROOF_AVAILABLE, us_reason_codes = {EXACT_ACTIVE_PROOF}, us_entry = Some e\<rparr>))"

definition consume_proof :: "registry_state \<Rightarrow> consumption_request \<Rightarrow> proof_revocation list \<Rightarrow> consumption_result result" where
  "consume_proof es p revocations =
     (if \<not> registry_is_well_formed es then use_refused PROOF_UNAVAILABLE {MALFORMED_REGISTRY_STATE}
      else if revocations_conflict revocations then use_refused PROOF_CONFLICT {REVOCATION_CONFLICT}
      else rbind (lookup_proof es (ln_applicability p) revocations) (\<lambda>found.
        case lk_state found of
          CONFLICTING_STATE \<Rightarrow> use_refused PROOF_CONFLICT {REGISTRY_CONFLICT}
        | NO_ENTRY \<Rightarrow> use_refused PROOF_UNAVAILABLE {if es = [] then NO_MATCHING_PROOF else USE_APPLICABILITY_MISMATCH}
        | REVOKED_ENTRY \<Rightarrow> (case lk_entry found of
            None \<Rightarrow> use_refused PROOF_UNAVAILABLE {MALFORMED_REGISTRY_STATE}
          | Some e \<Rightarrow> let reasons = entry_revocation_reasons e revocations in
              use_refused PROOF_REVOKED (if reasons = {} then {USE_PROOF_REVOKED} else reasons))
        | ACTIVE_ENTRY_FOUND \<Rightarrow> (case lk_entry found of
            None \<Rightarrow> use_refused PROOF_UNAVAILABLE {MALFORMED_REGISTRY_STATE}
          | Some e \<Rightarrow> use_entry p e)))"

section \<open>When a proof is available\<close>

text \<open>The one entry of a valid registry for the requested applicability, unrevoked, of exactly the requested lineage,
  and in force at the time of evaluation.\<close>

definition usable_entry :: "registry_state \<Rightarrow> consumption_request \<Rightarrow> proof_revocation list \<Rightarrow> registry_entry \<Rightarrow> bool" where
  "usable_entry es p revocations e \<longleftrightarrow> registry_is_well_formed es \<and> \<not> revocations_conflict revocations
     \<and> filter (\<lambda>x. ln_applicability x = ln_applicability p) es = [e] \<and> \<not> entry_revoked revocations e
     \<and> cp_proof_id p = am_proof_id e \<and> cp_admission_id p = am_admission_id e
     \<and> cp_verification_decision_id p = am_verification_decision_id e \<and> same_lineage p e
     \<and> instant (ln_valid_from e) \<le> instant (cp_evaluated_at p) \<and> instant (cp_evaluated_at p) \<le> instant (ln_valid_until e)"

lemma registry_is_well_formed_iff:
  "registry_is_well_formed es \<longleftrightarrow> registry_wf es \<and> (\<forall>e \<in> set es. make_registry_entry e = Inr e)"
proof -
  have "(case make_registry_entry e of Inl _ \<Rightarrow> False | Inr _ \<Rightarrow> True) \<longleftrightarrow> make_registry_entry e = Inr e" for e
    by (auto simp: make_registry_entry_def split: sum.splits)
  moreover have "(case make_registry_state es of Inl _ \<Rightarrow> False | Inr _ \<Rightarrow> True) \<longleftrightarrow> registry_wf es"
    using make_registry_state_Inr [of es] by (cases "make_registry_state es") (simp_all, metis+)
  ultimately show ?thesis by (auto simp: registry_is_well_formed_def list_all_iff)
qed

lemma entry_revoked_by_codes: "entry_revoked_by e r \<subseteq> revocation_codes"
  by (cases "rx_target_kind r") (auto simp: entry_revoked_by_def revocation_codes_def)

lemma use_refused_returns:
  assumes "reasons \<noteq> {}" "EXACT_ACTIVE_PROOF \<notin> reasons"
    and "case st of PROOF_AVAILABLE \<Rightarrow> False | PROOF_REVOKED \<Rightarrow> reasons \<subseteq> revocation_codes | PROOF_CONFLICT \<Rightarrow> reasons \<subseteq> conflict_codes
      | PROOF_UNAVAILABLE \<Rightarrow> reasons \<inter> (revocation_codes \<union> conflict_codes) = {}"
  shows "use_refused st reasons = Inr \<lparr>us_state = st, us_reason_codes = reasons, us_entry = None\<rparr>"
  using assms by (cases st) (auto simp: use_refused_def make_consumption_result_def)

lemma lineage_checks_scope: "\<forall>(x, msg) \<in> set (material_checks l). \<not> x \<Longrightarrow> raise_first (applicability_checks (ln_applicability l)) = Inr ()"
  by (auto simp: raise_first_Inr material_checks_def)

lemma made_consumption_request:
  assumes "make_consumption_request p = Inr p'"
  shows "tz_aware (cp_evaluated_at p)" "raise_first (applicability_checks (ln_applicability p)) = Inr ()"
  using assms by (simp_all add: make_consumption_request_def raise_first_Inr ball_Un material_checks_def del: raise_first.simps)
    (elim conjE, simp)+

lemma made_entry_times:
  assumes "make_registry_entry e = Inr e"
  shows "tz_aware (ln_valid_from e)" "tz_aware (ln_valid_until e)"
  using assms by (simp_all add: make_registry_entry_def admission_request_checks_def raise_first_Inr ball_Un material_checks_def
      del: raise_first.simps)

lemma use_entry_returns:
  assumes "tz_aware (cp_evaluated_at p)" "tz_aware (ln_valid_from e)" "tz_aware (ln_valid_until e)"
    and "ln_applicability e = ln_applicability p"
  defines "ok \<equiv> cp_proof_id p = am_proof_id e \<and> cp_admission_id p = am_admission_id e
     \<and> cp_verification_decision_id p = am_verification_decision_id e \<and> same_lineage p e
     \<and> instant (ln_valid_from e) \<le> instant (cp_evaluated_at p) \<and> instant (cp_evaluated_at p) \<le> instant (ln_valid_until e)"
  shows "\<exists>r. use_entry p e = Inr r \<and> (us_state r = PROOF_AVAILABLE \<longleftrightarrow> ok)
    \<and> us_entry r = (if ok then Some e else None) \<and> (ok \<longrightarrow> us_reason_codes r = {EXACT_ACTIVE_PROOF})"
proof -
  let ?rs = "reason_if (ln_candidate_material_hash p \<noteq> ln_candidate_material_hash e
      \<or> ln_artifact_content_hashes p \<noteq> ln_artifact_content_hashes e) USE_MATERIAL_HASH_MISMATCH
    \<union> reason_if (lineage_mismatch p e) LINEAGE_MISMATCH
    \<union> reason_if (instant (cp_evaluated_at p) < instant (ln_valid_from e)) PROOF_NOT_YET_EFFECTIVE
    \<union> reason_if (instant (ln_valid_until e) < instant (cp_evaluated_at p)) PROOF_EXPIRED"
  have u: "use_entry p e = (if ?rs \<noteq> {} then use_refused PROOF_UNAVAILABLE ?rs
     else make_consumption_result \<lparr>us_state = PROOF_AVAILABLE, us_reason_codes = {EXACT_ACTIVE_PROOF}, us_entry = Some e\<rparr>)"
    by (simp only: use_entry_def dt_less_aware [OF assms(1,2)] dt_less_aware [OF assms(3,1)] rbind.simps Let_def)
  have "?rs = {} \<longleftrightarrow> ok"
    unfolding Un_empty reason_if_empty ok_def lineage_mismatch_def same_lineage_def using assms(4) by auto
  moreover have "use_refused PROOF_UNAVAILABLE ?rs = Inr \<lparr>us_state = PROOF_UNAVAILABLE, us_reason_codes = ?rs, us_entry = None\<rparr>" if "?rs \<noteq> {}"
    by (rule use_refused_returns [OF that]) (auto simp: revocation_codes_def conflict_codes_def)
  ultimately show ?thesis
    by (cases "?rs = {}") (simp_all add: u make_consumption_result_def del: Un_empty reason_if_empty)
qed

lemma consume_proof_answer:
  assumes "make_consumption_request p = Inr p'"
  shows "\<exists>r. consume_proof es p revs = Inr r \<and> (case us_entry r of
      Some e \<Rightarrow> us_state r = PROOF_AVAILABLE \<and> us_reason_codes r = {EXACT_ACTIVE_PROOF} \<and> usable_entry es p revs e
    | None \<Rightarrow> us_state r \<noteq> PROOF_AVAILABLE \<and> (\<forall>e. \<not> usable_entry es p revs e))"
proof -
  have refused: ?thesis if r: "consume_proof es p revs = use_refused st rs" and rs: "rs \<noteq> {}" "EXACT_ACTIVE_PROOF \<notin> rs"
      "case st of PROOF_AVAILABLE \<Rightarrow> False | PROOF_REVOKED \<Rightarrow> rs \<subseteq> revocation_codes | PROOF_CONFLICT \<Rightarrow> rs \<subseteq> conflict_codes
        | PROOF_UNAVAILABLE \<Rightarrow> rs \<inter> (revocation_codes \<union> conflict_codes) = {}"
    and none: "\<And>e. \<not> usable_entry es p revs e" for st rs
  proof -
    have "st \<noteq> PROOF_AVAILABLE" using rs(3) by (cases st) simp_all
    then show ?thesis using none by (simp add: r use_refused_returns [OF rs])
  qed
  note codes = revocation_codes_def conflict_codes_def
  note made = made_consumption_request [OF assms]
  consider (malformed) "\<not> registry_is_well_formed es"
    | (conflict) "registry_is_well_formed es" "revocations_conflict revs"
    | (search) "registry_is_well_formed es" "\<not> revocations_conflict revs" by blast
  then show ?thesis
  proof cases
    case malformed
    then show ?thesis
      by (intro refused [of PROOF_UNAVAILABLE "{MALFORMED_REGISTRY_STATE}"]) (simp_all add: consume_proof_def usable_entry_def codes)
  next
    case conflict
    then show ?thesis
      by (intro refused [of PROOF_CONFLICT "{REVOCATION_CONFLICT}"]) (simp_all add: consume_proof_def usable_entry_def codes)
  next
    case search
    have d: "distinct (map rx_revocation_id revs)" using search(2) by (simp add: revocations_conflict_def)
    let ?found = "filter (\<lambda>x. ln_applicability x = ln_applicability p) es"
    consider (nothing) "?found = []" | (several) x y zs where "?found = x # y # zs" | (one) e where "?found = [e]"
      by (metis list.exhaust)
    then show ?thesis
    proof cases
      case nothing
      then show ?thesis
        by (intro refused [of PROOF_UNAVAILABLE "{if es = [] then NO_MATCHING_PROOF else USE_APPLICABILITY_MISMATCH}"])
          (simp_all add: consume_proof_def lookup_proof_def search made d make_lookup_result_def usable_entry_def codes)
    next
      case several
      then show ?thesis
        by (intro refused [of PROOF_CONFLICT "{REGISTRY_CONFLICT}"])
          (simp_all add: consume_proof_def lookup_proof_def search made d make_lookup_result_def usable_entry_def codes)
    next
      case (one e)
      have "e \<in> set ?found" unfolding one by simp
      then have e: "e \<in> set es" "ln_applicability e = ln_applicability p" by simp_all
      show ?thesis
      proof (cases "entry_revoked revs e")
        case True
        have s: "entry_revocation_reasons e revs \<subseteq> revocation_codes"
          using entry_revoked_by_codes by (auto simp: entry_revocation_reasons_def)
        show ?thesis
          using True one s by (intro refused [of PROOF_REVOKED "if entry_revocation_reasons e revs = {} then {USE_PROOF_REVOKED} else entry_revocation_reasons e revs"])
            (auto simp: consume_proof_def lookup_proof_def search made d make_lookup_result_def usable_entry_def codes)
      next
        case False
        have times: "tz_aware (ln_valid_from e)" "tz_aware (ln_valid_until e)"
          using made_entry_times search(1) e(1) by (auto simp: registry_is_well_formed_iff)
        have "consume_proof es p revs = use_entry p e"
          using False one by (simp add: consume_proof_def lookup_proof_def search made d make_lookup_result_def)
        moreover have "usable_entry es p revs x \<longleftrightarrow> x = e \<and> (cp_proof_id p = am_proof_id e \<and> cp_admission_id p = am_admission_id e
            \<and> cp_verification_decision_id p = am_verification_decision_id e \<and> same_lineage p e
            \<and> instant (ln_valid_from e) \<le> instant (cp_evaluated_at p) \<and> instant (cp_evaluated_at p) \<le> instant (ln_valid_until e))" for x
          using False one search by (auto simp: usable_entry_def)
        ultimately show ?thesis
          using use_entry_returns [OF made(1) times e(2)] by (auto split: if_splits)
      qed
    qed
  qed
qed



section \<open>The evaluation boundary of the loss model\<close>

record financial_input =
  fi_semantic_id :: string
  fi_unit_id :: string
  fi_value :: decimal_literal

definition make_financial_input :: "financial_input \<Rightarrow> financial_input result" where
  "make_financial_input x =
     rbind (raise_first (blank_checks [(''semantic_id'', fi_semantic_id x), (''unit_id'', fi_unit_id x)])) (\<lambda>_. Inr x)"

record loss_request =
  lq_schema_version :: int
  lq_registry :: registry_state
  lq_proof_request :: consumption_request
  lq_proof_result :: consumption_result
  lq_revocations :: "proof_revocation list"
  lq_applicability :: evidence_applicability
  lq_loss_model_id :: string
  lq_loss_model_version :: int
  lq_candidate_material_hash :: string
  lq_evidence_source_id :: string
  lq_financial_inputs :: "financial_input list"

definition make_loss_request :: "loss_request \<Rightarrow> loss_request result" where
  "make_loss_request q =
     rbind (raise_first ([(lq_schema_version q \<noteq> 1, ''unsupported loss-evaluation schema version'')]
       @ blank_checks [(''loss_model_id'', lq_loss_model_id q), (''evidence_source_id'', lq_evidence_source_id q)]
       @ [(\<not> sha256_id (lq_candidate_material_hash q), ''candidate_material_hash must be a lowercase SHA-256 ID''),
          (lq_loss_model_version q \<le> 0, ''loss_model_version must be a positive strict integer''),
          (\<not> distinct (map fi_semantic_id (lq_financial_inputs q)), ''financial input semantic IDs must be unique'')])) (\<lambda>_. Inr q)"

datatype loss_reason = AUTHORITATIVE_LOSS_EVALUATED | LOSS_PROOF_MISSING | PROOF_LINEAGE_INVALID | LOSS_APPLICABILITY_MISMATCH
  | LOSS_MODEL_ID_MISMATCH | LOSS_MODEL_VERSION_MISMATCH | LOSS_MATERIAL_HASH_MISMATCH | EVIDENCE_SOURCE_MISMATCH
  | MODEL_UNSUPPORTED | INPUT_MISSING | NUMERIC_DOMAIN_INVALID

record loss_result =
  ls_state :: loss_evaluation_state
  ls_reason_codes :: "loss_reason set"
  ls_monetary_loss :: "decimal_literal option"
  ls_monetary_unit_id :: "string option"

definition loss_conflict_codes :: "loss_reason set" where
  "loss_conflict_codes = {PROOF_LINEAGE_INVALID, LOSS_APPLICABILITY_MISMATCH, LOSS_MODEL_ID_MISMATCH, LOSS_MODEL_VERSION_MISMATCH,
     LOSS_MATERIAL_HASH_MISMATCH, EVIDENCE_SOURCE_MISMATCH}"

definition make_loss_result :: "loss_result \<Rightarrow> loss_result result" where
  "make_loss_result r =
     rbind (raise_first
       [(ls_reason_codes r = {}, ''reason_codes must contain recognized reasons''),
        (ls_state r = LOSS_EVALUATED
         \<and> (ls_reason_codes r \<noteq> {AUTHORITATIVE_LOSS_EVALUATED}
            \<or> (case ls_monetary_loss r of None \<Rightarrow> True | Some d \<Rightarrow> \<not> finite_literal d \<or> literal_value d < 0)
            \<or> (case ls_monetary_unit_id r of None \<Rightarrow> True | Some t \<Rightarrow> \<not> nonblank t)), ''evaluated loss result is inconsistent''),
        (ls_state r \<noteq> LOSS_EVALUATED
         \<and> (AUTHORITATIVE_LOSS_EVALUATED \<in> ls_reason_codes r \<or> ls_monetary_loss r \<noteq> None \<or> ls_monetary_unit_id r \<noteq> None),
         ''non-evaluated result cannot expose monetary loss''),
        (ls_state r = LOSS_PROOF_UNAVAILABLE \<and> ls_reason_codes r \<noteq> {LOSS_PROOF_MISSING}
         \<or> ls_state r = LOSS_MODEL_UNSUPPORTED \<and> ls_reason_codes r \<noteq> {MODEL_UNSUPPORTED},
         ''loss-evaluation state and reasons are inconsistent''),
        (ls_state r = LOSS_INPUT_INVALID \<and> \<not> ls_reason_codes r \<subseteq> {INPUT_MISSING, NUMERIC_DOMAIN_INVALID},
         ''invalid-input result has inconsistent reasons''),
        (ls_state r = LOSS_CONFLICT \<and> \<not> ls_reason_codes r \<subseteq> loss_conflict_codes, ''conflict result has inconsistent reasons'')]) (\<lambda>_. Inr r)"

definition loss_refused :: "loss_evaluation_state \<Rightarrow> loss_reason set \<Rightarrow> loss_result result" where
  "loss_refused st reasons =
     make_loss_result \<lparr>ls_state = st, ls_reason_codes = reasons, ls_monetary_loss = None, ls_monetary_unit_id = None\<rparr>"

text \<open>Equality of two results: their entries are compared field by field, times by their instants.\<close>

definition same_entry :: "registry_entry \<Rightarrow> registry_entry \<Rightarrow> bool" where
  "same_entry e f \<longleftrightarrow> same_authority e f \<and> ln_schema_version e = ln_schema_version f \<and> am_admission_id e = am_admission_id f
     \<and> am_admitted_by e = am_admitted_by f \<and> same_time (am_admitted_at e) (am_admitted_at f)
     \<and> en_eligibility_state e = en_eligibility_state f \<and> en_eligibility_reason_codes e = en_eligibility_reason_codes f"

definition same_result :: "consumption_result \<Rightarrow> consumption_result \<Rightarrow> bool" where
  "same_result r s \<longleftrightarrow> us_state r = us_state s \<and> us_reason_codes r = us_reason_codes s \<and> rel_option same_entry (us_entry r) (us_entry s)"

definition loss_identity_reasons :: "loss_request \<Rightarrow> registry_entry \<Rightarrow> loss_reason set" where
  "loss_identity_reasons q e =
     reason_if (lq_applicability q \<noteq> ln_applicability (lq_proof_request q) \<or> lq_applicability q \<noteq> ln_applicability e)
       LOSS_APPLICABILITY_MISMATCH
     \<union> reason_if (lq_loss_model_id q \<noteq> ln_loss_model_id e) LOSS_MODEL_ID_MISMATCH
     \<union> reason_if (lq_loss_model_version q \<noteq> ln_loss_model_version e) LOSS_MODEL_VERSION_MISMATCH
     \<union> reason_if (lq_candidate_material_hash q \<noteq> ln_candidate_material_hash e) LOSS_MATERIAL_HASH_MISMATCH
     \<union> reason_if (lq_evidence_source_id q \<noteq> ln_evidence_source_id e) EVIDENCE_SOURCE_MISMATCH"

definition evaluate_loss_model :: "loss_request \<Rightarrow> loss_result result" where
  "evaluate_loss_model q =
     rbind (consume_proof (lq_registry q) (lq_proof_request q) (lq_revocations q)) (\<lambda>recomputed.
     if us_state recomputed \<noteq> PROOF_AVAILABLE then loss_refused LOSS_PROOF_UNAVAILABLE {LOSS_PROOF_MISSING}
     else case us_entry recomputed of
       None \<Rightarrow> loss_refused LOSS_CONFLICT {PROOF_LINEAGE_INVALID}
     | Some e \<Rightarrow>
         if \<not> same_result (lq_proof_result q) recomputed then loss_refused LOSS_CONFLICT {PROOF_LINEAGE_INVALID}
         else if loss_identity_reasons q e \<noteq> {} then loss_refused LOSS_CONFLICT (loss_identity_reasons q e)
         else if lq_financial_inputs q = [] then loss_refused LOSS_INPUT_INVALID {INPUT_MISSING}
         else if \<exists>x \<in> set (lq_financial_inputs q). \<not> finite_literal (fi_value x) \<or> literal_value (fi_value x) \<le> 0
         then loss_refused LOSS_INPUT_INVALID {NUMERIC_DOMAIN_INVALID}
         else loss_refused LOSS_MODEL_UNSUPPORTED {MODEL_UNSUPPORTED})"

definition no_loss :: "loss_evaluation_state \<Rightarrow> loss_reason set \<Rightarrow> loss_result" where
  "no_loss st reasons = \<lparr>ls_state = st, ls_reason_codes = reasons, ls_monetary_loss = None, ls_monetary_unit_id = None\<rparr>"

lemma loss_refused_returns:
  assumes "reasons \<noteq> {}" "AUTHORITATIVE_LOSS_EVALUATED \<notin> reasons" "st \<noteq> LOSS_EVALUATED"
    and "st = LOSS_PROOF_UNAVAILABLE \<Longrightarrow> reasons = {LOSS_PROOF_MISSING}" "st = LOSS_MODEL_UNSUPPORTED \<Longrightarrow> reasons = {MODEL_UNSUPPORTED}"
    and "st = LOSS_INPUT_INVALID \<Longrightarrow> reasons \<subseteq> {INPUT_MISSING, NUMERIC_DOMAIN_INVALID}" "st = LOSS_CONFLICT \<Longrightarrow> reasons \<subseteq> loss_conflict_codes"
  shows "loss_refused st reasons = Inr (no_loss st reasons)"
  using assms by (simp add: no_loss_def loss_refused_def make_loss_result_def)


text \<open>Samples: the proof that the sample call registers, used within its validity.\<close>

definition chain_use :: consumption_request where
  "chain_use = proof_lineage.extend chain_candidate (consumption_request.fields ''q'' ''n'' ''w'' (Aware 15 0))"

definition chain_loss :: "registry_state \<Rightarrow> loss_request" where
  "chain_loss es = \<lparr>lq_schema_version = 1, lq_registry = es, lq_proof_request = chain_use,
     lq_proof_result = \<lparr>us_state = PROOF_AVAILABLE, us_reason_codes = {EXACT_ACTIVE_PROOF}, us_entry = Some (admitted_entry chain_request eligible_record)\<rparr>,
     lq_revocations = [], lq_applicability = chain_scope, lq_loss_model_id = ''x'', lq_loss_model_version = 1,
     lq_candidate_material_hash = chain_hash, lq_evidence_source_id = ''e'',
     lq_financial_inputs = [\<lparr>fi_semantic_id = ''s'', fi_unit_id = ''u'', fi_value = Digits False 1 0\<rparr>]\<rparr>"

lemma chain_use_made: "make_consumption_request chain_use = Inr chain_use"
proof -
  have b: "nonblank [CHR ''a'']" "nonblank [CHR ''b'']" "nonblank [CHR ''c'']" "nonblank [CHR ''d'']" "nonblank [CHR ''e'']" "nonblank [CHR ''k'']"
    "nonblank [CHR ''n'']" "nonblank [CHR ''q'']" "nonblank [CHR ''w'']" "nonblank [CHR ''x'']"
    by (simp_all add: nonblank_def py_strip_def py_lstrip_def py_isspace_def)
  show ?thesis
    by (simp add: make_consumption_request_def raise_first_Inr ball_Un identity_checks_def material_checks_def blank_checks_def
        evidence_set_checks_def semantics_in_scope_def chain_use_def consumption_request.defs chain_values b chain_hash_ok chain_scope_ok
        del: raise_first.simps)
qed

lemma chain_history: "admission_history h [chain_call] [] = Inr [admitted_entry chain_request eligible_record]"
proof -
  have "make_admission_request chain_request = Inr chain_request" "make_proof_assessment chain_assessment = Inr chain_assessment"
    "make_review_decision chain_decision = Inr chain_decision"
    using chain_call_made [of undefined] by (simp_all add: call_made_def chain_call_def)
  from admit_proof_cases [OF chain_new(1) this, of h eligible_record chain_candidate chain_verification "[chain_artifact]" "[]"]
  show ?thesis
    using chain_authorized [of h] chain_new(2) by (auto simp: call_authorized_def call_admission_def chain_call_def)
qed

lemma chain_usable: "usable_entry [admitted_entry chain_request eligible_record] chain_use [] (admitted_entry chain_request eligible_record)"
proof -
  have "registry_backed undefined {chain_call} [admitted_entry chain_request eligible_record]"
    using admission_history_backed [OF chain_history, of undefined "{}"] chain_call_made
    by (simp add: registry_backed_def registry_wf_def)
  then have "registry_is_well_formed [admitted_entry chain_request eligible_record]"
    by (simp add: registry_is_well_formed_iff registry_backed_def)
  then show ?thesis
    by (simp add: usable_entry_def revocations_conflict_def entry_revoked_def same_lineage_def revoked_def)
      (simp add: chain_use_def consumption_request.defs admitted_entry_def chain_values)
qed

lemma chain_available:
  "\<exists>r. consume_proof [admitted_entry chain_request eligible_record] chain_use [] = Inr r \<and> us_state r = PROOF_AVAILABLE
    \<and> us_reason_codes r = {EXACT_ACTIVE_PROOF} \<and> us_entry r = Some (admitted_entry chain_request eligible_record)"
proof -
  obtain r where "consume_proof [admitted_entry chain_request eligible_record] chain_use [] = Inr r"
    and r: "case us_entry r of Some e \<Rightarrow> us_state r = PROOF_AVAILABLE \<and> us_reason_codes r = {EXACT_ACTIVE_PROOF}
        \<and> usable_entry [admitted_entry chain_request eligible_record] chain_use [] e
      | None \<Rightarrow> us_state r \<noteq> PROOF_AVAILABLE \<and> (\<forall>e. \<not> usable_entry [admitted_entry chain_request eligible_record] chain_use [] e)"
    using consume_proof_answer [OF chain_use_made, of "[admitted_entry chain_request eligible_record]" "[]"] by blast
  moreover obtain e where e: "us_entry r = Some e" "usable_entry [admitted_entry chain_request eligible_record] chain_use [] e"
      "us_state r = PROOF_AVAILABLE" "us_reason_codes r = {EXACT_ACTIVE_PROOF}"
    using r chain_usable by (cases "us_entry r") simp_all
  moreover have "e = admitted_entry chain_request eligible_record"
    using e(2) by (simp add: usable_entry_def split: if_splits)
  ultimately show ?thesis by blast
qed




end
