(* ===== verification/Deriv_Payload.thy ===== *)
theory Deriv_Payload
  imports Deriv_Consumption Safety_Store
begin

text \<open>
  The durable form of the proof registry (\<open>src/broker/deriv_proof_store.py\<close>): entries and revocations as canonical
  JSON, and their reconstruction through the constructors, so that a payload is accepted only when it is exactly
  what the reconstructed state prints.

  A JSON text is represented by the value it spells, a text that a timestamp or a \<open>Decimal\<close> was printed to by the
  value printed. Objects are lists of fields in the order of their keys, as \<open>sort_keys\<close> prints them. SHA-256 of a text
  is the parameter \<open>sha\<close>. Printing a \<open>Decimal\<close> in engineering notation does not keep its digits (\<open>1E+1\<close> prints as
  \<open>10\<close>): what is kept is the number and the printed text, and with it the hash of the semantics.
\<close>

section \<open>JSON values\<close>

datatype json = JNull | JBool bool | JInt int | JFloat pyfloat | JText string | JTime pydatetime | JDecimal decimal_literal
  | JList "json list" | JObj "(string \<times> json) list"

definition obj :: "(string \<times> json) list \<Rightarrow> json" where
  "obj fs = JObj (sort_key fst fs)"

text \<open>\<open>value["name"]\<close> and iteration over a value; a text is a sequence of texts of length one.\<close>

fun jfield :: "string \<Rightarrow> json \<Rightarrow> json result" where
  "jfield name (JObj fs) = (case map_of fs name of None \<Rightarrow> Inl (KeyError name) | Some v \<Rightarrow> Inr v)"
| "jfield name v = Inl (TypeError ''indices must be integers'')"

fun jitems :: "json \<Rightarrow> json list result" where
  "jitems (JList vs) = Inr vs"
| "jitems (JText t) = Inr (map (\<lambda>c. JText [c]) t)"
| "jitems (JObj fs) = Inr (map (JText \<circ> fst) fs)"
| "jitems v = Inl (TypeError ''object is not iterable'')"

fun each :: "('a \<Rightarrow> 'b result) \<Rightarrow> 'a list \<Rightarrow> 'b list result" where
  "each f [] = Inr []"
| "each f (x # xs) = rbind (f x) (\<lambda>y. rbind (each f xs) (\<lambda>ys. Inr (y # ys)))"

text \<open>The types that the constructors demand.\<close>

fun as_text :: "json \<Rightarrow> string result" where
  "as_text (JText t) = Inr t"
| "as_text v = Inl (ValueError ''must be a nonblank string'')"

fun as_number :: "json \<Rightarrow> int result" where
  "as_number (JInt n) = Inr n"
| "as_number v = Inl (ValueError ''must be a strict integer'')"

fun as_flag :: "json \<Rightarrow> bool result" where
  "as_flag (JBool b) = Inr b"
| "as_flag v = Inl (ValueError ''must be boolean'')"

fun as_optional :: "(json \<Rightarrow> 'a result) \<Rightarrow> json \<Rightarrow> 'a option result" where
  "as_optional f JNull = Inr None"
| "as_optional f v = rbind (f v) (\<lambda>x. Inr (Some x))"

fun as_member :: "('e \<Rightarrow> string) \<Rightarrow> 'e list \<Rightarrow> json \<Rightarrow> 'e result" where
  "as_member value_of members (JText t) = member value_of members t"
| "as_member value_of members v = Inl (ValueError ''is not a valid member'')"

definition as_texts :: "json \<Rightarrow> string list result" where
  "as_texts v = rbind (jitems v) (each as_text)"

section \<open>Timestamps and decimals\<close>

text \<open>A time is printed in UTC; only a text in that form is read.\<close>

definition time_json :: "pydatetime \<Rightarrow> json result" where
  "time_json t = (if tz_aware t then Inr (JTime (to_utc t)) else Inl (ValueError ''timestamp must be timezone-aware''))"

fun parse_time :: "json \<Rightarrow> pydatetime result" where
  "parse_time (JTime t) =
     (if \<not> tz_aware t then Inl (ValueError ''timestamp must be timezone-aware'')
      else if t \<noteq> to_utc t then Inl (ValueError ''timestamp is not canonical UTC text'') else Inr t)"
| "parse_time v = Inl (ValueError ''timestamp must be canonical text'')"

text \<open>Engineering notation: with a positive exponent, or far below one, the exponent printed is a multiple of three and
  the digits are padded with zeros up to the point. The literal is the one the printed text spells.\<close>

fun digit_count :: "nat \<Rightarrow> nat" where
  "digit_count c = (if c < 10 then 1 else Suc (digit_count (c div 10)))"

declare digit_count.simps [simp del]

definition dot_place :: "nat \<Rightarrow> int \<Rightarrow> int" where
  "dot_place c e = (let left = e + int (digit_count c) in
     if e \<le> 0 \<and> - 6 < left then left
     else if c = 0 then (left + 1) mod 3 - 1 else (left - 1) mod 3 + 1)"

fun eng_literal :: "decimal_literal \<Rightarrow> decimal_literal" where
  "eng_literal (Digits neg c e) =
     (let pad = dot_place c e - int (digit_count c) in
      if 0 < pad then Digits neg (c * 10 ^ nat pad) (e - pad) else Digits neg c e)"
| "eng_literal d = d"

fun decimal_json :: "decimal_literal option \<Rightarrow> json" where
  "decimal_json None = JNull"
| "decimal_json (Some d) = JDecimal (eng_literal d)"

fun parse_decimal :: "json \<Rightarrow> decimal_literal option result" where
  "parse_decimal JNull = Inr None"
| "parse_decimal (JDecimal d) =
     (if \<not> finite_literal d \<or> eng_literal d \<noteq> d then Inl (ValueError ''Decimal text is not canonical and finite'') else Inr (Some d))"
| "parse_decimal (JText t) = Inl (ValueError ''Decimal text is invalid'')"
| "parse_decimal v = Inl (ValueError ''Decimal must be canonical text'')"

lemma digit_count_pos: "0 < digit_count c"
  by (subst digit_count.simps) simp

lemma digit_count_times_10: "0 < c \<Longrightarrow> digit_count (c * 10) = Suc (digit_count c)"
  by (subst digit_count.simps) simp

lemma digit_count_shift: "0 < c \<Longrightarrow> digit_count (c * 10 ^ k) = digit_count c + k"
proof (induction k)
  case (Suc k)
  have "digit_count (c * 10 ^ k * 10) = Suc (digit_count (c * 10 ^ k))"
    using Suc.prems by (intro digit_count_times_10) simp
  with Suc show ?case by (simp add: mult_ac)
qed simp

lemma eng_literal_finite [simp]: "finite_literal (eng_literal d) = finite_literal d"
  by (cases d) (simp_all add: Let_def)

lemma eng_literal_value [simp]: "literal_value (eng_literal d) = literal_value d"
proof (cases d)
  case (Digits neg c e)
  have "(10 :: rat) ^ nat p * 10 powi (e - p) = 10 powi e" if "0 < p" for p
    using that by (simp add: power_int_diff flip: power_int_of_nat)
  then show ?thesis by (simp add: Digits Let_def)
qed simp_all

lemma no_pad_zero: "dot_place 0 e \<le> 1"
  by (simp add: dot_place_def digit_count.simps Let_def) presburger

lemma eng_literal_idem [simp]: "eng_literal (eng_literal d) = eng_literal d"
proof (cases d)
  case (Digits neg c e)
  define n where "n = int (digit_count c)"
  define pad where "pad = dot_place c e - n"
  show ?thesis
  proof (cases "0 < pad")
    case True
    have c: "0 < c"
    proof (rule ccontr)
      assume "\<not> 0 < c"
      then have "c = 0" by simp
      with True no_pad_zero [of e] show False by (simp add: pad_def n_def digit_count.simps)
    qed
    let ?c = "c * 10 ^ nat pad" and ?e = "e - pad"
    have n': "int (digit_count ?c) = n + pad" using c True by (simp add: digit_count_shift n_def)
    have n1: "0 < n" using digit_count_pos by (simp add: n_def)
    have "dot_place ?c ?e = n + pad"
      using True c n' n1
      by (simp add: dot_place_def Let_def pad_def n_def [symmetric] split: if_splits) presburger+
    then show ?thesis using True n' by (simp add: Digits Let_def pad_def [symmetric] n_def [symmetric])
  next
    case False
    then show ?thesis by (simp add: Digits Let_def pad_def n_def)
  qed
qed simp_all

lemma parse_decimal_json:
  assumes "\<And>d. v = Some d \<Longrightarrow> finite_literal d"
  shows "parse_decimal (decimal_json v) = Inr (map_option eng_literal v)"
  using assms by (cases v) simp_all

lemma decimal_json_eng [simp]: "decimal_json (map_option eng_literal v) = decimal_json v"
  by (cases v) simp_all

lemma parse_time_json:
  assumes "time_json t = Inr v"
  shows "parse_time v = Inr (to_utc t)"
  using assms by (cases t) (auto simp: time_json_def)

lemma time_json_utc [simp]: "time_json (to_utc t) = time_json t"
  by (cases t) (simp_all add: time_json_def)

lemma each_map:
  assumes "\<And>x. x \<in> set xs \<Longrightarrow> f (g x) = Inr (h x)"
  shows "each f (map g xs) = Inr (map h xs)"
  using assms by (induction xs) simp_all

lemma as_texts_list [simp]: "as_texts (JList (map JText xs)) = Inr xs"
  using each_map [of xs as_text JText id] by (simp add: as_texts_def)

lemma as_optional_text [simp]: "as_optional as_text (case v of None \<Rightarrow> JNull | Some t \<Rightarrow> JText t) = Inr v"
  by (cases v) simp_all

lemma map_of_sort: "distinct (map fst fs) \<Longrightarrow> map_of (sort_key fst fs) = map_of fs"
  by (subst map_of_inject_set) (simp_all add: distinct_map distinct_sort)

lemma jfield_obj [simp]: "distinct (map fst fs) \<Longrightarrow> jfield k (obj fs) = (case map_of fs k of None \<Rightarrow> Inl (KeyError k) | Some v \<Rightarrow> Inr v)"
  by (simp add: obj_def map_of_sort)

section \<open>The texts of the enumerations\<close>

fun family_value :: "equation_family \<Rightarrow> string" where
  "family_value SYNTHETIC_LINEAR_PRODUCT = ''SYNTHETIC_LINEAR_PRODUCT''"

fun role_value :: "operand_role \<Rightarrow> string" where
  "role_value FACTOR = ''FACTOR''"
| "role_value RATE = ''RATE''"
| "role_value BASE = ''BASE''"

fun financial_unit_value :: "financial_unit \<Rightarrow> string" where
  "financial_unit_value ACCOUNT_CURRENCY_AMOUNT = ''ACCOUNT_CURRENCY_AMOUNT''"
| "financial_unit_value STAKE_CURRENCY_AMOUNT = ''STAKE_CURRENCY_AMOUNT''"
| "financial_unit_value PRICE_UNIT = ''PRICE''"
| "financial_unit_value PRICE_DISTANCE = ''PRICE_DISTANCE''"
| "financial_unit_value RATIO = ''RATIO''"
| "financial_unit_value MULTIPLIER_UNIT = ''MULTIPLIER''"
| "financial_unit_value CONTRACT_QUANTITY = ''CONTRACT_QUANTITY''"
| "financial_unit_value PERCENTAGE = ''PERCENTAGE''"

fun domain_value :: "numeric_domain \<Rightarrow> string" where
  "domain_value POSITIVE = ''POSITIVE''"
| "domain_value NONNEGATIVE = ''NONNEGATIVE''"
| "domain_value SIGNED = ''SIGNED''"
| "domain_value DOMAIN_UNKNOWN = ''UNKNOWN''"

fun output_value :: "output_semantic \<Rightarrow> string" where
  "output_value SYNTHETIC_MONETARY_LOSS_FOR_SUPPLIED_INPUTS = ''SYNTHETIC_MONETARY_LOSS_FOR_SUPPLIED_INPUTS''"
| "output_value SYNTHETIC_MAXIMUM_MONETARY_LOSS = ''SYNTHETIC_MAXIMUM_MONETARY_LOSS''"
| "output_value SYNTHETIC_MONETARY_PROFIT_FOR_SUPPLIED_INPUTS = ''SYNTHETIC_MONETARY_PROFIT_FOR_SUPPLIED_INPUTS''"

fun binding_value :: "currency_binding \<Rightarrow> string" where
  "binding_value APPLICABILITY_ACCOUNT_CURRENCY = ''APPLICABILITY_ACCOUNT_CURRENCY''"
| "binding_value EXPLICIT_CURRENCY = ''EXPLICIT_CURRENCY''"
| "binding_value CURRENCY_NOT_APPLICABLE = ''NOT_APPLICABLE''"

fun rounding_mode_value :: "rounding_mode \<Rightarrow> string" where
  "rounding_mode_value NO_ROUNDING = ''NONE''"
| "rounding_mode_value ROUND_FLOOR = ''ROUND_FLOOR''"
| "rounding_mode_value ROUND_CEILING = ''ROUND_CEILING''"
| "rounding_mode_value ROUND_HALF_EVEN = ''ROUND_HALF_EVEN''"

fun rounding_stage_value :: "rounding_stage \<Rightarrow> string" where
  "rounding_stage_value NO_STAGE = ''NONE''"
| "rounding_stage_value EACH_OPERATION = ''EACH_OPERATION''"
| "rounding_stage_value FINAL_OUTPUT = ''FINAL_OUTPUT''"

definition parse_family :: "json \<Rightarrow> equation_family result" where
  "parse_family = as_member family_value [SYNTHETIC_LINEAR_PRODUCT]"

definition parse_role :: "json \<Rightarrow> operand_role result" where
  "parse_role = as_member role_value [FACTOR, RATE, BASE]"

definition parse_unit :: "json \<Rightarrow> financial_unit result" where
  "parse_unit = as_member financial_unit_value [ACCOUNT_CURRENCY_AMOUNT, STAKE_CURRENCY_AMOUNT, PRICE_UNIT, PRICE_DISTANCE, RATIO,
     MULTIPLIER_UNIT, CONTRACT_QUANTITY, PERCENTAGE]"

definition parse_domain :: "json \<Rightarrow> numeric_domain result" where
  "parse_domain = as_member domain_value [POSITIVE, NONNEGATIVE, SIGNED, DOMAIN_UNKNOWN]"

definition parse_output :: "json \<Rightarrow> output_semantic result" where
  "parse_output = as_member output_value [SYNTHETIC_MONETARY_LOSS_FOR_SUPPLIED_INPUTS, SYNTHETIC_MAXIMUM_MONETARY_LOSS,
     SYNTHETIC_MONETARY_PROFIT_FOR_SUPPLIED_INPUTS]"

definition parse_binding :: "json \<Rightarrow> currency_binding result" where
  "parse_binding = as_member binding_value [APPLICABILITY_ACCOUNT_CURRENCY, EXPLICIT_CURRENCY, CURRENCY_NOT_APPLICABLE]"

definition parse_rounding_mode :: "json \<Rightarrow> rounding_mode result" where
  "parse_rounding_mode = as_member rounding_mode_value [NO_ROUNDING, ROUND_FLOOR, ROUND_CEILING, ROUND_HALF_EVEN]"

definition parse_rounding_stage :: "json \<Rightarrow> rounding_stage result" where
  "parse_rounding_stage = as_member rounding_stage_value [NO_STAGE, EACH_OPERATION, FINAL_OUTPUT]"

lemma semantics_members [simp]:
  "parse_family (JText (family_value a)) = Inr a" "parse_role (JText (role_value b)) = Inr b"
  "parse_unit (JText (financial_unit_value c)) = Inr c" "parse_domain (JText (domain_value d)) = Inr d"
  "parse_output (JText (output_value e)) = Inr e" "parse_binding (JText (binding_value f)) = Inr f"
  "parse_rounding_mode (JText (rounding_mode_value g)) = Inr g" "parse_rounding_stage (JText (rounding_stage_value i)) = Inr i"
proof -
  show "parse_family (JText (family_value a)) = Inr a" by (cases a) (simp_all add: parse_family_def member_def)
  show "parse_role (JText (role_value b)) = Inr b" by (cases b) (simp_all add: parse_role_def member_def)
  show "parse_unit (JText (financial_unit_value c)) = Inr c" by (cases c) (simp_all add: parse_unit_def member_def)
  show "parse_domain (JText (domain_value d)) = Inr d" by (cases d) (simp_all add: parse_domain_def member_def)
  show "parse_output (JText (output_value e)) = Inr e" by (cases e) (simp_all add: parse_output_def member_def)
  show "parse_binding (JText (binding_value f)) = Inr f" by (cases f) (simp_all add: parse_binding_def member_def)
  show "parse_rounding_mode (JText (rounding_mode_value g)) = Inr g" by (cases g) (simp_all add: parse_rounding_mode_def member_def)
  show "parse_rounding_stage (JText (rounding_stage_value i)) = Inr i" by (cases i) (simp_all add: parse_rounding_stage_def member_def)
qed

section \<open>Financial semantics as JSON\<close>

definition opt_text :: "string option \<Rightarrow> json" where
  "opt_text v = (case v of None \<Rightarrow> JNull | Some t \<Rightarrow> JText t)"

lemma as_opt_text [simp]: "as_optional as_text (opt_text v) = Inr v"
  by (simp add: opt_text_def)

definition applicability_fields :: "evidence_applicability \<Rightarrow> (string \<times> json) list" where
  "applicability_fields a =
     [(''broker'', JText (ap_broker a)), (''contract_family'', opt_text (ap_contract_family a)), (''symbol'', opt_text (ap_symbol a)),
      (''account_currency'', opt_text (ap_account_currency a)), (''environment'', opt_text (ap_environment a)),
      (''quantity_basis'', opt_text (ap_quantity_basis a)), (''stop_loss_semantic_id'', opt_text (ap_stop_loss_semantic_id a)),
      (''multiplier_semantics_id'', opt_text (ap_multiplier_semantics_id a)),
      (''symbol_capability_scope'', opt_text (ap_symbol_capability_scope a))]"

definition applicability_to_json :: "evidence_applicability \<Rightarrow> json" where
  "applicability_to_json a = obj (applicability_fields a)"

definition applicability_names :: "string list" where
  "applicability_names = [''broker'', ''contract_family'', ''symbol'', ''account_currency'', ''environment'', ''quantity_basis'',
     ''stop_loss_semantic_id'', ''multiplier_semantics_id'', ''symbol_capability_scope'']"

fun keys_of :: "json \<Rightarrow> string set option" where
  "keys_of (JObj fs) = Some (fst ` set fs)"
| "keys_of v = None"

definition applicability_from_json :: "json \<Rightarrow> evidence_applicability result" where
  "applicability_from_json v =
     (if keys_of v \<noteq> Some (set applicability_names) then Inl (ValueError ''applicability payload is malformed'')
      else rbind (jfield ''broker'' v) (\<lambda>j. rbind (as_text j) (\<lambda>broker.
           rbind (each (\<lambda>name. rbind (jfield name v) (as_optional as_text)) (tl applicability_names)) (\<lambda>xs.
           make_evidence_applicability \<lparr>ap_broker = broker, ap_contract_family = xs ! 0, ap_symbol = xs ! 1,
             ap_account_currency = xs ! 2, ap_environment = xs ! 3, ap_quantity_basis = xs ! 4,
             ap_stop_loss_semantic_id = xs ! 5, ap_multiplier_semantics_id = xs ! 6, ap_symbol_capability_scope = xs ! 7\<rparr>))))"

definition output_fields :: "financial_output \<Rightarrow> (string \<times> json) list" where
  "output_fields x =
     [(''semantic'', JText (output_value (fo_semantic x))), (''unit'', JText (financial_unit_value (fo_unit x))),
      (''currency_binding'', JText (binding_value (fo_currency_binding x))), (''explicit_currency'', opt_text (fo_explicit_currency x)),
      (''signed'', JBool (fo_signed x)), (''zero_allowed'', JBool (fo_zero_allowed x))]"

definition output_to_json :: "financial_output option \<Rightarrow> json" where
  "output_to_json out = (case out of None \<Rightarrow> JNull | Some x \<Rightarrow> obj (output_fields x))"

definition output_from_json :: "json \<Rightarrow> financial_output option result" where
  "output_from_json v =
     (if v = JNull then Inr None
      else if keys_of v \<noteq> Some {''semantic'', ''unit'', ''currency_binding'', ''explicit_currency'', ''signed'', ''zero_allowed''}
      then Inl (ValueError ''financial output payload is malformed'')
      else rbind (rbind (jfield ''semantic'' v) parse_output) (\<lambda>semantic.
           rbind (rbind (jfield ''unit'' v) parse_unit) (\<lambda>un.
           rbind (rbind (jfield ''currency_binding'' v) parse_binding) (\<lambda>binding.
           rbind (rbind (jfield ''explicit_currency'' v) (as_optional as_text)) (\<lambda>currency.
           rbind (rbind (jfield ''signed'' v) as_flag) (\<lambda>signed.
           rbind (rbind (jfield ''zero_allowed'' v) as_flag) (\<lambda>zero.
           rbind (make_financial_output \<lparr>fo_semantic = semantic, fo_unit = un, fo_currency_binding = binding,
             fo_explicit_currency = currency, fo_signed = signed, fo_zero_allowed = zero\<rparr>) (\<lambda>x. Inr (Some x)))))))))"

definition operand_fields :: "financial_operand \<Rightarrow> (string \<times> json) list" where
  "operand_fields x =
     [(''operand_id'', JText (op_operand_id x)), (''semantic_id'', JText (op_semantic_id x)), (''unit'', JText (financial_unit_value (op_unit x))),
      (''role'', JText (role_value (op_role x))), (''position'', JInt (op_position x)), (''required'', JBool (op_required x)),
      (''domain'', JText (domain_value (op_domain x))), (''lower_bound'', decimal_json (op_lower_bound x)),
      (''upper_bound'', decimal_json (op_upper_bound x)), (''zero_allowed'', JBool (op_zero_allowed x)),
      (''currency_bound'', JBool (op_currency_bound x)), (''multiplier_bound'', JBool (op_multiplier_bound x))]"

definition operand_from_json :: "json \<Rightarrow> financial_operand result" where
  "operand_from_json v =
     rbind (rbind (jfield ''operand_id'' v) as_text) (\<lambda>operand_id.
     rbind (rbind (jfield ''semantic_id'' v) as_text) (\<lambda>semantic_id.
     rbind (rbind (jfield ''unit'' v) parse_unit) (\<lambda>un.
     rbind (rbind (jfield ''role'' v) parse_role) (\<lambda>role.
     rbind (rbind (jfield ''position'' v) as_number) (\<lambda>position.
     rbind (rbind (jfield ''required'' v) as_flag) (\<lambda>required.
     rbind (rbind (jfield ''domain'' v) parse_domain) (\<lambda>dom.
     rbind (rbind (jfield ''lower_bound'' v) parse_decimal) (\<lambda>lower.
     rbind (rbind (jfield ''upper_bound'' v) parse_decimal) (\<lambda>upper.
     rbind (rbind (jfield ''zero_allowed'' v) as_flag) (\<lambda>zero.
     rbind (rbind (jfield ''currency_bound'' v) as_flag) (\<lambda>currency.
     rbind (rbind (jfield ''multiplier_bound'' v) as_flag) (\<lambda>multiplier.
     make_financial_operand \<lparr>op_operand_id = operand_id, op_semantic_id = semantic_id, op_unit = un, op_role = role,
       op_position = position, op_required = required, op_domain = dom, op_lower_bound = lower, op_upper_bound = upper,
       op_zero_allowed = zero, op_currency_bound = currency, op_multiplier_bound = multiplier\<rparr>))))))))))))"

definition rounding_fields :: "rounding_policy \<Rightarrow> (string \<times> json) list" where
  "rounding_fields x =
     [(''required'', JBool (rp_required x)), (''precision'', case rp_precision x of None \<Rightarrow> JNull | Some n \<Rightarrow> JInt n),
      (''mode'', JText (rounding_mode_value (rp_mode x))), (''stage'', JText (rounding_stage_value (rp_stage x)))]"

definition rounding_from_json :: "json \<Rightarrow> rounding_policy result" where
  "rounding_from_json v =
     rbind (rbind (jfield ''required'' v) as_flag) (\<lambda>required.
     rbind (rbind (jfield ''precision'' v) (as_optional as_number)) (\<lambda>precision.
     rbind (rbind (jfield ''mode'' v) parse_rounding_mode) (\<lambda>mode.
     rbind (rbind (jfield ''stage'' v) parse_rounding_stage) (\<lambda>stage.
     make_rounding_policy \<lparr>rp_required = required, rp_precision = precision, rp_mode = mode, rp_stage = stage\<rparr>))))"

definition semantics_fields :: "financial_semantics \<Rightarrow> (string \<times> json) list" where
  "semantics_fields s =
     [(''schema_version'', JInt (fs_schema_version s)), (''semantic_id'', JText (fs_semantic_id s)),
      (''semantic_version'', JInt (fs_semantic_version s)), (''equation_family'', JText (family_value (fs_equation_family s))),
      (''equation_identity_hash'', JText (fs_equation_identity_hash s)),
      (''operands'', JList (map (\<lambda>x. obj (operand_fields x)) (fs_operands s))), (''output'', output_to_json (Some (fs_output s))),
      (''rounding'', obj (rounding_fields (fs_rounding s))),
      (''domain_constraint_ids'', JList (map JText (fs_domain_constraint_ids s))),
      (''applicability'', applicability_to_json (fs_applicability s)), (''contract_family'', JText (fs_contract_family s)),
      (''quantity_basis_semantic_id'', JText (fs_quantity_basis_semantic_id s)), (''stop_semantic_id'', JText (fs_stop_semantic_id s)),
      (''multiplier_semantic_id'', JText (fs_multiplier_semantic_id s)), (''take_profit_output'', output_to_json (fs_take_profit_output s)),
      (''take_profit_semantic_id'', opt_text (fs_take_profit_semantic_id s)),
      (''maximum_loss_output'', output_to_json (fs_maximum_loss_output s)),
      (''maximum_loss_semantic_id'', opt_text (fs_maximum_loss_semantic_id s)),
      (''allowed_multiplier_values'', JList (map (\<lambda>d. decimal_json (Some d)) (fs_allowed_multiplier_values s)))]"

text \<open>The payload of the material hash and that of the store are the same value.\<close>

definition semantics_to_json :: "financial_semantics option \<Rightarrow> json" where
  "semantics_to_json v = (case v of None \<Rightarrow> JNull | Some s \<Rightarrow> obj (semantics_fields s))"

definition financial_semantics_hash :: "(json \<Rightarrow> string) \<Rightarrow> financial_semantics \<Rightarrow> string" where
  "financial_semantics_hash sha s = sha (obj (semantics_fields s))"

definition demanded :: "string \<Rightarrow> 'a option \<Rightarrow> 'a result" where
  "demanded message v = (case v of None \<Rightarrow> Inl (ValueError message) | Some x \<Rightarrow> Inr x)"

definition semantics_from_json :: "json \<Rightarrow> financial_semantics option result" where
  "semantics_from_json v =
     (if v = JNull then Inr None
      else if keys_of v = None then Inl (ValueError ''financial semantics payload is malformed'')
      else rbind (rbind (rbind (jfield ''operands'' v) jitems) (each operand_from_json)) (\<lambda>operands.
           rbind (jfield ''rounding'' v) (\<lambda>r.
           rbind (rbind (jfield ''schema_version'' v) as_number) (\<lambda>version.
           rbind (rbind (jfield ''semantic_id'' v) as_text) (\<lambda>semantic_id.
           rbind (rbind (jfield ''semantic_version'' v) as_number) (\<lambda>semantic_version.
           rbind (rbind (jfield ''equation_family'' v) parse_family) (\<lambda>family.
           rbind (rbind (jfield ''equation_identity_hash'' v) as_text) (\<lambda>equation.
           rbind (rbind (rbind (jfield ''output'' v) output_from_json) (demanded ''output is invalid'')) (\<lambda>out.
           rbind (rounding_from_json r) (\<lambda>rounding.
           rbind (rbind (jfield ''domain_constraint_ids'' v) as_texts) (\<lambda>constraints.
           rbind (rbind (jfield ''applicability'' v) applicability_from_json) (\<lambda>applicability.
           rbind (rbind (jfield ''contract_family'' v) as_text) (\<lambda>family_id.
           rbind (rbind (jfield ''quantity_basis_semantic_id'' v) as_text) (\<lambda>basis.
           rbind (rbind (jfield ''stop_semantic_id'' v) as_text) (\<lambda>stop.
           rbind (rbind (jfield ''multiplier_semantic_id'' v) as_text) (\<lambda>multiplier.
           rbind (rbind (jfield ''take_profit_output'' v) output_from_json) (\<lambda>profit.
           rbind (rbind (jfield ''take_profit_semantic_id'' v) (as_optional as_text)) (\<lambda>profit_id.
           rbind (rbind (jfield ''maximum_loss_output'' v) output_from_json) (\<lambda>loss.
           rbind (rbind (jfield ''maximum_loss_semantic_id'' v) (as_optional as_text)) (\<lambda>loss_id.
           rbind (rbind (rbind (jfield ''allowed_multiplier_values'' v) jitems)
             (each (\<lambda>j. rbind (parse_decimal j) (demanded ''allowed multipliers must be positive finite Decimals'')))) (\<lambda>multipliers.
           rbind (make_financial_semantics
             \<lparr>fs_schema_version = version, fs_semantic_id = semantic_id, fs_semantic_version = semantic_version,
              fs_equation_family = family, fs_equation_identity_hash = equation, fs_operands = operands, fs_output = out,
              fs_rounding = rounding, fs_domain_constraint_ids = constraints, fs_applicability = applicability,
              fs_contract_family = family_id, fs_quantity_basis_semantic_id = basis, fs_stop_semantic_id = stop,
              fs_multiplier_semantic_id = multiplier, fs_take_profit_output = profit, fs_take_profit_semantic_id = profit_id,
              fs_maximum_loss_output = loss, fs_maximum_loss_semantic_id = loss_id, fs_allowed_multiplier_values = multipliers\<rparr>)
             (\<lambda>s. Inr (Some s)))))))))))))))))))))))"

section \<open>Semantics survive the round trip\<close>

text \<open>What is read back: the decimals are those the printed texts spell.\<close>

definition operand_printed :: "financial_operand \<Rightarrow> financial_operand" where
  "operand_printed x = x\<lparr>op_lower_bound := map_option eng_literal (op_lower_bound x),
     op_upper_bound := map_option eng_literal (op_upper_bound x)\<rparr>"

definition semantics_printed :: "financial_semantics \<Rightarrow> financial_semantics" where
  "semantics_printed s = s\<lparr>fs_operands := map operand_printed (fs_operands s),
     fs_allowed_multiplier_values := map eng_literal (fs_allowed_multiplier_values s)\<rparr>"

text \<open>Semantics all parts of which went through their constructors.\<close>

definition semantics_made :: "financial_semantics \<Rightarrow> bool" where
  "semantics_made s \<longleftrightarrow> make_financial_semantics s = Inr s \<and> (\<forall>x \<in> set (fs_operands s). make_financial_operand x = Inr x)
     \<and> make_financial_output (fs_output s) = Inr (fs_output s) \<and> make_rounding_policy (fs_rounding s) = Inr (fs_rounding s)
     \<and> make_evidence_applicability (fs_applicability s) = Inr (fs_applicability s)
     \<and> (\<forall>x. fs_take_profit_output s = Some x \<longrightarrow> make_financial_output x = Inr x)
     \<and> (\<forall>x. fs_maximum_loss_output s = Some x \<longrightarrow> make_financial_output x = Inr x)"

lemma fields_distinct [simp]:
  "distinct (map fst (applicability_fields a))" "distinct (map fst (output_fields x))" "distinct (map fst (operand_fields p))"
  "distinct (map fst (rounding_fields r))" "distinct (map fst (semantics_fields s))"
  by (simp_all add: applicability_fields_def output_fields_def operand_fields_def rounding_fields_def semantics_fields_def)

lemma keys_of_obj [simp]: "keys_of (obj fs) = Some (fst ` set fs)"
  by (simp add: obj_def)

lemma obj_not_null [simp]: "obj fs \<noteq> JNull"
  by (simp add: obj_def)

lemma jitems_list [simp]: "each f (map g xs) = r \<Longrightarrow> rbind (jitems (JList (map g xs))) (each f) = r"
  by simp

lemma applicability_roundtrip:
  assumes "make_evidence_applicability a = Inr a"
  shows "applicability_from_json (applicability_to_json a) = Inr a"
proof -
  have c: "\<lparr>ap_broker = ap_broker a, ap_contract_family = ap_contract_family a, ap_symbol = ap_symbol a,
      ap_account_currency = ap_account_currency a, ap_environment = ap_environment a, ap_quantity_basis = ap_quantity_basis a,
      ap_stop_loss_semantic_id = ap_stop_loss_semantic_id a, ap_multiplier_semantics_id = ap_multiplier_semantics_id a,
      ap_symbol_capability_scope = ap_symbol_capability_scope a\<rparr> = a"
    by simp
  have "fst ` set (applicability_fields a) = set applicability_names"
    by (simp add: applicability_fields_def applicability_names_def)
  moreover have "each (\<lambda>name. rbind (jfield name (obj (applicability_fields a))) (as_optional as_text)) (tl applicability_names)
     = Inr [ap_contract_family a, ap_symbol a, ap_account_currency a, ap_environment a, ap_quantity_basis a,
         ap_stop_loss_semantic_id a, ap_multiplier_semantics_id a, ap_symbol_capability_scope a]"
    by (simp add: applicability_names_def) (simp add: applicability_fields_def)
  moreover have "jfield ''broker'' (obj (applicability_fields a)) = Inr (JText (ap_broker a))"
    by simp (simp add: applicability_fields_def)
  ultimately show ?thesis
    using assms by (simp add: applicability_from_json_def applicability_to_json_def c del: jfield_obj)
qed

lemma output_fields_get:
  "jfield ''semantic'' (obj (output_fields x)) = Inr (JText (output_value (fo_semantic x)))"
  "jfield ''unit'' (obj (output_fields x)) = Inr (JText (financial_unit_value (fo_unit x)))"
  "jfield ''currency_binding'' (obj (output_fields x)) = Inr (JText (binding_value (fo_currency_binding x)))"
  "jfield ''explicit_currency'' (obj (output_fields x)) = Inr (opt_text (fo_explicit_currency x))"
  "jfield ''signed'' (obj (output_fields x)) = Inr (JBool (fo_signed x))"
  "jfield ''zero_allowed'' (obj (output_fields x)) = Inr (JBool (fo_zero_allowed x))"
  by (simp_all only: jfield_obj fields_distinct) (simp_all add: output_fields_def)

lemma output_roundtrip:
  assumes "\<And>x. out = Some x \<Longrightarrow> make_financial_output x = Inr x"
  shows "output_from_json (output_to_json out) = Inr out"
proof (cases out)
  case (Some x)
  have c: "\<lparr>fo_semantic = fo_semantic x, fo_unit = fo_unit x, fo_currency_binding = fo_currency_binding x,
      fo_explicit_currency = fo_explicit_currency x, fo_signed = fo_signed x, fo_zero_allowed = fo_zero_allowed x\<rparr> = x"
    by simp
  have "fst ` set (output_fields x) = {''semantic'', ''unit'', ''currency_binding'', ''explicit_currency'', ''signed'', ''zero_allowed''}"
    by (simp add: output_fields_def)
  then show ?thesis
    using assms [OF Some] Some
    by (simp add: output_from_json_def output_to_json_def output_fields_get c del: jfield_obj)
qed (simp add: output_from_json_def output_to_json_def)

lemma rounding_roundtrip:
  assumes "make_rounding_policy r = Inr r"
  shows "rounding_from_json (obj (rounding_fields r)) = Inr r"
proof -
  have c: "\<lparr>rp_required = rp_required r, rp_precision = rp_precision r, rp_mode = rp_mode r, rp_stage = rp_stage r\<rparr> = r"
    by simp
  have "as_optional as_number (case rp_precision r of None \<Rightarrow> JNull | Some n \<Rightarrow> JInt n) = Inr (rp_precision r)"
    by (cases "rp_precision r") simp_all
  then show ?thesis
    using assms by (simp add: rounding_from_json_def c) (simp add: rounding_fields_def c)
qed

lemma operand_fields_get:
  "jfield ''operand_id'' (obj (operand_fields x)) = Inr (JText (op_operand_id x))"
  "jfield ''semantic_id'' (obj (operand_fields x)) = Inr (JText (op_semantic_id x))"
  "jfield ''unit'' (obj (operand_fields x)) = Inr (JText (financial_unit_value (op_unit x)))"
  "jfield ''role'' (obj (operand_fields x)) = Inr (JText (role_value (op_role x)))"
  "jfield ''position'' (obj (operand_fields x)) = Inr (JInt (op_position x))"
  "jfield ''required'' (obj (operand_fields x)) = Inr (JBool (op_required x))"
  "jfield ''domain'' (obj (operand_fields x)) = Inr (JText (domain_value (op_domain x)))"
  "jfield ''lower_bound'' (obj (operand_fields x)) = Inr (decimal_json (op_lower_bound x))"
  "jfield ''upper_bound'' (obj (operand_fields x)) = Inr (decimal_json (op_upper_bound x))"
  "jfield ''zero_allowed'' (obj (operand_fields x)) = Inr (JBool (op_zero_allowed x))"
  "jfield ''currency_bound'' (obj (operand_fields x)) = Inr (JBool (op_currency_bound x))"
  "jfield ''multiplier_bound'' (obj (operand_fields x)) = Inr (JBool (op_multiplier_bound x))"
  by (simp_all only: jfield_obj fields_distinct) (simp_all add: operand_fields_def)

lemma operand_printed_made:
  assumes "make_financial_operand x = Inr x"
  shows "make_financial_operand (operand_printed x) = Inr (operand_printed x)"
proof -
  have "operand_checks (operand_printed x) = operand_checks x"
    by (simp add: operand_checks_def operand_printed_def infinite_bound_def split: option.split)
  with assms show ?thesis by (auto simp: make_financial_operand_def simp del: raise_first.simps)
qed

lemma operand_roundtrip:
  assumes "make_financial_operand x = Inr x"
  shows "operand_from_json (obj (operand_fields x)) = Inr (operand_printed x)"
proof -
  have c: "raise_first (operand_checks x) = Inr ()" using assms by (auto simp: make_financial_operand_def)
  have fin: "\<And>d. op_lower_bound x = Some d \<Longrightarrow> finite_literal d" "\<And>d. op_upper_bound x = Some d \<Longrightarrow> finite_literal d"
    using c by (auto simp: raise_first_Inr operand_checks_def ball_Un infinite_bound_def simp del: raise_first.simps)
  have "make_financial_operand (operand_printed x) = Inr (operand_printed x)" using assms by (rule operand_printed_made)
  moreover have "parse_decimal (decimal_json (op_lower_bound x)) = Inr (map_option eng_literal (op_lower_bound x))"
    "parse_decimal (decimal_json (op_upper_bound x)) = Inr (map_option eng_literal (op_upper_bound x))"
    by (rule parse_decimal_json, erule fin)+
  moreover have "\<lparr>op_operand_id = op_operand_id x, op_semantic_id = op_semantic_id x, op_unit = op_unit x, op_role = op_role x,
      op_position = op_position x, op_required = op_required x, op_domain = op_domain x,
      op_lower_bound = map_option eng_literal (op_lower_bound x), op_upper_bound = map_option eng_literal (op_upper_bound x),
      op_zero_allowed = op_zero_allowed x, op_currency_bound = op_currency_bound x, op_multiplier_bound = op_multiplier_bound x\<rparr>
    = operand_printed x"
    by (cases x) (simp add: operand_printed_def)
  ultimately show ?thesis
    by (simp add: operand_from_json_def operand_fields_get del: jfield_obj)
qed

lemma operand_printed_simps [simp]:
  "op_operand_id (operand_printed x) = op_operand_id x" "op_semantic_id (operand_printed x) = op_semantic_id x"
  "op_unit (operand_printed x) = op_unit x" "op_role (operand_printed x) = op_role x" "op_position (operand_printed x) = op_position x"
  "op_required (operand_printed x) = op_required x" "op_domain (operand_printed x) = op_domain x"
  "op_lower_bound (operand_printed x) = map_option eng_literal (op_lower_bound x)"
  "op_upper_bound (operand_printed x) = map_option eng_literal (op_upper_bound x)"
  "op_zero_allowed (operand_printed x) = op_zero_allowed x" "op_currency_bound (operand_printed x) = op_currency_bound x"
  "op_multiplier_bound (operand_printed x) = op_multiplier_bound x"
  by (simp_all add: operand_printed_def)

lemma operand_fields_printed [simp]: "operand_fields (operand_printed x) = operand_fields x"
  by (simp add: operand_fields_def)

lemma semantics_fields_printed [simp]: "semantics_fields (semantics_printed s) = semantics_fields s"
  by (simp add: semantics_fields_def semantics_printed_def comp_def)

lemma literal_value_eng [simp]: "literal_value \<circ> eng_literal = literal_value"
  by (simp add: fun_eq_iff)

lemma printed_is_same [simp]: "same_semantics (semantics_printed s) s"
proof -
  have "same_operand (operand_printed x) x" for x
    by (simp add: same_operand_def operand_schema_def operand_domain_def option.map_comp)
  then have "list_all2 same_operand (map operand_printed xs) xs" for xs by (induction xs) simp_all
  then show ?thesis by (cases s) (simp add: same_semantics_def semantics_printed_def)
qed

lemma semantics_printed_made:
  assumes "make_financial_semantics s = Inr s"
  shows "make_financial_semantics (semantics_printed s) = Inr (semantics_printed s)"
proof -
  have "semantics_checks (semantics_printed s) = semantics_checks s"
    by (simp add: semantics_checks_def semantics_printed_def list.pred_map comp_def)
  with assms show ?thesis by (auto simp: make_financial_semantics_def simp del: raise_first.simps)
qed

lemma semantics_fields_get:
  "jfield ''schema_version'' (obj (semantics_fields s)) = Inr (JInt (fs_schema_version s))"
  "jfield ''semantic_id'' (obj (semantics_fields s)) = Inr (JText (fs_semantic_id s))"
  "jfield ''semantic_version'' (obj (semantics_fields s)) = Inr (JInt (fs_semantic_version s))"
  "jfield ''equation_family'' (obj (semantics_fields s)) = Inr (JText (family_value (fs_equation_family s)))"
  "jfield ''equation_identity_hash'' (obj (semantics_fields s)) = Inr (JText (fs_equation_identity_hash s))"
  "jfield ''operands'' (obj (semantics_fields s)) = Inr (JList (map (\<lambda>x. obj (operand_fields x)) (fs_operands s)))"
  "jfield ''output'' (obj (semantics_fields s)) = Inr (output_to_json (Some (fs_output s)))"
  "jfield ''rounding'' (obj (semantics_fields s)) = Inr (obj (rounding_fields (fs_rounding s)))"
  "jfield ''domain_constraint_ids'' (obj (semantics_fields s)) = Inr (JList (map JText (fs_domain_constraint_ids s)))"
  "jfield ''applicability'' (obj (semantics_fields s)) = Inr (applicability_to_json (fs_applicability s))"
  "jfield ''contract_family'' (obj (semantics_fields s)) = Inr (JText (fs_contract_family s))"
  "jfield ''quantity_basis_semantic_id'' (obj (semantics_fields s)) = Inr (JText (fs_quantity_basis_semantic_id s))"
  "jfield ''stop_semantic_id'' (obj (semantics_fields s)) = Inr (JText (fs_stop_semantic_id s))"
  "jfield ''multiplier_semantic_id'' (obj (semantics_fields s)) = Inr (JText (fs_multiplier_semantic_id s))"
  "jfield ''take_profit_output'' (obj (semantics_fields s)) = Inr (output_to_json (fs_take_profit_output s))"
  "jfield ''take_profit_semantic_id'' (obj (semantics_fields s)) = Inr (opt_text (fs_take_profit_semantic_id s))"
  "jfield ''maximum_loss_output'' (obj (semantics_fields s)) = Inr (output_to_json (fs_maximum_loss_output s))"
  "jfield ''maximum_loss_semantic_id'' (obj (semantics_fields s)) = Inr (opt_text (fs_maximum_loss_semantic_id s))"
  "jfield ''allowed_multiplier_values'' (obj (semantics_fields s)) =
     Inr (JList (map (\<lambda>d. decimal_json (Some d)) (fs_allowed_multiplier_values s)))"
  by (simp_all only: jfield_obj fields_distinct) (simp_all add: semantics_fields_def)

lemma semantics_roundtrip:
  assumes "semantics_made s"
  shows "semantics_from_json (obj (semantics_fields s)) = Inr (Some (semantics_printed s))"
proof -
  note made = assms [unfolded semantics_made_def]
  have operands: "each operand_from_json (map (\<lambda>x. obj (operand_fields x)) (fs_operands s)) = Inr (map operand_printed (fs_operands s))"
    by (rule each_map) (use made operand_roundtrip in blast)
  have "raise_first (semantics_checks s) = Inr ()" using made by (auto simp: make_financial_semantics_def)
  then have fin: "\<And>d. d \<in> set (fs_allowed_multiplier_values s) \<Longrightarrow> finite_literal d"
    by (simp add: raise_first_Inr semantics_checks_def ball_Un list_all_iff del: raise_first.simps)
  have multipliers: "each (\<lambda>j. rbind (parse_decimal j) (demanded ''allowed multipliers must be positive finite Decimals''))
      (map (\<lambda>d. JDecimal (eng_literal d)) (fs_allowed_multiplier_values s)) = Inr (map eng_literal (fs_allowed_multiplier_values s))"
    by (rule each_map) (simp add: fin demanded_def)
  have outputs: "output_from_json (output_to_json (Some (fs_output s))) = Inr (Some (fs_output s))"
    "output_from_json (output_to_json (fs_take_profit_output s)) = Inr (fs_take_profit_output s)"
    "output_from_json (output_to_json (fs_maximum_loss_output s)) = Inr (fs_maximum_loss_output s)"
    using made by (auto intro!: output_roundtrip)
  have c: "\<lparr>fs_schema_version = fs_schema_version s, fs_semantic_id = fs_semantic_id s, fs_semantic_version = fs_semantic_version s,
      fs_equation_family = fs_equation_family s, fs_equation_identity_hash = fs_equation_identity_hash s,
      fs_operands = map operand_printed (fs_operands s), fs_output = fs_output s, fs_rounding = fs_rounding s,
      fs_domain_constraint_ids = fs_domain_constraint_ids s, fs_applicability = fs_applicability s,
      fs_contract_family = fs_contract_family s, fs_quantity_basis_semantic_id = fs_quantity_basis_semantic_id s,
      fs_stop_semantic_id = fs_stop_semantic_id s, fs_multiplier_semantic_id = fs_multiplier_semantic_id s,
      fs_take_profit_output = fs_take_profit_output s, fs_take_profit_semantic_id = fs_take_profit_semantic_id s,
      fs_maximum_loss_output = fs_maximum_loss_output s, fs_maximum_loss_semantic_id = fs_maximum_loss_semantic_id s,
      fs_allowed_multiplier_values = map eng_literal (fs_allowed_multiplier_values s)\<rparr> = semantics_printed s"
    by (cases s) (simp add: semantics_printed_def)
  have "applicability_from_json (applicability_to_json (fs_applicability s)) = Inr (fs_applicability s)"
    "rounding_from_json (obj (rounding_fields (fs_rounding s))) = Inr (fs_rounding s)"
    using made applicability_roundtrip rounding_roundtrip by blast+
  then show ?thesis
    using semantics_printed_made [of s] made
    by (simp add: semantics_from_json_def semantics_fields_get operands multipliers outputs demanded_def c del: jfield_obj)
qed

section \<open>Entries and revocations as JSON\<close>

fun registration_state_value :: "registration_state \<Rightarrow> string" where
  "registration_state_value ELIGIBLE_FOR_REGISTRATION = ''ELIGIBLE_FOR_REGISTRATION''"
| "registration_state_value INELIGIBLE = ''INELIGIBLE''"

fun registration_reason_value :: "registration_reason \<Rightarrow> string" where
  "registration_reason_value REGISTRATION_CHAIN_COMPLETE = ''REGISTRATION_CHAIN_COMPLETE''"
| "registration_reason_value SOURCE_ASSESSMENT_INVALID = ''SOURCE_ASSESSMENT_INVALID''"
| "registration_reason_value SOURCE_ASSESSMENT_NOT_READY = ''SOURCE_ASSESSMENT_NOT_READY''"
| "registration_reason_value ADVISORY_DECISION_NOT_APPROVED = ''ADVISORY_DECISION_NOT_APPROVED''"
| "registration_reason_value CANDIDATE_IDENTITY_MISMATCH = ''CANDIDATE_IDENTITY_MISMATCH''"
| "registration_reason_value EVIDENCE_IDENTITY_MISMATCH = ''EVIDENCE_IDENTITY_MISMATCH''"
| "registration_reason_value CLAIM_SET_MISMATCH = ''CLAIM_SET_MISMATCH''"
| "registration_reason_value APPLICABILITY_MISMATCH = ''APPLICABILITY_MISMATCH''"
| "registration_reason_value INDEPENDENT_VERIFICATION_MISSING = ''INDEPENDENT_VERIFICATION_MISSING''"
| "registration_reason_value INDEPENDENT_VERIFICATION_NOT_VERIFIED = ''INDEPENDENT_VERIFICATION_NOT_VERIFIED''"
| "registration_reason_value INDEPENDENT_VERIFICATION_MISMATCH = ''INDEPENDENT_VERIFICATION_MISMATCH''"
| "registration_reason_value CANDIDATE_REVOKED = ''CANDIDATE_REVOKED''"
| "registration_reason_value INDEPENDENT_VERIFICATION_REVOKED = ''INDEPENDENT_VERIFICATION_REVOKED''"
| "registration_reason_value REVOCATION_RECORD_CONFLICT = ''REVOCATION_RECORD_CONFLICT''"
| "registration_reason_value FINANCIAL_SEMANTICS_MISSING = ''FINANCIAL_SEMANTICS_MISSING''"
| "registration_reason_value SEMANTIC_ID_MISMATCH = ''SEMANTIC_ID_MISMATCH''"
| "registration_reason_value SEMANTIC_VERSION_MISMATCH = ''SEMANTIC_VERSION_MISMATCH''"
| "registration_reason_value EQUATION_IDENTITY_MISMATCH = ''EQUATION_IDENTITY_MISMATCH''"
| "registration_reason_value OPERAND_SCHEMA_MISMATCH = ''OPERAND_SCHEMA_MISMATCH''"
| "registration_reason_value UNIT_SCHEMA_MISMATCH = ''UNIT_SCHEMA_MISMATCH''"
| "registration_reason_value OUTPUT_SEMANTIC_MISMATCH = ''OUTPUT_SEMANTIC_MISMATCH''"
| "registration_reason_value DOMAIN_MISMATCH = ''DOMAIN_MISMATCH''"
| "registration_reason_value ROUNDING_POLICY_MISMATCH = ''ROUNDING_POLICY_MISMATCH''"

fun target_value :: "revocation_target \<Rightarrow> string" where
  "target_value CANDIDATE_TARGET = ''CANDIDATE''"
| "target_value VERIFICATION_TARGET = ''INDEPENDENT_VERIFICATION''"
| "target_value REGISTERED_PROOF_TARGET = ''REGISTERED_PROOF''"

fun revocation_reason_value :: "revocation_reason \<Rightarrow> string" where
  "revocation_reason_value REVOKED = ''REVOKED''"
| "revocation_reason_value SUPERSEDED = ''SUPERSEDED''"
| "revocation_reason_value EVIDENCE_INVALIDATED = ''EVIDENCE_INVALIDATED''"
| "revocation_reason_value APPLICABILITY_INVALIDATED = ''APPLICABILITY_INVALIDATED''"

definition parse_registration_state :: "json \<Rightarrow> registration_state result" where
  "parse_registration_state = as_member registration_state_value [ELIGIBLE_FOR_REGISTRATION, INELIGIBLE]"

definition parse_registration_reason :: "json \<Rightarrow> registration_reason result" where
  "parse_registration_reason = as_member registration_reason_value
     [REGISTRATION_CHAIN_COMPLETE, SOURCE_ASSESSMENT_INVALID, SOURCE_ASSESSMENT_NOT_READY, ADVISORY_DECISION_NOT_APPROVED,
      CANDIDATE_IDENTITY_MISMATCH, EVIDENCE_IDENTITY_MISMATCH, CLAIM_SET_MISMATCH, APPLICABILITY_MISMATCH,
      INDEPENDENT_VERIFICATION_MISSING, INDEPENDENT_VERIFICATION_NOT_VERIFIED, INDEPENDENT_VERIFICATION_MISMATCH, CANDIDATE_REVOKED,
      INDEPENDENT_VERIFICATION_REVOKED, REVOCATION_RECORD_CONFLICT, FINANCIAL_SEMANTICS_MISSING, SEMANTIC_ID_MISMATCH,
      SEMANTIC_VERSION_MISMATCH, EQUATION_IDENTITY_MISMATCH, OPERAND_SCHEMA_MISMATCH, UNIT_SCHEMA_MISMATCH,
      OUTPUT_SEMANTIC_MISMATCH, DOMAIN_MISMATCH, ROUNDING_POLICY_MISMATCH]"

definition parse_target :: "json \<Rightarrow> revocation_target result" where
  "parse_target = as_member target_value [CANDIDATE_TARGET, VERIFICATION_TARGET, REGISTERED_PROOF_TARGET]"

definition parse_revocation_reason :: "json \<Rightarrow> revocation_reason result" where
  "parse_revocation_reason = as_member revocation_reason_value [REVOKED, SUPERSEDED, EVIDENCE_INVALIDATED, APPLICABILITY_INVALIDATED]"

definition entry_to_json :: "registry_entry \<Rightarrow> json result" where
  "entry_to_json e =
     rbind (time_json (am_admitted_at e)) (\<lambda>admitted_at. rbind (time_json (ln_valid_from e)) (\<lambda>valid_from.
     rbind (time_json (ln_valid_until e)) (\<lambda>valid_until. Inr (obj
       [(''schema_version'', JInt (ln_schema_version e)), (''admission_id'', JText (am_admission_id e)),
        (''proof_id'', JText (am_proof_id e)), (''candidate_id'', JText (ln_candidate_id e)),
        (''candidate_material_hash'', JText (ln_candidate_material_hash e)),
        (''verification_decision_id'', JText (am_verification_decision_id e)),
        (''source_assessment_id'', JText (ln_source_assessment_id e)), (''review_decision_id'', JText (ln_review_decision_id e)),
        (''artifact_ids'', JList (map JText (ln_artifact_ids e))),
        (''artifact_content_hashes'', JList (map JText (ln_artifact_content_hashes e))),
        (''claim_ids'', JList (map JText (ln_claim_ids e))), (''applicability'', applicability_to_json (ln_applicability e)),
        (''loss_model_id'', JText (ln_loss_model_id e)), (''loss_model_version'', JInt (ln_loss_model_version e)),
        (''evidence_source_id'', JText (ln_evidence_source_id e)),
        (''eligibility_state'', JText (registration_state_value (en_eligibility_state e))),
        (''eligibility_reason_codes'', JList (map JText (sorted_list_of_set (registration_reason_value ` en_eligibility_reason_codes e)))),
        (''admitted_by'', JText (am_admitted_by e)), (''admitted_at'', admitted_at), (''valid_from'', valid_from),
        (''valid_until'', valid_until), (''financial_semantics'', semantics_to_json (ln_financial_semantics e))]))))"

definition entry_from_json :: "(json \<Rightarrow> string) \<Rightarrow> json \<Rightarrow> registry_entry result" where
  "entry_from_json sha v =
     (if keys_of v = None then Inl (ValueError ''registry entry payload is malformed'')
      else rbind (rbind (jfield ''financial_semantics'' v) semantics_from_json) (\<lambda>semantics.
           rbind (rbind (jfield ''schema_version'' v) as_number) (\<lambda>version.
           rbind (rbind (jfield ''admission_id'' v) as_text) (\<lambda>admission_id.
           rbind (rbind (jfield ''proof_id'' v) as_text) (\<lambda>proof_id.
           rbind (rbind (jfield ''candidate_id'' v) as_text) (\<lambda>candidate_id.
           rbind (rbind (jfield ''candidate_material_hash'' v) as_text) (\<lambda>material.
           rbind (rbind (jfield ''verification_decision_id'' v) as_text) (\<lambda>verification_id.
           rbind (rbind (jfield ''source_assessment_id'' v) as_text) (\<lambda>assessment_id.
           rbind (rbind (jfield ''review_decision_id'' v) as_text) (\<lambda>decision_id.
           rbind (rbind (jfield ''artifact_ids'' v) as_texts) (\<lambda>artifact_ids.
           rbind (rbind (jfield ''artifact_content_hashes'' v) as_texts) (\<lambda>hashes.
           rbind (rbind (jfield ''claim_ids'' v) as_texts) (\<lambda>claim_ids.
           rbind (rbind (jfield ''applicability'' v) applicability_from_json) (\<lambda>applicability.
           rbind (rbind (jfield ''loss_model_id'' v) as_text) (\<lambda>model_id.
           rbind (rbind (jfield ''loss_model_version'' v) as_number) (\<lambda>model_version.
           rbind (rbind (jfield ''evidence_source_id'' v) as_text) (\<lambda>source_id.
           rbind (rbind (jfield ''eligibility_state'' v) parse_registration_state) (\<lambda>st.
           rbind (rbind (rbind (jfield ''eligibility_reason_codes'' v) jitems) (each parse_registration_reason)) (\<lambda>reasons.
           rbind (rbind (jfield ''admitted_by'' v) as_text) (\<lambda>admitted_by.
           rbind (rbind (jfield ''admitted_at'' v) parse_time) (\<lambda>admitted_at.
           rbind (rbind (jfield ''valid_from'' v) parse_time) (\<lambda>valid_from.
           rbind (rbind (jfield ''valid_until'' v) parse_time) (\<lambda>valid_until.
           rbind (make_registry_entry
             \<lparr>ln_schema_version = version, ln_candidate_id = candidate_id, ln_candidate_material_hash = material,
              ln_loss_model_id = model_id, ln_loss_model_version = model_version, ln_evidence_source_id = source_id,
              ln_source_assessment_id = assessment_id, ln_review_decision_id = decision_id, ln_artifact_ids = artifact_ids,
              ln_artifact_content_hashes = hashes, ln_claim_ids = claim_ids, ln_applicability = applicability,
              ln_valid_from = valid_from, ln_valid_until = valid_until, ln_financial_semantics = semantics,
              am_admission_id = admission_id, am_proof_id = proof_id, am_verification_decision_id = verification_id,
              am_admitted_by = admitted_by, am_admitted_at = admitted_at,
              en_eligibility_state = st, en_eligibility_reason_codes = set reasons\<rparr>) (\<lambda>e.
           if (case semantics of None \<Rightarrow> False | Some s \<Rightarrow> financial_semantics_hash sha s \<noteq> ln_candidate_material_hash e)
           then Inl (ValueError ''financial semantic material hash does not match proof lineage'') else Inr e))))))))))))))))))))))))"

definition revocation_to_json :: "proof_revocation \<Rightarrow> json result" where
  "revocation_to_json r =
     rbind (time_json (rx_revoked_at r)) (\<lambda>revoked_at. Inr (obj
       [(''schema_version'', JInt (rx_schema_version r)), (''revocation_id'', JText (rx_revocation_id r)),
        (''target_kind'', JText (target_value (rx_target_kind r))), (''target_id'', JText (rx_target_id r)),
        (''reason'', JText (revocation_reason_value (rx_reason r))), (''revoked_by'', JText (rx_revoked_by r)),
        (''revoked_at'', revoked_at), (''superseded_by_id'', opt_text (rx_superseded_by_id r))]))"

definition revocation_from_json :: "json \<Rightarrow> proof_revocation result" where
  "revocation_from_json v =
     (if keys_of v = None then Inl (ValueError ''revocation payload is malformed'')
      else rbind (rbind (jfield ''schema_version'' v) as_number) (\<lambda>version.
           rbind (rbind (jfield ''revocation_id'' v) as_text) (\<lambda>revocation_id.
           rbind (rbind (jfield ''target_kind'' v) parse_target) (\<lambda>kind.
           rbind (rbind (jfield ''target_id'' v) as_text) (\<lambda>target_id.
           rbind (rbind (jfield ''reason'' v) parse_revocation_reason) (\<lambda>reason.
           rbind (rbind (jfield ''revoked_by'' v) as_text) (\<lambda>revoked_by.
           rbind (rbind (jfield ''revoked_at'' v) parse_time) (\<lambda>revoked_at.
           rbind (rbind (jfield ''superseded_by_id'' v) (as_optional as_text)) (\<lambda>superseded_by_id.
           make_proof_revocation
             \<lparr>rx_schema_version = version, rx_revocation_id = revocation_id, rx_target_kind = kind, rx_target_id = target_id,
              rx_reason = reason, rx_revoked_by = revoked_by, rx_revoked_at = revoked_at, rx_superseded_by_id = superseded_by_id\<rparr>)))))))))"

section \<open>The durable state\<close>

record durable_state =
  du_registry :: registry_state
  du_revocations :: "proof_revocation list"

definition make_durable_state :: "durable_state \<Rightarrow> durable_state result" where
  "make_durable_state s =
     rbind (raise_first
       [(du_revocations s \<noteq> sort_key rx_revocation_id (du_revocations s), ''revocations must use deterministic ID ordering''),
        (\<not> distinct (map rx_revocation_id (du_revocations s)), ''duplicate revocation ID is not allowed''),
        (contradictory [] (map (\<lambda>r. ((rx_target_kind r, rx_target_id r), (rx_reason r, rx_superseded_by_id r))) (du_revocations s)),
         ''conflicting revocation authority is not allowed'')]) (\<lambda>_. Inr s)"

definition state_to_payload :: "durable_state \<Rightarrow> json result" where
  "state_to_payload s =
     rbind (each entry_to_json (du_registry s)) (\<lambda>es. rbind (each revocation_to_json (du_revocations s)) (\<lambda>rs.
     Inr (obj [(''entries'', JList es), (''revocations'', JList rs)])))"

definition state_from_payload :: "(json \<Rightarrow> string) \<Rightarrow> json \<Rightarrow> durable_state result" where
  "state_from_payload sha payload =
     (if keys_of payload \<noteq> Some {''entries'', ''revocations''} then Inl (ValueError ''durable payload shape is invalid'')
      else rbind (rbind (rbind (jfield ''entries'' payload) jitems) (each (entry_from_json sha))) (\<lambda>es.
           rbind (make_registry_state es) (\<lambda>registry.
           rbind (rbind (rbind (jfield ''revocations'' payload) jitems) (each revocation_from_json)) (\<lambda>revocations.
           rbind (make_durable_state \<lparr>du_registry = registry, du_revocations = revocations\<rparr>) (\<lambda>s.
           rbind (state_to_payload s) (\<lambda>printed.
           if printed \<noteq> payload then Inl (ValueError ''durable payload is not canonical'') else Inr s))))))"

section \<open>The state survives the round trip\<close>

definition entry_printed :: "registry_entry \<Rightarrow> registry_entry" where
  "entry_printed e = e\<lparr>ln_valid_from := to_utc (ln_valid_from e), ln_valid_until := to_utc (ln_valid_until e),
     ln_financial_semantics := map_option semantics_printed (ln_financial_semantics e), am_admitted_at := to_utc (am_admitted_at e)\<rparr>"

definition revocation_printed :: "proof_revocation \<Rightarrow> proof_revocation" where
  "revocation_printed r = r\<lparr>rx_revoked_at := to_utc (rx_revoked_at r)\<rparr>"

definition state_printed :: "durable_state \<Rightarrow> durable_state" where
  "state_printed s = \<lparr>du_registry = map entry_printed (du_registry s), du_revocations = map revocation_printed (du_revocations s)\<rparr>"

text \<open>Constructed objects; the semantics of an entry are those its material hash names, as for the candidates.\<close>

definition entry_made :: "(json \<Rightarrow> string) \<Rightarrow> registry_entry \<Rightarrow> bool" where
  "entry_made sha e \<longleftrightarrow> make_registry_entry e = Inr e \<and> make_evidence_applicability (ln_applicability e) = Inr (ln_applicability e)
     \<and> (case ln_financial_semantics e of None \<Rightarrow> True
         | Some s \<Rightarrow> semantics_made s \<and> financial_semantics_hash sha s = ln_candidate_material_hash e)"

definition state_made :: "(json \<Rightarrow> string) \<Rightarrow> durable_state \<Rightarrow> bool" where
  "state_made sha s \<longleftrightarrow> make_durable_state s = Inr s \<and> make_registry_state (du_registry s) = Inr (du_registry s)
     \<and> (\<forall>e \<in> set (du_registry s). entry_made sha e) \<and> (\<forall>r \<in> set (du_revocations s). make_proof_revocation r = Inr r)"

text \<open>Equality of the dataclasses.\<close>

definition same_revocation :: "proof_revocation \<Rightarrow> proof_revocation \<Rightarrow> bool" where
  "same_revocation r t \<longleftrightarrow> rx_schema_version r = rx_schema_version t \<and> rx_revocation_id r = rx_revocation_id t
     \<and> rx_target_kind r = rx_target_kind t \<and> rx_target_id r = rx_target_id t \<and> rx_reason r = rx_reason t
     \<and> rx_revoked_by r = rx_revoked_by t \<and> same_time (rx_revoked_at r) (rx_revoked_at t)
     \<and> rx_superseded_by_id r = rx_superseded_by_id t"

definition same_state :: "durable_state \<Rightarrow> durable_state \<Rightarrow> bool" where
  "same_state s t \<longleftrightarrow> list_all2 same_entry (du_registry s) (du_registry t)
     \<and> list_all2 same_revocation (du_revocations s) (du_revocations t)"

lemma to_utc_same [simp]: "same_time (to_utc t) t" "tz_aware (to_utc t) = tz_aware t" "instant (to_utc t) = instant t"
  by (cases t; simp add: same_time_def)+

lemma registration_members [simp]:
  "parse_registration_state (JText (registration_state_value a)) = Inr a" "parse_target (JText (target_value c)) = Inr c"
  "parse_revocation_reason (JText (revocation_reason_value d)) = Inr d"
proof -
  show "parse_registration_state (JText (registration_state_value a)) = Inr a"
    by (cases a) (simp_all add: parse_registration_state_def member_def)
  show "parse_target (JText (target_value c)) = Inr c" by (cases c) (simp_all add: parse_target_def member_def)
  show "parse_revocation_reason (JText (revocation_reason_value d)) = Inr d"
    by (cases d) (simp_all add: parse_revocation_reason_def member_def)
qed

lemma complete_chain_text [simp]:
  "parse_registration_reason (JText ''REGISTRATION_CHAIN_COMPLETE'') = Inr REGISTRATION_CHAIN_COMPLETE"
  by (simp add: parse_registration_reason_def member_def)

lemma entry_printed_simps [simp]:
  "ln_schema_version (entry_printed e) = ln_schema_version e" "ln_candidate_id (entry_printed e) = ln_candidate_id e"
  "ln_candidate_material_hash (entry_printed e) = ln_candidate_material_hash e" "ln_loss_model_id (entry_printed e) = ln_loss_model_id e"
  "ln_loss_model_version (entry_printed e) = ln_loss_model_version e" "ln_evidence_source_id (entry_printed e) = ln_evidence_source_id e"
  "ln_source_assessment_id (entry_printed e) = ln_source_assessment_id e" "ln_review_decision_id (entry_printed e) = ln_review_decision_id e"
  "ln_artifact_ids (entry_printed e) = ln_artifact_ids e" "ln_artifact_content_hashes (entry_printed e) = ln_artifact_content_hashes e"
  "ln_claim_ids (entry_printed e) = ln_claim_ids e" "ln_applicability (entry_printed e) = ln_applicability e"
  "ln_valid_from (entry_printed e) = to_utc (ln_valid_from e)" "ln_valid_until (entry_printed e) = to_utc (ln_valid_until e)"
  "ln_financial_semantics (entry_printed e) = map_option semantics_printed (ln_financial_semantics e)"
  "am_admission_id (entry_printed e) = am_admission_id e" "am_proof_id (entry_printed e) = am_proof_id e"
  "am_verification_decision_id (entry_printed e) = am_verification_decision_id e" "am_admitted_by (entry_printed e) = am_admitted_by e"
  "am_admitted_at (entry_printed e) = to_utc (am_admitted_at e)" "en_eligibility_state (entry_printed e) = en_eligibility_state e"
  "en_eligibility_reason_codes (entry_printed e) = en_eligibility_reason_codes e"
  by (simp_all add: entry_printed_def)

lemma semantics_printed_scope [simp]: "fs_applicability (semantics_printed s) = fs_applicability s"
  by (simp add: semantics_printed_def)

lemma entry_to_json_printed [simp]: "entry_to_json (entry_printed e) = entry_to_json e"
  by (cases "ln_financial_semantics e") (simp_all add: entry_to_json_def semantics_to_json_def)

lemma entry_printed_same [simp]: "same_entry (entry_printed e) e"
proof -
  have "same_optional_semantics (map_option semantics_printed v) v" for v
    by (cases v) (simp_all add: same_optional_semantics_def)
  then show ?thesis by (simp add: same_entry_def same_authority_def same_lineage_def)
qed

lemma entry_printed_made:
  assumes "make_registry_entry e = Inr e"
  shows "make_registry_entry (entry_printed e) = Inr (entry_printed e)"
proof -
  have "semantics_in_scope (entry_printed e) = semantics_in_scope e"
    by (cases "ln_financial_semantics e") (simp_all add: semantics_in_scope_def)
  then have "admission_request_checks (entry_printed e) = admission_request_checks e"
    by (simp add: admission_request_checks_def identity_checks_def material_checks_def)
  with assms show ?thesis by (simp add: make_registry_entry_def del: raise_first.simps)
qed

lemma entry_roundtrip:
  assumes "entry_made sha e"
  shows "\<exists>v. entry_to_json e = Inr v \<and> entry_from_json sha v = Inr (entry_printed e)"
proof -
  note made = assms [unfolded entry_made_def]
  have times: "tz_aware (am_admitted_at e)" "tz_aware (ln_valid_from e)" "tz_aware (ln_valid_until e)"
    and complete: "en_eligibility_state e = ELIGIBLE_FOR_REGISTRATION" "en_eligibility_reason_codes e = {REGISTRATION_CHAIN_COMPLETE}"
    using made made_entry_times by (auto simp: make_registry_entry_def raise_first_Inr ball_Un admission_request_checks_def
        simp del: raise_first.simps)
  define fs where "fs = [(''schema_version'', JInt (ln_schema_version e)), (''admission_id'', JText (am_admission_id e)),
        (''proof_id'', JText (am_proof_id e)), (''candidate_id'', JText (ln_candidate_id e)),
        (''candidate_material_hash'', JText (ln_candidate_material_hash e)),
        (''verification_decision_id'', JText (am_verification_decision_id e)),
        (''source_assessment_id'', JText (ln_source_assessment_id e)), (''review_decision_id'', JText (ln_review_decision_id e)),
        (''artifact_ids'', JList (map JText (ln_artifact_ids e))),
        (''artifact_content_hashes'', JList (map JText (ln_artifact_content_hashes e))),
        (''claim_ids'', JList (map JText (ln_claim_ids e))), (''applicability'', applicability_to_json (ln_applicability e)),
        (''loss_model_id'', JText (ln_loss_model_id e)), (''loss_model_version'', JInt (ln_loss_model_version e)),
        (''evidence_source_id'', JText (ln_evidence_source_id e)),
        (''eligibility_state'', JText (registration_state_value (en_eligibility_state e))),
        (''eligibility_reason_codes'', JList [JText ''REGISTRATION_CHAIN_COMPLETE'']),
        (''admitted_by'', JText (am_admitted_by e)), (''admitted_at'', JTime (to_utc (am_admitted_at e))),
        (''valid_from'', JTime (to_utc (ln_valid_from e))), (''valid_until'', JTime (to_utc (ln_valid_until e))),
        (''financial_semantics'', semantics_to_json (ln_financial_semantics e))]"
  have distinct: "distinct (map fst fs)" by (simp add: fs_def)
  have to: "entry_to_json e = Inr (obj fs)" by (simp add: entry_to_json_def time_json_def times complete fs_def)
  have get: "map_of fs ''schema_version'' = Some (JInt (ln_schema_version e))"
    "map_of fs ''admission_id'' = Some (JText (am_admission_id e))"
    "map_of fs ''proof_id'' = Some (JText (am_proof_id e))"
    "map_of fs ''candidate_id'' = Some (JText (ln_candidate_id e))"
    "map_of fs ''candidate_material_hash'' = Some (JText (ln_candidate_material_hash e))"
    "map_of fs ''verification_decision_id'' = Some (JText (am_verification_decision_id e))"
    "map_of fs ''source_assessment_id'' = Some (JText (ln_source_assessment_id e))"
    "map_of fs ''review_decision_id'' = Some (JText (ln_review_decision_id e))"
    "map_of fs ''artifact_ids'' = Some (JList (map JText (ln_artifact_ids e)))"
    "map_of fs ''artifact_content_hashes'' = Some (JList (map JText (ln_artifact_content_hashes e)))"
    "map_of fs ''claim_ids'' = Some (JList (map JText (ln_claim_ids e)))"
    "map_of fs ''applicability'' = Some (applicability_to_json (ln_applicability e))"
    "map_of fs ''loss_model_id'' = Some (JText (ln_loss_model_id e))"
    "map_of fs ''loss_model_version'' = Some (JInt (ln_loss_model_version e))"
    "map_of fs ''evidence_source_id'' = Some (JText (ln_evidence_source_id e))"
    "map_of fs ''eligibility_state'' = Some (JText (registration_state_value (en_eligibility_state e)))"
    "map_of fs ''eligibility_reason_codes'' = Some (JList [JText ''REGISTRATION_CHAIN_COMPLETE''])"
    "map_of fs ''admitted_by'' = Some (JText (am_admitted_by e))"
    "map_of fs ''admitted_at'' = Some (JTime (to_utc (am_admitted_at e)))"
    "map_of fs ''valid_from'' = Some (JTime (to_utc (ln_valid_from e)))"
    "map_of fs ''valid_until'' = Some (JTime (to_utc (ln_valid_until e)))"
    "map_of fs ''financial_semantics'' = Some (semantics_to_json (ln_financial_semantics e))"
    by (simp_all add: fs_def)
  have semantics: "semantics_from_json (semantics_to_json (ln_financial_semantics e)) = Inr (map_option semantics_printed (ln_financial_semantics e))"
    using made semantics_roundtrip by (cases "ln_financial_semantics e") (simp_all add: semantics_to_json_def semantics_from_json_def)
  have c: "\<lparr>ln_schema_version = ln_schema_version e, ln_candidate_id = ln_candidate_id e,
      ln_candidate_material_hash = ln_candidate_material_hash e, ln_loss_model_id = ln_loss_model_id e,
      ln_loss_model_version = ln_loss_model_version e, ln_evidence_source_id = ln_evidence_source_id e,
      ln_source_assessment_id = ln_source_assessment_id e, ln_review_decision_id = ln_review_decision_id e,
      ln_artifact_ids = ln_artifact_ids e, ln_artifact_content_hashes = ln_artifact_content_hashes e, ln_claim_ids = ln_claim_ids e,
      ln_applicability = ln_applicability e, ln_valid_from = to_utc (ln_valid_from e), ln_valid_until = to_utc (ln_valid_until e),
      ln_financial_semantics = map_option semantics_printed (ln_financial_semantics e), am_admission_id = am_admission_id e,
      am_proof_id = am_proof_id e, am_verification_decision_id = am_verification_decision_id e, am_admitted_by = am_admitted_by e,
      am_admitted_at = to_utc (am_admitted_at e), en_eligibility_state = en_eligibility_state e,
      en_eligibility_reason_codes = {REGISTRATION_CHAIN_COMPLETE}\<rparr> = entry_printed e"
    using complete(2) by (cases e) (simp add: entry_printed_def)
  have "entry_from_json sha (obj fs) =
    (if (case map_option semantics_printed (ln_financial_semantics e) of None \<Rightarrow> False
         | Some s \<Rightarrow> financial_semantics_hash sha s \<noteq> ln_candidate_material_hash (entry_printed e))
     then Inl (ValueError ''financial semantic material hash does not match proof lineage'') else Inr (entry_printed e))"
    using distinct made times entry_printed_made [of e] applicability_roundtrip [of "ln_applicability e"]
    by (simp add: entry_from_json_def get semantics c)
  also have "\<dots> = Inr (entry_printed e)"
    using made by (cases "ln_financial_semantics e") (simp_all add: financial_semantics_hash_def)
  finally have "entry_from_json sha (obj fs) = Inr (entry_printed e)" .
  with to show ?thesis by blast
qed

lemma revocation_roundtrip:
  assumes "make_proof_revocation r = Inr r"
  shows "\<exists>v. revocation_to_json r = Inr v \<and> revocation_from_json v = Inr (revocation_printed r)
    \<and> revocation_to_json (revocation_printed r) = Inr v"
proof -
  have t: "tz_aware (rx_revoked_at r)"
    using assms by (auto simp: make_proof_revocation_def raise_first_Inr ball_Un simp del: raise_first.simps)
  define fs where "fs = [(''schema_version'', JInt (rx_schema_version r)), (''revocation_id'', JText (rx_revocation_id r)),
        (''target_kind'', JText (target_value (rx_target_kind r))), (''target_id'', JText (rx_target_id r)),
        (''reason'', JText (revocation_reason_value (rx_reason r))), (''revoked_by'', JText (rx_revoked_by r)),
        (''revoked_at'', JTime (to_utc (rx_revoked_at r))), (''superseded_by_id'', opt_text (rx_superseded_by_id r))]"
  have distinct: "distinct (map fst fs)" by (simp add: fs_def)
  have "make_proof_revocation (revocation_printed r) = Inr (revocation_printed r)"
    using assms by (simp add: make_proof_revocation_def revocation_printed_def del: raise_first.simps)
  moreover have c: "\<lparr>rx_schema_version = rx_schema_version r, rx_revocation_id = rx_revocation_id r, rx_target_kind = rx_target_kind r,
      rx_target_id = rx_target_id r, rx_reason = rx_reason r, rx_revoked_by = rx_revoked_by r,
      rx_revoked_at = to_utc (rx_revoked_at r), rx_superseded_by_id = rx_superseded_by_id r\<rparr> = revocation_printed r"
    by (cases r) (simp add: revocation_printed_def)
  ultimately have "revocation_from_json (obj fs) = Inr (revocation_printed r)"
    using distinct t by (simp add: revocation_from_json_def) (simp add: fs_def t c)
  moreover have "revocation_to_json r = Inr (obj fs)" "revocation_to_json (revocation_printed r) = Inr (obj fs)"
    by (simp_all add: revocation_to_json_def time_json_def t fs_def revocation_printed_def)
  ultimately show ?thesis by blast
qed

definition durable_checks_hold :: "proof_revocation list \<Rightarrow> bool" where
  "durable_checks_hold rs \<longleftrightarrow> sorted (map rx_revocation_id rs) \<and> distinct (map rx_revocation_id rs)
     \<and> \<not> contradictory [] (map (\<lambda>r. ((rx_target_kind r, rx_target_id r), (rx_reason r, rx_superseded_by_id r))) rs)"

lemma make_durable_state_Inr: "make_durable_state s = Inr t \<longleftrightarrow> t = s \<and> durable_checks_hold (du_revocations s)"
  by (auto simp: make_durable_state_def durable_checks_hold_def sort_key_fixed)

lemma revocation_printed_simps [simp]:
  "rx_revocation_id (revocation_printed r) = rx_revocation_id r" "rx_target_kind (revocation_printed r) = rx_target_kind r"
  "rx_target_id (revocation_printed r) = rx_target_id r" "rx_reason (revocation_printed r) = rx_reason r"
  "rx_superseded_by_id (revocation_printed r) = rx_superseded_by_id r"
  by (simp_all add: revocation_printed_def)

lemma revocation_printed_same [simp]: "same_revocation (revocation_printed r) r"
  by (simp add: same_revocation_def) (simp add: revocation_printed_def)

lemma state_printed_same [simp]: "same_state (state_printed s) s"
proof -
  have "list_all2 same_entry (map entry_printed es) es" "list_all2 same_revocation (map revocation_printed rs) rs" for es rs
    by (induction es; simp) (induction rs; simp)
  then show ?thesis by (simp add: same_state_def state_printed_def)
qed

lemma each_elements:
  assumes "\<And>x. x \<in> set xs \<Longrightarrow> \<exists>v. f x = Inr v \<and> g v = Inr (h x) \<and> f (h x) = Inr v"
  shows "\<exists>vs. each f xs = Inr vs \<and> each g vs = Inr (map h xs) \<and> each f (map h xs) = Inr vs"
  using assms
proof (induction xs)
  case (Cons x xs)
  obtain v where "f x = Inr v \<and> g v = Inr (h x) \<and> f (h x) = Inr v" using Cons.prems by auto
  moreover obtain vs where "each f xs = Inr vs \<and> each g vs = Inr (map h xs) \<and> each f (map h xs) = Inr vs" using Cons by auto
  ultimately show ?case by (intro exI [of _ "v # vs"]) simp
qed simp

lemma semantics_made_printed:
  assumes "semantics_made s"
  shows "semantics_made (semantics_printed s)"
  using assms semantics_printed_made [of s] operand_printed_made
  by (simp add: semantics_made_def) (simp add: semantics_printed_def)

lemma entry_made_printed:
  assumes "entry_made sha e"
  shows "entry_made sha (entry_printed e)"
  using assms entry_printed_made [of e] semantics_made_printed
  by (cases "ln_financial_semantics e") (simp_all add: entry_made_def financial_semantics_hash_def)

lemma revocation_made_printed:
  "make_proof_revocation r = Inr r \<Longrightarrow> make_proof_revocation (revocation_printed r) = Inr (revocation_printed r)"
  by (simp add: make_proof_revocation_def del: raise_first.simps) (simp add: revocation_printed_def del: raise_first.simps)

lemma state_roundtrip:
  assumes "state_made sha s"
  shows "\<exists>p. state_to_payload s = Inr p \<and> state_from_payload sha p = Inr (state_printed s) \<and> state_made sha (state_printed s)"
proof -
  note made = assms [unfolded state_made_def]
  have "\<exists>v. entry_to_json e = Inr v \<and> entry_from_json sha v = Inr (entry_printed e) \<and> entry_to_json (entry_printed e) = Inr v"
    if "e \<in> set (du_registry s)" for e
    using entry_roundtrip [of sha e] made that by auto
  then obtain es where es: "each entry_to_json (du_registry s) = Inr es" "each (entry_from_json sha) es = Inr (map entry_printed (du_registry s))"
      "each entry_to_json (map entry_printed (du_registry s)) = Inr es"
    using each_elements [of "du_registry s" entry_to_json "entry_from_json sha" entry_printed] by blast
  obtain rs where rs: "each revocation_to_json (du_revocations s) = Inr rs"
      "each revocation_from_json rs = Inr (map revocation_printed (du_revocations s))"
      "each revocation_to_json (map revocation_printed (du_revocations s)) = Inr rs"
    using each_elements [of "du_revocations s" revocation_to_json revocation_from_json revocation_printed] revocation_roundtrip made by blast
  have wf: "make_registry_state (map entry_printed (du_registry s)) = Inr (map entry_printed (du_registry s))"
    using made by (simp add: make_registry_state_Inr registry_wf_def comp_def)
  have durable: "make_durable_state (state_printed s) = Inr (state_printed s)"
    using made by (simp add: make_durable_state_Inr durable_checks_hold_def state_printed_def comp_def)
  let ?p = "obj [(''entries'', JList es), (''revocations'', JList rs)]"
  have printed: "state_to_payload s = Inr ?p" "state_to_payload (state_printed s) = Inr ?p"
    by (simp_all add: state_to_payload_def state_printed_def es rs)
  have "state_from_payload sha ?p = Inr (state_printed s)"
    using durable printed(2) by (simp add: state_from_payload_def es rs wf) (simp add: state_printed_def)
  moreover have "state_made sha (state_printed s)"
    using durable wf made entry_made_printed revocation_made_printed by (simp add: state_made_def) (simp add: state_printed_def)
  ultimately show ?thesis using printed(1) by blast
qed


end
