(* ===== verification/Deriv_Store.thy ===== *)
theory Deriv_Store
  imports Deriv_Payload
begin

text \<open>
  The durable store of the proof registry (\<open>SQLiteDerivProofStore\<close> in \<open>src/broker/deriv_proof_store.py\<close>): creation and
  validation of the schema, loading and persisting of the one snapshot.

  A snapshot is loaded only when it is intact, and persisting keeps every entry and revocation that is stored, as
  long as the persists run one after the other. The check and the write of a persist are two transactions, so two
  concurrent persists can lose an entry.
\<close>

section \<open>The store\<close>

text \<open>A snapshot row. The payload is \<open>None\<close> when the column holds anything but the compact text of a JSON value. The
  key of the table is checked to be 1, so there is at most one row.\<close>

record snapshot_row =
  sn_schema_version :: int
  sn_payload :: "json option"
  sn_payload_hash :: string

text \<open>Rows of the metadata table are an identifier and a version (\<open>None\<close>: not an integer). The flags say whether a
  reading connection and the writing transaction succeed.\<close>

record proof_store =
  ps_tables :: "string set"
  ps_metadata :: "(int \<times> int option) list"
  ps_snapshot :: "snapshot_row option"
  ps_readable :: bool
  ps_writable :: bool

definition store_tables :: "string set" where
  "store_tables = {''deriv_proof_store_metadata'', ''deriv_proof_state''}"

definition created_store :: proof_store where
  "created_store = \<lparr>ps_tables = store_tables, ps_metadata = [(1, Some 1)], ps_snapshot = None, ps_readable = True, ps_writable = True\<rparr>"

definition validate_schema :: "proof_store \<Rightarrow> unit result" where
  "validate_schema st =
     (if \<not> ps_readable st then Inl (RuntimeError ''durable proof store is unreadable'')
      else if \<not> store_tables \<subseteq> ps_tables st then Inl (RuntimeError ''durable proof store schema is missing'')
      else case ps_metadata st of
        [(n, Some version)] \<Rightarrow>
          if n \<noteq> 1 then Inl (RuntimeError ''durable proof store metadata is malformed'')
          else if version \<noteq> 1 then Inl (RuntimeError ''unsupported durable proof store schema version'') else Inr ()
      | _ \<Rightarrow> Inl (RuntimeError ''durable proof store metadata is malformed''))"

text \<open>The constructor: a file that does not exist is created, another one is validated.\<close>

definition open_store :: "bool \<Rightarrow> proof_store option \<Rightarrow> unit result \<times> proof_store option" where
  "open_store creatable file =
     (case file of
        Some st \<Rightarrow> (validate_schema st, file)
      | None \<Rightarrow> if creatable then (Inr (), Some created_store)
          else (Inl (RuntimeError ''cannot initialize durable proof store''), None))"

definition empty_state :: durable_state where
  "empty_state = \<lparr>du_registry = [], du_revocations = []\<rparr>"

text \<open>A payload that cannot be reconstructed raises the error of the store, whatever the reason.\<close>

definition snapshot_error :: "'a result \<Rightarrow> 'a result" where
  "snapshot_error r = (case r of
     Inl (ValueError m) \<Rightarrow> Inl (RuntimeError ''durable proof snapshot is malformed'')
   | Inl (TypeError m) \<Rightarrow> Inl (RuntimeError ''durable proof snapshot is malformed'')
   | Inl (KeyError m) \<Rightarrow> Inl (RuntimeError ''durable proof snapshot is malformed'')
   | _ \<Rightarrow> r)"

definition load_state :: "(json \<Rightarrow> string) \<Rightarrow> proof_store \<Rightarrow> durable_state result" where
  "load_state sha st =
     rbind (validate_schema st) (\<lambda>_.
     case ps_snapshot st of
       None \<Rightarrow> Inr empty_state
     | Some row \<Rightarrow>
         if sn_schema_version row \<noteq> 1 then Inl (RuntimeError ''durable proof snapshot metadata is malformed'')
         else (case sn_payload row of
           None \<Rightarrow> Inl (RuntimeError ''durable proof snapshot integrity check failed'')
         | Some payload \<Rightarrow>
             if sn_payload_hash row \<noteq> sha payload then Inl (RuntimeError ''durable proof snapshot integrity check failed'')
             else snapshot_error (state_from_payload sha payload)))"

text \<open>\<open>new.get(key) == value\<close> for every stored value.\<close>

definition retains :: "('a \<Rightarrow> string) \<Rightarrow> ('a \<Rightarrow> 'a \<Rightarrow> bool) \<Rightarrow> 'a list \<Rightarrow> 'a list \<Rightarrow> bool" where
  "retains key same old new \<longleftrightarrow> list_all (\<lambda>x. case find (\<lambda>y. key y = key x) new of None \<Rightarrow> False | Some y \<Rightarrow> same y x) old"

text \<open>The first half of \<open>persist\<close>, up to the checks against the stored state, and the second, the write.\<close>

definition prepare_persist :: "(json \<Rightarrow> string) \<Rightarrow> durable_state \<Rightarrow> proof_store \<Rightarrow> (durable_state \<times> json) result" where
  "prepare_persist sha s st =
     rbind (state_to_payload s) (\<lambda>payload.
     rbind (state_from_payload sha payload) (\<lambda>rebuilt.
     rbind (load_state sha st) (\<lambda>current.
     if \<not> retains am_proof_id same_entry (du_registry current) (du_registry rebuilt)
     then Inl (RuntimeError ''persisted proof authority cannot be altered or removed'')
     else if \<not> retains rx_revocation_id same_revocation (du_revocations current) (du_revocations rebuilt)
     then Inl (RuntimeError ''persisted revocation authority cannot be altered or removed'')
     else Inr (rebuilt, payload))))"

definition write_snapshot :: "(json \<Rightarrow> string) \<Rightarrow> json \<Rightarrow> proof_store \<Rightarrow> unit result \<times> proof_store" where
  "write_snapshot sha payload st =
     (if \<not> ps_writable st then (Inl (DatabaseError ''database is locked''), st)
      else (Inr (), st\<lparr>ps_snapshot := Some \<lparr>sn_schema_version = 1, sn_payload = Some payload, sn_payload_hash = sha payload\<rparr>\<rparr>))"

definition persist_state :: "(json \<Rightarrow> string) \<Rightarrow> durable_state \<Rightarrow> proof_store \<Rightarrow> durable_state result \<times> proof_store" where
  "persist_state sha s st =
     (case prepare_persist sha s st of
        Inl e \<Rightarrow> (Inl e, st)
      | Inr (rebuilt, payload) \<Rightarrow> (case write_snapshot sha payload st of
          (Inl e, st) \<Rightarrow> (Inl e, st)
        | (Inr u, st) \<Rightarrow> (Inr rebuilt, st)))"

section \<open>Persisting keeps what is stored\<close>

text \<open>A store as this class leaves it.\<close>

definition store_sound :: "(json \<Rightarrow> string) \<Rightarrow> proof_store \<Rightarrow> bool" where
  "store_sound sha st \<longleftrightarrow> ps_readable st \<and> store_tables \<subseteq> ps_tables st \<and> ps_metadata st = [(1, Some 1)]
     \<and> (case ps_snapshot st of None \<Rightarrow> True
         | Some row \<Rightarrow> sn_schema_version row = 1 \<and> (\<exists>s p. state_made sha s \<and> state_to_payload s = Inr p
             \<and> sn_payload row = Some p \<and> sn_payload_hash row = sha p))"

text \<open>Everything in \<open>s\<close> is in \<open>t\<close>.\<close>

definition state_extends :: "durable_state \<Rightarrow> durable_state \<Rightarrow> bool" where
  "state_extends s t \<longleftrightarrow> (\<forall>x \<in> set (du_registry s). \<exists>y \<in> set (du_registry t). same_entry y x)
     \<and> (\<forall>x \<in> set (du_revocations s). \<exists>y \<in> set (du_revocations t). same_revocation y x)"

lemma same_time_trans: "same_time a b \<Longrightarrow> same_time b c \<Longrightarrow> same_time a c"
  by (simp add: same_time_def)

lemma same_entry_trans: "same_entry a b \<Longrightarrow> same_entry b c \<Longrightarrow> same_entry a c"
  unfolding same_entry_def same_authority_def same_lineage_def
  by (elim conjE) (simp, blast intro: same_time_trans same_optional_semantics_trans)

lemma same_revocation_trans: "same_revocation a b \<Longrightarrow> same_revocation b c \<Longrightarrow> same_revocation a c"
  unfolding same_revocation_def by (elim conjE) (simp, blast intro: same_time_trans)

lemma state_extends_trans: "state_extends s t \<Longrightarrow> state_extends t u \<Longrightarrow> state_extends s u"
  unfolding state_extends_def by (meson same_entry_trans same_revocation_trans)

lemma retains_iff:
  assumes "distinct (map key new)" "\<And>x y. same y x \<Longrightarrow> key y = key x"
  shows "retains key same old new \<longleftrightarrow> (\<forall>x \<in> set old. \<exists>y \<in> set new. same y x)"
proof -
  have "(case find (\<lambda>y. key y = key x) new of None \<Rightarrow> False | Some y \<Rightarrow> same y x) \<longleftrightarrow> (\<exists>y \<in> set new. same y x)" for x
  proof (cases "find (\<lambda>y. key y = key x) new")
    case None
    then have "\<forall>y \<in> set new. key y \<noteq> key x" by (auto simp: find_None_iff)
    then show ?thesis using None assms(2) by force
  next
    case (Some y)
    then have y: "y \<in> set new" "key y = key x" by (auto simp: find_Some_iff)
    have "z = y" if "z \<in> set new" "same z x" for z
      using assms(1) y that assms(2) [OF that(2)] by (auto simp: distinct_map inj_on_def)
    with Some y show ?thesis by auto
  qed
  then show ?thesis by (simp add: retains_def list_all_iff)
qed

lemma load_sound:
  assumes "store_sound sha st"
  shows "\<exists>s. load_state sha st = Inr s \<and> state_made sha s"
proof (cases "ps_snapshot st")
  case None
  have "state_made sha empty_state"
    by (simp add: state_made_def empty_state_def make_durable_state_Inr durable_checks_hold_def make_registry_state_Inr registry_wf_def)
  with None assms show ?thesis by (simp add: load_state_def store_sound_def validate_schema_def)
next
  case (Some row)
  with assms obtain s p where "state_made sha s" "state_to_payload s = Inr p" and row: "sn_payload row = Some p" "sn_payload_hash row = sha p"
      "sn_schema_version row = 1" by (auto simp: store_sound_def)
  then have "state_from_payload sha p = Inr (state_printed s)" "state_made sha (state_printed s)"
    using state_roundtrip [of sha s] by auto
  with Some row assms show ?thesis by (simp add: load_state_def store_sound_def validate_schema_def snapshot_error_def)
qed

lemma prepare_sound:
  assumes "store_sound sha st" "state_made sha s" "load_state sha st = Inr cur" "state_to_payload s = Inr p"
  shows "prepare_persist sha s st = (if state_extends cur (state_printed s) then Inr (state_printed s, p) else
    if retains am_proof_id same_entry (du_registry cur) (du_registry (state_printed s))
    then Inl (RuntimeError ''persisted revocation authority cannot be altered or removed'')
    else Inl (RuntimeError ''persisted proof authority cannot be altered or removed''))"
proof -
  have p: "state_from_payload sha p = Inr (state_printed s)" "state_made sha (state_printed s)"
    using state_roundtrip [OF assms(2)] assms(4) by auto
  have d: "distinct (map am_proof_id (du_registry (state_printed s)))" "distinct (map rx_revocation_id (du_revocations (state_printed s)))"
    using p(2) by (simp_all add: state_made_def make_registry_state_Inr registry_wf_def make_durable_state_Inr durable_checks_hold_def)
  have "retains am_proof_id same_entry old (du_registry (state_printed s)) \<longleftrightarrow> (\<forall>x \<in> set old. \<exists>y \<in> set (du_registry (state_printed s)). same_entry y x)" for old
    by (rule retains_iff [OF d(1)]) (simp add: same_entry_def same_authority_def)
  moreover have "retains rx_revocation_id same_revocation old (du_revocations (state_printed s))
      \<longleftrightarrow> (\<forall>x \<in> set old. \<exists>y \<in> set (du_revocations (state_printed s)). same_revocation y x)" for old
    by (rule retains_iff [OF d(2)]) (simp add: same_revocation_def)
  ultimately show ?thesis by (simp add: prepare_persist_def assms(3,4) p(1) state_extends_def)
qed

lemma same_entry_refl: "same_entry e e"
  by (simp add: same_entry_def same_authority_def same_lineage_def)

lemma same_revocation_refl: "same_revocation r r"
  by (simp add: same_revocation_def)

lemma same_time_sym: "same_time a b \<Longrightarrow> same_time b a"
  by (simp add: same_time_def)

lemma same_entry_sym: "same_entry a b \<Longrightarrow> same_entry b a"
  unfolding same_entry_def same_authority_def same_lineage_def
  by (elim conjE) (simp, blast intro: same_time_sym same_optional_semantics_sym)

lemma same_revocation_sym: "same_revocation a b \<Longrightarrow> same_revocation b a"
  unfolding same_revocation_def by (elim conjE) (simp, blast intro: same_time_sym)

lemma state_extends_refl: "state_extends s s"
  unfolding state_extends_def by (blast intro: same_entry_refl same_revocation_refl)

lemma state_extends_printed: "state_extends s (state_printed s)" "state_extends (state_printed s) s"
proof -
  have e: "same_entry e (entry_printed e)" for e by (rule same_entry_sym) (rule entry_printed_same)
  have r: "same_revocation r (revocation_printed r)" for r by (rule same_revocation_sym) (rule revocation_printed_same)
  show "state_extends s (state_printed s)"
    unfolding state_extends_def state_printed_def
    by (simp, intro conjI ballI; rule bexI, rule entry_printed_same revocation_printed_same, assumption)
  show "state_extends (state_printed s) s"
    unfolding state_extends_def state_printed_def
    by (simp, intro conjI ballI; rule bexI, rule e r, assumption)
qed

lemma persist_answer:
  assumes "store_sound sha st" "state_made sha s" "load_state sha st = Inr cur"
  shows "(if ps_writable st \<and> state_extends cur s
     then \<exists>st'. persist_state sha s st = (Inr (state_printed s), st') \<and> load_state sha st' = Inr (state_printed s) \<and> store_sound sha st'
     else \<exists>e. persist_state sha s st = (Inl e, st))"
proof -
  obtain p where p: "state_to_payload s = Inr p" "state_from_payload sha p = Inr (state_printed s)"
    using state_roundtrip [OF assms(2)] by blast
  have ext: "state_extends cur (state_printed s) \<longleftrightarrow> state_extends cur s"
    using state_extends_printed [of s] by (blast intro: state_extends_trans)
  show ?thesis
  proof (cases "ps_writable st \<and> state_extends cur s")
    case True
    let ?st = "st\<lparr>ps_snapshot := Some \<lparr>sn_schema_version = 1, sn_payload = Some p, sn_payload_hash = sha p\<rparr>\<rparr>"
    have "persist_state sha s st = (Inr (state_printed s), ?st)"
      using True ext by (simp add: persist_state_def prepare_sound [OF assms p(1)] write_snapshot_def)
    moreover have "store_sound sha ?st" using assms(1,2) p(1) by (auto simp: store_sound_def)
    moreover from this have "load_state sha ?st = Inr (state_printed s)"
      using p(2) by (simp add: load_state_def store_sound_def validate_schema_def snapshot_error_def)
    ultimately show ?thesis using True by simp
  next
    case False
    then show ?thesis
      using ext by (auto simp: persist_state_def prepare_sound [OF assms p(1)] write_snapshot_def)
  qed
qed


text \<open>Persists one after the other, by any processes, each with its own luck at the write.\<close>

fun persist_all :: "(json \<Rightarrow> string) \<Rightarrow> (bool \<times> durable_state) list \<Rightarrow> proof_store \<Rightarrow> proof_store" where
  "persist_all sha [] st = st"
| "persist_all sha ((ok, s) # calls) st = persist_all sha calls (snd (persist_state sha s (st\<lparr>ps_writable := ok\<rparr>)))"

lemma store_flag [simp]:
  "store_sound sha (st\<lparr>ps_writable := ok\<rparr>) = store_sound sha st" "load_state sha (st\<lparr>ps_writable := ok\<rparr>) = load_state sha st"
  by (simp_all add: store_sound_def load_state_def validate_schema_def)

text \<open>C23. Stored authority is never altered or removed: after any sequence of persists of constructed states, one
  after the other, with writes that succeed or fail, the store loads, and every entry and every revocation that
  was stored at the beginning is still there.\<close>

theorem persisted_authority_stays:
  assumes "store_sound sha st" "\<forall>(ok, s) \<in> set calls. state_made sha s"
  shows "\<exists>c0 c1. load_state sha st = Inr c0 \<and> load_state sha (persist_all sha calls st) = Inr c1 \<and> state_extends c0 c1"
  using assms
proof (induction calls arbitrary: st)
  case Nil
  obtain c where "load_state sha st = Inr c" using load_sound [OF Nil.prems(1)] by blast
  then show ?case using state_extends_refl by auto
next
  case (Cons call calls)
  obtain ok s where call: "call = (ok, s)" by (cases call)
  let ?st = "st\<lparr>ps_writable := ok\<rparr>"
  obtain c where c: "load_state sha st = Inr c" using load_sound [OF Cons.prems(1)] by blast
  have p: "store_sound sha ?st" "state_made sha s" "load_state sha ?st = Inr c" using Cons.prems c call by auto
  have "store_sound sha (snd (persist_state sha s ?st)) \<and> (\<exists>d. load_state sha (snd (persist_state sha s ?st)) = Inr d \<and> state_extends c d)"
  proof (cases "ok \<and> state_extends c s")
    case True
    with persist_answer [OF p] state_extends_printed(1) [of s] show ?thesis by (auto intro: state_extends_trans)
  next
    case False
    with persist_answer [OF p] p(1) c state_extends_refl show ?thesis by auto
  qed
  then obtain d where d: "store_sound sha (snd (persist_state sha s ?st))" "load_state sha (snd (persist_state sha s ?st)) = Inr d" "state_extends c d"
    by blast
  obtain c1 where "load_state sha (persist_all sha calls (snd (persist_state sha s ?st))) = Inr c1" "state_extends d c1"
    using Cons.IH [OF d(1)] Cons.prems(2) d(2) by auto
  with c d(3) call show ?case by (auto intro: state_extends_trans)
qed

section \<open>A sample, and a lost entry\<close>

definition chain_revocation :: proof_revocation where
  "chain_revocation = \<lparr>rx_schema_version = 1, rx_revocation_id = ''n'', rx_target_kind = CANDIDATE_TARGET, rx_target_id = ''x'',
     rx_reason = REVOKED, rx_revoked_by = ''o'', rx_revoked_at = Aware 30 0, rx_superseded_by_id = None\<rparr>"

definition chain_state :: durable_state where
  "chain_state = \<lparr>du_registry = [admitted_entry chain_request eligible_record], du_revocations = []\<rparr>"

definition revoked_state :: durable_state where
  "revoked_state = \<lparr>du_registry = [], du_revocations = [chain_revocation]\<rparr>"

lemma created_store_sound: "store_sound sha created_store"
  by (simp add: store_sound_def created_store_def)

lemma created_store_load: "load_state sha created_store = Inr empty_state"
  by (simp add: load_state_def validate_schema_def created_store_def)

lemma chain_state_made: "state_made sha chain_state"
proof -
  have "make_registry_entry (admitted_entry chain_request eligible_record) = Inr (admitted_entry chain_request eligible_record)"
    using chain_usable by (simp add: usable_entry_def registry_is_well_formed_iff)
  moreover have "make_evidence_applicability chain_scope = Inr chain_scope"
    by (simp add: make_evidence_applicability_def deriv_required_text_def optional_checks_def optional_scopes_def optional_blank_def chain_scope_def
        nonblank_def py_strip_def py_lstrip_def py_isspace_def py_lower_def)
  moreover have "ln_applicability (admitted_entry chain_request eligible_record) = chain_scope"
    "ln_financial_semantics (admitted_entry chain_request eligible_record) = None"
    by (simp_all add: admitted_entry_def chain_values)
  ultimately show ?thesis
    by (simp add: state_made_def chain_state_def make_durable_state_Inr durable_checks_hold_def make_registry_state_Inr registry_wf_def entry_made_def)
qed

lemma revoked_state_made: "state_made sha revoked_state"
proof -
  have "make_proof_revocation chain_revocation = Inr chain_revocation"
    by (simp add: make_proof_revocation_def chain_revocation_def blank_checks_def nonblank_def py_strip_def py_lstrip_def py_isspace_def)
  then show ?thesis
    by (simp add: state_made_def revoked_state_def make_durable_state_Inr durable_checks_hold_def make_registry_state_Inr registry_wf_def)
qed


theorem persisted_authority_stays_witness:
  "\<forall>sha. \<exists>c0 c1. load_state sha (persist_all sha [(True, chain_state)] created_store) = Inr c0
    \<and> load_state sha (persist_all sha [(True, revoked_state), (False, chain_state)] (persist_all sha [(True, chain_state)] created_store)) = Inr c1
    \<and> state_extends c0 c1"
proof
  fix sha
  have "store_sound sha (persist_all sha [(True, chain_state)] created_store)"
    using persist_answer [OF _ chain_state_made, of sha "created_store\<lparr>ps_writable := True\<rparr>" empty_state] created_store_sound created_store_load
    by (auto simp: state_extends_def empty_state_def)
  from persisted_authority_stays [OF this, of "[(True, revoked_state), (False, chain_state)]"]
  show "\<exists>c0 c1. load_state sha (persist_all sha [(True, chain_state)] created_store) = Inr c0
    \<and> load_state sha (persist_all sha [(True, revoked_state), (False, chain_state)] (persist_all sha [(True, chain_state)] created_store)) = Inr c1
    \<and> state_extends c0 c1"
    using chain_state_made revoked_state_made by auto
qed

text \<open>Two persists that both check before either writes: the second write removes the entry of the first.\<close>

lemma concurrent_persist_loses_entry:
  "\<exists>a p b q. prepare_persist sha chain_state created_store = Inr (a, p) \<and> prepare_persist sha revoked_state created_store = Inr (b, q)
    \<and> load_state sha (snd (write_snapshot sha q (snd (write_snapshot sha p created_store)))) = Inr b
    \<and> du_registry a \<noteq> [] \<and> du_registry b = []"
proof -
  have ext: "state_extends empty_state t" for t by (simp add: state_extends_def empty_state_def)
  obtain p where p: "state_to_payload chain_state = Inr p" using state_roundtrip [OF chain_state_made] by blast
  obtain q where q: "state_to_payload revoked_state = Inr q" "state_from_payload sha q = Inr (state_printed revoked_state)"
    using state_roundtrip [OF revoked_state_made] by blast
  have "prepare_persist sha chain_state created_store = Inr (state_printed chain_state, p)"
    "prepare_persist sha revoked_state created_store = Inr (state_printed revoked_state, q)"
    using prepare_sound [OF created_store_sound chain_state_made created_store_load p]
      prepare_sound [OF created_store_sound revoked_state_made created_store_load q(1)] ext by simp_all
  moreover have "load_state sha (snd (write_snapshot sha q (snd (write_snapshot sha p created_store)))) = Inr (state_printed revoked_state)"
    using q(2) by (simp add: load_state_def write_snapshot_def created_store_def validate_schema_def snapshot_error_def)
  moreover have "du_registry (state_printed chain_state) \<noteq> []" "du_registry (state_printed revoked_state) = []"
    by (simp_all add: state_printed_def chain_state_def revoked_state_def)
  ultimately show ?thesis by blast
qed

text \<open>Semantics that compare equal can have different hashes: the hash sees the digits of a decimal.\<close>

lemma equal_decimals_other_text: "literal_value (Digits False 10 (-1)) = literal_value (Digits False 1 0)
    \<and> eng_literal (Digits False 10 (-1)) \<noteq> eng_literal (Digits False 1 0)"
  by (simp add: dot_place_def digit_count.simps Let_def power_int_minus)

end
