(* ===== verification/Spec2Isabelle.thy ===== *)
theory Spec2Isabelle
  imports Submission_History Recovery Submission_Guards Position_Ledger Risk_Engine Position_Sizing Simulation_Gateway Safety_Store Limit_Drafts Trade_Simulator Strategy
    Terminal_Audit Paper_Contract Paper_Runtime Continuation Backtest Demo_Guard
    Deriv_Store
begin

text \<open>
  Verification of the trading core of JQE (\<open>src/\<close>): from the indicators of a market to a decision, from the
  decision to at most one order at the broker, and from the order to a reconciled, audited record of it.
  Every function of the listed files is a HOL function on explicit state; this header says where each part is.

  The program. A strategy reads candles with indicators (\<open>src/strategy\<close>, \<open>src/intelligence\<close>) and proposes a
  signal with a trade plan. The risk engine (\<open>src/risk\<close>) checks the signal against the market and the daily
  limits, and the sizing functions turn the authorized risk into a quantity only where the loss at the stop
  can be verified. The executor (\<open>src/execution/executor.py\<close>) evaluates the execution policy, claims the
  intent in a SQLite store shared by all processes, sends the order once and records the outcome; ambiguous
  outcomes are left to the reconciliation adapters and to the startup recovery, never to a second order. The
  brokers behind the executor are the in-memory simulation gateway, the offline paper engine and live
  terminals; a monitoring service audits their open positions and trips the circuit breaker.

  Conventions. A Python exception is a value of \<open>py_exn\<close>, a call that may raise returns \<open>py_exn + 'a\<close>
  (\<open>result\<close>, composed with \<open>rbind\<close>), and a call that changes an object returns the object as it is left, in
  the exceptional case too. A float is \<open>pyfloat\<close>: rationals rounded to double precision, with infinities and
  NaN (\<open>Rounding\<close>, \<open>Py_Float\<close>); a Decimal is rounded to 28 digits (\<open>Py_Decimal\<close>); times are instants with an
  offset (\<open>Py_Time\<close>); values whose type the code checks at run time are \<open>pyval\<close> (\<open>Py_Values\<close>). A table is the
  list of its rows in insertion order, a transaction is a function on it, and a failing connection is a flag
  that makes the transaction raise without effect. Clocks, random numbers, broker answers and callbacks are
  arguments; every use of them is explicit.

  Theories, in the order of the code.
  \<^item> \<open>Prelude\<close>: results, Python texts, keyed rows and what updating them preserves; the collections of rules.
  \<^item> \<open>Broker_Types\<close> (\<open>src/broker/types.py\<close>), \<open>Execution_Policy\<close> (\<open>policy.py\<close>, \<open>trade_manager.py\<close>,
    \<open>position_limits.py\<close>): validated data; \<open>evaluate\<close> as the chain of guards of the code, shown to allow an
    intent exactly when a declarative safety specification holds, and to return on every input that is well
    formed.
  \<^item> \<open>Intent_Models\<close>, \<open>Intent_Store\<close>, \<open>Store_Steps\<close>, \<open>Histories\<close> (\<open>models.py\<close>, \<open>persistence.py\<close>): the store and
    its operations; histories of calls by any number of processes as sequences of steps; a key is claimed at
    most once (locale \<open>once_only\<close>), payloads stay, the status moves along the allowed transitions, leases
    exclude each other.
  \<^item> \<open>Executor\<close>, \<open>Submission_History\<close> (\<open>executor.py\<close>): one submission, with a broker, a reconciler and callbacks
    that may use the store themselves; only safe orders are sent, outcomes are durable before they are
    reported, and over every interleaving at most one order per key is sent.
  \<^item> \<open>Reconciliation\<close>, \<open>Recovery\<close> (\<open>reconciliation.py\<close>, \<open>recovery.py\<close>): the adapters share the locale \<open>reconciler\<close>;
    a match rests on evidence and recovery never guesses.
  \<^item> \<open>Position_Ledger\<close>, \<open>Submission_Guards\<close> (\<open>persistence.py\<close>, the daily guards): notifications are claimed once,
    facts of a position are final; the guards are capped counters (locale \<open>capped_counter\<close>).
  \<^item> \<open>Safety_Store\<close> (\<open>safety.py\<close>): two stores of the last observation, both a \<open>latest_register\<close> (locale), a
    refinement of a single variable.
  \<^item> \<open>Risk_Engine\<close>, \<open>Simulation_Contract\<close>, \<open>Deriv_Contract\<close>, \<open>Position_Sizing\<close> (\<open>src/risk\<close>,
    \<open>deriv_contract_spec.py\<close>): daily counters and their reconstruction, approval, proofs of a loss model and
    quantities whose loss at the stop stays within the risk, with the rounding of every operation.
  \<^item> \<open>Simulation_Gateway\<close> (\<open>simulation_gateway.py\<close>): orders, positions, candles and history of the in-memory
    broker; its positions are an \<open>order_book\<close> (locale) and a filled order reconciles.
  \<^item> \<open>Limit_Drafts\<close>, \<open>Trade_Simulator\<close> (\<open>pending_limits.py\<close>, \<open>simulator.py\<close>): when a draft is ready; what a
    simulated trade depends on.
  \<^item> \<open>Trade_Plans\<close>, \<open>Strategy\<close> (\<open>trade_plan.py\<close>, \<open>src/strategy\<close>, \<open>confidence_model.py\<close>, \<open>market_regime.py\<close>,
    \<open>liquidity_engine.py\<close>): the decision of the strategy engine from a frame of candles, the signal in closed
    form, the validity of the plans and the agreement of the two confidence gates.
  \<^item> \<open>Terminal_Audit\<close> (\<open>continuous_reconciliation.py\<close>): the audit of broker positions, when it is clean, the
    circuit breaker over the safety store and the monitoring loop.
  \<^item> \<open>Paper_Contract\<close> (\<open>paper_contract.py\<close>): the paper engine as a machine over its commands; its closes are an
    \<open>order_book\<close> too; the maximum loss and what a stop realizes.
  \<^item> \<open>Paper_Runtime\<close> (\<open>paper_runtime.py\<close>): the journal of observations as a history of claims (\<open>once_only\<close>
    again), one cycle from the source through the executor to the heartbeat, and the polling loop; what a cycle
    respects is proved once for a relation between states (locales \<open>cycle_relation\<close>, \<open>runtime_relation\<close>,
    \<open>gateway_relation\<close>) and used for the books of the engine and for the journal.
  \<^item> \<open>Continuation\<close> (\<open>continuation_preparation.py\<close>): a batch of limit drafts that share a risk budget.
  \<^item> \<open>Backtest_Engine\<close>, \<open>Backtest\<close> (\<open>src/backtesting\<close>): the engine that replays candles, its cash books, what
    each trade means in terms of the candles, that nothing looks ahead, and the figures of a result.
  \<^item> \<open>Demo_Guard\<close> (\<open>demo_guard.py\<close>): which account data count as a proof of a demo account.
  \<^item> \<open>Deriv_Evidence\<close>, \<open>Deriv_Review\<close>, \<open>Deriv_Registration\<close>, \<open>Deriv_Registry\<close>, \<open>Deriv_Consumption\<close>
    (\<open>deriv_evidence.py\<close>, \<open>deriv_financial_semantics.py\<close>, \<open>deriv_evidence_review.py\<close>, \<open>deriv_proof_*.py\<close>,
    \<open>deriv_loss_model.py\<close>): the governance of loss-model proofs, from evidence over its review, assessment and
    independent verification to the admission in a registry and its use. Records that share fields extend one
    record, as the lineage of a proof does; the reasons of a refusal are the sets the code collects, and each
    stage is accepted exactly when a declarative chain holds, so that what is available after any sequence of
    admissions was verified. The loss model itself never evaluates a loss.
  \<^item> \<open>Deriv_Payload\<close>, \<open>Deriv_Store\<close> (\<open>deriv_proof_store.py\<close>): the registry as canonical JSON and its reconstruction
    through the constructors; the snapshot in SQLite, which loads exactly what was persisted and keeps what it
    holds under persists that run one after the other.

  Bounds and fuel. No definition uses fuel: every loop of the modelled code runs over a list. The monitoring
  loop and the loop of the paper runtime are functions of the list of their iterations (what the environment
  does in each), so they are as long as the list; searches for a quantity are bounded by the code. Integers are unbounded as in Python, except
  where SQLite stores them. A Decimal is bounded to exponents far beyond what the program's floats reach, so
  its overflow is not represented.

  Not modelled: the live gateways, the web service, the notification channels and the command-line tools (I/O
  around the modelled core); the operator messages and log lines inside modelled functions; SHA-256 of the
  idempotency keys; pandas' computation of indicators (their values are inputs); research programs over
  recorded data and the hashes that identify a backtest; the text of JSON values
  (they are trees) and SHA-256 of it, a parameter; the performance statistics.
\<close>

end
